(* ===== verification/Hubu_Prelude.thy ===== *)
theory Hubu_Prelude
  imports Main "HOL-Library.AList" "HOL-Library.Sublist" "HOL-Library.Multiset"
    "HOL-Library.Code_Target_Numeral"
begin

text \<open>
  The shared vocabulary of the development: fallible results, machine-integer ranges and checked
  arithmetic, UTF-8 byte strings with the string operations the sources use, and the hash-map
  interface that every in-memory manager of \<^verbatim>\<open>hubu-core\<close> is built on.

  Conventions used in every theory:
  \<^item> \<open>Result<T, E>\<close> is the sum \<open>'e + 't\<close> with \<open>Inl\<close> for \<open>Err\<close>; Rust's question mark operator is
    \<open>and_then\<close>, \<open>Option::ok_or\<close> is \<open>ok_or\<close>.
  \<^item> A method taking \<open>&mut self\<close> returns its result paired with the state it leaves behind, on the
    error branches too.
  \<^item> Machine integers are mathematical integers with the range test written out at each checked
    operation.
  \<^item> \<open>DateTime<Utc>\<close> is an instant on the integer line (nanoseconds); clock readings
    (\<open>Utc::now()\<close>) and freshly generated identifiers (\<open>Uuid::new_v4()\<close>) are arguments of the
    operation that reads them.
\<close>

section \<open>Collections of rewrite rules\<close>

named_theorems res_simps \<open>inversion and evaluation of results\<close>
named_theorems range_simps \<open>machine-integer ranges\<close>
named_theorems hm_simps \<open>hash-map laws\<close>

section \<open>Fallible results\<close>

definition and_then :: "'e + 'a \<Rightarrow> ('a \<Rightarrow> 'e + 'b) \<Rightarrow> 'e + 'b" where
  "and_then r f = (case r of Inl e \<Rightarrow> Inl e | Inr x \<Rightarrow> f x)"

definition ok_or :: "'e \<Rightarrow> 'a option \<Rightarrow> 'e + 'a" where
  "ok_or e v = (case v of None \<Rightarrow> Inl e | Some x \<Rightarrow> Inr x)"

definition map_err :: "('e \<Rightarrow> 'f) \<Rightarrow> 'e + 'a \<Rightarrow> 'f + 'a" where
  "map_err f r = (case r of Inl e \<Rightarrow> Inl (f e) | Inr x \<Rightarrow> Inr x)"

definition ensure :: "bool \<Rightarrow> 'e \<Rightarrow> 'e + unit" where
  "ensure ok e = (if ok then Inr () else Inl e)"

definition is_ok :: "'e + 'a \<Rightarrow> bool" where
  "is_ok r \<longleftrightarrow> (case r of Inl _ \<Rightarrow> False | Inr _ \<Rightarrow> True)"

lemma and_then_simps [simp]:
  "and_then (Inl e) f = Inl e"
  "and_then (Inr x) f = f x"
  by (simp_all add: and_then_def)

lemma ok_or_simps [simp]:
  "ok_or e None = Inl e"
  "ok_or e (Some x) = Inr x"
  by (simp_all add: ok_or_def)

lemma map_err_simps [simp]:
  "map_err f (Inl e) = Inl (f e)"
  "map_err f (Inr x) = Inr x"
  by (simp_all add: map_err_def)

lemma is_ok_simps [simp]:
  "is_ok (Inl e) = False"
  "is_ok (Inr x) = True"
  by (simp_all add: is_ok_def)

lemma ensure_simps [simp]:
  "ensure True e = Inr ()"
  "ensure False e = Inl e"
  by (simp_all add: ensure_def)

lemma and_then_eq_Inr_iff [res_simps]:
  "and_then r f = Inr y \<longleftrightarrow> (\<exists>x. r = Inr x \<and> f x = Inr y)"
  by (cases r) simp_all

lemma and_then_eq_Inl_iff [res_simps]:
  "and_then r f = Inl e \<longleftrightarrow> r = Inl e \<or> (\<exists>x. r = Inr x \<and> f x = Inl e)"
  by (cases r) simp_all

lemma ok_or_eq_iff [res_simps]:
  "ok_or e v = Inr x \<longleftrightarrow> v = Some x"
  "ok_or e v = Inl e' \<longleftrightarrow> v = None \<and> e' = e"
  by (cases v; auto)+

lemma map_err_eq_iff [res_simps]:
  "map_err f r = Inr x \<longleftrightarrow> r = Inr x"
  "map_err f r = Inl e' \<longleftrightarrow> (\<exists>e. r = Inl e \<and> e' = f e)"
  by (cases r; auto)+

lemma ensure_eq_iff [res_simps]:
  "ensure ok e = Inr u \<longleftrightarrow> ok"
  "ensure ok e = Inl e' \<longleftrightarrow> \<not> ok \<and> e' = e"
  by (auto simp: ensure_def)

lemma is_ok_iff: "is_ok r \<longleftrightarrow> (\<exists>x. r = Inr x)"
  by (cases r) simp_all

text \<open>Rust's \<open>iter().try_for_each\<close>: run a check on each element and stop at the first error.\<close>

fun try_each :: "('a \<Rightarrow> 'e + unit) \<Rightarrow> 'a list \<Rightarrow> 'e + unit" where
  "try_each f [] = Inr ()"
| "try_each f (x # xs) = and_then (f x) (\<lambda>_. try_each f xs)"

lemma try_each_ok_iff: "try_each f xs = Inr u \<longleftrightarrow> (\<forall>x \<in> set xs. f x = Inr ())"
  by (induction xs) (auto simp: res_simps)

text \<open>The general early-exit loop over a list: a fold whose body may return an error.\<close>

fun try_fold :: "('s \<Rightarrow> 'a \<Rightarrow> 'e + 's) \<Rightarrow> 's \<Rightarrow> 'a list \<Rightarrow> 'e + 's" where
  "try_fold f s [] = Inr s"
| "try_fold f s (x # xs) = and_then (f s x) (\<lambda>s'. try_fold f s' xs)"

lemma try_fold_append:
  "try_fold f s (xs @ ys) = and_then (try_fold f s xs) (\<lambda>s'. try_fold f s' ys)"
proof (induction xs arbitrary: s)
  case (Cons x xs)
  show ?case by (cases "f s x") (simp_all add: Cons.IH)
qed simp

text \<open>
  The invariant rule of the early-exit loop: \<open>I done s\<close> relates the elements consumed so far to the
  accumulated state.
\<close>

lemma try_fold_invariant:
  assumes step: "\<And>done x s s'. I done s \<Longrightarrow> x \<in> set xs \<Longrightarrow> f s x = Inr s' \<Longrightarrow> I (done @ [x]) s'"
    and init: "I done0 s0"
    and run: "try_fold f s0 xs = Inr s1"
  shows "I (done0 @ xs) s1"
  using step init run
proof (induction xs arbitrary: done0 s0)
  case Nil
  then show ?case by simp
next
  case (Cons x xs)
  from Cons.prems(3) obtain s where s: "f s0 x = Inr s" and rest: "try_fold f s xs = Inr s1"
    by (auto simp: res_simps)
  have "I (done0 @ [x]) s" using Cons.prems(1)[OF Cons.prems(2) _ s] by simp
  moreover have "\<And>done y s s'. I done s \<Longrightarrow> y \<in> set xs \<Longrightarrow> f s y = Inr s' \<Longrightarrow> I (done @ [y]) s'"
    using Cons.prems(1) by simp
  ultimately have "I ((done0 @ [x]) @ xs) s1" using Cons.IH rest by blast
  then show ?case by simp
qed

lemma try_fold_preserves:
  assumes "\<And>x s s'. I s \<Longrightarrow> x \<in> set xs \<Longrightarrow> f s x = Inr s' \<Longrightarrow> I s'"
    and "I s0" and "try_fold f s0 xs = Inr s1"
  shows "I s1"
  using try_fold_invariant[of "\<lambda>_. I" xs f "[]" s0 s1] assms by blast

section \<open>Machine integers\<close>

definition fits_i64 :: "int \<Rightarrow> bool" where
  [range_simps]: "fits_i64 n \<longleftrightarrow> - 9223372036854775808 \<le> n \<and> n \<le> 9223372036854775807"

definition fits_u64 :: "int \<Rightarrow> bool" where
  [range_simps]: "fits_u64 n \<longleftrightarrow> 0 \<le> n \<and> n \<le> 18446744073709551615"

definition fits_i128 :: "int \<Rightarrow> bool" where
  [range_simps]: "fits_i128 n \<longleftrightarrow>
     - 170141183460469231731687303715884105728 \<le> n \<and> n \<le> 170141183460469231731687303715884105727"

definition fits_u128 :: "int \<Rightarrow> bool" where
  [range_simps]: "fits_u128 n \<longleftrightarrow> 0 \<le> n \<and> n \<le> 340282366920938463463374607431768211455"

lemma fits_powers:
  "fits_i64 n \<longleftrightarrow> - (2 ^ 63) \<le> n \<and> n < 2 ^ 63"
  "fits_u64 n \<longleftrightarrow> 0 \<le> n \<and> n < 2 ^ 64"
  "fits_i128 n \<longleftrightarrow> - (2 ^ 127) \<le> n \<and> n < 2 ^ 127"
  "fits_u128 n \<longleftrightarrow> 0 \<le> n \<and> n < 2 ^ 128"
  by (auto simp: range_simps)

definition checked :: "(int \<Rightarrow> bool) \<Rightarrow> int \<Rightarrow> int option" where
  "checked fits n = (if fits n then Some n else None)"

lemma checked_eq_iff [res_simps]:
  "checked fits n = Some m \<longleftrightarrow> fits n \<and> m = n"
  "checked fits n = None \<longleftrightarrow> \<not> fits n"
  by (auto simp: checked_def)

abbreviation checked_add_i64 :: "int \<Rightarrow> int \<Rightarrow> int option" where
  "checked_add_i64 a b \<equiv> checked fits_i64 (a + b)"

abbreviation checked_sub_i64 :: "int \<Rightarrow> int \<Rightarrow> int option" where
  "checked_sub_i64 a b \<equiv> checked fits_i64 (a - b)"

abbreviation checked_mul_i64 :: "int \<Rightarrow> int \<Rightarrow> int option" where
  "checked_mul_i64 a b \<equiv> checked fits_i64 (a * b)"

abbreviation checked_mul_i128 :: "int \<Rightarrow> int \<Rightarrow> int option" where
  "checked_mul_i128 a b \<equiv> checked fits_i128 (a * b)"

text \<open>
  Rust's \<open>/\<close> and \<open>%\<close> truncate towards zero. They agree with HOL's \<open>div\<close> and \<open>mod\<close> on non-negative
  operands; \<open>div_euclid\<close>/\<open>rem_euclid\<close> by a positive divisor are HOL's \<open>div\<close> and \<open>mod\<close> everywhere.
\<close>

definition trunc_div :: "int \<Rightarrow> int \<Rightarrow> int" where
  "trunc_div a b = sgn a * sgn b * (\<bar>a\<bar> div \<bar>b\<bar>)"

definition trunc_mod :: "int \<Rightarrow> int \<Rightarrow> int" where
  "trunc_mod a b = a - b * trunc_div a b"

lemma trunc_nonneg:
  assumes "0 \<le> a" and "0 < b"
  shows "trunc_div a b = a div b" and "trunc_mod a b = a mod b"
proof -
  show d: "trunc_div a b = a div b"
    using assms by (cases "a = 0") (simp_all add: trunc_div_def)
  show "trunc_mod a b = a mod b"
    unfolding trunc_mod_def d by (simp add: minus_mult_div_eq_mod)
qed

text \<open>Rounding a quotient up, with the remainder test the sources use.\<close>

definition ceil_div :: "int \<Rightarrow> int \<Rightarrow> int" where
  "ceil_div a b = (if a mod b = 0 then a div b else a div b + 1)"

lemma ceil_div_bounds:
  assumes "0 < b"
  shows "a \<le> ceil_div a b * b" and "ceil_div a b * b < a + b"
proof -
  define q r where "q = a div b" and "r = a mod b"
  have e: "a = b * q + r" by (simp add: q_def r_def)
  have m: "0 \<le> r" "r < b" using assms by (simp_all add: r_def)
  have c: "ceil_div a b = (if r = 0 then q else q + 1)"
    by (simp add: ceil_div_def q_def r_def)
  show "a \<le> ceil_div a b * b" and "ceil_div a b * b < a + b"
    unfolding c using m e by (simp_all add: algebra_simps)
qed

lemma ceil_div_unique:
  assumes "0 < b" and "a \<le> q * b" and "q * b < a + b"
  shows "ceil_div a b = q"
proof -
  note c = ceil_div_bounds[OF assms(1), of a]
  have "ceil_div a b * b < (q + 1) * b" using c(2) assms(2) by (simp add: algebra_simps)
  moreover have "q * b < (ceil_div a b + 1) * b" using c(1) assms(3) by (simp add: algebra_simps)
  ultimately show ?thesis using assms(1) by simp
qed

lemma ceil_div_nonneg: "0 < b \<Longrightarrow> 0 \<le> a \<Longrightarrow> 0 \<le> ceil_div a b"
  by (simp add: ceil_div_def pos_imp_zdiv_nonneg_iff)

lemma ceil_div_exact: "0 < b \<Longrightarrow> ceil_div (q * b) b = q"
  by (rule ceil_div_unique) simp_all

lemma ceil_div_cancel: "0 < b \<Longrightarrow> 0 < c \<Longrightarrow> ceil_div (a * c) (b * c) = ceil_div a b"
proof (rule ceil_div_unique)
  assume b: "0 < b" and c: "0 < c"
  note q = ceil_div_bounds[OF b, of a]
  show "0 < b * c" using b c by simp
  show "a * c \<le> ceil_div a b * (b * c)"
    using mult_right_mono[OF q(1), of c] c by (simp add: algebra_simps)
  show "ceil_div a b * (b * c) < a * c + b * c"
    using mult_strict_right_mono[OF q(2) c] by (simp add: algebra_simps)
qed

text \<open>Rounding up in two stages is rounding up once.\<close>

lemma ceil_div_ceil_div:
  assumes d: "0 < d" and e: "0 < e"
  shows "ceil_div (ceil_div x d) e = ceil_div x (d * e)"
proof (rule sym, rule ceil_div_unique)
  define c where "c = ceil_div x d"
  define q where "q = ceil_div c e"
  note c = ceil_div_bounds[OF d, of x, folded c_def]
  note q = ceil_div_bounds[OF e, of c, folded q_def]
  show "0 < d * e" using d e by simp
  have "c * d \<le> q * e * d" using mult_right_mono[OF q(1), of d] d by simp
  with c(1) show "x \<le> ceil_div (ceil_div x d) e * (d * e)"
    by (simp add: c_def[symmetric] q_def[symmetric] algebra_simps)
  have "q * e \<le> c + e - 1" using q(2) by simp
  then have "q * e * d \<le> (c + e - 1) * d" using d by (simp add: mult_right_mono)
  with c(2) show "ceil_div (ceil_div x d) e * (d * e) < x + d * e"
    by (simp add: c_def[symmetric] q_def[symmetric] algebra_simps)
qed

section \<open>Lists and multisets\<close>

lemma mset_pair_cases:
  assumes "mset xs = {#a, b#}"
  shows "xs = [a, b] \<or> xs = [b, a]"
proof (cases xs)
  case (Cons x ys)
  then have "x = a \<and> mset ys = {#b#} \<or> x = b \<and> mset ys = {#a#}"
    using assms by (auto simp: add_eq_conv_ex)
  then show ?thesis using Cons by auto
qed (use assms in simp)

end
