(* ===== verification/Rust_Strings.thy ===== *)
theory Rust_Strings
  imports Hubu_Prelude
begin

text \<open>
  Rust \<open>String\<close>/\<open>str\<close> values as lists of UTF-8 bytes, with the standard-library operations the
  sources call: \<open>trim\<close>, \<open>split_once\<close>, \<open>starts_with\<close>, ASCII classification, decimal printing of an
  unsigned integer, zero padding and \<open>str::parse::<i64>\<close>. \<open>len\<close> counts bytes in Rust as \<open>length\<close>
  does here.
\<close>

section \<open>Whitespace trimming\<close>

text \<open>
  The UTF-8 encodings of the code points with the Unicode property \<open>White_Space\<close>, which is what
  \<open>char::is_whitespace\<close> tests.
\<close>

definition whitespace_encodings :: "string list" where
  "whitespace_encodings =
     [[CHR 0x09], [CHR 0x0A], [CHR 0x0B], [CHR 0x0C], [CHR 0x0D], [CHR 0x20],
      [CHR 0xC2, CHR 0x85], [CHR 0xC2, CHR 0xA0], [CHR 0xE1, CHR 0x9A, CHR 0x80],
      [CHR 0xE2, CHR 0x80, CHR 0x80], [CHR 0xE2, CHR 0x80, CHR 0x81],
      [CHR 0xE2, CHR 0x80, CHR 0x82], [CHR 0xE2, CHR 0x80, CHR 0x83],
      [CHR 0xE2, CHR 0x80, CHR 0x84], [CHR 0xE2, CHR 0x80, CHR 0x85],
      [CHR 0xE2, CHR 0x80, CHR 0x86], [CHR 0xE2, CHR 0x80, CHR 0x87],
      [CHR 0xE2, CHR 0x80, CHR 0x88], [CHR 0xE2, CHR 0x80, CHR 0x89],
      [CHR 0xE2, CHR 0x80, CHR 0x8A], [CHR 0xE2, CHR 0x80, CHR 0xA8],
      [CHR 0xE2, CHR 0x80, CHR 0xA9], [CHR 0xE2, CHR 0x80, CHR 0xAF],
      [CHR 0xE2, CHR 0x81, CHR 0x9F], [CHR 0xE3, CHR 0x80, CHR 0x80]]"

function strip_prefixes :: "string list \<Rightarrow> string \<Rightarrow> string" where
  "strip_prefixes ps s =
     (case find (\<lambda>p. p \<noteq> [] \<and> prefix p s) ps of
        None \<Rightarrow> s
      | Some p \<Rightarrow> strip_prefixes ps (drop (length p) s))"
  by pat_completeness auto
termination
  by (relation "measure (\<lambda>(ps, s). length s)") (auto simp: find_Some_iff prefix_def)

declare strip_prefixes.simps [simp del]

definition trim_start :: "string \<Rightarrow> string" where
  "trim_start s = strip_prefixes whitespace_encodings s"

definition trim_end :: "string \<Rightarrow> string" where
  "trim_end s = rev (strip_prefixes (map rev whitespace_encodings) (rev s))"

definition trim :: "string \<Rightarrow> string" where
  "trim s = trim_end (trim_start s)"

definition is_blank :: "string \<Rightarrow> bool" where
  "is_blank s \<longleftrightarrow> trim s = []"

lemma strip_prefixes_Nil [simp]: "strip_prefixes ps [] = []"
proof -
  have "find (\<lambda>p. p \<noteq> [] \<and> prefix p []) ps = None" by (simp add: find_None_iff)
  then show ?thesis by (subst strip_prefixes.simps) simp
qed

lemma strip_prefixes_fixed:
  assumes "\<And>p. p \<in> set ps \<Longrightarrow> p \<noteq> [] \<Longrightarrow> hd p \<noteq> c"
  shows "strip_prefixes ps (c # s) = c # s"
proof -
  have "find (\<lambda>p. p \<noteq> [] \<and> prefix p (c # s)) ps = None"
    using assms by (force simp: find_None_iff prefix_Cons)
  then show ?thesis by (subst strip_prefixes.simps) simp
qed

lemma trim_Nil [simp]: "trim [] = []"
  by (simp add: trim_def trim_start_def trim_end_def)

text \<open>
  A byte that begins no whitespace encoding and ends none: such a byte at both ends of a string
  keeps \<open>trim\<close> from changing it. Every printable ASCII byte is one.
\<close>

definition solid :: "char \<Rightarrow> bool" where
  "solid c \<longleftrightarrow> c \<notin> set (map hd whitespace_encodings) \<and> c \<notin> set (map last whitespace_encodings)"

lemma whitespace_encodings_nonempty: "p \<in> set whitespace_encodings \<Longrightarrow> p \<noteq> []"
  by (auto simp: whitespace_encodings_def)

lemma trim_solid:
  assumes "s \<noteq> []" and "solid (hd s)" and "solid (last s)"
  shows "trim s = s"
proof -
  from assms(1) obtain c t where s: "s = c # t" by (cases s) auto
  from assms(1) obtain d u where r: "rev s = d # u" by (cases "rev s") auto
  have d: "d = last s" using r by (metis last_rev list.sel(1) rev_rev_ident)
  have ends: "hd p \<noteq> d" if "p \<in> set (map rev whitespace_encodings)" for p
    using that assms(3) d whitespace_encodings_nonempty
    by (fastforce simp: solid_def hd_rev image_iff)
  have "strip_prefixes whitespace_encodings s = s"
    using assms(2) unfolding s solid_def by (intro strip_prefixes_fixed) auto
  moreover have "strip_prefixes (map rev whitespace_encodings) (rev s) = rev s"
    unfolding r using ends by (rule strip_prefixes_fixed)
  ultimately show ?thesis by (simp add: trim_def trim_start_def trim_end_def)
qed

text \<open>Trimming twice is trimming once.\<close>

lemma strip_prefixes_normal:
  "strip_prefixes ps s = s' \<Longrightarrow> find (\<lambda>p. p \<noteq> [] \<and> prefix p s') ps = None"
proof (induction ps s arbitrary: s' rule: strip_prefixes.induct)
  case (1 ps s)
  show ?case
  proof (cases "find (\<lambda>p. p \<noteq> [] \<and> prefix p s) ps")
    case None
    with 1 show ?thesis by (subst (asm) strip_prefixes.simps) simp
  next
    case (Some p)
    with 1 show ?thesis by (subst (asm) (2) strip_prefixes.simps) simp
  qed
qed

lemma strip_prefixes_id: "find (\<lambda>p. p \<noteq> [] \<and> prefix p s) ps = None \<Longrightarrow> strip_prefixes ps s = s"
  by (subst strip_prefixes.simps) simp

lemma strip_prefixes_suffix: "suffix (strip_prefixes ps s) s"
proof (induction ps s rule: strip_prefixes.induct)
  case (1 ps s)
  show ?case
  proof (cases "find (\<lambda>p. p \<noteq> [] \<and> prefix p s) ps")
    case None
    then show ?thesis by (simp add: strip_prefixes_id)
  next
    case (Some p)
    have "suffix (strip_prefixes ps (drop (length p) s)) s"
      using 1[OF Some] suffix_drop suffix_order.trans by blast
    with Some show ?thesis by (subst strip_prefixes.simps) simp
  qed
qed

lemma trim_end_prefix: "prefix (trim_end s) s"
  using strip_prefixes_suffix[of "map rev whitespace_encodings" "rev s"]
  by (simp add: trim_end_def suffix_to_prefix)

lemma trim_trim: "trim (trim s) = trim s"
proof -
  let ?t = "trim_start s"
  have "find (\<lambda>p. p \<noteq> [] \<and> prefix p ?t) whitespace_encodings = None"
    by (rule strip_prefixes_normal[of _ s]) (simp add: trim_start_def)
  then have "find (\<lambda>p. p \<noteq> [] \<and> prefix p (trim_end ?t)) whitespace_encodings = None"
    using trim_end_prefix[of ?t] by (auto simp: find_None_iff dest: prefix_order.trans)
  then have start: "trim_start (trim_end ?t) = trim_end ?t"
    by (simp add: trim_start_def strip_prefixes_id)
  have "find (\<lambda>p. p \<noteq> [] \<and> prefix p (rev (trim_end ?t))) (map rev whitespace_encodings) = None"
    by (rule strip_prefixes_normal[of _ "rev ?t"]) (simp add: trim_end_def)
  then have "trim_end (trim_end ?t) = trim_end ?t"
    by (simp add: trim_end_def[of "trim_end ?t"] strip_prefixes_id)
  with start show ?thesis by (simp add: trim_def)
qed

text \<open>A string that starts with a solid byte is not blank.\<close>

lemma strip_prefixes_keeps_last:
  assumes "\<And>p. p \<in> set ps \<Longrightarrow> p \<noteq> [] \<Longrightarrow> last p \<noteq> c"
  shows "strip_prefixes ps (u @ [c]) \<noteq> []"
proof (induction "length u" arbitrary: u rule: less_induct)
  case less
  show ?case
  proof (cases "find (\<lambda>p. p \<noteq> [] \<and> prefix p (u @ [c])) ps")
    case None
    then show ?thesis by (subst strip_prefixes.simps) simp
  next
    case (Some p)
    then have p: "p \<in> set ps" "p \<noteq> []" "prefix p (u @ [c])" by (auto simp: find_Some_iff in_set_conv_nth)
    with assms have "p \<noteq> u @ [c]" by force
    with p(3) have "prefix p u" by (simp add: prefix_snoc)
    then obtain v where v: "u = p @ v" by (rule prefixE)
    with p(2) have "length v < length u" by simp
    from less[OF this] show ?thesis using Some v by (subst strip_prefixes.simps) simp
  qed
qed

lemma not_blank_solid: "solid c \<Longrightarrow> \<not> is_blank (c # t)"
proof -
  assume c: "solid c"
  have "strip_prefixes whitespace_encodings (c # t) = c # t"
    using c unfolding solid_def by (intro strip_prefixes_fixed) auto
  moreover have "strip_prefixes (map rev whitespace_encodings) (rev t @ [c]) \<noteq> []"
  proof (rule strip_prefixes_keeps_last)
    fix p
    assume "p \<in> set (map rev whitespace_encodings)" and "p \<noteq> []"
    then show "last p \<noteq> c" using c unfolding solid_def by (auto simp: last_rev)
  qed
  ultimately show "\<not> is_blank (c # t)" by (simp add: is_blank_def trim_def trim_start_def trim_end_def)
qed

section \<open>Searching\<close>

text \<open>\<open>str::split_once\<close> on a one-byte separator: the parts before and after its first occurrence.\<close>

fun split_once :: "char \<Rightarrow> string \<Rightarrow> (string \<times> string) option" where
  "split_once c [] = None"
| "split_once c (x # xs) =
     (if x = c then Some ([], xs)
      else map_option (\<lambda>(a, b). (x # a, b)) (split_once c xs))"

lemma split_once_None: "c \<notin> set s \<Longrightarrow> split_once c s = None"
  by (induction s) auto

lemma split_once_first: "c \<notin> set a \<Longrightarrow> split_once c (a @ c # b) = Some (a, b)"
  by (induction a) auto

lemma split_once_Some: "split_once c s = Some (a, b) \<Longrightarrow> s = a @ c # b"
  by (induction s arbitrary: a) (auto split: if_splits)

text \<open>\<open>str::split\<close> on a one-byte separator: never empty.\<close>

fun split_on :: "char \<Rightarrow> string \<Rightarrow> string list" where
  "split_on c [] = [[]]"
| "split_on c (x # xs) =
     (if x = c then [] # split_on c xs
      else (case split_on c xs of [] \<Rightarrow> [[x]] | p # ps \<Rightarrow> (x # p) # ps))"

definition trim_end_matches :: "char \<Rightarrow> string \<Rightarrow> string" where
  "trim_end_matches c s = rev (dropWhile (\<lambda>x. x = c) (rev s))"

text \<open>The format specification \<open>{s:0<n}\<close>: pad on the right with zeros to \<open>n\<close> bytes.\<close>

definition pad_right :: "nat \<Rightarrow> string \<Rightarrow> string" where
  "pad_right n s = s @ replicate (n - length s) CHR ''0''"

text \<open>The format specification \<open>{x:0n}\<close> on a decimal: pad on the left with zeros to \<open>n\<close> bytes.\<close>

definition pad_left :: "nat \<Rightarrow> string \<Rightarrow> string" where
  "pad_left n s = replicate (n - length s) CHR ''0'' @ s"

section \<open>Decimal digits\<close>

definition is_ascii_digit :: "char \<Rightarrow> bool" where
  "is_ascii_digit c \<longleftrightarrow> 48 \<le> (of_char c :: nat) \<and> (of_char c :: nat) \<le> 57"

definition digit_val :: "char \<Rightarrow> nat" where
  "digit_val c = of_char c - 48"

definition digit_char :: "nat \<Rightarrow> char" where
  "digit_char d = char_of (48 + d)"

fun show_nat :: "nat \<Rightarrow> string" where
  "show_nat n = (if n < 10 then [digit_char n] else show_nat (n div 10) @ [digit_char (n mod 10)])"

declare show_nat.simps [simp del]

definition show_int :: "int \<Rightarrow> string" where
  "show_int n = (if n < 0 then CHR ''-'' # show_nat (nat (- n)) else show_nat (nat n))"

definition digits_val :: "string \<Rightarrow> nat" where
  "digits_val s = foldl (\<lambda>n c. 10 * n + digit_val c) 0 s"

definition all_digits :: "string \<Rightarrow> bool" where
  "all_digits s \<longleftrightarrow> list_all is_ascii_digit s"

text \<open>
  \<open>str::parse\<close> at a signed integer type: an optional sign, then at least one ASCII digit, and the value
  has to fit the type.
\<close>

definition parse_signed :: "(int \<Rightarrow> bool) \<Rightarrow> string \<Rightarrow> int option" where
  "parse_signed fits s =
     (case s of
        [] \<Rightarrow> None
      | c # t \<Rightarrow>
          (let neg = (c = CHR ''-'');
               body = (if neg \<or> c = CHR ''+'' then t else s)
           in if body = [] \<or> \<not> all_digits body then None
              else checked fits (if neg then - int (digits_val body) else int (digits_val body))))"

abbreviation parse_i64 :: "string \<Rightarrow> int option" where
  "parse_i64 \<equiv> parse_signed fits_i64"

abbreviation parse_i128 :: "string \<Rightarrow> int option" where
  "parse_i128 \<equiv> parse_signed fits_i128"

lemma digit_char_props:
  assumes "d < 10"
  shows "is_ascii_digit (digit_char d)" and "digit_val (digit_char d) = d"
  using assms by (simp_all add: is_ascii_digit_def digit_val_def digit_char_def)

lemma digit_char_eval:
  "digit_char 0 = CHR ''0''" "digit_char (Suc 0) = CHR ''1''" "digit_char 1 = CHR ''1''"
  "digit_char 2 = CHR ''2''" "digit_char 3 = CHR ''3''" "digit_char 4 = CHR ''4''"
  "digit_char 5 = CHR ''5''" "digit_char 6 = CHR ''6''" "digit_char 7 = CHR ''7''"
  "digit_char 8 = CHR ''8''" "digit_char 9 = CHR ''9''"
  by code_simp+

lemma foldl_digits_acc:
  "foldl (\<lambda>n c. 10 * n + digit_val c) a s
     = a * 10 ^ length s + foldl (\<lambda>n c. 10 * n + digit_val c) 0 s"
proof (induction s arbitrary: a)
  case (Cons c s)
  show ?case
    using Cons.IH[of "10 * a + digit_val c"] Cons.IH[of "10 * 0 + digit_val c"]
    by (simp add: add_mult_distrib)
qed simp

lemma digits_val_simps [simp]:
  "digits_val [] = 0"
  "digits_val (c # s) = digit_val c * 10 ^ length s + digits_val s"
  using foldl_digits_acc[of "digit_val c" s] by (simp_all add: digits_val_def)

lemma digits_val_append [simp]:
  "digits_val (s @ t) = digits_val s * 10 ^ length t + digits_val t"
  by (induction s) (simp_all add: add_mult_distrib power_add)

lemma all_digits_simps [simp]:
  "all_digits []"
  "all_digits (c # s) \<longleftrightarrow> is_ascii_digit c \<and> all_digits s"
  "all_digits (s @ t) \<longleftrightarrow> all_digits s \<and> all_digits t"
  by (simp_all add: all_digits_def)

lemma zero_digit [simp]: "is_ascii_digit CHR ''0''" "digit_val CHR ''0'' = 0"
  by (simp_all add: is_ascii_digit_def digit_val_def)

lemma zeros_digits [simp]:
  "all_digits (replicate n CHR ''0'')"
  "digits_val (replicate n CHR ''0'') = 0"
  by (induction n) simp_all

lemma show_nat_nonempty [simp]: "show_nat n \<noteq> []"
  by (subst show_nat.simps) simp

lemma show_nat_digits [simp]: "all_digits (show_nat n)"
proof (induction n rule: show_nat.induct)
  case (1 n)
  then show ?case
    by (cases "n < 10") (simp_all add: show_nat.simps[of n] digit_char_props)
qed

lemma digits_val_show_nat [simp]: "digits_val (show_nat n) = n"
proof (induction n rule: show_nat.induct)
  case (1 n)
  then show ?case
    by (cases "n < 10") (simp_all add: show_nat.simps[of n] digit_char_props)
qed

lemma length_show_nat: "n < 10 ^ k \<Longrightarrow> 0 < k \<Longrightarrow> length (show_nat n) \<le> k"
proof (induction n arbitrary: k rule: show_nat.induct)
  case (1 n)
  show ?case
  proof (cases "n < 10")
    case True
    with "1.prems" show ?thesis by (simp add: show_nat.simps[of n])
  next
    case False
    with "1.prems" obtain j where j: "k = Suc j" "0 < j" by (cases k) (auto, cases "k - 1", auto)
    with "1.prems" have "n div 10 < 10 ^ j" by simp
    then have "length (show_nat (n div 10)) \<le> j" using "1.IH" False j by simp
    with False j show ?thesis by (simp add: show_nat.simps[of n])
  qed
qed

lemma digit_solid: "is_ascii_digit c \<Longrightarrow> solid c"
  by (auto simp: is_ascii_digit_def solid_def whitespace_encodings_def)

lemma digit_not_punct:
  "is_ascii_digit c \<Longrightarrow> c \<noteq> CHR ''.''" "is_ascii_digit c \<Longrightarrow> c \<noteq> CHR ''-''"
  "is_ascii_digit c \<Longrightarrow> c \<noteq> CHR ''+''"
  by (auto simp: is_ascii_digit_def)

lemma all_digits_no_dot: "all_digits s \<Longrightarrow> CHR ''.'' \<notin> set s"
  using digit_not_punct(1) by (auto simp: all_digits_def list_all_iff)

lemma parse_signed_digits:
  assumes "all_digits s" and "s \<noteq> []"
  shows "parse_signed fits s = checked fits (int (digits_val s))"
proof -
  from assms(2) obtain c t where s: "s = c # t" by (cases s) auto
  with assms(1) have "c \<noteq> CHR ''-''" "c \<noteq> CHR ''+''" using digit_not_punct by auto
  then show ?thesis using assms s by (simp add: parse_signed_def Let_def)
qed

lemma parse_show_int:
  assumes "fits n"
  shows "parse_signed fits (show_int n) = Some n"
proof (cases "n < 0")
  case True
  then have "show_int n = CHR ''-'' # show_nat (nat (- n))" by (simp add: show_int_def)
  with True assms show ?thesis by (simp add: parse_signed_def Let_def checked_def)
next
  case False
  with assms show ?thesis by (simp add: show_int_def parse_signed_digits checked_def)
qed

end
