(* ===== verification/Money.thy ===== *)
theory Money
  imports Rust_Strings
begin

text \<open>
  \<^verbatim>\<open>crates/hubu-common/src/money.rs\<close>: currencies, the budget-plane \<open>Amount\<close> (a 64-bit count of
  millionths of the budget currency) with its checked arithmetic, cent projections, decimal printing
  and parsing, and exact external amounts with the single rounding step into the budget plane.

  Main results: parsing inverts printing on every non-negative amount; parsing accepts exactly the
  decimal notation and never yields a negative or out-of-range amount; the cent projections bracket
  the amount; the conversion of an exact amount is the least budget amount that covers it.
\<close>

section \<open>Currencies and assets\<close>

datatype currency = Usd | Usdc

datatype asset = AssetUsd | AssetUsdc

definition currency_display :: "currency \<Rightarrow> string" where
  "currency_display c = (case c of Usd \<Rightarrow> ''usd'' | Usdc \<Rightarrow> ''usdc'')"

datatype parse_currency_error = ParseCurrencyError string

definition currency_from_str :: "string \<Rightarrow> parse_currency_error + currency" where
  "currency_from_str v =
     (if v = ''usd'' then Inr Usd
      else if v = ''usdc'' then Inr Usdc
      else Inl (ParseCurrencyError v))"

definition native_scale :: "asset \<Rightarrow> nat" where
  "native_scale a = (case a of AssetUsd \<Rightarrow> 2 | AssetUsdc \<Rightarrow> 6)"

definition asset_from_currency :: "currency \<Rightarrow> asset" where
  "asset_from_currency c = (case c of Usd \<Rightarrow> AssetUsd | Usdc \<Rightarrow> AssetUsdc)"

definition asset_display :: "asset \<Rightarrow> string" where
  "asset_display a = (case a of AssetUsd \<Rightarrow> ''usd'' | AssetUsdc \<Rightarrow> ''usdc'')"

datatype parse_asset_error = ParseAssetError string

definition asset_from_str :: "string \<Rightarrow> parse_asset_error + asset" where
  "asset_from_str v =
     (if v = ''usd'' then Inr AssetUsd
      else if v = ''usdc'' then Inr AssetUsdc
      else Inl (ParseAssetError v))"

section \<open>Budget-plane amounts\<close>

datatype amount = Amount (units: int)

instantiation amount :: linorder
begin

definition less_eq_amount :: "amount \<Rightarrow> amount \<Rightarrow> bool" where
  "less_eq_amount a b \<longleftrightarrow> units a \<le> units b"

definition less_amount :: "amount \<Rightarrow> amount \<Rightarrow> bool" where
  "less_amount a b \<longleftrightarrow> units a < units b"

instance
  by standard (auto simp: less_eq_amount_def less_amount_def amount.expand)

end

definition ACCOUNTING_SCALE :: nat where
  "ACCOUNTING_SCALE = 6"

definition MAX_EXACT_SCALE :: nat where
  "MAX_EXACT_SCALE = 18"

definition UNITS_PER_MAJOR :: int where
  "UNITS_PER_MAJOR = 1000000"

definition UNITS_PER_LEGACY_CENT :: int where
  "UNITS_PER_LEGACY_CENT = 10000"

lemmas money_consts = ACCOUNTING_SCALE_def MAX_EXACT_SCALE_def UNITS_PER_MAJOR_def
  UNITS_PER_LEGACY_CENT_def

definition ZERO :: amount where
  "ZERO = Amount 0"

definition is_negative :: "amount \<Rightarrow> bool" where
  "is_negative a \<longleftrightarrow> units a < 0"

definition amount_checked_add :: "amount \<Rightarrow> amount \<Rightarrow> amount option" where
  "amount_checked_add a b = map_option Amount (checked_add_i64 (units a) (units b))"

definition amount_checked_sub :: "amount \<Rightarrow> amount \<Rightarrow> amount option" where
  "amount_checked_sub a b = map_option Amount (checked_sub_i64 (units a) (units b))"

datatype money_error = Overflow | Negative | ScaleTooLarge nat | ZeroDenominator

definition from_legacy_cents :: "int \<Rightarrow> money_error + amount" where
  "from_legacy_cents cents =
     ok_or Overflow (map_option Amount (checked_mul_i64 cents UNITS_PER_LEGACY_CENT))"

definition legacy_cents_ceil :: "amount \<Rightarrow> int" where
  "legacy_cents_ceil a =
     (let cents = units a div UNITS_PER_LEGACY_CENT
      in if units a mod UNITS_PER_LEGACY_CENT = 0 then cents else cents + 1)"

definition legacy_cents_floor :: "amount \<Rightarrow> int" where
  "legacy_cents_floor a = units a div UNITS_PER_LEGACY_CENT"

text \<open>The values a Rust \<open>Amount\<close> can hold: its field is an \<open>i64\<close>.\<close>

definition amount_ok :: "amount \<Rightarrow> bool" where
  "amount_ok a \<longleftrightarrow> fits_i64 (units a)"

lemma amount_eq_iff: "a = b \<longleftrightarrow> units a = units b"
  by (auto simp: amount.expand)

lemma amount_order [simp]:
  "a \<le> b \<longleftrightarrow> units a \<le> units b"
  "a < b \<longleftrightarrow> units a < units b"
  by (simp_all add: less_eq_amount_def less_amount_def)

lemma units_ZERO [simp]: "units ZERO = 0"
  by (simp add: ZERO_def)

lemma amount_checked_eq_iff [res_simps]:
  "amount_checked_add a b = Some c \<longleftrightarrow> fits_i64 (units a + units b) \<and> c = Amount (units a + units b)"
  "amount_checked_sub a b = Some c \<longleftrightarrow> fits_i64 (units a - units b) \<and> c = Amount (units a - units b)"
  "amount_checked_add a b = None \<longleftrightarrow> \<not> fits_i64 (units a + units b)"
  "amount_checked_sub a b = None \<longleftrightarrow> \<not> fits_i64 (units a - units b)"
  by (auto simp: amount_checked_add_def amount_checked_sub_def checked_def)

section \<open>Printing and parsing\<close>

definition amount_display :: "amount \<Rightarrow> string" where
  "amount_display a =
     (let sign = (if units a < 0 then ''-'' else '''');
          magnitude = nat \<bar>units a\<bar>;
          per_major = nat UNITS_PER_MAJOR;
          fraction = pad_left 6 (show_nat (magnitude mod per_major));
          fraction = trim_end_matches CHR ''0'' fraction
      in sign @ show_nat (magnitude div per_major) @ ''.'' @ pad_right 2 fraction)"

datatype parse_amount_error_reason =
    AmountEmpty
  | AmountSigned
  | AmountMissingDigits
  | AmountInvalidCharacter
  | AmountTooManyFractionalDigits
  | AmountOverflow

record parse_amount_error =
  pae_input :: string
  pae_reason :: parse_amount_error_reason

definition amount_from_str :: "string \<Rightarrow> parse_amount_error + amount" where
  "amount_from_str v =
     (let error = (\<lambda>r. \<lparr>pae_input = v, pae_reason = r\<rparr>); s = trim v in
      if s = [] then Inl (error AmountEmpty)
      else if hd s = CHR ''-'' \<or> hd s = CHR ''+'' then Inl (error AmountSigned)
      else
        let (major, fractional) =
              (case split_once CHR ''.'' s of
                 Some (a, b) \<Rightarrow> (a, Some b)
               | None \<Rightarrow> (s, None)) in
        if major = [] \<or> fractional = Some [] then Inl (error AmountMissingDigits)
        else if \<not> all_digits major \<or> \<not> (case fractional of None \<Rightarrow> True | Some f \<Rightarrow> all_digits f)
        then Inl (error AmountInvalidCharacter)
        else
          let fractional = (case fractional of None \<Rightarrow> [] | Some f \<Rightarrow> f) in
          if length fractional > ACCOUNTING_SCALE then Inl (error AmountTooManyFractionalDigits)
          else
            and_then
              (if fractional = [] then Inr 0
               else ok_or (error AmountInvalidCharacter) (parse_i64 (pad_right 6 fractional)))
              (\<lambda>fractional_units.
                 ok_or (error AmountOverflow)
                   (Option.bind (parse_i64 major) (\<lambda>m.
                    Option.bind (checked_mul_i64 m UNITS_PER_MAJOR) (\<lambda>u.
                    map_option Amount (checked_add_i64 u fractional_units))))))"

text \<open>The deprecated two-decimal parser into cents.\<close>

datatype parse_decimal_major_amount_error = ParseDecimalMajorAmountError string

definition decimal_major_from_str :: "string \<Rightarrow> parse_decimal_major_amount_error + int" where
  "decimal_major_from_str v =
     (let s = trim v; error = ParseDecimalMajorAmountError s in
      if s = [] \<or> hd s = CHR ''-'' \<or> hd s = CHR ''+'' then Inl error
      else
        let parts = split_on CHR ''.'' s;
            major = (case parts of [] \<Rightarrow> [] | p # _ \<Rightarrow> p);
            fractional = (case parts of _ # f # _ \<Rightarrow> f | _ \<Rightarrow> ''0'') in
        if length parts > 2 \<or> major = [] \<or> fractional = [] \<or> length fractional > 2
           \<or> \<not> all_digits major \<or> \<not> all_digits fractional
        then Inl error
        else
          and_then (ok_or error (parse_i64 major)) (\<lambda>m.
          and_then (ok_or error (parse_i64 fractional)) (\<lambda>f.
          let f = (if length fractional = 1 then f * 10 else f) in
          ok_or error
            (Option.bind (checked_mul_i64 m 100) (\<lambda>m. checked_add_i64 m f)))))"

section \<open>Exact external amounts\<close>

record exact_money =
  em_amount :: int
  em_scale :: nat
  em_asset :: asset

definition exact_money_new :: "int \<Rightarrow> nat \<Rightarrow> asset \<Rightarrow> money_error + exact_money" where
  "exact_money_new a s as =
     (if a < 0 then Inl Negative
      else if s > MAX_EXACT_SCALE then Inl (ScaleTooLarge s)
      else Inr \<lparr>em_amount = a, em_scale = s, em_asset = as\<rparr>)"

record conversion_rate =
  numerator :: int
  denominator :: int
  cr_source :: string
  observed_at :: int

definition conversion_rate_new ::
  "int \<Rightarrow> int \<Rightarrow> string \<Rightarrow> int \<Rightarrow> money_error + conversion_rate" where
  "conversion_rate_new n d src t =
     (if d = 0 then Inl ZeroDenominator
      else Inr \<lparr>numerator = n, denominator = d, cr_source = src, observed_at = t\<rparr>)"

definition identity_rate :: "string \<Rightarrow> int \<Rightarrow> conversion_rate" where
  "identity_rate src t = \<lparr>numerator = 1, denominator = 1, cr_source = src, observed_at = t\<rparr>"

definition to_amount_ceil :: "exact_money \<Rightarrow> conversion_rate \<Rightarrow> money_error + amount" where
  "to_amount_ceil m rate =
     and_then
       (ok_or Overflow
          (Option.bind (checked fits_i128 (numerator rate)) (\<lambda>n.
           Option.bind (checked_mul_i128 (em_amount m) n) (\<lambda>v.
           checked_mul_i128 v (10 ^ ACCOUNTING_SCALE)))))
       (\<lambda>num.
     and_then
       (ok_or Overflow
          (Option.bind (checked fits_i128 (denominator rate)) (\<lambda>d.
           checked_mul_i128 d (10 ^ em_scale m))))
       (\<lambda>den.
     let quotient = trunc_div num den;
         u = (if trunc_mod num den = 0 then quotient else quotient + 1)
     in ok_or Overflow (map_option Amount (checked fits_i64 u))))"

text \<open>The private-field invariants of the two types, which their constructors establish.\<close>

definition exact_money_ok :: "exact_money \<Rightarrow> bool" where
  "exact_money_ok m \<longleftrightarrow> 0 \<le> em_amount m \<and> fits_i128 (em_amount m) \<and> em_scale m \<le> MAX_EXACT_SCALE"

definition conversion_rate_ok :: "conversion_rate \<Rightarrow> bool" where
  "conversion_rate_ok r \<longleftrightarrow>
     fits_u128 (numerator r) \<and> fits_u128 (denominator r) \<and> denominator r \<noteq> 0"

section \<open>Cent projections\<close>

lemma legacy_cents_ceil_eq: "legacy_cents_ceil a = ceil_div (units a) UNITS_PER_LEGACY_CENT"
  by (simp add: legacy_cents_ceil_def ceil_div_def Let_def)

text \<open>
  The two cent projections bracket the exact amount, they differ by at most one cent, and they
  agree exactly on the amounts that \<open>from_legacy_cents\<close> produces.
\<close>

theorem legacy_cents_bracket:
  "legacy_cents_floor a * 10000 \<le> units a \<and> units a \<le> legacy_cents_ceil a * 10000
   \<and> legacy_cents_ceil a \<le> legacy_cents_floor a + 1
   \<and> (legacy_cents_floor a = legacy_cents_ceil a \<longleftrightarrow> units a = legacy_cents_floor a * 10000)
   \<and> (amount_ok a \<and> legacy_cents_floor a = legacy_cents_ceil a
        \<longleftrightarrow> from_legacy_cents (legacy_cents_floor a) = Inr a)"
proof -
  have m: "units a = 10000 * legacy_cents_floor a + units a mod 10000"
    by (simp add: legacy_cents_floor_def money_consts)
  have b: "0 \<le> units a mod 10000" "units a mod 10000 < 10000" by simp_all
  have c: "legacy_cents_ceil a = legacy_cents_floor a + (if units a mod 10000 = 0 then 0 else 1)"
    by (simp add: legacy_cents_ceil_def legacy_cents_floor_def money_consts Let_def)
  have f: "from_legacy_cents n = Inr a \<longleftrightarrow> amount_ok a \<and> units a = n * 10000" for n
    by (auto simp: from_legacy_cents_def amount_ok_def money_consts res_simps amount_eq_iff)
  show ?thesis unfolding f using m b c by auto
qed

lemma legacy_cents_floor_range: "amount_ok a \<Longrightarrow> fits_i64 (legacy_cents_floor a)"
  by (auto simp: amount_ok_def legacy_cents_floor_def money_consts range_simps)

lemma legacy_cents_ceil_range: "amount_ok a \<Longrightarrow> fits_i64 (legacy_cents_ceil a)"
  by (auto simp: amount_ok_def legacy_cents_ceil_def money_consts range_simps Let_def)

section \<open>Decimal notation\<close>

lemma dropWhile_zeros: "\<exists>k. s = replicate k c @ dropWhile (\<lambda>x. x = c) s"
proof (induction s)
  case (Cons x s)
  then obtain k where k: "s = replicate k c @ dropWhile (\<lambda>x. x = c) s" by blast
  show ?case
  proof (cases "x = c")
    case True
    with k have "x # s = replicate (Suc k) c @ dropWhile (\<lambda>x. x = c) (x # s)" by simp
    then show ?thesis by blast
  qed simp
qed simp

lemma trim_end_matches_split: "\<exists>k. s = trim_end_matches c s @ replicate k c"
proof -
  from dropWhile_zeros[of "rev s" c]
  obtain k where k: "rev s = replicate k c @ dropWhile (\<lambda>x. x = c) (rev s)" ..
  have "s = rev (rev s)" by simp
  also have "\<dots> = trim_end_matches c s @ replicate k c"
    by (subst k) (simp add: trim_end_matches_def)
  finally show ?thesis by (rule exI)
qed

lemma pad_right_trimmed:
  assumes "length s = n" and "k \<le> n"
  shows "pad_right n (pad_right k (trim_end_matches CHR ''0'' s)) = s"
    and "length (pad_right k (trim_end_matches CHR ''0'' s)) \<le> n"
    and "all_digits s \<Longrightarrow> all_digits (pad_right k (trim_end_matches CHR ''0'' s))"
proof -
  let ?t = "trim_end_matches CHR ''0'' s"
  obtain j where j: "s = ?t @ replicate j CHR ''0''" using trim_end_matches_split by blast
  from j have lj: "n = length ?t + j" using assms(1) by (metis length_append length_replicate)
  show "length (pad_right k ?t) \<le> n" using lj assms(2) by (simp add: pad_right_def)
  have "pad_right n (pad_right k ?t) = ?t @ replicate j CHR ''0''"
    using lj assms(2) by (simp add: pad_right_def replicate_add[symmetric])
  then show "pad_right n (pad_right k ?t) = s" using j by simp
  assume "all_digits s"
  then have "all_digits ?t" using j by (metis all_digits_simps(3))
  then show "all_digits (pad_right k ?t)" by (simp add: pad_right_def)
qed

lemma pad_left_digits:
  assumes "n < 10 ^ k" and "0 < k"
  shows "length (pad_left k (show_nat n)) = k" and "all_digits (pad_left k (show_nat n))"
    and "digits_val (pad_left k (show_nat n)) = n"
  using length_show_nat[OF assms] by (simp_all add: pad_left_def)

text \<open>The parser on a well-formed decimal: the value is computed exactly, or reported as too large.\<close>

lemma amount_from_str_decimal:
  assumes maj: "all_digits maj" "maj \<noteq> []"
    and frac: "all_digits frac" "frac \<noteq> []" "length frac \<le> 6"
  shows "amount_from_str (maj @ CHR ''.'' # frac) =
    ok_or \<lparr>pae_input = maj @ CHR ''.'' # frac, pae_reason = AmountOverflow\<rparr>
      (map_option Amount
        (checked fits_i64 (int (digits_val maj) * 1000000 + int (digits_val (pad_right 6 frac)))))"
proof -
  let ?s = "maj @ CHR ''.'' # frac"
  have h: "is_ascii_digit (hd maj)" using maj by (cases maj) auto
  have l: "is_ascii_digit (last frac)" using frac
    by (metis all_digits_def last_in_set list_all_iff)
  have t: "trim ?s = ?s"
    using h l maj frac by (intro trim_solid) (auto simp: digit_solid)
  have sp: "split_once CHR ''.'' ?s = Some (maj, frac)"
    using split_once_first[OF all_digits_no_dot[OF maj(1)], of frac] by simp
  have hs: "hd ?s \<noteq> CHR ''-''" "hd ?s \<noteq> CHR ''+''"
    using h maj digit_not_punct by auto
  have pd: "all_digits (pad_right 6 frac)" "pad_right 6 frac \<noteq> []" "length (pad_right 6 frac) = 6"
    using frac by (simp_all add: pad_right_def)
  have small: "digits_val d < 10 ^ length d" if "all_digits d" for d
    using that
  proof (induction d)
    case (Cons c d)
    have "digit_val c \<le> 9" using Cons.prems by (auto simp: digit_val_def is_ascii_digit_def)
    then have "digit_val c * 10 ^ length d \<le> 9 * 10 ^ length d" by (rule mult_right_mono) simp
    moreover have "digits_val d < 10 ^ length d" using Cons by simp
    ultimately have "digit_val c * 10 ^ length d + digits_val d < 10 * 10 ^ length d" by linarith
    then show ?case by simp
  qed simp
  have fu: "parse_i64 (pad_right 6 frac) = Some (int (digits_val (pad_right 6 frac)))"
    using pd small[OF pd(1)] by (simp add: parse_signed_digits checked_def fits_i64_def)
  have pm: "parse_i64 maj = checked fits_i64 (int (digits_val maj))"
    using maj by (rule parse_signed_digits)
  show ?thesis
    using maj frac hs
    by (auto simp: amount_from_str_def Let_def t sp fu pm money_consts checked_def range_simps
        split: option.splits)
qed

lemma parse_displayed_amount:
  assumes "amount_ok a" and "0 \<le> units a"
  shows "amount_from_str (amount_display a) = Inr a"
proof -
  define m where "m = nat (units a)"
  define f where "f = pad_left 6 (show_nat (m mod 1000000))"
  define g where "g = pad_right 2 (trim_end_matches CHR ''0'' f)"
  have f: "length f = 6" "all_digits f" "digits_val f = m mod 1000000"
    using pad_left_digits[of "m mod 1000000" 6] by (simp_all add: f_def)
  have g: "pad_right 6 g = f" "length g \<le> 6" "all_digits g"
    using pad_right_trimmed[OF f(1), of 2] f(2) by (simp_all add: g_def)
  have gne: "g \<noteq> []" by (auto simp: g_def pad_right_def)
  have d: "amount_display a = show_nat (m div 1000000) @ CHR ''.'' # g"
    using assms(2) by (simp add: amount_display_def Let_def m_def f_def g_def money_consts)
  have "int (m div 1000000) * 1000000 + int (m mod 1000000) = int m"
    by (metis div_mult_mod_eq of_nat_add of_nat_mult of_nat_numeral)
  then show ?thesis
    unfolding d
    using assms g gne f(3)
    by (simp add: amount_from_str_decimal checked_def m_def amount_ok_def)
qed

text \<open>A negative amount is printed with its sign, which the parser refuses.\<close>

lemma parse_displayed_negative:
  assumes "units a < 0"
  shows "amount_from_str (amount_display a) = Inl \<lparr>pae_input = amount_display a, pae_reason = AmountSigned\<rparr>"
proof -
  define m where "m = nat \<bar>units a\<bar>"
  define f where "f = pad_left 6 (show_nat (m mod 1000000))"
  define g where "g = pad_right 2 (trim_end_matches CHR ''0'' f)"
  have f: "length f = 6" "all_digits f"
    using pad_left_digits[of "m mod 1000000" 6] by (simp_all add: f_def)
  have "all_digits g" using pad_right_trimmed(3)[OF f(1) _ f(2), of 2] by (simp add: g_def)
  moreover have ne: "g \<noteq> []" by (auto simp: g_def pad_right_def)
  ultimately have l: "is_ascii_digit (last g)" by (metis all_digits_def last_in_set list_all_iff)
  have d: "amount_display a = CHR ''-'' # show_nat (m div 1000000) @ CHR ''.'' # g"
    using assms by (simp add: amount_display_def Let_def m_def f_def g_def money_consts)
  have minus: "solid CHR ''-''" by code_simp
  have "trim (amount_display a) = amount_display a"
    using l ne minus unfolding d by (intro trim_solid) (simp_all add: digit_solid)
  then show ?thesis by (simp add: amount_from_str_def Let_def d)
qed

text \<open>
  C40: printing a 64-bit amount and parsing the text gives the amount back when it is not negative; the text of a
  negative amount is refused for its sign, so that no amount is ever read back as another one.
\<close>

theorem amount_display_roundtrip:
  assumes "amount_ok a"
  shows "amount_from_str (amount_display a) =
    (if 0 \<le> units a then Inr a
     else Inl \<lparr>pae_input = amount_display a, pae_reason = AmountSigned\<rparr>)"
  using parse_displayed_amount[OF assms] parse_displayed_negative[of a] by simp

theorem amount_display_roundtrip_witness:
  "amount_display (Amount 5000) = ''0.005'' \<and> amount_from_str ''0.005'' = Inr (Amount 5000)"
proof -
  have d: "amount_display (Amount 5000) = ''0.005''" by code_simp
  have "amount_from_str (amount_display (Amount 5000)) = Inr (Amount 5000)"
    using amount_display_roundtrip[of "Amount 5000"] by (simp add: amount_ok_def fits_i64_def)
  with d show ?thesis by simp
qed

text \<open>
  Whatever text is parsed, an accepted text is (after trimming) a plain decimal with digits on
  both sides of at most one point and at most six decimals, and the amount is its exact value in
  millionths, non-negative and within the 64-bit range.
\<close>

theorem amount_from_str_sound:
  assumes "amount_from_str v = Inr a"
  shows "amount_ok a \<and> 0 \<le> units a
    \<and> (\<exists>maj frac. (trim v = maj \<and> frac = [] \<or> trim v = maj @ CHR ''.'' # frac \<and> frac \<noteq> [])
        \<and> maj \<noteq> [] \<and> all_digits maj \<and> all_digits frac \<and> length frac \<le> 6
        \<and> units a = int (digits_val maj) * 1000000 + int (digits_val (pad_right 6 frac)))"
proof (cases "split_once CHR ''.'' (trim v)")
  case None
  with assms have "trim v \<noteq> []" "all_digits (trim v)"
    and "amount_ok a" "units a = int (digits_val (trim v)) * 1000000"
    by (auto simp: amount_from_str_def Let_def res_simps parse_signed_digits amount_ok_def money_consts
        bind_eq_Some_conv split: if_splits)
  moreover have "digits_val (pad_right 6 []) = 0" by (simp add: pad_right_def)
  ultimately show ?thesis
    by (intro conjI exI[where x = "trim v"] exI[where x = "[]"]) simp_all
next
  case (Some p)
  then obtain maj frac where p: "split_once CHR ''.'' (trim v) = Some (maj, frac)" by (cases p) auto
  from assms have d: "maj \<noteq> []" "frac \<noteq> []" "all_digits maj" "all_digits frac" "length frac \<le> 6"
    by (auto simp: amount_from_str_def Let_def p ACCOUNTING_SCALE_def split: if_splits)
  have pd: "all_digits (pad_right 6 frac)" "pad_right 6 frac \<noteq> []"
    using d by (simp_all add: pad_right_def)
  from assms d have "amount_ok a"
    and "units a = int (digits_val maj) * 1000000 + int (digits_val (pad_right 6 frac))"
    by (auto simp: amount_from_str_def Let_def p res_simps parse_signed_digits[OF pd]
        parse_signed_digits[OF d(3,1)] amount_ok_def money_consts bind_eq_Some_conv split: if_splits)
  with d split_once_Some[OF p] show ?thesis by auto
qed

theorem amount_from_str_sound_witness:
  "amount_from_str '' 12.5 '' = Inr (Amount 12500000) \<and> amount_ok (Amount 12500000)"
proof -
  have r: "amount_from_str '' 12.5 '' = Inr (Amount 12500000)" by code_simp
  from amount_from_str_sound[OF r] r show ?thesis by simp
qed

section \<open>Exact conversion\<close>

lemma exact_money_new_ok:
  "fits_i128 a \<Longrightarrow> exact_money_new a s as = Inr m \<Longrightarrow> exact_money_ok m"
  by (auto simp: exact_money_new_def exact_money_ok_def split: if_splits)

lemma conversion_rate_new_ok:
  "fits_u128 n \<Longrightarrow> fits_u128 d \<Longrightarrow> conversion_rate_new n d src t = Inr r \<Longrightarrow> conversion_rate_ok r"
  by (auto simp: conversion_rate_new_def conversion_rate_ok_def split: if_splits)

lemma identity_rate_ok: "conversion_rate_ok (identity_rate src t)"
  by (simp add: identity_rate_def conversion_rate_ok_def fits_u128_def)

lemma to_amount_ceil_value:
  assumes "exact_money_ok m" and "conversion_rate_ok r" and "to_amount_ceil m r = Inr a"
  shows "units a = ceil_div (em_amount m * numerator r * 1000000) (denominator r * 10 ^ em_scale m)"
    and "amount_ok a"
proof -
  let ?n = "em_amount m * numerator r * 1000000" and ?d = "denominator r * 10 ^ em_scale m"
  have pos: "0 \<le> ?n" "0 < ?d"
    using assms(1,2) by (auto simp: exact_money_ok_def conversion_rate_ok_def range_simps)
  from assms(3) have "a = Amount (if trunc_mod ?n ?d = 0 then trunc_div ?n ?d else trunc_div ?n ?d + 1)"
    and "amount_ok a"
    by (auto simp: to_amount_ceil_def res_simps bind_eq_Some_conv Let_def ACCOUNTING_SCALE_def
        amount_ok_def)
  then show "units a = ceil_div ?n ?d" and "amount_ok a"
    by (auto simp: trunc_nonneg[OF pos] ceil_div_def)
qed

text \<open>
  the conversion of an exact external amount into the budget plane is the least amount, in
  millionths, that covers it at the given rate: it never rounds a cost down and never up by a whole
  unit. The comparison is by cross-multiplication, \<open>units / 10^6\<close> against
  \<open>amount * numerator / (denominator * 10^scale)\<close>.
\<close>

theorem to_amount_ceil_least_cover:
  assumes "exact_money_ok m" and "conversion_rate_ok r" and "to_amount_ceil m r = Inr a"
  shows "amount_ok a \<and> 0 \<le> units a
    \<and> em_amount m * numerator r * 1000000 \<le> units a * (denominator r * 10 ^ em_scale m)
    \<and> (units a - 1) * (denominator r * 10 ^ em_scale m) < em_amount m * numerator r * 1000000"
proof -
  have d: "0 < denominator r * 10 ^ em_scale m" and n: "0 \<le> em_amount m * numerator r * 1000000"
    using assms(1,2) by (auto simp: exact_money_ok_def conversion_rate_ok_def range_simps)
  show ?thesis
    using ceil_div_bounds[OF d, of "em_amount m * numerator r * 1000000"] ceil_div_nonneg[OF d n]
      to_amount_ceil_value[OF assms]
    by (simp add: algebra_simps)
qed

theorem to_amount_ceil_least_cover_witness:
  "to_amount_ceil \<lparr>em_amount = 1, em_scale = 7, em_asset = AssetUsd\<rparr> (identity_rate ''t'' 0)
     = Inr (Amount 1) \<and> amount_ok (Amount 1)"
proof -
  let ?m = "\<lparr>em_amount = 1, em_scale = 7, em_asset = AssetUsd\<rparr>"
  have m: "exact_money_ok ?m" by (simp add: exact_money_ok_def fits_i128_def MAX_EXACT_SCALE_def)
  have r: "to_amount_ceil ?m (identity_rate ''t'' 0) = Inr (Amount 1)" by code_simp
  from to_amount_ceil_least_cover[OF m identity_rate_ok r] r show ?thesis by simp
qed

section \<open>Names of currencies and assets\<close>

lemma currency_roundtrip: "currency_from_str (currency_display c) = Inr c"
  by (cases c) (simp_all add: currency_from_str_def currency_display_def)

lemma asset_roundtrip: "asset_from_str (asset_display a) = Inr a"
  by (cases a) (simp_all add: asset_from_str_def asset_display_def)

lemma currency_from_str_iff: "currency_from_str v = Inr c \<longleftrightarrow> v = currency_display c"
  by (cases c) (auto simp: currency_from_str_def currency_display_def)

end
