(* ===== verification/Time_Period.thy ===== *)
theory Time_Period
  imports Hubu_Prelude
begin

text \<open>
  \<^verbatim>\<open>crates/hubu-common/src/time.rs\<close> and the \<open>periods_overlap\<close> test shared by budgets and spending
  targets: half-open UTC windows, possibly without an end. The overlap test is shown to be exactly
  the existence of a common instant.
\<close>

type_synonym instant = int

text \<open>Instants count nanoseconds and are unbounded: the addition of the code panics on an instant after the year 262142,
  which no clock reading plus a configured lifetime comes near; that panic is not modelled.\<close>

definition add_seconds :: "instant \<Rightarrow> int \<Rightarrow> instant" where
  "add_seconds t s = t + s * 1000000000"

record time_period =
  starting_at :: instant
  ending_before :: "instant option"

datatype time_period_error = EndMustBeAfterStart

definition time_period_new :: "instant \<Rightarrow> instant option \<Rightarrow> time_period_error + time_period" where
  "time_period_new s e =
     (case e of
        Some end_ \<Rightarrow>
          if end_ \<le> s then Inl EndMustBeAfterStart
          else Inr \<lparr>starting_at = s, ending_before = e\<rparr>
      | None \<Rightarrow> Inr \<lparr>starting_at = s, ending_before = e\<rparr>)"

definition is_none_or :: "('a \<Rightarrow> bool) \<Rightarrow> 'a option \<Rightarrow> bool" where
  "is_none_or p v \<longleftrightarrow> (case v of None \<Rightarrow> True | Some x \<Rightarrow> p x)"

definition is_some_and :: "('a \<Rightarrow> bool) \<Rightarrow> 'a option \<Rightarrow> bool" where
  "is_some_and p v \<longleftrightarrow> (case v of None \<Rightarrow> False | Some x \<Rightarrow> p x)"

definition period_contains :: "time_period \<Rightarrow> instant \<Rightarrow> bool" where
  "period_contains p t \<longleftrightarrow> t \<ge> starting_at p \<and> is_none_or (\<lambda>e. t < e) (ending_before p)"

definition is_open_ended :: "time_period \<Rightarrow> bool" where
  "is_open_ended p \<longleftrightarrow> ending_before p = None"

definition periods_overlap :: "time_period \<Rightarrow> time_period \<Rightarrow> bool" where
  "periods_overlap left right \<longleftrightarrow>
     (let left_starts_before_right_ends =
            is_none_or (\<lambda>right_end. starting_at left < right_end) (ending_before right);
          right_starts_before_left_ends =
            is_none_or (\<lambda>left_end. starting_at right < left_end) (ending_before left)
      in left_starts_before_right_ends \<and> right_starts_before_left_ends)"

text \<open>What the constructor guarantees: a period that has an end is not empty.\<close>

definition period_ok :: "time_period \<Rightarrow> bool" where
  "period_ok p \<longleftrightarrow> is_none_or (\<lambda>e. starting_at p < e) (ending_before p)"

lemma option_test_simps [simp]:
  "is_none_or p None" "is_none_or p (Some x) = p x"
  "\<not> is_some_and p None" "is_some_and p (Some x) = p x"
  by (simp_all add: is_none_or_def is_some_and_def)

lemma is_some_and_iff: "is_some_and p v \<longleftrightarrow> (\<exists>x. v = Some x \<and> p x)"
  by (cases v) simp_all

lemma time_period_new_ok: "time_period_new s e = Inr p \<Longrightarrow> period_ok p"
  by (auto simp: time_period_new_def period_ok_def split: option.splits if_splits)

lemma period_ok_inhabited: "period_ok p \<longleftrightarrow> (\<exists>t. period_contains p t)"
proof
  assume "period_ok p"
  then have "period_contains p (starting_at p)" by (simp add: period_ok_def period_contains_def)
  then show "\<exists>t. period_contains p t" ..
next
  assume "\<exists>t. period_contains p t"
  then show "period_ok p"
    by (cases "ending_before p") (auto simp: period_ok_def period_contains_def)
qed

lemma periods_overlap_sym: "periods_overlap p q \<longleftrightarrow> periods_overlap q p"
  by (auto simp: periods_overlap_def Let_def)

lemma periods_overlap_iff_common:
  assumes "period_ok p" and "period_ok q"
  shows "periods_overlap p q \<longleftrightarrow> (\<exists>t. period_contains p t \<and> period_contains q t)"
proof
  assume "periods_overlap p q"
  with assms have "period_contains p (max (starting_at p) (starting_at q))"
    and "period_contains q (max (starting_at p) (starting_at q))"
    by (cases "ending_before p"; cases "ending_before q";
        auto simp: periods_overlap_def period_ok_def period_contains_def Let_def)+
  then show "\<exists>t. period_contains p t \<and> period_contains q t" by blast
next
  assume "\<exists>t. period_contains p t \<and> period_contains q t"
  then show "periods_overlap p q"
    by (cases "ending_before p"; cases "ending_before q")
      (auto simp: periods_overlap_def period_contains_def Let_def)
qed

end
