(* ===== verification/Budget_Model.thy ===== *)
theory Budget_Model
  imports Money Time_Period
begin

text \<open>
  \<^verbatim>\<open>crates/hubu-core/src/budget/model.rs\<close>, \<^verbatim>\<open>dto.rs\<close> and \<^verbatim>\<open>error.rs\<close>: logical budgets, their immutable
  versions, balances and holds, the availability evaluation and the hold status machine.

  Identifiers are UUIDs, read as numbers: the Rust newtypes over \<open>Uuid\<close> only compare and print them,
  and the lexicographic order of the printed form is the numeric order.
\<close>

type_synonym uuid = nat

datatype budget_id = BudgetId uuid
datatype budget_version_id = BudgetVersionId uuid
datatype budget_hold_id = BudgetHoldId uuid
datatype agent_id = AgentId uuid
datatype spend_decision_id = SpendDecisionId uuid
datatype spend_executor_claim_id = SpendExecutorClaimId uuid

section \<open>Records\<close>

datatype budget_administrative_state = AdminActive | AdminRevoked

record budget =
  bu_id :: budget_id
  bu_agent_id :: agent_id
  bu_current_version_id :: budget_version_id
  bu_currency :: currency
  bu_period :: time_period
  bu_administrative_state :: budget_administrative_state
  bu_created_at :: instant
  bu_updated_at :: instant

datatype budget_error = AmountLimitMustBePositive

definition budget_new ::
  "budget_id \<Rightarrow> agent_id \<Rightarrow> currency \<Rightarrow> time_period \<Rightarrow> budget_version_id \<Rightarrow> instant \<Rightarrow> budget" where
  "budget_new bid agent cur period fresh_version_id now =
     \<lparr>bu_id = bid, bu_agent_id = agent, bu_current_version_id = fresh_version_id,
      bu_currency = cur, bu_period = period, bu_administrative_state = AdminActive,
      bu_created_at = now, bu_updated_at = now\<rparr>"

record budget_version =
  bv_id :: budget_version_id
  bv_budget_id :: budget_id
  bv_revision :: int
  bv_predecessor_version_id :: "budget_version_id option"
  bv_amount_limit :: amount
  bv_effective_at :: instant
  bv_actor :: string
  bv_source :: string
  bv_reason :: "string option"
  bv_request_fingerprint :: string
  bv_created_at :: instant

text \<open>
  The fingerprint of a request is a SHA-256 digest over a canonical text; the digest is a parameter
  (\<open>sha256\<close>: the printed hexadecimal digest of a byte string, and \<open>rfc3339\<close>: the printed instant).
\<close>

definition whole_cents :: "amount \<Rightarrow> int option" where
  "whole_cents a =
     (if legacy_cents_floor a = legacy_cents_ceil a then Some (legacy_cents_floor a) else None)"

definition initial_budget_canonical ::
  "(agent_id \<Rightarrow> string) \<Rightarrow> (instant \<Rightarrow> string) \<Rightarrow> agent_id \<Rightarrow> amount \<Rightarrow> currency \<Rightarrow> time_period \<Rightarrow> string"
where
  "initial_budget_canonical show_agent rfc3339 agent limit cur period =
     (let amount_field =
            (case whole_cents limit of
               Some cents \<Rightarrow> ''amount_limit_cents='' @ show_int cents
             | None \<Rightarrow> ''amount_limit='' @ show_int (units limit) @ [CHR 0x0A]
                        @ ''amount_scale='' @ show_nat ACCOUNTING_SCALE)
      in ''agent_id='' @ show_agent agent @ [CHR 0x0A] @ amount_field @ [CHR 0x0A]
         @ ''currency='' @ currency_display cur @ [CHR 0x0A]
         @ ''starting_at='' @ rfc3339 (starting_at period) @ [CHR 0x0A]
         @ ''ending_before='' @ (case ending_before period of None \<Rightarrow> [] | Some e \<Rightarrow> rfc3339 e))"

definition initial_budget_request_fingerprint ::
  "(string \<Rightarrow> string) \<Rightarrow> (agent_id \<Rightarrow> string) \<Rightarrow> (instant \<Rightarrow> string)
     \<Rightarrow> agent_id \<Rightarrow> amount \<Rightarrow> currency \<Rightarrow> time_period \<Rightarrow> string" where
  "initial_budget_request_fingerprint sha256 show_agent rfc3339 agent limit cur period =
     ''sha256:'' @ sha256 (initial_budget_canonical show_agent rfc3339 agent limit cur period)"

definition budget_version_initial ::
  "(agent_id \<Rightarrow> amount \<Rightarrow> currency \<Rightarrow> time_period \<Rightarrow> string)
     \<Rightarrow> budget \<Rightarrow> amount \<Rightarrow> string \<Rightarrow> string \<Rightarrow> string option \<Rightarrow> budget_error + budget_version" where
  "budget_version_initial fingerprint b limit actor source reason =
     (if limit \<le> ZERO then Inl AmountLimitMustBePositive
      else Inr
        \<lparr>bv_id = bu_current_version_id b, bv_budget_id = bu_id b, bv_revision = 1,
         bv_predecessor_version_id = None, bv_amount_limit = limit,
         bv_effective_at = bu_created_at b, bv_actor = actor, bv_source = source,
         bv_reason = reason,
         bv_request_fingerprint = fingerprint (bu_agent_id b) limit (bu_currency b) (bu_period b),
         bv_created_at = bu_created_at b\<rparr>)"

record budget_balance =
  bal_budget_id :: budget_id
  bal_consumed_amount :: amount
  bal_frozen_amount :: amount
  bal_remaining_amount :: amount

datatype budget_hold_status = Frozen | Claimed | Settled | Released | Expired

record budget_hold =
  bh_id :: budget_hold_id
  bh_budget_id :: budget_id
  bh_budget_version_id :: budget_version_id
  bh_spend_decision_id :: spend_decision_id
  bh_amount :: amount
  bh_currency :: currency
  bh_status :: budget_hold_status
  bh_executor_claim_id :: "spend_executor_claim_id option"
  bh_created_at :: instant
  bh_updated_at :: instant
  bh_expires_at :: instant

datatype budget_hold_error =
  CannotClaimNonFrozenHold | CannotSettleNonFrozenHold | CannotReleaseNonFrozenHold

section \<open>Holds\<close>

definition hold_claim ::
  "budget_hold \<Rightarrow> spend_executor_claim_id \<Rightarrow> instant \<Rightarrow> instant \<Rightarrow> budget_hold_error + budget_hold" where
  "hold_claim h claim_id expires_at now =
     (case bh_status h of
        Frozen \<Rightarrow>
          Inr (h\<lparr>bh_status := Claimed, bh_executor_claim_id := Some claim_id,
                 bh_expires_at := expires_at, bh_updated_at := now\<rparr>)
      | Claimed \<Rightarrow>
          if bh_executor_claim_id h = Some claim_id then Inr h else Inl CannotClaimNonFrozenHold
      | _ \<Rightarrow> Inl CannotClaimNonFrozenHold)"

definition hold_settle :: "budget_hold \<Rightarrow> instant \<Rightarrow> budget_hold_error + budget_hold" where
  "hold_settle h now =
     (case bh_status h of
        Frozen \<Rightarrow> Inr (h\<lparr>bh_status := Settled, bh_updated_at := now\<rparr>)
      | Claimed \<Rightarrow> Inr (h\<lparr>bh_status := Settled, bh_updated_at := now\<rparr>)
      | _ \<Rightarrow> Inl CannotSettleNonFrozenHold)"

definition hold_release :: "budget_hold \<Rightarrow> instant \<Rightarrow> budget_hold_error + budget_hold" where
  "hold_release h now =
     (case bh_status h of
        Frozen \<Rightarrow> Inr (h\<lparr>bh_status := Released, bh_updated_at := now\<rparr>)
      | Claimed \<Rightarrow> Inr (h\<lparr>bh_status := Released, bh_updated_at := now\<rparr>)
      | _ \<Rightarrow> Inl CannotReleaseNonFrozenHold)"

text \<open>A hold still reserves money while it is frozen or claimed.\<close>

definition hold_active :: "budget_hold \<Rightarrow> bool" where
  "hold_active h \<longleftrightarrow> bh_status h = Frozen \<or> bh_status h = Claimed"

section \<open>Availability\<close>

datatype budget_availability =
  AvailRevoked | AvailScheduled | AvailExpired | AvailExhausted | AvailActive

definition allows_reservation :: "budget_availability \<Rightarrow> bool" where
  "allows_reservation a \<longleftrightarrow> a = AvailActive"

definition allows_limit_update :: "budget_availability \<Rightarrow> bool" where
  "allows_limit_update a \<longleftrightarrow> a = AvailScheduled \<or> a = AvailActive \<or> a = AvailExhausted"

definition is_default_visible :: "budget_availability \<Rightarrow> bool" where
  "is_default_visible a \<longleftrightarrow> a = AvailScheduled \<or> a = AvailActive \<or> a = AvailExhausted"

definition availability_as_str :: "budget_availability \<Rightarrow> string" where
  "availability_as_str a =
     (case a of AvailRevoked \<Rightarrow> ''revoked'' | AvailScheduled \<Rightarrow> ''scheduled''
      | AvailExpired \<Rightarrow> ''expired'' | AvailExhausted \<Rightarrow> ''exhausted'' | AvailActive \<Rightarrow> ''active'')"

definition administrative_state_as_str :: "budget_administrative_state \<Rightarrow> string" where
  "administrative_state_as_str a =
     (case a of AdminActive \<Rightarrow> ''active'' | AdminRevoked \<Rightarrow> ''revoked'')"

datatype budget_evaluation_error =
    VersionBudgetMismatch
  | CurrentVersionMismatch
  | BalanceBudgetMismatch
  | EvalBalanceOverflow
  | RemainingBalanceMismatch amount amount

definition derived_remaining :: "amount \<Rightarrow> budget_balance \<Rightarrow> amount option" where
  "derived_remaining limit bal =
     Option.bind (amount_checked_sub limit (bal_consumed_amount bal))
       (\<lambda>r. amount_checked_sub r (bal_frozen_amount bal))"

definition evaluate_budget_availability ::
  "budget \<Rightarrow> budget_version \<Rightarrow> budget_balance \<Rightarrow> instant
     \<Rightarrow> budget_evaluation_error + budget_availability" where
  "evaluate_budget_availability b v bal now =
     (if bv_budget_id v \<noteq> bu_id b then Inl VersionBudgetMismatch
      else if bv_id v \<noteq> bu_current_version_id b then Inl CurrentVersionMismatch
      else if bal_budget_id bal \<noteq> bu_id b then Inl BalanceBudgetMismatch
      else and_then (ok_or EvalBalanceOverflow (derived_remaining (bv_amount_limit v) bal))
        (\<lambda>derived.
          if bal_remaining_amount bal \<noteq> derived
          then Inl (RemainingBalanceMismatch (bal_remaining_amount bal) derived)
          else if bu_administrative_state b = AdminRevoked then Inr AvailRevoked
          else if now < starting_at (bu_period b) then Inr AvailScheduled
          else if is_some_and (\<lambda>e. e \<le> now) (ending_before (bu_period b)) then Inr AvailExpired
          else if derived \<le> ZERO then Inr AvailExhausted
          else Inr AvailActive))"

section \<open>Snapshots and manager errors\<close>

record budget_with_balance =
  bwb_budget :: budget
  bwb_version :: budget_version
  bwb_balance :: budget_balance

definition availability_at ::
  "budget_with_balance \<Rightarrow> instant \<Rightarrow> budget_evaluation_error + budget_availability" where
  "availability_at s now =
     evaluate_budget_availability (bwb_budget s) (bwb_version s) (bwb_balance s) now"

record evaluated_budget =
  eb_current :: budget_with_balance
  eb_availability :: budget_availability
  eb_evaluated_at :: instant

definition evaluate_at ::
  "budget_with_balance \<Rightarrow> instant \<Rightarrow> budget_evaluation_error + evaluated_budget" where
  "evaluate_at s now =
     and_then (availability_at s now) (\<lambda>a.
       Inr \<lparr>eb_current = s, eb_availability = a, eb_evaluated_at = now\<rparr>)"

text \<open>The reasons carried by \<open>InvalidPersistedState\<close>, one per message of the hydration checks.\<close>

datatype persisted_state_fault =
    EvaluationFault budget_evaluation_error
  | InvalidVersionMetadata budget_version_id
  | DuplicateVersionId
  | NoCurrentVersion budget_id
  | CurrentVersionOfOtherBudget budget_id
  | DuplicateBudgetId
  | OverlappingBudgets budget_id budget_id
  | VersionWithoutBudget budget_version_id
  | DuplicateRevision budget_id int
  | MissingPredecessor budget_version_id
  | InvalidPredecessorChain budget_version_id
  | MultipleSuccessors budget_version_id
  | InvalidRootRevision budget_version_id
  | NotLatestVersion budget_id
  | BalanceOfUnknownBudget budget_id
  | NegativeBalance budget_id
  | BalanceOutOfRange budget_id
  | RemainingNotDerived budget_id
  | DuplicateBalance
  | MissingBalance budget_id
  | HoldOfUnknownVersion budget_hold_id
  | HoldMismatch budget_hold_id
  | MultipleHoldsForDecision
  | FrozenOutOfRange budget_id
  | DuplicateHoldId
  | FrozenNotMatchingHolds budget_id

datatype budget_manager_error =
    InvalidBudget budget_error
  | UnknownBudget
  | UnknownBudgetHold
  | MissingBudgetBalance
  | BalanceOverflow
  | ChargeExceedsHold
  | BudgetUnavailable budget_availability
  | CurrencyMismatch
  | AmountMustBePositive
  | InsufficientRemainingBudget
  | BudgetAlreadyRevoked
  | DuplicateSpendDecisionHold
  | ExpiredBudgetHold
  | InvalidBudgetHoldTransition budget_hold_error
  | OverlappingBudgetPeriod
  | InvalidPersistedState persisted_state_fault
  | MissingBudgetVersionProvenance

section \<open>Laws of holds and availability\<close>

lemma hold_claim_frame:
  "hold_claim h c e now = Inr h' \<Longrightarrow>
   hold_active h \<and> hold_active h' \<and> bh_status h' = Claimed \<and> bh_executor_claim_id h' = Some c
   \<and> bh_id h' = bh_id h \<and> bh_amount h' = bh_amount h \<and> bh_budget_id h' = bh_budget_id h
   \<and> bh_budget_version_id h' = bh_budget_version_id h \<and> bh_currency h' = bh_currency h
   \<and> bh_spend_decision_id h' = bh_spend_decision_id h"
  by (auto simp: hold_claim_def hold_active_def split: budget_hold_status.splits if_splits)

lemma hold_settle_iff:
  "hold_settle h now = Inr h' \<longleftrightarrow> hold_active h \<and> h' = h\<lparr>bh_status := Settled, bh_updated_at := now\<rparr>"
  by (auto simp: hold_settle_def hold_active_def split: budget_hold_status.splits)

lemma hold_release_iff:
  "hold_release h now = Inr h' \<longleftrightarrow> hold_active h \<and> h' = h\<lparr>bh_status := Released, bh_updated_at := now\<rparr>"
  by (auto simp: hold_release_def hold_active_def split: budget_hold_status.splits)

lemma derived_remaining_iff [res_simps]:
  "derived_remaining limit bal = Some r \<longleftrightarrow>
     fits_i64 (units limit - units (bal_consumed_amount bal))
     \<and> fits_i64 (units limit - units (bal_consumed_amount bal) - units (bal_frozen_amount bal))
     \<and> r = Amount (units limit - units (bal_consumed_amount bal) - units (bal_frozen_amount bal))"
  by (auto simp: derived_remaining_def res_simps bind_eq_Some_conv)

text \<open>
  The availability of a coherent snapshot. Revocation dominates time, scheduling precedes
  expiry, both precede exhaustion, the period is half-open, and a budget is available for
  reservations exactly when it is not revoked, the instant lies in its period and money remains.
\<close>

theorem availability_active_iff:
  assumes "evaluate_budget_availability b v bal now = Inr a"
  shows "(allows_reservation a \<longleftrightarrow>
            bu_administrative_state b = AdminActive \<and> period_contains (bu_period b) now
            \<and> 0 < units (bv_amount_limit v) - units (bal_consumed_amount bal)
                    - units (bal_frozen_amount bal))
       \<and> (a = AvailRevoked \<longleftrightarrow> bu_administrative_state b = AdminRevoked)
       \<and> (allows_limit_update a \<longleftrightarrow>
            bu_administrative_state b = AdminActive
            \<and> (now < starting_at (bu_period b) \<or> period_contains (bu_period b) now))"
proof -
  have adm: "bu_administrative_state b = AdminActive \<longleftrightarrow> bu_administrative_state b \<noteq> AdminRevoked"
    by (cases "bu_administrative_state b") simp_all
  from assms show ?thesis
    unfolding adm
    by (cases "ending_before (bu_period b)")
      (auto simp: evaluate_budget_availability_def res_simps allows_reservation_def
        allows_limit_update_def period_contains_def split: if_splits)
qed

theorem availability_active_iff_witness:
  "allows_reservation AvailActive \<and>
   evaluate_budget_availability
     (budget_new (BudgetId 1) (AgentId 1) Usd \<lparr>starting_at = 0, ending_before = Some 10\<rparr>
        (BudgetVersionId 1) 0)
     \<lparr>bv_id = BudgetVersionId 1, bv_budget_id = BudgetId 1, bv_revision = 1,
      bv_predecessor_version_id = None, bv_amount_limit = Amount 7, bv_effective_at = 0,
      bv_actor = ''a'', bv_source = ''s'', bv_reason = None, bv_request_fingerprint = ''f'',
      bv_created_at = 0\<rparr>
     \<lparr>bal_budget_id = BudgetId 1, bal_consumed_amount = Amount 2, bal_frozen_amount = Amount 1,
      bal_remaining_amount = Amount 4\<rparr> 5 = Inr AvailActive"
proof -
  let ?b = "budget_new (BudgetId 1) (AgentId 1) Usd \<lparr>starting_at = 0, ending_before = Some 10\<rparr>
        (BudgetVersionId 1) 0"
  let ?v = "\<lparr>bv_id = BudgetVersionId 1, bv_budget_id = BudgetId 1, bv_revision = 1,
      bv_predecessor_version_id = None, bv_amount_limit = Amount 7, bv_effective_at = 0,
      bv_actor = ''a'', bv_source = ''s'', bv_reason = None, bv_request_fingerprint = ''f'',
      bv_created_at = 0\<rparr>"
  let ?l = "\<lparr>bal_budget_id = BudgetId 1, bal_consumed_amount = Amount 2,
      bal_frozen_amount = Amount 1, bal_remaining_amount = Amount 4\<rparr>"
  have e: "evaluate_budget_availability ?b ?v ?l 5 = Inr AvailActive" by code_simp
  from availability_active_iff[OF e] e show ?thesis
    by (simp add: budget_new_def period_contains_def)
qed

end
