(* ===== verification/Execution_Scope.thy ===== *)
theory Execution_Scope
  imports Rust_Strings "HOL-Library.Multiset"
begin

text \<open>
  \<^verbatim>\<open>crates/hubu-common/src/execution_scope.rs\<close>: the selector an agent sends, the trusted catalog of
  execution scopes, and the resolution of a selector to exactly one catalog entry. Schema version 2
  adds the target model and image size, which are carried over from the selector after validation.
\<close>

section \<open>Data\<close>

definition EXECUTION_SCOPE_SCHEMA_VERSION :: nat where
  "EXECUTION_SCOPE_SCHEMA_VERSION = 1"

definition EXECUTION_SCOPE_TARGET_SCHEMA_VERSION :: nat where
  "EXECUTION_SCOPE_TARGET_SCHEMA_VERSION = 2"

definition MAX_MODEL_LEN :: nat where
  "MAX_MODEL_LEN = 128"

definition MAX_IMAGE_SIZE_LEN :: nat where
  "MAX_IMAGE_SIZE_LEN = 32"

record execution_scope_selector =
  sel_schema_version :: nat
  sel_provider :: string
  sel_executor :: string
  sel_capability :: string
  sel_billing_merchant :: string
  sel_model :: "string option"
  sel_image_size :: "string option"

record scope_identity =
  si_id :: string
  si_display_name :: string

record execution_scope =
  es_schema_version :: nat
  es_provider :: scope_identity
  es_executor :: scope_identity
  es_capability :: scope_identity
  es_billing_merchant :: scope_identity
  es_model :: "string option"
  es_image_size :: "string option"

definition same_catalog_entry :: "execution_scope \<Rightarrow> execution_scope \<Rightarrow> bool" where
  "same_catalog_entry a b \<longleftrightarrow>
     es_provider a = es_provider b \<and> es_executor a = es_executor b
     \<and> es_capability a = es_capability b \<and> es_billing_merchant a = es_billing_merchant b"

datatype scope_resolution_error =
    UnsupportedSchema nat
  | ScopeUnknown
  | ScopeAmbiguous
  | TargetFieldsRequireSchemaV2
  | MissingModel
  | InvalidModel
  | InvalidImageSize

section \<open>Resolution\<close>

definition is_ascii_lowercase :: "char \<Rightarrow> bool" where
  "is_ascii_lowercase c \<longleftrightarrow> 97 \<le> (of_char c :: nat) \<and> (of_char c :: nat) \<le> 122"

definition is_ascii_uppercase :: "char \<Rightarrow> bool" where
  "is_ascii_uppercase c \<longleftrightarrow> 65 \<le> (of_char c :: nat) \<and> (of_char c :: nat) \<le> 90"

definition to_ascii_lowercase :: "char \<Rightarrow> char" where
  "to_ascii_lowercase c = (if is_ascii_uppercase c then char_of ((of_char c :: nat) + 32) else c)"

definition eq_ignore_ascii_case :: "string \<Rightarrow> string \<Rightarrow> bool" where
  "eq_ignore_ascii_case a b \<longleftrightarrow> map to_ascii_lowercase a = map to_ascii_lowercase b"

definition valid_model :: "string \<Rightarrow> bool" where
  "valid_model m \<longleftrightarrow>
     1 \<le> length m \<and> length m \<le> MAX_MODEL_LEN
     \<and> list_all (\<lambda>c. is_ascii_lowercase c \<or> is_ascii_uppercase c \<or> is_ascii_digit c
                      \<or> c \<in> set ''._-:/'') m"

definition valid_image_size :: "string \<Rightarrow> bool" where
  "valid_image_size s \<longleftrightarrow>
     1 \<le> length s \<and> length s \<le> MAX_IMAGE_SIZE_LEN
     \<and> list_all (\<lambda>c. is_ascii_lowercase c \<or> is_ascii_digit c \<or> c \<in> set ''._-'') s"

definition identity_matches :: "scope_identity \<Rightarrow> string \<Rightarrow> bool" where
  "identity_matches identity selector \<longleftrightarrow>
     (let selector = trim selector
      in si_id identity = selector \<or> eq_ignore_ascii_case (si_display_name identity) selector)"

definition scope_matches :: "execution_scope_selector \<Rightarrow> execution_scope \<Rightarrow> bool" where
  "scope_matches sel scope \<longleftrightarrow>
     identity_matches (es_provider scope) (sel_provider sel)
     \<and> identity_matches (es_executor scope) (sel_executor sel)
     \<and> identity_matches (es_capability scope) (sel_capability sel)
     \<and> identity_matches (es_billing_merchant scope) (sel_billing_merchant sel)"

definition check_target_fields ::
  "execution_scope_selector \<Rightarrow> scope_resolution_error + unit" where
  "check_target_fields sel =
     (if sel_schema_version sel = EXECUTION_SCOPE_SCHEMA_VERSION
      then if sel_model sel \<noteq> None \<or> sel_image_size sel \<noteq> None
           then Inl TargetFieldsRequireSchemaV2 else Inr ()
      else if sel_schema_version sel = EXECUTION_SCOPE_TARGET_SCHEMA_VERSION
      then and_then (ok_or MissingModel (sel_model sel)) (\<lambda>model.
           if \<not> valid_model model then Inl InvalidModel
           else if (case sel_image_size sel of None \<Rightarrow> False | Some sz \<Rightarrow> \<not> valid_image_size sz)
           then Inl InvalidImageSize else Inr ())
      else Inl (UnsupportedSchema (sel_schema_version sel)))"

definition resolve_execution_scope ::
  "execution_scope_selector \<Rightarrow> execution_scope list \<Rightarrow> scope_resolution_error + execution_scope" where
  "resolve_execution_scope sel catalog =
     and_then (check_target_fields sel) (\<lambda>_.
       case filter (scope_matches sel) catalog of
         [scope] \<Rightarrow> Inr (scope\<lparr>es_schema_version := sel_schema_version sel,
                               es_model := sel_model sel, es_image_size := sel_image_size sel\<rparr>)
       | [] \<Rightarrow> Inl ScopeUnknown
       | _ \<Rightarrow> Inl ScopeAmbiguous)"

section \<open>Theorems\<close>

lemma filter_cases_mset:
  assumes "mset xs = mset ys"
  shows "(case xs of [x] \<Rightarrow> f x | [] \<Rightarrow> e | _ \<Rightarrow> d) = (case ys of [x] \<Rightarrow> f x | [] \<Rightarrow> e | _ \<Rightarrow> d)"
  using assms mset_eq_length[OF assms] by (auto split: list.splits)

definition target_fields_ok :: "execution_scope \<Rightarrow> bool" where
  "target_fields_ok scope \<longleftrightarrow>
     (es_schema_version scope = 1 \<and> es_model scope = None \<and> es_image_size scope = None)
     \<or> (es_schema_version scope = 2 \<and> (\<exists>m. es_model scope = Some m \<and> valid_model m)
        \<and> (\<forall>s. es_image_size scope = Some s \<longrightarrow> valid_image_size s))"

text \<open>
  resolving a scope. A resolved scope is a trusted catalog entry, the only one the selector
  matches; its target fields come from the selector and are well-formed for the schema version (none
  in version 1, a valid model in version 2); and the answer, errors included, does not depend on the
  order of the catalog.
\<close>

theorem resolve_scope_trusted:
  assumes "resolve_execution_scope sel catalog = Inr scope"
  shows "(\<exists>!entry. entry \<in> set catalog \<and> scope_matches sel entry)
    \<and> (\<forall>entry\<in>set catalog. scope_matches sel entry \<longrightarrow> same_catalog_entry scope entry)
    \<and> es_model scope = sel_model sel \<and> es_image_size scope = sel_image_size sel
    \<and> target_fields_ok scope
    \<and> (mset catalog' = mset catalog \<longrightarrow> resolve_execution_scope sel catalog' = Inr scope)"
proof -
  from assms have chk: "check_target_fields sel = Inr ()"
    by (auto simp: resolve_execution_scope_def res_simps)
  from assms obtain entry where f: "filter (scope_matches sel) catalog = [entry]"
    and s: "scope = entry\<lparr>es_schema_version := sel_schema_version sel,
                        es_model := sel_model sel, es_image_size := sel_image_size sel\<rparr>"
    by (auto simp: resolve_execution_scope_def res_simps split: list.splits)
  have only: "e \<in> set catalog \<and> scope_matches sel e \<longleftrightarrow> e = entry" for e
    using arg_cong[OF f, of set] by auto
  have tf: "target_fields_ok scope"
    using chk unfolding s target_fields_ok_def check_target_fields_def
    by (auto simp: EXECUTION_SCOPE_SCHEMA_VERSION_def EXECUTION_SCOPE_TARGET_SCHEMA_VERSION_def res_simps
        split: if_splits option.splits)
  have "resolve_execution_scope sel catalog' = resolve_execution_scope sel catalog" if "mset catalog' = mset catalog"
  proof -
    have "mset (filter (scope_matches sel) catalog') = mset (filter (scope_matches sel) catalog)"
      using that by simp
    then show ?thesis
      unfolding resolve_execution_scope_def by (intro arg_cong[where f = "and_then _"] ext filter_cases_mset)
  qed
  moreover have "same_catalog_entry scope e" if "e \<in> set catalog" "scope_matches sel e" for e
    using only[of e] that by (simp add: s same_catalog_entry_def)
  moreover have "\<exists>!e. e \<in> set catalog \<and> scope_matches sel e" unfolding only by simp
  moreover have "es_model scope = sel_model sel" "es_image_size scope = sel_image_size sel" by (simp_all add: s)
  ultimately show ?thesis using assms tf by simp
qed

definition example_catalog :: "execution_scope list" where
  "example_catalog =
     [\<lparr>es_schema_version = 1, es_provider = \<lparr>si_id = ''provider:a'', si_display_name = ''A''\<rparr>,
       es_executor = \<lparr>si_id = ''executor:x'', si_display_name = ''X''\<rparr>,
       es_capability = \<lparr>si_id = ''capability:image'', si_display_name = ''Image''\<rparr>,
       es_billing_merchant = \<lparr>si_id = ''merchant:m'', si_display_name = ''M''\<rparr>,
       es_model = None, es_image_size = None\<rparr>]"

definition example_selector :: execution_scope_selector where
  "example_selector = \<lparr>sel_schema_version = 2, sel_provider = '' provider:a'', sel_executor = ''x'',
     sel_capability = ''image'', sel_billing_merchant = ''merchant:m'', sel_model = Some ''m-1'',
     sel_image_size = Some ''1k''\<rparr>"

theorem resolve_scope_trusted_witness:
  "target_fields_ok (projr (resolve_execution_scope example_selector example_catalog))"
proof -
  have "resolve_execution_scope example_selector example_catalog
    = Inr (projr (resolve_execution_scope example_selector example_catalog))" by code_simp
  from resolve_scope_trusted[OF this] show ?thesis by blast
qed

end
