(* ===== verification/Hash_Map.thy ===== *)
theory Hash_Map
  imports Hubu_Prelude
begin

text \<open>
  \<^verbatim>\<open>std::collections::HashMap\<close> as the managers use it: \<open>get\<close>, \<open>insert\<close>, \<open>remove\<close> and iteration over
  \<open>values()\<close>. The representation is an association list with distinct keys, so that every operation
  computes; the list order stands for the (unspecified) iteration order of the hash table.

  The interface is the locale \<open>hash_map\<close>: what a lookup returns after an update and how an update
  changes the bag of stored values. The client lemmas (sums over the stored values, used for every
  accounting invariant) are proved once in the locale and reach the managers through the
  interpretation \<open>hm\<close>.
\<close>

type_synonym ('k, 'v) hmap = "('k \<times> 'v) list"

definition hm_empty :: "('k, 'v) hmap" where
  "hm_empty = []"

definition hm_get :: "('k, 'v) hmap \<Rightarrow> 'k \<Rightarrow> 'v option" where
  "hm_get m k = map_of m k"

definition hm_insert :: "'k \<Rightarrow> 'v \<Rightarrow> ('k, 'v) hmap \<Rightarrow> ('k, 'v) hmap" where
  "hm_insert k v m = AList.update k v m"

definition hm_remove :: "'k \<Rightarrow> ('k, 'v) hmap \<Rightarrow> ('k, 'v) hmap" where
  "hm_remove k m = AList.delete k m"

definition hm_values :: "('k, 'v) hmap \<Rightarrow> 'v list" where
  "hm_values m = map snd m"

definition hm_keys :: "('k, 'v) hmap \<Rightarrow> 'k list" where
  "hm_keys m = map fst m"

definition hm_contains :: "('k, 'v) hmap \<Rightarrow> 'k \<Rightarrow> bool" where
  "hm_contains m k \<longleftrightarrow> hm_get m k \<noteq> None"

definition hm_wf :: "('k, 'v) hmap \<Rightarrow> bool" where
  "hm_wf m \<longleftrightarrow> distinct (map fst m)"

section \<open>The interface\<close>

locale hash_map =
  fixes empty :: "'m"
    and get :: "'m \<Rightarrow> 'k \<Rightarrow> 'v option"
    and insert :: "'k \<Rightarrow> 'v \<Rightarrow> 'm \<Rightarrow> 'm"
    and remove :: "'k \<Rightarrow> 'm \<Rightarrow> 'm"
    and "values" :: "'m \<Rightarrow> 'v list"
    and wf :: "'m \<Rightarrow> bool"
  assumes wf_empty: "wf empty"
    and wf_insert: "wf m \<Longrightarrow> wf (insert k v m)"
    and wf_remove: "wf m \<Longrightarrow> wf (remove k m)"
    and get_empty: "get empty k = None"
    and get_insert: "get (insert k v m) j = (if j = k then Some v else get m j)"
    and get_remove: "wf m \<Longrightarrow> get (remove k m) j = (if j = k then None else get m j)"
    and values_empty: "values empty = []"
    and values_get: "wf m \<Longrightarrow> v \<in> set (values m) \<longleftrightarrow> (\<exists>k. get m k = Some v)"
    and values_insert_new: "get m k = None \<Longrightarrow>
      mset (values (insert k v m)) = add_mset v (mset (values m))"
    and values_insert_old: "wf m \<Longrightarrow> get m k = Some u \<Longrightarrow>
      add_mset u (mset (values (insert k v m))) = add_mset v (mset (values m))"
    and values_remove_old: "wf m \<Longrightarrow> get m k = Some u \<Longrightarrow>
      add_mset u (mset (values (remove k m))) = mset (values m)"
    and values_remove_new: "wf m \<Longrightarrow> get m k = None \<Longrightarrow> values (remove k m) = values m"
begin

lemma sum_values_mset:
  fixes w :: "'v \<Rightarrow> int"
  shows "sum_list (map w (values m)) = (\<Sum>v\<in>#mset (values m). w v)"
  by (metis mset_map sum_mset_sum_list)

lemma sum_empty:
  fixes w :: "'v \<Rightarrow> int"
  shows "sum_list (map w (values empty)) = 0"
  by (simp add: values_empty)

lemma sum_insert_new:
  fixes w :: "'v \<Rightarrow> int"
  assumes "get m k = None"
  shows "sum_list (map w (values (insert k v m))) = w v + sum_list (map w (values m))"
  unfolding sum_values_mset using values_insert_new[OF assms, of v] by simp

lemma sum_insert_old:
  fixes w :: "'v \<Rightarrow> int"
  assumes "wf m" and "get m k = Some u"
  shows "sum_list (map w (values (insert k v m))) = sum_list (map w (values m)) - w u + w v"
proof -
  have "(\<Sum>x\<in>#add_mset u (mset (values (insert k v m))). w x)
      = (\<Sum>x\<in>#add_mset v (mset (values m)). w x)"
    by (simp only: values_insert_old[OF assms])
  then show ?thesis unfolding sum_values_mset by simp
qed

lemma sum_remove_old:
  fixes w :: "'v \<Rightarrow> int"
  assumes "wf m" and "get m k = Some u"
  shows "sum_list (map w (values (remove k m))) = sum_list (map w (values m)) - w u"
proof -
  have "(\<Sum>x\<in>#add_mset u (mset (values (remove k m))). w x) = (\<Sum>x\<in>#mset (values m). w x)"
    by (simp only: values_remove_old[OF assms])
  then show ?thesis unfolding sum_values_mset by simp
qed

lemma sum_nonneg:
  fixes w :: "'v \<Rightarrow> int"
  assumes "wf m" and "\<And>k v. get m k = Some v \<Longrightarrow> 0 \<le> w v"
  shows "0 \<le> sum_list (map w (values m))"
  using assms values_get by (fastforce intro: sum_list_nonneg)

lemma sum_ge_member:
  fixes w :: "'v \<Rightarrow> int"
  assumes "wf m" and "\<And>k v. get m k = Some v \<Longrightarrow> 0 \<le> w v" and "get m k = Some u"
  shows "w u \<le> sum_list (map w (values m))"
proof -
  have "0 \<le> sum_list (map w (values (remove k m)))"
    using assms(1,2) by (intro sum_nonneg) (auto simp: wf_remove get_remove split: if_splits)
  then show ?thesis using sum_remove_old[OF assms(1,3), of w] by simp
qed

lemma values_insert_set:
  assumes "wf m" and "v' \<in> set (values (insert k v m))"
  shows "v' = v \<or> (\<exists>j. j \<noteq> k \<and> get m j = Some v')"
  using assms(2) values_get[OF wf_insert[OF assms(1)]] by (fastforce simp: get_insert split: if_splits)

end

section \<open>The association lists implement it\<close>

lemma mset_alist_update_new:
  "map_of m k = None \<Longrightarrow> mset (map snd (AList.update k v m)) = add_mset v (mset (map snd m))"
  by (induction m) (auto split: if_splits)

lemma mset_alist_update_old:
  "distinct (map fst m) \<Longrightarrow> map_of m k = Some u \<Longrightarrow>
   add_mset u (mset (map snd (AList.update k v m))) = add_mset v (mset (map snd m))"
  by (induction m) (auto split: if_splits simp: add_mset_commute)

lemma alist_delete_absent: "map_of m k = None \<Longrightarrow> AList.delete k m = m"
  by (induction m) (auto split: if_splits)

lemma mset_alist_delete:
  "distinct (map fst m) \<Longrightarrow> map_of m k = Some u \<Longrightarrow>
   add_mset u (mset (map snd (AList.delete k m))) = mset (map snd m)"
proof (induction m)
  case (Cons p m)
  obtain j w where p: "p = (j, w)" by (cases p)
  show ?case
  proof (cases "j = k")
    case True
    with Cons.prems p have "map_of m k = None" by (simp add: map_of_eq_None_iff)
    with True Cons.prems p show ?thesis by (simp add: alist_delete_absent)
  next
    case False
    with Cons p show ?thesis by (simp add: add_mset_commute)
  qed
qed simp

interpretation hm: hash_map hm_empty hm_get hm_insert hm_remove hm_values hm_wf
proof (unfold_locales, goal_cases)
  case 1 show ?case by (simp add: hm_wf_def hm_empty_def)
next
  case (2 m k v) then show ?case by (simp add: hm_wf_def hm_insert_def distinct_update)
next
  case (3 m k) then show ?case by (simp add: hm_wf_def hm_remove_def distinct_delete)
next
  case (4 k) show ?case by (simp add: hm_get_def hm_empty_def)
next
  case (5 k v m j) show ?case by (simp add: hm_get_def hm_insert_def update_conv')
next
  case (6 m k j) show ?case by (simp add: hm_get_def hm_remove_def delete_conv')
next
  case 7 show ?case by (simp add: hm_values_def hm_empty_def)
next
  case (8 m v) then show ?case
    by (force simp: hm_wf_def hm_values_def hm_get_def dest: map_of_SomeD map_of_is_SomeI)
next
  case (9 m k v) then show ?case
    by (simp only: hm_get_def hm_values_def hm_insert_def mset_alist_update_new)
next
  case (10 m k u v) then show ?case
    by (simp only: hm_wf_def hm_get_def hm_values_def hm_insert_def mset_alist_update_old)
next
  case (11 m k u) then show ?case
    by (simp only: hm_wf_def hm_get_def hm_values_def hm_remove_def mset_alist_delete)
next
  case (12 m k) then show ?case
    by (simp only: hm_get_def hm_values_def hm_remove_def alist_delete_absent)
qed

lemmas hm_get_insert [simp, hm_simps] = hm.get_insert
lemmas hm_get_empty [simp, hm_simps] = hm.get_empty
lemmas hm_wf_intros [simp, intro] = hm.wf_empty hm.wf_insert hm.wf_remove
lemmas hm_get_remove [hm_simps] = hm.get_remove

lemma hm_contains_simps [simp]:
  "hm_contains hm_empty k = False"
  "hm_contains (hm_insert j v m) k = (k = j \<or> hm_contains m k)"
  by (simp_all add: hm_contains_def)

lemma hm_keys_get: "k \<in> set (hm_keys m) \<longleftrightarrow> hm_get m k \<noteq> None"
  by (metis hm_get_def hm_keys_def list.set_map map_of_eq_None_iff)

lemma hm_insert_triv: "hm_get m k = Some v \<Longrightarrow> hm_insert k v m = m"
  by (simp only: hm_get_def hm_insert_def) (rule update_triv)

lemma alist_update_new: "map_of m k = None \<Longrightarrow> AList.update k v m = m @ [(k, v)]"
  by (induction m) (auto split: if_splits)

lemma hm_values_insert_append:
  "hm_get m k = None \<Longrightarrow> hm_values (hm_insert k v m) = hm_values m @ [v]"
  by (simp only: hm_get_def hm_values_def hm_insert_def) (simp add: alist_update_new)

text \<open>Undoing an insertion restores the map itself, its iteration order included.\<close>

lemma alist_delete_update_new:
  "map_of m k = None \<Longrightarrow> AList.delete k (AList.update k v m) = m"
proof (induction m)
  case (Cons p m)
  then show ?case by (cases p) (auto split: if_splits)
qed simp

lemma hm_remove_insert_new: "hm_get m k = None \<Longrightarrow> hm_remove k (hm_insert k v m) = m"
  by (simp only: hm_get_def hm_remove_def hm_insert_def alist_delete_update_new)

lemma alist_update_update_old:
  "map_of m k = Some u \<Longrightarrow> AList.update k u (AList.update k v m) = m"
proof (induction m)
  case (Cons p m)
  then show ?case by (cases p) (auto split: if_splits)
qed simp

lemma hm_insert_back: "hm_get m k = Some u \<Longrightarrow> hm_insert k u (hm_insert k v m) = m"
  by (simp only: hm_get_def hm_insert_def alist_update_update_old)

text \<open>When every stored value carries its own key, the keys can be read off the values.\<close>

lemma hm_values_keyed:
  assumes "hm_wf m" and "\<And>k v. hm_get m k = Some v \<Longrightarrow> f v = k"
  shows "map f (hm_values m) = hm_keys m"
proof -
  have "f (snd p) = fst p" if "p \<in> set m" for p
    using assms that by (cases p) (auto simp: hm_wf_def hm_get_def)
  then show ?thesis by (simp add: hm_values_def hm_keys_def)
qed

lemma hm_keys_distinct: "hm_wf m \<Longrightarrow> distinct (hm_keys m)"
  by (simp add: hm_wf_def hm_keys_def)

text \<open>Closed lookups evaluate on the list representation.\<close>

lemmas hm_eval = hm_empty_def hm_get_def hm_insert_def hm_remove_def hm_values_def hm_keys_def
  hm_contains_def

end
