(* ===== verification/Spend_Request.thy ===== *)
theory Spend_Request
  imports Budget_Model Execution_Scope Hash_Map
begin

text \<open>
  \<^verbatim>\<open>crates/hubu-core/src/spend/model.rs\<close>: the spend request with its stored representation and its
  replay equivalence, the lease configuration, the exact vendor cost of an executor with its charge in
  budget units and in legacy cents, and the records the spend manager keeps. Hashing (\<open>sha256\<close>, the
  printed hexadecimal digest) is a parameter.
\<close>

section \<open>Requests\<close>

datatype user_id = UserId uuid
datatype agent_account_id = AgentAccountId uuid
datatype payment_id = PaymentId uuid
datatype spend_auth_token_id = SpendAuthTokenId uuid

record spend_request =
  sr_amount :: amount
  sr_currency :: currency
  sr_owner_user_id :: user_id
  sr_agent_id :: agent_id
  sr_agent_account_id :: agent_account_id
  sr_merchant :: "string option"
  sr_execution_scope :: "execution_scope option"
  sr_category :: "string option"
  sr_task_id :: "string option"
  sr_reason :: string
  sr_lease_profile :: string

record spend_request_repr =
  rp_amount_cents :: "int option"
  rp_amount :: "string option"
  rp_currency :: currency
  rp_owner_user_id :: user_id
  rp_agent_id :: agent_id
  rp_agent_account_id :: agent_account_id
  rp_merchant :: "string option"
  rp_execution_scope :: "execution_scope option"
  rp_category :: "string option"
  rp_task_id :: "string option"
  rp_reason :: string
  rp_lease_profile :: string

datatype spend_request_error =
    ReprCents money_error
  | ReprAmount parse_amount_error
  | ReprBothAmounts
  | ReprMissingAmount

definition spend_request_try_from :: "spend_request_repr \<Rightarrow> spend_request_error + spend_request" where
  "spend_request_try_from repr =
     and_then
       (case (rp_amount_cents repr, rp_amount repr) of
          (Some cents, None) \<Rightarrow> map_err ReprCents (from_legacy_cents cents)
        | (None, Some amount) \<Rightarrow> map_err ReprAmount (amount_from_str amount)
        | (Some _, Some _) \<Rightarrow> Inl ReprBothAmounts
        | (None, None) \<Rightarrow> Inl ReprMissingAmount)
       (\<lambda>amount. Inr
          \<lparr>sr_amount = amount, sr_currency = rp_currency repr, sr_owner_user_id = rp_owner_user_id repr,
           sr_agent_id = rp_agent_id repr, sr_agent_account_id = rp_agent_account_id repr,
           sr_merchant = rp_merchant repr, sr_execution_scope = rp_execution_scope repr,
           sr_category = rp_category repr, sr_task_id = rp_task_id repr, sr_reason = rp_reason repr,
           sr_lease_profile = rp_lease_profile repr\<rparr>)"

definition spend_request_into_repr :: "spend_request \<Rightarrow> spend_request_repr" where
  "spend_request_into_repr request =
     (let whole_cents =
            (if legacy_cents_floor (sr_amount request) = legacy_cents_ceil (sr_amount request)
             then Some (legacy_cents_floor (sr_amount request)) else None)
      in \<lparr>rp_amount_cents = whole_cents,
          rp_amount = (if whole_cents = None then Some (amount_display (sr_amount request)) else None),
          rp_currency = sr_currency request, rp_owner_user_id = sr_owner_user_id request,
          rp_agent_id = sr_agent_id request, rp_agent_account_id = sr_agent_account_id request,
          rp_merchant = sr_merchant request, rp_execution_scope = sr_execution_scope request,
          rp_category = sr_category request, rp_task_id = sr_task_id request,
          rp_reason = sr_reason request, rp_lease_profile = sr_lease_profile request\<rparr>)"

section \<open>Replays\<close>

definition normalize_legacy_reason :: "spend_request \<Rightarrow> spend_request" where
  "normalize_legacy_reason r =
     (if sr_reason r = [] then r\<lparr>sr_reason := (case sr_task_id r of None \<Rightarrow> [] | Some t \<Rightarrow> t)\<rparr> else r)"

definition is_legacy_scope_for_merchant ::
  "(string \<Rightarrow> string) \<Rightarrow> execution_scope \<Rightarrow> string \<Rightarrow> bool" where
  "is_legacy_scope_for_merchant sha256 scope merchant \<longleftrightarrow>
     (let merchant = trim merchant; digest = sha256 merchant in
      es_schema_version scope = EXECUTION_SCOPE_SCHEMA_VERSION
      \<and> es_provider scope = \<lparr>si_id = ''provider:legacy:unresolved'',
                             si_display_name = ''Legacy unresolved provider''\<rparr>
      \<and> es_executor scope = \<lparr>si_id = ''executor:legacy:unresolved'',
                             si_display_name = ''Legacy unresolved executor''\<rparr>
      \<and> es_capability scope = \<lparr>si_id = ''capability:legacy:unresolved'',
                               si_display_name = ''Legacy unresolved capability''\<rparr>
      \<and> es_billing_merchant scope = \<lparr>si_id = ''merchant:legacy:'' @ take 16 digest,
                                     si_display_name = merchant\<rparr>)"

definition replay_equivalent ::
  "(string \<Rightarrow> string) \<Rightarrow> spend_request \<Rightarrow> spend_request \<Rightarrow> bool" where
  "replay_equivalent sha256 self other \<longleftrightarrow>
     (let self = normalize_legacy_reason self; other = normalize_legacy_reason other in
      if self = other then True
      else
        let compare = (\<lambda>without_scope with_scope scope.
              case sr_merchant with_scope of
                None \<Rightarrow> False
              | Some merchant \<Rightarrow>
                  is_legacy_scope_for_merchant sha256 scope merchant
                  \<and> without_scope = with_scope\<lparr>sr_execution_scope := None\<rparr>)
        in case (sr_execution_scope self, sr_execution_scope other) of
             (None, Some scope) \<Rightarrow> compare self other scope
           | (Some scope, None) \<Rightarrow> compare other self scope
           | _ \<Rightarrow> False)"

section \<open>Leases\<close>

record lease_profile =
  claim_ttl_seconds :: int

record lease_config =
  authorization_ttl_seconds :: int
  default_lease_profile :: string
  lease_profiles :: "(string, lease_profile) hmap"

definition lease_config_default :: lease_config where
  "lease_config_default =
     \<lparr>authorization_ttl_seconds = 5 * 60, default_lease_profile = ''default'',
      lease_profiles = hm_insert ''default'' \<lparr>claim_ttl_seconds = 15 * 60\<rparr> hm_empty\<rparr>"

datatype lease_config_error =
    AuthorizationTtlNotPositive
  | DefaultProfileNotConfigured string
  | EmptyProfileName
  | ClaimTtlNotPositive string

definition lease_config_validate :: "lease_config \<Rightarrow> lease_config_error + unit" where
  "lease_config_validate c =
     (if authorization_ttl_seconds c \<le> 0 then Inl AuthorizationTtlNotPositive
      else if \<not> hm_contains (lease_profiles c) (default_lease_profile c)
      then Inl (DefaultProfileNotConfigured (default_lease_profile c))
      else try_each (\<lambda>(name, profile).
             if is_blank name then Inl EmptyProfileName
             else if claim_ttl_seconds profile \<le> 0 then Inl (ClaimTtlNotPositive name)
             else Inr ()) (lease_profiles c))"

definition lease_profile_of :: "lease_config \<Rightarrow> string \<Rightarrow> lease_profile option" where
  "lease_profile_of c name = hm_get (lease_profiles c) name"

section \<open>Vendor costs\<close>

definition MAX_VENDOR_COST_DECIMAL_SCALE :: nat where
  "MAX_VENDOR_COST_DECIMAL_SCALE = 18"

record vendor_cost =
  vc_amount :: int
  vc_scale :: nat
  vc_currency :: currency

datatype vendor_cost_error = CostNegative | CostScaleTooLarge | CostNotRepresentable

definition budget_charge :: "vendor_cost \<Rightarrow> vendor_cost_error + amount" where
  "budget_charge c =
     (if vc_amount c < 0 then Inl CostNegative
      else if vc_scale c > MAX_VENDOR_COST_DECIMAL_SCALE then Inl CostScaleTooLarge
      else map_err (\<lambda>_. CostNotRepresentable)
        (and_then (exact_money_new (vc_amount c) (vc_scale c) (asset_from_currency (vc_currency c)))
           (\<lambda>exact. to_amount_ceil exact (identity_rate ''budget-currency'' 0))))"

definition conservative_budget_charge_cents :: "vendor_cost \<Rightarrow> vendor_cost_error + int" where
  "conservative_budget_charge_cents c =
     (if vc_amount c < 0 then Inl CostNegative
      else if vc_scale c > MAX_VENDOR_COST_DECIMAL_SCALE then Inl CostScaleTooLarge
      else if vc_scale c \<le> 2
      then and_then (ok_or CostNotRepresentable (checked fits_i64 (10 ^ (2 - vc_scale c)))) (\<lambda>multiplier.
           ok_or CostNotRepresentable (checked_mul_i64 (vc_amount c) multiplier))
      else and_then (ok_or CostNotRepresentable (checked fits_i64 (10 ^ (vc_scale c - 2)))) (\<lambda>divisor.
           let quotient = trunc_div (vc_amount c) divisor in
           if trunc_mod (vc_amount c) divisor = 0 then Inr quotient
           else ok_or CostNotRepresentable (checked_add_i64 quotient 1)))"

section \<open>The stored representation\<close>

lemma whole_cents_units:
  assumes "legacy_cents_floor a = legacy_cents_ceil a"
  shows "units a = legacy_cents_floor a * 10000"
proof -
  have "units a mod 10000 = 0"
    using assms by (auto simp: legacy_cents_floor_def legacy_cents_ceil_def money_consts Let_def split: if_splits)
  then show ?thesis
    using div_mult_mod_eq[of "units a" 10000] by (simp add: legacy_cents_floor_def money_consts)
qed

text \<open>
  storing a spend request and reading it back is the identity, for every representable request
  whose amount is not negative: whole-cent amounts go through the legacy cents field, all others
  through the exact decimal text.
\<close>

theorem spend_request_repr_roundtrip:
  assumes "amount_ok (sr_amount r)" and "0 \<le> units (sr_amount r)"
  shows "spend_request_try_from (spend_request_into_repr r) = Inr r"
proof (cases "legacy_cents_floor (sr_amount r) = legacy_cents_ceil (sr_amount r)")
  case True
  from whole_cents_units[OF True] assms(1)
  have "from_legacy_cents (legacy_cents_floor (sr_amount r)) = Inr (sr_amount r)"
    by (simp add: from_legacy_cents_def res_simps amount_ok_def money_consts checked_def amount_eq_iff)
  with True show ?thesis by (simp add: spend_request_try_from_def spend_request_into_repr_def Let_def)
next
  case False
  with parse_displayed_amount[OF assms] show ?thesis
    by (simp add: spend_request_try_from_def spend_request_into_repr_def Let_def)
qed

definition example_request :: spend_request where
  "example_request = \<lparr>sr_amount = Amount 5000, sr_currency = Usd, sr_owner_user_id = UserId 1,
     sr_agent_id = AgentId 7, sr_agent_account_id = AgentAccountId 2, sr_merchant = Some ''m'',
     sr_execution_scope = None, sr_category = None, sr_task_id = Some ''t'', sr_reason = ''r'',
     sr_lease_profile = ''default''\<rparr>"

theorem spend_request_repr_roundtrip_witness:
  "spend_request_try_from (spend_request_into_repr example_request) = Inr example_request
   \<and> rp_amount (spend_request_into_repr example_request) = Some ''0.005''"
proof -
  have "amount_ok (sr_amount example_request)" "0 \<le> units (sr_amount example_request)"
    by code_simp+
  moreover have "rp_amount (spend_request_into_repr example_request) = Some ''0.005''" by code_simp
  ultimately show ?thesis using spend_request_repr_roundtrip by blast
qed

section \<open>Replays are symmetric and keep what is charged\<close>

lemma normalize_legacy_reason_frame [simp]:
  "sr_amount (normalize_legacy_reason r) = sr_amount r"
  "sr_currency (normalize_legacy_reason r) = sr_currency r"
  "sr_owner_user_id (normalize_legacy_reason r) = sr_owner_user_id r"
  "sr_agent_id (normalize_legacy_reason r) = sr_agent_id r"
  "sr_agent_account_id (normalize_legacy_reason r) = sr_agent_account_id r"
  "sr_merchant (normalize_legacy_reason r) = sr_merchant r"
  "sr_execution_scope (normalize_legacy_reason r) = sr_execution_scope r"
  "sr_category (normalize_legacy_reason r) = sr_category r"
  "sr_task_id (normalize_legacy_reason r) = sr_task_id r"
  "sr_lease_profile (normalize_legacy_reason r) = sr_lease_profile r"
  by (simp_all add: normalize_legacy_reason_def)

definition same_charge :: "spend_request \<Rightarrow> spend_request \<Rightarrow> bool" where
  "same_charge a b \<longleftrightarrow>
     sr_amount a = sr_amount b \<and> sr_currency a = sr_currency b
     \<and> sr_owner_user_id a = sr_owner_user_id b \<and> sr_agent_id a = sr_agent_id b
     \<and> sr_agent_account_id a = sr_agent_account_id b \<and> sr_merchant a = sr_merchant b
     \<and> sr_category a = sr_category b \<and> sr_task_id a = sr_task_id b
     \<and> sr_lease_profile a = sr_lease_profile b"

lemma same_charge_normalized:
  "same_charge (normalize_legacy_reason a) (normalize_legacy_reason b) \<longleftrightarrow> same_charge a b"
  by (simp add: same_charge_def)

lemma same_charge_refl [simp]: "same_charge a a"
  "same_charge (a\<lparr>sr_execution_scope := x\<rparr>) a" "same_charge a (a\<lparr>sr_execution_scope := x\<rparr>)"
  by (simp_all add: same_charge_def)

lemma replay_equivalent_cases:
  assumes "replay_equivalent sha256 a b"
  obtains (same) "normalize_legacy_reason a = normalize_legacy_reason b"
  | (left) "normalize_legacy_reason a = (normalize_legacy_reason b)\<lparr>sr_execution_scope := None\<rparr>"
  | (right) "normalize_legacy_reason b = (normalize_legacy_reason a)\<lparr>sr_execution_scope := None\<rparr>"
  using assms by (auto simp: replay_equivalent_def Let_def split: if_splits option.splits)

text \<open>
  Two requests that are accepted as replays of each other move the same money: replay equivalence
  is reflexive and symmetric, and equivalent requests agree on amount, currency, owner, agent, account,
  merchant, category, task and lease profile. Only the recorded reason and a legacy execution scope may
  differ.
\<close>

theorem replay_keeps_charge:
  "replay_equivalent sha256 a a
   \<and> (replay_equivalent sha256 a b \<longleftrightarrow> replay_equivalent sha256 b a)
   \<and> (replay_equivalent sha256 a b \<longrightarrow> same_charge a b)"
proof (intro conjI impI)
  show "replay_equivalent sha256 a a" by (simp add: replay_equivalent_def Let_def)
  show "replay_equivalent sha256 a b \<longleftrightarrow> replay_equivalent sha256 b a"
    by (auto simp: replay_equivalent_def Let_def split: option.splits)
  assume "replay_equivalent sha256 a b"
  then have "same_charge (normalize_legacy_reason a) (normalize_legacy_reason b)"
  proof (cases rule: replay_equivalent_cases)
    case same
    then show ?thesis by (simp only: same_charge_refl)
  next
    case left
    then show ?thesis by (simp only: same_charge_refl)
  next
    case right
    then show ?thesis by (simp only: same_charge_refl)
  qed
  then show "same_charge a b" by (simp only: same_charge_normalized)
qed

theorem replay_keeps_charge_witness:
  "same_charge example_request (example_request\<lparr>sr_reason := ''r''\<rparr>)"
proof -
  have "replay_equivalent (\<lambda>_. ''00'') example_request (example_request\<lparr>sr_reason := ''r''\<rparr>)"
    by code_simp
  with replay_keeps_charge show ?thesis by blast
qed

section \<open>Vendor costs\<close>

lemma budget_charge_value:
  assumes "budget_charge c = Inr a" and "fits_i64 (vc_amount c)"
  shows "units a = ceil_div (vc_amount c * 1000000) (10 ^ vc_scale c)" and "amount_ok a"
    and "0 \<le> vc_amount c" and "vc_scale c \<le> 18"
proof -
  from assms(1) obtain m where m: "exact_money_new (vc_amount c) (vc_scale c) (asset_from_currency (vc_currency c)) = Inr m"
    and t: "to_amount_ceil m (identity_rate ''budget-currency'' 0) = Inr a"
    and r: "0 \<le> vc_amount c" "vc_scale c \<le> 18"
    by (auto simp: budget_charge_def res_simps MAX_VENDOR_COST_DECIMAL_SCALE_def split: if_splits)
  have "fits_i128 (vc_amount c)" using assms(2) by (simp add: range_simps)
  then have ok: "exact_money_ok m" using m by (rule exact_money_new_ok)
  have mm: "em_amount m = vc_amount c" "em_scale m = vc_scale c"
    using m by (auto simp: exact_money_new_def split: if_splits)
  from to_amount_ceil_value[OF ok identity_rate_ok t] mm r
  show "units a = ceil_div (vc_amount c * 1000000) (10 ^ vc_scale c)" "amount_ok a"
    "0 \<le> vc_amount c" "vc_scale c \<le> 18"
    by (simp_all add: identity_rate_def)
qed

lemma cents_of_cost:
  assumes "0 \<le> A"
  shows "s \<le> 2 \<Longrightarrow> ceil_div (A * 100) (10 ^ s) = A * 10 ^ (2 - s)"
    and "2 < s \<Longrightarrow> ceil_div (A * 100) (10 ^ s) = ceil_div A (10 ^ (s - 2))"
proof -
  assume "s \<le> 2"
  then have "A * 100 = A * 10 ^ (2 - s) * 10 ^ s" by (simp flip: power_add)
  then show "ceil_div (A * 100) (10 ^ s) = A * 10 ^ (2 - s)" by (simp only: ceil_div_exact zero_less_power zero_less_numeral)
next
  assume "2 < s"
  then have "s = (s - 2) + 2" by simp
  then have "(10::int) ^ s = 10 ^ (s - 2) * 10 ^ 2" using power_add[of "10::int" "s - 2" 2] by metis
  then have "(10::int) ^ s = 10 ^ (s - 2) * 100" by simp
  then show "ceil_div (A * 100) (10 ^ s) = ceil_div A (10 ^ (s - 2))" by (simp add: ceil_div_cancel)
qed

lemma fits_power_ten:
  assumes "n \<le> 18"
  shows "fits_i64 (10 ^ n)"
proof -
  have "(10::int) ^ n \<le> 10 ^ 18" using assms by (intro power_increasing) simp_all
  then have le: "(10::int) ^ n \<le> 1000000000000000000" by simp
  have "(0::int) < 10 ^ n" by simp
  with le show ?thesis unfolding fits_i64_def by (intro conjI) (linarith | simp)+
qed

text \<open>
  the two charges of one vendor cost agree. The budget charge is the least amount of accounting
  units that covers the exact cost, and the whole-cent charge is that amount rounded up to cents:
  rounding twice is the same as rounding once, so neither understates the cost.
\<close>

theorem vendor_cost_charges_agree:
  assumes "budget_charge c = Inr a" and "fits_i64 (vc_amount c)"
  shows "vc_amount c * 1000000 \<le> units a * 10 ^ vc_scale c
    \<and> units a * 10 ^ vc_scale c < vc_amount c * 1000000 + 10 ^ vc_scale c
    \<and> conservative_budget_charge_cents c = Inr (legacy_cents_ceil a)"
proof -
  note v = budget_charge_value[OF assms]
  let ?A = "vc_amount c" and ?s = "vc_scale c"
  have "legacy_cents_ceil a = ceil_div (?A * 1000000) (10 ^ ?s * 10000)"
    by (simp add: legacy_cents_ceil_eq money_consts v(1) ceil_div_ceil_div)
  also have "\<dots> = ceil_div (?A * 100) (10 ^ ?s)"
    using ceil_div_cancel[of "10 ^ ?s" 10000 "?A * 100"] by (simp add: mult.commute)
  finally have cents: "legacy_cents_ceil a = ceil_div (?A * 100) (10 ^ ?s)" .
  have fits: "fits_i64 (legacy_cents_ceil a)" by (rule legacy_cents_ceil_range[OF v(2)])
  have "conservative_budget_charge_cents c = Inr (legacy_cents_ceil a)"
  proof (cases "?s \<le> 2")
    case True
    have "fits_i64 (10 ^ (2 - ?s))" by (rule fits_power_ten) simp
    with True v(3,4) fits show ?thesis
      by (simp add: conservative_budget_charge_cents_def MAX_VENDOR_COST_DECIMAL_SCALE_def checked_def
          cents cents_of_cost)
  next
    case False
    have "fits_i64 (10 ^ (?s - 2))" by (rule fits_power_ten) (use v(4) in simp)
    moreover have "legacy_cents_ceil a = ceil_div ?A (10 ^ (?s - 2))"
      using False v(3) by (simp add: cents cents_of_cost(2))
    ultimately show ?thesis
      using False v(3,4) fits
      by (simp add: conservative_budget_charge_cents_def MAX_VENDOR_COST_DECIMAL_SCALE_def checked_def
          trunc_nonneg ceil_div_def Let_def split: if_splits)
  qed
  with ceil_div_bounds[of "10 ^ ?s" "?A * 1000000"] v(1) show ?thesis by simp
qed

theorem vendor_cost_charges_agree_witness:
  "budget_charge \<lparr>vc_amount = 123456789, vc_scale = 9, vc_currency = Usd\<rparr> = Inr (Amount 123457)
   \<and> conservative_budget_charge_cents \<lparr>vc_amount = 123456789, vc_scale = 9, vc_currency = Usd\<rparr> = Inr 13"
proof -
  let ?c = "\<lparr>vc_amount = 123456789, vc_scale = 9, vc_currency = Usd\<rparr>"
  have b: "budget_charge ?c = Inr (Amount 123457)" by code_simp
  have "fits_i64 (vc_amount ?c)" by code_simp
  moreover have "legacy_cents_ceil (Amount 123457) = 13" by code_simp
  ultimately show ?thesis using vendor_cost_charges_agree[OF b] b by simp
qed

section \<open>Lease configurations\<close>

lemma lease_config_default_valid: "lease_config_validate lease_config_default = Inr ()"
  by code_simp

lemma lease_config_validated:
  assumes "lease_config_validate c = Inr ()" and "lease_profile_of c name = Some p"
  shows "0 < claim_ttl_seconds p" and "0 < authorization_ttl_seconds c"
proof -
  have mem: "(name, p) \<in> set (lease_profiles c)"
    using assms(2) by (simp add: lease_profile_of_def hm_get_def map_of_SomeD)
  have "try_each (\<lambda>(name, profile).
             if is_blank name then Inl EmptyProfileName
             else if claim_ttl_seconds profile \<le> 0 then Inl (ClaimTtlNotPositive name)
             else Inr ()) (lease_profiles c) = Inr ()"
    using assms(1) by (auto simp: lease_config_validate_def split: if_splits)
  with mem show "0 < claim_ttl_seconds p" by (fastforce simp: try_each_ok_iff split: if_splits)
  show "0 < authorization_ttl_seconds c"
    using assms(1) by (auto simp: lease_config_validate_def split: if_splits)
qed

end
