(* ===== verification/Policy.thy ===== *)
theory Policy
  imports Spend_Request
begin

text \<open>
  \<^verbatim>\<open>crates/hubu-core/src/policy/\<close>: conditions (\<^verbatim>\<open>condition.rs\<close>), policies and rules (\<^verbatim>\<open>model.rs\<close>), and the
  engine that validates a policy and merges the effects of its matching rules (\<^verbatim>\<open>engine.rs\<close>).

  Comparing values of different kinds panics in the source. Evaluation therefore returns an option,
  \<open>None\<close> for the panic, and the conjunctions and disjunctions stop early like the iterators they
  model, so that an operand that would panic may never be reached. Identifiers are printed by the
  parameter \<open>show_agent\<close>.
\<close>

section \<open>Conditions\<close>

datatype field =
    FieldAmount | FieldCurrency | FieldAgentId | FieldMerchant | FieldProvider | FieldExecutor
  | FieldCapability | FieldBillingMerchant | FieldModel | FieldImageSize | FieldCategory

datatype value_kind = KindString | KindMoney | KindCurrency | KindAgentId

datatype policy_value =
    VString string
  | VMoney amount
  | VMoneyCents int
  | VCurrency currency
  | VAgentId agent_id

datatype condition =
    CAll "condition list"
  | CAny "condition list"
  | CNot condition
  | CEq field policy_value
  | CNeq field policy_value
  | CGt field policy_value
  | CGte field policy_value
  | CLt field policy_value
  | CLte field policy_value
  | CIn field "policy_value list"
  | CExists field

section \<open>Printing\<close>

definition field_name :: "field \<Rightarrow> string" where
  "field_name f =
     (case f of
        FieldAmount \<Rightarrow> ''amount'' | FieldCurrency \<Rightarrow> ''currency'' | FieldAgentId \<Rightarrow> ''agent_id''
      | FieldMerchant \<Rightarrow> ''merchant'' | FieldProvider \<Rightarrow> ''provider'' | FieldExecutor \<Rightarrow> ''executor''
      | FieldCapability \<Rightarrow> ''capability'' | FieldBillingMerchant \<Rightarrow> ''billing_merchant''
      | FieldModel \<Rightarrow> ''model'' | FieldImageSize \<Rightarrow> ''image_size'' | FieldCategory \<Rightarrow> ''category'')"

definition value_name :: "(agent_id \<Rightarrow> string) \<Rightarrow> policy_value \<Rightarrow> string" where
  "value_name show_agent v =
     (case v of
        VString s \<Rightarrow> ''`'' @ s @ ''`''
      | VMoney a \<Rightarrow> ''USD '' @ amount_display a
      | VMoneyCents cents \<Rightarrow>
          (case from_legacy_cents cents of
             Inr a \<Rightarrow> ''USD '' @ amount_display a
           | Inl _ \<Rightarrow> show_int cents @ '' cents'')
      | VCurrency c \<Rightarrow> currency_display c
      | VAgentId a \<Rightarrow> show_agent a)"

fun join_with :: "string \<Rightarrow> string list \<Rightarrow> string" where
  "join_with sep [] = []"
| "join_with sep [x] = x"
| "join_with sep (x # y # ys) = x @ sep @ join_with sep (y # ys)"

definition describe_comparison ::
  "(agent_id \<Rightarrow> string) \<Rightarrow> field \<Rightarrow> string \<Rightarrow> policy_value \<Rightarrow> string" where
  "describe_comparison show_agent f operator v =
     field_name f @ '' '' @ operator @ '' '' @ value_name show_agent v"

fun describe :: "(agent_id \<Rightarrow> string) \<Rightarrow> condition \<Rightarrow> string" where
  "describe sa (CAll cs) = ''all of ('' @ join_with ''; '' (map (describe sa) cs) @ '')''"
| "describe sa (CAny cs) = ''any of ('' @ join_with ''; '' (map (describe sa) cs) @ '')''"
| "describe sa (CNot c) = ''not ('' @ describe sa c @ '')''"
| "describe sa (CEq f v) = describe_comparison sa f ''equals'' v"
| "describe sa (CNeq f v) = describe_comparison sa f ''does not equal'' v"
| "describe sa (CGt f v) = describe_comparison sa f ''is greater than'' v"
| "describe sa (CGte f v) = describe_comparison sa f ''is at least'' v"
| "describe sa (CLt f v) = describe_comparison sa f ''is less than'' v"
| "describe sa (CLte f v) = describe_comparison sa f ''is at most'' v"
| "describe sa (CIn f vs) = field_name f @ '' is one of '' @ join_with '', '' (map (value_name sa) vs)"
| "describe sa (CExists f) = field_name f @ '' is supplied''"

section \<open>Fields and values\<close>

definition value_from :: "field \<Rightarrow> spend_request \<Rightarrow> policy_value option" where
  "value_from f r =
     (case f of
        FieldAmount \<Rightarrow> Some (VMoney (sr_amount r))
      | FieldCurrency \<Rightarrow> Some (VCurrency (sr_currency r))
      | FieldAgentId \<Rightarrow> Some (VAgentId (sr_agent_id r))
      | FieldMerchant \<Rightarrow> map_option VString (sr_merchant r)
      | FieldProvider \<Rightarrow> map_option (\<lambda>s. VString (si_id (es_provider s))) (sr_execution_scope r)
      | FieldExecutor \<Rightarrow> map_option (\<lambda>s. VString (si_id (es_executor s))) (sr_execution_scope r)
      | FieldCapability \<Rightarrow> map_option (\<lambda>s. VString (si_id (es_capability s))) (sr_execution_scope r)
      | FieldBillingMerchant \<Rightarrow>
          map_option (\<lambda>s. VString (si_id (es_billing_merchant s))) (sr_execution_scope r)
      | FieldModel \<Rightarrow> map_option VString (Option.bind (sr_execution_scope r) es_model)
      | FieldImageSize \<Rightarrow> map_option VString (Option.bind (sr_execution_scope r) es_image_size)
      | FieldCategory \<Rightarrow> map_option VString (sr_category r))"

definition value_kind_of :: "field \<Rightarrow> value_kind" where
  "value_kind_of f =
     (case f of FieldAmount \<Rightarrow> KindMoney | FieldCurrency \<Rightarrow> KindCurrency | FieldAgentId \<Rightarrow> KindAgentId
      | _ \<Rightarrow> KindString)"

definition is_orderable :: "field \<Rightarrow> bool" where
  "is_orderable f \<longleftrightarrow> f = FieldAmount"

definition kind :: "policy_value \<Rightarrow> value_kind" where
  "kind v =
     (case v of VString _ \<Rightarrow> KindString | VMoney _ \<Rightarrow> KindMoney | VMoneyCents _ \<Rightarrow> KindMoney
      | VCurrency _ \<Rightarrow> KindCurrency | VAgentId _ \<Rightarrow> KindAgentId)"

definition money :: "policy_value \<Rightarrow> amount option" where
  "money v =
     (case v of VMoney a \<Rightarrow> Some a
      | VMoneyCents cents \<Rightarrow> (case from_legacy_cents cents of Inr a \<Rightarrow> Some a | Inl _ \<Rightarrow> None)
      | _ \<Rightarrow> None)"

definition money_units :: "policy_value \<Rightarrow> int option" where
  "money_units v =
     (case v of VMoney a \<Rightarrow> Some (units a) | VMoneyCents cents \<Rightarrow> Some (cents * 10000) | _ \<Rightarrow> None)"

definition eq_value :: "policy_value \<Rightarrow> policy_value \<Rightarrow> bool option" where
  "eq_value self other =
     (if kind self \<noteq> kind other then None
      else Some (case (money_units self, money_units other) of
                   (Some left, Some right) \<Rightarrow> left = right
                 | _ \<Rightarrow> self = other))"

definition money_pair :: "policy_value \<Rightarrow> policy_value \<Rightarrow> (int \<times> int) option" where
  "money_pair self other =
     (case (money_units self, money_units other) of
        (Some left, Some right) \<Rightarrow> Some (left, right)
      | _ \<Rightarrow> None)"

definition gt_value :: "policy_value \<Rightarrow> policy_value \<Rightarrow> bool option" where
  "gt_value self other = map_option (\<lambda>(left, right). left > right) (money_pair self other)"

definition gte_value :: "policy_value \<Rightarrow> policy_value \<Rightarrow> bool option" where
  "gte_value self other = map_option (\<lambda>(left, right). left \<ge> right) (money_pair self other)"

definition lt_value :: "policy_value \<Rightarrow> policy_value \<Rightarrow> bool option" where
  "lt_value self other = map_option (\<lambda>(left, right). left < right) (money_pair self other)"

definition lte_value :: "policy_value \<Rightarrow> policy_value \<Rightarrow> bool option" where
  "lte_value self other = map_option (\<lambda>(left, right). left \<le> right) (money_pair self other)"

section \<open>Evaluation\<close>

text \<open>\<open>Iterator::all\<close> and \<open>Iterator::any\<close> over a body that may panic.\<close>

fun all_opt :: "('a \<Rightarrow> bool option) \<Rightarrow> 'a list \<Rightarrow> bool option" where
  "all_opt f [] = Some True"
| "all_opt f (x # xs) =
     (case f x of None \<Rightarrow> None | Some b \<Rightarrow> if b then all_opt f xs else Some False)"

fun any_opt :: "('a \<Rightarrow> bool option) \<Rightarrow> 'a list \<Rightarrow> bool option" where
  "any_opt f [] = Some False"
| "any_opt f (x # xs) =
     (case f x of None \<Rightarrow> None | Some b \<Rightarrow> if b then Some True else any_opt f xs)"

lemma all_opt_cong [fundef_cong]:
  "xs = ys \<Longrightarrow> (\<And>x. x \<in> set ys \<Longrightarrow> f x = g x) \<Longrightarrow> all_opt f xs = all_opt g ys"
  by (induction ys arbitrary: xs) (auto split: option.splits)

lemma any_opt_cong [fundef_cong]:
  "xs = ys \<Longrightarrow> (\<And>x. x \<in> set ys \<Longrightarrow> f x = g x) \<Longrightarrow> any_opt f xs = any_opt g ys"
  by (induction ys arbitrary: xs) (auto split: option.splits)

text \<open>\<open>Option::is_some_and\<close> over a test that may panic: an absent field never matches.\<close>

definition test_field ::
  "field \<Rightarrow> spend_request \<Rightarrow> (policy_value \<Rightarrow> bool option) \<Rightarrow> bool option" where
  "test_field f r test = (case value_from f r of None \<Rightarrow> Some False | Some actual \<Rightarrow> test actual)"

fun eval :: "condition \<Rightarrow> spend_request \<Rightarrow> bool option" where
  "eval (CAll cs) r = all_opt (\<lambda>c. eval c r) cs"
| "eval (CAny cs) r = any_opt (\<lambda>c. eval c r) cs"
| "eval (CNot c) r = map_option Not (eval c r)"
| "eval (CEq f v) r = test_field f r (\<lambda>actual. eq_value actual v)"
| "eval (CNeq f v) r = test_field f r (\<lambda>actual. map_option Not (eq_value actual v))"
| "eval (CGt f v) r = test_field f r (\<lambda>actual. gt_value actual v)"
| "eval (CGte f v) r = test_field f r (\<lambda>actual. gte_value actual v)"
| "eval (CLt f v) r = test_field f r (\<lambda>actual. lt_value actual v)"
| "eval (CLte f v) r = test_field f r (\<lambda>actual. lte_value actual v)"
| "eval (CIn f vs) r = test_field f r (\<lambda>actual. any_opt (eq_value actual) vs)"
| "eval (CExists f) r = Some (value_from f r \<noteq> None)"

fun amount_values :: "condition \<Rightarrow> policy_value list" where
  "amount_values (CAll cs) = concat (map amount_values cs)"
| "amount_values (CAny cs) = concat (map amount_values cs)"
| "amount_values (CNot c) = amount_values c"
| "amount_values (CEq f v) = (if f = FieldAmount then [v] else [])"
| "amount_values (CNeq f v) = (if f = FieldAmount then [v] else [])"
| "amount_values (CGt f v) = (if f = FieldAmount then [v] else [])"
| "amount_values (CGte f v) = (if f = FieldAmount then [v] else [])"
| "amount_values (CLt f v) = (if f = FieldAmount then [v] else [])"
| "amount_values (CLte f v) = (if f = FieldAmount then [v] else [])"
| "amount_values (CIn f vs) = (if f = FieldAmount then vs else [])"
| "amount_values (CExists f) = []"

section \<open>Validation\<close>

datatype policy_validation_error =
    EmptyPolicyId
  | EmptyPolicyVersion
  | EmptyRuleId
  | EmptyRuleReason string
  | EmptyConditionGroup string string
  | FieldValueMismatch string field value_kind value_kind
  | UnorderableField string field string

definition validate_field_value ::
  "string \<Rightarrow> field \<Rightarrow> policy_value \<Rightarrow> policy_validation_error + unit" where
  "validate_field_value rule_id f v =
     (let expected = value_kind_of f; actual = kind v in
      if expected \<noteq> actual then Inl (FieldValueMismatch rule_id f expected actual) else Inr ())"

definition validate_ordered_field_value ::
  "string \<Rightarrow> string \<Rightarrow> field \<Rightarrow> policy_value \<Rightarrow> policy_validation_error + unit" where
  "validate_ordered_field_value rule_id operator f v =
     (if \<not> is_orderable f then Inl (UnorderableField rule_id f operator)
      else validate_field_value rule_id f v)"

lemma try_each_cong [fundef_cong]:
  "xs = ys \<Longrightarrow> (\<And>x. x \<in> set ys \<Longrightarrow> f x = g x) \<Longrightarrow> try_each f xs = try_each g ys"
  by (induction ys arbitrary: xs) auto

fun validate :: "string \<Rightarrow> condition \<Rightarrow> policy_validation_error + unit" where
  "validate rule_id (CAll cs) =
     (if cs = [] then Inl (EmptyConditionGroup rule_id ''all'') else try_each (validate rule_id) cs)"
| "validate rule_id (CAny cs) =
     (if cs = [] then Inl (EmptyConditionGroup rule_id ''any'') else try_each (validate rule_id) cs)"
| "validate rule_id (CNot c) = validate rule_id c"
| "validate rule_id (CEq f v) = validate_field_value rule_id f v"
| "validate rule_id (CNeq f v) = validate_field_value rule_id f v"
| "validate rule_id (CGt f v) = validate_ordered_field_value rule_id ''gt'' f v"
| "validate rule_id (CGte f v) = validate_ordered_field_value rule_id ''gte'' f v"
| "validate rule_id (CLt f v) = validate_ordered_field_value rule_id ''lt'' f v"
| "validate rule_id (CLte f v) = validate_ordered_field_value rule_id ''lte'' f v"
| "validate rule_id (CIn f vs) = try_each (validate_field_value rule_id f) vs"
| "validate rule_id (CExists f) = Inr ()"

section \<open>Policies and the engine\<close>

datatype effect = Allow | Deny | NeedsApproval

record rule =
  rule_id :: string
  rule_effect :: effect
  rule_when :: condition
  rule_reason :: string

record policy =
  policy_id :: string
  policy_version :: string
  policy_owner_user_id :: user_id
  policy_rules :: "rule list"
  default_effect :: effect

record rule_result =
  rr_rule_id :: string
  rr_matched :: bool
  rr_effect :: "effect option"
  rr_reason :: "string option"
  rr_configured_effect :: "effect option"
  rr_condition :: "string option"

record evaluation =
  ev_policy_id :: string
  ev_policy_version :: string
  ev_decision :: effect
  ev_reasons :: "string list"
  ev_rule_results :: "rule_result list"

definition rule_evaluate ::
  "(agent_id \<Rightarrow> string) \<Rightarrow> rule \<Rightarrow> spend_request \<Rightarrow> rule_result option" where
  "rule_evaluate show_agent rl r =
     map_option (\<lambda>matched.
       \<lparr>rr_rule_id = rule_id rl, rr_matched = matched,
        rr_effect = (if matched then Some (rule_effect rl) else None),
        rr_reason = (if matched then Some (rule_reason rl) else None),
        rr_configured_effect = Some (rule_effect rl),
        rr_condition = Some (describe show_agent (rule_when rl))\<rparr>) (eval (rule_when rl) r)"

text \<open>The warning of a rule that compares the amount with a value finer than a cent: its rule and that
  amount (the text around them is fixed).\<close>

definition amount_warnings :: "policy \<Rightarrow> (string \<times> amount) list" where
  "amount_warnings p =
     concat (map (\<lambda>rl.
       List.map_filter (\<lambda>v.
         case money v of
           None \<Rightarrow> None
         | Some a \<Rightarrow> if legacy_cents_floor a \<noteq> legacy_cents_ceil a then Some (rule_id rl, a) else None)
       (amount_values (rule_when rl))) (policy_rules p))"

definition validate_policy :: "policy \<Rightarrow> policy_validation_error + unit" where
  "validate_policy p =
     (if is_blank (policy_id p) then Inl EmptyPolicyId
      else if is_blank (policy_version p) then Inl EmptyPolicyVersion
      else try_each (\<lambda>rl.
             if is_blank (rule_id rl) then Inl EmptyRuleId
             else if is_blank (rule_reason rl) then Inl (EmptyRuleReason (rule_id rl))
             else validate (rule_id rl) (rule_when rl)) (policy_rules p))"

fun evaluate_rules ::
  "(agent_id \<Rightarrow> string) \<Rightarrow> spend_request \<Rightarrow> rule list \<Rightarrow> rule_result list option" where
  "evaluate_rules sa r [] = Some []"
| "evaluate_rules sa r (rl # rls) =
     Option.bind (rule_evaluate sa rl r) (\<lambda>x. map_option (\<lambda>xs. x # xs) (evaluate_rules sa r rls))"

definition merge_effects :: "effect \<Rightarrow> effect \<Rightarrow> effect" where
  "merge_effects current effect =
     (if effect = Deny \<or> current = Deny then Deny
      else if effect = NeedsApproval \<or> current = NeedsApproval then NeedsApproval
      else Allow)"

definition final_decision :: "effect \<Rightarrow> rule_result list \<Rightarrow> effect" where
  "final_decision dflt results =
     (case fold (\<lambda>result decision.
              case rr_effect result of
                None \<Rightarrow> decision
              | Some effect \<Rightarrow>
                  Some (case decision of None \<Rightarrow> effect | Some current \<Rightarrow> merge_effects current effect))
            results None of
        None \<Rightarrow> dflt
      | Some decision \<Rightarrow> decision)"

text \<open>The engine: the outer option is \<open>None\<close> when the evaluation panics.\<close>

definition evaluate_policy ::
  "(agent_id \<Rightarrow> string) \<Rightarrow> spend_request \<Rightarrow> policy \<Rightarrow> (policy_validation_error + evaluation) option" where
  "evaluate_policy show_agent r p =
     (case validate_policy p of
        Inl e \<Rightarrow> Some (Inl e)
      | Inr _ \<Rightarrow>
          map_option (\<lambda>results. Inr
            \<lparr>ev_policy_id = policy_id p, ev_policy_version = policy_version p,
             ev_decision = final_decision (default_effect p) results,
             ev_reasons = List.map_filter rr_reason results,
             ev_rule_results = results\<rparr>)
            (evaluate_rules show_agent r (policy_rules p)))"

end
