(* ===== verification/Policy_Theorems.thy ===== *)
theory Policy_Theorems
  imports Policy
begin

text \<open>
  The theorems about the policy engine: validation is exactly well-typedness, a validated policy never
  panics and evaluates by a two-valued reference semantics, and the decision is the strictest effect of
  the matching rules, whatever their order.
\<close>

section \<open>Validation is well-typedness\<close>

definition well_typed_value :: "field \<Rightarrow> policy_value \<Rightarrow> bool" where
  "well_typed_value f v \<longleftrightarrow> kind v = value_kind_of f"

fun well_typed :: "condition \<Rightarrow> bool" where
  "well_typed (CAll cs) \<longleftrightarrow> cs \<noteq> [] \<and> list_all well_typed cs"
| "well_typed (CAny cs) \<longleftrightarrow> cs \<noteq> [] \<and> list_all well_typed cs"
| "well_typed (CNot c) \<longleftrightarrow> well_typed c"
| "well_typed (CEq f v) \<longleftrightarrow> well_typed_value f v"
| "well_typed (CNeq f v) \<longleftrightarrow> well_typed_value f v"
| "well_typed (CGt f v) \<longleftrightarrow> f = FieldAmount \<and> kind v = KindMoney"
| "well_typed (CGte f v) \<longleftrightarrow> f = FieldAmount \<and> kind v = KindMoney"
| "well_typed (CLt f v) \<longleftrightarrow> f = FieldAmount \<and> kind v = KindMoney"
| "well_typed (CLte f v) \<longleftrightarrow> f = FieldAmount \<and> kind v = KindMoney"
| "well_typed (CIn f vs) \<longleftrightarrow> list_all (well_typed_value f) vs"
| "well_typed (CExists f) \<longleftrightarrow> True"

lemma validate_field_value_iff:
  "validate_field_value rid f v = Inr () \<longleftrightarrow> well_typed_value f v"
  by (auto simp: validate_field_value_def well_typed_value_def Let_def)

lemma validate_ordered_iff:
  "validate_ordered_field_value rid op f v = Inr () \<longleftrightarrow> f = FieldAmount \<and> kind v = KindMoney"
  by (auto simp: validate_ordered_field_value_def validate_field_value_iff is_orderable_def
      well_typed_value_def value_kind_of_def)

lemma validate_iff: "validate rid c = Inr () \<longleftrightarrow> well_typed c"
  by (induction c rule: validate.induct)
    (auto simp: try_each_ok_iff list_all_iff validate_field_value_iff validate_ordered_iff)

section \<open>The reference semantics\<close>

fun sat :: "condition \<Rightarrow> spend_request \<Rightarrow> bool" where
  "sat (CAll cs) r \<longleftrightarrow> list_all (\<lambda>c. sat c r) cs"
| "sat (CAny cs) r \<longleftrightarrow> list_ex (\<lambda>c. sat c r) cs"
| "sat (CNot c) r \<longleftrightarrow> \<not> sat c r"
| "sat (CEq f v) r \<longleftrightarrow> is_some_and (\<lambda>a. eq_value a v = Some True) (value_from f r)"
| "sat (CNeq f v) r \<longleftrightarrow> is_some_and (\<lambda>a. eq_value a v \<noteq> Some True) (value_from f r)"
| "sat (CGt f v) r \<longleftrightarrow> units (sr_amount r) > the (money_units v)"
| "sat (CGte f v) r \<longleftrightarrow> units (sr_amount r) \<ge> the (money_units v)"
| "sat (CLt f v) r \<longleftrightarrow> units (sr_amount r) < the (money_units v)"
| "sat (CLte f v) r \<longleftrightarrow> units (sr_amount r) \<le> the (money_units v)"
| "sat (CIn f vs) r \<longleftrightarrow> is_some_and (\<lambda>a. list_ex (\<lambda>v. eq_value a v = Some True) vs) (value_from f r)"
| "sat (CExists f) r \<longleftrightarrow> value_from f r \<noteq> None"

lemma value_from_kind: "value_from f r = Some a \<Longrightarrow> kind a = value_kind_of f"
  by (cases f) (auto simp: value_from_def kind_def value_kind_of_def)

lemma eq_value_defined:
  "value_from f r = Some a \<Longrightarrow> well_typed_value f v \<Longrightarrow> \<exists>b. eq_value a v = Some b"
  by (simp add: eq_value_def value_from_kind well_typed_value_def)

lemma money_pair_amount:
  "kind v = KindMoney \<Longrightarrow> money_pair (VMoney a) v = Some (units a, the (money_units v))"
  by (cases v) (simp_all add: money_pair_def money_units_def kind_def)

lemma all_opt_total: "(\<And>x. x \<in> set xs \<Longrightarrow> f x = Some (g x)) \<Longrightarrow> all_opt f xs = Some (list_all g xs)"
  by (induction xs) auto

lemma any_opt_total: "(\<And>x. x \<in> set xs \<Longrightarrow> f x = Some (g x)) \<Longrightarrow> any_opt f xs = Some (list_ex g xs)"
  by (induction xs) auto

lemma eval_sat: "well_typed c \<Longrightarrow> eval c r = Some (sat c r)"
proof (induction c r rule: eval.induct)
  case (1 cs r)
  then have "\<And>c. c \<in> set cs \<Longrightarrow> eval c r = Some (sat c r)" by (simp add: list_all_iff)
  from all_opt_total[OF this] show ?case by simp
next
  case (2 cs r)
  then have "\<And>c. c \<in> set cs \<Longrightarrow> eval c r = Some (sat c r)" by (simp add: list_all_iff)
  from any_opt_total[OF this] show ?case by simp
next
  case (4 f v r)
  then show ?case using eq_value_defined[of f r _ v]
    by (cases "value_from f r") (fastforce simp: test_field_def)+
next
  case (5 f v r)
  then show ?case using eq_value_defined[of f r _ v]
    by (cases "value_from f r") (fastforce simp: test_field_def)+
next
  case (10 f vs r)
  show ?case
  proof (cases "value_from f r")
    case (Some a)
    have "eq_value a v = Some (eq_value a v = Some True)" if "v \<in> set vs" for v
      using eq_value_defined[OF Some, of v] 10 that by (auto simp: list_all_iff)
    from any_opt_total[OF this] Some show ?thesis by (simp add: test_field_def)
  qed (simp add: test_field_def)
qed (auto simp: test_field_def value_from_def gt_value_def gte_value_def lt_value_def lte_value_def
      money_pair_amount)

section \<open>Effects by severity\<close>

definition severity :: "effect \<Rightarrow> nat" where
  "severity e = (case e of Allow \<Rightarrow> 0 | NeedsApproval \<Rightarrow> 1 | Deny \<Rightarrow> 2)"

instantiation effect :: linorder
begin

definition less_eq_effect :: "effect \<Rightarrow> effect \<Rightarrow> bool" where
  "less_eq_effect a b \<longleftrightarrow> severity a \<le> severity b"

definition less_effect :: "effect \<Rightarrow> effect \<Rightarrow> bool" where
  "less_effect a b \<longleftrightarrow> severity a < severity b"

instance
  by standard (auto simp: less_eq_effect_def less_effect_def severity_def split: effect.splits)

end

lemma merge_effects_max: "merge_effects a b = max a b"
  by (cases a; cases b) (simp_all add: merge_effects_def max_def less_eq_effect_def severity_def)

definition strictest :: "effect \<Rightarrow> effect list \<Rightarrow> effect" where
  "strictest dflt es = (if es = [] then dflt else Max (set es))"

lemma fold_decision:
  "fold (\<lambda>result decision.
      case rr_effect result of
        None \<Rightarrow> decision
      | Some effect \<Rightarrow> Some (case decision of None \<Rightarrow> effect | Some current \<Rightarrow> merge_effects current effect))
    results (Some d) = Some (Max (insert d (set (List.map_filter rr_effect results))))"
proof (induction results arbitrary: d)
  case (Cons x xs)
  show ?case
  proof (cases "rr_effect x")
    case (Some e)
    have "Max (insert (max d e) A) = Max (insert d (insert e A))" if "finite A" for A
      using that by (cases "A = {}") (simp_all add: max.assoc)
    with Some Cons.IH show ?thesis
      by (simp add: merge_effects_max List.map_filter_simps)
  qed (simp add: Cons.IH List.map_filter_simps)
qed (simp add: List.map_filter_simps)

lemma final_decision_strictest:
  "final_decision dflt results = strictest dflt (List.map_filter rr_effect results)"
proof (induction results)
  case Nil
  show ?case by (simp add: final_decision_def strictest_def List.map_filter_simps)
next
  case (Cons x xs)
  show ?case
  proof (cases "rr_effect x")
    case None
    with Cons show ?thesis by (simp add: final_decision_def List.map_filter_simps)
  next
    case (Some e)
    then show ?thesis
      by (simp add: final_decision_def fold_decision strictest_def List.map_filter_simps)
  qed
qed

section \<open>The engine\<close>

definition matching_rules :: "spend_request \<Rightarrow> rule list \<Rightarrow> rule list" where
  "matching_rules r rls = filter (\<lambda>rl. sat (rule_when rl) r) rls"

lemma rule_evaluate_total:
  assumes "well_typed (rule_when rl)"
  shows "rule_evaluate sa rl r = Some
    \<lparr>rr_rule_id = rule_id rl, rr_matched = sat (rule_when rl) r,
     rr_effect = (if sat (rule_when rl) r then Some (rule_effect rl) else None),
     rr_reason = (if sat (rule_when rl) r then Some (rule_reason rl) else None),
     rr_configured_effect = Some (rule_effect rl),
     rr_condition = Some (describe sa (rule_when rl))\<rparr>"
  by (simp add: rule_evaluate_def eval_sat[OF assms])

lemma evaluate_rules_total:
  assumes "\<forall>rl\<in>set rls. well_typed (rule_when rl)"
  shows "\<exists>results. evaluate_rules sa r rls = Some results
    \<and> List.map_filter rr_effect results = map rule_effect (matching_rules r rls)
    \<and> List.map_filter rr_reason results = map rule_reason (matching_rules r rls)
    \<and> map rr_rule_id results = map rule_id rls
    \<and> map rr_matched results = map (\<lambda>rl. sat (rule_when rl) r) rls"
  using assms
  by (induction rls) (auto simp: matching_rules_def rule_evaluate_total List.map_filter_simps)

lemma validate_policy_rules:
  "validate_policy p = Inr () \<Longrightarrow> \<forall>rl\<in>set (policy_rules p). well_typed (rule_when rl)"
  by (auto simp: validate_policy_def try_each_ok_iff validate_iff split: if_splits)

lemma evaluate_policy_valid:
  assumes "validate_policy p = Inr ()"
  shows "\<exists>results. evaluate_policy sa r p = Some (Inr
      \<lparr>ev_policy_id = policy_id p, ev_policy_version = policy_version p,
       ev_decision = strictest (default_effect p) (map rule_effect (matching_rules r (policy_rules p))),
       ev_reasons = map rule_reason (matching_rules r (policy_rules p)), ev_rule_results = results\<rparr>)
    \<and> map rr_rule_id results = map rule_id (policy_rules p)
    \<and> map rr_matched results = map (\<lambda>rl. sat (rule_when rl) r) (policy_rules p)"
proof -
  obtain results where "evaluate_rules sa r (policy_rules p) = Some results"
    "List.map_filter rr_effect results = map rule_effect (matching_rules r (policy_rules p))"
    "List.map_filter rr_reason results = map rule_reason (matching_rules r (policy_rules p))"
    "map rr_rule_id results = map rule_id (policy_rules p)"
    "map rr_matched results = map (\<lambda>rl. sat (rule_when rl) r) (policy_rules p)"
    using evaluate_rules_total[OF validate_policy_rules[OF assms]] by metis
  then show ?thesis by (simp add: evaluate_policy_def assms final_decision_strictest)
qed

text \<open>
  C19: a policy that validates never panics, whatever the request: evaluation always returns an
  evaluation with one result per rule in rule order, whose match flags follow the two-valued reference
  semantics, whose reasons are those of the matching rules, and whose decision is the strictest effect
  of the matching rules, or the default when none matches.
\<close>

theorem valid_policy_evaluates:
  assumes "validate_policy p = Inr ()"
  shows "\<exists>e. evaluate_policy show_agent r p = Some (Inr e)
    \<and> ev_decision e = strictest (default_effect p) (map rule_effect (matching_rules r (policy_rules p)))
    \<and> ev_reasons e = map rule_reason (matching_rules r (policy_rules p))
    \<and> map rr_rule_id (ev_rule_results e) = map rule_id (policy_rules p)
    \<and> map rr_matched (ev_rule_results e) = map (\<lambda>rl. sat (rule_when rl) r) (policy_rules p)"
  using evaluate_policy_valid[OF assms, of show_agent r] by fastforce

definition example_policy :: policy where
  "example_policy = \<lparr>policy_id = ''p'', policy_version = ''1'', policy_owner_user_id = UserId 1,
     policy_rules =
       [\<lparr>rule_id = ''small'', rule_effect = Allow,
         rule_when = CLte FieldAmount (VMoneyCents 10), rule_reason = ''small''\<rparr>,
        \<lparr>rule_id = ''merchant'', rule_effect = NeedsApproval,
         rule_when = CAll [CExists FieldMerchant, CNot (CIn FieldMerchant [VString ''known''])],
         rule_reason = ''unknown merchant''\<rparr>],
     default_effect = Deny\<rparr>"

theorem valid_policy_evaluates_witness:
  "\<exists>e. evaluate_policy (\<lambda>_. ''agent'') example_request example_policy = Some (Inr e)
     \<and> ev_decision e = NeedsApproval"
proof -
  have "validate_policy example_policy = Inr ()" by code_simp
  moreover have "strictest (default_effect example_policy)
      (map rule_effect (matching_rules example_request (policy_rules example_policy))) = NeedsApproval"
    by code_simp
  ultimately show ?thesis using valid_policy_evaluates[of example_policy "\<lambda>_. ''agent''" example_request] by auto
qed

text \<open>
  an invalid policy is never evaluated: the engine answers the validation error, and a policy is
  refused exactly when its identifier, its version or a rule's identifier or reason is blank or some
  rule's condition has an empty group, a value of the wrong kind or an ordering on a field other than
  the amount.
\<close>

theorem invalid_policy_refused:
  "(\<exists>e. evaluate_policy show_agent r p = Some (Inl e)) \<longleftrightarrow>
     is_blank (policy_id p) \<or> is_blank (policy_version p)
     \<or> (\<exists>rl\<in>set (policy_rules p). is_blank (rule_id rl) \<or> is_blank (rule_reason rl)
          \<or> \<not> well_typed (rule_when rl))"
proof -
  have valid: "validate_policy p = Inr () \<longleftrightarrow>
     \<not> is_blank (policy_id p) \<and> \<not> is_blank (policy_version p)
     \<and> (\<forall>rl\<in>set (policy_rules p). \<not> is_blank (rule_id rl) \<and> \<not> is_blank (rule_reason rl)
          \<and> well_typed (rule_when rl))"
    by (auto simp: validate_policy_def try_each_ok_iff validate_iff split: if_splits)
  have "(\<exists>e. evaluate_policy show_agent r p = Some (Inl e)) \<longleftrightarrow> validate_policy p \<noteq> Inr ()"
    by (cases "validate_policy p") (auto simp: evaluate_policy_def)
  then show ?thesis unfolding valid by blast
qed

theorem invalid_policy_refused_witness:
  "\<exists>e. evaluate_policy (\<lambda>_. ''agent'') example_request
     (example_policy\<lparr>policy_rules := [\<lparr>rule_id = ''order'', rule_effect = Allow,
        rule_when = CGt FieldMerchant (VString ''shop''), rule_reason = ''ordered text''\<rparr>]\<rparr>) = Some (Inl e)"
proof -
  have "\<not> well_typed (CGt FieldMerchant (VString ''shop''))" by code_simp
  then show ?thesis by (simp add: invalid_policy_refused)
qed

text \<open>
  The decision depends only on which rules there are: reordering the rules of a valid policy never
  changes it, and adding a rule never relaxes a decision that at least one rule of the policy supports.
\<close>

theorem decision_order_free_and_monotone:
  assumes "validate_policy p = Inr ()" and "validate_policy q = Inr ()"
    and "default_effect q = default_effect p"
    and "evaluate_policy show_agent r p = Some (Inr e)" and "evaluate_policy show_agent r q = Some (Inr d)"
  shows "(mset (policy_rules q) = mset (policy_rules p) \<longrightarrow> ev_decision d = ev_decision e)
    \<and> (set (policy_rules p) \<subseteq> set (policy_rules q) \<and> matching_rules r (policy_rules p) \<noteq> []
         \<longrightarrow> ev_decision e \<le> ev_decision d)"
proof -
  have e: "ev_decision e = strictest (default_effect p) (map rule_effect (matching_rules r (policy_rules p)))"
    using evaluate_policy_valid[OF assms(1), of show_agent r] assms(4) by auto
  have d: "ev_decision d = strictest (default_effect p) (map rule_effect (matching_rules r (policy_rules q)))"
    using evaluate_policy_valid[OF assms(2), of show_agent r] assms(3,5) by auto
  have "ev_decision d = ev_decision e" if "mset (policy_rules q) = mset (policy_rules p)"
  proof -
    have m: "mset (matching_rules r (policy_rules q)) = mset (matching_rules r (policy_rules p))"
      using that by (simp add: matching_rules_def)
    from mset_eq_setD[OF m] m show ?thesis by (auto simp: d e strictest_def)
  qed
  moreover have "ev_decision e \<le> ev_decision d"
    if "set (policy_rules p) \<subseteq> set (policy_rules q)" "matching_rules r (policy_rules p) \<noteq> []"
  proof -
    have sub: "set (matching_rules r (policy_rules p)) \<subseteq> set (matching_rules r (policy_rules q))"
      using that(1) by (auto simp: matching_rules_def)
    with that(2) have "matching_rules r (policy_rules q) \<noteq> []" by auto
    with sub that(2) show ?thesis by (auto simp: d e strictest_def intro!: Max_mono)
  qed
  ultimately show ?thesis by blast
qed

theorem decision_order_free_and_monotone_witness:
  "ev_decision (projr (the (evaluate_policy (\<lambda>_. ''agent'') example_request
     (example_policy\<lparr>policy_rules := rev (policy_rules example_policy)\<rparr>)))) = NeedsApproval"
proof -
  let ?q = "example_policy\<lparr>policy_rules := rev (policy_rules example_policy)\<rparr>"
  let ?E = "\<lambda>p. evaluate_policy (\<lambda>_. ''agent'') example_request p"
  have v: "validate_policy example_policy = Inr ()" "validate_policy ?q = Inr ()" by code_simp+
  have e: "?E example_policy = Some (Inr (projr (the (?E example_policy))))"
    "?E ?q = Some (Inr (projr (the (?E ?q))))" by code_simp+
  have "ev_decision (projr (the (?E example_policy))) = NeedsApproval" by code_simp
  with decision_order_free_and_monotone[OF v _ e] show ?thesis by simp
qed

end
