(* ===== verification/Ledger.thy ===== *)
theory Ledger
  imports Spend_Request
begin

text \<open>
  \<^verbatim>\<open>crates/hubu-ledger\<close>: the double-entry ledger shared by wallet payments and provider executions.
  The four SQLite tables are hash maps keyed by their primary keys; an \<open>INSERT\<close> of an existing key, of
  a used source key or of a second successor violates its constraint. Typed columns hold their values
  (the JSON column of the metadata holds the metadata itself), and a statement that runs inside a
  caller's transaction answers the tables it leaves, which the caller drops on an error.

  \<open>ORDER BY id\<close> orders the canonical text of a UUID, that is its 128-bit value.
\<close>

section \<open>Types\<close>

datatype ledger_account_id = LedgerAccountId (account_key: uuid)
datatype ledger_entry_id = LedgerEntryId (entry_key: uuid)
datatype ledger_transaction_id = LedgerTransactionId (transaction_key: uuid)

datatype sqlite_error = QueryReturnedNoRows | ConstraintViolation | SumOverflow

datatype ledger_error =
    LedgerSqlite sqlite_error
  | TooFewEntries
  | Unbalanced currency int int
  | EntryAmountNotPositive
  | OwnerMismatch
  | InvalidData string

datatype ledger_account_kind =
    UserWalletCash | AgentSpendExpense | MerchantSettlement | RailFees | ExternallyBilledClearing

definition account_kind_as_str :: "ledger_account_kind \<Rightarrow> string" where
  "account_kind_as_str k =
     (case k of UserWalletCash \<Rightarrow> ''user_wallet_cash'' | AgentSpendExpense \<Rightarrow> ''agent_spend_expense''
      | MerchantSettlement \<Rightarrow> ''merchant_settlement'' | RailFees \<Rightarrow> ''rail_fees''
      | ExternallyBilledClearing \<Rightarrow> ''externally_billed_clearing'')"

datatype ledger_direction = Debit | Credit

record ledger_account =
  la_id :: ledger_account_id
  la_owner_user_id :: user_id
  la_name :: string
  la_kind :: ledger_account_kind
  la_currency :: currency
  la_created_at :: instant

record ledger_entry_draft =
  ed_owner_user_id :: user_id
  ed_account_id :: ledger_account_id
  ed_direction :: ledger_direction
  ed_amount_cents :: int
  ed_currency :: currency

definition CENT_AT_SCALE_18 :: int where
  "CENT_AT_SCALE_18 = 10000000000000000"

definition BUDGET_UNIT_AT_SCALE_18 :: int where
  "BUDGET_UNIT_AT_SCALE_18 = 1000000000000"

definition BUDGET_CHARGE_SCALE :: nat where
  "BUDGET_CHARGE_SCALE = 6"

section \<open>Exact money\<close>

record ledger_money =
  lm_amount :: string
  lm_scale :: nat
  lm_currency :: currency

definition scaled :: "ledger_money \<Rightarrow> ledger_error + int" where
  "scaled m =
     and_then (ok_or (InvalidData ''invalid exact amount'') (parse_i128 (lm_amount m))) (\<lambda>amount.
     if amount < 0 \<or> lm_scale m > 18
     then Inl (InvalidData ''amount must be nonnegative with scale <= 18'')
     else ok_or (InvalidData ''exact amount overflow'')
            (checked_mul_i128 amount (10 ^ (18 - lm_scale m))))"

definition budget_units :: "ledger_money \<Rightarrow> nat \<Rightarrow> ledger_error + int" where
  "budget_units m scale =
     (if scale > 18 then Inl (InvalidData ''budget scale cannot exceed 18'')
      else and_then (scaled m) (\<lambda>amount.
        let unit = 10 ^ (18 - scale) in
        ok_or (InvalidData ''budget units overflow'')
          (checked fits_i64
             (trunc_div amount unit + (if trunc_mod amount unit \<noteq> 0 then 1 else 0)))))"

definition budget_cents :: "ledger_money \<Rightarrow> ledger_error + int" where
  "budget_cents m = budget_units m 2"

definition at_scale_18 :: "int \<Rightarrow> currency \<Rightarrow> ledger_money" where
  "at_scale_18 amount cur = \<lparr>lm_amount = show_int amount, lm_scale = 18, lm_currency = cur\<rparr>"

section \<open>Transactions and their evidence\<close>

record governed_spend_context =
  gc_agent_id :: agent_id
  gc_agent_account_id :: agent_account_id
  gc_budget_id :: budget_id
  gc_budget_version_id :: budget_version_id
  gc_spend_decision_id :: spend_decision_id
  gc_operation_key :: string

datatype transaction_kind = WalletPayment | ExternalProvider | Adjustment

definition transaction_kind_as_str :: "transaction_kind \<Rightarrow> string" where
  "transaction_kind_as_str k =
     (case k of WalletPayment \<Rightarrow> ''wallet_payment'' | ExternalProvider \<Rightarrow> ''external_provider''
      | Adjustment \<Rightarrow> ''adjustment'')"

text \<open>\<open>source_evidence\<close> is the JSON value, kept as its text: nothing reads it.\<close>

record transaction_metadata =
  tm_kind :: transaction_kind
  tm_source_key :: string
  tm_agent_id :: "agent_id option"
  tm_agent_account_id :: "agent_account_id option"
  tm_context :: "governed_spend_context option"
  tm_effective_cost :: ledger_money
  tm_budget_charge_delta_cents :: "int option"
  tm_budget_charge_delta :: "int option"
  tm_budget_charge_scale :: "nat option"
  tm_rounding_delta_amount :: "string option"
  tm_original_transaction_id :: "ledger_transaction_id option"
  tm_previous_transaction_id :: "ledger_transaction_id option"
  tm_provider :: "string option"
  tm_billing_merchant :: "string option"
  tm_purpose :: "string option"
  tm_source_evidence :: string
  tm_reason :: "string option"
  tm_adjustment_evidence :: "string option"
  tm_legacy_backfill :: bool
  tm_missing_evidence :: "string list"

definition budget_charge_units :: "transaction_metadata \<Rightarrow> ledger_error + int option" where
  "budget_charge_units m =
     (case (tm_budget_charge_delta m, tm_budget_charge_scale m, tm_budget_charge_delta_cents m) of
        (Some u, Some scale, None) \<Rightarrow>
          if scale = BUDGET_CHARGE_SCALE then Inr (Some u)
          else Inl (InvalidData ''budget charge evidence is ambiguous'')
      | (None, None, Some cents) \<Rightarrow>
          ok_or (InvalidData ''budget charge overflow'') (map_option Some (checked_mul_i64 cents 10000))
      | (None, None, None) \<Rightarrow> Inr None
      | _ \<Rightarrow> Inl (InvalidData ''budget charge evidence is ambiguous''))"

definition set_budget_charge :: "int \<Rightarrow> int \<Rightarrow> transaction_metadata \<Rightarrow> transaction_metadata" where
  "set_budget_charge u expense_delta m =
     m\<lparr>tm_budget_charge_delta_cents := None, tm_budget_charge_delta := Some u,
       tm_budget_charge_scale := Some BUDGET_CHARGE_SCALE,
       tm_rounding_delta_amount := Some (show_int (u * BUDGET_UNIT_AT_SCALE_18 - expense_delta))\<rparr>"

record transaction_entry =
  te_id :: ledger_entry_id
  te_account_id :: ledger_account_id
  te_account_kind :: ledger_account_kind
  te_direction :: ledger_direction
  te_amount :: ledger_money

record transaction_record =
  tr_id :: ledger_transaction_id
  tr_owner_user_id :: user_id
  tr_external_ref :: "string option"
  tr_description :: string
  tr_created_at :: instant
  tr_kind :: transaction_kind
  tr_metadata :: "transaction_metadata option"
  tr_missing_evidence :: "string list"
  tr_entries :: "transaction_entry list"

text \<open>The rows of \<open>ledger_transactions\<close> and \<open>ledger_entries\<close>, and the tables.\<close>

record ledger_transaction =
  lt_id :: ledger_transaction_id
  lt_owner_user_id :: user_id
  lt_external_ref :: "string option"
  lt_description :: string
  lt_created_at :: instant
  lt_kind :: transaction_kind

record ledger_entry =
  le_id :: ledger_entry_id
  le_transaction_id :: ledger_transaction_id
  le_owner_user_id :: user_id
  le_account_id :: ledger_account_id
  le_direction :: ledger_direction
  le_amount_cents :: "int option"
  le_created_at :: instant
  le_exact :: ledger_money

record ledger =
  ledger_accounts :: "(ledger_account_id, ledger_account) hmap"
  ledger_transactions :: "(ledger_transaction_id, ledger_transaction) hmap"
  ledger_entries :: "(ledger_entry_id, ledger_entry) hmap"
  ledger_metadata :: "(ledger_transaction_id, transaction_metadata) hmap"

definition ledger_init :: ledger where
  "ledger_init = \<lparr>ledger_accounts = hm_empty, ledger_transactions = hm_empty,
     ledger_entries = hm_empty, ledger_metadata = hm_empty\<rparr>"

definition insert_row :: "'k \<Rightarrow> 'v \<Rightarrow> ('k, 'v) hmap \<Rightarrow> ledger_error + ('k, 'v) hmap" where
  "insert_row k v table =
     (if hm_contains table k then Inl (LedgerSqlite ConstraintViolation)
      else Inr (hm_insert k v table))"

section \<open>Reading\<close>

definition entry_rows :: "ledger \<Rightarrow> ledger_transaction_id \<Rightarrow> ledger_entry list" where
  "entry_rows L tid =
     sort_key (entry_key \<circ> le_id)
       (filter (\<lambda>e. le_transaction_id e = tid) (hm_values (ledger_entries L)))"

definition join_account :: "ledger \<Rightarrow> ledger_entry \<Rightarrow> transaction_entry option" where
  "join_account L e =
     map_option (\<lambda>a. \<lparr>te_id = le_id e, te_account_id = le_account_id e, te_account_kind = la_kind a,
                      te_direction = le_direction e, te_amount = le_exact e\<rparr>)
       (hm_get (ledger_accounts L) (le_account_id e))"

definition load_transaction :: "ledger \<Rightarrow> ledger_transaction_id \<Rightarrow> transaction_record option" where
  "load_transaction L tid =
     map_option (\<lambda>t.
       let metadata = hm_get (ledger_metadata L) tid in
       \<lparr>tr_id = tid, tr_owner_user_id = lt_owner_user_id t, tr_external_ref = lt_external_ref t,
        tr_description = lt_description t, tr_created_at = lt_created_at t, tr_kind = lt_kind t,
        tr_metadata = metadata,
        tr_missing_evidence =
          (if metadata = None then [''source_evidence'', ''governed_context''] else []),
        tr_entries = List.map_filter (join_account L) (entry_rows L tid)\<rparr>)
     (hm_get (ledger_transactions L) tid)"

definition find_source :: "ledger \<Rightarrow> string \<Rightarrow> transaction_record option" where
  "find_source L source_key =
     (case filter (\<lambda>(_, m). tm_source_key m = source_key) (ledger_metadata L) of
        [] \<Rightarrow> None
      | (tid, _) # _ \<Rightarrow> load_transaction L tid)"

definition owner_transactions :: "ledger \<Rightarrow> user_id \<Rightarrow> transaction_record list" where
  "owner_transactions L owner =
     List.map_filter (\<lambda>t. load_transaction L (lt_id t))
       (sort_key lt_created_at (sort_key (transaction_key \<circ> lt_id)
          (filter (\<lambda>t. lt_owner_user_id t = owner) (hm_values (ledger_transactions L)))))"

definition list_transactions :: "ledger \<Rightarrow> ledger_transaction list" where
  "list_transactions L =
     sort_key lt_created_at (sort_key (transaction_key \<circ> lt_id)
       (filter (\<lambda>t. lt_kind t = WalletPayment) (hm_values (ledger_transactions L))))"

section \<open>Attaching evidence\<close>

record posting_totals =
  pt_debits :: int
  pt_credits :: int
  pt_expense :: int

definition add_posting ::
  "ledger \<Rightarrow> transaction_record \<Rightarrow> currency \<Rightarrow> posting_totals \<Rightarrow> transaction_entry
     \<Rightarrow> ledger_error + posting_totals" where
  "add_posting L current cost_currency totals entry =
     (if lm_currency (te_amount entry) \<noteq> cost_currency
      then Inl (InvalidData ''evidence currency does not match entry'')
      else and_then (scaled (te_amount entry)) (\<lambda>amount.
        and_then (ok_or (LedgerSqlite QueryReturnedNoRows)
                   (hm_get (ledger_accounts L) (te_account_id entry))) (\<lambda>account.
        if la_owner_user_id account \<noteq> tr_owner_user_id current
           \<or> la_currency account \<noteq> lm_currency (te_amount entry)
        then Inl (InvalidData ''account owner or currency does not match transaction'')
        else and_then
          (case te_direction entry of
             Debit \<Rightarrow>
               and_then (ok_or (InvalidData ''debit sum overflow'')
                          (checked fits_i128 (pt_debits totals + amount)))
                 (\<lambda>debits. Inr (totals\<lparr>pt_debits := debits\<rparr>))
           | Credit \<Rightarrow>
               and_then (ok_or (InvalidData ''credit sum overflow'')
                          (checked fits_i128 (pt_credits totals + amount)))
                 (\<lambda>credits. Inr (totals\<lparr>pt_credits := credits\<rparr>))) (\<lambda>totals.
        if te_account_kind entry = AgentSpendExpense
        then and_then (ok_or (InvalidData ''expense sum overflow'')
               (checked fits_i128
                  (pt_expense totals + (if te_direction entry = Debit then amount else - amount))))
               (\<lambda>expense. Inr (totals\<lparr>pt_expense := expense\<rparr>))
        else Inr totals))))"

text \<open>The charge an adjustment has to record, after its links to the original and the predecessor have
  been checked (\<open>None\<close> without a governed context).\<close>

definition adjustment_charge ::
  "ledger \<Rightarrow> transaction_record \<Rightarrow> transaction_metadata \<Rightarrow> int \<Rightarrow> int \<Rightarrow> nat
     \<Rightarrow> ledger_error + int option" where
  "adjustment_charge L current metadata cost expense charge_scale =
     and_then (ok_or (InvalidData ''adjustment original is required'')
                (tm_original_transaction_id metadata)) (\<lambda>original_id.
     and_then (ok_or (InvalidData ''adjustment predecessor is required'')
                (tm_previous_transaction_id metadata)) (\<lambda>previous_id.
     and_then (ok_or (InvalidData ''missing adjustment original'')
                (load_transaction L original_id)) (\<lambda>original.
     and_then (ok_or (InvalidData ''missing adjustment predecessor'')
                (load_transaction L previous_id)) (\<lambda>previous.
     and_then (ok_or (InvalidData ''original evidence is missing'') (tr_metadata original)) (\<lambda>original_meta.
     and_then (ok_or (InvalidData ''predecessor evidence is missing'') (tr_metadata previous)) (\<lambda>previous_meta.
     let mismatch = Inl (InvalidData ''adjustment evidence does not match original and posted delta'') in
     if tr_owner_user_id original \<noteq> tr_owner_user_id current
        \<or> tr_owner_user_id previous \<noteq> tr_owner_user_id current
        \<or> tr_kind original = Adjustment
        \<or> tm_context metadata \<noteq> tm_context original_meta
        \<or> (tr_id previous \<noteq> tr_id original
            \<and> tm_original_transaction_id previous_meta \<noteq> Some original_id)
        \<or> lm_currency (tm_effective_cost previous_meta) \<noteq> lm_currency (tm_effective_cost metadata)
     then mismatch
     else and_then (scaled (tm_effective_cost previous_meta)) (\<lambda>previous_cost.
       if checked fits_i128 (previous_cost + expense) \<noteq> Some cost then mismatch
       else if tm_context metadata = None then Inr None
       else and_then (budget_units (tm_effective_cost metadata) charge_scale) (\<lambda>new.
            and_then (budget_units (tm_effective_cost previous_meta) charge_scale) (\<lambda>old.
            Inr (Some (new - old)))))))))))"

definition source_charge ::
  "transaction_metadata \<Rightarrow> int \<Rightarrow> int \<Rightarrow> nat \<Rightarrow> ledger_error + int option" where
  "source_charge metadata cost expense charge_scale =
     (if tm_original_transaction_id metadata \<noteq> None \<or> tm_previous_transaction_id metadata \<noteq> None
         \<or> expense \<noteq> cost
      then Inl (InvalidData ''expense evidence does not match posting'')
      else if tm_context metadata = None then Inr None
      else and_then (budget_units (tm_effective_cost metadata) charge_scale) (\<lambda>u. Inr (Some u)))"

definition insert_metadata ::
  "ledger_transaction_id \<Rightarrow> transaction_metadata \<Rightarrow> ledger \<Rightarrow> ledger_error + ledger" where
  "insert_metadata tid metadata L =
     (if hm_contains (ledger_metadata L) tid
         \<or> list_ex (\<lambda>m. tm_source_key m = tm_source_key metadata) (hm_values (ledger_metadata L))
         \<or> (tm_previous_transaction_id metadata \<noteq> None
            \<and> list_ex (\<lambda>m. tm_previous_transaction_id m = tm_previous_transaction_id metadata)
                (hm_values (ledger_metadata L)))
      then Inl (LedgerSqlite ConstraintViolation)
      else Inr (L\<lparr>ledger_metadata := hm_insert tid metadata (ledger_metadata L)\<rparr>))"

definition context_matches :: "transaction_metadata \<Rightarrow> governed_spend_context \<Rightarrow> bool" where
  "context_matches metadata context \<longleftrightarrow>
     \<not> is_blank (gc_operation_key context)
     \<and> tm_agent_id metadata = Some (gc_agent_id context)
     \<and> tm_agent_account_id metadata = Some (gc_agent_account_id context)"

definition attach_metadata ::
  "ledger_transaction_id \<Rightarrow> transaction_metadata \<Rightarrow> ledger \<Rightarrow> ledger_error + ledger" where
  "attach_metadata tid metadata L =
     and_then (scaled (tm_effective_cost metadata)) (\<lambda>cost.
     if is_blank (tm_source_key metadata) then Inl (InvalidData ''source key is required'')
     else and_then (ok_or (InvalidData ''missing transaction'') (load_transaction L tid)) (\<lambda>current.
     and_then (try_fold (add_posting L current (lm_currency (tm_effective_cost metadata)))
                \<lparr>pt_debits = 0, pt_credits = 0, pt_expense = 0\<rparr> (tr_entries current)) (\<lambda>totals.
     if length (tr_entries current) < 2 \<or> pt_debits totals \<noteq> pt_credits totals
     then Inl (InvalidData ''canonical transaction is not balanced'')
     else and_then (budget_charge_units metadata) (\<lambda>_.
     let accounting_scale_charge = (tm_budget_charge_scale metadata \<noteq> None);
         charge_scale = (if accounting_scale_charge then BUDGET_CHARGE_SCALE else 2);
         charge_unit = (if accounting_scale_charge then BUDGET_UNIT_AT_SCALE_18 else CENT_AT_SCALE_18);
         expense = pt_expense totals
     in and_then
       (if tm_kind metadata = Adjustment
        then adjustment_charge L current metadata cost expense charge_scale
        else source_charge metadata cost expense charge_scale) (\<lambda>expected_charge.
     if (if accounting_scale_charge then tm_budget_charge_delta metadata
         else tm_budget_charge_delta_cents metadata) \<noteq> expected_charge
     then Inl (InvalidData ''budget charge does not match exact expense'')
     else if \<not> (case expected_charge of
                  None \<Rightarrow> True
                | Some charge \<Rightarrow> tm_rounding_delta_amount metadata
                                 = Some (show_int (charge * charge_unit - expense)))
     then Inl (InvalidData ''rounding evidence does not match posting'')
     else if tr_kind current \<noteq> tm_kind metadata
     then Inl (InvalidData ''transaction kind does not match evidence'')
     else if \<not> (case tm_context metadata of None \<Rightarrow> True | Some c \<Rightarrow> context_matches metadata c)
     then Inl (InvalidData ''agent context mismatch'')
     else and_then
       (if tm_context metadata = None then Inr False
        else and_then (budget_charge_units metadata) (\<lambda>charge.
               Inr (charge = None \<or> tm_rounding_delta_amount metadata = None))) (\<lambda>unevidenced.
     if unevidenced
     then Inl (InvalidData ''governed transaction requires budget charge and rounding evidence'')
     else insert_metadata tid metadata L))))))"

section \<open>Accounts and wallet transactions\<close>

definition create_account ::
  "ledger_account_id \<Rightarrow> instant \<Rightarrow> user_id \<Rightarrow> string \<Rightarrow> ledger_account_kind \<Rightarrow> currency \<Rightarrow> ledger
     \<Rightarrow> ledger_error + (ledger_account \<times> ledger)" where
  "create_account fresh_id now owner name kind cur L =
     (let account = \<lparr>la_id = fresh_id, la_owner_user_id = owner, la_name = name, la_kind = kind,
                     la_currency = cur, la_created_at = now\<rparr>
      in and_then (insert_row fresh_id account (ledger_accounts L)) (\<lambda>accounts.
         Inr (account, L\<lparr>ledger_accounts := accounts\<rparr>)))"

definition add_draft ::
  "(currency, int \<times> int) hmap \<Rightarrow> ledger_entry_draft \<Rightarrow> ledger_error + (currency, int \<times> int) hmap" where
  "add_draft totals entry =
     (if ed_amount_cents entry \<le> 0 then Inl EntryAmountNotPositive
      else
        let (debits, credits) =
              (case hm_get totals (ed_currency entry) of None \<Rightarrow> (0, 0) | Some t \<Rightarrow> t) in
        case ed_direction entry of
          Debit \<Rightarrow> and_then (ok_or (InvalidData ''debit total overflow'')
                      (checked fits_i128 (debits + ed_amount_cents entry)))
                    (\<lambda>debits. Inr (hm_insert (ed_currency entry) (debits, credits) totals))
        | Credit \<Rightarrow> and_then (ok_or (InvalidData ''credit total overflow'')
                      (checked fits_i128 (credits + ed_amount_cents entry)))
                    (\<lambda>credits. Inr (hm_insert (ed_currency entry) (debits, credits) totals)))"

definition validate_entries_balance :: "ledger_entry_draft list \<Rightarrow> ledger_error + unit" where
  "validate_entries_balance entries =
     (if length entries < 2 then Inl TooFewEntries
      else and_then (try_fold add_draft hm_empty entries) (\<lambda>totals.
        try_each (\<lambda>(cur, debits, credits).
          if debits \<noteq> credits then Inl (Unbalanced cur debits credits) else Inr ()) totals))"

definition validate_entries_owner :: "user_id \<Rightarrow> ledger_entry_draft list \<Rightarrow> ledger_error + unit" where
  "validate_entries_owner owner entries =
     (if list_all (\<lambda>entry. ed_owner_user_id entry = owner) entries then Inr () else Inl OwnerMismatch)"

definition validate_wallet_metadata ::
  "ledger_entry_draft list \<Rightarrow> transaction_metadata \<Rightarrow> ledger_error + unit" where
  "validate_wallet_metadata entries metadata =
     (let debit_total = sum_list (map ed_amount_cents (filter (\<lambda>e. ed_direction e = Debit) entries));
          mismatch = Inl (InvalidData ''wallet metadata does not match posted expense'') in
      if tm_kind metadata \<noteq> WalletPayment then mismatch
      else and_then (scaled (tm_effective_cost metadata)) (\<lambda>cost.
        and_then (ok_or (InvalidData ''exact debit overflow'')
                   (checked_mul_i128 debit_total CENT_AT_SCALE_18)) (\<lambda>debits.
        if cost \<noteq> debits then mismatch
        else if tm_context metadata = None then Inr ()
        else and_then (budget_charge_units metadata) (\<lambda>charge.
          and_then (budget_units (tm_effective_cost metadata) BUDGET_CHARGE_SCALE) (\<lambda>u.
          if charge \<noteq> Some u \<or> tm_rounding_delta_amount metadata \<noteq> Some ''0''
          then Inl (InvalidData ''wallet budget charge does not match expense'')
          else Inr ())))))"

definition check_draft_account ::
  "ledger \<Rightarrow> user_id \<Rightarrow> ledger_entry_draft \<Rightarrow> ledger_error + unit" where
  "check_draft_account L owner entry =
     and_then (ok_or (LedgerSqlite QueryReturnedNoRows)
                (hm_get (ledger_accounts L) (ed_account_id entry))) (\<lambda>account.
     if la_owner_user_id account \<noteq> owner \<or> la_currency account \<noteq> ed_currency entry
     then Inl (InvalidData ''ledger account owner or currency mismatch'')
     else Inr ())"

definition insert_draft ::
  "ledger_transaction_id \<Rightarrow> instant \<Rightarrow> ledger \<Rightarrow> ledger_entry_id \<times> ledger_entry_draft
     \<Rightarrow> ledger_error + ledger" where
  "insert_draft tid now L draft =
     (case draft of (eid, entry) \<Rightarrow>
      and_then (insert_row eid
        \<lparr>le_id = eid, le_transaction_id = tid, le_owner_user_id = ed_owner_user_id entry,
         le_account_id = ed_account_id entry, le_direction = ed_direction entry,
         le_amount_cents = Some (ed_amount_cents entry), le_created_at = now,
         le_exact = \<lparr>lm_amount = show_int (ed_amount_cents entry), lm_scale = 2,
                     lm_currency = ed_currency entry\<rparr>\<rparr> (ledger_entries L)) (\<lambda>entries.
      Inr (L\<lparr>ledger_entries := entries\<rparr>)))"

text \<open>\<open>entry_ids\<close> are the identifiers generated for the entries, one each, in order.\<close>

definition record_transaction_with_metadata ::
  "ledger_transaction_id \<Rightarrow> ledger_entry_id list \<Rightarrow> instant \<Rightarrow> user_id \<Rightarrow> string option \<Rightarrow> string
     \<Rightarrow> ledger_entry_draft list \<Rightarrow> transaction_metadata option \<Rightarrow> ledger
     \<Rightarrow> ledger_error + (ledger_transaction \<times> ledger)" where
  "record_transaction_with_metadata fresh_id entry_ids now owner external_ref description entries metadata L =
     and_then (validate_entries_balance entries) (\<lambda>_.
     and_then (validate_entries_owner owner entries) (\<lambda>_.
     and_then (case metadata of None \<Rightarrow> Inr () | Some m \<Rightarrow> validate_wallet_metadata entries m) (\<lambda>_.
     let ledger_tx = \<lparr>lt_id = fresh_id, lt_owner_user_id = owner, lt_external_ref = external_ref,
                      lt_description = description, lt_created_at = now, lt_kind = WalletPayment\<rparr>
     in and_then (try_each (check_draft_account L owner) entries) (\<lambda>_.
     and_then (insert_row fresh_id ledger_tx (ledger_transactions L)) (\<lambda>transactions.
     and_then (try_fold (insert_draft fresh_id now) (L\<lparr>ledger_transactions := transactions\<rparr>)
                (zip entry_ids entries)) (\<lambda>L.
     and_then (case metadata of None \<Rightarrow> Inr L | Some m \<Rightarrow> attach_metadata fresh_id m L) (\<lambda>L.
     Inr (ledger_tx, L))))))))"

definition record_transaction ::
  "ledger_transaction_id \<Rightarrow> ledger_entry_id list \<Rightarrow> instant \<Rightarrow> user_id \<Rightarrow> string option \<Rightarrow> string
     \<Rightarrow> ledger_entry_draft list \<Rightarrow> ledger \<Rightarrow> ledger_error + (ledger_transaction \<times> ledger)" where
  "record_transaction fresh_id entry_ids now owner external_ref description entries L =
     record_transaction_with_metadata fresh_id entry_ids now owner external_ref description entries None L"

section \<open>Exact pairs\<close>

record pair_ids =
  pi_transaction :: ledger_transaction_id
  pi_debit_account :: ledger_account_id
  pi_debit_entry :: ledger_entry_id
  pi_credit_account :: ledger_account_id
  pi_credit_entry :: ledger_entry_id

record pair_posting =
  pp_owner :: user_id
  pp_debit_kind :: ledger_account_kind
  pp_credit_kind :: ledger_account_kind
  pp_signed_amount :: int
  pp_metadata :: transaction_metadata
  pp_external_ref :: "string option"
  pp_created_at :: instant

definition find_account :: "ledger \<Rightarrow> user_id \<Rightarrow> ledger_account_kind \<Rightarrow> currency \<Rightarrow> ledger_account_id option" where
  "find_account L owner kind cur =
     (case sort_key (account_key \<circ> la_id)
             (filter (\<lambda>a. la_owner_user_id a = owner \<and> la_kind a = kind \<and> la_currency a = cur)
               (hm_values (ledger_accounts L))) of
        [] \<Rightarrow> None
      | a # _ \<Rightarrow> Some (la_id a))"

definition flip_direction :: "ledger_direction \<Rightarrow> ledger_direction" where
  "flip_direction d = (case d of Debit \<Rightarrow> Credit | Credit \<Rightarrow> Debit)"

definition post_entry ::
  "pair_posting \<Rightarrow> ledger_transaction_id \<Rightarrow> int \<Rightarrow> ledger
     \<Rightarrow> ledger_account_id \<times> ledger_entry_id \<times> ledger_account_kind \<times> ledger_direction
     \<Rightarrow> ledger_error + ledger" where
  "post_entry posting tid amount L line =
     (case line of (fresh_account, fresh_entry, kind, direction) \<Rightarrow>
      let cur = lm_currency (tm_effective_cost (pp_metadata posting));
          direction = (if pp_signed_amount posting < 0 then flip_direction direction else direction)
      in and_then
        (case find_account L (pp_owner posting) kind cur of
           Some account \<Rightarrow> Inr (account, L)
         | None \<Rightarrow>
             and_then (insert_row fresh_account
                \<lparr>la_id = fresh_account, la_owner_user_id = pp_owner posting,
                 la_name = account_kind_as_str kind, la_kind = kind, la_currency = cur,
                 la_created_at = pp_created_at posting\<rparr> (ledger_accounts L)) (\<lambda>accounts.
             Inr (fresh_account, L\<lparr>ledger_accounts := accounts\<rparr>))) (\<lambda>(account, L).
      and_then (insert_row fresh_entry
        \<lparr>le_id = fresh_entry, le_transaction_id = tid, le_owner_user_id = pp_owner posting,
         le_account_id = account, le_direction = direction, le_amount_cents = None,
         le_created_at = pp_created_at posting,
         le_exact = \<lparr>lm_amount = show_int amount, lm_scale = 18, lm_currency = cur\<rparr>\<rparr>
        (ledger_entries L)) (\<lambda>entries.
      Inr (L\<lparr>ledger_entries := entries\<rparr>))))"

definition post_pair ::
  "pair_ids \<Rightarrow> pair_posting \<Rightarrow> ledger \<Rightarrow> ledger_error + (transaction_record \<times> ledger)" where
  "post_pair ids posting L =
     and_then (scaled (tm_effective_cost (pp_metadata posting))) (\<lambda>_.
     if pp_debit_kind posting = pp_credit_kind posting \<or> tm_kind (pp_metadata posting) = WalletPayment
     then Inl (InvalidData ''exact pair requires distinct accounts and a provider/adjustment source'')
     else and_then (ok_or (InvalidData ''expense delta overflow'')
                     (checked fits_i128 \<bar>pp_signed_amount posting\<bar>)) (\<lambda>amount.
     let tid = pi_transaction ids; kind = tm_kind (pp_metadata posting) in
     and_then (insert_row tid
        \<lparr>lt_id = tid, lt_owner_user_id = pp_owner posting, lt_external_ref = pp_external_ref posting,
         lt_description = transaction_kind_as_str kind, lt_created_at = pp_created_at posting,
         lt_kind = kind\<rparr> (ledger_transactions L)) (\<lambda>transactions.
     and_then (try_fold (post_entry posting tid amount) (L\<lparr>ledger_transactions := transactions\<rparr>)
        [(pi_debit_account ids, pi_debit_entry ids, pp_debit_kind posting, Debit),
         (pi_credit_account ids, pi_credit_entry ids, pp_credit_kind posting, Credit)]) (\<lambda>L.
     and_then (attach_metadata tid (pp_metadata posting) L) (\<lambda>L.
     and_then (ok_or (InvalidData ''missing posting'') (load_transaction L tid)) (\<lambda>record.
     Inr (record, L)))))))"

text \<open>An amount that was printed at the ledger's own scale is read back as it is.\<close>

lemma scaled_show:
  "0 \<le> n \<Longrightarrow> fits_i128 n \<Longrightarrow> scaled \<lparr>lm_amount = show_int n, lm_scale = 18, lm_currency = cur\<rparr> = Inr n"
  by (simp add: scaled_def parse_show_int checked_def)

end
