(* ===== verification/Wallet.thy ===== *)
theory Wallet
  imports Ledger
begin

text \<open>
  \<^verbatim>\<open>crates/hubu-wallet/src/payment.rs\<close> and \<^verbatim>\<open>rail.rs\<close>: the payment manager, which checks a payment against
  its authorizer, moves the money on a rail and records it in the ledger. The manager is generic in the
  rail and the authorizer: the two traits are the fields of \<open>payment_services\<close>, each a transformer of its
  own state (the outside world of the rail, the state behind the shared authorizer).
\<close>

section \<open>Types\<close>

datatype payment_status = Succeeded | Failed

datatype payment_rail_kind = FiatMock | StablecoinMock

definition rail_kind_as_ref :: "payment_rail_kind \<Rightarrow> string" where
  "rail_kind_as_ref k = (case k of FiatMock \<Rightarrow> ''fiat_mock'' | StablecoinMock \<Rightarrow> ''stablecoin_mock'')"

datatype payment_destination = FiatAccount string | StablecoinWallet string string

record payment_request =
  pr_idempotency_key :: string
  pr_spend_auth_token_id :: spend_auth_token_id
  pr_owner_user_id :: user_id
  pr_agent_id :: agent_id
  pr_agent_account_id :: agent_account_id
  pr_amount_cents :: int
  pr_currency :: currency
  pr_merchant :: "string option"
  pr_execution_scope :: "execution_scope option"
  pr_task_id :: "string option"
  pr_rail :: payment_rail_kind
  pr_destination :: payment_destination
  pr_memo :: "string option"

record payment_response =
  ps_payment_id :: payment_id
  ps_owner_user_id :: user_id
  ps_agent_account_id :: agent_account_id
  ps_status :: payment_status
  ps_amount_cents :: int
  ps_currency :: currency
  ps_ledger_transaction_id :: "ledger_transaction_id option"
  ps_rail_reference :: "string option"
  ps_failure_reason :: "string option"
  ps_created_at :: instant

datatype payment_rail_error = RailUnavailable payment_rail_kind

record rail_payment_result =
  rr_status :: payment_status
  rr_rail_reference :: "string option"
  rr_failure_reason :: "string option"
  rr_executed_at :: instant

datatype payment_error =
    NonPositiveAmount
  | UnsupportedCurrency currency
  | EmptyIdempotencyKey
  | IdempotencyConflict
  | AuthorizationRejected string
  | RailError payment_rail_error
  | PaymentLedgerError ledger_error

record wallet_authorization =
  wa_spend_auth_token_id :: spend_auth_token_id
  wa_owner_user_id :: user_id

record stored_payment =
  st_request :: payment_request
  st_response :: payment_response

record payment_ledger_accounts =
  wallet_cash :: ledger_account
  agent_spend_expense :: ledger_account

text \<open>The two traits, and the printing that the manager takes from third-party crates: the identifier
  text and the JSON of the source evidence.\<close>

record ('r, 'a) payment_services =
  rail_execute :: "instant \<Rightarrow> payment_request \<Rightarrow> 'r \<Rightarrow> (payment_rail_error + rail_payment_result) \<times> 'r"
  validate_payment_request :: "instant \<Rightarrow> 'a \<Rightarrow> payment_request \<Rightarrow> payment_error + wallet_authorization"
  mark_token_used :: "instant \<Rightarrow> spend_auth_token_id \<Rightarrow> payment_id \<Rightarrow> 'a \<Rightarrow> (payment_error + unit) \<times> 'a"
  show_payment_id :: "payment_id \<Rightarrow> string"
  payment_evidence_json :: "payment_id \<Rightarrow> payment_request \<Rightarrow> string option \<Rightarrow> string"

record ('r, 'a) payment_manager =
  pm_rail :: 'r
  pm_authorizer :: 'a
  pm_ledger :: ledger
  ledger_accounts_by_user :: "(user_id, payment_ledger_accounts) hmap"
  payments_by_idempotency_key :: "(string, stored_payment) hmap"

text \<open>The clock and the identifiers a submission generates.\<close>

record payment_inputs =
  pn_now :: instant
  pn_payment_id :: payment_id
  pn_cash_account :: ledger_account_id
  pn_expense_account :: ledger_account_id
  pn_transaction :: ledger_transaction_id
  pn_debit_entry :: ledger_entry_id
  pn_credit_entry :: ledger_entry_id

section \<open>The mock rail\<close>

definition mock_rail_execute ::
  "instant \<Rightarrow> payment_request \<Rightarrow> 'r \<Rightarrow> (payment_rail_error + rail_payment_result) \<times> 'r" where
  "mock_rail_execute now request world =
     (if pr_merchant request = Some ''fail''
      then (Inr \<lparr>rr_status = Failed, rr_rail_reference = None,
                 rr_failure_reason = Some ''mock rail declined merchant'', rr_executed_at = now\<rparr>, world)
      else (Inr \<lparr>rr_status = Succeeded,
                 rr_rail_reference =
                   Some (rail_kind_as_ref (pr_rail request) @ ''_'' @ pr_idempotency_key request),
                 rr_failure_reason = None, rr_executed_at = now\<rparr>, world))"

section \<open>Accounts\<close>

definition create_payment_accounts ::
  "payment_inputs \<Rightarrow> user_id \<Rightarrow> ledger \<Rightarrow> (ledger_error + payment_ledger_accounts) \<times> ledger" where
  "create_payment_accounts inputs owner L =
     (case create_account (pn_cash_account inputs) (pn_now inputs) owner ''Hubu wallet cash''
             UserWalletCash Usd L of
        Inl e \<Rightarrow> (Inl e, L)
      | Inr (cash, L1) \<Rightarrow>
          case create_account (pn_expense_account inputs) (pn_now inputs) owner ''Agent spend expense''
                 AgentSpendExpense Usd L1 of
            Inl e \<Rightarrow> (Inl e, L1)
          | Inr (expense, L2) \<Rightarrow> (Inr \<lparr>wallet_cash = cash, agent_spend_expense = expense\<rparr>, L2))"

definition payment_manager_new ::
  "payment_inputs \<Rightarrow> user_id \<Rightarrow> 'r \<Rightarrow> 'a \<Rightarrow> ledger \<Rightarrow> payment_error + ('r, 'a) payment_manager" where
  "payment_manager_new inputs owner rail authorizer L =
     (case create_payment_accounts inputs owner L of
        (Inl e, _) \<Rightarrow> Inl (PaymentLedgerError e)
      | (Inr accounts, L') \<Rightarrow>
          Inr \<lparr>pm_rail = rail, pm_authorizer = authorizer, pm_ledger = L',
               ledger_accounts_by_user = hm_insert owner accounts hm_empty,
               payments_by_idempotency_key = hm_empty\<rparr>)"

definition ledger_accounts_for_user ::
  "payment_inputs \<Rightarrow> user_id \<Rightarrow> ('r, 'a) payment_manager
     \<Rightarrow> (payment_error + payment_ledger_accounts) \<times> ('r, 'a) payment_manager" where
  "ledger_accounts_for_user inputs owner s =
     (case hm_get (ledger_accounts_by_user s) owner of
        Some accounts \<Rightarrow> (Inr accounts, s)
      | None \<Rightarrow>
          case create_payment_accounts inputs owner (pm_ledger s) of
            (Inl e, L) \<Rightarrow> (Inl (PaymentLedgerError e), s\<lparr>pm_ledger := L\<rparr>)
          | (Inr accounts, L) \<Rightarrow>
              (Inr accounts,
               s\<lparr>pm_ledger := L,
                 ledger_accounts_by_user := hm_insert owner accounts (ledger_accounts_by_user s)\<rparr>))"

section \<open>Submitting a payment\<close>

definition validate_request_shape :: "payment_request \<Rightarrow> payment_error + unit" where
  "validate_request_shape request =
     (if is_blank (pr_idempotency_key request) then Inl EmptyIdempotencyKey
      else if pr_amount_cents request \<le> 0 then Inl NonPositiveAmount
      else if pr_currency request \<noteq> Usd then Inl (UnsupportedCurrency (pr_currency request))
      else Inr ())"

definition governed_context_mismatch :: "payment_request \<Rightarrow> governed_spend_context \<Rightarrow> bool" where
  "governed_context_mismatch request c \<longleftrightarrow>
     gc_agent_id c \<noteq> pr_agent_id request \<or> gc_agent_account_id c \<noteq> pr_agent_account_id request
     \<or> is_blank (gc_operation_key c)"

text \<open>A stored payment answers a repeated request; a governed repetition has to carry the context that
  the ledger recorded.\<close>

definition replay_payment ::
  "ledger \<Rightarrow> payment_request \<Rightarrow> governed_spend_context option \<Rightarrow> stored_payment
     \<Rightarrow> payment_error + payment_response" where
  "replay_payment L request context stored =
     (if st_request stored \<noteq> request then Inl IdempotencyConflict
      else if is_some_and (\<lambda>c.
                let record = find (\<lambda>r. Some (tr_id r) = ps_ledger_transaction_id (st_response stored))
                               (owner_transactions L (pr_owner_user_id request))
                in ps_status (st_response stored) = Succeeded
                   \<and> is_some_and (\<lambda>m. tm_context m \<noteq> Some c) (Option.bind record tr_metadata)) context
      then Inl IdempotencyConflict
      else Inr (st_response stored))"

definition payment_drafts :: "payment_request \<Rightarrow> payment_ledger_accounts \<Rightarrow> ledger_entry_draft list" where
  "payment_drafts request accounts =
     [\<lparr>ed_owner_user_id = pr_owner_user_id request, ed_account_id = la_id (agent_spend_expense accounts),
       ed_direction = Debit, ed_amount_cents = pr_amount_cents request, ed_currency = pr_currency request\<rparr>,
      \<lparr>ed_owner_user_id = pr_owner_user_id request, ed_account_id = la_id (wallet_cash accounts),
       ed_direction = Credit, ed_amount_cents = pr_amount_cents request, ed_currency = pr_currency request\<rparr>]"

definition or_option :: "'a option \<Rightarrow> 'a option \<Rightarrow> 'a option" where
  "or_option a b = (case a of None \<Rightarrow> b | Some _ \<Rightarrow> a)"

definition payment_metadata ::
  "string \<Rightarrow> string \<Rightarrow> payment_request \<Rightarrow> governed_spend_context option \<Rightarrow> int option \<Rightarrow> string option
     \<Rightarrow> transaction_metadata" where
  "payment_metadata source_key evidence request context charge purpose =
     \<lparr>tm_kind = WalletPayment, tm_source_key = source_key, tm_agent_id = Some (pr_agent_id request),
      tm_agent_account_id = Some (pr_agent_account_id request), tm_context = context,
      tm_effective_cost = \<lparr>lm_amount = show_int (pr_amount_cents request), lm_scale = 2,
                           lm_currency = pr_currency request\<rparr>,
      tm_budget_charge_delta_cents = None, tm_budget_charge_delta = charge,
      tm_budget_charge_scale = map_option (\<lambda>_. BUDGET_CHARGE_SCALE) context,
      tm_rounding_delta_amount = map_option (\<lambda>_. ''0'') context,
      tm_original_transaction_id = None, tm_previous_transaction_id = None,
      tm_provider = map_option (\<lambda>scope. si_id (es_provider scope)) (pr_execution_scope request),
      tm_billing_merchant =
        or_option (map_option (\<lambda>scope. si_id (es_billing_merchant scope)) (pr_execution_scope request))
          (pr_merchant request),
      tm_purpose = or_option (or_option purpose (pr_memo request)) (pr_task_id request),
      tm_source_evidence = evidence, tm_reason = None, tm_adjustment_evidence = None,
      tm_legacy_backfill = False, tm_missing_evidence = []\<rparr>"

text \<open>The tail of a successful rail execution: the accounts, the ledger transaction, the token.\<close>

definition record_payment ::
  "('r, 'a) payment_services \<Rightarrow> payment_inputs \<Rightarrow> payment_request \<Rightarrow> governed_spend_context option
     \<Rightarrow> string option \<Rightarrow> int option \<Rightarrow> rail_payment_result \<Rightarrow> ('r, 'a) payment_manager
     \<Rightarrow> (payment_error + payment_response) \<times> ('r, 'a) payment_manager" where
  "record_payment services inputs request context purpose charge rail_result s =
     (case ledger_accounts_for_user inputs (pr_owner_user_id request) s of
        (Inl e, s) \<Rightarrow> (Inl e, s)
      | (Inr accounts, s) \<Rightarrow>
          let id_text = show_payment_id services (pn_payment_id inputs) in
          case record_transaction_with_metadata (pn_transaction inputs)
                 [pn_debit_entry inputs, pn_credit_entry inputs] (pn_now inputs)
                 (pr_owner_user_id request) (Some id_text)
                 (''payment '' @ id_text @ '' via '' @ rail_kind_as_ref (pr_rail request))
                 (payment_drafts request accounts)
                 (Some (payment_metadata (''payment:'' @ id_text)
                    (payment_evidence_json services (pn_payment_id inputs) request
                       (rr_rail_reference rail_result))
                    request context charge purpose))
                 (pm_ledger s) of
            Inl e \<Rightarrow> (Inl (PaymentLedgerError e), s)
          | Inr (transaction, L) \<Rightarrow>
              let s = s\<lparr>pm_ledger := L\<rparr> in
              case mark_token_used services (pn_now inputs) (pr_spend_auth_token_id request)
                     (pn_payment_id inputs) (pm_authorizer s) of
                (Inl e, a) \<Rightarrow> (Inl e, s\<lparr>pm_authorizer := a\<rparr>)
              | (Inr _, a) \<Rightarrow>
                  (Inr \<lparr>ps_payment_id = pn_payment_id inputs, ps_owner_user_id = pr_owner_user_id request,
                        ps_agent_account_id = pr_agent_account_id request, ps_status = Succeeded,
                        ps_amount_cents = pr_amount_cents request, ps_currency = pr_currency request,
                        ps_ledger_transaction_id = Some (lt_id transaction),
                        ps_rail_reference = rr_rail_reference rail_result, ps_failure_reason = None,
                        ps_created_at = pn_now inputs\<rparr>,
                   s\<lparr>pm_authorizer := a\<rparr>))"

definition failed_response ::
  "payment_inputs \<Rightarrow> payment_request \<Rightarrow> rail_payment_result \<Rightarrow> payment_response" where
  "failed_response inputs request rail_result =
     \<lparr>ps_payment_id = pn_payment_id inputs, ps_owner_user_id = pr_owner_user_id request,
      ps_agent_account_id = pr_agent_account_id request, ps_status = Failed,
      ps_amount_cents = pr_amount_cents request, ps_currency = pr_currency request,
      ps_ledger_transaction_id = None, ps_rail_reference = rr_rail_reference rail_result,
      ps_failure_reason = rr_failure_reason rail_result, ps_created_at = pn_now inputs\<rparr>"

definition remember_payment ::
  "payment_request \<Rightarrow> payment_response \<Rightarrow> ('r, 'a) payment_manager \<Rightarrow> ('r, 'a) payment_manager" where
  "remember_payment request response s =
     s\<lparr>payments_by_idempotency_key :=
         hm_insert (pr_idempotency_key request) \<lparr>st_request = request, st_response = response\<rparr>
           (payments_by_idempotency_key s)\<rparr>"

text \<open>A new payment: authorization, the budget charge of a governed payment, the rail, the records.\<close>

definition governed_budget_charge ::
  "payment_request \<Rightarrow> governed_spend_context option \<Rightarrow> payment_error + int option" where
  "governed_budget_charge request context =
     (case context of
        None \<Rightarrow> Inr None
      | Some _ \<Rightarrow>
          ok_or (PaymentLedgerError (InvalidData ''payment amount exceeds the budget unit range''))
            (map_option Some (checked_mul_i64 (pr_amount_cents request) 10000)))"

definition execute_payment ::
  "('r, 'a) payment_services \<Rightarrow> payment_inputs \<Rightarrow> payment_request \<Rightarrow> governed_spend_context option
     \<Rightarrow> string option \<Rightarrow> ('r, 'a) payment_manager
     \<Rightarrow> (payment_error + payment_response) \<times> ('r, 'a) payment_manager" where
  "execute_payment services inputs request context purpose s =
     (case and_then (validate_payment_request services (pn_now inputs) (pm_authorizer s) request)
             (\<lambda>_. governed_budget_charge request context) of
        Inl e \<Rightarrow> (Inl e, s)
      | Inr charge \<Rightarrow>
          case rail_execute services (pn_now inputs) request (pm_rail s) of
            (Inl e, world) \<Rightarrow> (Inl (RailError e), s\<lparr>pm_rail := world\<rparr>)
          | (Inr rail_result, world) \<Rightarrow>
              let s = s\<lparr>pm_rail := world\<rparr> in
              case (if rr_status rail_result = Succeeded
                    then record_payment services inputs request context purpose charge rail_result s
                    else (Inr (failed_response inputs request rail_result), s)) of
                (Inl e, s) \<Rightarrow> (Inl e, s)
              | (Inr response, s) \<Rightarrow> (Inr response, remember_payment request response s))"

definition submit_payment_with_context ::
  "('r, 'a) payment_services \<Rightarrow> payment_inputs \<Rightarrow> payment_request \<Rightarrow> governed_spend_context option
     \<Rightarrow> string option \<Rightarrow> ('r, 'a) payment_manager
     \<Rightarrow> (payment_error + payment_response) \<times> ('r, 'a) payment_manager" where
  "submit_payment_with_context services inputs request context purpose s =
     (if is_some_and (governed_context_mismatch request) context
      then (Inl (AuthorizationRejected ''governed ledger context does not match payment''), s)
      else case validate_request_shape request of
        Inl e \<Rightarrow> (Inl e, s)
      | Inr _ \<Rightarrow>
          case hm_get (payments_by_idempotency_key s) (pr_idempotency_key request) of
            Some stored \<Rightarrow> (replay_payment (pm_ledger s) request context stored, s)
          | None \<Rightarrow> execute_payment services inputs request context purpose s)"

definition submit_payment ::
  "('r, 'a) payment_services \<Rightarrow> payment_inputs \<Rightarrow> payment_request \<Rightarrow> ('r, 'a) payment_manager
     \<Rightarrow> (payment_error + payment_response) \<times> ('r, 'a) payment_manager" where
  "submit_payment services inputs request s = submit_payment_with_context services inputs request None None s"

definition remember_payment_attempt ::
  "payment_request \<Rightarrow> payment_response \<Rightarrow> ('r, 'a) payment_manager
     \<Rightarrow> (payment_error + unit) \<times> ('r, 'a) payment_manager" where
  "remember_payment_attempt request response s =
     (case validate_request_shape request of
        Inl e \<Rightarrow> (Inl e, s)
      | Inr _ \<Rightarrow>
          case hm_get (payments_by_idempotency_key s) (pr_idempotency_key request) of
            Some stored \<Rightarrow>
              if st_request stored \<noteq> request then (Inl IdempotencyConflict, s) else (Inr (), s)
          | None \<Rightarrow> (Inr (), remember_payment request response s))"

end
