(* ===== verification/Ledger_Invariant.thy ===== *)
theory Ledger_Invariant
  imports Ledger
begin

text \<open>
  What the ledger keeps true: every row is attributed to an account of its owner and currency, every
  transaction balances in every currency, every piece of evidence matches its posting, and nothing that
  was posted is ever changed. The append-only order \<open>extends\<close> carries the stability of loaded
  transactions from one state to the next.
\<close>

section \<open>Exact amounts\<close>

lemma scaled_ok_iff:
  "scaled m = Inr v \<longleftrightarrow>
     (\<exists>a. parse_i128 (lm_amount m) = Some a \<and> 0 \<le> a \<and> lm_scale m \<le> 18
        \<and> v = a * 10 ^ (18 - lm_scale m) \<and> fits_i128 v)"
  by (cases "parse_i128 (lm_amount m)") (auto simp: scaled_def ok_or_eq_iff checked_eq_iff)

lemma scaled_nonneg: "scaled m = Inr v \<Longrightarrow> 0 \<le> v"
  by (auto simp: scaled_ok_iff)

lemma budget_units_eq:
  assumes "scaled m = Inr v" and "s \<le> 18"
  shows "budget_units m s =
    ok_or (InvalidData ''budget units overflow'') (checked fits_i64 (ceil_div v (10 ^ (18 - s))))"
proof -
  have "0 \<le> v" using assms(1) by (rule scaled_nonneg)
  then show ?thesis using assms
    by (simp add: budget_units_def Let_def trunc_nonneg ceil_div_def)
qed

lemma budget_units_ok_iff:
  assumes "s \<le> 18"
  shows "budget_units m s = Inr u \<longleftrightarrow>
    (\<exists>v. scaled m = Inr v \<and> u = ceil_div v (10 ^ (18 - s)) \<and> fits_i64 u)"
proof (cases "scaled m")
  case (Inl e)
  then show ?thesis using assms by (simp add: budget_units_def)
next
  case (Inr v)
  then show ?thesis using budget_units_eq[OF Inr assms] by (auto simp: res_simps)
qed

lemma scaled_cents:
  assumes "fits_i64 c" and "0 < c"
  shows "scaled \<lparr>lm_amount = show_int c, lm_scale = 2, lm_currency = cur\<rparr> = Inr (c * CENT_AT_SCALE_18)"
proof -
  have "parse_i128 (show_int c) = Some c"
    using assms by (intro parse_show_int) (simp add: range_simps)
  then show ?thesis using assms by (simp add: scaled_ok_iff CENT_AT_SCALE_18_def range_simps)
qed

lemma scaled_at_18:
  assumes "fits_i128 a" and "0 \<le> a"
  shows "scaled \<lparr>lm_amount = show_int a, lm_scale = 18, lm_currency = cur\<rparr> = Inr a"
  using assms parse_show_int[of fits_i128 a] by (simp add: scaled_ok_iff)

section \<open>Values of postings\<close>

definition entry_value :: "transaction_entry \<Rightarrow> int" where
  "entry_value e = (case scaled (te_amount e) of Inl _ \<Rightarrow> 0 | Inr v \<Rightarrow> v)"

definition signed_value :: "transaction_entry \<Rightarrow> int" where
  "signed_value e = (if te_direction e = Debit then entry_value e else - entry_value e)"

definition net_of :: "currency \<Rightarrow> transaction_entry list \<Rightarrow> int" where
  "net_of cur es = sum_list (map signed_value (filter (\<lambda>e. lm_currency (te_amount e) = cur) es))"

definition expense_of :: "transaction_entry list \<Rightarrow> int" where
  "expense_of es = sum_list (map signed_value (filter (\<lambda>e. te_account_kind e = AgentSpendExpense) es))"

lemma net_of_simps [simp]:
  "net_of cur [] = 0"
  "net_of cur (e # es) = (if lm_currency (te_amount e) = cur then signed_value e else 0) + net_of cur es"
  by (simp_all add: net_of_def)

lemma expense_of_simps [simp]:
  "expense_of [] = 0"
  "expense_of (e # es) = (if te_account_kind e = AgentSpendExpense then signed_value e else 0) + expense_of es"
  by (simp_all add: expense_of_def)

lemma net_of_as_mset:
  "net_of cur es = (\<Sum>e\<in>#filter_mset (\<lambda>e. lm_currency (te_amount e) = cur) (mset es). signed_value e)"
  by (induction es) auto

lemma expense_of_as_mset:
  "expense_of es = (\<Sum>e\<in>#filter_mset (\<lambda>e. te_account_kind e = AgentSpendExpense) (mset es). signed_value e)"
  by (induction es) auto

lemma net_of_mset: "mset es = mset es' \<Longrightarrow> net_of cur es = net_of cur es'"
  by (simp only: net_of_as_mset)

text \<open>The loop of \<open>attach_metadata\<close> adds up exactly these values.\<close>

lemma add_posting_ok:
  assumes "add_posting L r cur totals e = Inr totals'"
  shows "lm_currency (te_amount e) = cur \<and> (\<exists>v. scaled (te_amount e) = Inr v)
    \<and> pt_debits totals' - pt_credits totals' = pt_debits totals - pt_credits totals + signed_value e
    \<and> pt_expense totals' = pt_expense totals
        + (if te_account_kind e = AgentSpendExpense then signed_value e else 0)"
  using assms
  by (auto simp: add_posting_def res_simps signed_value_def entry_value_def
      split: if_splits ledger_direction.splits)

lemma add_postings_ok:
  assumes "try_fold (add_posting L r cur) totals es = Inr totals'"
  shows "(\<forall>e\<in>set es. lm_currency (te_amount e) = cur)
    \<and> pt_debits totals' - pt_credits totals' = pt_debits totals - pt_credits totals + net_of cur es
    \<and> pt_expense totals' = pt_expense totals + expense_of es"
  using assms
proof (induction es arbitrary: totals)
  case (Cons e es)
  from Cons.prems obtain t where t: "add_posting L r cur totals e = Inr t"
    and rest: "try_fold (add_posting L r cur) t es = Inr totals'"
    by (auto simp: res_simps)
  show ?case using add_posting_ok[OF t] Cons.IH[OF rest] by auto
qed simp

lemma net_of_other_currency:
  "\<forall>e\<in>set es. lm_currency (te_amount e) = cur \<Longrightarrow> cur' \<noteq> cur \<Longrightarrow> net_of cur' es = 0"
  by (induction es) auto

section \<open>Rows\<close>

definition rows_of :: "ledger \<Rightarrow> ledger_transaction_id \<Rightarrow> ledger_entry list" where
  "rows_of L tid = filter (\<lambda>e. le_transaction_id e = tid) (hm_values (ledger_entries L))"

lemma entry_rows_mset: "mset (entry_rows L tid) = mset (rows_of L tid)"
  by (simp add: entry_rows_def rows_of_def)

definition row_ok :: "ledger \<Rightarrow> ledger_entry \<Rightarrow> bool" where
  "row_ok L e \<longleftrightarrow>
     (\<exists>t. hm_get (ledger_transactions L) (le_transaction_id e) = Some t
        \<and> lt_owner_user_id t = le_owner_user_id e)
     \<and> (\<exists>a. hm_get (ledger_accounts L) (le_account_id e) = Some a
        \<and> la_owner_user_id a = le_owner_user_id e \<and> la_currency a = lm_currency (le_exact e))
     \<and> (\<exists>v. scaled (le_exact e) = Inr v)"

definition rows_inv :: "ledger \<Rightarrow> bool" where
  "rows_inv L \<longleftrightarrow>
     hm_wf (ledger_accounts L) \<and> hm_wf (ledger_transactions L) \<and> hm_wf (ledger_entries L)
     \<and> hm_wf (ledger_metadata L)
     \<and> (\<forall>aid a. hm_get (ledger_accounts L) aid = Some a \<longrightarrow> la_id a = aid)
     \<and> (\<forall>tid t. hm_get (ledger_transactions L) tid = Some t \<longrightarrow> lt_id t = tid)
     \<and> (\<forall>tid m. hm_get (ledger_metadata L) tid = Some m \<longrightarrow> hm_contains (ledger_transactions L) tid)
     \<and> (\<forall>e\<in>set (hm_values (ledger_entries L)). row_ok L e)"

definition joined :: "ledger \<Rightarrow> ledger_entry \<Rightarrow> transaction_entry" where
  "joined L e = the (join_account L e)"

lemma row_ok_join: "row_ok L e \<Longrightarrow> join_account L e = Some (joined L e)"
  by (auto simp: row_ok_def join_account_def joined_def)

lemma rows_inv_entries:
  assumes "rows_inv L" and "load_transaction L tid = Some r"
  shows "mset (tr_entries r) = mset (map (joined L) (rows_of L tid))"
proof -
  have ok: "\<forall>e\<in>set (entry_rows L tid). join_account L e = Some (joined L e)"
    using assms(1) row_ok_join by (auto simp: rows_inv_def entry_rows_def)
  then have "List.map_filter (join_account L) (entry_rows L tid) = map (joined L) (entry_rows L tid)"
    by (induction "entry_rows L tid") (auto simp: List.map_filter_def cong: map_cong)
  then show ?thesis using assms(2) entry_rows_mset[of L tid]
    by (auto simp: load_transaction_def Let_def)
qed

section \<open>Append-only growth\<close>

definition extends :: "ledger \<Rightarrow> ledger \<Rightarrow> bool" where
  "extends L L' \<longleftrightarrow>
     (\<forall>k a. hm_get (ledger_accounts L) k = Some a \<longrightarrow> hm_get (ledger_accounts L') k = Some a)
     \<and> (\<forall>k t. hm_get (ledger_transactions L) k = Some t \<longrightarrow> hm_get (ledger_transactions L') k = Some t)
     \<and> (\<forall>k m. hm_get (ledger_metadata L) k = Some m \<longrightarrow> hm_get (ledger_metadata L') k = Some m)
     \<and> (\<forall>k. hm_contains (ledger_transactions L) k \<longrightarrow> rows_of L' k = rows_of L k)"

lemma extends_refl [simp]: "extends L L"
  by (simp add: extends_def)

lemma extends_trans: "extends L L' \<Longrightarrow> extends L' L'' \<Longrightarrow> extends L L''"
  by (simp add: extends_def hm_contains_def) (metis option.distinct(1) option.exhaust)

lemma extends_join:
  assumes "rows_inv L" and "extends L L'" and "e \<in> set (rows_of L tid)"
  shows "join_account L' e = join_account L e" and "joined L' e = joined L e"
proof -
  have "row_ok L e" using assms(1,3) by (auto simp: rows_inv_def rows_of_def)
  then show "join_account L' e = join_account L e"
    using assms(2) by (auto simp: row_ok_def join_account_def extends_def)
  then show "joined L' e = joined L e" by (simp add: joined_def)
qed

text \<open>A loaded transaction keeps its header and its postings; its evidence, once attached, stays.\<close>

lemma extends_load:
  assumes "rows_inv L" and "extends L L'" and "load_transaction L tid = Some r"
  shows "\<exists>r'. load_transaction L' tid = Some r' \<and> tr_owner_user_id r' = tr_owner_user_id r
    \<and> tr_kind r' = tr_kind r \<and> tr_entries r' = tr_entries r \<and> tr_description r' = tr_description r
    \<and> tr_created_at r' = tr_created_at r \<and> tr_external_ref r' = tr_external_ref r
    \<and> (tr_metadata r \<noteq> None \<longrightarrow> r' = r)"
proof -
  from assms(3) obtain t where t: "hm_get (ledger_transactions L) tid = Some t"
    by (auto simp: load_transaction_def)
  then have t': "hm_get (ledger_transactions L') tid = Some t" using assms(2) by (auto simp: extends_def)
  have rows: "rows_of L' tid = rows_of L tid" using assms(2) t by (auto simp: extends_def hm_contains_def)
  have "entry_rows L' tid = entry_rows L tid" using rows by (simp add: entry_rows_def rows_of_def)
  moreover have "\<forall>e\<in>set (entry_rows L tid). join_account L' e = join_account L e"
    using extends_join(1)[OF assms(1,2)] by (auto simp: entry_rows_def rows_of_def)
  ultimately have es: "List.map_filter (join_account L') (entry_rows L' tid)
      = List.map_filter (join_account L) (entry_rows L tid)"
    by (auto simp: List.map_filter_def comp_def cong: map_cong filter_cong)
  have m: "hm_get (ledger_metadata L) tid = Some m \<Longrightarrow> hm_get (ledger_metadata L') tid = Some m" for m
    using assms(2) by (auto simp: extends_def)
  show ?thesis using assms(3) t t' es m by (auto simp: load_transaction_def Let_def)
qed

lemma insert_row_ok_iff [res_simps]:
  "insert_row k v t = Inr t' \<longleftrightarrow> hm_get t k = None \<and> t' = hm_insert k v t"
  by (auto simp: insert_row_def hm_contains_def)

subsection \<open>The three elementary insertions\<close>

lemma insert_account_ok:
  assumes "rows_inv L" and "hm_get (ledger_accounts L) aid = None" and "la_id a = aid"
  shows "rows_inv (L\<lparr>ledger_accounts := hm_insert aid a (ledger_accounts L)\<rparr>)"
    and "extends L (L\<lparr>ledger_accounts := hm_insert aid a (ledger_accounts L)\<rparr>)"
proof -
  let ?L = "L\<lparr>ledger_accounts := hm_insert aid a (ledger_accounts L)\<rparr>"
  show "extends L ?L" using assms(2) by (auto simp: extends_def rows_of_def)
  have "row_ok L e \<Longrightarrow> row_ok ?L e" for e using assms(2) by (auto simp: row_ok_def)
  then show "rows_inv ?L" using assms by (auto simp: rows_inv_def)
qed

lemma insert_transaction_ok:
  assumes "rows_inv L" and "hm_get (ledger_transactions L) tid = None" and "lt_id t = tid"
  shows "rows_inv (L\<lparr>ledger_transactions := hm_insert tid t (ledger_transactions L)\<rparr>)"
    and "extends L (L\<lparr>ledger_transactions := hm_insert tid t (ledger_transactions L)\<rparr>)"
    and "rows_of L tid = []"
proof -
  let ?L = "L\<lparr>ledger_transactions := hm_insert tid t (ledger_transactions L)\<rparr>"
  show "extends L ?L" using assms(2) by (auto simp: extends_def rows_of_def)
  have "row_ok L e \<Longrightarrow> row_ok ?L e" for e using assms(2) by (auto simp: row_ok_def)
  then show "rows_inv ?L" using assms by (auto simp: rows_inv_def)
  show "rows_of L tid = []"
    using assms(1,2) by (auto simp: rows_inv_def rows_of_def row_ok_def filter_empty_conv)
qed

lemma insert_entry_ok:
  assumes "rows_inv L" and "hm_get (ledger_entries L) eid = None" and "row_ok L e"
    and "extends L0 L" and "\<not> hm_contains (ledger_transactions L0) (le_transaction_id e)"
  defines "L' \<equiv> L\<lparr>ledger_entries := hm_insert eid e (ledger_entries L)\<rparr>"
  shows "rows_inv L'" and "extends L0 L'"
    and "rows_of L' tid = rows_of L tid @ (if le_transaction_id e = tid then [e] else [])"
proof -
  have v: "hm_values (ledger_entries L') = hm_values (ledger_entries L) @ [e]"
    using assms(2) by (simp add: L'_def hm_values_insert_append)
  then show r: "rows_of L' tid = rows_of L tid @ (if le_transaction_id e = tid then [e] else [])" for tid
    by (simp add: rows_of_def)
  have ok: "row_ok L' e' \<longleftrightarrow> row_ok L e'" for e' by (simp add: L'_def row_ok_def)
  show "rows_inv L'" using assms(1,3) v ok by (auto simp: rows_inv_def L'_def)
  have "rows_of L' k = rows_of L0 k" if "hm_contains (ledger_transactions L0) k" for k
    using that assms(4,5) r[of k] by (auto simp: extends_def)
  then show "extends L0 L'" using assms(4) by (simp add: extends_def L'_def)
qed

end
