(* ===== verification/Machines.thy ===== *)
theory Machines
  imports Main
begin

text \<open>
  The contract of every state machine of the development. A \<open>machine\<close> is a step relation that preserves
  an invariant; a \<open>growing\<close> machine moreover only moves up in an order (an append-only store, a life
  cycle that never goes back). The consequences for whole runs are proved here once; each component
  provides the two laws for its own steps by an interpretation.
\<close>

locale machine =
  fixes step :: "'s \<Rightarrow> 's \<Rightarrow> bool" and inv :: "'s \<Rightarrow> bool"
  assumes inv_step: "step s s' \<Longrightarrow> inv s \<Longrightarrow> inv s'"
begin

lemma steps_inv: "step\<^sup>*\<^sup>* s s' \<Longrightarrow> inv s \<Longrightarrow> inv s'"
  by (induction rule: rtranclp_induct) (auto intro: inv_step)

text \<open>A property that every step keeps, as long as the invariant holds, persists along a run.\<close>

lemma steps_stable:
  assumes "step\<^sup>*\<^sup>* s s'" and "inv s" and "P s"
    and stable: "\<And>x y. step x y \<Longrightarrow> inv x \<Longrightarrow> P x \<Longrightarrow> P y"
  shows "P s'"
proof -
  have "inv s' \<and> P s'"
    using assms(1-3) by (induction rule: rtranclp_induct) (auto intro: inv_step stable)
  then show ?thesis ..
qed

end

locale growing = machine step inv
  for step :: "'s \<Rightarrow> 's \<Rightarrow> bool" and inv :: "'s \<Rightarrow> bool" +
  fixes grows :: "'s \<Rightarrow> 's \<Rightarrow> bool"
  assumes grows_refl: "grows s s"
    and grows_trans: "grows s s' \<Longrightarrow> grows s' s'' \<Longrightarrow> grows s s''"
    and grows_step: "step s s' \<Longrightarrow> inv s \<Longrightarrow> grows s s'"
begin

lemma steps_grow:
  assumes "step\<^sup>*\<^sup>* s s'" and "inv s"
  shows "grows s s'"
  using steps_stable[OF assms, of "grows s"] grows_refl grows_trans grows_step by blast

end

text \<open>A machine that simulates another: each of its steps is a run of the other on the observed state.\<close>

locale simulation = machine step inv
  for step :: "'s \<Rightarrow> 's \<Rightarrow> bool" and inv :: "'s \<Rightarrow> bool" +
  fixes abstract_step :: "'a \<Rightarrow> 'a \<Rightarrow> bool" and observe :: "'s \<Rightarrow> 'a"
  assumes simulates: "step s s' \<Longrightarrow> inv s \<Longrightarrow> abstract_step\<^sup>*\<^sup>* (observe s) (observe s')"
begin

lemma steps_simulate:
  assumes "step\<^sup>*\<^sup>* s s'" and "inv s"
  shows "abstract_step\<^sup>*\<^sup>* (observe s) (observe s')"
proof (rule steps_stable[OF assms, of "\<lambda>x. abstract_step\<^sup>*\<^sup>* (observe s) (observe x)"])
  fix x y
  assume "step x y" "inv x" "abstract_step\<^sup>*\<^sup>* (observe s) (observe x)"
  then show "abstract_step\<^sup>*\<^sup>* (observe s) (observe y)" using simulates rtranclp_trans by metis
qed simp

end

end
