(* ===== verification/Ledger_Machine.thy ===== *)
theory Ledger_Machine
  imports Ledger_Invariant Machines
begin

text \<open>
  The ledger as a machine: the evidence invariant, its preservation by every operation of
  \<^verbatim>\<open>hubu-ledger\<close> that writes, and the reachable ledgers.
\<close>

section \<open>Evidence\<close>

text \<open>The recorded charge of evidence at accounting scale: the rounded cost, or its change against the
  predecessor's cost.\<close>

definition records_charge :: "transaction_metadata \<Rightarrow> ledger_money option \<Rightarrow> bool" where
  "records_charge m old \<longleftrightarrow>
     (tm_context m \<noteq> None \<and> tm_budget_charge_scale m \<noteq> None \<longrightarrow>
      (\<exists>u. budget_units (tm_effective_cost m) BUDGET_CHARGE_SCALE = Inr u
         \<and> (case old of
              None \<Rightarrow> tm_budget_charge_delta m = Some u
            | Some c \<Rightarrow> \<exists>v. budget_units c BUDGET_CHARGE_SCALE = Inr v
                         \<and> tm_budget_charge_delta m = Some (u - v))))"

definition posting_ok :: "transaction_record \<Rightarrow> transaction_metadata \<Rightarrow> bool" where
  "posting_ok r m \<longleftrightarrow>
     tr_kind r = tm_kind m \<and> 2 \<le> length (tr_entries r)
     \<and> (\<forall>e\<in>set (tr_entries r). lm_currency (te_amount e) = lm_currency (tm_effective_cost m))
     \<and> net_of (lm_currency (tm_effective_cost m)) (tr_entries r) = 0
     \<and> (\<exists>cost. scaled (tm_effective_cost m) = Inr cost)"

definition cost_of :: "transaction_metadata \<Rightarrow> int" where
  "cost_of m = (case scaled (tm_effective_cost m) of Inl _ \<Rightarrow> 0 | Inr c \<Rightarrow> c)"

definition evidence_ok :: "ledger \<Rightarrow> ledger_transaction_id \<Rightarrow> transaction_metadata \<Rightarrow> bool" where
  "evidence_ok L tid m \<longleftrightarrow>
     (\<exists>r. load_transaction L tid = Some r \<and> posting_ok r m
        \<and> (if tm_kind m = Adjustment
           then \<exists>oid pid ro mo rp mp.
                tm_original_transaction_id m = Some oid \<and> tm_previous_transaction_id m = Some pid
                \<and> load_transaction L oid = Some ro \<and> tr_metadata ro = Some mo
                \<and> load_transaction L pid = Some rp \<and> tr_metadata rp = Some mp
                \<and> tr_owner_user_id ro = tr_owner_user_id r \<and> tr_owner_user_id rp = tr_owner_user_id r
                \<and> tr_kind ro \<noteq> Adjustment \<and> tm_context m = tm_context mo
                \<and> (pid = oid \<or> tm_original_transaction_id mp = Some oid)
                \<and> lm_currency (tm_effective_cost mp) = lm_currency (tm_effective_cost m)
                \<and> cost_of m = cost_of mp + expense_of (tr_entries r)
                \<and> records_charge m (Some (tm_effective_cost mp))
           else tm_original_transaction_id m = None \<and> tm_previous_transaction_id m = None
                \<and> cost_of m = expense_of (tr_entries r) \<and> records_charge m None))"

lemma cost_of_scaled: "scaled (tm_effective_cost m) = Inr c \<Longrightarrow> cost_of m = c"
  by (simp add: cost_of_def)

lemma load_transaction_id: "load_transaction L tid = Some r \<Longrightarrow> tr_id r = tid"
  by (auto simp: load_transaction_def Let_def)

lemma load_transaction_metadata:
  "load_transaction L tid = Some r \<Longrightarrow> tr_metadata r = hm_get (ledger_metadata L) tid"
  by (auto simp: load_transaction_def Let_def)

text \<open>What a successful \<open>attach_metadata\<close> has checked.\<close>

lemma adjustment_charge_ok:
  assumes "adjustment_charge L r m cost expense scale = Inr charge"
  shows "\<exists>oid pid ro mo rp mp pcost.
    tm_original_transaction_id m = Some oid \<and> tm_previous_transaction_id m = Some pid
    \<and> load_transaction L oid = Some ro \<and> tr_metadata ro = Some mo
    \<and> load_transaction L pid = Some rp \<and> tr_metadata rp = Some mp
    \<and> tr_owner_user_id ro = tr_owner_user_id r \<and> tr_owner_user_id rp = tr_owner_user_id r
    \<and> tr_kind ro \<noteq> Adjustment \<and> tm_context m = tm_context mo
    \<and> (pid = oid \<or> tm_original_transaction_id mp = Some oid)
    \<and> lm_currency (tm_effective_cost mp) = lm_currency (tm_effective_cost m)
    \<and> scaled (tm_effective_cost mp) = Inr pcost \<and> cost = pcost + expense
    \<and> (tm_context m \<noteq> None \<longrightarrow> (\<exists>u v. budget_units (tm_effective_cost m) scale = Inr u
         \<and> budget_units (tm_effective_cost mp) scale = Inr v \<and> charge = Some (u - v)))"
  using assms
  by (auto simp: adjustment_charge_def Let_def res_simps dest!: load_transaction_id split: if_splits)

lemma source_charge_ok:
  assumes "source_charge m cost expense scale = Inr charge"
  shows "tm_original_transaction_id m = None \<and> tm_previous_transaction_id m = None \<and> expense = cost
    \<and> (tm_context m \<noteq> None \<longrightarrow> (\<exists>u. budget_units (tm_effective_cost m) scale = Inr u \<and> charge = Some u))"
  using assms by (auto simp: source_charge_def res_simps split: if_splits)

lemma insert_metadata_ok:
  assumes "rows_inv L" and "insert_metadata tid m L = Inr L'"
  shows "L' = L\<lparr>ledger_metadata := hm_insert tid m (ledger_metadata L)\<rparr>"
    and "hm_get (ledger_metadata L) tid = None"
    and "hm_get (ledger_metadata L) tid' = Some m' \<Longrightarrow> tm_source_key m' \<noteq> tm_source_key m"
    and "hm_get (ledger_metadata L) tid' = Some m' \<Longrightarrow> tm_previous_transaction_id m = Some p
          \<Longrightarrow> tm_previous_transaction_id m' \<noteq> Some p"
proof -
  have wf: "hm_wf (ledger_metadata L)" using assms(1) by (simp add: rows_inv_def)
  show "L' = L\<lparr>ledger_metadata := hm_insert tid m (ledger_metadata L)\<rparr>"
    and "hm_get (ledger_metadata L) tid = None"
    using assms(2) by (auto simp: insert_metadata_def hm_contains_def split: if_splits)
  assume m': "hm_get (ledger_metadata L) tid' = Some m'"
  then have mem: "m' \<in> set (hm_values (ledger_metadata L))" using hm.values_get[OF wf] by blast
  then show "tm_source_key m' \<noteq> tm_source_key m"
    using assms(2) by (auto simp: insert_metadata_def list_ex_iff split: if_splits)
  assume "tm_previous_transaction_id m = Some p"
  then show "tm_previous_transaction_id m' \<noteq> Some p"
    using mem assms(2) by (auto simp: insert_metadata_def list_ex_iff split: if_splits)
qed

lemma attach_metadata_split:
  assumes "attach_metadata tid m L = Inr L'"
  obtains cost r totals charge where
    "scaled (tm_effective_cost m) = Inr cost" "load_transaction L tid = Some r"
    "try_fold (add_posting L r (lm_currency (tm_effective_cost m)))
       \<lparr>pt_debits = 0, pt_credits = 0, pt_expense = 0\<rparr> (tr_entries r) = Inr totals"
    "2 \<le> length (tr_entries r)" "pt_debits totals = pt_credits totals"
    "(if tm_kind m = Adjustment
      then adjustment_charge L r m cost (pt_expense totals)
             (if tm_budget_charge_scale m \<noteq> None then BUDGET_CHARGE_SCALE else 2)
      else source_charge m cost (pt_expense totals)
             (if tm_budget_charge_scale m \<noteq> None then BUDGET_CHARGE_SCALE else 2)) = Inr charge"
    "(if tm_budget_charge_scale m \<noteq> None then tm_budget_charge_delta m
      else tm_budget_charge_delta_cents m) = charge"
    "tr_kind r = tm_kind m" "insert_metadata tid m L = Inr L'"
proof -
  from assms obtain cost where 1: "scaled (tm_effective_cost m) = Inr cost"
    by (auto simp: attach_metadata_def and_then_eq_Inr_iff)
  with assms obtain r where 2: "load_transaction L tid = Some r"
    by (auto simp: attach_metadata_def and_then_eq_Inr_iff ok_or_eq_iff split: if_splits)
  with assms 1 obtain totals where 3: "try_fold (add_posting L r (lm_currency (tm_effective_cost m)))
       \<lparr>pt_debits = 0, pt_credits = 0, pt_expense = 0\<rparr> (tr_entries r) = Inr totals"
    by (auto simp: attach_metadata_def and_then_eq_Inr_iff ok_or_eq_iff split: if_splits)
  show ?thesis
    by (rule that[OF 1 2 3]; insert assms 1 2 3;
        auto simp: attach_metadata_def Let_def and_then_eq_Inr_iff split: if_splits)
qed

lemma attach_metadata_evidence:
  assumes "attach_metadata tid m L = Inr L'"
  shows "evidence_ok L tid m"
proof -
  from assms obtain cost r totals charge where
    cost: "scaled (tm_effective_cost m) = Inr cost" and r: "load_transaction L tid = Some r"
    and fold: "try_fold (add_posting L r (lm_currency (tm_effective_cost m)))
       \<lparr>pt_debits = 0, pt_credits = 0, pt_expense = 0\<rparr> (tr_entries r) = Inr totals"
    and len: "2 \<le> length (tr_entries r)" and bal: "pt_debits totals = pt_credits totals"
    and charge: "(if tm_kind m = Adjustment
      then adjustment_charge L r m cost (pt_expense totals)
             (if tm_budget_charge_scale m \<noteq> None then BUDGET_CHARGE_SCALE else 2)
      else source_charge m cost (pt_expense totals)
             (if tm_budget_charge_scale m \<noteq> None then BUDGET_CHARGE_SCALE else 2)) = Inr charge"
    and rec: "(if tm_budget_charge_scale m \<noteq> None then tm_budget_charge_delta m
      else tm_budget_charge_delta_cents m) = charge"
    and kind: "tr_kind r = tm_kind m"
    by (rule attach_metadata_split)
  note sums = add_postings_ok[OF fold]
  have post: "posting_ok r m" using sums cost len bal kind by (auto simp: posting_ok_def)
  have exp: "pt_expense totals = expense_of (tr_entries r)" using sums by simp
  show ?thesis
  proof (cases "tm_kind m = Adjustment")
    case True
    then have adj: "adjustment_charge L r m cost (pt_expense totals)
       (if tm_budget_charge_scale m \<noteq> None then BUDGET_CHARGE_SCALE else 2) = Inr charge"
      using charge by simp
    show ?thesis using adjustment_charge_ok[OF adj] True r post exp rec cost_of_scaled[OF cost]
      unfolding evidence_ok_def records_charge_def by (auto simp: cost_of_scaled)
  next
    case False
    then have src: "source_charge m cost (pt_expense totals)
       (if tm_budget_charge_scale m \<noteq> None then BUDGET_CHARGE_SCALE else 2) = Inr charge"
      using charge by simp
    show ?thesis using source_charge_ok[OF src] False r post exp rec cost_of_scaled[OF cost]
      unfolding evidence_ok_def records_charge_def by auto
  qed
qed

lemma attach_metadata_ok:
  assumes "rows_inv L" and "attach_metadata tid m L = Inr L'"
  shows "insert_metadata tid m L = Inr L'" and "rows_inv L'" and "extends L L'"
    and "L' = L\<lparr>ledger_metadata := hm_insert tid m (ledger_metadata L)\<rparr>"
proof -
  from assms(2) show ins: "insert_metadata tid m L = Inr L'" by (rule attach_metadata_split)
  from assms(2) obtain r where r: "load_transaction L tid = Some r" by (rule attach_metadata_split)
  note upd = insert_metadata_ok[OF assms(1) ins]
  from upd(1) show L': "L' = L\<lparr>ledger_metadata := hm_insert tid m (ledger_metadata L)\<rparr>" .
  show "extends L L'" using upd(2) by (auto simp: L' extends_def rows_of_def)
  have "hm_contains (ledger_transactions L) tid"
    using r by (auto simp: load_transaction_def hm_contains_def)
  then show "rows_inv L'" using assms(1) by (auto simp: L' rows_inv_def row_ok_def)
qed

lemma extends_posting:
  assumes "rows_inv L" and "extends L L'" and "load_transaction L tid = Some r" and "posting_ok r m"
  shows "\<exists>r'. load_transaction L' tid = Some r' \<and> posting_ok r' m
     \<and> tr_owner_user_id r' = tr_owner_user_id r \<and> tr_entries r' = tr_entries r"
  using extends_load[OF assms(1-3)] assms(4) by (auto simp: posting_ok_def)

lemma extends_evidenced:
  assumes "rows_inv L" and "extends L L'" and "load_transaction L tid = Some r" and "tr_metadata r = Some m"
  shows "load_transaction L' tid = Some r"
  using extends_load[OF assms(1-3)] assms(4) by auto

lemma extends_evidence:
  assumes inv: "rows_inv L" and ext: "extends L L'" and ev: "evidence_ok L tid m"
  shows "evidence_ok L' tid m"
proof -
  from ev obtain r where r: "load_transaction L tid = Some r" and post: "posting_ok r m"
    unfolding evidence_ok_def by auto
  from extends_posting[OF inv ext r post] obtain r' where
    r': "load_transaction L' tid = Some r'" "posting_ok r' m"
       "tr_owner_user_id r' = tr_owner_user_id r" "tr_entries r' = tr_entries r" by auto
  show ?thesis
  proof (cases "tm_kind m = Adjustment")
    case True
    from ev r True obtain oid pid ro mo rp mp where l:
      "tm_original_transaction_id m = Some oid" "tm_previous_transaction_id m = Some pid"
      "load_transaction L oid = Some ro" "tr_metadata ro = Some mo"
      "load_transaction L pid = Some rp" "tr_metadata rp = Some mp"
      and rest: "tr_owner_user_id ro = tr_owner_user_id r" "tr_owner_user_id rp = tr_owner_user_id r"
      "tr_kind ro \<noteq> Adjustment" "tm_context m = tm_context mo"
      "pid = oid \<or> tm_original_transaction_id mp = Some oid"
      "lm_currency (tm_effective_cost mp) = lm_currency (tm_effective_cost m)"
      "cost_of m = cost_of mp + expense_of (tr_entries r)"
      "records_charge m (Some (tm_effective_cost mp))"
      unfolding evidence_ok_def by auto
    have "load_transaction L' oid = Some ro" "load_transaction L' pid = Some rp"
      using extends_evidenced[OF inv ext] l by blast+
    then show ?thesis using True l rest r' unfolding evidence_ok_def by auto
  next
    case False
    then show ?thesis using ev r r' unfolding evidence_ok_def by auto
  qed
qed

section \<open>The invariant\<close>

definition balanced :: "ledger \<Rightarrow> ledger_transaction_id \<Rightarrow> bool" where
  "balanced L tid \<longleftrightarrow>
     2 \<le> length (rows_of L tid) \<and> (\<forall>cur. net_of cur (map (joined L) (rows_of L tid)) = 0)"

definition ledger_inv :: "ledger \<Rightarrow> bool" where
  "ledger_inv L \<longleftrightarrow> rows_inv L
     \<and> (\<forall>tid. hm_contains (ledger_transactions L) tid \<longrightarrow> balanced L tid)
     \<and> (\<forall>tid m. hm_get (ledger_metadata L) tid = Some m \<longrightarrow> evidence_ok L tid m)
     \<and> (\<forall>i j m n. hm_get (ledger_metadata L) i = Some m \<longrightarrow> hm_get (ledger_metadata L) j = Some n
          \<longrightarrow> i \<noteq> j \<longrightarrow> tm_source_key m \<noteq> tm_source_key n)
     \<and> (\<forall>i j m n p. hm_get (ledger_metadata L) i = Some m \<longrightarrow> hm_get (ledger_metadata L) j = Some n
          \<longrightarrow> tm_previous_transaction_id m = Some p \<longrightarrow> tm_previous_transaction_id n = Some p \<longrightarrow> i = j)"

lemma ledger_inv_rows: "ledger_inv L \<Longrightarrow> rows_inv L"
  by (simp add: ledger_inv_def)

lemma ledger_inv_init: "ledger_inv ledger_init"
  by (simp add: ledger_inv_def rows_inv_def ledger_init_def hm.values_empty)

lemma extends_balanced:
  assumes "rows_inv L" and "extends L L'" and "hm_contains (ledger_transactions L) tid" and "balanced L tid"
  shows "balanced L' tid"
proof -
  have rows: "rows_of L' tid = rows_of L tid" using assms(2,3) by (auto simp: extends_def)
  have same: "map (joined L') (rows_of L tid) = map (joined L) (rows_of L tid)"
    using extends_join(2)[OF assms(1,2)] by simp
  show ?thesis using assms(4) unfolding balanced_def rows same .
qed

text \<open>A growth step that posts the one transaction \<open>tid\<close> and leaves the evidence alone.\<close>

lemma ledger_inv_grow:
  assumes inv: "ledger_inv L" and rows: "rows_inv L'" and ext: "extends L L'"
    and meta: "ledger_metadata L' = ledger_metadata L"
    and new: "\<And>k. hm_contains (ledger_transactions L') k \<Longrightarrow> \<not> hm_contains (ledger_transactions L) k
                 \<Longrightarrow> balanced L' k"
  shows "ledger_inv L'"
proof -
  note r = ledger_inv_rows[OF inv]
  have "balanced L' k" if "hm_contains (ledger_transactions L') k" for k
    using that new extends_balanced[OF r ext, of k] inv by (auto simp: ledger_inv_def)
  moreover have "evidence_ok L' k m" if "hm_get (ledger_metadata L') k = Some m" for k m
    using that inv extends_evidence[OF r ext] unfolding meta by (auto simp: ledger_inv_def)
  moreover note inv
  ultimately show ?thesis unfolding ledger_inv_def meta using rows by blast
qed

lemma ledger_inv_attach:
  assumes inv: "ledger_inv L" and att: "attach_metadata tid m L = Inr L'"
  shows "ledger_inv L'"
proof -
  note rows = ledger_inv_rows[OF inv]
  note a = attach_metadata_ok[OF rows att]
  note ins = insert_metadata_ok[OF rows a(1)]
  have bal: "balanced L' k" if "hm_contains (ledger_transactions L') k" for k
    using that extends_balanced[OF rows a(3), of k] inv by (auto simp: ledger_inv_def a(4))
  have ev: "evidence_ok L' k n" if "hm_get (ledger_metadata L') k = Some n" for k n
    using that extends_evidence[OF rows a(3)] attach_metadata_evidence[OF att] inv
    by (auto simp: a(4) ledger_inv_def split: if_splits)
  have src: "tm_source_key n \<noteq> tm_source_key o'"
    if "hm_get (ledger_metadata L') i = Some n" "hm_get (ledger_metadata L') j = Some o'" "i \<noteq> j" for i j n o'
    using that ins(3)[of i n] ins(3)[of j o'] inv by (auto simp: a(4) ledger_inv_def split: if_splits)
  have prev: "i = j"
    if "hm_get (ledger_metadata L') i = Some n" "hm_get (ledger_metadata L') j = Some o'"
      "tm_previous_transaction_id n = Some p" "tm_previous_transaction_id o' = Some p" for i j n o' p
    using that ins(4)[of i n p] ins(4)[of j o' p] inv by (auto simp: a(4) ledger_inv_def split: if_splits)
  show ?thesis unfolding ledger_inv_def using a(2) bal ev src prev by blast
qed

lemma evidence_balanced:
  assumes "rows_inv L" and "evidence_ok L tid m"
  shows "balanced L tid"
proof -
  from assms(2) obtain r where r: "load_transaction L tid = Some r" and post: "posting_ok r m"
    unfolding evidence_ok_def by auto
  have es: "mset (tr_entries r) = mset (map (joined L) (rows_of L tid))"
    by (rule rows_inv_entries[OF assms(1) r])
  have "net_of cur (tr_entries r) = 0" for cur
    using post net_of_other_currency[of "tr_entries r"] unfolding posting_ok_def by (metis (lifting))
  moreover have "2 \<le> length (rows_of L tid)"
    using post arg_cong[OF es, of size] by (simp add: posting_ok_def)
  ultimately show ?thesis using net_of_mset[OF es] by (simp add: balanced_def)
qed

section \<open>Every operation preserves it\<close>

lemma create_account_ok:
  assumes "ledger_inv L" and "create_account aid now owner name kind cur L = Inr (a, L')"
  shows "ledger_inv L'" and "extends L L'" and "hm_get (ledger_accounts L') aid = Some a"
    and "la_id a = aid" and "la_owner_user_id a = owner" and "la_currency a = cur" and "la_kind a = kind"
proof -
  from assms(2) have new: "hm_get (ledger_accounts L) aid = None" and id: "la_id a = aid"
    and L': "L' = L\<lparr>ledger_accounts := hm_insert aid a (ledger_accounts L)\<rparr>"
    by (auto simp: create_account_def Let_def res_simps)
  note i = insert_account_ok[OF ledger_inv_rows[OF assms(1)] new id]
  show "extends L L'" using i(2) by (simp add: L')
  show "ledger_inv L'"
    by (rule ledger_inv_grow[OF assms(1)]) (use i in \<open>simp_all add: L'\<close>)
  show "hm_get (ledger_accounts L') aid = Some a" by (simp add: L')
  show "la_id a = aid" by (rule id)
  show "la_owner_user_id a = owner" "la_currency a = cur" "la_kind a = kind"
    using assms(2) by (auto simp: create_account_def Let_def res_simps)
qed

subsection \<open>Drafted entries\<close>

definition draft_row ::
  "ledger_transaction_id \<Rightarrow> instant \<Rightarrow> ledger_entry_id \<times> ledger_entry_draft \<Rightarrow> ledger_entry" where
  "draft_row tid now d =
     \<lparr>le_id = fst d, le_transaction_id = tid, le_owner_user_id = ed_owner_user_id (snd d),
      le_account_id = ed_account_id (snd d), le_direction = ed_direction (snd d),
      le_amount_cents = Some (ed_amount_cents (snd d)), le_created_at = now,
      le_exact = \<lparr>lm_amount = show_int (ed_amount_cents (snd d)), lm_scale = 2,
                  lm_currency = ed_currency (snd d)\<rparr>\<rparr>"

definition draft_ok :: "ledger \<Rightarrow> user_id \<Rightarrow> ledger_entry_draft \<Rightarrow> bool" where
  "draft_ok L owner d \<longleftrightarrow> check_draft_account L owner d = Inr () \<and> ed_owner_user_id d = owner
     \<and> 0 < ed_amount_cents d \<and> fits_i64 (ed_amount_cents d)"

lemma draft_row_ok:
  assumes "hm_get (ledger_transactions L) tid = Some t" and "lt_owner_user_id t = owner"
    and "draft_ok L owner (snd d)"
  shows "row_ok L (draft_row tid now d)"
  using assms scaled_cents[of "ed_amount_cents (snd d)" "ed_currency (snd d)"]
  by (auto simp: row_ok_def draft_row_def draft_ok_def check_draft_account_def res_simps split: if_splits)

lemma insert_drafts_ok:
  assumes "try_fold (insert_draft tid now) L ds = Inr L'" and "rows_inv L" and "extends L0 L"
    and "\<not> hm_contains (ledger_transactions L0) tid"
    and "hm_get (ledger_transactions L) tid = Some t" and "lt_owner_user_id t = owner"
    and "\<forall>d\<in>set ds. draft_ok L owner (snd d)"
  shows "rows_inv L' \<and> extends L0 L' \<and> rows_of L' tid = rows_of L tid @ map (draft_row tid now) ds
    \<and> ledger_accounts L' = ledger_accounts L \<and> ledger_transactions L' = ledger_transactions L
    \<and> ledger_metadata L' = ledger_metadata L"
  using assms
proof (induction ds arbitrary: L)
  case (Cons d ds)
  from Cons.prems(1) obtain L1 where L1: "insert_draft tid now L d = Inr L1"
    and rest: "try_fold (insert_draft tid now) L1 ds = Inr L'" by (auto simp: res_simps)
  have new: "hm_get (ledger_entries L) (fst d) = None"
    and L1': "L1 = L\<lparr>ledger_entries := hm_insert (fst d) (draft_row tid now d) (ledger_entries L)\<rparr>"
    using L1 by (auto simp: insert_draft_def draft_row_def res_simps split: prod.splits)
  have ok: "row_ok L (draft_row tid now d)" using Cons.prems by (intro draft_row_ok) auto
  have tid: "le_transaction_id (draft_row tid now d) = tid" by (simp add: draft_row_def)
  note i = insert_entry_ok[OF Cons.prems(2) new ok Cons.prems(3), folded L1', unfolded tid, OF Cons.prems(4)]
  have "rows_inv L' \<and> extends L0 L' \<and> rows_of L' tid = rows_of L1 tid @ map (draft_row tid now) ds
    \<and> ledger_accounts L' = ledger_accounts L1 \<and> ledger_transactions L' = ledger_transactions L1
    \<and> ledger_metadata L' = ledger_metadata L1"
    by (rule Cons.IH[OF rest i(1,2) Cons.prems(4)])
      (use Cons.prems(5-7) in \<open>auto simp: L1' draft_ok_def check_draft_account_def\<close>)
  then show ?case using i(3)[of tid] by (simp add: L1')
qed simp

text \<open>\<open>validate_entries_balance\<close> accepts exactly drafts that net to zero in every currency.\<close>

definition draft_signed :: "ledger_entry_draft \<Rightarrow> int" where
  "draft_signed d = (if ed_direction d = Debit then ed_amount_cents d else - ed_amount_cents d)"

definition draft_net :: "currency \<Rightarrow> ledger_entry_draft list \<Rightarrow> int" where
  "draft_net cur ds = sum_list (map draft_signed (filter (\<lambda>d. ed_currency d = cur) ds))"

definition total_net :: "currency \<Rightarrow> (currency, int \<times> int) hmap \<Rightarrow> int" where
  "total_net cur totals = (case hm_get totals cur of None \<Rightarrow> 0 | Some (d, c) \<Rightarrow> d - c)"

lemma add_draft_ok:
  assumes "add_draft totals d = Inr totals'"
  shows "0 < ed_amount_cents d
    \<and> total_net cur totals' = total_net cur totals + (if ed_currency d = cur then draft_signed d else 0)"
  using assms
  by (auto simp: add_draft_def total_net_def draft_signed_def Let_def res_simps
      split: if_splits option.splits ledger_direction.splits prod.splits)

lemma add_drafts_ok:
  assumes "try_fold add_draft totals ds = Inr totals'"
  shows "(\<forall>d\<in>set ds. 0 < ed_amount_cents d) \<and> total_net cur totals' = total_net cur totals + draft_net cur ds"
  using assms
proof (induction ds arbitrary: totals)
  case (Cons d ds)
  then obtain t where t: "add_draft totals d = Inr t" "try_fold add_draft t ds = Inr totals'"
    by (auto simp: res_simps)
  show ?case using add_draft_ok[OF t(1), of cur] Cons.IH[OF t(2)] by (auto simp: draft_net_def)
qed (simp add: draft_net_def)

lemma validate_balance_ok:
  assumes "validate_entries_balance ds = Inr ()"
  shows "2 \<le> length ds" and "\<forall>d\<in>set ds. 0 < ed_amount_cents d" and "draft_net cur ds = 0"
proof -
  show "2 \<le> length ds" using assms by (auto simp: validate_entries_balance_def split: if_splits)
  from assms obtain totals where fold: "try_fold add_draft hm_empty ds = Inr totals"
    and each: "\<forall>(c, p)\<in>set totals. fst p = snd p"
    by (fastforce simp: validate_entries_balance_def try_each_ok_iff res_simps split: if_splits prod.splits)
  note f = add_drafts_ok[OF fold, of cur]
  show "\<forall>d\<in>set ds. 0 < ed_amount_cents d" using f by simp
  have "total_net cur totals = 0"
    using each by (fastforce simp: total_net_def hm_get_def dest!: map_of_SomeD split: option.splits)
  then show "draft_net cur ds = 0" using f by (simp add: total_net_def)
qed

lemma net_of_drafts:
  assumes "\<forall>d\<in>set ds. draft_ok L owner (snd d)"
  shows "net_of cur (map (joined L \<circ> draft_row tid now) ds) = CENT_AT_SCALE_18 * draft_net cur (map snd ds)"
  using assms
proof (induction ds)
  case (Cons d ds)
  have ok: "draft_ok L owner (snd d)" using Cons.prems by simp
  then obtain a where "hm_get (ledger_accounts L) (ed_account_id (snd d)) = Some a"
    by (auto simp: draft_ok_def check_draft_account_def res_simps)
  then have "signed_value (joined L (draft_row tid now d)) = CENT_AT_SCALE_18 * draft_signed (snd d)"
    and "lm_currency (te_amount (joined L (draft_row tid now d))) = ed_currency (snd d)"
    using ok scaled_cents[of "ed_amount_cents (snd d)" "ed_currency (snd d)"]
    by (simp_all add: joined_def join_account_def draft_row_def signed_value_def entry_value_def
        draft_signed_def draft_ok_def)
  then show ?case using Cons by (simp add: draft_net_def distrib_left)
qed (simp add: draft_net_def)

lemma record_transaction_ok:
  assumes inv: "ledger_inv L" and len: "length ids = length ds"
    and cents: "\<forall>d\<in>set ds. fits_i64 (ed_amount_cents d)"
    and rec: "record_transaction_with_metadata tid ids now owner ref descr ds meta L = Inr (t, L')"
  shows "ledger_inv L'" and "extends L L'" and "hm_get (ledger_transactions L') tid = Some t"
proof -
  from rec obtain L1 where v: "validate_entries_balance ds = Inr ()" "validate_entries_owner owner ds = Inr ()"
    and each: "\<forall>d\<in>set ds. check_draft_account L owner d = Inr ()"
    and t: "t = \<lparr>lt_id = tid, lt_owner_user_id = owner, lt_external_ref = ref, lt_description = descr,
             lt_created_at = now, lt_kind = WalletPayment\<rparr>"
    and new: "hm_get (ledger_transactions L) tid = None"
    and fold: "try_fold (insert_draft tid now)
      (L\<lparr>ledger_transactions := hm_insert tid t (ledger_transactions L)\<rparr>) (zip ids ds) = Inr L1"
    and att: "(case meta of None \<Rightarrow> Inr L1 | Some m \<Rightarrow> attach_metadata tid m L1) = Inr L'"
    by (auto simp: record_transaction_with_metadata_def Let_def try_each_ok_iff res_simps)
  let ?L = "L\<lparr>ledger_transactions := hm_insert tid t (ledger_transactions L)\<rparr>"
  note rows = ledger_inv_rows[OF inv]
  note h = insert_transaction_ok[OF rows new, of t]
  have id: "lt_id t = tid" by (simp add: t)
  have ok: "\<forall>d\<in>set (zip ids ds). draft_ok ?L owner (snd d)"
    using each cents v validate_balance_ok(2)[OF v(1)]
    by (auto simp: draft_ok_def check_draft_account_def validate_entries_owner_def list_all_iff
        dest!: set_zip_rightD split: if_splits)
  have d: "rows_inv L1 \<and> extends L L1 \<and> rows_of L1 tid = rows_of ?L tid @ map (draft_row tid now) (zip ids ds)
    \<and> ledger_accounts L1 = ledger_accounts ?L \<and> ledger_transactions L1 = ledger_transactions ?L
    \<and> ledger_metadata L1 = ledger_metadata ?L"
    by (rule insert_drafts_ok[OF fold h(1)[OF id] h(2)[OF id], of t owner, OF _ _ _ ok])
      (use new in \<open>simp_all add: hm_contains_def t\<close>)
  have rows_tid: "rows_of L1 tid = map (draft_row tid now) (zip ids ds)"
    using d h(3)[OF id] by (simp add: rows_of_def)
  have ok1: "\<forall>d\<in>set (zip ids ds). draft_ok L1 owner (snd d)"
    using ok d by (simp add: draft_ok_def check_draft_account_def)
  have bal: "balanced L1 tid"
    using net_of_drafts[OF ok1, of _ tid now] validate_balance_ok[OF v(1)] len
    by (simp add: balanced_def rows_tid comp_def)
  have inv1: "ledger_inv L1"
    by (rule ledger_inv_grow[OF inv]) (use d bal in \<open>auto split: if_splits\<close>)
  show "ledger_inv L'" using att inv1 ledger_inv_attach[OF inv1] by (auto split: option.splits)
  have ext: "extends L1 L'"
    using att attach_metadata_ok(3)[OF ledger_inv_rows[OF inv1]] by (auto split: option.splits)
  with d show "extends L L'" using extends_trans by blast
  show "hm_get (ledger_transactions L') tid = Some t" using ext d by (auto simp: extends_def)
qed

subsection \<open>Exact pairs\<close>

lemma find_account_ok:
  assumes "rows_inv L" and "find_account L owner kind cur = Some aid"
  shows "\<exists>a. hm_get (ledger_accounts L) aid = Some a \<and> la_owner_user_id a = owner
    \<and> la_kind a = kind \<and> la_currency a = cur"
proof -
  have wf: "hm_wf (ledger_accounts L)" using assms(1) by (simp add: rows_inv_def)
  from assms(2) obtain a as where hd: "sort_key (account_key \<circ> la_id)
      (filter (\<lambda>a. la_owner_user_id a = owner \<and> la_kind a = kind \<and> la_currency a = cur)
        (hm_values (ledger_accounts L))) = a # as" and aid: "aid = la_id a"
    by (auto simp: find_account_def split: list.splits)
  have "a \<in> set (sort_key (account_key \<circ> la_id)
      (filter (\<lambda>a. la_owner_user_id a = owner \<and> la_kind a = kind \<and> la_currency a = cur)
        (hm_values (ledger_accounts L))))" unfolding hd by simp
  then have a: "a \<in> set (hm_values (ledger_accounts L))" "la_owner_user_id a = owner" "la_kind a = kind"
    "la_currency a = cur" by simp_all
  then obtain k where k: "hm_get (ledger_accounts L) k = Some a" using hm.values_get[OF wf] by blast
  then have "la_id a = k" using assms(1) by (auto simp: rows_inv_def)
  then show ?thesis using k a aid by auto
qed

lemma post_entry_ok:
  assumes post: "post_entry p tid amount L (aid, eid, kind, dir) = Inr L'" and rows: "rows_inv L"
    and ext: "extends L0 L" and new: "\<not> hm_contains (ledger_transactions L0) tid"
    and t: "hm_get (ledger_transactions L) tid = Some t" and owner: "lt_owner_user_id t = pp_owner p"
    and amount: "fits_i128 amount" "0 \<le> amount"
  shows "rows_inv L' \<and> extends L0 L' \<and> ledger_transactions L' = ledger_transactions L
    \<and> ledger_metadata L' = ledger_metadata L"
proof -
  let ?cur = "lm_currency (tm_effective_cost (pp_metadata p))"
  define row where "row = (\<lambda>account. \<lparr>le_id = eid, le_transaction_id = tid, le_owner_user_id = pp_owner p,
      le_account_id = account,
      le_direction = (if pp_signed_amount p < 0 then flip_direction dir else dir), le_amount_cents = None,
      le_created_at = pp_created_at p,
      le_exact = \<lparr>lm_amount = show_int amount, lm_scale = 18, lm_currency = ?cur\<rparr>\<rparr>)"
  obtain account L1 where e: "hm_get (ledger_entries L1) eid = None"
    and L': "L' = L1\<lparr>ledger_entries := hm_insert eid (row account) (ledger_entries L1)\<rparr>"
    and L1: "rows_inv L1" "extends L L1" "ledger_transactions L1 = ledger_transactions L"
      "ledger_metadata L1 = ledger_metadata L"
    and acc: "\<exists>a. hm_get (ledger_accounts L1) account = Some a \<and> la_owner_user_id a = pp_owner p
       \<and> la_currency a = ?cur"
  proof (cases "find_account L (pp_owner p) kind ?cur")
    case None
    define a where "a = \<lparr>la_id = aid, la_owner_user_id = pp_owner p, la_name = account_kind_as_str kind,
        la_kind = kind, la_currency = ?cur, la_created_at = pp_created_at p\<rparr>"
    let ?L1 = "L\<lparr>ledger_accounts := hm_insert aid a (ledger_accounts L)\<rparr>"
    from post None have n: "hm_get (ledger_accounts L) aid = None" "hm_get (ledger_entries ?L1) eid = None"
      and L': "L' = ?L1\<lparr>ledger_entries := hm_insert eid (row aid) (ledger_entries ?L1)\<rparr>"
      by (auto simp: post_entry_def Let_def res_simps a_def row_def)
    have id: "la_id a = aid" by (simp add: a_def)
    show ?thesis
      by (rule that[OF n(2) L' insert_account_ok[OF rows n(1) id]]) (simp_all add: a_def)
  next
    case (Some acc)
    from post Some have e: "hm_get (ledger_entries L) eid = None"
      and L': "L' = L\<lparr>ledger_entries := hm_insert eid (row acc) (ledger_entries L)\<rparr>"
      by (auto simp: post_entry_def Let_def res_simps row_def)
    show ?thesis
      by (rule that[OF e L' rows]) (use find_account_ok[OF rows Some] in auto)
  qed
  have ok: "row_ok L1 (row account)"
    using acc t owner scaled_at_18[OF amount] by (auto simp: row_ok_def row_def L1(3))
  have n: "\<not> hm_contains (ledger_transactions L0) (le_transaction_id (row account))"
    using new by (simp add: row_def)
  show ?thesis
    using insert_entry_ok(1,2)[OF L1(1) e ok extends_trans[OF ext L1(2)] n] L1(3,4) by (simp add: L')
qed

lemma post_pair_ok:
  assumes inv: "ledger_inv L" and post: "post_pair ids p L = Inr (r, L')"
  shows "ledger_inv L'" and "extends L L'"
    and "load_transaction L' (pi_transaction ids) = Some r" and "tr_metadata r = Some (pp_metadata p)"
proof -
  let ?tid = "pi_transaction ids"
  define t where "t = \<lparr>lt_id = ?tid, lt_owner_user_id = pp_owner p, lt_external_ref = pp_external_ref p,
     lt_description = transaction_kind_as_str (tm_kind (pp_metadata p)), lt_created_at = pp_created_at p,
     lt_kind = tm_kind (pp_metadata p)\<rparr>"
  define amount where "amount = \<bar>pp_signed_amount p\<bar>"
  have t: "lt_id t = ?tid" "lt_owner_user_id t = pp_owner p" by (simp_all add: t_def)
  from post obtain L1 L2 where amount: "fits_i128 amount"
    and new: "hm_get (ledger_transactions L) ?tid = None"
    and L1: "post_entry p ?tid amount (L\<lparr>ledger_transactions := hm_insert ?tid t (ledger_transactions L)\<rparr>)
        (pi_debit_account ids, pi_debit_entry ids, pp_debit_kind p, Debit) = Inr L1"
    and L2: "post_entry p ?tid amount L1
        (pi_credit_account ids, pi_credit_entry ids, pp_credit_kind p, Credit) = Inr L2"
    and att: "attach_metadata ?tid (pp_metadata p) L2 = Inr L'" and r: "load_transaction L' ?tid = Some r"
    unfolding t_def amount_def by (auto simp: post_pair_def Let_def res_simps split: if_splits)
  let ?L = "L\<lparr>ledger_transactions := hm_insert ?tid t (ledger_transactions L)\<rparr>"
  note h = insert_transaction_ok[OF ledger_inv_rows[OF inv] new t(1)]
  have n: "\<not> hm_contains (ledger_transactions L) ?tid" using new by (simp add: hm_contains_def)
  have nn: "0 \<le> amount" by (simp add: amount_def)
  have p1: "rows_inv L1 \<and> extends L L1 \<and> ledger_transactions L1 = ledger_transactions ?L
      \<and> ledger_metadata L1 = ledger_metadata ?L"
    by (rule post_entry_ok[OF L1 h(1,2) n _ t(2) amount nn]) simp
  have p2: "rows_inv L2 \<and> extends L L2 \<and> ledger_transactions L2 = ledger_transactions L1
      \<and> ledger_metadata L2 = ledger_metadata L1"
    by (rule post_entry_ok[OF L2 _ _ n _ t(2) amount nn]) (use p1 in auto)
  have bal: "balanced L2 ?tid"
    using evidence_balanced[OF _ attach_metadata_evidence[OF att]] p2 by blast
  have inv2: "ledger_inv L2"
    by (rule ledger_inv_grow[OF inv]) (use p1 p2 bal in \<open>auto split: if_splits\<close>)
  note a = attach_metadata_ok[OF ledger_inv_rows[OF inv2] att]
  show "ledger_inv L'" by (rule ledger_inv_attach[OF inv2 att])
  show "extends L L'" using extends_trans p2 a(3) by blast
  show "load_transaction L' ?tid = Some r" by (rule r)
  show "tr_metadata r = Some (pp_metadata p)"
    using load_transaction_metadata[OF r] by (simp add: a(4))
qed

section \<open>Reachable ledgers\<close>

inductive ledger_step :: "ledger \<Rightarrow> ledger \<Rightarrow> bool" where
  step_account: "create_account aid now owner name kind cur L = Inr (a, L') \<Longrightarrow> ledger_step L L'"
| step_record: "record_transaction_with_metadata tid ids now owner ref descr ds meta L = Inr (t, L')
    \<Longrightarrow> length ids = length ds \<Longrightarrow> \<forall>d\<in>set ds. fits_i64 (ed_amount_cents d) \<Longrightarrow> ledger_step L L'"
| step_pair: "post_pair pids p L = Inr (r, L') \<Longrightarrow> ledger_step L L'"
| step_attach: "attach_metadata tid m L = Inr L' \<Longrightarrow> ledger_step L L'"

definition ledger_reachable :: "ledger \<Rightarrow> bool" where
  "ledger_reachable L \<longleftrightarrow> ledger_step\<^sup>*\<^sup>* ledger_init L"

lemma ledger_step_ok:
  assumes "ledger_step L L'" and "ledger_inv L"
  shows "ledger_inv L' \<and> extends L L'"
  using assms
proof cases
  case step_account
  then show ?thesis using create_account_ok(1,2)[OF assms(2)] by blast
next
  case step_record
  then show ?thesis using record_transaction_ok(1,2)[OF assms(2) step_record(2,3,1)] by blast
next
  case step_pair
  then show ?thesis using post_pair_ok(1,2)[OF assms(2)] by blast
next
  case step_attach
  then show ?thesis using ledger_inv_attach[OF assms(2)]
      attach_metadata_ok(3)[OF ledger_inv_rows[OF assms(2)]] by blast
qed

interpretation ledger: growing ledger_step ledger_inv extends
proof unfold_locales
  show "extends L L" for L by simp
qed (auto dest: ledger_step_ok intro: extends_trans)

lemma ledger_reachable_inv: "ledger_reachable L \<Longrightarrow> ledger_inv L"
  unfolding ledger_reachable_def by (rule ledger.steps_inv[OF _ ledger_inv_init])

end
