(* ===== verification/Wallet_Records.thy ===== *)
theory Wallet_Records
  imports Wallet Ledger_Machine
begin

text \<open>
  Once the rail has moved the money, the payment manager cannot fail to record it: the transaction that
  it drafts for a payment passes every check of the ledger, provided the generated identifiers are new.
\<close>

section \<open>The accounts of a payment\<close>

definition account_in :: "ledger \<Rightarrow> user_id \<Rightarrow> ledger_account_kind \<Rightarrow> ledger_account \<Rightarrow> bool" where
  "account_in L owner kind a \<longleftrightarrow>
     hm_get (ledger_accounts L) (la_id a) = Some a \<and> la_owner_user_id a = owner \<and> la_kind a = kind
     \<and> la_currency a = Usd"

definition accounts_in :: "ledger \<Rightarrow> user_id \<Rightarrow> payment_ledger_accounts \<Rightarrow> bool" where
  "accounts_in L owner accounts \<longleftrightarrow>
     account_in L owner UserWalletCash (wallet_cash accounts)
     \<and> account_in L owner AgentSpendExpense (agent_spend_expense accounts)"

lemma accounts_in_extends: "accounts_in L owner accounts \<Longrightarrow> extends L L' \<Longrightarrow> accounts_in L' owner accounts"
  by (auto simp: accounts_in_def account_in_def extends_def)

definition payment_ok :: "payment_request \<Rightarrow> bool" where
  "payment_ok request \<longleftrightarrow> validate_request_shape request = Inr () \<and> fits_i64 (pr_amount_cents request)"

lemma payment_okD:
  assumes "payment_ok request"
  shows "0 < pr_amount_cents request" and "pr_currency request = Usd" and "fits_i64 (pr_amount_cents request)"
    and "\<not> is_blank (pr_idempotency_key request)"
  using assms by (auto simp: payment_ok_def validate_request_shape_def split: if_splits)

section \<open>The checks of the ledger\<close>

lemma payment_drafts_balance:
  assumes "payment_ok request"
  shows "validate_entries_balance (payment_drafts request accounts) = Inr ()"
    and "validate_entries_owner (pr_owner_user_id request) (payment_drafts request accounts) = Inr ()"
proof -
  have f: "fits_i128 (pr_amount_cents request)" using payment_okD(3)[OF assms] by (simp add: range_simps)
  show "validate_entries_balance (payment_drafts request accounts) = Inr ()"
    using payment_okD(1)[OF assms] f
    by (simp add: validate_entries_balance_def payment_drafts_def add_draft_def checked_def)
      (simp add: hm_insert_def hm_empty_def)
  show "validate_entries_owner (pr_owner_user_id request) (payment_drafts request accounts) = Inr ()"
    by (simp add: validate_entries_owner_def payment_drafts_def)
qed

text \<open>The governed charge is the exact cost in budget units.\<close>

lemma payment_charge:
  assumes ok: "payment_ok request" and charge: "governed_budget_charge request context = Inr charge"
  shows "charge = map_option (\<lambda>_. pr_amount_cents request * 10000) context"
    and "context \<noteq> None \<Longrightarrow> fits_i64 (pr_amount_cents request * 10000)"
    and "context \<noteq> None \<Longrightarrow>
      budget_units \<lparr>lm_amount = show_int (pr_amount_cents request), lm_scale = 2, lm_currency = Usd\<rparr> 6
        = Inr (pr_amount_cents request * 10000)"
proof -
  show c: "charge = map_option (\<lambda>_. pr_amount_cents request * 10000) context"
    and f: "context \<noteq> None \<Longrightarrow> fits_i64 (pr_amount_cents request * 10000)"
    using charge by (auto simp: governed_budget_charge_def res_simps split: option.splits)
  assume "context \<noteq> None"
  note s = scaled_cents[OF payment_okD(3,1)[OF ok], of Usd]
  have e: "pr_amount_cents request * CENT_AT_SCALE_18 = (pr_amount_cents request * 10000) * 10 ^ (18 - 6)"
    by (simp add: CENT_AT_SCALE_18_def)
  have "ceil_div (pr_amount_cents request * CENT_AT_SCALE_18) (10 ^ (18 - 6)) = pr_amount_cents request * 10000"
    unfolding e by (rule ceil_div_exact) simp
  then show "budget_units \<lparr>lm_amount = show_int (pr_amount_cents request), lm_scale = 2, lm_currency = Usd\<rparr> 6
        = Inr (pr_amount_cents request * 10000)"
    using budget_units_eq[OF s, of 6] f[OF \<open>context \<noteq> None\<close>] by (simp add: checked_def)
qed

lemma payment_metadata_valid:
  assumes ok: "payment_ok request" and charge: "governed_budget_charge request context = Inr charge"
  shows "validate_wallet_metadata (payment_drafts request accounts)
           (payment_metadata key evidence request context charge purpose) = Inr ()"
proof -
  note r = payment_okD[OF ok]
  have f: "fits_i128 (pr_amount_cents request * CENT_AT_SCALE_18)"
    using r(1,3) by (simp add: range_simps CENT_AT_SCALE_18_def)
  show ?thesis
    using payment_charge[OF ok charge] scaled_cents[OF r(3,1), of Usd] r f
    by (cases "context")
      (simp_all add: validate_wallet_metadata_def payment_metadata_def payment_drafts_def
        budget_charge_units_def BUDGET_CHARGE_SCALE_def checked_def)
qed

text \<open>The postings of a payment as the ledger loads them, in the order of their identifiers.\<close>

lemma payment_postings:
  assumes ok: "payment_ok request" and acc: "accounts_in L (pr_owner_user_id request) accounts"
    and owner: "tr_owner_user_id r = pr_owner_user_id request"
    and es: "mset (tr_entries r) = mset (map (joined L \<circ> draft_row tid now)
               [(d, payment_drafts request accounts ! 0), (c, payment_drafts request accounts ! 1)])"
  shows "try_fold (add_posting L r Usd) \<lparr>pt_debits = 0, pt_credits = 0, pt_expense = 0\<rparr> (tr_entries r)
    = Inr \<lparr>pt_debits = pr_amount_cents request * CENT_AT_SCALE_18,
           pt_credits = pr_amount_cents request * CENT_AT_SCALE_18,
           pt_expense = pr_amount_cents request * CENT_AT_SCALE_18\<rparr>"
proof -
  note p = payment_okD[OF ok]
  define e1 where "e1 = joined L (draft_row tid now (d, payment_drafts request accounts ! 0))"
  define e2 where "e2 = joined L (draft_row tid now (c, payment_drafts request accounts ! 1))"
  have f: "fits_i128 (pr_amount_cents request * CENT_AT_SCALE_18)"
    using p(1,3) by (simp add: range_simps CENT_AT_SCALE_18_def)
  note s = scaled_cents[OF p(3,1), of Usd]
  have a1: "add_posting L r Usd t e1 = Inr (t\<lparr>pt_debits := pr_amount_cents request * CENT_AT_SCALE_18,
      pt_expense := pr_amount_cents request * CENT_AT_SCALE_18\<rparr>)" if "pt_debits t = 0" "pt_expense t = 0" for t
    using acc s f p(2) owner that
    by (simp add: accounts_in_def account_in_def e1_def joined_def join_account_def draft_row_def
        payment_drafts_def add_posting_def checked_def)
  have a2: "add_posting L r Usd t e2 = Inr (t\<lparr>pt_credits := pr_amount_cents request * CENT_AT_SCALE_18\<rparr>)"
    if "pt_credits t = 0" for t
    using acc s f p(2) owner that
    by (simp add: accounts_in_def account_in_def e2_def joined_def join_account_def draft_row_def
        payment_drafts_def add_posting_def checked_def)
  have "mset (tr_entries r) = {#e1, e2#}" using es by (simp add: e1_def e2_def)
  then have "tr_entries r = [e1, e2] \<or> tr_entries r = [e2, e1]"
    by (rule mset_pair_cases)
  then show ?thesis by (elim disjE) (simp_all add: a1 a2)
qed

section \<open>Recording succeeds\<close>

definition fresh_records :: "payment_inputs \<Rightarrow> string \<Rightarrow> ledger \<Rightarrow> bool" where
  "fresh_records inputs key L \<longleftrightarrow>
     hm_get (ledger_accounts L) (pn_cash_account inputs) = None
     \<and> hm_get (ledger_accounts L) (pn_expense_account inputs) = None
     \<and> pn_cash_account inputs \<noteq> pn_expense_account inputs
     \<and> hm_get (ledger_transactions L) (pn_transaction inputs) = None
     \<and> hm_get (ledger_entries L) (pn_debit_entry inputs) = None
     \<and> hm_get (ledger_entries L) (pn_credit_entry inputs) = None
     \<and> pn_debit_entry inputs \<noteq> pn_credit_entry inputs
     \<and> (\<forall>m\<in>set (hm_values (ledger_metadata L)). tm_source_key m \<noteq> key)"

lemma payment_evidence_attached:
  assumes inv: "ledger_inv L" and rows: "rows_inv L1" and ok: "payment_ok request"
    and acc: "accounts_in L1 (pr_owner_user_id request) accounts"
    and charge: "governed_budget_charge request context = Inr charge"
    and ctx: "\<not> is_some_and (governed_context_mismatch request) context"
    and meta: "ledger_metadata L1 = ledger_metadata L" and new: "hm_get (ledger_transactions L) tid = None"
    and key: "\<forall>m\<in>set (hm_values (ledger_metadata L)). tm_source_key m \<noteq> key" "\<not> is_blank key"
    and t: "hm_get (ledger_transactions L1) tid = Some t" "lt_owner_user_id t = pr_owner_user_id request"
      "lt_kind t = WalletPayment"
    and rows_tid: "rows_of L1 tid = map (draft_row tid now)
      [(d, payment_drafts request accounts ! 0), (c, payment_drafts request accounts ! 1)]"
  shows "\<exists>L'. attach_metadata tid (payment_metadata key evidence request context charge purpose) L1 = Inr L'"
proof -
  obtain r where r: "load_transaction L1 tid = Some r" and ro: "tr_owner_user_id r = pr_owner_user_id request"
    and rk: "tr_kind r = WalletPayment"
    using t by (auto simp: load_transaction_def Let_def)
  have es: "mset (tr_entries r) = mset (map (joined L1 \<circ> draft_row tid now)
      [(d, payment_drafts request accounts ! 0), (c, payment_drafts request accounts ! 1)])"
    using rows_inv_entries[OF rows r] rows_tid by simp
  note fold = payment_postings[OF ok acc ro es]
  have len: "length (tr_entries r) = 2" using arg_cong[OF es, of size] by simp
  note p = payment_okD[OF ok]
  note s = scaled_cents[OF p(3,1), of Usd]
  note ch = payment_charge[OF ok charge]
  have "hm_get (ledger_metadata L1) tid = None"
    using ledger_inv_rows[OF inv] new unfolding meta
    by (cases "hm_get (ledger_metadata L) tid") (auto simp: rows_inv_def hm_contains_def)
  then have ins: "insert_metadata tid (payment_metadata key evidence request context charge purpose) L1
      = Inr (L1\<lparr>ledger_metadata := hm_insert tid (payment_metadata key evidence request context charge purpose)
               (ledger_metadata L1)\<rparr>)"
    using key by (auto simp: insert_metadata_def payment_metadata_def list_ex_iff meta hm_contains_def)
  have zero: "show_int (pr_amount_cents request * 10000 * BUDGET_UNIT_AT_SCALE_18
        - pr_amount_cents request * CENT_AT_SCALE_18) = ''0''"
    by (simp add: BUDGET_UNIT_AT_SCALE_18_def CENT_AT_SCALE_18_def show_int_def show_nat.simps digit_char_eval)
  show ?thesis
  proof (cases "context")
    case None
    with s r fold len ins rk key(2) p(2) ch(1) show ?thesis
      by (simp add: attach_metadata_def payment_metadata_def budget_charge_units_def source_charge_def)
  next
    case (Some g)
    then have g: "gc_agent_id g = pr_agent_id request" "gc_agent_account_id g = pr_agent_account_id request"
      "\<not> is_blank (gc_operation_key g)"
      using ctx by (auto simp: governed_context_mismatch_def is_some_and_def)
    from Some s r fold len ins rk key(2) p(2) ch zero g show ?thesis
      by (simp add: attach_metadata_def payment_metadata_def budget_charge_units_def source_charge_def
          context_matches_def BUDGET_CHARGE_SCALE_def)
  qed
qed

lemma payment_transaction_recorded:
  assumes inv: "ledger_inv L" and ok: "payment_ok request"
    and acc: "accounts_in L (pr_owner_user_id request) accounts"
    and charge: "governed_budget_charge request context = Inr charge"
    and ctx: "\<not> is_some_and (governed_context_mismatch request) context"
    and new: "hm_get (ledger_transactions L) tid = None"
      "hm_get (ledger_entries L) d = None" "hm_get (ledger_entries L) c = None" "d \<noteq> c"
    and key: "\<forall>m\<in>set (hm_values (ledger_metadata L)). tm_source_key m \<noteq> key" "\<not> is_blank key"
  shows "\<exists>t L'. record_transaction_with_metadata tid [d, c] now (pr_owner_user_id request) ref descr
      (payment_drafts request accounts)
      (Some (payment_metadata key evidence request context charge purpose)) L = Inr (t, L') \<and> lt_id t = tid"
proof -
  let ?ds = "[(d, payment_drafts request accounts ! 0), (c, payment_drafts request accounts ! 1)]"
  define t where "t = \<lparr>lt_id = tid, lt_owner_user_id = pr_owner_user_id request, lt_external_ref = ref,
     lt_description = descr, lt_created_at = now, lt_kind = WalletPayment\<rparr>"
  define L0 where "L0 = L\<lparr>ledger_transactions := hm_insert tid t (ledger_transactions L)\<rparr>"
  have tid: "lt_id t = tid" by (simp add: t_def)
  note h = insert_transaction_ok[OF ledger_inv_rows[OF inv] new(1) tid, folded L0_def]
  note p = payment_okD[OF ok]
  have zip: "zip [d, c] (payment_drafts request accounts) = ?ds" by (simp add: payment_drafts_def)
  have checks: "try_each (check_draft_account L (pr_owner_user_id request)) (payment_drafts request accounts) = Inr ()"
    using acc p(2) by (simp add: payment_drafts_def check_draft_account_def accounts_in_def account_in_def)
  have drafts: "\<forall>x\<in>set ?ds. draft_ok L0 (pr_owner_user_id request) (snd x)"
    using acc p by (simp add: payment_drafts_def draft_ok_def check_draft_account_def accounts_in_def
        account_in_def L0_def)
  obtain L1 where fold: "try_fold (insert_draft tid now) L0 ?ds = Inr L1"
    using new by (auto simp: insert_draft_def insert_row_def hm_contains_def L0_def)
  have d: "rows_inv L1 \<and> extends L L1 \<and> rows_of L1 tid = rows_of L0 tid @ map (draft_row tid now) ?ds
    \<and> ledger_accounts L1 = ledger_accounts L0 \<and> ledger_transactions L1 = ledger_transactions L0
    \<and> ledger_metadata L1 = ledger_metadata L0"
    by (rule insert_drafts_ok[OF fold h(1,2), where t = t])
      (use new(1) drafts in \<open>simp_all add: hm_contains_def L0_def t_def\<close>)
  have rows: "rows_of L1 tid = map (draft_row tid now) ?ds"
    using d h(3) by (simp add: L0_def rows_of_def)
  obtain L' where att: "attach_metadata tid (payment_metadata key evidence request context charge purpose) L1 = Inr L'"
    using payment_evidence_attached[OF inv _ ok _ charge ctx _ new(1) key, of L1 accounts t now d c evidence purpose]
      d rows accounts_in_extends[OF acc] by (auto simp: L0_def t_def)
  show ?thesis
    using payment_drafts_balance[OF ok, of accounts] payment_metadata_valid[OF ok charge, of accounts]
      checks fold att new(1) tid zip
    by (simp add: record_transaction_with_metadata_def insert_row_def hm_contains_def L0_def t_def)
qed

end
