(* ===== verification/Wallet_Machine.thy ===== *)
theory Wallet_Machine
  imports Wallet_Records
begin

text \<open>
  The contract between the payment manager and its authorizer, and what the manager guarantees under it:
  an error never follows a payment that the rail executed, a repeated request is answered from the
  record, and a token pays under one idempotency key only. \<open>env\<close> is whatever else happens to the shared
  authorizer between two payments.
\<close>

section \<open>The authorizer's contract\<close>

locale payment_authorizer =
  fixes validate :: "instant \<Rightarrow> 'a \<Rightarrow> payment_request \<Rightarrow> payment_error + wallet_authorization"
    and mark :: "instant \<Rightarrow> spend_auth_token_id \<Rightarrow> payment_id \<Rightarrow> 'a \<Rightarrow> (payment_error + unit) \<times> 'a"
    and valid :: "'a \<Rightarrow> bool"
    and closed :: "'a \<Rightarrow> spend_auth_token_id \<Rightarrow> bool"
    and env :: "'a \<Rightarrow> 'a \<Rightarrow> bool"
  assumes validated_marks:
      "validate now a request = Inr v \<Longrightarrow> \<exists>a'. mark now' (pr_spend_auth_token_id request) pid a = (Inr (), a')"
    and mark_closes: "mark now t pid a = (Inr u, a') \<Longrightarrow> closed a' t"
    and closed_refuses: "valid a \<Longrightarrow> closed a (pr_spend_auth_token_id request) \<Longrightarrow> \<exists>e. validate now a request = Inl e"
    and valid_mark: "valid a \<Longrightarrow> mark now t pid a = (r, a') \<Longrightarrow> valid a'"
    and closed_mark: "valid a \<Longrightarrow> mark now t pid a = (r, a') \<Longrightarrow> closed a t' \<Longrightarrow> closed a' t'"
    and valid_env: "env a a' \<Longrightarrow> valid a \<Longrightarrow> valid a'"
    and closed_env: "env a a' \<Longrightarrow> valid a \<Longrightarrow> closed a t \<Longrightarrow> closed a' t"

section \<open>Steps and the invariant of the manager\<close>

definition paid :: "('r, 'a) payment_manager \<Rightarrow> string \<Rightarrow> spend_auth_token_id \<Rightarrow> bool" where
  "paid s key t \<longleftrightarrow>
     is_some_and (\<lambda>st. ps_status (st_response st) = Succeeded \<and> pr_spend_auth_token_id (st_request st) = t)
       (hm_get (payments_by_idempotency_key s) key)"

definition payment_source_key :: "('r, 'a) payment_services \<Rightarrow> payment_inputs \<Rightarrow> string" where
  "payment_source_key services inputs = ''payment:'' @ show_payment_id services (pn_payment_id inputs)"

text \<open>Restoring a stored attempt is coherent when a successful payment's token is closed and has not
  paid under another key.\<close>

inductive payment_step ::
  "('r, 'a) payment_services \<Rightarrow> ('a \<Rightarrow> spend_auth_token_id \<Rightarrow> bool) \<Rightarrow> ('a \<Rightarrow> 'a \<Rightarrow> bool)
     \<Rightarrow> ('r, 'a) payment_manager \<Rightarrow> ('r, 'a) payment_manager \<Rightarrow> bool"
  for services closed env where
  pay_submit:
    "fresh_records inputs (payment_source_key services inputs) (pm_ledger s) \<Longrightarrow>
     fits_i64 (pr_amount_cents request) \<Longrightarrow>
     submit_payment_with_context services inputs request ctx purpose s = (res, s') \<Longrightarrow>
     payment_step services closed env s s'"
| pay_remember:
    "(ps_status response = Succeeded \<Longrightarrow> closed (pm_authorizer s) (pr_spend_auth_token_id request)) \<Longrightarrow>
     (\<And>key. ps_status response = Succeeded \<Longrightarrow> paid s key (pr_spend_auth_token_id request)
        \<Longrightarrow> key = pr_idempotency_key request) \<Longrightarrow>
     remember_payment_attempt request response s = (res', s') \<Longrightarrow> payment_step services closed env s s'"
| pay_env: "env (pm_authorizer s) a \<Longrightarrow> s' = s\<lparr>pm_authorizer := a\<rparr> \<Longrightarrow> payment_step services closed env s s'"

definition payment_inv ::
  "('a \<Rightarrow> bool) \<Rightarrow> ('a \<Rightarrow> spend_auth_token_id \<Rightarrow> bool) \<Rightarrow> ('r, 'a) payment_manager \<Rightarrow> bool" where
  "payment_inv valid closed s \<longleftrightarrow>
     ledger_inv (pm_ledger s) \<and> valid (pm_authorizer s)
     \<and> (\<forall>u acc. hm_get (ledger_accounts_by_user s) u = Some acc \<longrightarrow> accounts_in (pm_ledger s) u acc)
     \<and> (\<forall>key t. paid s key t \<longrightarrow> closed (pm_authorizer s) t)
     \<and> (\<forall>key key' t. paid s key t \<longrightarrow> paid s key' t \<longrightarrow> key = key')"

lemma create_payment_accounts_ok:
  assumes inv: "ledger_inv L" and create: "create_payment_accounts inputs owner L = (res, L')"
  shows "ledger_inv L'" and "extends L L'" and "res = Inr acc \<Longrightarrow> accounts_in L' owner acc"
proof -
  have "ledger_inv L' \<and> extends L L' \<and> (\<forall>acc. res = Inr acc \<longrightarrow> accounts_in L' owner acc)"
  proof (cases "create_account (pn_cash_account inputs) (pn_now inputs) owner ''Hubu wallet cash'' UserWalletCash Usd L")
    case (Inl e)
    then show ?thesis using create inv by (auto simp: create_payment_accounts_def)
  next
    case (Inr p)
    obtain cash L1 where p: "p = (cash, L1)" by (cases p)
    note c1 = create_account_ok[OF inv Inr[unfolded p]]
    show ?thesis
    proof (cases "create_account (pn_expense_account inputs) (pn_now inputs) owner ''Agent spend expense''
        AgentSpendExpense Usd L1")
      case (Inl e)
      then show ?thesis using create c1(1,2) Inr by (auto simp: create_payment_accounts_def p)
    next
      case (Inr q)
      obtain expense L2 where q: "q = (expense, L2)" by (cases q)
      note c2 = create_account_ok[OF c1(1) Inr[unfolded q]]
      have L': "L' = L2" "res = Inr \<lparr>wallet_cash = cash, agent_spend_expense = expense\<rparr>"
        using create Inr \<open>create_account (pn_cash_account inputs) _ _ _ _ _ L = Inr p\<close>
        by (auto simp: create_payment_accounts_def p q)
      have "hm_get (ledger_accounts L2) (la_id cash) = Some cash"
        using c1(3,4) c2(2) by (auto simp: extends_def)
      then show ?thesis
        using L' c1 c2 extends_trans[OF c1(2) c2(2)] by (auto simp: accounts_in_def account_in_def)
    qed
  qed
  then show "ledger_inv L'" and "extends L L'" and "res = Inr acc \<Longrightarrow> accounts_in L' owner acc" by auto
qed

text \<open>With new identifiers the accounts of a user are always there or created.\<close>

lemma ledger_accounts_for_user_ok:
  assumes inv: "payment_inv valid closed s" and new: "fresh_records inputs key (pm_ledger s)"
  obtains acc L m where "ledger_accounts_for_user inputs owner s = (Inr acc, s\<lparr>pm_ledger := L, ledger_accounts_by_user := m\<rparr>)"
    and "ledger_inv L" and "extends (pm_ledger s) L" and "accounts_in L owner acc"
    and "\<forall>u acc. hm_get m u = Some acc \<longrightarrow> accounts_in L u acc"
    and "ledger_transactions L = ledger_transactions (pm_ledger s)"
    and "ledger_entries L = ledger_entries (pm_ledger s)" and "ledger_metadata L = ledger_metadata (pm_ledger s)"
proof (cases "hm_get (ledger_accounts_by_user s) owner")
  case (Some acc)
  show ?thesis
    by (rule that[where acc = acc and L = "pm_ledger s" and m = "ledger_accounts_by_user s"])
      (use inv Some in \<open>auto simp: payment_inv_def ledger_accounts_for_user_def\<close>)
next
  case None
  obtain res L where c: "create_payment_accounts inputs owner (pm_ledger s) = (res, L)" by fastforce
  have inv_L: "ledger_inv (pm_ledger s)" using inv by (simp add: payment_inv_def)
  note ok = create_payment_accounts_ok[OF inv_L c]
  obtain acc where acc: "res = Inr acc" and frame: "ledger_transactions L = ledger_transactions (pm_ledger s)"
      "ledger_entries L = ledger_entries (pm_ledger s)" "ledger_metadata L = ledger_metadata (pm_ledger s)"
    using c new by (auto simp: create_payment_accounts_def create_account_def Let_def insert_row_def
        hm_contains_def fresh_records_def)
  have "\<forall>u a. hm_get (hm_insert owner acc (ledger_accounts_by_user s)) u = Some a \<longrightarrow> accounts_in L u a"
    using inv ok(3)[OF acc] accounts_in_extends[OF _ ok(2)] by (auto simp: payment_inv_def)
  then show ?thesis
    by (intro that[where acc = acc and L = L and m = "hm_insert owner acc (ledger_accounts_by_user s)"])
      (use None c acc ok frame in \<open>simp_all add: ledger_accounts_for_user_def\<close>)
qed

lemma paid_remember:
  "paid (remember_payment request response s) key t \<longleftrightarrow>
     (if key = pr_idempotency_key request
      then ps_status response = Succeeded \<and> pr_spend_auth_token_id request = t else paid s key t)"
  by (simp add: paid_def remember_payment_def is_some_and_def)

section \<open>The manager under the contract\<close>

context payment_authorizer
begin

text \<open>After a successful rail execution the records are written: the ledger transaction, the token and
  the stored payment.\<close>

lemma record_payment_succeeds:
  assumes inv: "payment_inv valid closed s" and new: "fresh_records inputs (payment_source_key services inputs) (pm_ledger s)"
    and services: "mark_token_used services = mark"
    and v: "validate now (pm_authorizer s) request = Inr v" and ok: "payment_ok request"
    and charge: "governed_budget_charge request ctx = Inr charge"
    and gov: "\<not> is_some_and (governed_context_mismatch request) ctx"
  shows "\<exists>response L m a. record_payment services inputs request ctx purpose charge rail_result s
      = (Inr response, s\<lparr>pm_ledger := L, ledger_accounts_by_user := m, pm_authorizer := a\<rparr>)
    \<and> ps_status response = Succeeded \<and> ps_ledger_transaction_id response = Some (pn_transaction inputs)
    \<and> ps_payment_id response = pn_payment_id inputs \<and> ps_amount_cents response = pr_amount_cents request
    \<and> ledger_inv L \<and> extends (pm_ledger s) L
    \<and> (\<forall>u acc. hm_get m u = Some acc \<longrightarrow> accounts_in L u acc)
    \<and> (\<exists>t. hm_get (ledger_transactions L) (pn_transaction inputs) = Some t)
    \<and> (\<exists>evidence. hm_get (ledger_metadata L) (pn_transaction inputs)
          = Some (payment_metadata (payment_source_key services inputs) evidence request ctx charge purpose))
    \<and> mark (pn_now inputs) (pr_spend_auth_token_id request) (pn_payment_id inputs) (pm_authorizer s) = (Inr (), a)"
proof -
  obtain acc L m where a: "ledger_accounts_for_user inputs (pr_owner_user_id request) s
      = (Inr acc, s\<lparr>pm_ledger := L, ledger_accounts_by_user := m\<rparr>)"
    "ledger_inv L" "extends (pm_ledger s) L" "accounts_in L (pr_owner_user_id request) acc"
    "\<forall>u acc. hm_get m u = Some acc \<longrightarrow> accounts_in L u acc"
    "ledger_transactions L = ledger_transactions (pm_ledger s)"
    "ledger_entries L = ledger_entries (pm_ledger s)" "ledger_metadata L = ledger_metadata (pm_ledger s)"
    by (rule ledger_accounts_for_user_ok[OF inv new])
  let ?key = "payment_source_key services inputs"
  let ?evidence = "payment_evidence_json services (pn_payment_id inputs) request (rr_rail_reference rail_result)"
  let ?meta = "payment_metadata ?key ?evidence request ctx charge purpose"
  have key: "\<forall>m\<in>set (hm_values (ledger_metadata L)). tm_source_key m \<noteq> ?key" "\<not> is_blank ?key"
    using new a(8) by (simp_all add: fresh_records_def payment_source_key_def not_blank_solid solid_def
        whitespace_encodings_def)
  have fresh: "hm_get (ledger_transactions L) (pn_transaction inputs) = None"
      "hm_get (ledger_entries L) (pn_debit_entry inputs) = None"
      "hm_get (ledger_entries L) (pn_credit_entry inputs) = None" "pn_debit_entry inputs \<noteq> pn_credit_entry inputs"
    using new a(6,7) by (simp_all add: fresh_records_def)
  obtain t L' where rec: "record_transaction_with_metadata (pn_transaction inputs)
      [pn_debit_entry inputs, pn_credit_entry inputs] (pn_now inputs) (pr_owner_user_id request)
      (Some (show_payment_id services (pn_payment_id inputs)))
      (''payment '' @ show_payment_id services (pn_payment_id inputs) @ '' via '' @ rail_kind_as_ref (pr_rail request))
      (payment_drafts request acc) (Some ?meta) L = Inr (t, L')" and tid: "lt_id t = pn_transaction inputs"
    using payment_transaction_recorded[OF a(2) ok a(4) charge gov fresh key] by blast
  have cents: "\<forall>d\<in>set (payment_drafts request acc). fits_i64 (ed_amount_cents d)"
    using payment_okD[OF ok] by (simp add: payment_drafts_def)
  note r = record_transaction_ok[OF a(2) _ cents rec]
  have len: "length [pn_debit_entry inputs, pn_credit_entry inputs] = length (payment_drafts request acc)"
    by (simp add: payment_drafts_def)
  have meta: "hm_get (ledger_metadata L') (pn_transaction inputs) = Some ?meta"
    using rec by (auto simp: record_transaction_with_metadata_def Let_def res_simps elim!: attach_metadata_split
        simp: insert_metadata_def split: if_splits)
  obtain b where b: "mark (pn_now inputs) (pr_spend_auth_token_id request) (pn_payment_id inputs) (pm_authorizer s) = (Inr (), b)"
    using validated_marks[OF v] by blast
  have accs: "\<forall>u acc. hm_get m u = Some acc \<longrightarrow> accounts_in L' u acc"
    using a(5) accounts_in_extends r(2)[OF len] by blast
  define response where "response = \<lparr>ps_payment_id = pn_payment_id inputs,
      ps_owner_user_id = pr_owner_user_id request, ps_agent_account_id = pr_agent_account_id request,
      ps_status = Succeeded, ps_amount_cents = pr_amount_cents request, ps_currency = pr_currency request,
      ps_ledger_transaction_id = Some (lt_id t), ps_rail_reference = rr_rail_reference rail_result,
      ps_failure_reason = None, ps_created_at = pn_now inputs\<rparr>"
  have "record_payment services inputs request ctx purpose charge rail_result s
      = (Inr response, s\<lparr>pm_ledger := L', ledger_accounts_by_user := m, pm_authorizer := b\<rparr>)"
    using a(1) rec b unfolding record_payment_def payment_source_key_def
    by (simp add: Let_def services response_def)
  moreover have "ps_status response = Succeeded \<and> ps_ledger_transaction_id response = Some (pn_transaction inputs)
    \<and> ps_payment_id response = pn_payment_id inputs \<and> ps_amount_cents response = pr_amount_cents request"
    using tid by (simp add: response_def)
  ultimately show ?thesis
    using b r(1,3)[OF len] extends_trans[OF a(3) r(2)[OF len]] accs meta by blast
qed

text \<open>Every outcome of a submission.\<close>

lemma submit_cases:
  assumes inv: "payment_inv valid closed s" and new: "fresh_records inputs (payment_source_key services inputs) (pm_ledger s)"
    and services: "validate_payment_request services = validate" "mark_token_used services = mark"
    and cents: "fits_i64 (pr_amount_cents request)"
    and run: "submit_payment_with_context services inputs request ctx purpose s = (res, s')"
  obtains (refused) e where "res = Inl e" and "s' = s"
    | (rail_error) e w where "res = Inl (RailError e)" and "s' = s\<lparr>pm_rail := w\<rparr>"
        and "rail_execute services (pn_now inputs) request (pm_rail s) = (Inl e, w)"
    | (replayed) stored where "res = Inr (st_response stored)" and "s' = s" and "st_request stored = request"
        and "hm_get (payments_by_idempotency_key s) (pr_idempotency_key request) = Some stored"
    | (declined) rr w where "res = Inr (failed_response inputs request rr)"
        and "s' = remember_payment request (failed_response inputs request rr) (s\<lparr>pm_rail := w\<rparr>)"
        and "rail_execute services (pn_now inputs) request (pm_rail s) = (Inr rr, w)" and "rr_status rr = Failed"
        and "hm_get (payments_by_idempotency_key s) (pr_idempotency_key request) = None"
    | (paid_out) rr w v charge response L m a where "res = Inr response"
        and "s' = remember_payment request response
              (s\<lparr>pm_rail := w, pm_ledger := L, ledger_accounts_by_user := m, pm_authorizer := a\<rparr>)"
        and "rail_execute services (pn_now inputs) request (pm_rail s) = (Inr rr, w)" and "rr_status rr = Succeeded"
        and "hm_get (payments_by_idempotency_key s) (pr_idempotency_key request) = None"
        and "validate (pn_now inputs) (pm_authorizer s) request = Inr v"
        and "ps_status response = Succeeded" "ps_ledger_transaction_id response = Some (pn_transaction inputs)"
        and "ps_payment_id response = pn_payment_id inputs" "ps_amount_cents response = pr_amount_cents request"
        and "ledger_inv L" "extends (pm_ledger s) L"
        and "\<forall>u acc. hm_get m u = Some acc \<longrightarrow> accounts_in L u acc"
        and "\<exists>t. hm_get (ledger_transactions L) (pn_transaction inputs) = Some t"
        and "\<exists>evidence. hm_get (ledger_metadata L) (pn_transaction inputs)
          = Some (payment_metadata (payment_source_key services inputs) evidence request ctx charge purpose)"
        and "mark (pn_now inputs) (pr_spend_auth_token_id request) (pn_payment_id inputs) (pm_authorizer s) = (Inr (), a)"
proof -
  consider (mismatch) "is_some_and (governed_context_mismatch request) ctx"
    | (shape) e where "\<not> is_some_and (governed_context_mismatch request) ctx" "validate_request_shape request = Inl e"
    | (known) stored where "\<not> is_some_and (governed_context_mismatch request) ctx" "validate_request_shape request = Inr ()"
        "hm_get (payments_by_idempotency_key s) (pr_idempotency_key request) = Some stored"
    | (fresh) "\<not> is_some_and (governed_context_mismatch request) ctx" "validate_request_shape request = Inr ()"
        "hm_get (payments_by_idempotency_key s) (pr_idempotency_key request) = None"
    by (metis (full_types) old.unit.exhaust option.exhaust sum.exhaust)
  then show ?thesis
  proof cases
    case mismatch
    then have "res = Inl (AuthorizationRejected ''governed ledger context does not match payment'') \<and> s' = s"
      using run by (auto simp: submit_payment_with_context_def)
    then show ?thesis using refused by blast
  next
    case (shape e)
    then have "res = Inl e \<and> s' = s" using run by (auto simp: submit_payment_with_context_def)
    then show ?thesis using refused by blast
  next
    case known
    then show ?thesis using run refused replayed
      by (auto simp: submit_payment_with_context_def replay_payment_def split: if_splits)
  next
    case fresh
    have run: "execute_payment services inputs request ctx purpose s = (res, s')"
      using run fresh by (simp add: submit_payment_with_context_def)
    show ?thesis
    proof (cases "and_then (validate (pn_now inputs) (pm_authorizer s) request) (\<lambda>_. governed_budget_charge request ctx)")
      case (Inl e)
      then have "res = Inl e \<and> s' = s" using run by (auto simp: execute_payment_def services)
      then show ?thesis using refused by blast
    next
      case (Inr charge)
      then obtain v where v: "validate (pn_now inputs) (pm_authorizer s) request = Inr v"
        and charge: "governed_budget_charge request ctx = Inr charge" by (auto simp: res_simps)
      obtain rres w where rail: "rail_execute services (pn_now inputs) request (pm_rail s) = (rres, w)" by fastforce
      show ?thesis
      proof (cases rres)
        case (Inl e)
        then have "res = Inl (RailError e) \<and> s' = s\<lparr>pm_rail := w\<rparr>"
          using run rail v charge by (auto simp: execute_payment_def services)
        then show ?thesis using rail_error rail Inl by blast
      next
        case (Inr rr)
        show ?thesis
        proof (cases "rr_status rr")
          case Failed
          then have "res = Inr (failed_response inputs request rr)
              \<and> s' = remember_payment request (failed_response inputs request rr) (s\<lparr>pm_rail := w\<rparr>)"
            using run rail Inr v charge by (auto simp: execute_payment_def services Let_def)
          then show ?thesis using declined rail Inr Failed fresh(3) by blast
        next
          case Succeeded
          have ok: "payment_ok request" using fresh(2) cents by (simp add: payment_ok_def)
          have inv': "payment_inv valid closed (s\<lparr>pm_rail := w\<rparr>)"
            using inv by (simp add: payment_inv_def paid_def)
          have new': "fresh_records inputs (payment_source_key services inputs) (pm_ledger (s\<lparr>pm_rail := w\<rparr>))"
            and v': "validate (pn_now inputs) (pm_authorizer (s\<lparr>pm_rail := w\<rparr>)) request = Inr v"
            using new v by simp_all
          note rec = record_payment_succeeds[OF inv' new' services(2) v' ok charge fresh(1), of purpose rr]
          show ?thesis
            using rec run rail Inr Succeeded v charge
            by (auto simp: execute_payment_def services Let_def intro: paid_out[OF _ _ _ Succeeded fresh(3) v])
        qed
      qed
    qed
  qed
qed

text \<open>Every step keeps the invariant.\<close>

lemma payment_inv_submit:
  assumes inv: "payment_inv valid closed s" and new: "fresh_records inputs (payment_source_key services inputs) (pm_ledger s)"
    and services: "validate_payment_request services = validate" "mark_token_used services = mark"
    and cents: "fits_i64 (pr_amount_cents request)"
    and run: "submit_payment_with_context services inputs request ctx purpose s = (res, s')"
  shows "payment_inv valid closed s'"
  using inv new services cents run
proof (cases rule: submit_cases)
  case (declined rr w)
  then show ?thesis using inv
    by (auto simp: payment_inv_def paid_remember failed_response_def) (auto simp: paid_def remember_payment_def)
next
  case (paid_out rr w v charge response L m a)
  let ?t = "pr_spend_auth_token_id request"
  have unpaid: "\<not> paid s key ?t" for key
    using closed_refuses[of "pm_authorizer s" request "pn_now inputs"] paid_out(6) inv
    by (auto simp: payment_inv_def)
  have val: "valid (pm_authorizer s)" using inv by (simp add: payment_inv_def)
  note mark = paid_out(16)
  have p: "paid (s\<lparr>pm_rail := w, pm_ledger := L, ledger_accounts_by_user := m, pm_authorizer := a\<rparr>) key t
      = paid s key t" for key t by (simp add: paid_def)
  show ?thesis
    using inv paid_out(11,13) valid_mark[OF val mark] mark_closes[OF mark] closed_mark[OF val mark] unpaid
    unfolding payment_inv_def paid_out(2) paid_remember p by (auto simp: remember_payment_def split: if_splits)
qed (use inv in \<open>simp_all add: payment_inv_def paid_def\<close>)

lemma payment_step_inv:
  assumes services: "validate_payment_request services = validate" "mark_token_used services = mark"
    and step: "payment_step services closed env s s'" and inv: "payment_inv valid closed s"
  shows "payment_inv valid closed s'"
  using step
proof cases
  case (pay_submit inputs request ctx purpose res)
  then show ?thesis using payment_inv_submit[OF inv _ services] by blast
next
  case (pay_remember response request res')
  then show ?thesis
  proof (cases "s' = s")
    case False
    then have s': "s' = remember_payment request response s"
      using pay_remember(3) by (auto simp: remember_payment_attempt_def split: sum.splits option.splits if_splits)
    have frame: "pm_ledger s' = pm_ledger s" "pm_authorizer s' = pm_authorizer s"
        "ledger_accounts_by_user s' = ledger_accounts_by_user s"
      by (simp_all add: s' remember_payment_def)
    have closed': "closed (pm_authorizer s) t" if "paid s' key t" for key t
      using that inv pay_remember(1) unfolding s' paid_remember payment_inv_def by (auto split: if_splits)
    have once: "key = key'" if "paid s' key t" "paid s' key' t" for key key' t
    proof -
      have old: "paid s key t \<Longrightarrow> paid s key' t \<Longrightarrow> key = key'" using inv by (simp add: payment_inv_def)
      show ?thesis
      proof (cases "ps_status response = Succeeded \<and> pr_spend_auth_token_id request = t")
        case True
        then have "k = pr_idempotency_key request" if "paid s' k t" for k
          using that pay_remember(2) unfolding s' paid_remember by metis
        then show ?thesis using that by blast
      next
        case False
        then have "paid s key t" "paid s key' t" using that unfolding s' paid_remember by metis+
        then show ?thesis by (rule old)
      qed
    qed
    show ?thesis using inv closed' once unfolding payment_inv_def frame by blast
  qed (use inv in simp)
next
  case (pay_env a)
  then show ?thesis using inv valid_env closed_env by (auto simp: payment_inv_def paid_def)
qed

end

end
