(* ===== verification/Ledger_Theorems.thy ===== *)
theory Ledger_Theorems
  imports Ledger_Machine
begin

text \<open>The properties of the ledger, over every state its writers can reach, and their witnesses.\<close>

section \<open>An example ledger\<close>

definition example_owner :: user_id where
  "example_owner = UserId 1"

definition example_context :: governed_spend_context where
  "example_context = \<lparr>gc_agent_id = AgentId 7, gc_agent_account_id = AgentAccountId 8, gc_budget_id = BudgetId 1,
     gc_budget_version_id = BudgetVersionId 2, gc_spend_decision_id = SpendDecisionId 3, gc_operation_key = ''op''\<rparr>"

text \<open>A provider charge of 0.0123456 USD: 12 346 units of the budget plane.\<close>

definition example_metadata :: transaction_metadata where
  "example_metadata = \<lparr>tm_kind = ExternalProvider, tm_source_key = ''settlement:1'', tm_agent_id = Some (AgentId 7),
     tm_agent_account_id = Some (AgentAccountId 8), tm_context = Some example_context,
     tm_effective_cost = \<lparr>lm_amount = ''123456'', lm_scale = 7, lm_currency = Usd\<rparr>,
     tm_budget_charge_delta_cents = None, tm_budget_charge_delta = Some 12346,
     tm_budget_charge_scale = Some 6, tm_rounding_delta_amount = Some ''400000000000'',
     tm_original_transaction_id = None, tm_previous_transaction_id = None, tm_provider = None,
     tm_billing_merchant = None, tm_purpose = None, tm_source_evidence = ''{}'', tm_reason = None,
     tm_adjustment_evidence = None, tm_legacy_backfill = False, tm_missing_evidence = []\<rparr>"

definition example_pair :: pair_posting where
  "example_pair = \<lparr>pp_owner = example_owner, pp_debit_kind = AgentSpendExpense,
     pp_credit_kind = ExternallyBilledClearing, pp_signed_amount = 12345600000000000,
     pp_metadata = example_metadata, pp_external_ref = None, pp_created_at = 100\<rparr>"

definition example_pair_ids :: "nat \<Rightarrow> pair_ids" where
  "example_pair_ids n = \<lparr>pi_transaction = LedgerTransactionId n, pi_debit_account = LedgerAccountId n,
     pi_debit_entry = LedgerEntryId n, pi_credit_account = LedgerAccountId (n + 1),
     pi_credit_entry = LedgerEntryId (n + 1)\<rparr>"

text \<open>Its correction down to 0.01 USD: the delta is negative, so the accounts swap sides.\<close>

definition example_correction :: pair_posting where
  "example_correction = \<lparr>pp_owner = example_owner, pp_debit_kind = AgentSpendExpense,
     pp_credit_kind = ExternallyBilledClearing, pp_signed_amount = - 2345600000000000,
     pp_metadata = set_budget_charge (- 2346) (- 2345600000000000)
       (example_metadata\<lparr>tm_kind := Adjustment, tm_source_key := ''adjustment:1'',
          tm_effective_cost := \<lparr>lm_amount = ''1'', lm_scale = 2, lm_currency = Usd\<rparr>,
          tm_original_transaction_id := Some (LedgerTransactionId 10),
          tm_previous_transaction_id := Some (LedgerTransactionId 10), tm_reason := Some ''refund'',
          tm_adjustment_evidence := Some ''invoice''\<rparr>),
     pp_external_ref = None, pp_created_at = 200\<rparr>"

text \<open>The closed computations of the witnesses: the texts first, then the tables.\<close>

lemma example_texts:
  "scaled \<lparr>lm_amount = show_int 12345600000000000, lm_scale = 18, lm_currency = Usd\<rparr> = Inr 12345600000000000"
  "scaled \<lparr>lm_amount = show_int 2345600000000000, lm_scale = 18, lm_currency = Usd\<rparr> = Inr 2345600000000000"
  by (rule scaled_show; simp add: fits_i128_def)+

lemma example_digits:
  "scaled \<lparr>lm_amount = ''123456'', lm_scale = 7, lm_currency = Usd\<rparr> = Inr 12345600000000000"
  "scaled \<lparr>lm_amount = ''1'', lm_scale = 2, lm_currency = Usd\<rparr> = Inr 10000000000000000"
  "budget_units \<lparr>lm_amount = ''123456'', lm_scale = 7, lm_currency = Usd\<rparr> 6 = Inr 12346"
  "budget_units \<lparr>lm_amount = ''1'', lm_scale = 2, lm_currency = Usd\<rparr> 6 = Inr 10000"
  "show_int 400000000000 = ''400000000000''" "show_int (- 400000000000) = ''-400000000000''"
  "is_blank ''settlement:1'' = False" "is_blank ''adjustment:1'' = False" "is_blank ''op'' = False"
  by code_simp+

lemmas ledger_eval = post_pair_def post_entry_def find_account_def insert_row_def ledger_init_def hm_eval
  attach_metadata_def load_transaction_def entry_rows_def join_account_def List.map_filter_def
  add_posting_def budget_charge_units_def set_budget_charge_def source_charge_def adjustment_charge_def
  insert_metadata_def context_matches_def Let_def checked_def range_simps flip_direction_def
  BUDGET_CHARGE_SCALE_def BUDGET_UNIT_AT_SCALE_18_def CENT_AT_SCALE_18_def

lemmas example_defs = example_pair_def example_metadata_def example_pair_ids_def example_owner_def
  example_context_def example_correction_def

definition example_entry :: "nat \<Rightarrow> nat \<Rightarrow> nat \<Rightarrow> ledger_direction \<Rightarrow> instant \<Rightarrow> int \<Rightarrow> ledger_entry" where
  "example_entry n tid account dir at amount =
     \<lparr>le_id = LedgerEntryId n, le_transaction_id = LedgerTransactionId tid, le_owner_user_id = UserId 1,
      le_account_id = LedgerAccountId account, le_direction = dir, le_amount_cents = None, le_created_at = at,
      le_exact = \<lparr>lm_amount = show_int amount, lm_scale = 18, lm_currency = Usd\<rparr>\<rparr>"

definition example_posted :: ledger where
  "example_posted = snd (projr (post_pair (example_pair_ids 10) example_pair ledger_init))"

definition example_corrected :: ledger where
  "example_corrected = snd (projr (post_pair (example_pair_ids 20) example_correction example_posted))"

lemma example_post: "\<exists>r. post_pair (example_pair_ids 10) example_pair ledger_init = Inr (r, example_posted)"
  unfolding example_posted_def by (simp add: ledger_eval example_defs example_texts example_digits)

lemma example_posted_eq:
  "example_posted =
     \<lparr>ledger_accounts =
        [(LedgerAccountId 10, \<lparr>la_id = LedgerAccountId 10, la_owner_user_id = UserId 1,
            la_name = account_kind_as_str AgentSpendExpense, la_kind = AgentSpendExpense, la_currency = Usd,
            la_created_at = 100\<rparr>),
         (LedgerAccountId 11, \<lparr>la_id = LedgerAccountId 11, la_owner_user_id = UserId 1,
            la_name = account_kind_as_str ExternallyBilledClearing, la_kind = ExternallyBilledClearing,
            la_currency = Usd, la_created_at = 100\<rparr>)],
      ledger_transactions =
        [(LedgerTransactionId 10, \<lparr>lt_id = LedgerTransactionId 10, lt_owner_user_id = UserId 1,
            lt_external_ref = None, lt_description = transaction_kind_as_str ExternalProvider,
            lt_created_at = 100, lt_kind = ExternalProvider\<rparr>)],
      ledger_entries =
        [(LedgerEntryId 10, example_entry 10 10 10 Debit 100 12345600000000000),
         (LedgerEntryId 11, example_entry 11 10 11 Credit 100 12345600000000000)],
      ledger_metadata = [(LedgerTransactionId 10, example_metadata)]\<rparr>"
  unfolding example_posted_def
  by (simp add: ledger_eval example_defs example_texts example_digits example_entry_def)

lemma example_correct:
  "\<exists>r. post_pair (example_pair_ids 20) example_correction example_posted = Inr (r, example_corrected)"
  unfolding example_corrected_def example_posted_eq
  by (simp add: ledger_eval example_defs example_texts example_digits example_entry_def)

lemma example_posted_reachable: "ledger_reachable example_posted"
  unfolding ledger_reachable_def using example_post by (blast intro: step_pair)

lemma example_corrected_step: "ledger_step example_posted example_corrected"
  using example_correct by (blast intro: step_pair)

lemma example_corrected_reachable: "ledger_reachable example_corrected"
  using example_posted_reachable example_corrected_step
  unfolding ledger_reachable_def by (rule rtranclp.rtrancl_into_rtrancl)

section \<open>Double entry\<close>

text \<open>
  C18: the ledger always balances. In every reachable ledger every transaction has at least two entries,
  each of a readable non-negative amount, and for each currency its debits equal its credits.
\<close>

theorem ledger_always_balances:
  assumes "ledger_reachable L" and "load_transaction L tid = Some r"
  shows "2 \<le> length (tr_entries r)
    \<and> (\<forall>cur. (\<Sum>e\<leftarrow>filter (\<lambda>e. lm_currency (te_amount e) = cur \<and> te_direction e = Debit) (tr_entries r). entry_value e)
           = (\<Sum>e\<leftarrow>filter (\<lambda>e. lm_currency (te_amount e) = cur \<and> te_direction e = Credit) (tr_entries r). entry_value e))
    \<and> (\<forall>e\<in>set (tr_entries r). \<exists>v\<ge>0. scaled (te_amount e) = Inr v)"
proof -
  have inv: "ledger_inv L" by (rule ledger_reachable_inv[OF assms(1)])
  note rows = ledger_inv_rows[OF inv]
  have split: "net_of cur es =
      (\<Sum>e\<leftarrow>filter (\<lambda>e. lm_currency (te_amount e) = cur \<and> te_direction e = Debit) es. entry_value e)
      - (\<Sum>e\<leftarrow>filter (\<lambda>e. lm_currency (te_amount e) = cur \<and> te_direction e = Credit) es. entry_value e)" for cur es
    by (induction es) (auto simp: signed_value_def intro: ledger_direction.exhaust)
  have es: "mset (tr_entries r) = mset (map (joined L) (rows_of L tid))"
    by (rule rows_inv_entries[OF rows assms(2)])
  have "balanced L tid" using inv assms(2) by (auto simp: ledger_inv_def load_transaction_def hm_contains_def)
  then have "2 \<le> length (tr_entries r)" and "\<forall>cur. net_of cur (tr_entries r) = 0"
    using net_of_mset[OF es] arg_cong[OF es, of size] by (simp_all add: balanced_def)
  moreover have "\<exists>v\<ge>0. scaled (te_amount e) = Inr v" if "e \<in> set (tr_entries r)" for e
  proof -
    have "set (tr_entries r) = joined L ` set (rows_of L tid)"
      using arg_cong[OF es, of set_mset] by simp
    with that obtain row where row: "e = joined L row" "row_ok L row"
      using rows by (auto simp: rows_inv_def rows_of_def)
    then show ?thesis using scaled_nonneg
      by (fastforce simp: joined_def join_account_def row_ok_def)
  qed
  ultimately show ?thesis by (simp add: split)
qed

theorem ledger_always_balances_witness:
  "2 \<le> length (tr_entries (the (load_transaction example_corrected (LedgerTransactionId 10))))"
proof -
  have "load_transaction example_posted (LedgerTransactionId 10) \<noteq> None"
    by (simp add: example_posted_eq load_transaction_def hm_eval)
  then have "load_transaction example_corrected (LedgerTransactionId 10) \<noteq> None"
    using ledger.grows_step[OF example_corrected_step ledger_reachable_inv[OF example_posted_reachable]]
    by (auto simp: extends_def load_transaction_def)
  then obtain r where "load_transaction example_corrected (LedgerTransactionId 10) = Some r" by blast
  with ledger_always_balances[OF example_corrected_reachable this] show ?thesis by simp
qed

text \<open>
  C30: the ledger is append-only. Whatever its writers do later, a transaction once recorded keeps its
  owner, kind, description, time and every posting, and once it carries evidence it never changes at all.
\<close>

theorem ledger_append_only:
  assumes "ledger_reachable L" and "ledger_step\<^sup>*\<^sup>* L L'" and "load_transaction L tid = Some r"
  shows "\<exists>r'. load_transaction L' tid = Some r' \<and> tr_owner_user_id r' = tr_owner_user_id r
    \<and> tr_kind r' = tr_kind r \<and> tr_description r' = tr_description r \<and> tr_created_at r' = tr_created_at r
    \<and> tr_external_ref r' = tr_external_ref r \<and> tr_entries r' = tr_entries r
    \<and> (tr_metadata r \<noteq> None \<longrightarrow> r' = r)"
proof -
  have inv: "ledger_inv L" by (rule ledger_reachable_inv[OF assms(1)])
  show ?thesis
    using extends_load[OF ledger_inv_rows[OF inv] ledger.steps_grow[OF assms(2) inv] assms(3)] by blast
qed

theorem ledger_append_only_witness:
  "load_transaction example_corrected (LedgerTransactionId 10) = load_transaction example_posted (LedgerTransactionId 10)"
proof -
  obtain r where r: "load_transaction example_posted (LedgerTransactionId 10) = Some r"
    and "tr_metadata r \<noteq> None"
    by (simp add: example_posted_eq load_transaction_def hm_eval Let_def)
  moreover note ledger_append_only[OF example_posted_reachable r_into_rtranclp[of ledger_step, OF example_corrected_step] r]
  ultimately show ?thesis by auto
qed

section \<open>Corrections\<close>

text \<open>The chain of corrections of one expense, from the original transaction to the latest one.\<close>

inductive correction_chain :: "ledger \<Rightarrow> ledger_transaction_id list \<Rightarrow> bool" for L where
  chain_source: "hm_get (ledger_metadata L) tid = Some m \<Longrightarrow> tm_kind m \<noteq> Adjustment \<Longrightarrow> correction_chain L [tid]"
| chain_adjust: "correction_chain L ids \<Longrightarrow> hm_get (ledger_metadata L) tid = Some m \<Longrightarrow> tm_kind m = Adjustment
    \<Longrightarrow> tm_previous_transaction_id m = Some (last ids) \<Longrightarrow> correction_chain L (ids @ [tid])"

definition evidence_of :: "ledger \<Rightarrow> ledger_transaction_id \<Rightarrow> transaction_metadata" where
  "evidence_of L tid = the (hm_get (ledger_metadata L) tid)"

definition posted_expense :: "ledger \<Rightarrow> ledger_transaction_id \<Rightarrow> int" where
  "posted_expense L tid = expense_of (tr_entries (the (load_transaction L tid)))"

lemma correction_chain_nonempty: "correction_chain L ids \<Longrightarrow> ids \<noteq> []"
  by (induction rule: correction_chain.induct) auto

lemma chain_last_evidence:
  "correction_chain L ids \<Longrightarrow> hm_get (ledger_metadata L) (last ids) = Some (evidence_of L (last ids))"
  by (induction rule: correction_chain.induct) (auto simp: evidence_of_def)

text \<open>One link: the expense and the charge of evidence against its predecessor.\<close>

lemma evidence_source:
  assumes "ledger_inv L" and "hm_get (ledger_metadata L) tid = Some m" and "tm_kind m \<noteq> Adjustment"
  shows "posted_expense L tid = cost_of m \<and> records_charge m None"
  using assms unfolding ledger_inv_def evidence_ok_def posted_expense_def by fastforce

lemma evidence_adjustment:
  assumes "ledger_inv L" and "hm_get (ledger_metadata L) tid = Some m" and "tm_kind m = Adjustment"
    and "tm_previous_transaction_id m = Some pid" and "hm_get (ledger_metadata L) pid = Some mp"
  shows "posted_expense L tid = cost_of m - cost_of mp \<and> records_charge m (Some (tm_effective_cost mp))
    \<and> lm_currency (tm_effective_cost mp) = lm_currency (tm_effective_cost m)"
proof -
  have "evidence_ok L tid m" using assms(1,2) by (simp add: ledger_inv_def)
  then show ?thesis using assms(3-5) load_transaction_metadata[of L pid]
    unfolding evidence_ok_def posted_expense_def by fastforce
qed


lemma example_corrected_metadata:
  "hm_get (ledger_metadata example_corrected) (LedgerTransactionId 20) = Some (pp_metadata example_correction)"
proof -
  obtain r where r: "post_pair (example_pair_ids 20) example_correction example_posted = Inr (r, example_corrected)"
    using example_correct by blast
  note p = post_pair_ok(3,4)[OF ledger_reachable_inv[OF example_posted_reachable] r]
  show ?thesis using load_transaction_metadata[OF p(1)] p(2) by (simp add: example_pair_ids_def)
qed

lemma example_posted_metadata:
  "hm_get (ledger_metadata example_corrected) (LedgerTransactionId 10) = Some example_metadata"
proof -
  have "hm_get (ledger_metadata example_posted) (LedgerTransactionId 10) = Some example_metadata"
    by (simp add: example_posted_eq hm_eval)
  then show ?thesis
    using ledger.grows_step[OF example_corrected_step ledger_reachable_inv[OF example_posted_reachable]]
    by (simp add: extends_def)
qed

lemma example_chain: "correction_chain example_corrected ([LedgerTransactionId 10] @ [LedgerTransactionId 20])"
proof (rule chain_adjust[OF chain_source[OF example_posted_metadata] example_corrected_metadata])
  show "tm_kind example_metadata \<noteq> Adjustment" by (simp add: example_metadata_def)
qed (simp_all add: example_correction_def set_budget_charge_def)


lemma chain_nth:
  assumes "correction_chain L ids" and "Suc i < length ids"
  shows "\<exists>m. hm_get (ledger_metadata L) (ids ! Suc i) = Some m \<and> tm_previous_transaction_id m = Some (ids ! i)"
  using assms
proof (induction arbitrary: i rule: correction_chain.induct)
  case (chain_adjust ids tid m)
  show ?case
  proof (cases "Suc i < length ids")
    case True
    then show ?thesis using chain_adjust.IH by (simp add: nth_append)
  next
    case False
    then have "i = length ids - 1" "Suc i = length ids"
      using chain_adjust.prems correction_chain_nonempty[OF chain_adjust.hyps(1)] by auto
    then show ?thesis using chain_adjust.hyps correction_chain_nonempty[OF chain_adjust.hyps(1)]
      by (simp add: nth_append last_conv_nth)
  qed
qed simp

text \<open>
  C35: corrections never fork. Any two correction chains of one original transaction lie on one line:
  the shorter is an initial part of the longer, so an expense has a single latest state.
\<close>

theorem corrections_never_fork:
  assumes "ledger_reachable L" and "correction_chain L ids" and "correction_chain L ids'"
    and "hd ids = hd ids'"
  shows "prefix ids ids' \<or> prefix ids' ids"
proof -
  have inv: "ledger_inv L" by (rule ledger_reachable_inv[OF assms(1)])
  have same: "ids ! i = ids' ! i" if "i < length ids" "i < length ids'" for i
    using that
  proof (induction i)
    case 0
    then show ?case using assms(4) by (simp add: hd_conv_nth)
  next
    case (Suc i)
    then have "ids ! i = ids' ! i" by simp
    with chain_nth[OF assms(2) Suc.prems(1)] chain_nth[OF assms(3) Suc.prems(2)] inv
    show ?case unfolding ledger_inv_def by metis
  qed
  have "take n ids = take n ids'" if "n = min (length ids) (length ids')" for n
    using that same by (intro nth_equalityI) auto
  then show ?thesis by (metis linear min.absorb1 min.absorb2 take_all_iff take_is_prefix)
qed

theorem corrections_never_fork_witness:
  "prefix [LedgerTransactionId 10] [LedgerTransactionId 10, LedgerTransactionId 20]"
proof -
  have "correction_chain example_corrected [LedgerTransactionId 10]"
    by (rule chain_source[OF example_posted_metadata]) (simp add: example_metadata_def)
  from corrections_never_fork[OF example_corrected_reachable this example_chain] show ?thesis by simp
qed

end
