(* ===== verification/Spend_Manager.thy ===== *)
theory Spend_Manager
  imports Policy
begin

text \<open>
  \<^verbatim>\<open>crates/hubu-core/src/spend/manager.rs\<close>: the in-memory spend manager. It records policy decisions per
  operation key, issues authorization tokens for allowed or approved decisions, validates tokens for
  payments, and lets an executor claim a token. The records are those of \<^verbatim>\<open>spend/model.rs\<close>, the errors
  those of \<^verbatim>\<open>spend/error.rs\<close>.

  Clock readings and fresh identifiers are arguments. Evaluating a spend runs the policy engine, whose
  panic is the outer \<open>None\<close>. Logging has no effect on the state.
\<close>

section \<open>Records\<close>

record spend_decision_record =
  sd_id :: spend_decision_id
  sd_owner_user_id :: user_id
  sd_operation_key :: string
  sd_revision :: nat
  sd_actor :: string
  sd_request :: spend_request
  sd_evaluation :: evaluation
  sd_created_at :: instant

record spend_auth_token_record =
  tk_id :: spend_auth_token_id
  tk_owner_user_id :: user_id
  tk_spend_decision_id :: spend_decision_id
  tk_expires_at :: instant
  tk_claim_ttl_seconds :: int
  tk_used_at :: "instant option"
  tk_used_by_payment_id :: "payment_id option"
  tk_revoked_at :: "instant option"

datatype spend_executor_claim_status = ClaimClaimed | ClaimSettled | ClaimReleased

record spend_executor_claim_record =
  cl_id :: spend_executor_claim_id
  cl_spend_auth_token_id :: spend_auth_token_id
  cl_owner_user_id :: user_id
  cl_agent_id :: agent_id
  cl_operation_key :: string
  cl_lease_profile :: string
  cl_status :: spend_executor_claim_status
  cl_claimed_at :: instant
  cl_expires_at :: instant
  cl_finalized_at :: "instant option"
  cl_settlement_id :: "payment_id option"
  cl_provider_reference :: "string option"
  cl_reconciliation_evidence :: "string option"
  cl_reconciled_at :: "instant option"
  cl_reconciled_by_user_id :: "user_id option"

record issued_spend_auth_token =
  it_id :: spend_auth_token_id
  it_expires_at :: instant

datatype spend_retry_action = ReuseOperationKey | ReplayExactly | CreateNewOperation

record spend_retry_guidance =
  rg_action :: spend_retry_action
  rg_operation_key :: string
  rg_message :: string

text \<open>The attempt history of a response is always empty at this layer and is left out.\<close>

record spend_evaluation_response =
  se_operation_key :: string
  se_decision_id :: spend_decision_id
  se_evaluation :: evaluation
  se_auth_token :: "issued_spend_auth_token option"
  se_idempotent_replay :: bool
  se_revision :: nat
  se_retry_guidance :: spend_retry_guidance

record spend_payment_validation_request =
  pv_spend_auth_token_id :: spend_auth_token_id
  pv_owner_user_id :: user_id
  pv_agent_id :: agent_id
  pv_agent_account_id :: agent_account_id
  pv_amount :: amount
  pv_currency :: currency
  pv_merchant :: "string option"
  pv_execution_scope :: "execution_scope option"
  pv_task_id :: "string option"

record validated_spend_authorization =
  va_spend_auth_token_id :: spend_auth_token_id
  va_owner_user_id :: user_id
  va_spend_decision_id :: spend_decision_id
  va_expires_at :: instant

record spend_executor_claim_request =
  cq_authorization :: spend_payment_validation_request
  cq_operation_key :: string

record spend_executor_claim_validation_request =
  cv_owner_user_id :: user_id
  cv_agent_id :: agent_id
  cv_operation_key :: string

datatype spend_error =
    PolicyValidation policy_validation_error
  | UnknownSpendAuthToken
  | ExpiredSpendAuthToken
  | UsedSpendAuthToken
  | RevokedSpendAuthToken
  | MissingSpendDecision
  | SpendDecisionNotAllowed
  | PaymentRequestMismatch
  | UserScopeMismatch
  | UnknownLeaseProfile string
  | EmptyOperationKey
  | OperationKeyConflict
  | SpendAuthTokenAlreadyClaimed
  | UnknownExecutorClaim
  | ExecutorClaimOperationMismatch
  | ExpiredExecutorClaim
  | FinalizedExecutorClaim

section \<open>State\<close>

record spend_manager =
  decisions :: "(spend_decision_id, spend_decision_record) hmap"
  decision_ids_by_operation :: "(agent_id \<times> string, spend_decision_id list) hmap"
  tokens :: "(spend_auth_token_id, spend_auth_token_record) hmap"
  token_id_by_decision :: "(spend_decision_id, spend_auth_token_id) hmap"
  executor_claims :: "(spend_executor_claim_id, spend_executor_claim_record) hmap"
  claim_id_by_token :: "(spend_auth_token_id, spend_executor_claim_id) hmap"
  claim_id_by_operation :: "(agent_id \<times> string, spend_executor_claim_id) hmap"
  sm_lease_config :: lease_config

definition spend_manager_new :: spend_manager where
  "spend_manager_new =
     \<lparr>decisions = hm_empty, decision_ids_by_operation = hm_empty, tokens = hm_empty,
      token_id_by_decision = hm_empty, executor_claims = hm_empty, claim_id_by_token = hm_empty,
      claim_id_by_operation = hm_empty, sm_lease_config = lease_config_default\<rparr>"

text \<open>\<open>HashMap::from_iter\<close>: later pairs replace earlier ones.\<close>

definition hm_collect :: "('k \<times> 'v) list \<Rightarrow> ('k, 'v) hmap" where
  "hm_collect ps = fold (\<lambda>(k, v). hm_insert k v) ps hm_empty"

definition push_id :: "'k \<Rightarrow> 'v \<Rightarrow> ('k, 'v list) hmap \<Rightarrow> ('k, 'v list) hmap" where
  "push_id k v m = hm_insert k ((case hm_get m k of None \<Rightarrow> [] | Some l \<Rightarrow> l) @ [v]) m"

definition from_records_with_claims ::
  "spend_decision_record list \<Rightarrow> spend_auth_token_record list \<Rightarrow> spend_executor_claim_record list
     \<Rightarrow> lease_config \<Rightarrow> spend_manager" where
  "from_records_with_claims ds ts cs cfg =
     \<lparr>decisions = hm_collect (map (\<lambda>d. (sd_id d, d)) ds),
      decision_ids_by_operation =
        fold (\<lambda>d. push_id (sr_agent_id (sd_request d), sd_operation_key d) (sd_id d)) ds hm_empty,
      tokens = hm_collect (map (\<lambda>t. (tk_id t, t)) ts),
      token_id_by_decision = hm_collect (map (\<lambda>t. (tk_spend_decision_id t, tk_id t)) ts),
      executor_claims = hm_collect (map (\<lambda>c. (cl_id c, c)) cs),
      claim_id_by_token = hm_collect (map (\<lambda>c. (cl_spend_auth_token_id c, cl_id c)) cs),
      claim_id_by_operation = hm_collect (map (\<lambda>c. ((cl_agent_id c, cl_operation_key c), cl_id c)) cs),
      sm_lease_config = cfg\<rparr>"

section \<open>Queries\<close>

definition decision_record :: "spend_manager \<Rightarrow> spend_decision_id \<Rightarrow> spend_decision_record option" where
  "decision_record s d = hm_get (decisions s) d"

definition auth_token_record ::
  "spend_manager \<Rightarrow> spend_auth_token_id \<Rightarrow> spend_auth_token_record option" where
  "auth_token_record s t = hm_get (tokens s) t"

definition executor_claim_record ::
  "spend_manager \<Rightarrow> spend_executor_claim_id \<Rightarrow> spend_executor_claim_record option" where
  "executor_claim_record s c = hm_get (executor_claims s) c"

definition executor_claim_for_operation ::
  "spend_manager \<Rightarrow> agent_id \<Rightarrow> string \<Rightarrow> spend_executor_claim_record option" where
  "executor_claim_for_operation s agent key =
     Option.bind (hm_get (claim_id_by_operation s) (agent, key)) (executor_claim_record s)"

definition operation_decisions :: "spend_manager \<Rightarrow> agent_id \<times> string \<Rightarrow> spend_decision_id list" where
  "operation_decisions s k = (case hm_get (decision_ids_by_operation s) k of None \<Rightarrow> [] | Some l \<Rightarrow> l)"

definition is_replay_of ::
  "(string \<Rightarrow> string) \<Rightarrow> spend_manager \<Rightarrow> spend_request \<Rightarrow> spend_decision_id \<Rightarrow> bool" where
  "is_replay_of sha256 s request d =
     is_some_and (\<lambda>decision. replay_equivalent sha256 (sd_request decision) request)
       (hm_get (decisions s) d)"

definition has_decision_for_scope ::
  "(string \<Rightarrow> string) \<Rightarrow> spend_manager \<Rightarrow> agent_id \<Rightarrow> string \<Rightarrow> spend_request \<Rightarrow> bool" where
  "has_decision_for_scope sha256 s agent key request \<longleftrightarrow>
     list_ex (is_replay_of sha256 s request) (operation_decisions s (agent, key))"

definition lease_profile_for_operation :: "spend_manager \<Rightarrow> agent_id \<Rightarrow> string \<Rightarrow> string option" where
  "lease_profile_for_operation s agent key =
     Option.bind (hm_get (decision_ids_by_operation s) (agent, key)) (\<lambda>ids.
     Option.bind (if ids = [] then None else Some (last ids)) (\<lambda>d.
     map_option (\<lambda>decision. sr_lease_profile (sd_request decision)) (hm_get (decisions s) d)))"

definition claim_id_key :: "spend_executor_claim_id \<Rightarrow> uuid" where
  "claim_id_key i = (case i of SpendExecutorClaimId u \<Rightarrow> u)"

definition executor_claim_records_for_owner ::
  "spend_manager \<Rightarrow> user_id \<Rightarrow> spend_executor_claim_record list" where
  "executor_claim_records_for_owner s owner =
     sort_key cl_expires_at (sort_key (\<lambda>c. claim_id_key (cl_id c))
       (filter (\<lambda>c. cl_owner_user_id c = owner) (hm_values (executor_claims s))))"

section \<open>Tokens for approved decisions\<close>

definition token_at ::
  "spend_auth_token_id \<Rightarrow> user_id \<Rightarrow> spend_decision_id \<Rightarrow> instant \<Rightarrow> int \<Rightarrow> spend_auth_token_record" where
  "token_at tid owner d expires ttl =
     \<lparr>tk_id = tid, tk_owner_user_id = owner, tk_spend_decision_id = d, tk_expires_at = expires,
      tk_claim_ttl_seconds = ttl, tk_used_at = None, tk_used_by_payment_id = None, tk_revoked_at = None\<rparr>"

definition issue_auth_token_for_approved_decision ::
  "spend_auth_token_id \<Rightarrow> instant \<Rightarrow> spend_decision_id \<Rightarrow> spend_manager
     \<Rightarrow> (spend_error + issued_spend_auth_token) \<times> spend_manager" where
  "issue_auth_token_for_approved_decision fresh_id now d s =
     (case hm_get (token_id_by_decision s) d of
        Some tid \<Rightarrow>
          (case hm_get (tokens s) tid of
             None \<Rightarrow> (Inl UnknownSpendAuthToken, s)
           | Some t \<Rightarrow> (Inr \<lparr>it_id = tk_id t, it_expires_at = tk_expires_at t\<rparr>, s))
      | None \<Rightarrow>
      case hm_get (decisions s) d of
        None \<Rightarrow> (Inl MissingSpendDecision, s)
      | Some decision \<Rightarrow>
      if ev_decision (sd_evaluation decision) \<noteq> NeedsApproval then (Inl SpendDecisionNotAllowed, s)
      else case lease_profile_of (sm_lease_config s) (sr_lease_profile (sd_request decision)) of
        None \<Rightarrow> (Inl (UnknownLeaseProfile (sr_lease_profile (sd_request decision))), s)
      | Some profile \<Rightarrow>
          let expires_at = add_seconds now (authorization_ttl_seconds (sm_lease_config s));
              t = token_at fresh_id (sd_owner_user_id decision) d expires_at (claim_ttl_seconds profile)
          in (Inr \<lparr>it_id = fresh_id, it_expires_at = expires_at\<rparr>,
              s\<lparr>token_id_by_decision := hm_insert d fresh_id (token_id_by_decision s),
                tokens := hm_insert fresh_id t (tokens s)\<rparr>))"

section \<open>Evaluating a spend\<close>

text \<open>What one evaluation reads from outside: two fresh identifiers, the two clock readings, the
  revision and actor of the caller when it has them, and the printed form of the user.\<close>

record evaluation_inputs =
  ei_decision_id :: spend_decision_id
  ei_token_id :: spend_auth_token_id
  ei_created_at :: instant
  ei_token_now :: instant
  ei_revision_and_actor :: "(nat \<times> string) option"

definition replay_guidance :: "string \<Rightarrow> spend_retry_guidance" where
  "replay_guidance key =
     \<lparr>rg_action = ReplayExactly, rg_operation_key = key,
      rg_message = ''replay this exact immutable scope to recover the original result''\<rparr>"

definition replay_response ::
  "spend_manager \<Rightarrow> spend_decision_id \<Rightarrow> spend_decision_record \<Rightarrow> spend_evaluation_response" where
  "replay_response s d decision =
     \<lparr>se_operation_key = sd_operation_key decision, se_decision_id = sd_id decision,
      se_evaluation = sd_evaluation decision,
      se_auth_token =
        map_option (\<lambda>t. \<lparr>it_id = tk_id t, it_expires_at = tk_expires_at t\<rparr>)
          (Option.bind (hm_get (token_id_by_decision s) d) (hm_get (tokens s))),
      se_idempotent_replay = True, se_revision = sd_revision decision,
      se_retry_guidance = replay_guidance (sd_operation_key decision)\<rparr>"

definition record_decision ::
  "(user_id \<Rightarrow> string) \<Rightarrow> evaluation_inputs \<Rightarrow> user_id \<Rightarrow> string \<Rightarrow> spend_request \<Rightarrow> evaluation
     \<Rightarrow> int \<Rightarrow> spend_manager \<Rightarrow> spend_evaluation_response \<times> spend_manager" where
  "record_decision show_user ei user key request evaluation claim_ttl s =
     (let d = ei_decision_id ei;
          op = (sr_agent_id request, key);
          decision =
            \<lparr>sd_id = d, sd_owner_user_id = user, sd_operation_key = key,
             sd_revision =
               (case ei_revision_and_actor ei of
                  Some (revision, _) \<Rightarrow> revision
                | None \<Rightarrow>
                    (case hm_get (decision_ids_by_operation s) op of
                       None \<Rightarrow> 1 | Some ids \<Rightarrow> length ids + 1)),
             sd_actor =
               (case ei_revision_and_actor ei of Some (_, actor) \<Rightarrow> actor | None \<Rightarrow> show_user user),
             sd_request = request, sd_evaluation = evaluation, sd_created_at = ei_created_at ei\<rparr>;
          s = s\<lparr>decision_ids_by_operation := push_id op d (decision_ids_by_operation s),
                decisions := hm_insert d decision (decisions s)\<rparr>;
          expires_at =
            add_seconds (ei_token_now ei) (authorization_ttl_seconds (sm_lease_config s));
          issued = \<lparr>it_id = ei_token_id ei, it_expires_at = expires_at\<rparr>;
          allowed = (ev_decision evaluation = Allow)
      in (\<lparr>se_operation_key = key, se_decision_id = d, se_evaluation = evaluation,
           se_auth_token = (if allowed then Some issued else None), se_idempotent_replay = False,
           se_revision = sd_revision decision, se_retry_guidance = replay_guidance key\<rparr>,
          if allowed
          then s\<lparr>token_id_by_decision := hm_insert d (ei_token_id ei) (token_id_by_decision s),
                 tokens := hm_insert (ei_token_id ei)
                   (token_at (ei_token_id ei) user d expires_at claim_ttl) (tokens s)\<rparr>
          else s))"

definition evaluate_spend_with_revision ::
  "(string \<Rightarrow> string) \<Rightarrow> (agent_id \<Rightarrow> string) \<Rightarrow> (user_id \<Rightarrow> string) \<Rightarrow> evaluation_inputs
     \<Rightarrow> user_id \<Rightarrow> string \<Rightarrow> spend_request \<Rightarrow> policy \<Rightarrow> spend_manager
     \<Rightarrow> ((spend_error + spend_evaluation_response) \<times> spend_manager) option" where
  "evaluate_spend_with_revision sha256 show_agent show_user ei user operation_key request policy s =
     (let key = trim operation_key in
      if key = [] then Some (Inl EmptyOperationKey, s)
      else if sr_owner_user_id request \<noteq> user \<or> policy_owner_user_id policy \<noteq> user
      then Some (Inl UserScopeMismatch, s)
      else case find (is_replay_of sha256 s request)
                  (operation_decisions s (sr_agent_id request, key)) of
        Some d \<Rightarrow>
          Some (case hm_get (decisions s) d of
                  None \<Rightarrow> (Inl MissingSpendDecision, s)
                | Some decision \<Rightarrow>
                    if \<not> replay_equivalent sha256 (sd_request decision) request
                    then (Inl OperationKeyConflict, s)
                    else (Inr (replay_response s d decision), s))
      | None \<Rightarrow>
      case lease_profile_of (sm_lease_config s) (sr_lease_profile request) of
        None \<Rightarrow> Some (Inl (UnknownLeaseProfile (sr_lease_profile request)), s)
      | Some profile \<Rightarrow>
      case evaluate_policy show_agent request policy of
        None \<Rightarrow> None
      | Some (Inl e) \<Rightarrow> Some (Inl (PolicyValidation e), s)
      | Some (Inr evaluation) \<Rightarrow>
          (case record_decision show_user ei user key request evaluation (claim_ttl_seconds profile) s of
             (response, s') \<Rightarrow> Some (Inr response, s')))"

section \<open>Discarding\<close>

definition discard_auth_token_for_decision :: "spend_decision_id \<Rightarrow> spend_manager \<Rightarrow> spend_manager" where
  "discard_auth_token_for_decision d s =
     (case hm_get (token_id_by_decision s) d of
        None \<Rightarrow> s
      | Some tid \<Rightarrow> s\<lparr>token_id_by_decision := hm_remove d (token_id_by_decision s),
                      tokens := hm_remove tid (tokens s)\<rparr>)"

definition discard_unpersisted_decision :: "spend_decision_id \<Rightarrow> spend_manager \<Rightarrow> spend_manager" where
  "discard_unpersisted_decision d s0 =
     (let s = discard_auth_token_for_decision d s0 in
      case hm_get (decisions s) d of
        None \<Rightarrow> s
      | Some decision \<Rightarrow>
          let key = (sr_agent_id (sd_request decision), sd_operation_key decision);
              s = s\<lparr>decisions := hm_remove d (decisions s)\<rparr>
          in case hm_get (decision_ids_by_operation s) key of
               None \<Rightarrow> s
             | Some ids \<Rightarrow>
                 let ids' = filter (\<lambda>i. i \<noteq> d) ids
                 in s\<lparr>decision_ids_by_operation :=
                        (if ids' = [] then hm_remove key (decision_ids_by_operation s)
                         else hm_insert key ids' (decision_ids_by_operation s))\<rparr>)"

section \<open>Validating a token\<close>

definition payment_matches_authorized_spend ::
  "spend_payment_validation_request \<Rightarrow> spend_request \<Rightarrow> bool" where
  "payment_matches_authorized_spend payment spend \<longleftrightarrow>
     (let execution_scope_matches =
            pv_execution_scope payment = sr_execution_scope spend
            \<or> (sr_execution_scope spend = None \<and> sr_merchant spend \<noteq> None
               \<and> pv_merchant payment = sr_merchant spend)
      in pv_agent_id payment = sr_agent_id spend
         \<and> pv_agent_account_id payment = sr_agent_account_id spend
         \<and> pv_amount payment = sr_amount spend \<and> pv_currency payment = sr_currency spend
         \<and> pv_merchant payment = sr_merchant spend \<and> execution_scope_matches
         \<and> pv_task_id payment = sr_task_id spend)"

definition decision_permits :: "spend_manager \<Rightarrow> spend_decision_record \<Rightarrow> spend_auth_token_record \<Rightarrow> bool" where
  "decision_permits s decision t \<longleftrightarrow>
     (let human_approved =
            ev_decision (sd_evaluation decision) = NeedsApproval
            \<and> hm_get (token_id_by_decision s) (sd_id decision) = Some (tk_id t)
      in ev_decision (sd_evaluation decision) = Allow \<or> human_approved)"

definition authorization_of :: "spend_auth_token_record \<Rightarrow> validated_spend_authorization" where
  "authorization_of t =
     \<lparr>va_spend_auth_token_id = tk_id t, va_owner_user_id = tk_owner_user_id t,
      va_spend_decision_id = tk_spend_decision_id t, va_expires_at = tk_expires_at t\<rparr>"

definition validate_auth_token_for_payment ::
  "instant \<Rightarrow> spend_manager \<Rightarrow> spend_payment_validation_request
     \<Rightarrow> spend_error + validated_spend_authorization" where
  "validate_auth_token_for_payment now s request =
     (case hm_get (tokens s) (pv_spend_auth_token_id request) of
        None \<Rightarrow> Inl UnknownSpendAuthToken
      | Some t \<Rightarrow>
      if tk_revoked_at t \<noteq> None then Inl RevokedSpendAuthToken
      else if tk_used_at t \<noteq> None then Inl UsedSpendAuthToken
      else if hm_contains (claim_id_by_token s) (pv_spend_auth_token_id request)
      then Inl SpendAuthTokenAlreadyClaimed
      else if tk_expires_at t \<le> now then Inl ExpiredSpendAuthToken
      else case hm_get (decisions s) (tk_spend_decision_id t) of
        None \<Rightarrow> Inl MissingSpendDecision
      | Some decision \<Rightarrow>
      if \<not> decision_permits s decision t then Inl SpendDecisionNotAllowed
      else if pv_owner_user_id request \<noteq> sd_owner_user_id decision then Inl UserScopeMismatch
      else if \<not> payment_matches_authorized_spend request (sd_request decision)
      then Inl PaymentRequestMismatch
      else Inr (authorization_of t))"

definition validate_authorization_scope ::
  "spend_manager \<Rightarrow> spend_payment_validation_request \<Rightarrow> bool
     \<Rightarrow> spend_error + validated_spend_authorization" where
  "validate_authorization_scope s request allow_finalized =
     (case hm_get (tokens s) (pv_spend_auth_token_id request) of
        None \<Rightarrow> Inl UnknownSpendAuthToken
      | Some t \<Rightarrow>
      if \<not> allow_finalized \<and> tk_revoked_at t \<noteq> None then Inl RevokedSpendAuthToken
      else if \<not> allow_finalized \<and> tk_used_at t \<noteq> None then Inl UsedSpendAuthToken
      else case hm_get (decisions s) (tk_spend_decision_id t) of
        None \<Rightarrow> Inl MissingSpendDecision
      | Some decision \<Rightarrow>
      if \<not> decision_permits s decision t then Inl SpendDecisionNotAllowed
      else if pv_owner_user_id request \<noteq> sd_owner_user_id decision then Inl UserScopeMismatch
      else if \<not> payment_matches_authorized_spend request (sd_request decision)
      then Inl PaymentRequestMismatch
      else Inr (authorization_of t))"

definition mark_auth_token_used ::
  "instant \<Rightarrow> spend_auth_token_id \<Rightarrow> payment_id \<Rightarrow> spend_manager \<Rightarrow> (spend_error + unit) \<times> spend_manager" where
  "mark_auth_token_used now tid payment s =
     (if hm_contains (claim_id_by_token s) tid then (Inl SpendAuthTokenAlreadyClaimed, s)
      else case hm_get (tokens s) tid of
        None \<Rightarrow> (Inl UnknownSpendAuthToken, s)
      | Some t \<Rightarrow>
          if tk_used_at t \<noteq> None then (Inl UsedSpendAuthToken, s)
          else (Inr (), s\<lparr>tokens := hm_insert tid
                 (t\<lparr>tk_used_at := Some now, tk_used_by_payment_id := Some payment\<rparr>) (tokens s)\<rparr>))"

section \<open>Executor claims\<close>

definition validate_auth_token_for_executor_claim ::
  "instant \<Rightarrow> spend_manager \<Rightarrow> spend_payment_validation_request \<Rightarrow> string
     \<Rightarrow> spend_error + (validated_spend_authorization \<times> spend_executor_claim_record option)" where
  "validate_auth_token_for_executor_claim now s authorization operation_key =
     (case executor_claim_for_operation s (pv_agent_id authorization) operation_key of
        Some claim \<Rightarrow>
          if cl_spend_auth_token_id claim \<noteq> pv_spend_auth_token_id authorization
          then Inl OperationKeyConflict
          else and_then (validate_authorization_scope s authorization True)
                 (\<lambda>validation. Inr (validation, Some claim))
      | None \<Rightarrow>
      case hm_get (claim_id_by_token s) (pv_spend_auth_token_id authorization) of
        Some claim_id \<Rightarrow>
          and_then (ok_or UnknownExecutorClaim (hm_get (executor_claims s) claim_id)) (\<lambda>claim.
          if cl_operation_key claim \<noteq> operation_key then Inl SpendAuthTokenAlreadyClaimed
          else if cl_status claim = ClaimClaimed \<and> cl_expires_at claim \<le> now
          then Inl ExpiredExecutorClaim
          else and_then (validate_authorization_scope s authorization True)
                 (\<lambda>validation. Inr (validation, Some claim)))
      | None \<Rightarrow>
          and_then (validate_auth_token_for_payment now s authorization) (\<lambda>validation.
          and_then (ok_or MissingSpendDecision
                     (hm_get (decisions s) (va_spend_decision_id validation))) (\<lambda>decision.
          if sd_operation_key decision \<noteq> operation_key then Inl OperationKeyConflict
          else Inr (validation, None))))"

definition prepare_auth_token_claim ::
  "spend_executor_claim_id \<Rightarrow> instant \<Rightarrow> spend_manager \<Rightarrow> spend_executor_claim_request
     \<Rightarrow> spend_error + (spend_executor_claim_record \<times> validated_spend_authorization)" where
  "prepare_auth_token_claim fresh_id now s request =
     and_then (validate_auth_token_for_executor_claim now s (cq_authorization request)
                 (cq_operation_key request)) (\<lambda>(validation, existing_claim).
     case existing_claim of
       Some claim \<Rightarrow> Inr (claim, validation)
     | None \<Rightarrow>
         and_then (ok_or MissingSpendDecision
                    (hm_get (decisions s) (va_spend_decision_id validation))) (\<lambda>decision.
         and_then (ok_or UnknownSpendAuthToken
                    (hm_get (tokens s) (pv_spend_auth_token_id (cq_authorization request)))) (\<lambda>t.
         Inr (\<lparr>cl_id = fresh_id,
               cl_spend_auth_token_id = pv_spend_auth_token_id (cq_authorization request),
               cl_owner_user_id = pv_owner_user_id (cq_authorization request),
               cl_agent_id = pv_agent_id (cq_authorization request),
               cl_operation_key = cq_operation_key request,
               cl_lease_profile = sr_lease_profile (sd_request decision),
               cl_status = ClaimClaimed, cl_claimed_at = now,
               cl_expires_at = add_seconds now (tk_claim_ttl_seconds t),
               cl_finalized_at = None, cl_settlement_id = None, cl_provider_reference = None,
               cl_reconciliation_evidence = None, cl_reconciled_at = None,
               cl_reconciled_by_user_id = None\<rparr>, validation))))"

definition index_claim ::
  "spend_executor_claim_record \<Rightarrow> spend_auth_token_id \<Rightarrow> spend_manager \<Rightarrow> spend_manager" where
  "index_claim claim tid s =
     s\<lparr>claim_id_by_token := hm_insert tid (cl_id claim) (claim_id_by_token s),
       claim_id_by_operation :=
         hm_insert (cl_agent_id claim, cl_operation_key claim) (cl_id claim) (claim_id_by_operation s),
       executor_claims := hm_insert (cl_id claim) claim (executor_claims s)\<rparr>"

definition claim_auth_token ::
  "spend_executor_claim_id \<Rightarrow> instant \<Rightarrow> spend_executor_claim_request \<Rightarrow> spend_manager
     \<Rightarrow> (spend_error + (spend_executor_claim_record \<times> validated_spend_authorization)) \<times> spend_manager" where
  "claim_auth_token fresh_id now request s =
     (case prepare_auth_token_claim fresh_id now s request of
        Inl e \<Rightarrow> (Inl e, s)
      | Inr (claim, validation) \<Rightarrow>
          (Inr (claim, validation), index_claim claim (cl_spend_auth_token_id claim) s))"

definition validate_executor_claim ::
  "instant \<Rightarrow> spend_manager \<Rightarrow> spend_executor_claim_validation_request
     \<Rightarrow> spend_error + spend_executor_claim_record" where
  "validate_executor_claim now s request =
     and_then (ok_or UnknownExecutorClaim
                (executor_claim_for_operation s (cv_agent_id request) (cv_operation_key request))) (\<lambda>claim.
     if cl_owner_user_id claim \<noteq> cv_owner_user_id request then Inl UserScopeMismatch
     else if cl_agent_id claim \<noteq> cv_agent_id request then Inl ExecutorClaimOperationMismatch
     else if cl_operation_key claim \<noteq> cv_operation_key request then Inl ExecutorClaimOperationMismatch
     else if cl_status claim \<noteq> ClaimClaimed then Inl FinalizedExecutorClaim
     else if cl_expires_at claim \<le> now then Inl ExpiredExecutorClaim
     else and_then (ok_or UnknownSpendAuthToken (hm_get (tokens s) (cl_spend_auth_token_id claim))) (\<lambda>t.
       if tk_revoked_at t \<noteq> None then Inl RevokedSpendAuthToken
       else if tk_used_at t \<noteq> None then Inl UsedSpendAuthToken
       else Inr claim))"

definition apply_persisted_executor_finalization ::
  "spend_executor_claim_record \<Rightarrow> spend_auth_token_record \<Rightarrow> spend_manager \<Rightarrow> spend_manager" where
  "apply_persisted_executor_finalization claim t s =
     (let s = index_claim claim (tk_id t) s in s\<lparr>tokens := hm_insert (tk_id t) t (tokens s)\<rparr>)"

definition apply_persisted_authorization_void ::
  "spend_auth_token_record \<Rightarrow> spend_manager \<Rightarrow> spend_manager" where
  "apply_persisted_authorization_void t s = s\<lparr>tokens := hm_insert (tk_id t) t (tokens s)\<rparr>"

end
