(* ===== verification/Spend_Machine.thy ===== *)
theory Spend_Machine
  imports Spend_Manager Policy_Theorems
begin

text \<open>
  The invariant of the spend manager and its state machine. Every decision is indexed under its
  operation, every token belongs to a decision that was not denied, a decision has at most one token,
  and a token has at most one executor claim.
\<close>

section \<open>The invariant\<close>

definition decision_entry_ok :: "spend_manager \<Rightarrow> spend_decision_id \<Rightarrow> spend_decision_record \<Rightarrow> bool" where
  "decision_entry_ok s d r \<longleftrightarrow>
     sd_id r = d \<and> d \<in> set (operation_decisions s (sr_agent_id (sd_request r), sd_operation_key r))"

definition operation_entry_ok :: "spend_manager \<Rightarrow> agent_id \<times> string \<Rightarrow> spend_decision_id list \<Rightarrow> bool" where
  "operation_entry_ok s k ids \<longleftrightarrow>
     ids \<noteq> [] \<and> distinct ids
     \<and> (\<forall>d\<in>set ids. \<exists>r. hm_get (decisions s) d = Some r
          \<and> (sr_agent_id (sd_request r), sd_operation_key r) = k)"

definition token_entry_ok :: "spend_manager \<Rightarrow> spend_auth_token_id \<Rightarrow> spend_auth_token_record \<Rightarrow> bool" where
  "token_entry_ok s t r \<longleftrightarrow>
     tk_id r = t \<and> hm_get (token_id_by_decision s) (tk_spend_decision_id r) = Some t
     \<and> (\<exists>d. hm_get (decisions s) (tk_spend_decision_id r) = Some d
          \<and> ev_decision (sd_evaluation d) \<noteq> Deny \<and> tk_owner_user_id r = sd_owner_user_id d)"

definition claim_entry_ok :: "spend_manager \<Rightarrow> spend_executor_claim_id \<Rightarrow> spend_executor_claim_record \<Rightarrow> bool" where
  "claim_entry_ok s c r \<longleftrightarrow>
     cl_id r = c \<and> hm_get (claim_id_by_token s) (cl_spend_auth_token_id r) = Some c
     \<and> hm_get (claim_id_by_operation s) (cl_agent_id r, cl_operation_key r) = Some c"

definition spend_maps_wf :: "spend_manager \<Rightarrow> bool" where
  "spend_maps_wf s \<longleftrightarrow>
     hm_wf (decisions s) \<and> hm_wf (decision_ids_by_operation s) \<and> hm_wf (tokens s)
     \<and> hm_wf (token_id_by_decision s)"

definition decisions_inv :: "spend_manager \<Rightarrow> bool" where
  "decisions_inv s \<longleftrightarrow>
     (\<forall>d r. hm_get (decisions s) d = Some r \<longrightarrow> decision_entry_ok s d r)
     \<and> (\<forall>k ids. hm_get (decision_ids_by_operation s) k = Some ids \<longrightarrow> operation_entry_ok s k ids)"

definition tokens_inv :: "spend_manager \<Rightarrow> bool" where
  "tokens_inv s \<longleftrightarrow>
     (\<forall>t r. hm_get (tokens s) t = Some r \<longrightarrow> token_entry_ok s t r)
     \<and> (\<forall>d t. hm_get (token_id_by_decision s) d = Some t \<longrightarrow>
          (\<exists>r. hm_get (tokens s) t = Some r \<and> tk_spend_decision_id r = d))"

definition claims_inv :: "spend_manager \<Rightarrow> bool" where
  "claims_inv s \<longleftrightarrow>
     (\<forall>c r. hm_get (executor_claims s) c = Some r \<longrightarrow> claim_entry_ok s c r)
     \<and> (\<forall>t c. hm_get (claim_id_by_token s) t = Some c \<longrightarrow>
          (\<exists>r. hm_get (executor_claims s) c = Some r \<and> cl_spend_auth_token_id r = t))
     \<and> (\<forall>k c. hm_get (claim_id_by_operation s) k = Some c \<longrightarrow>
          (\<exists>r. hm_get (executor_claims s) c = Some r \<and> (cl_agent_id r, cl_operation_key r) = k))"

definition spend_inv :: "spend_manager \<Rightarrow> bool" where
  "spend_inv s \<longleftrightarrow> spend_maps_wf s \<and> decisions_inv s \<and> tokens_inv s \<and> claims_inv s"

lemma spend_inv_new: "spend_inv (spend_manager_new\<lparr>sm_lease_config := cfg\<rparr>)"
  by (simp add: spend_inv_def spend_maps_wf_def decisions_inv_def tokens_inv_def claims_inv_def
      spend_manager_new_def)

lemma spend_invD:
  assumes "spend_inv s"
  shows "spend_maps_wf s" "decisions_inv s" "tokens_inv s" "claims_inv s"
  using assms by (simp_all add: spend_inv_def)

lemma decision_entry: "spend_inv s \<Longrightarrow> hm_get (decisions s) d = Some r \<Longrightarrow> decision_entry_ok s d r"
  by (simp add: spend_inv_def decisions_inv_def)

lemma operation_entry:
  "spend_inv s \<Longrightarrow> hm_get (decision_ids_by_operation s) k = Some ids \<Longrightarrow> operation_entry_ok s k ids"
  unfolding spend_inv_def decisions_inv_def by blast

lemma token_entry: "spend_inv s \<Longrightarrow> hm_get (tokens s) t = Some r \<Longrightarrow> token_entry_ok s t r"
  by (simp add: spend_inv_def tokens_inv_def)

lemma decision_token:
  "spend_inv s \<Longrightarrow> hm_get (token_id_by_decision s) d = Some t \<Longrightarrow>
   \<exists>r. hm_get (tokens s) t = Some r \<and> tk_spend_decision_id r = d"
  by (simp add: spend_inv_def tokens_inv_def)

section \<open>Local changes of the state\<close>

lemma operation_decisions_push:
  "operation_decisions (s\<lparr>decision_ids_by_operation := push_id k d (decision_ids_by_operation s), decisions := ds\<rparr>) j
   = (if j = k then operation_decisions s k @ [d] else operation_decisions s j)"
  by (simp add: operation_decisions_def push_id_def)

text \<open>A new decision.\<close>

lemma spend_inv_new_decision:
  assumes inv: "spend_inv s" and fresh: "hm_get (decisions s) (sd_id r) = None"
  shows "spend_inv (s\<lparr>decision_ids_by_operation :=
           push_id (sr_agent_id (sd_request r), sd_operation_key r) (sd_id r) (decision_ids_by_operation s),
         decisions := hm_insert (sd_id r) r (decisions s)\<rparr>)" (is "spend_inv ?s")
proof -
  let ?k = "(sr_agent_id (sd_request r), sd_operation_key r)"
  have "decision_entry_ok ?s d x" if "hm_get (decisions ?s) d = Some x" for d x
    using that decision_entry[OF inv, of d x]
    by (auto simp: decision_entry_ok_def operation_decisions_push split: if_splits)
  moreover have "operation_entry_ok ?s k ids" if k: "hm_get (decision_ids_by_operation ?s) k = Some ids" for k ids
  proof (cases "k = ?k")
    case False
    then have "hm_get (decision_ids_by_operation s) k = Some ids" using k by (auto simp: push_id_def)
    from operation_entry[OF inv this] fresh show ?thesis by (fastforce simp: operation_entry_ok_def)
  next
    case True
    show ?thesis
    proof (cases "hm_get (decision_ids_by_operation s) ?k")
      case None
      with True k have "ids = [sd_id r]" by (simp add: push_id_def)
      with True show ?thesis by (simp add: operation_entry_ok_def)
    next
      case (Some old)
      with True k have ids: "ids = old @ [sd_id r]" by (simp add: push_id_def)
      from operation_entry[OF inv Some] fresh True show ?thesis
        by (fastforce simp: operation_entry_ok_def ids)
    qed
  qed
  ultimately have "decisions_inv ?s" by (simp add: decisions_inv_def)
  moreover have "tokens_inv ?s"
    using spend_invD(3)[OF inv] fresh by (fastforce simp: tokens_inv_def token_entry_ok_def)
  moreover have "claims_inv ?s" using spend_invD(4)[OF inv] by (simp add: claims_inv_def claim_entry_ok_def)
  moreover have "spend_maps_wf ?s"
    using spend_invD(1)[OF inv] by (simp add: spend_maps_wf_def push_id_def)
  ultimately show ?thesis by (simp add: spend_inv_def)
qed

text \<open>A new token for a decision that has none and was not denied.\<close>

lemma spend_inv_new_token:
  assumes inv: "spend_inv s" and d: "hm_get (decisions s) d = Some r" "ev_decision (sd_evaluation r) \<noteq> Deny"
    and none: "hm_get (token_id_by_decision s) d = None" and fresh: "hm_get (tokens s) tid = None"
    and owner: "owner = sd_owner_user_id r"
  shows "spend_inv (s\<lparr>token_id_by_decision := hm_insert d tid (token_id_by_decision s),
           tokens := hm_insert tid (token_at tid owner d e ttl) (tokens s)\<rparr>)" (is "spend_inv ?s")
proof -
  have "token_entry_ok ?s t x" if t: "hm_get (tokens ?s) t = Some x" for t x
  proof (cases "t = tid")
    case True
    with t d owner show ?thesis by (auto simp: token_entry_ok_def token_at_def)
  next
    case False
    with t have "token_entry_ok s t x" using token_entry[OF inv] by simp
    moreover from this have "tk_spend_decision_id x \<noteq> d" using none by (auto simp: token_entry_ok_def)
    ultimately show ?thesis by (simp add: token_entry_ok_def)
  qed
  moreover have "\<exists>x. hm_get (tokens ?s) t = Some x \<and> tk_spend_decision_id x = j"
    if "hm_get (token_id_by_decision ?s) j = Some t" for j t
    using that decision_token[OF inv, of j t] fresh
    by (auto simp: token_at_def split: if_splits)
  ultimately have "tokens_inv ?s" by (simp add: tokens_inv_def)
  moreover have "decisions_inv ?s"
    using spend_invD(2)[OF inv]
    by (simp add: decisions_inv_def decision_entry_ok_def operation_entry_ok_def operation_decisions_def)
  moreover have "claims_inv ?s" using spend_invD(4)[OF inv] by (simp add: claims_inv_def claim_entry_ok_def)
  moreover have "spend_maps_wf ?s" using spend_invD(1)[OF inv] by (simp add: spend_maps_wf_def)
  ultimately show ?thesis by (simp add: spend_inv_def)
qed

text \<open>Replacing a token by one of the same identity, decision and owner.\<close>

definition same_token :: "spend_auth_token_record \<Rightarrow> spend_auth_token_record \<Rightarrow> bool" where
  "same_token t t' \<longleftrightarrow>
     tk_id t' = tk_id t \<and> tk_spend_decision_id t' = tk_spend_decision_id t
     \<and> tk_owner_user_id t' = tk_owner_user_id t"

lemma spend_inv_replace_token:
  assumes inv: "spend_inv s" and t: "hm_get (tokens s) tid = Some t" and same: "same_token t t'"
  shows "spend_inv (s\<lparr>tokens := hm_insert tid t' (tokens s)\<rparr>)" (is "spend_inv ?s")
proof -
  have "token_entry_ok ?s i x" if "hm_get (tokens ?s) i = Some x" for i x
    using that token_entry[OF inv, of i] t same
    by (auto simp: token_entry_ok_def same_token_def split: if_splits)
  moreover have "\<exists>x. hm_get (tokens ?s) i = Some x \<and> tk_spend_decision_id x = j"
    if "hm_get (token_id_by_decision ?s) j = Some i" for j i
    using that decision_token[OF inv, of j i] t same by (auto simp: same_token_def)
  ultimately have "tokens_inv ?s" by (simp add: tokens_inv_def)
  moreover have "decisions_inv ?s"
    using spend_invD(2)[OF inv]
    by (simp add: decisions_inv_def decision_entry_ok_def operation_entry_ok_def operation_decisions_def)
  moreover have "claims_inv ?s" using spend_invD(4)[OF inv] by (simp add: claims_inv_def claim_entry_ok_def)
  moreover have "spend_maps_wf ?s" using spend_invD(1)[OF inv] by (simp add: spend_maps_wf_def)
  ultimately show ?thesis by (simp add: spend_inv_def)
qed

text \<open>Discarding a token and an unpersisted decision.\<close>

lemma spend_inv_discard_token:
  assumes inv: "spend_inv s"
  shows "spend_inv (discard_auth_token_for_decision d s)"
proof (cases "hm_get (token_id_by_decision s) d")
  case None
  with inv show ?thesis by (simp add: discard_auth_token_for_decision_def)
next
  case (Some tid)
  let ?s = "s\<lparr>token_id_by_decision := hm_remove d (token_id_by_decision s),
              tokens := hm_remove tid (tokens s)\<rparr>"
  have wf: "hm_wf (tokens s)" "hm_wf (token_id_by_decision s)"
    using spend_invD(1)[OF inv] by (simp_all add: spend_maps_wf_def)
  obtain r where r: "hm_get (tokens s) tid = Some r" "tk_spend_decision_id r = d"
    using decision_token[OF inv Some] by blast
  have "token_entry_ok ?s i x" if "hm_get (tokens ?s) i = Some x" for i x
    using that token_entry[OF inv, of i x] Some
    by (auto simp: token_entry_ok_def hm_get_remove wf split: if_splits)
  moreover have "\<exists>x. hm_get (tokens ?s) i = Some x \<and> tk_spend_decision_id x = j"
    if "hm_get (token_id_by_decision ?s) j = Some i" for j i
    using that decision_token[OF inv, of j i] r by (auto simp: hm_get_remove wf split: if_splits)
  ultimately have "tokens_inv ?s" by (simp add: tokens_inv_def)
  moreover have "decisions_inv ?s"
    using spend_invD(2)[OF inv]
    by (simp add: decisions_inv_def decision_entry_ok_def operation_entry_ok_def operation_decisions_def)
  moreover have "claims_inv ?s" using spend_invD(4)[OF inv] by (simp add: claims_inv_def claim_entry_ok_def)
  moreover have "spend_maps_wf ?s" using spend_invD(1)[OF inv] by (simp add: spend_maps_wf_def)
  ultimately show ?thesis using Some by (simp add: spend_inv_def discard_auth_token_for_decision_def)
qed

lemma discarded_token_gone:
  assumes "spend_inv s"
  shows "hm_get (token_id_by_decision (discard_auth_token_for_decision d s)) d = None"
  using spend_invD(1)[OF assms]
  by (cases "hm_get (token_id_by_decision s) d")
    (simp_all add: discard_auth_token_for_decision_def hm_get_remove spend_maps_wf_def)

definition drop_operation_id ::
  "agent_id \<times> string \<Rightarrow> spend_decision_id \<Rightarrow> (agent_id \<times> string, spend_decision_id list) hmap
     \<Rightarrow> (agent_id \<times> string, spend_decision_id list) hmap" where
  "drop_operation_id key d m =
     (case hm_get m key of
        None \<Rightarrow> m
      | Some ids \<Rightarrow>
          if filter (\<lambda>i. i \<noteq> d) ids = [] then hm_remove key m
          else hm_insert key (filter (\<lambda>i. i \<noteq> d) ids) m)"

lemma discard_unpersisted_decision_eq:
  "discard_unpersisted_decision d s0 =
     (let s = discard_auth_token_for_decision d s0 in
      case hm_get (decisions s) d of
        None \<Rightarrow> s
      | Some r \<Rightarrow> s\<lparr>decisions := hm_remove d (decisions s),
          decision_ids_by_operation := drop_operation_id (sr_agent_id (sd_request r), sd_operation_key r) d
            (decision_ids_by_operation s)\<rparr>)"
  by (simp add: discard_unpersisted_decision_def drop_operation_id_def Let_def split: option.splits)

lemma drop_operation_id_get:
  assumes "hm_wf m"
  shows "hm_get (drop_operation_id key d m) k = Some ids \<longleftrightarrow>
    (if k = key then \<exists>old. hm_get m key = Some old \<and> ids = filter (\<lambda>i. i \<noteq> d) old \<and> ids \<noteq> []
     else hm_get m k = Some ids)"
  by (auto simp: drop_operation_id_def hm_get_remove[OF assms] split: option.splits if_splits)

lemma spend_inv_drop_decision:
  assumes inv: "spend_inv s" and d: "hm_get (decisions s) d = Some r"
    and none: "hm_get (token_id_by_decision s) d = None"
  shows "spend_inv (s\<lparr>decisions := hm_remove d (decisions s),
          decision_ids_by_operation := drop_operation_id (sr_agent_id (sd_request r), sd_operation_key r) d
            (decision_ids_by_operation s)\<rparr>)" (is "spend_inv ?s")
proof -
  let ?k = "(sr_agent_id (sd_request r), sd_operation_key r)"
  have wf: "hm_wf (decisions s)" "hm_wf (decision_ids_by_operation s)"
    using spend_invD(1)[OF inv] by (simp_all add: spend_maps_wf_def)
  have "decision_entry_ok ?s i x" if i: "hm_get (decisions ?s) i = Some x" for i x
  proof -
    from i have ne: "i \<noteq> d" and x: "hm_get (decisions s) i = Some x"
      by (auto simp: hm_get_remove wf split: if_splits)
    let ?j = "(sr_agent_id (sd_request x), sd_operation_key x)"
    obtain ids where ids: "hm_get (decision_ids_by_operation s) ?j = Some ids" "i \<in> set ids" "sd_id x = i"
      using decision_entry[OF inv x]
      by (cases "hm_get (decision_ids_by_operation s) ?j") (auto simp: decision_entry_ok_def operation_decisions_def)
    then have "\<exists>ids'. hm_get (decision_ids_by_operation ?s) ?j = Some ids' \<and> i \<in> set ids'"
      using drop_operation_id_get[OF wf(2), of ?k d ?j] ne by (cases "?j = ?k") (auto simp: filter_empty_conv)
    with ids(3) show ?thesis by (auto simp: decision_entry_ok_def operation_decisions_def)
  qed
  moreover have "operation_entry_ok ?s k ids" if k: "hm_get (decision_ids_by_operation ?s) k = Some ids" for k ids
  proof (cases "k = ?k")
    case True
    with k obtain old where old: "hm_get (decision_ids_by_operation s) ?k = Some old"
      "ids = filter (\<lambda>i. i \<noteq> d) old" "ids \<noteq> []"
      by (auto simp: drop_operation_id_get[OF wf(2)])
    from operation_entry[OF inv old(1)] old(2,3) True show ?thesis
      by (auto simp: operation_entry_ok_def hm_get_remove wf)
  next
    case False
    with k have "hm_get (decision_ids_by_operation s) k = Some ids" by (simp add: drop_operation_id_get[OF wf(2)])
    from operation_entry[OF inv this] False d show ?thesis
      by (fastforce simp: operation_entry_ok_def hm_get_remove wf)
  qed
  ultimately have "decisions_inv ?s" by (simp add: decisions_inv_def)
  moreover have "tokens_inv ?s"
    using spend_invD(3)[OF inv] none
    by (fastforce simp: tokens_inv_def token_entry_ok_def hm_get_remove wf)
  moreover have "claims_inv ?s" using spend_invD(4)[OF inv] by (simp add: claims_inv_def claim_entry_ok_def)
  moreover have "spend_maps_wf ?s"
    using spend_invD(1)[OF inv] by (simp add: spend_maps_wf_def drop_operation_id_def split: option.splits)
  ultimately show ?thesis by (simp add: spend_inv_def)
qed

lemma spend_inv_discard_decision:
  assumes "spend_inv s"
  shows "spend_inv (discard_unpersisted_decision d s)"
  using spend_inv_discard_token[OF assms, of d] spend_inv_drop_decision discarded_token_gone[OF assms, of d]
  by (simp add: discard_unpersisted_decision_eq Let_def split: option.splits)

section \<open>Claims\<close>

definition same_claim :: "spend_executor_claim_record \<Rightarrow> spend_executor_claim_record \<Rightarrow> bool" where
  "same_claim c c' \<longleftrightarrow>
     cl_id c' = cl_id c \<and> cl_spend_auth_token_id c' = cl_spend_auth_token_id c
     \<and> cl_agent_id c' = cl_agent_id c \<and> cl_operation_key c' = cl_operation_key c"

lemma claim_entry: "spend_inv s \<Longrightarrow> hm_get (executor_claims s) c = Some r \<Longrightarrow> claim_entry_ok s c r"
  by (simp add: spend_inv_def claims_inv_def)

lemma token_claim:
  "spend_inv s \<Longrightarrow> hm_get (claim_id_by_token s) t = Some c \<Longrightarrow>
   \<exists>r. hm_get (executor_claims s) c = Some r \<and> cl_spend_auth_token_id r = t"
  by (simp add: spend_inv_def claims_inv_def)

lemma operation_claim:
  "spend_inv s \<Longrightarrow> hm_get (claim_id_by_operation s) k = Some c \<Longrightarrow>
   \<exists>r. hm_get (executor_claims s) c = Some r \<and> (cl_agent_id r, cl_operation_key r) = k"
  unfolding spend_inv_def claims_inv_def by blast

lemma operation_claim_None:
  assumes "spend_inv s" and "executor_claim_for_operation s a k = None"
  shows "hm_get (claim_id_by_operation s) (a, k) = None"
  using assms(2) operation_claim[OF assms(1), of "(a, k)"]
  by (cases "hm_get (claim_id_by_operation s) (a, k)")
    (auto simp: executor_claim_for_operation_def executor_claim_record_def)

lemma executor_claim_for_operation_Some:
  assumes "spend_inv s" and "executor_claim_for_operation s a k = Some r"
  shows "hm_get (executor_claims s) (cl_id r) = Some r" and "cl_agent_id r = a" and "cl_operation_key r = k"
proof -
  from assms(2) obtain c where c: "hm_get (claim_id_by_operation s) (a, k) = Some c" "hm_get (executor_claims s) c = Some r"
    by (auto simp: executor_claim_for_operation_def executor_claim_record_def bind_eq_Some_conv)
  with claim_entry[OF assms(1) c(2)] operation_claim[OF assms(1) c(1)]
  show "hm_get (executor_claims s) (cl_id r) = Some r" "cl_agent_id r = a" "cl_operation_key r = k"
    by (auto simp: claim_entry_ok_def)
qed

text \<open>Indexing a known claim again changes nothing; indexing a new one keeps the invariant.\<close>

lemma index_claim_known:
  assumes "spend_inv s" and "hm_get (executor_claims s) (cl_id r) = Some r"
  shows "index_claim r (cl_spend_auth_token_id r) s = s"
  using claim_entry[OF assms] assms(2) by (simp add: index_claim_def claim_entry_ok_def hm_insert_triv)

lemma claims_frame:
  assumes "spend_inv s" and "claims_inv (index_claim r t s)"
  shows "spend_inv (index_claim r t s)"
  using assms spend_invD[OF assms(1)]
  by (simp add: spend_inv_def index_claim_def decisions_inv_def decision_entry_ok_def operation_entry_ok_def
      operation_decisions_def tokens_inv_def token_entry_ok_def spend_maps_wf_def)

lemma spend_inv_new_claim:
  assumes inv: "spend_inv s" and fresh: "hm_get (executor_claims s) (cl_id r) = None"
    and t: "hm_get (claim_id_by_token s) (cl_spend_auth_token_id r) = None"
    and k: "hm_get (claim_id_by_operation s) (cl_agent_id r, cl_operation_key r) = None"
  shows "spend_inv (index_claim r (cl_spend_auth_token_id r) s)"
proof (rule claims_frame[OF inv])
  show "claims_inv (index_claim r (cl_spend_auth_token_id r) s)"
    using spend_invD(4)[OF inv] fresh t k
    by (fastforce simp: claims_inv_def claim_entry_ok_def index_claim_def)
qed

lemma spend_inv_update_claim:
  assumes inv: "spend_inv s" and c: "hm_get (executor_claims s) (cl_id r) = Some c" and same: "same_claim c r"
  shows "spend_inv (index_claim r (cl_spend_auth_token_id r) s)"
proof (rule claims_frame[OF inv])
  note known = claim_entry[OF inv c, unfolded claim_entry_ok_def]
  let ?s = "index_claim r (cl_spend_auth_token_id r) s"
  have maps: "claim_id_by_token ?s = claim_id_by_token s" "claim_id_by_operation ?s = claim_id_by_operation s"
    "executor_claims ?s = hm_insert (cl_id r) r (executor_claims s)"
    using known same by (simp_all add: index_claim_def same_claim_def hm_insert_triv)
  have "claim_entry_ok ?s i x" if "hm_get (executor_claims ?s) i = Some x" for i x
    using that claim_entry[OF inv, of i x] known same
    unfolding claim_entry_ok_def maps by (auto simp: same_claim_def split: if_splits)
  moreover have "\<exists>x. hm_get (executor_claims ?s) i = Some x \<and> cl_spend_auth_token_id x = u"
    if "hm_get (claim_id_by_token ?s) u = Some i" for u i
    using that token_claim[OF inv, of u i] c same unfolding maps by (auto simp: same_claim_def)
  moreover have "\<exists>x. hm_get (executor_claims ?s) i = Some x \<and> (cl_agent_id x, cl_operation_key x) = k"
    if "hm_get (claim_id_by_operation ?s) k = Some i" for k i
    using that operation_claim[OF inv, of k i] c same unfolding maps by (auto simp: same_claim_def)
  ultimately show "claims_inv ?s" unfolding claims_inv_def by blast
qed

section \<open>The operations keep the invariant\<close>

lemma validate_claim_cases:
  assumes inv: "spend_inv s"
    and run: "validate_auth_token_for_executor_claim now s auth key = Inr (v, existing)"
  shows "case existing of
      Some c \<Rightarrow> hm_get (executor_claims s) (cl_id c) = Some c \<and> cl_operation_key c = key
        \<and> cl_spend_auth_token_id c = pv_spend_auth_token_id auth
    | None \<Rightarrow> hm_get (claim_id_by_token s) (pv_spend_auth_token_id auth) = None
        \<and> hm_get (claim_id_by_operation s) (pv_agent_id auth, key) = None
        \<and> validate_auth_token_for_payment now s auth = Inr v"
proof (cases "executor_claim_for_operation s (pv_agent_id auth) key")
  case (Some c)
  with run have "existing = Some c" "cl_spend_auth_token_id c = pv_spend_auth_token_id auth"
    by (auto simp: validate_auth_token_for_executor_claim_def res_simps split: if_splits)
  with executor_claim_for_operation_Some[OF inv Some] show ?thesis by simp
next
  case None
  note op = operation_claim_None[OF inv None]
  show ?thesis
  proof (cases "hm_get (claim_id_by_token s) (pv_spend_auth_token_id auth)")
    case tok: None
    with None op run show ?thesis
      by (auto simp: validate_auth_token_for_executor_claim_def res_simps split: if_splits)
  next
    case (Some cid)
    with None run obtain c where c: "hm_get (executor_claims s) cid = Some c" "existing = Some c" "cl_operation_key c = key"
      by (auto simp: validate_auth_token_for_executor_claim_def res_simps split: if_splits)
    with claim_entry[OF inv c(1)] token_claim[OF inv Some] show ?thesis by (auto simp: claim_entry_ok_def)
  qed
qed

lemma claim_auth_token_inv:
  assumes inv: "spend_inv s" and fresh: "hm_get (executor_claims s) fid = None"
    and run: "claim_auth_token fid now request s = (res, s')"
  shows "spend_inv s'"
proof (cases "prepare_auth_token_claim fid now s request")
  case (Inl e)
  with run inv show ?thesis by (simp add: claim_auth_token_def)
next
  case (Inr p)
  then obtain claim v where p: "p = (claim, v)" by (cases p)
  with run Inr have s': "s' = index_claim claim (cl_spend_auth_token_id claim) s" by (simp add: claim_auth_token_def)
  from Inr p obtain existing where val: "validate_auth_token_for_executor_claim now s (cq_authorization request)
      (cq_operation_key request) = Inr (v, existing)"
    by (auto simp: prepare_auth_token_claim_def res_simps split: option.splits)
  show ?thesis
  proof (cases existing)
    case (Some c)
    with Inr p val have "claim = c" by (simp add: prepare_auth_token_claim_def)
    with validate_claim_cases[OF inv val] Some have "hm_get (executor_claims s) (cl_id claim) = Some claim" by simp
    with index_claim_known[OF inv] inv show ?thesis unfolding s' by simp
  next
    case None
    with Inr p val have "cl_id claim = fid"
      "cl_spend_auth_token_id claim = pv_spend_auth_token_id (cq_authorization request)"
      "cl_agent_id claim = pv_agent_id (cq_authorization request)" "cl_operation_key claim = cq_operation_key request"
      by (auto simp: prepare_auth_token_claim_def res_simps)
    with validate_claim_cases[OF inv val] None fresh spend_inv_new_claim[OF inv, of claim] show ?thesis
      by (simp add: s')
  qed
qed

lemma unknown_decision_no_token:
  assumes inv: "spend_inv s" and fresh: "hm_get (decisions s) d = None"
  shows "hm_get (token_id_by_decision s) d = None"
proof (rule ccontr)
  assume "hm_get (token_id_by_decision s) d \<noteq> None"
  then obtain t where "hm_get (token_id_by_decision s) d = Some t" by blast
  from decision_token[OF inv this] obtain x where "hm_get (tokens s) t = Some x" "tk_spend_decision_id x = d"
    by blast
  with token_entry[OF inv] fresh show False by (fastforce simp: token_entry_ok_def)
qed

lemma unknown_decision_not_listed:
  assumes inv: "spend_inv s" and fresh: "hm_get (decisions s) d = None"
  shows "d \<notin> set (operation_decisions s k)"
proof (cases "hm_get (decision_ids_by_operation s) k")
  case (Some ids)
  with operation_entry[OF inv Some] fresh show ?thesis by (auto simp: operation_decisions_def operation_entry_ok_def)
qed (simp add: operation_decisions_def)

lemma record_decision_inv:
  assumes inv: "spend_inv s" and fresh: "hm_get (decisions s) (ei_decision_id ei) = None"
    "hm_get (tokens s) (ei_token_id ei) = None"
    and run: "record_decision su ei user key request e ttl s = (resp, s')"
  shows "spend_inv s'"
proof -
  define r where "r =
    \<lparr>sd_id = ei_decision_id ei, sd_owner_user_id = user, sd_operation_key = key,
     sd_revision = se_revision resp,
     sd_actor = (case ei_revision_and_actor ei of Some (_, actor) \<Rightarrow> actor | None \<Rightarrow> su user),
     sd_request = request, sd_evaluation = e, sd_created_at = ei_created_at ei\<rparr>"
  let ?s1 = "s\<lparr>decision_ids_by_operation :=
           push_id (sr_agent_id (sd_request r), sd_operation_key r) (sd_id r) (decision_ids_by_operation s),
         decisions := hm_insert (sd_id r) r (decisions s)\<rparr>"
  have inv1: "spend_inv ?s1" using fresh by (intro spend_inv_new_decision[OF inv]) (simp add: r_def)
  have none: "hm_get (token_id_by_decision s) (ei_decision_id ei) = None"
    by (rule unknown_decision_no_token[OF inv fresh(1)])
  show ?thesis
  proof (cases "ev_decision e = Allow")
    case False
    with run have "s' = ?s1" by (auto simp: record_decision_def Let_def r_def)
    with inv1 show ?thesis by simp
  next
    case True
    with run have s': "s' = ?s1\<lparr>token_id_by_decision := hm_insert (sd_id r) (ei_token_id ei) (token_id_by_decision ?s1),
        tokens := hm_insert (ei_token_id ei) (token_at (ei_token_id ei) user (sd_id r)
          (add_seconds (ei_token_now ei) (authorization_ttl_seconds (sm_lease_config s))) ttl) (tokens ?s1)\<rparr>"
      by (auto simp: record_decision_def Let_def r_def)
    show ?thesis
      unfolding s' using none fresh(2) True
      by (intro spend_inv_new_token[OF inv1, of _ r]) (simp_all add: r_def)
  qed
qed

lemma evaluate_spend_inv:
  assumes inv: "spend_inv s" and fresh: "hm_get (decisions s) (ei_decision_id ei) = None"
    "hm_get (tokens s) (ei_token_id ei) = None"
    and run: "evaluate_spend_with_revision sha sa su ei user key request p s = Some (res, s')"
  shows "spend_inv s'"
  using run inv record_decision_inv[OF inv fresh]
  by (auto simp: evaluate_spend_with_revision_def Let_def split: if_splits option.splits sum.splits prod.splits)

lemma issue_auth_token_inv:
  assumes inv: "spend_inv s" and fresh: "hm_get (tokens s) fid = None"
    and run: "issue_auth_token_for_approved_decision fid now d s = (res, s')"
  shows "spend_inv s'"
  using run inv spend_inv_new_token[OF inv _ _ _ fresh]
  by (auto simp: issue_auth_token_for_approved_decision_def Let_def split: option.splits if_splits)

lemma mark_used_inv:
  assumes inv: "spend_inv s" and run: "mark_auth_token_used now tid payment s = (res, s')"
  shows "spend_inv s'"
  using run inv spend_inv_replace_token[OF inv]
  by (auto simp: mark_auth_token_used_def same_token_def split: if_splits option.splits)

end
