(* ===== verification/Spend_Theorems.thy ===== *)
theory Spend_Theorems
  imports Spend_Machine Machines
begin

text \<open>
  The state machine of the spend manager and its theorems: authorizations are sound and single-use,
  evaluation is total and idempotent under replay, an unpersisted decision can be taken back exactly,
  and executor claims are exclusive.
\<close>

section \<open>Steps\<close>

definition spent :: "spend_auth_token_record \<Rightarrow> bool" where
  "spent t \<longleftrightarrow> tk_used_at t \<noteq> None \<or> tk_revoked_at t \<noteq> None"

text \<open>The token of a decision, if it has one, is still untouched: what holds when the code discards it
  (right after it was issued, when persisting it failed).\<close>

definition token_untouched :: "spend_manager \<Rightarrow> spend_decision_id \<Rightarrow> bool" where
  "token_untouched s d \<longleftrightarrow>
     (\<forall>tid t. hm_get (token_id_by_decision s) d = Some tid \<and> hm_get (tokens s) tid = Some t
        \<longrightarrow> \<not> spent t \<and> hm_get (claim_id_by_token s) tid = None)"

inductive spend_step ::
  "(string \<Rightarrow> string) \<Rightarrow> (agent_id \<Rightarrow> string) \<Rightarrow> (user_id \<Rightarrow> string) \<Rightarrow> spend_manager \<Rightarrow> spend_manager \<Rightarrow> bool"
  for sha256 show_agent show_user where
  spend_evaluate:
    "hm_get (decisions s) (ei_decision_id ei) = None \<Longrightarrow> hm_get (tokens s) (ei_token_id ei) = None \<Longrightarrow>
     evaluate_spend_with_revision sha256 show_agent show_user ei user key request p s = Some (res, s') \<Longrightarrow>
     spend_step sha256 show_agent show_user s s'"
| spend_issue:
    "hm_get (tokens s) fid = None \<Longrightarrow> issue_auth_token_for_approved_decision fid now d s = (res1, s') \<Longrightarrow>
     spend_step sha256 show_agent show_user s s'"
| spend_discard_token:
    "token_untouched s d \<Longrightarrow> s' = discard_auth_token_for_decision d s \<Longrightarrow>
     spend_step sha256 show_agent show_user s s'"
| spend_discard_decision:
    "token_untouched s d \<Longrightarrow> s' = discard_unpersisted_decision d s \<Longrightarrow>
     spend_step sha256 show_agent show_user s s'"
| spend_claim:
    "hm_get (executor_claims s) fcid = None \<Longrightarrow> claim_auth_token fcid now claim_request s = (res2, s') \<Longrightarrow>
     spend_step sha256 show_agent show_user s s'"
| spend_use:
    "mark_auth_token_used now tid payment s = (res3, s') \<Longrightarrow> spend_step sha256 show_agent show_user s s'"
| spend_finalize:
    "hm_get (executor_claims s) (cl_id c) = Some c0 \<Longrightarrow> same_claim c0 c \<Longrightarrow>
     hm_get (tokens s) (tk_id t) = Some t0 \<Longrightarrow> same_token t0 t \<Longrightarrow> tk_id t = cl_spend_auth_token_id c \<Longrightarrow>
     spent t \<Longrightarrow> tk_used_at t0 \<noteq> None \<longrightarrow> tk_used_at t \<noteq> None \<Longrightarrow>
     s' = apply_persisted_executor_finalization c t s \<Longrightarrow>
     spend_step sha256 show_agent show_user s s'"
| spend_void:
    "hm_get (tokens s) (tk_id t) = Some t0 \<Longrightarrow> same_token t0 t \<Longrightarrow> spent t \<Longrightarrow>
     tk_used_at t0 \<noteq> None \<longrightarrow> tk_used_at t \<noteq> None \<Longrightarrow>
     s' = apply_persisted_authorization_void t s \<Longrightarrow> spend_step sha256 show_agent show_user s s'"

text \<open>The manager starts empty, or loaded from coherent records.\<close>

inductive spend_reachable ::
  "(string \<Rightarrow> string) \<Rightarrow> (agent_id \<Rightarrow> string) \<Rightarrow> (user_id \<Rightarrow> string) \<Rightarrow> spend_manager \<Rightarrow> bool"
  for sha256 show_agent show_user where
  spend_reach_new: "spend_reachable sha256 show_agent show_user (spend_manager_new\<lparr>sm_lease_config := cfg\<rparr>)"
| spend_reach_loaded:
    "spend_inv (from_records_with_claims ds ts cs cfg) \<Longrightarrow>
     spend_reachable sha256 show_agent show_user (from_records_with_claims ds ts cs cfg)"
| spend_reach_step:
    "spend_reachable sha256 show_agent show_user s \<Longrightarrow> spend_step sha256 show_agent show_user s s' \<Longrightarrow>
     spend_reachable sha256 show_agent show_user s'"

lemma finalization_eq:
  "tk_id t = cl_spend_auth_token_id c \<Longrightarrow>
   apply_persisted_executor_finalization c t s =
     index_claim c (cl_spend_auth_token_id c) (s\<lparr>tokens := hm_insert (tk_id t) t (tokens s)\<rparr>)"
  by (simp add: apply_persisted_executor_finalization_def index_claim_def Let_def)

lemma spend_step_inv:
  "spend_step sha256 sa su s s' \<Longrightarrow> spend_inv s \<Longrightarrow> spend_inv s'"
proof (induction rule: spend_step.induct)
  case (spend_finalize s c c0 t t0 s')
  then have "spend_inv (s\<lparr>tokens := hm_insert (tk_id t) t (tokens s)\<rparr>)"
    using spend_inv_replace_token by blast
  from spend_inv_update_claim[OF this, of c c0] spend_finalize show ?case by (simp add: finalization_eq)
next
  case (spend_void s t t0 s')
  then show ?case using spend_inv_replace_token by (simp add: apply_persisted_authorization_void_def)
qed (blast intro: evaluate_spend_inv issue_auth_token_inv spend_inv_discard_token spend_inv_discard_decision
      claim_auth_token_inv mark_used_inv)+

interpretation spend: machine "spend_step sha256 sa su" spend_inv for sha256 sa su
  by unfold_locales (rule spend_step_inv)

lemma spend_reachable_inv: "spend_reachable sha256 sa su s \<Longrightarrow> spend_inv s"
  by (induction rule: spend_reachable.induct) (auto intro: spend_inv_new spend_step_inv)

section \<open>Tokens that are spent stay spent\<close>

lemma record_decision_tokens:
  assumes "record_decision su ei user key request e ttl s = (resp, s')"
  shows "claim_id_by_token s' = claim_id_by_token s"
    and "hm_get (tokens s) (ei_token_id ei) = None \<Longrightarrow> hm_get (tokens s) tid = Some t \<Longrightarrow> hm_get (tokens s') tid = Some t"
  using assms by (auto simp: record_decision_def Let_def split: if_splits)

lemma evaluate_spend_tokens:
  assumes "evaluate_spend_with_revision sha sa su ei user key request p s = Some (res, s')"
  shows "claim_id_by_token s' = claim_id_by_token s"
    and "hm_get (tokens s) (ei_token_id ei) = None \<Longrightarrow> hm_get (tokens s) tid = Some t \<Longrightarrow> hm_get (tokens s') tid = Some t"
  using assms record_decision_tokens
  by (fastforce simp: evaluate_spend_with_revision_def Let_def
      split: if_splits option.splits sum.splits prod.splits)+

lemma discard_token_tokens:
  assumes inv: "spend_inv s" and u: "token_untouched s d" and t: "hm_get (tokens s) tid = Some t" "spent t"
  shows "hm_get (tokens (discard_auth_token_for_decision d s)) tid = Some t"
proof (cases "hm_get (token_id_by_decision s) d")
  case (Some i)
  have wf: "hm_wf (tokens s)" using spend_invD(1)[OF inv] by (simp add: spend_maps_wf_def)
  have "tid \<noteq> i" using u t Some by (auto simp: token_untouched_def)
  with Some t wf show ?thesis by (simp add: discard_auth_token_for_decision_def hm_get_remove)
qed (use t in \<open>simp add: discard_auth_token_for_decision_def\<close>)

lemma discard_frame:
  "tokens (discard_unpersisted_decision d s) = tokens (discard_auth_token_for_decision d s)"
  "claim_id_by_token (discard_unpersisted_decision d s) = claim_id_by_token s"
  "claim_id_by_token (discard_auth_token_for_decision d s) = claim_id_by_token s"
  by (simp_all add: discard_unpersisted_decision_eq discard_auth_token_for_decision_def Let_def split: option.splits)

lemma claim_auth_token_tokens: "claim_auth_token fid now request s = (res, s') \<Longrightarrow> tokens s' = tokens s"
  by (auto simp: claim_auth_token_def index_claim_def split: sum.splits prod.splits)

lemma spent_stays:
  assumes "spend_step sha256 sa su s s'" and inv: "spend_inv s" and t: "hm_get (tokens s) tid = Some t" "spent t"
  shows "\<exists>t'. hm_get (tokens s') tid = Some t' \<and> spent t' \<and> (tk_used_at t \<noteq> None \<longrightarrow> tk_used_at t' \<noteq> None)"
  using assms(1)
proof (cases rule: spend_step.cases)
  case (spend_evaluate ei user key request p res)
  then show ?thesis using evaluate_spend_tokens(2) t by blast
next
  case (spend_issue fid now d res1)
  then show ?thesis using t
    by (auto simp: issue_auth_token_for_approved_decision_def Let_def split: option.splits if_splits)
next
  case (spend_discard_token d)
  then show ?thesis using discard_token_tokens[OF inv _ t] t by simp
next
  case (spend_discard_decision d)
  then show ?thesis using discard_token_tokens[OF inv _ t] t by (simp add: discard_frame)
next
  case (spend_claim fcid now claim_request res2)
  then show ?thesis using claim_auth_token_tokens t by fastforce
next
  case (spend_use now i payment res3)
  then show ?thesis using t
    by (auto simp: mark_auth_token_used_def spent_def split: if_splits option.splits)
next
  case (spend_finalize c c0 r r0)
  then show ?thesis using t by (auto simp: apply_persisted_executor_finalization_def index_claim_def Let_def)
next
  case (spend_void r r0)
  then show ?thesis using t by (auto simp: apply_persisted_authorization_void_def)
qed

lemma claimed_stays:
  assumes "spend_step sha256 sa su s s'" and inv: "spend_inv s" and c: "hm_contains (claim_id_by_token s) tid"
  shows "hm_contains (claim_id_by_token s') tid"
  using assms(1)
proof (cases rule: spend_step.cases)
  case (spend_evaluate ei user key request p res)
  then show ?thesis using evaluate_spend_tokens(1) c by metis
next
  case (spend_issue fid now d res1)
  then show ?thesis using c
    by (auto simp: issue_auth_token_for_approved_decision_def Let_def split: option.splits if_splits)
next
  case (spend_claim fcid now claim_request res2)
  then show ?thesis using c
    by (auto simp: claim_auth_token_def index_claim_def split: sum.splits prod.splits)
next
  case (spend_use now i payment res3)
  then show ?thesis using c by (auto simp: mark_auth_token_used_def split: if_splits option.splits)
qed (use c in \<open>auto simp: discard_frame apply_persisted_executor_finalization_def index_claim_def Let_def
      apply_persisted_authorization_void_def\<close>)

text \<open>A token is closed for payments once it is used, revoked or claimed.\<close>

definition closed_for_payment :: "spend_manager \<Rightarrow> spend_auth_token_id \<Rightarrow> bool" where
  "closed_for_payment s tid \<longleftrightarrow>
     is_some_and spent (auth_token_record s tid) \<or> hm_contains (claim_id_by_token s) tid"

lemma closed_stays:
  assumes "(spend_step sha256 sa su)\<^sup>*\<^sup>* s s'" and "spend_inv s" and "closed_for_payment s tid"
  shows "closed_for_payment s' tid"
proof (rule spend.steps_stable[OF assms(1,2), where P = "\<lambda>s. closed_for_payment s tid"])
  fix x y
  assume step: "spend_step sha256 sa su x y" and "spend_inv x" "closed_for_payment x tid"
  then show "closed_for_payment y tid"
    using spent_stays[OF step] claimed_stays[OF step]
    by (fastforce simp: closed_for_payment_def is_some_and_iff auth_token_record_def)
qed (rule assms(3))

lemma used_stays:
  assumes "(spend_step sha256 sa su)\<^sup>*\<^sup>* s s'" and "spend_inv s"
    and "hm_get (tokens s) tid = Some t" and "tk_used_at t \<noteq> None"
  shows "\<exists>t'. hm_get (tokens s') tid = Some t' \<and> tk_used_at t' \<noteq> None"
proof (rule spend.steps_stable[OF assms(1,2), where P = "\<lambda>s. \<exists>t. hm_get (tokens s) tid = Some t \<and> tk_used_at t \<noteq> None"])
  fix x y
  assume step: "spend_step sha256 sa su x y" and inv: "spend_inv x"
    and "\<exists>t. hm_get (tokens x) tid = Some t \<and> tk_used_at t \<noteq> None"
  then obtain r where r: "hm_get (tokens x) tid = Some r" "tk_used_at r \<noteq> None" by blast
  then have "spent r" by (simp add: spent_def)
  with spent_stays[OF step inv r(1)] r(2) show "\<exists>t. hm_get (tokens y) tid = Some t \<and> tk_used_at t \<noteq> None"
    by blast
qed (use assms(3,4) in blast)

lemma validate_payment_success:
  assumes "validate_auth_token_for_payment now s request = Inr a"
  obtains t d where "hm_get (tokens s) (pv_spend_auth_token_id request) = Some t" "\<not> spent t"
    "hm_get (claim_id_by_token s) (pv_spend_auth_token_id request) = None" "now < tk_expires_at t"
    "hm_get (decisions s) (tk_spend_decision_id t) = Some d" "decision_permits s d t"
    "pv_owner_user_id request = sd_owner_user_id d"
    "payment_matches_authorized_spend request (sd_request d)" "a = authorization_of t"
  using assms
  by (auto simp: validate_auth_token_for_payment_def spent_def hm_contains_def
      split: option.splits if_splits)

section \<open>Authorizations\<close>

text \<open>
  C27: a payment is accepted only under a live authorization. If validation succeeds in a reachable
  state then the token is known, unused, unrevoked, unclaimed and unexpired; its decision was allowed
  by policy or, needing approval, was approved; and the payment is the very spend that was decided:
  same owner, agent, account, amount, currency, merchant, task and execution scope (a spend decided for a merchant
  and without a scope is the one exception, whose payment may name any).
\<close>

theorem payment_authorization_sound:
  assumes "spend_reachable sha256 show_agent show_user s"
    and "validate_auth_token_for_payment now s request = Inr a"
  shows "\<exists>t d. auth_token_record s (pv_spend_auth_token_id request) = Some t
    \<and> decision_record s (va_spend_decision_id a) = Some d
    \<and> tk_used_at t = None \<and> tk_revoked_at t = None \<and> now < tk_expires_at t
    \<and> \<not> hm_contains (claim_id_by_token s) (pv_spend_auth_token_id request)
    \<and> ev_decision (sd_evaluation d) \<noteq> Deny
    \<and> hm_get (token_id_by_decision s) (sd_id d) = Some (pv_spend_auth_token_id request)
    \<and> pv_owner_user_id request = sd_owner_user_id d \<and> pv_agent_id request = sr_agent_id (sd_request d)
    \<and> pv_agent_account_id request = sr_agent_account_id (sd_request d)
    \<and> pv_amount request = sr_amount (sd_request d) \<and> pv_currency request = sr_currency (sd_request d)
    \<and> pv_merchant request = sr_merchant (sd_request d) \<and> pv_task_id request = sr_task_id (sd_request d)
    \<and> (pv_execution_scope request = sr_execution_scope (sd_request d)
         \<or> sr_execution_scope (sd_request d) = None \<and> sr_merchant (sd_request d) \<noteq> None)"
proof -
  have inv: "spend_inv s" by (rule spend_reachable_inv[OF assms(1)])
  from assms(2) obtain t d where v: "hm_get (tokens s) (pv_spend_auth_token_id request) = Some t" "\<not> spent t"
    "hm_get (claim_id_by_token s) (pv_spend_auth_token_id request) = None" "now < tk_expires_at t"
    "hm_get (decisions s) (tk_spend_decision_id t) = Some d"
    "pv_owner_user_id request = sd_owner_user_id d"
    "payment_matches_authorized_spend request (sd_request d)" "a = authorization_of t"
    by (elim validate_payment_success)
  from token_entry[OF inv v(1)] v decision_entry[OF inv v(5)] show ?thesis
    by (auto simp: auth_token_record_def decision_record_def spent_def hm_contains_def token_entry_ok_def
        decision_entry_ok_def authorization_of_def payment_matches_authorized_spend_def Let_def)
qed

definition example_inputs_spend :: evaluation_inputs where
  "example_inputs_spend = \<lparr>ei_decision_id = SpendDecisionId 1, ei_token_id = SpendAuthTokenId 2,
     ei_created_at = 10, ei_token_now = 11, ei_revision_and_actor = None\<rparr>"

definition allow_policy :: policy where
  "allow_policy = \<lparr>policy_id = ''p'', policy_version = ''1'', policy_owner_user_id = UserId 1,
     policy_rules = [], default_effect = Allow\<rparr>"

definition example_evaluation ::
  "((spend_error + spend_evaluation_response) \<times> spend_manager) option" where
  "example_evaluation = evaluate_spend_with_revision (\<lambda>_. ''00'') (\<lambda>_. ''a'') (\<lambda>_. ''u'')
     example_inputs_spend (UserId 1) '' op-1 '' example_request allow_policy spend_manager_new"

definition example_spend_state :: spend_manager where
  "example_spend_state = snd (the example_evaluation)"

definition example_payment :: spend_payment_validation_request where
  "example_payment = \<lparr>pv_spend_auth_token_id = SpendAuthTokenId 2, pv_owner_user_id = UserId 1,
     pv_agent_id = AgentId 7, pv_agent_account_id = AgentAccountId 2, pv_amount = Amount 5000,
     pv_currency = Usd, pv_merchant = Some ''m'', pv_execution_scope = None, pv_task_id = Some ''t''\<rparr>"

lemma example_evaluation_run:
  "evaluate_spend_with_revision (\<lambda>_. ''00'') (\<lambda>_. ''a'') (\<lambda>_. ''u'') example_inputs_spend (UserId 1)
     '' op-1 '' example_request allow_policy spend_manager_new
   = Some (fst (the example_evaluation), example_spend_state)"
proof -
  have "example_evaluation = Some (the example_evaluation)" by code_simp
  then show ?thesis by (simp add: example_evaluation_def example_spend_state_def)
qed

lemma spend_new_reachable: "spend_reachable sha sa su spend_manager_new"
  using spend_reach_new[of sha sa su "sm_lease_config spend_manager_new"] by simp

lemma example_spend_reachable:
  "spend_reachable (\<lambda>_. ''00'') (\<lambda>_. ''a'') (\<lambda>_. ''u'') example_spend_state"
proof (rule spend_reach_step[OF spend_new_reachable], rule spend_evaluate[OF _ _ example_evaluation_run])
  show "hm_get (decisions spend_manager_new) (ei_decision_id example_inputs_spend) = None"
    "hm_get (tokens spend_manager_new) (ei_token_id example_inputs_spend) = None" by code_simp+
qed

lemma example_payment_valid:
  "validate_auth_token_for_payment 20 example_spend_state example_payment
   = Inr (projr (validate_auth_token_for_payment 20 example_spend_state example_payment))"
  by code_simp

theorem payment_authorization_sound_witness:
  "\<exists>t. auth_token_record example_spend_state (SpendAuthTokenId 2) = Some t \<and> 20 < tk_expires_at t"
  using payment_authorization_sound[OF example_spend_reachable example_payment_valid]
  by (auto simp: example_payment_def)

text \<open>
  C8: an authorization is spent at most once. After a payment has used a token, no later state of the
  manager, whatever happens in between, accepts the token for another payment, marks it used again or
  lets a new executor claim start on it.
\<close>

theorem token_single_use:
  assumes "spend_reachable sha256 show_agent show_user s"
    and "mark_auth_token_used now tid payment s = (Inr (), s1)"
    and "(spend_step sha256 show_agent show_user)\<^sup>*\<^sup>* s1 s2"
    and "pv_spend_auth_token_id request = tid"
  shows "(\<exists>e. validate_auth_token_for_payment later s2 request = Inl e)
    \<and> (\<exists>e. mark_auth_token_used later tid payment' s2 = (Inl e, s2))
    \<and> (\<forall>v. validate_auth_token_for_executor_claim later s2 request key \<noteq> Inr (v, None))"
proof -
  have inv: "spend_inv s" by (rule spend_reachable_inv[OF assms(1)])
  have inv1: "spend_inv s1" by (rule mark_used_inv[OF inv assms(2)])
  obtain t where "hm_get (tokens s1) tid = Some t" "tk_used_at t \<noteq> None"
    using assms(2) by (auto simp: mark_auth_token_used_def split: if_splits option.splits)
  with used_stays[OF assms(3) inv1] obtain t' where t': "hm_get (tokens s2) tid = Some t'" "tk_used_at t' \<noteq> None"
    by blast
  have inv2: "spend_inv s2"
    by (rule spend.steps_inv[OF assms(3) inv1])
  have refuse: "\<exists>e. validate_auth_token_for_payment later s2 request = Inl e"
    using t' assms(4) by (simp add: validate_auth_token_for_payment_def)
  moreover have "\<exists>e. mark_auth_token_used later tid payment' s2 = (Inl e, s2)"
    using t' by (simp add: mark_auth_token_used_def)
  moreover have "validate_auth_token_for_executor_claim later s2 request key \<noteq> Inr (v, None)" for v
    using validate_claim_cases[OF inv2, of later request key v None] refuse by auto
  ultimately show ?thesis by blast
qed

theorem token_single_use_witness:
  "\<exists>e. validate_auth_token_for_payment 30
     (snd (mark_auth_token_used 21 (SpendAuthTokenId 2) (PaymentId 5) example_spend_state)) example_payment = Inl e"
proof -
  let ?run = "mark_auth_token_used 21 (SpendAuthTokenId 2) (PaymentId 5) example_spend_state"
  have run: "?run = (Inr (), snd ?run)" by code_simp
  have id: "pv_spend_auth_token_id example_payment = SpendAuthTokenId 2" by code_simp
  from token_single_use[OF example_spend_reachable run rtranclp.rtrancl_refl id] show ?thesis by blast
qed

section \<open>Evaluation\<close>

lemma evaluate_policy_total: "\<exists>r. evaluate_policy sa request p = Some r"
proof (cases "validate_policy p")
  case (Inr u)
  then show ?thesis using evaluate_policy_valid[of p sa request] by auto
qed (simp add: evaluate_policy_def)

lemma evaluate_spend_success:
  assumes "evaluate_spend_with_revision sha sa su ei user key request p s = Some (Inr resp, s')"
  shows "trim key \<noteq> []" and "sr_owner_user_id request = user"
    and "(\<exists>d r. find (is_replay_of sha s request) (operation_decisions s (sr_agent_id request, trim key)) = Some d
            \<and> hm_get (decisions s) d = Some r \<and> replay_equivalent sha (sd_request r) request
            \<and> resp = replay_response s d r \<and> s' = s)
      \<or> (find (is_replay_of sha s request) (operation_decisions s (sr_agent_id request, trim key)) = None
            \<and> (\<exists>e ttl. record_decision su ei user (trim key) request e ttl s = (resp, s')))"
  using assms
  by (auto simp: evaluate_spend_with_revision_def Let_def split: if_splits option.splits sum.splits prod.splits)

lemma record_decision_state:
  assumes run: "record_decision su ei user key request e ttl s = (resp, s')"
    and inv: "spend_inv s" and fresh: "hm_get (decisions s) (ei_decision_id ei) = None"
      "hm_get (tokens s) (ei_token_id ei) = None"
  obtains r where "hm_get (decisions s') (ei_decision_id ei) = Some r" "sd_request r = request"
    "sd_operation_key r = key" "resp\<lparr>se_idempotent_replay := True\<rparr> = replay_response s' (ei_decision_id ei) r"
    "operation_decisions s' (sr_agent_id request, key)
       = operation_decisions s (sr_agent_id request, key) @ [ei_decision_id ei]"
    "\<forall>i. i \<noteq> ei_decision_id ei \<longrightarrow> hm_get (decisions s') i = hm_get (decisions s) i"
    "\<not> se_idempotent_replay resp" "se_decision_id resp = ei_decision_id ei"
proof -
  note none = unknown_decision_no_token[OF inv fresh(1)]
  let ?r = "\<lparr>sd_id = ei_decision_id ei, sd_owner_user_id = user, sd_operation_key = key,
     sd_revision = se_revision resp,
     sd_actor = (case ei_revision_and_actor ei of Some (_, actor) \<Rightarrow> actor | None \<Rightarrow> su user),
     sd_request = request, sd_evaluation = e, sd_created_at = ei_created_at ei\<rparr>"
  show thesis
  proof (rule that[of ?r])
    show "hm_get (decisions s') (ei_decision_id ei) = Some ?r"
      using run by (auto simp: record_decision_def Let_def)
    show "resp\<lparr>se_idempotent_replay := True\<rparr> = replay_response s' (ei_decision_id ei) ?r"
      using run none by (auto simp: record_decision_def Let_def replay_response_def token_at_def)
    show "operation_decisions s' (sr_agent_id request, key)
       = operation_decisions s (sr_agent_id request, key) @ [ei_decision_id ei]"
      using run by (auto simp: record_decision_def Let_def operation_decisions_def push_id_def)
  qed (use run in \<open>auto simp: record_decision_def Let_def\<close>)
qed

lemma find_snoc: "find P xs = None \<Longrightarrow> find P (xs @ [x]) = (if P x then Some x else None)"
  by (induction xs) (auto split: if_splits)

lemma is_replay_self: "hm_get (decisions s) d = Some r \<Longrightarrow> sd_request r = request \<Longrightarrow> is_replay_of sha s request d"
  by (simp add: is_replay_of_def replay_equivalent_def)



lemma drop_pushed_id:
  assumes inv: "spend_inv s" and fresh: "hm_get (decisions s) d = None"
  shows "drop_operation_id k d (push_id k d (decision_ids_by_operation s)) = decision_ids_by_operation s"
proof (cases "hm_get (decision_ids_by_operation s) k")
  case None
  then show ?thesis by (simp add: drop_operation_id_def push_id_def hm_remove_insert_new)
next
  case (Some ids)
  have "filter (\<lambda>i. i \<noteq> d) ids = ids" "ids \<noteq> []"
    using operation_entry[OF inv Some] fresh by (auto simp: operation_entry_ok_def filter_id_conv)
  with Some show ?thesis by (simp add: drop_operation_id_def push_id_def hm_insert_back)
qed

lemma discard_recorded_decision:
  assumes inv: "spend_inv s" and fresh: "hm_get (decisions s) (ei_decision_id ei) = None"
      "hm_get (tokens s) (ei_token_id ei) = None"
    and run: "record_decision su ei user key request e ttl s = (resp, s')"
  shows "discard_unpersisted_decision (ei_decision_id ei) s' = s"
proof -
  note none = unknown_decision_no_token[OF inv fresh(1)]
  note undo = hm_remove_insert_new[OF none] hm_remove_insert_new[OF fresh(1)] hm_remove_insert_new[OF fresh(2)]
    drop_pushed_id[OF inv fresh(1)]
  show ?thesis
  proof (cases "ev_decision e = Allow")
    case True
    with run show ?thesis
      by (auto simp: record_decision_def Let_def discard_unpersisted_decision_eq
          discard_auth_token_for_decision_def undo)
  next
    case False
    with run none show ?thesis
      by (auto simp: record_decision_def Let_def discard_unpersisted_decision_eq
          discard_auth_token_for_decision_def undo)
  qed
qed

text \<open>
  A decision that could not be persisted is taken back without a trace: discarding the decision a
  fresh evaluation recorded restores the whole manager, the token and every index included.
\<close>

theorem discard_restores_state:
  assumes "spend_reachable sha256 show_agent show_user s"
    and "hm_get (decisions s) (ei_decision_id ei) = None" and "hm_get (tokens s) (ei_token_id ei) = None"
    and "evaluate_spend_with_revision sha256 show_agent show_user ei user key request p s = Some (Inr resp, s')"
    and "\<not> se_idempotent_replay resp"
  shows "discard_unpersisted_decision (se_decision_id resp) s' = s"
proof -
  have inv: "spend_inv s" by (rule spend_reachable_inv[OF assms(1)])
  from evaluate_spend_success(3)[OF assms(4)] assms(5) obtain e ttl where
    rec: "record_decision show_user ei user (trim key) request e ttl s = (resp, s')"
    by (auto simp: replay_response_def)
  have "se_decision_id resp = ei_decision_id ei"
    using record_decision_state[OF rec inv assms(2,3)] by metis
  with discard_recorded_decision[OF inv assms(2,3) rec] show ?thesis by simp
qed

theorem discard_restores_state_witness:
  "discard_unpersisted_decision (SpendDecisionId 1) example_spend_state = spend_manager_new"
proof -
  have f: "hm_get (decisions spend_manager_new) (ei_decision_id example_inputs_spend) = None"
    "hm_get (tokens spend_manager_new) (ei_token_id example_inputs_spend) = None" by code_simp+
  have r: "fst (the example_evaluation) = Inr (projr (fst (the example_evaluation)))"
    "\<not> se_idempotent_replay (projr (fst (the example_evaluation)))"
    "se_decision_id (projr (fst (the example_evaluation))) = SpendDecisionId 1" by code_simp+
  have "evaluate_spend_with_revision (\<lambda>_. ''00'') (\<lambda>_. ''a'') (\<lambda>_. ''u'') example_inputs_spend (UserId 1)
      '' op-1 '' example_request allow_policy spend_manager_new
    = Some (Inr (projr (fst (the example_evaluation))), example_spend_state)"
    using example_evaluation_run by (subst (asm) r(1))
  from discard_restores_state[OF spend_new_reachable f this r(2)] r(3) show ?thesis by simp
qed

section \<open>Executor claims\<close>

lemma new_claim_facts:
  assumes inv: "spend_inv s" and fresh: "hm_get (executor_claims s) fid = None"
    and run: "claim_auth_token fid now request s = (Inr (c, v), s')" and new: "cl_id c = fid"
  shows "s' = index_claim c (cl_spend_auth_token_id c) s"
    and "cl_spend_auth_token_id c = pv_spend_auth_token_id (cq_authorization request)"
    and "cl_agent_id c = pv_agent_id (cq_authorization request)" and "cl_operation_key c = cq_operation_key request"
    and "validate_auth_token_for_payment now s (cq_authorization request) = Inr v"
proof -
  from run have prep: "prepare_auth_token_claim fid now s request = Inr (c, v)"
    and s': "s' = index_claim c (cl_spend_auth_token_id c) s"
    by (auto simp: claim_auth_token_def split: sum.splits prod.splits)
  show "s' = index_claim c (cl_spend_auth_token_id c) s" by (rule s')
  from prep obtain existing where val: "validate_auth_token_for_executor_claim now s (cq_authorization request)
      (cq_operation_key request) = Inr (v, existing)"
    by (auto simp: prepare_auth_token_claim_def res_simps split: option.splits)
  have "existing = None"
  proof (rule ccontr)
    assume "existing \<noteq> None"
    with prep val have "existing = Some c" by (auto simp: prepare_auth_token_claim_def)
    with validate_claim_cases[OF inv val] fresh new show False by simp
  qed
  with prep val validate_claim_cases[OF inv val]
  show "cl_spend_auth_token_id c = pv_spend_auth_token_id (cq_authorization request)"
    "cl_agent_id c = pv_agent_id (cq_authorization request)" "cl_operation_key c = cq_operation_key request"
    "validate_auth_token_for_payment now s (cq_authorization request) = Inr v"
    by (auto simp: prepare_auth_token_claim_def res_simps)
qed

lemma scope_of_valid_payment:
  assumes "validate_auth_token_for_payment now s request = Inr v"
  shows "validate_authorization_scope (index_claim c t s) request True = Inr v"
  using assms
  by (elim validate_payment_success)
    (simp add: validate_authorization_scope_def index_claim_def decision_permits_def)

text \<open>A request that passes the scope check is for the spend of the token's decision.\<close>

lemma scope_success:
  assumes "validate_authorization_scope s request finalized = Inr v"
  obtains t d where "hm_get (tokens s) (pv_spend_auth_token_id request) = Some t"
    and "hm_get (decisions s) (tk_spend_decision_id t) = Some d" and "pv_owner_user_id request = sd_owner_user_id d"
    and "payment_matches_authorized_spend request (sd_request d)" and "v = authorization_of t"
  using assms by (auto simp: validate_authorization_scope_def split: option.splits if_splits)

lemma executor_validation_scope:
  assumes "validate_auth_token_for_executor_claim now s request key = Inr (v, Some c)"
  shows "validate_authorization_scope s request True = Inr v"
  using assms
  by (auto simp: validate_auth_token_for_executor_claim_def res_simps split: option.splits if_splits)

lemma same_scope_same_spend:
  assumes "validate_authorization_scope s p True = Inr v" and "validate_authorization_scope s q True = Inr w"
    and "pv_spend_auth_token_id q = pv_spend_auth_token_id p"
  shows "w = v \<and> pv_owner_user_id q = pv_owner_user_id p \<and> pv_agent_id q = pv_agent_id p
    \<and> pv_agent_account_id q = pv_agent_account_id p \<and> pv_amount q = pv_amount p \<and> pv_currency q = pv_currency p
    \<and> pv_merchant q = pv_merchant p \<and> pv_task_id q = pv_task_id p
    \<and> (\<exists>d. decision_record s (va_spend_decision_id v) = Some d
         \<and> (pv_execution_scope q = sr_execution_scope (sd_request d)
            \<or> sr_execution_scope (sd_request d) = None \<and> sr_merchant (sd_request d) \<noteq> None))"
  using assms
  by (elim scope_success) (auto simp: payment_matches_authorized_spend_def Let_def decision_record_def authorization_of_def)

text \<open>
  C36: an executor claim binds its token to one operation of one spend. Repeating the claim request, at whatever
  time, answers the same claim and changes nothing; while the claim stands the token is refused for
  payments and cannot be marked used by a payment; and any request to claim it that is accepted carries the same operation
  key, owner, agent, account, amount, currency, merchant and task as the first one and the scope that was
  decided, and is answered with the claim that stands. Every other one is refused.
\<close>

theorem executor_claim_exclusive:
  assumes "spend_reachable sha256 show_agent show_user s" and "hm_get (executor_claims s) fid = None"
    and "claim_auth_token fid now request s = (Inr (c, v), s')" and "cl_id c = fid"
    and "pv_spend_auth_token_id other = pv_spend_auth_token_id (cq_authorization request)"
  shows "claim_auth_token fid' later request s' = (Inr (c, v), s')
    \<and> (\<exists>e. validate_auth_token_for_payment later s' other = Inl e)
    \<and> mark_auth_token_used later (pv_spend_auth_token_id other) payment s' = (Inl SpendAuthTokenAlreadyClaimed, s')
    \<and> (case validate_auth_token_for_executor_claim later s' other key' of
         Inl e \<Rightarrow> True
       | Inr (a, existing) \<Rightarrow>
           key' = cq_operation_key request \<and> existing = Some c \<and> a = v
           \<and> pv_owner_user_id other = pv_owner_user_id (cq_authorization request)
           \<and> pv_agent_id other = pv_agent_id (cq_authorization request)
           \<and> pv_agent_account_id other = pv_agent_account_id (cq_authorization request)
           \<and> pv_amount other = pv_amount (cq_authorization request)
           \<and> pv_currency other = pv_currency (cq_authorization request)
           \<and> pv_merchant other = pv_merchant (cq_authorization request)
           \<and> pv_task_id other = pv_task_id (cq_authorization request)
           \<and> (\<exists>d. decision_record s' (va_spend_decision_id v) = Some d
                \<and> (pv_execution_scope other = sr_execution_scope (sd_request d)
                   \<or> sr_execution_scope (sd_request d) = None \<and> sr_merchant (sd_request d) \<noteq> None)))"
proof -
  let ?tid = "pv_spend_auth_token_id (cq_authorization request)"
  have inv: "spend_inv s" by (rule spend_reachable_inv[OF assms(1)])
  have inv': "spend_inv s'" by (rule claim_auth_token_inv[OF inv assms(2,3)])
  note n = new_claim_facts[OF inv assms(2,3,4)]
  have tok: "hm_get (claim_id_by_token s') ?tid = Some (cl_id c)"
    and op: "executor_claim_for_operation s' (pv_agent_id (cq_authorization request)) (cq_operation_key request) = Some c"
    and c: "hm_get (executor_claims s') (cl_id c) = Some c"
    by (simp_all add: n(1-4) index_claim_def executor_claim_for_operation_def executor_claim_record_def)
  have scope: "validate_authorization_scope s' (cq_authorization request) True = Inr v"
    using scope_of_valid_payment[OF n(5)] by (simp add: n(1))
  then have "prepare_auth_token_claim fid' later s' request = Inr (c, v)"
    by (simp add: prepare_auth_token_claim_def validate_auth_token_for_executor_claim_def op n(2))
  then have again: "claim_auth_token fid' later request s' = (Inr (c, v), s')"
    by (simp add: claim_auth_token_def index_claim_known[OF inv' c])
  have pay: "\<exists>e. validate_auth_token_for_payment later s' other = Inl e"
    using tok assms(5) by (auto simp: validate_auth_token_for_payment_def hm_contains_def split: option.splits)
  have use: "mark_auth_token_used later (pv_spend_auth_token_id other) payment s' = (Inl SpendAuthTokenAlreadyClaimed, s')"
    using tok assms(5) by (simp add: mark_auth_token_used_def hm_contains_def)
  have answer: "key' = cq_operation_key request \<and> x = Some c \<and> validate_authorization_scope s' other True = Inr a"
    if val: "validate_auth_token_for_executor_claim later s' other key' = Inr (a, x)" for a x
  proof (cases x)
    case None
    with validate_claim_cases[OF inv' val] tok assms(5) show ?thesis by simp
  next
    case (Some d)
    with validate_claim_cases[OF inv' val] assms(5) have d: "hm_get (executor_claims s') (cl_id d) = Some d"
      "cl_operation_key d = key'" "cl_spend_auth_token_id d = ?tid" by simp_all
    have "hm_get (claim_id_by_token s') ?tid = Some (cl_id d)"
      using claim_entry[OF inv' d(1)] d(3) unfolding claim_entry_ok_def by metis
    then have "cl_id d = cl_id c" using tok by (metis option.inject)
    then have "d = c" using d(1) c by (metis option.inject)
    with d(2) n(4) Some executor_validation_scope[OF val[unfolded Some]] show ?thesis by simp
  qed
  show ?thesis
  proof (cases "validate_auth_token_for_executor_claim later s' other key'")
    case (Inl e)
    with again pay use show ?thesis by simp
  next
    case (Inr ax)
    obtain a x where ax: "ax = (a, x)" by (cases ax)
    note ans = answer[OF Inr[unfolded ax]]
    with same_scope_same_spend[OF scope _ assms(5), of a] again pay use Inr show ?thesis by (simp add: ax)
  qed
qed

theorem executor_claim_exclusive_witness:
  "mark_auth_token_used 30 (SpendAuthTokenId 2) (PaymentId 5)
     (snd (claim_auth_token (SpendExecutorClaimId 9) 20
       \<lparr>cq_authorization = example_payment, cq_operation_key = ''op-1''\<rparr> example_spend_state))
   = (Inl SpendAuthTokenAlreadyClaimed,
      snd (claim_auth_token (SpendExecutorClaimId 9) 20
       \<lparr>cq_authorization = example_payment, cq_operation_key = ''op-1''\<rparr> example_spend_state))"
proof -
  let ?rq = "\<lparr>cq_authorization = example_payment, cq_operation_key = ''op-1''\<rparr>"
  let ?run = "claim_auth_token (SpendExecutorClaimId 9) 20 ?rq example_spend_state"
  have f: "hm_get (executor_claims example_spend_state) (SpendExecutorClaimId 9) = None" by code_simp
  have r: "?run = (Inr (fst (projr (fst ?run)), snd (projr (fst ?run))), snd ?run)" by code_simp
  have i: "cl_id (fst (projr (fst ?run))) = SpendExecutorClaimId 9" by code_simp
  have o: "pv_spend_auth_token_id example_payment = pv_spend_auth_token_id (cq_authorization ?rq)"
    "pv_spend_auth_token_id example_payment = SpendAuthTokenId 2" by code_simp+
  from executor_claim_exclusive[OF example_spend_reachable f r i o(1), of "SpendExecutorClaimId 1" 30 "PaymentId 5"]
  show ?thesis by (simp add: o(2))
qed

end
