(* ===== verification/Wallet_Theorems.thy ===== *)
theory Wallet_Theorems
  imports Wallet_Machine Ledger_Theorems Spend_Theorems
begin

text \<open>
  The payment manager on the spend manager: \<open>SharedSpendAuthorizer\<close> of \<^verbatim>\<open>crates/hubu-api/src/lib.rs\<close>
  implements the authorizer's contract with the tokens of \<^verbatim>\<open>hubu-core\<close>, and the properties of payments
  follow. The mutex around the shared manager is taken by one caller at a time and is not poisoned.
\<close>

section \<open>The shared authorizer\<close>

definition spend_error_to_string :: "spend_error \<Rightarrow> string" where
  "spend_error_to_string e =
     (case e of
        PolicyValidation _ \<Rightarrow> ''invalid policy''
      | UnknownSpendAuthToken \<Rightarrow> ''unknown spend auth token''
      | ExpiredSpendAuthToken \<Rightarrow> ''spend auth token is expired''
      | UsedSpendAuthToken \<Rightarrow> ''spend auth token has already been used''
      | RevokedSpendAuthToken \<Rightarrow> ''spend auth token has been revoked''
      | MissingSpendDecision \<Rightarrow> ''spend decision record is missing''
      | SpendDecisionNotAllowed \<Rightarrow> ''spend decision did not allow payment''
      | PaymentRequestMismatch \<Rightarrow> ''payment request does not match authorized spend''
      | UserScopeMismatch \<Rightarrow> ''request is outside the resolved user context''
      | UnknownLeaseProfile name \<Rightarrow> ''unknown lease profile `'' @ name @ ''`''
      | EmptyOperationKey \<Rightarrow> ''operation key cannot be empty''
      | OperationKeyConflict \<Rightarrow> ''operation key was already authorized with different spend scope''
      | SpendAuthTokenAlreadyClaimed \<Rightarrow> ''spend auth token has already been claimed by another operation''
      | UnknownExecutorClaim \<Rightarrow> ''unknown executor spend claim''
      | ExecutorClaimOperationMismatch \<Rightarrow> ''executor spend claim belongs to another operation''
      | ExpiredExecutorClaim \<Rightarrow> ''executor spend claim is expired and requires reconciliation''
      | FinalizedExecutorClaim \<Rightarrow> ''executor spend claim is already finalized'')"

definition shared_validate ::
  "instant \<Rightarrow> spend_manager \<Rightarrow> payment_request \<Rightarrow> payment_error + wallet_authorization" where
  "shared_validate now s request =
     and_then (map_err (\<lambda>_. AuthorizationRejected ''payment amount exceeds the accounting range'')
                (from_legacy_cents (pr_amount_cents request))) (\<lambda>amount.
     and_then (map_err (\<lambda>e. AuthorizationRejected (spend_error_to_string e))
       (validate_auth_token_for_payment now s
         \<lparr>pv_spend_auth_token_id = pr_spend_auth_token_id request,
          pv_owner_user_id = pr_owner_user_id request, pv_agent_id = pr_agent_id request,
          pv_agent_account_id = pr_agent_account_id request, pv_amount = amount,
          pv_currency = pr_currency request, pv_merchant = pr_merchant request,
          pv_execution_scope = pr_execution_scope request, pv_task_id = pr_task_id request\<rparr>)) (\<lambda>validation.
     Inr \<lparr>wa_spend_auth_token_id = pr_spend_auth_token_id request,
          wa_owner_user_id = va_owner_user_id validation\<rparr>))"

definition shared_mark ::
  "instant \<Rightarrow> spend_auth_token_id \<Rightarrow> payment_id \<Rightarrow> spend_manager \<Rightarrow> (payment_error + unit) \<times> spend_manager" where
  "shared_mark now tid pid s =
     (case mark_auth_token_used now tid pid s of
        (r, s') \<Rightarrow> (map_err (\<lambda>e. AuthorizationRejected (spend_error_to_string e)) r, s'))"

definition wallet_services ::
  "(instant \<Rightarrow> payment_request \<Rightarrow> 'r \<Rightarrow> (payment_rail_error + rail_payment_result) \<times> 'r)
     \<Rightarrow> (payment_id \<Rightarrow> string) \<Rightarrow> (payment_id \<Rightarrow> payment_request \<Rightarrow> string option \<Rightarrow> string)
     \<Rightarrow> ('r, spend_manager) payment_services" where
  "wallet_services rail show_id json =
     \<lparr>rail_execute = rail, validate_payment_request = shared_validate, mark_token_used = shared_mark,
      show_payment_id = show_id, payment_evidence_json = json\<rparr>"

lemma shared_mark_split:
  assumes "shared_mark now tid pid s = (r, s')"
  obtains r0 where "mark_auth_token_used now tid pid s = (r0, s')"
    and "r = map_err (\<lambda>e. AuthorizationRejected (spend_error_to_string e)) r0"
  using assms by (auto simp: shared_mark_def split: prod.splits)

lemma shared_mark_step: "shared_mark now tid pid s = (r, s') \<Longrightarrow> spend_step sha sa su s s'"
  by (erule shared_mark_split) (rule spend_use)

interpretation shared: payment_authorizer shared_validate shared_mark spend_inv closed_for_payment
  "spend_step sha sa su" for sha sa su
proof unfold_locales
  fix now now' s request v pid
  assume "shared_validate now s request = Inr v"
  then obtain pv a where "validate_auth_token_for_payment now s pv = Inr a"
    and tid: "pv_spend_auth_token_id pv = pr_spend_auth_token_id request"
    by (fastforce simp: shared_validate_def res_simps)
  then obtain t where "hm_get (tokens s) (pr_spend_auth_token_id request) = Some t" "\<not> spent t"
    "hm_get (claim_id_by_token s) (pr_spend_auth_token_id request) = None"
    by (elim validate_payment_success) simp
  then show "\<exists>a'. shared_mark now' (pr_spend_auth_token_id request) pid s = (Inr (), a')"
    by (simp add: shared_mark_def mark_auth_token_used_def hm_contains_def spent_def)
next
  fix now tid pid s s' and u :: unit
  assume "shared_mark now tid pid s = (Inr u, s')"
  then obtain r0 where r: "mark_auth_token_used now tid pid s = (r0, s')" "map_err (\<lambda>e. AuthorizationRejected (spend_error_to_string e)) r0 = Inr u"
    by (metis shared_mark_split)
  then show "closed_for_payment s' tid"
    by (auto simp: mark_auth_token_used_def closed_for_payment_def auth_token_record_def is_some_and_iff spent_def
        res_simps split: if_splits option.splits)
next
  fix s now and request :: payment_request
  assume "spend_inv s" and c: "closed_for_payment s (pr_spend_auth_token_id request)"
  show "\<exists>e. shared_validate now s request = Inl e"
  proof (cases "shared_validate now s request")
    case (Inr v)
    then obtain pv a where "validate_auth_token_for_payment now s pv = Inr a"
      and tid: "pv_spend_auth_token_id pv = pr_spend_auth_token_id request"
      by (fastforce simp: shared_validate_def res_simps)
    then show ?thesis using c
      by (elim validate_payment_success)
        (auto simp: closed_for_payment_def auth_token_record_def is_some_and_def hm_contains_def)
  qed simp
next
  fix s now tid pid r s' t'
  assume "spend_inv s" "shared_mark now tid pid s = (r, s')"
  then show "spend_inv s'" using spend.inv_step[OF shared_mark_step] by blast
next
  fix s now tid pid r s' t'
  assume "spend_inv s" "shared_mark now tid pid s = (r, s')"
  then show "closed_for_payment s t' \<Longrightarrow> closed_for_payment s' t'"
    using closed_stays[OF r_into_rtranclp[of "spend_step sha sa su" s s', OF shared_mark_step]] by blast
next
  fix s s' t
  assume step: "spend_step sha sa su s s'" and inv: "spend_inv s"
  then show "spend_inv s'" by (rule spend.inv_step)
next
  fix s s' t
  assume step: "spend_step sha sa su s s'" and inv: "spend_inv s"
  show "closed_for_payment s t \<Longrightarrow> closed_for_payment s' t"
    using closed_stays[of sha sa su s s', OF r_into_rtranclp[of "spend_step sha sa su", OF step] inv] .
qed

section \<open>Reachable managers\<close>

inductive wallet_reachable ::
  "('r, spend_manager) payment_services \<Rightarrow> (string \<Rightarrow> string) \<Rightarrow> (agent_id \<Rightarrow> string) \<Rightarrow> (user_id \<Rightarrow> string)
     \<Rightarrow> ('r, spend_manager) payment_manager \<Rightarrow> bool"
  for services sha sa su where
  wallet_new:
    "spend_reachable sha sa su authorizer \<Longrightarrow> ledger_reachable L \<Longrightarrow>
     payment_manager_new inputs owner rail authorizer L = Inr s \<Longrightarrow> wallet_reachable services sha sa su s"
| wallet_step:
    "wallet_reachable services sha sa su s \<Longrightarrow>
     payment_step services closed_for_payment (spend_step sha sa su) s s' \<Longrightarrow>
     wallet_reachable services sha sa su s'"

lemma payment_manager_new_inv:
  assumes "spend_inv authorizer" and "ledger_inv L" and "payment_manager_new inputs owner rail authorizer L = Inr s"
  shows "payment_inv spend_inv closed_for_payment s"
proof -
  obtain res L' where c0: "create_payment_accounts inputs owner L = (res, L')"
    by (cases "create_payment_accounts inputs owner L")
  obtain acc where res: "res = Inr acc" and s: "s = \<lparr>pm_rail = rail, pm_authorizer = authorizer, pm_ledger = L',
      ledger_accounts_by_user = hm_insert owner acc hm_empty, payments_by_idempotency_key = hm_empty\<rparr>"
  proof (cases res)
    case (Inr acc)
    with assms(3) c0 that show ?thesis unfolding payment_manager_new_def by simp
  qed (use assms(3) c0 in \<open>simp add: payment_manager_new_def\<close>)
  note c = c0[unfolded res]
  show ?thesis using assms(1) create_payment_accounts_ok[OF assms(2) c]
    by (auto simp: s payment_inv_def paid_def is_some_and_def)
qed

lemma wallet_reachable_inv:
  "wallet_reachable (wallet_services rail show_id json) sha sa su s \<Longrightarrow> payment_inv spend_inv closed_for_payment s"
proof (induction rule: wallet_reachable.induct)
  case (wallet_new authorizer L inputs owner rail s)
  show ?case
    by (rule payment_manager_new_inv[OF spend_reachable_inv[OF wallet_new(1)] ledger_reachable_inv[OF wallet_new(2)]
          wallet_new(3)])
next
  case (wallet_step s s')
  then show ?case
    using shared.payment_step_inv[of "wallet_services rail show_id json" sha sa su s s']
    by (simp add: wallet_services_def)
qed

lemma wallet_services_fields:
  "validate_payment_request (wallet_services rail show_id json) = shared_validate"
  "mark_token_used (wallet_services rail show_id json) = shared_mark"
  "rail_execute (wallet_services rail show_id json) = rail"
  by (simp_all add: wallet_services_def)

section \<open>Payments\<close>

text \<open>
  C10: money moved is money recorded. In a reachable state a submission that answers an error has
  changed nothing, or the rail itself failed; a submission that answers a response either repeats a
  stored payment without touching anything, or has called the rail once and its answer is stored: a
  success with a ledger transaction that charges exactly the payment and with the token closed, a
  decline with ledger and tokens untouched. The rail never succeeds without its records.
\<close>

theorem payment_recorded_iff_moved:
  assumes "wallet_reachable (wallet_services rail show_id json) sha sa su s"
    and "fresh_records inputs (''payment:'' @ show_id (pn_payment_id inputs)) (pm_ledger s)"
    and "fits_i64 (pr_amount_cents request)"
    and "submit_payment_with_context (wallet_services rail show_id json) inputs request ctx purpose s = (res, s')"
  shows "case res of
      Inl e \<Rightarrow> s' = s \<or> (\<exists>f w. e = RailError f \<and> rail (pn_now inputs) request (pm_rail s) = (Inl f, w)
                              \<and> s' = s\<lparr>pm_rail := w\<rparr>)
    | Inr response \<Rightarrow>
        (case hm_get (payments_by_idempotency_key s) (pr_idempotency_key request) of
           Some stored \<Rightarrow> s' = s \<and> st_request stored = request \<and> response = st_response stored
         | None \<Rightarrow>
             hm_get (payments_by_idempotency_key s') (pr_idempotency_key request)
               = Some \<lparr>st_request = request, st_response = response\<rparr>
             \<and> (\<exists>rr w. rail (pn_now inputs) request (pm_rail s) = (Inr rr, w) \<and> pm_rail s' = w
                  \<and> ps_status response = rr_status rr)
             \<and> (case ps_status response of
                   Failed \<Rightarrow> pm_ledger s' = pm_ledger s \<and> pm_authorizer s' = pm_authorizer s
                 | Succeeded \<Rightarrow>
                     ps_ledger_transaction_id response = Some (pn_transaction inputs)
                     \<and> posted_expense (pm_ledger s') (pn_transaction inputs)
                         = pr_amount_cents request * CENT_AT_SCALE_18
                     \<and> closed_for_payment (pm_authorizer s') (pr_spend_auth_token_id request)))"
proof -
  let ?services = "wallet_services rail show_id json"
  have inv: "payment_inv spend_inv closed_for_payment s" by (rule wallet_reachable_inv[OF assms(1)])
  have new: "fresh_records inputs (payment_source_key ?services inputs) (pm_ledger s)"
    using assms(2) by (simp add: payment_source_key_def wallet_services_def)
  from inv new wallet_services_fields(1,2) assms(3,4) show ?thesis
  proof (cases rule: shared.submit_cases)
    case (refused e)
    then show ?thesis by simp
  next
    case (rail_error e w)
    then show ?thesis by (simp add: wallet_services_fields)
  next
    case (replayed stored)
    then show ?thesis by simp
  next
    case (declined rr w)
    then show ?thesis by (simp add: wallet_services_fields remember_payment_def failed_response_def)
  next
    case (paid_out rr w v charge response L m a)
    from paid_out(15) obtain evidence where meta: "hm_get (ledger_metadata L) (pn_transaction inputs)
      = Some (payment_metadata (payment_source_key ?services inputs) evidence request ctx charge purpose)" by blast
    have "submit_payment_with_context ?services inputs request ctx purpose s \<noteq> (Inl EmptyIdempotencyKey, s)
        \<and> payment_ok request"
      using assms(3,4) paid_out(1) by (auto simp: payment_ok_def submit_payment_with_context_def split: if_splits sum.splits)
    then have ok: "payment_ok request" ..
    have "posted_expense L (pn_transaction inputs) = pr_amount_cents request * CENT_AT_SCALE_18"
      using evidence_source[OF paid_out(11) meta] scaled_cents[OF payment_okD(3,1)[OF ok]]
      by (simp add: payment_metadata_def cost_of_def)
    moreover have "closed_for_payment a (pr_spend_auth_token_id request)"
      by (rule shared.mark_closes[OF paid_out(16)])
    ultimately show ?thesis using paid_out by (simp add: wallet_services_fields remember_payment_def)
  qed
qed

text \<open>
  C28: a token pays once. In every reachable state two successful payments under one token carry the same
  idempotency key, so they are one stored payment; and the token of a successful payment is refused for
  any further one.
\<close>

theorem token_pays_once:
  assumes "wallet_reachable (wallet_services rail show_id json) sha sa su s"
    and "hm_get (payments_by_idempotency_key s) key = Some p" and "ps_status (st_response p) = Succeeded"
    and "hm_get (payments_by_idempotency_key s) key' = Some p'" and "ps_status (st_response p') = Succeeded"
    and "pr_spend_auth_token_id (st_request p) = pr_spend_auth_token_id (st_request p')"
  shows "key = key' \<and> (\<forall>now request. pr_spend_auth_token_id request = pr_spend_auth_token_id (st_request p)
    \<longrightarrow> (\<exists>e. shared_validate now (pm_authorizer s) request = Inl e))"
proof -
  have inv: "payment_inv spend_inv closed_for_payment s" by (rule wallet_reachable_inv[OF assms(1)])
  have paid: "paid s key (pr_spend_auth_token_id (st_request p))" "paid s key' (pr_spend_auth_token_id (st_request p))"
    using assms by (simp_all add: paid_def is_some_and_def)
  then show ?thesis using inv shared.closed_refuses unfolding payment_inv_def by metis
qed

lemma owner_transactions_load:
  assumes "ledger_inv L" and "r \<in> set (owner_transactions L owner)"
  shows "load_transaction L (tr_id r) = Some r"
proof -
  from assms(2) obtain t :: ledger_transaction where "load_transaction L (lt_id t) = Some r"
    by (auto simp: owner_transactions_def List.map_filter_def)
  then show ?thesis using load_transaction_id by metis
qed

text \<open>
  payments are idempotent. Submitting a request again under its key, after it was answered, with the
  same governed context, answers the same response and changes nothing: no rail, no ledger, no token.
\<close>

theorem payment_replay_idempotent:
  assumes "wallet_reachable (wallet_services rail show_id json) sha sa su s"
    and "fresh_records inputs (''payment:'' @ show_id (pn_payment_id inputs)) (pm_ledger s)"
    and "fits_i64 (pr_amount_cents request)"
    and "submit_payment_with_context (wallet_services rail show_id json) inputs request ctx purpose s = (Inr response, s')"
  shows "submit_payment_with_context (wallet_services rail show_id json) inputs' request ctx purpose' s'
    = (Inr response, s')"
proof -
  let ?services = "wallet_services rail show_id json"
  have inv: "payment_inv spend_inv closed_for_payment s" by (rule wallet_reachable_inv[OF assms(1)])
  have new: "fresh_records inputs (payment_source_key ?services inputs) (pm_ledger s)"
    using assms(2) by (simp add: payment_source_key_def wallet_services_def)
  have shape: "\<not> is_some_and (governed_context_mismatch request) ctx" "validate_request_shape request = Inr ()"
    using assms(4) by (auto simp: submit_payment_with_context_def split: if_splits sum.splits)
  have again: "submit_payment_with_context ?services inputs' request ctx purpose' s' = (Inr (st_response st), s')"
    if "hm_get (payments_by_idempotency_key s') (pr_idempotency_key request) = Some st"
      and "replay_payment (pm_ledger s') request ctx st = Inr (st_response st)" for st
    using that shape by (simp add: submit_payment_with_context_def)
  from inv new wallet_services_fields(1,2) assms(3,4) show ?thesis
  proof (cases rule: shared.submit_cases)
    case (replayed stored)
    then have "replay_payment (pm_ledger s) request ctx stored = Inr (st_response stored)"
      using assms(4) shape by (simp add: submit_payment_with_context_def)
    then show ?thesis using again replayed by simp
  next
    case (declined rr w)
    then show ?thesis using again[of "\<lparr>st_request = request, st_response = response\<rparr>"]
      by (simp add: remember_payment_def replay_payment_def failed_response_def is_some_and_def split: option.splits)
  next
    case (paid_out rr w v charge resp L m a)
    let ?st = "\<lparr>st_request = request, st_response = response\<rparr>"
    have ctx: "tm_context mm = ctx" if r: "find (\<lambda>r. Some (tr_id r) = ps_ledger_transaction_id response)
        (owner_transactions L (pr_owner_user_id request)) = Some r" and "tr_metadata r = Some mm" for r mm
    proof -
      from r have "r \<in> set (owner_transactions L (pr_owner_user_id request))" "tr_id r = pn_transaction inputs"
        using paid_out(1,8) by (auto simp: find_Some_iff)
      with owner_transactions_load[OF paid_out(11)] load_transaction_metadata
      have "tr_metadata r = hm_get (ledger_metadata L) (pn_transaction inputs)" by metis
      with paid_out(15) that(2) show ?thesis by (auto simp: payment_metadata_def)
    qed
    have "replay_payment L request ctx ?st = Inr response"
    proof (cases "find (\<lambda>r. Some (tr_id r) = ps_ledger_transaction_id response)
        (owner_transactions L (pr_owner_user_id request))")
      case None
      then show ?thesis by (cases ctx) (simp_all add: replay_payment_def is_some_and_def)
    next
      case (Some r)
      then show ?thesis using ctx[OF Some]
        by (cases ctx; cases "tr_metadata r") (simp_all add: replay_payment_def is_some_and_def Let_def)
    qed
    moreover have "hm_get (payments_by_idempotency_key s') (pr_idempotency_key request) = Some ?st" "pm_ledger s' = L"
      unfolding paid_out(2) using paid_out(1) by (simp_all add: remember_payment_def)
    ultimately show ?thesis using again[of ?st] by (metis stored_payment.select_convs(2))
  qed simp_all
qed

section \<open>A payment\<close>

definition wallet_spend_request :: spend_request where
  "wallet_spend_request = example_request\<lparr>sr_amount := Amount 20000\<rparr>"

definition wallet_evaluation :: "((spend_error + spend_evaluation_response) \<times> spend_manager) option" where
  "wallet_evaluation = evaluate_spend_with_revision (\<lambda>_. ''00'') (\<lambda>_. ''a'') (\<lambda>_. ''u'')
     example_inputs_spend (UserId 1) ''op-1'' wallet_spend_request allow_policy spend_manager_new"

definition wallet_authorizer :: spend_manager where
  "wallet_authorizer = snd (the wallet_evaluation)"

definition wallet_inputs :: "nat \<Rightarrow> payment_inputs" where
  "wallet_inputs n = \<lparr>pn_now = 20, pn_payment_id = PaymentId n, pn_cash_account = LedgerAccountId n,
     pn_expense_account = LedgerAccountId (n + 1), pn_transaction = LedgerTransactionId n,
     pn_debit_entry = LedgerEntryId n, pn_credit_entry = LedgerEntryId (n + 1)\<rparr>"

definition wallet_example :: "(unit, spend_manager) payment_manager" where
  "wallet_example = projr (payment_manager_new (wallet_inputs 1) (UserId 1) () wallet_authorizer ledger_init)"

definition wallet_request :: payment_request where
  "wallet_request = \<lparr>pr_idempotency_key = ''p-1'', pr_spend_auth_token_id = SpendAuthTokenId 2,
     pr_owner_user_id = UserId 1, pr_agent_id = AgentId 7, pr_agent_account_id = AgentAccountId 2,
     pr_amount_cents = 2, pr_currency = Usd, pr_merchant = Some ''m'', pr_execution_scope = None,
     pr_task_id = Some ''t'', pr_rail = FiatMock, pr_destination = FiatAccount ''d'', pr_memo = None\<rparr>"

abbreviation example_services :: "(unit, spend_manager) payment_services" where
  "example_services \<equiv> wallet_services mock_rail_execute (\<lambda>_. ''1'') (\<lambda>_ _ _. ''{}'')"

lemma wallet_evaluation_run:
  "evaluate_spend_with_revision (\<lambda>_. ''00'') (\<lambda>_. ''a'') (\<lambda>_. ''u'') example_inputs_spend (UserId 1)
     ''op-1'' wallet_spend_request allow_policy spend_manager_new
   = Some (fst (the wallet_evaluation), wallet_authorizer)"
proof -
  have "wallet_evaluation = Some (the wallet_evaluation)" by code_simp
  then show ?thesis by (simp add: wallet_evaluation_def wallet_authorizer_def)
qed

lemma wallet_example_new:
  "payment_manager_new (wallet_inputs 1) (UserId 1) () wallet_authorizer ledger_init = Inr wallet_example"
proof -
  have "\<not> isl (payment_manager_new (wallet_inputs 1) (UserId 1) () wallet_authorizer ledger_init)"
    by (simp add: payment_manager_new_def create_payment_accounts_def create_account_def insert_row_def Let_def
        ledger_init_def hm_eval wallet_inputs_def)
  then show ?thesis by (simp add: wallet_example_def)
qed

lemma wallet_example_reachable:
  "wallet_reachable example_services (\<lambda>_. ''00'') (\<lambda>_. ''a'') (\<lambda>_. ''u'') wallet_example"
proof (rule wallet_new[OF _ _ wallet_example_new])
  have f: "hm_get (decisions spend_manager_new) (ei_decision_id example_inputs_spend) = None"
    "hm_get (tokens spend_manager_new) (ei_token_id example_inputs_spend) = None" by code_simp+
  show "spend_reachable (\<lambda>_. ''00'') (\<lambda>_. ''a'') (\<lambda>_. ''u'') wallet_authorizer"
    by (rule spend_reach_step[OF spend_new_reachable]) (rule spend_evaluate[OF f wallet_evaluation_run])
  show "ledger_reachable ledger_init" by (simp add: ledger_reachable_def)
qed

lemma wallet_pays:
  "case submit_payment_with_context example_services (wallet_inputs 3) wallet_request None None wallet_example of
     (Inl _, _) \<Rightarrow> False | (Inr r, _) \<Rightarrow> ps_status r = Succeeded"
  by code_simp

lemma wallet_request_fits: "fits_i64 (pr_amount_cents wallet_request)"
  by (simp add: wallet_request_def range_simps)

lemma wallet_fresh:
  "fresh_records (wallet_inputs 3) (''payment:'' @ (\<lambda>_. ''1'') (pn_payment_id (wallet_inputs 3))) (pm_ledger wallet_example)"
  by code_simp

definition wallet_paid :: "(unit, spend_manager) payment_manager" where
  "wallet_paid = snd (submit_payment_with_context example_services (wallet_inputs 3) wallet_request None None wallet_example)"

lemma wallet_run:
  obtains r where "submit_payment_with_context example_services (wallet_inputs 3) wallet_request None None wallet_example
    = (Inr r, wallet_paid)" and "ps_status r = Succeeded"
  using wallet_pays unfolding wallet_paid_def by (auto split: prod.splits sum.splits)

lemma wallet_key_free: "hm_get (payments_by_idempotency_key wallet_example) (pr_idempotency_key wallet_request) = None"
  by code_simp

lemma wallet_paid_reachable:
  "wallet_reachable example_services (\<lambda>_. ''00'') (\<lambda>_. ''a'') (\<lambda>_. ''u'') wallet_paid"
proof (rule wallet_run)
  fix r assume run: "submit_payment_with_context example_services (wallet_inputs 3) wallet_request None None wallet_example
    = (Inr r, wallet_paid)"
  have "fresh_records (wallet_inputs 3) (payment_source_key example_services (wallet_inputs 3)) (pm_ledger wallet_example)"
    using wallet_fresh by (simp add: payment_source_key_def wallet_services_def)
  from pay_submit[OF this wallet_request_fits run] show ?thesis by (rule wallet_step[OF wallet_example_reachable])
qed

lemma wallet_paid_stored:
  "case hm_get (payments_by_idempotency_key wallet_paid) ''p-1'' of None \<Rightarrow> False
     | Some p \<Rightarrow> ps_status (st_response p) = Succeeded \<and> st_request p = wallet_request"
  by code_simp

theorem payment_recorded_iff_moved_witness:
  "posted_expense (pm_ledger wallet_paid) (LedgerTransactionId 3) = 2 * CENT_AT_SCALE_18
   \<and> closed_for_payment (pm_authorizer wallet_paid) (SpendAuthTokenId 2)"
proof (rule wallet_run)
  fix r assume run: "submit_payment_with_context example_services (wallet_inputs 3) wallet_request None None wallet_example
    = (Inr r, wallet_paid)" and ok: "ps_status r = Succeeded"
  show ?thesis
    using payment_recorded_iff_moved[OF wallet_example_reachable wallet_fresh wallet_request_fits run] wallet_key_free ok
    by (simp add: wallet_request_def wallet_inputs_def)
qed

theorem token_pays_once_witness:
  "\<exists>e. shared_validate 30 (pm_authorizer wallet_paid) wallet_request = Inl e"
proof -
  obtain p where p: "hm_get (payments_by_idempotency_key wallet_paid) ''p-1'' = Some p"
    "ps_status (st_response p) = Succeeded" "st_request p = wallet_request"
    using wallet_paid_stored by (auto split: option.splits)
  from token_pays_once[OF wallet_paid_reachable p(1,2) p(1,2) refl] p(3) show ?thesis by simp
qed

theorem payment_replay_idempotent_witness:
  "snd (submit_payment_with_context example_services (wallet_inputs 7) wallet_request None (Some ''again'') wallet_paid)
     = wallet_paid"
proof (rule wallet_run)
  fix r assume run: "submit_payment_with_context example_services (wallet_inputs 3) wallet_request None None wallet_example
    = (Inr r, wallet_paid)"
  from payment_replay_idempotent[OF wallet_example_reachable wallet_fresh wallet_request_fits run] show ?thesis by simp
qed

end
