(* ===== verification/Budget_State.thy ===== *)
theory Budget_State
  imports Budget_Model Hash_Map
begin

text \<open>
  \<^verbatim>\<open>crates/hubu-core/src/budget/state.rs\<close>: the in-memory budget state with its secondary indexes and
  the operations on it: creating a budget, reserving, claiming, settling, releasing and expiring
  holds, rolling back a reservation that was not persisted, publishing a persisted finalization, and
  the queries. The facade \<^verbatim>\<open>manager.rs\<close> delegates to these operations one to one.

  Every operation returns its result together with the state it leaves, because some of them mutate
  before a later step can fail (\<open>claim_budget\<close>, the expiry loop). Fresh identifiers and the clock
  are arguments. Telemetry (\<open>log_event\<close>) has no effect on the state and is left out.
\<close>

section \<open>State\<close>

record budget_state =
  budgets :: "(budget_id, budget) hmap"
  budget_versions :: "(budget_version_id, budget_version) hmap"
  budget_version_id_by_revision :: "(budget_id \<times> int, budget_version_id) hmap"
  successor_version_id_by_predecessor :: "(budget_version_id, budget_version_id) hmap"
  budget_balances :: "(budget_id, budget_balance) hmap"
  budget_holds :: "(budget_hold_id, budget_hold) hmap"
  hold_id_by_spend_decision :: "(spend_decision_id, budget_hold_id) hmap"
  budget_ids_by_agent_id :: "(agent_id, budget_id list) hmap"

definition budget_state_new :: budget_state where
  "budget_state_new =
     \<lparr>budgets = hm_empty, budget_versions = hm_empty, budget_version_id_by_revision = hm_empty,
      successor_version_id_by_predecessor = hm_empty, budget_balances = hm_empty,
      budget_holds = hm_empty, hold_id_by_spend_decision = hm_empty,
      budget_ids_by_agent_id = hm_empty\<rparr>"

section \<open>Queries\<close>

definition budget_with_balance_of ::
  "(budget_id, budget) hmap \<Rightarrow> (budget_version_id, budget_version) hmap
     \<Rightarrow> (budget_id, budget_balance) hmap \<Rightarrow> budget_id \<Rightarrow> budget_with_balance option" where
  "budget_with_balance_of bs vs bals bid =
     Option.bind (hm_get bs bid) (\<lambda>b.
     Option.bind (hm_get vs (bu_current_version_id b)) (\<lambda>v.
     Option.bind (hm_get bals bid) (\<lambda>bal.
     Some \<lparr>bwb_budget = b, bwb_version = v, bwb_balance = bal\<rparr>)))"

definition get_budget_by_id :: "budget_state \<Rightarrow> budget_id \<Rightarrow> budget_with_balance option" where
  "get_budget_by_id s bid =
     budget_with_balance_of (budgets s) (budget_versions s) (budget_balances s) bid"

definition budgets_with_balances :: "budget_state \<Rightarrow> budget_id list \<Rightarrow> budget_with_balance list" where
  "budgets_with_balances s bids = List.map_filter (get_budget_by_id s) bids"

definition get_budgets_by_agent_id :: "budget_state \<Rightarrow> agent_id \<Rightarrow> budget_with_balance list" where
  "get_budgets_by_agent_id s agent =
     (case hm_get (budget_ids_by_agent_id s) agent of
        None \<Rightarrow> []
      | Some bids \<Rightarrow> budgets_with_balances s bids)"

definition get_budget_versions_by_budget_id :: "budget_state \<Rightarrow> budget_id \<Rightarrow> budget_version list" where
  "get_budget_versions_by_budget_id s bid =
     sort_key bv_revision (filter (\<lambda>v. bv_budget_id v = bid) (hm_values (budget_versions s)))"

definition evaluate_snapshot ::
  "budget_with_balance \<Rightarrow> instant \<Rightarrow> budget_manager_error + evaluated_budget" where
  "evaluate_snapshot b now =
     map_err (\<lambda>e. InvalidPersistedState (EvaluationFault e)) (evaluate_at b now)"

definition get_evaluated_budget_by_id ::
  "budget_state \<Rightarrow> budget_id \<Rightarrow> instant \<Rightarrow> budget_manager_error + evaluated_budget option" where
  "get_evaluated_budget_by_id s bid now =
     (case get_budget_by_id s bid of
        None \<Rightarrow> Inr None
      | Some b \<Rightarrow> and_then (evaluate_snapshot b now) (\<lambda>e. Inr (Some e)))"

fun evaluate_all ::
  "budget_with_balance list \<Rightarrow> instant \<Rightarrow> budget_manager_error + evaluated_budget list" where
  "evaluate_all [] now = Inr []"
| "evaluate_all (b # bs) now =
     and_then (evaluate_snapshot b now) (\<lambda>e.
     and_then (evaluate_all bs now) (\<lambda>es. Inr (e # es)))"

definition get_evaluated_budgets_by_agent_id ::
  "budget_state \<Rightarrow> agent_id \<Rightarrow> instant \<Rightarrow> budget_manager_error + evaluated_budget list" where
  "get_evaluated_budgets_by_agent_id s agent now =
     evaluate_all (get_budgets_by_agent_id s agent) now"

definition available_budget_id_for_agent_at ::
  "budget_state \<Rightarrow> agent_id \<Rightarrow> currency \<Rightarrow> instant \<Rightarrow> budget_manager_error + budget_id option" where
  "available_budget_id_for_agent_at s agent cur now =
     and_then (get_evaluated_budgets_by_agent_id s agent now) (\<lambda>es.
       Inr (map_option (\<lambda>e. bu_id (bwb_budget (eb_current e)))
         (find (\<lambda>e. bu_currency (bwb_budget (eb_current e)) = cur
                     \<and> allows_reservation (eb_availability e)) es)))"

definition get_budget_balance :: "budget_state \<Rightarrow> budget_id \<Rightarrow> budget_balance option" where
  "get_budget_balance s bid = hm_get (budget_balances s) bid"

definition get_budget_hold :: "budget_state \<Rightarrow> budget_hold_id \<Rightarrow> budget_hold option" where
  "get_budget_hold s hid = hm_get (budget_holds s) hid"

definition get_budget_hold_by_spend_decision ::
  "budget_state \<Rightarrow> spend_decision_id \<Rightarrow> budget_hold option" where
  "get_budget_hold_by_spend_decision s d =
     Option.bind (hm_get (hold_id_by_spend_decision s) d) (get_budget_hold s)"

section \<open>Creating a budget\<close>

record budget_version_provenance =
  bp_actor :: string
  bp_source :: string
  bp_reason :: "string option"

record create_single_budget_request =
  cr_agent_id :: agent_id
  cr_amount_limit :: amount
  cr_currency :: currency
  cr_period :: time_period

text \<open>The identifiers and the clock reading that creating one budget consumes.\<close>

record creation_inputs =
  ci_budget_id :: budget_id
  ci_version_id :: budget_version_id
  ci_now :: instant
  ci_fingerprint :: "agent_id \<Rightarrow> amount \<Rightarrow> currency \<Rightarrow> time_period \<Rightarrow> string"

definition build_budget_for_period ::
  "creation_inputs \<Rightarrow> agent_id \<Rightarrow> amount \<Rightarrow> currency \<Rightarrow> time_period \<Rightarrow> budget_version_provenance
     \<Rightarrow> budget_manager_error + budget_with_balance" where
  "build_budget_for_period ci agent limit cur period prov =
     (if is_blank (bp_actor prov) \<or> is_blank (bp_source prov)
      then Inl MissingBudgetVersionProvenance
      else
        let b = budget_new (ci_budget_id ci) agent cur period (ci_version_id ci) (ci_now ci) in
        and_then
          (map_err InvalidBudget
            (budget_version_initial (ci_fingerprint ci) b limit
               (bp_actor prov) (bp_source prov) (bp_reason prov)))
          (\<lambda>v. Inr \<lparr>bwb_budget = b, bwb_version = v,
                    bwb_balance = \<lparr>bal_budget_id = bu_id b, bal_consumed_amount = ZERO,
                                    bal_frozen_amount = ZERO,
                                    bal_remaining_amount = bv_amount_limit v\<rparr>\<rparr>))"

definition index_budget :: "budget \<Rightarrow> budget_state \<Rightarrow> budget_state" where
  "index_budget b s =
     s\<lparr>budget_ids_by_agent_id :=
         hm_insert (bu_agent_id b)
           ((case hm_get (budget_ids_by_agent_id s) (bu_agent_id b) of None \<Rightarrow> [] | Some l \<Rightarrow> l)
              @ [bu_id b])
           (budget_ids_by_agent_id s)\<rparr>"

definition insert_budget :: "budget_with_balance \<Rightarrow> budget_state \<Rightarrow> budget_state" where
  "insert_budget w s =
     (let b = bwb_budget w; v = bwb_version w; s = index_budget b s in
      s\<lparr>budget_versions := hm_insert (bv_id v) v (budget_versions s),
        budget_version_id_by_revision :=
          hm_insert (bu_id b, bv_revision v) (bv_id v) (budget_version_id_by_revision s),
        successor_version_id_by_predecessor :=
          (case bv_predecessor_version_id v of
             None \<Rightarrow> successor_version_id_by_predecessor s
           | Some p \<Rightarrow> hm_insert p (bv_id v) (successor_version_id_by_predecessor s)),
        budget_balances := hm_insert (bu_id b) (bwb_balance w) (budget_balances s),
        budgets := hm_insert (bu_id b) b (budgets s)\<rparr>)"

definition has_overlapping_budget ::
  "budget_state \<Rightarrow> agent_id \<Rightarrow> currency \<Rightarrow> time_period \<Rightarrow> bool" where
  "has_overlapping_budget s agent cur period \<longleftrightarrow>
     list_ex (\<lambda>b. bu_administrative_state b \<noteq> AdminRevoked \<and> bu_currency b = cur
                  \<and> bu_agent_id b = agent \<and> periods_overlap (bu_period b) period)
       (hm_values (budgets s))"

definition create_budget_for_period ::
  "creation_inputs \<Rightarrow> agent_id \<Rightarrow> amount \<Rightarrow> currency \<Rightarrow> time_period \<Rightarrow> budget_version_provenance
     \<Rightarrow> budget_state \<Rightarrow> (budget_manager_error + budget_with_balance) \<times> budget_state" where
  "create_budget_for_period ci agent limit cur period prov s =
     (if has_overlapping_budget s agent cur period then (Inl OverlappingBudgetPeriod, s)
      else
        case build_budget_for_period ci agent limit cur period prov of
          Inl e \<Rightarrow> (Inl e, s)
        | Inr w \<Rightarrow> (Inr w, insert_budget w s))"

definition create_single_budget_with_provenance ::
  "creation_inputs \<Rightarrow> create_single_budget_request \<Rightarrow> budget_version_provenance
     \<Rightarrow> budget_state \<Rightarrow> (budget_manager_error + budget_with_balance) \<times> budget_state" where
  "create_single_budget_with_provenance ci req prov s =
     create_budget_for_period ci (cr_agent_id req) (cr_amount_limit req) (cr_currency req)
       (cr_period req) prov s"

definition revoke_budget_at ::
  "budget_id \<Rightarrow> instant \<Rightarrow> budget_state
     \<Rightarrow> (budget_manager_error + budget_with_balance) \<times> budget_state" where
  "revoke_budget_at bid now s =
     (case hm_get (budget_balances s) bid of
        None \<Rightarrow> (Inl MissingBudgetBalance, s)
      | Some bal \<Rightarrow>
          case hm_get (budgets s) bid of
            None \<Rightarrow> (Inl UnknownBudget, s)
          | Some b \<Rightarrow>
              if bu_administrative_state b = AdminRevoked then (Inl BudgetAlreadyRevoked, s)
              else
                let b' = b\<lparr>bu_administrative_state := AdminRevoked, bu_updated_at := now\<rparr>;
                    s' = s\<lparr>budgets := hm_insert bid b' (budgets s)\<rparr>
                in case hm_get (budget_versions s) (bu_current_version_id b) of
                     None \<Rightarrow> (Inl UnknownBudget, s')
                   | Some v \<Rightarrow> (Inr \<lparr>bwb_budget = b', bwb_version = v, bwb_balance = bal\<rparr>, s'))"

section \<open>Holds\<close>

record reserve_budget_request =
  rq_budget_id :: budget_id
  rq_spend_decision_id :: spend_decision_id
  rq_amount :: amount
  rq_currency :: currency
  rq_expires_at :: instant

text \<open>The response of every hold operation: the hold and the balance of its budget afterwards.\<close>

record hold_response =
  hr_hold :: budget_hold
  hr_balance :: budget_balance

definition reserve_budget_at ::
  "budget_hold_id \<Rightarrow> reserve_budget_request \<Rightarrow> instant \<Rightarrow> budget_state
     \<Rightarrow> (budget_manager_error + hold_response) \<times> budget_state" where
  "reserve_budget_at fresh_id req now s =
     (if rq_amount req \<le> ZERO then (Inl AmountMustBePositive, s)
      else if hm_contains (hold_id_by_spend_decision s) (rq_spend_decision_id req)
      then (Inl DuplicateSpendDecisionHold, s)
      else case get_budget_by_id s (rq_budget_id req) of
        None \<Rightarrow> (Inl UnknownBudget, s)
      | Some current \<Rightarrow>
      case availability_at current now of
        Inl e \<Rightarrow> (Inl (InvalidPersistedState (EvaluationFault e)), s)
      | Inr availability \<Rightarrow>
      if \<not> allows_reservation availability then (Inl (BudgetUnavailable availability), s)
      else
        let b = bwb_budget current in
        case hm_get (budget_versions s) (bu_current_version_id b) of
          None \<Rightarrow> (Inl UnknownBudget, s)
        | Some version \<Rightarrow>
        if bu_currency b \<noteq> rq_currency req then (Inl CurrencyMismatch, s)
        else case hm_get (budget_balances s) (rq_budget_id req) of
          None \<Rightarrow> (Inl MissingBudgetBalance, s)
        | Some bal \<Rightarrow>
        if bal_remaining_amount bal < rq_amount req then (Inl InsufficientRemainingBudget, s)
        else case (amount_checked_sub (bal_remaining_amount bal) (rq_amount req),
                   amount_checked_add (bal_frozen_amount bal) (rq_amount req)) of
          (Some remaining, Some frozen) \<Rightarrow>
            let bal' = bal\<lparr>bal_remaining_amount := remaining, bal_frozen_amount := frozen\<rparr>;
                hold = \<lparr>bh_id = fresh_id, bh_budget_id = rq_budget_id req,
                        bh_budget_version_id = bv_id version,
                        bh_spend_decision_id = rq_spend_decision_id req,
                        bh_amount = rq_amount req, bh_currency = rq_currency req,
                        bh_status = Frozen, bh_executor_claim_id = None,
                        bh_created_at = now, bh_updated_at = now,
                        bh_expires_at = rq_expires_at req\<rparr>
            in (Inr \<lparr>hr_hold = hold, hr_balance = bal'\<rparr>,
                s\<lparr>budget_balances := hm_insert (rq_budget_id req) bal' (budget_balances s),
                  hold_id_by_spend_decision :=
                    hm_insert (bh_spend_decision_id hold) (bh_id hold)
                      (hold_id_by_spend_decision s),
                  budget_holds := hm_insert (bh_id hold) hold (budget_holds s)\<rparr>)
        | _ \<Rightarrow> (Inl BalanceOverflow, s))"

definition rollback_unpersisted_reservation ::
  "budget_hold \<Rightarrow> budget_balance \<Rightarrow> budget_state \<Rightarrow> budget_state" where
  "rollback_unpersisted_reservation hold before s =
     s\<lparr>budget_holds := hm_remove (bh_id hold) (budget_holds s),
       hold_id_by_spend_decision :=
         hm_remove (bh_spend_decision_id hold) (hold_id_by_spend_decision s),
       budget_balances := hm_insert (bal_budget_id before) before (budget_balances s)\<rparr>"

definition apply_persisted_finalization ::
  "budget_hold \<Rightarrow> budget_balance \<Rightarrow> budget_state \<Rightarrow> budget_state" where
  "apply_persisted_finalization hold balance s =
     s\<lparr>budget_holds := hm_insert (bh_id hold) hold (budget_holds s),
       budget_balances := hm_insert (bh_budget_id hold) balance (budget_balances s)\<rparr>"

definition claim_budget ::
  "budget_hold_id \<Rightarrow> spend_executor_claim_id \<Rightarrow> instant \<Rightarrow> instant \<Rightarrow> budget_state
     \<Rightarrow> (budget_manager_error + hold_response) \<times> budget_state" where
  "claim_budget hid claim_id expires_at now s =
     (case hm_get (budget_holds s) hid of
        None \<Rightarrow> (Inl UnknownBudgetHold, s)
      | Some hold \<Rightarrow>
          case hold_claim hold claim_id expires_at now of
            Inl e \<Rightarrow> (Inl (InvalidBudgetHoldTransition e), s)
          | Inr hold' \<Rightarrow>
              let s' = s\<lparr>budget_holds := hm_insert hid hold' (budget_holds s)\<rparr>
              in case hm_get (budget_balances s') (bh_budget_id hold') of
                   None \<Rightarrow> (Inl MissingBudgetBalance, s')
                 | Some bal \<Rightarrow> (Inr \<lparr>hr_hold = hold', hr_balance = bal\<rparr>, s'))"

definition settle_budget ::
  "budget_hold_id \<Rightarrow> amount \<Rightarrow> instant \<Rightarrow> budget_state
     \<Rightarrow> (budget_manager_error + hold_response) \<times> budget_state" where
  "settle_budget hid charged now s =
     (case hm_get (budget_holds s) hid of
        None \<Rightarrow> (Inl UnknownBudgetHold, s)
      | Some hold \<Rightarrow>
      if bh_expires_at hold \<le> now then (Inl ExpiredBudgetHold, s)
      else case hm_get (budget_balances s) (bh_budget_id hold) of
        None \<Rightarrow> (Inl MissingBudgetBalance, s)
      | Some bal \<Rightarrow>
      if is_negative charged \<or> bh_amount hold < charged then (Inl ChargeExceedsHold, s)
      else case amount_checked_sub (bh_amount hold) charged of
        None \<Rightarrow> (Inl BalanceOverflow, s)
      | Some released \<Rightarrow>
      case (amount_checked_sub (bal_frozen_amount bal) (bh_amount hold),
            amount_checked_add (bal_consumed_amount bal) charged,
            amount_checked_add (bal_remaining_amount bal) released) of
        (Some frozen, Some consumed, Some remaining) \<Rightarrow>
          (case hold_settle hold now of
             Inl e \<Rightarrow> (Inl (InvalidBudgetHoldTransition e), s)
           | Inr hold' \<Rightarrow>
               let bal' = bal\<lparr>bal_frozen_amount := frozen, bal_consumed_amount := consumed,
                              bal_remaining_amount := remaining\<rparr>
               in (Inr \<lparr>hr_hold = hold', hr_balance = bal'\<rparr>,
                   s\<lparr>budget_holds := hm_insert hid hold' (budget_holds s),
                     budget_balances := hm_insert (bh_budget_id hold) bal' (budget_balances s)\<rparr>))
      | _ \<Rightarrow> (Inl BalanceOverflow, s))"

definition release_budget ::
  "budget_hold_id \<Rightarrow> instant \<Rightarrow> budget_state
     \<Rightarrow> (budget_manager_error + hold_response) \<times> budget_state" where
  "release_budget hid now s =
     (case hm_get (budget_holds s) hid of
        None \<Rightarrow> (Inl UnknownBudgetHold, s)
      | Some hold \<Rightarrow>
      case hm_get (budget_balances s) (bh_budget_id hold) of
        None \<Rightarrow> (Inl MissingBudgetBalance, s)
      | Some bal \<Rightarrow>
      case (amount_checked_sub (bal_frozen_amount bal) (bh_amount hold),
            amount_checked_add (bal_remaining_amount bal) (bh_amount hold)) of
        (Some frozen, Some remaining) \<Rightarrow>
          (case hold_release hold now of
             Inl e \<Rightarrow> (Inl (InvalidBudgetHoldTransition e), s)
           | Inr hold' \<Rightarrow>
               let bal' = bal\<lparr>bal_frozen_amount := frozen, bal_remaining_amount := remaining\<rparr>
               in (Inr \<lparr>hr_hold = hold', hr_balance = bal'\<rparr>,
                   s\<lparr>budget_holds := hm_insert hid hold' (budget_holds s),
                     budget_balances := hm_insert (bh_budget_id hold) bal' (budget_balances s)\<rparr>))
      | _ \<Rightarrow> (Inl BalanceOverflow, s))"

text \<open>One iteration of the expiry loop, and the loop: it stops at the first error, keeping the
  holds expired so far.\<close>

definition expire_one ::
  "budget_hold_id \<Rightarrow> instant \<Rightarrow> budget_state
     \<Rightarrow> (budget_manager_error + hold_response) \<times> budget_state" where
  "expire_one hid now s =
     (case hm_get (budget_holds s) hid of
        None \<Rightarrow> (Inl UnknownBudgetHold, s)
      | Some hold \<Rightarrow>
      case hm_get (budget_balances s) (bh_budget_id hold) of
        None \<Rightarrow> (Inl MissingBudgetBalance, s)
      | Some bal \<Rightarrow>
      case (amount_checked_sub (bal_frozen_amount bal) (bh_amount hold),
            amount_checked_add (bal_remaining_amount bal) (bh_amount hold)) of
        (Some frozen, Some remaining) \<Rightarrow>
          let hold' = hold\<lparr>bh_status := Expired, bh_updated_at := now\<rparr>;
              bal' = bal\<lparr>bal_frozen_amount := frozen, bal_remaining_amount := remaining\<rparr>
          in (Inr \<lparr>hr_hold = hold', hr_balance = bal'\<rparr>,
              s\<lparr>budget_holds := hm_insert hid hold' (budget_holds s),
                budget_balances := hm_insert (bh_budget_id hold) bal' (budget_balances s)\<rparr>)
      | _ \<Rightarrow> (Inl BalanceOverflow, s))"

fun expire_loop ::
  "budget_hold_id list \<Rightarrow> instant \<Rightarrow> budget_state
     \<Rightarrow> (budget_manager_error + hold_response list) \<times> budget_state" where
  "expire_loop [] now s = (Inr [], s)"
| "expire_loop (hid # hids) now s =
     (case expire_one hid now s of
        (Inl e, s') \<Rightarrow> (Inl e, s')
      | (Inr r, s') \<Rightarrow>
          (case expire_loop hids now s' of
             (Inl e, s'') \<Rightarrow> (Inl e, s'')
           | (Inr rs, s'') \<Rightarrow> (Inr (r # rs), s'')))"

definition overdue_hold :: "instant \<Rightarrow> budget_hold \<Rightarrow> bool" where
  "overdue_hold now h \<longleftrightarrow> bh_status h = Frozen \<and> bh_expires_at h \<le> now"

definition expire_overdue_budget_holds ::
  "instant \<Rightarrow> budget_state \<Rightarrow> (budget_manager_error + hold_response list) \<times> budget_state" where
  "expire_overdue_budget_holds now s =
     expire_loop (map bh_id (filter (overdue_hold now) (hm_values (budget_holds s)))) now s"

end
