(* ===== verification/Budget_Invariant.thy ===== *)
theory Budget_Invariant
  imports Budget_State
begin

text \<open>
  The accounting invariant of the in-memory budget state and its preservation by every operation.
  For each budget the cached balance satisfies \<open>remaining = limit - consumed - frozen\<close>, with
  \<open>frozen\<close> the sum of the amounts of its frozen and claimed holds; every hold belongs to a known
  budget, version and decision and the decision index is exact; two budgets of one agent and currency
  that are not revoked never overlap in time.
\<close>

section \<open>The invariant\<close>

definition hold_weight :: "budget_id \<Rightarrow> budget_hold \<Rightarrow> int" where
  "hold_weight bid h = (if hold_active h \<and> bh_budget_id h = bid then units (bh_amount h) else 0)"

definition frozen_total :: "budget_state \<Rightarrow> budget_id \<Rightarrow> int" where
  "frozen_total s bid = sum_list (map (hold_weight bid) (hm_values (budget_holds s)))"

definition balance_ok :: "amount \<Rightarrow> int \<Rightarrow> budget_balance \<Rightarrow> bool" where
  "balance_ok limit frozen bal \<longleftrightarrow>
     0 \<le> units (bal_consumed_amount bal) \<and> amount_ok (bal_consumed_amount bal)
     \<and> units (bal_frozen_amount bal) = frozen \<and> amount_ok (bal_frozen_amount bal)
     \<and> units (bal_remaining_amount bal) = units limit - units (bal_consumed_amount bal) - frozen
     \<and> amount_ok (bal_remaining_amount bal)"

definition budget_entry_ok :: "budget_state \<Rightarrow> budget_id \<Rightarrow> budget \<Rightarrow> bool" where
  "budget_entry_ok s bid b \<longleftrightarrow>
     bu_id b = bid
     \<and> (\<exists>v bal. hm_get (budget_versions s) (bu_current_version_id b) = Some v
          \<and> bv_budget_id v = bid \<and> 0 < units (bv_amount_limit v) \<and> amount_ok (bv_amount_limit v)
          \<and> hm_get (budget_balances s) bid = Some bal \<and> bal_budget_id bal = bid
          \<and> balance_ok (bv_amount_limit v) (frozen_total s bid) bal)"

definition hold_entry_ok :: "budget_state \<Rightarrow> budget_hold_id \<Rightarrow> budget_hold \<Rightarrow> bool" where
  "hold_entry_ok s hid h \<longleftrightarrow>
     bh_id h = hid \<and> 0 < units (bh_amount h) \<and> amount_ok (bh_amount h)
     \<and> hm_get (hold_id_by_spend_decision s) (bh_spend_decision_id h) = Some hid
     \<and> (\<exists>b v. hm_get (budgets s) (bh_budget_id h) = Some b \<and> bu_currency b = bh_currency h
          \<and> hm_get (budget_versions s) (bh_budget_version_id h) = Some v
          \<and> bv_budget_id v = bh_budget_id h)"

definition rival_budgets :: "budget \<Rightarrow> budget \<Rightarrow> bool" where
  "rival_budgets b c \<longleftrightarrow>
     bu_administrative_state b \<noteq> AdminRevoked \<and> bu_administrative_state c \<noteq> AdminRevoked
     \<and> bu_agent_id b = bu_agent_id c \<and> bu_currency b = bu_currency c
     \<and> periods_overlap (bu_period b) (bu_period c)"

definition no_overlap :: "budget_state \<Rightarrow> bool" where
  "no_overlap s \<longleftrightarrow>
     (\<forall>i j b c. hm_get (budgets s) i = Some b \<and> hm_get (budgets s) j = Some c \<and> i \<noteq> j
        \<longrightarrow> \<not> rival_budgets b c)"

definition agent_index_ok :: "budget_state \<Rightarrow> bool" where
  "agent_index_ok s \<longleftrightarrow>
     (\<forall>a bid. (\<exists>l. hm_get (budget_ids_by_agent_id s) a = Some l \<and> bid \<in> set l)
        \<longleftrightarrow> (\<exists>b. hm_get (budgets s) bid = Some b \<and> bu_agent_id b = a))"

definition maps_wf :: "budget_state \<Rightarrow> bool" where
  "maps_wf s \<longleftrightarrow>
     hm_wf (budgets s) \<and> hm_wf (budget_versions s) \<and> hm_wf (budget_balances s)
     \<and> hm_wf (budget_holds s) \<and> hm_wf (hold_id_by_spend_decision s)"

definition budget_inv :: "budget_state \<Rightarrow> bool" where
  "budget_inv s \<longleftrightarrow>
     maps_wf s
     \<and> (\<forall>bid b. hm_get (budgets s) bid = Some b \<longrightarrow> budget_entry_ok s bid b)
     \<and> (\<forall>bid bal. hm_get (budget_balances s) bid = Some bal \<longrightarrow>
          (\<exists>b. hm_get (budgets s) bid = Some b))
     \<and> (\<forall>vid v. hm_get (budget_versions s) vid = Some v \<longrightarrow> bv_id v = vid)
     \<and> (\<forall>hid h. hm_get (budget_holds s) hid = Some h \<longrightarrow> hold_entry_ok s hid h)
     \<and> (\<forall>d hid. hm_get (hold_id_by_spend_decision s) d = Some hid \<longrightarrow>
          (\<exists>h. hm_get (budget_holds s) hid = Some h \<and> bh_spend_decision_id h = d))
     \<and> no_overlap s \<and> agent_index_ok s"

section \<open>Elimination\<close>

lemma budget_inv_wf: "budget_inv s \<Longrightarrow> maps_wf s"
  by (simp add: budget_inv_def)

lemma budget_inv_holds_wf [simp, intro]: "budget_inv s \<Longrightarrow> hm_wf (budget_holds s)"
  by (simp add: budget_inv_def maps_wf_def)

lemma budget_inv_budget:
  "budget_inv s \<Longrightarrow> hm_get (budgets s) bid = Some b \<Longrightarrow> budget_entry_ok s bid b"
  by (simp add: budget_inv_def)

lemma budget_inv_hold:
  "budget_inv s \<Longrightarrow> hm_get (budget_holds s) hid = Some h \<Longrightarrow> hold_entry_ok s hid h"
  by (simp add: budget_inv_def)

lemma budget_inv_balance:
  "budget_inv s \<Longrightarrow> hm_get (budget_balances s) bid = Some bal \<Longrightarrow> \<exists>b. hm_get (budgets s) bid = Some b"
  by (simp add: budget_inv_def)

lemma budget_inv_version:
  "budget_inv s \<Longrightarrow> hm_get (budget_versions s) vid = Some v \<Longrightarrow> bv_id v = vid"
  by (simp add: budget_inv_def)

lemma budget_inv_decision:
  "budget_inv s \<Longrightarrow> hm_get (hold_id_by_spend_decision s) d = Some hid \<Longrightarrow>
   \<exists>h. hm_get (budget_holds s) hid = Some h \<and> bh_spend_decision_id h = d"
  by (simp add: budget_inv_def)

lemma hold_weight_nonneg:
  "budget_inv s \<Longrightarrow> hm_get (budget_holds s) hid = Some h \<Longrightarrow> 0 \<le> hold_weight bid h"
  using budget_inv_hold by (fastforce simp: hold_weight_def hold_entry_ok_def)

lemma frozen_total_nonneg: "budget_inv s \<Longrightarrow> 0 \<le> frozen_total s bid"
  unfolding frozen_total_def using hold_weight_nonneg by (intro hm.sum_nonneg) auto

lemma frozen_total_ge_hold:
  assumes "budget_inv s" and "hm_get (budget_holds s) hid = Some h"
  shows "hold_weight bid h \<le> frozen_total s bid"
  unfolding frozen_total_def
  using assms hold_weight_nonneg[OF assms(1)] by (intro hm.sum_ge_member) auto

text \<open>The account behind a known hold: its budget, the current limit and the balance.\<close>

lemma budget_inv_hold_account:
  assumes "budget_inv s" and "hm_get (budget_holds s) hid = Some h"
  obtains b v bal where "hm_get (budgets s) (bh_budget_id h) = Some b"
    and "hm_get (budget_versions s) (bu_current_version_id b) = Some v"
    and "hm_get (budget_balances s) (bh_budget_id h) = Some bal"
    and "bal_budget_id bal = bh_budget_id h"
    and "0 < units (bv_amount_limit v)" and "amount_ok (bv_amount_limit v)"
    and "balance_ok (bv_amount_limit v) (frozen_total s (bh_budget_id h)) bal"
proof -
  from budget_inv_hold[OF assms] obtain b where b: "hm_get (budgets s) (bh_budget_id h) = Some b"
    by (auto simp: hold_entry_ok_def)
  from budget_inv_budget[OF assms(1) b] b that show thesis
    by (auto simp: budget_entry_ok_def)
qed

section \<open>The empty state\<close>

lemma budget_inv_new: "budget_inv budget_state_new"
  by (simp add: budget_inv_def budget_state_new_def maps_wf_def no_overlap_def agent_index_ok_def)

section \<open>Replacing a hold and its balance\<close>

definition same_reservation :: "budget_hold \<Rightarrow> budget_hold \<Rightarrow> bool" where
  "same_reservation h h' \<longleftrightarrow>
     bh_id h' = bh_id h \<and> bh_budget_id h' = bh_budget_id h
     \<and> bh_budget_version_id h' = bh_budget_version_id h
     \<and> bh_spend_decision_id h' = bh_spend_decision_id h
     \<and> bh_amount h' = bh_amount h \<and> bh_currency h' = bh_currency h"

lemma frozen_total_replace:
  assumes "hm_wf (budget_holds s)" and "hm_get (budget_holds s) hid = Some h"
  shows "frozen_total (s\<lparr>budget_holds := hm_insert hid h' (budget_holds s), budget_balances := bals\<rparr>) bid
       = frozen_total s bid - hold_weight bid h + hold_weight bid h'"
  using hm.sum_insert_old[OF assms, of "hold_weight bid" h'] by (simp add: frozen_total_def)

text \<open>
  The step every hold transition shares: a hold is replaced by one of the same reservation and its
  budget's balance by one that accounts for the change of the frozen total.
\<close>

lemma budget_inv_replace_hold:
  assumes inv: "budget_inv s" and h: "hm_get (budget_holds s) hid = Some h"
    and same: "same_reservation h h'"
    and b: "hm_get (budgets s) (bh_budget_id h) = Some b"
    and v: "hm_get (budget_versions s) (bu_current_version_id b) = Some v"
    and balid: "bal_budget_id bal' = bh_budget_id h"
    and bal: "balance_ok (bv_amount_limit v)
      (frozen_total s (bh_budget_id h) - hold_weight (bh_budget_id h) h
        + hold_weight (bh_budget_id h) h') bal'"
  shows "budget_inv (s\<lparr>budget_holds := hm_insert hid h' (budget_holds s),
                       budget_balances := hm_insert (bh_budget_id h) bal' (budget_balances s)\<rparr>)"
    (is "budget_inv ?s")
proof -
  have ft: "frozen_total ?s i = frozen_total s i - hold_weight i h + hold_weight i h'" for i
    using frozen_total_replace[OF budget_inv_holds_wf[OF inv] h] .
  have other: "frozen_total ?s i = frozen_total s i" if "i \<noteq> bh_budget_id h" for i
    using that same by (simp add: ft hold_weight_def same_reservation_def)
  have entries: "budget_entry_ok ?s i c" if c: "hm_get (budgets ?s) i = Some c" for i c
  proof (cases "i = bh_budget_id h")
    case True
    then have "c = b" using b c by simp
    moreover have "budget_entry_ok s i b" using budget_inv_budget[OF inv, of i b] True b by simp
    ultimately show ?thesis
      using True v balid bal by (auto simp: budget_entry_ok_def ft)
  next
    case False
    moreover have "budget_entry_ok s i c" using budget_inv_budget[OF inv, of i c] c by simp
    ultimately show ?thesis by (auto simp: budget_entry_ok_def other)
  qed
  have holds: "hold_entry_ok ?s i k" if k: "hm_get (budget_holds ?s) i = Some k" for i k
  proof (cases "i = hid")
    case True
    with k have "k = h'" by simp
    with True same budget_inv_hold[OF inv h] show ?thesis
      by (simp add: hold_entry_ok_def same_reservation_def)
  next
    case False
    with k have "hold_entry_ok s i k" using budget_inv_hold[OF inv, of i k] by simp
    then show ?thesis by (simp add: hold_entry_ok_def)
  qed
  have decisions: "\<exists>k. hm_get (budget_holds ?s) i = Some k \<and> bh_spend_decision_id k = d"
    if "hm_get (hold_id_by_spend_decision ?s) d = Some i" for d i
    using budget_inv_decision[OF inv, of d i] that h same by (auto simp: same_reservation_def)
  have balances: "\<exists>c. hm_get (budgets ?s) i = Some c" if "hm_get (budget_balances ?s) i = Some l" for i l
    using budget_inv_balance[OF inv] b that by (auto split: if_splits)
  have rest: "maps_wf ?s" "no_overlap ?s" "agent_index_ok ?s"
    using inv by (auto simp: budget_inv_def maps_wf_def no_overlap_def agent_index_ok_def)
  have versions: "bv_id w = i" if "hm_get (budget_versions ?s) i = Some w" for i w
    using budget_inv_version[OF inv] that by simp
  from entries holds decisions balances rest versions show ?thesis
    unfolding budget_inv_def by blast
qed

end
