(* ===== verification/Budget_Operations.thy ===== *)
theory Budget_Operations
  imports Budget_Invariant
begin

text \<open>
  What each budget operation does under the invariant, on the success and on the error branches,
  and the preservation of the invariant: reservations, claims, settlements, releases, the expiry
  loop, persisted finalizations, budget creation and revocation.
\<close>

section \<open>Reservations\<close>

definition reserved_hold ::
  "budget_hold_id \<Rightarrow> reserve_budget_request \<Rightarrow> instant \<Rightarrow> budget_version_id \<Rightarrow> budget_hold" where
  "reserved_hold fid req now vid =
     \<lparr>bh_id = fid, bh_budget_id = rq_budget_id req, bh_budget_version_id = vid,
      bh_spend_decision_id = rq_spend_decision_id req, bh_amount = rq_amount req,
      bh_currency = rq_currency req, bh_status = Frozen, bh_executor_claim_id = None,
      bh_created_at = now, bh_updated_at = now, bh_expires_at = rq_expires_at req\<rparr>"

definition reserved_balance :: "budget_balance \<Rightarrow> amount \<Rightarrow> budget_balance" where
  "reserved_balance bal a =
     bal\<lparr>bal_remaining_amount := Amount (units (bal_remaining_amount bal) - units a),
         bal_frozen_amount := Amount (units (bal_frozen_amount bal) + units a)\<rparr>"

lemma reserve_budget_at_error_state:
  "reserve_budget_at fid req now s = (Inl e, s') \<Longrightarrow> s' = s"
  by (auto simp: reserve_budget_at_def Let_def
      split: if_splits option.splits sum.splits prod.splits)

lemma reserve_budget_at_success:
  assumes "reserve_budget_at fid req now s = (Inr r, s')"
  obtains b v bal where
    "hm_get (budgets s) (rq_budget_id req) = Some b"
    "hm_get (budget_versions s) (bu_current_version_id b) = Some v"
    "hm_get (budget_balances s) (rq_budget_id req) = Some bal"
    "evaluate_budget_availability b v bal now = Inr AvailActive"
    "0 < units (rq_amount req)" "bu_currency b = rq_currency req"
    "units (rq_amount req) \<le> units (bal_remaining_amount bal)"
    "hm_get (hold_id_by_spend_decision s) (rq_spend_decision_id req) = None"
    "hr_hold r = reserved_hold fid req now (bv_id v)"
    "hr_balance r = reserved_balance bal (rq_amount req)"
    "s' = s\<lparr>budget_balances :=
               hm_insert (rq_budget_id req) (reserved_balance bal (rq_amount req)) (budget_balances s),
             hold_id_by_spend_decision :=
               hm_insert (rq_spend_decision_id req) fid (hold_id_by_spend_decision s),
             budget_holds := hm_insert fid (reserved_hold fid req now (bv_id v)) (budget_holds s)\<rparr>"
  using assms
  by (auto simp: reserve_budget_at_def Let_def get_budget_by_id_def budget_with_balance_of_def
      availability_at_def allows_reservation_def hm_contains_def res_simps bind_eq_Some_conv
      reserved_hold_def reserved_balance_def not_le not_less
      split: if_splits option.splits sum.splits prod.splits)

lemma frozen_total_reserve:
  assumes "hm_get (budget_holds s) fid = None"
  shows "frozen_total (s\<lparr>budget_balances := bals, hold_id_by_spend_decision := ds,
           budget_holds := hm_insert fid h (budget_holds s)\<rparr>) bid
       = frozen_total s bid + hold_weight bid h"
  using hm.sum_insert_new[OF assms, of "hold_weight bid" h] by (simp add: frozen_total_def)

lemma balance_ok_reserve:
  assumes "balance_ok l f bal" and "0 \<le> f" and "0 < units a" and "units a \<le> units (bal_remaining_amount bal)"
    and "amount_ok l"
  shows "balance_ok l (f + units a) (reserved_balance bal a)"
  using assms by (auto simp: balance_ok_def reserved_balance_def amount_ok_def range_simps)

text \<open>A reservation with a fresh hold identifier keeps the invariant.\<close>

lemma reserve_budget_at_inv:
  assumes inv: "budget_inv s" and fresh: "hm_get (budget_holds s) fid = None"
    and aok: "amount_ok (rq_amount req)"
    and run: "reserve_budget_at fid req now s = (res, s')"
  shows "budget_inv s'"
proof (cases res)
  case (Inl e)
  with run have "s' = s" using reserve_budget_at_error_state by blast
  with inv show ?thesis by simp
next
  case (Inr r)
  let ?i = "rq_budget_id req" and ?a = "rq_amount req"
  from run Inr obtain b v bal where
    b: "hm_get (budgets s) ?i = Some b" and
    v: "hm_get (budget_versions s) (bu_current_version_id b) = Some v" and
    bal: "hm_get (budget_balances s) ?i = Some bal" and
    amt: "0 < units ?a" "units ?a \<le> units (bal_remaining_amount bal)" and
    cur: "bu_currency b = rq_currency req" and
    dec: "hm_get (hold_id_by_spend_decision s) (rq_spend_decision_id req) = None" and
    s': "s' = s\<lparr>budget_balances :=
               hm_insert ?i (reserved_balance bal ?a) (budget_balances s),
             hold_id_by_spend_decision :=
               hm_insert (rq_spend_decision_id req) fid (hold_id_by_spend_decision s),
             budget_holds := hm_insert fid (reserved_hold fid req now (bv_id v)) (budget_holds s)\<rparr>"
    by (auto elim!: reserve_budget_at_success)
  let ?h = "reserved_hold fid req now (bv_id v)"
  have w: "hold_weight i ?h = (if i = ?i then units ?a else 0)" for i
    by (simp add: hold_weight_def reserved_hold_def hold_active_def)
  have ft: "frozen_total s' i = frozen_total s i + hold_weight i ?h" for i
    unfolding s' by (rule frozen_total_reserve[OF fresh])
  have be: "budget_entry_ok s ?i b" by (rule budget_inv_budget[OF inv b])
  have bok: "balance_ok (bv_amount_limit v) (frozen_total s ?i) bal"
    and lim: "amount_ok (bv_amount_limit v)"
    using be v bal by (auto simp: budget_entry_ok_def)
  have entries: "budget_entry_ok s' i c" if c: "hm_get (budgets s') i = Some c" for i c
  proof (cases "i = ?i")
    case True
    have "balance_ok (bv_amount_limit v) (frozen_total s' ?i) (reserved_balance bal ?a)"
      using balance_ok_reserve[OF bok frozen_total_nonneg[OF inv] amt lim] by (simp add: ft w)
    with True be b v bal c show ?thesis
      by (auto simp: budget_entry_ok_def s' reserved_balance_def)
  next
    case False
    with budget_inv_budget[OF inv, of i c] c show ?thesis
      by (auto simp: budget_entry_ok_def ft w) (auto simp: s')
  qed
  have dnew: "bh_spend_decision_id k \<noteq> rq_spend_decision_id req"
    if "hm_get (budget_holds s) i = Some k" for i k
    using budget_inv_hold[OF inv that] dec by (auto simp: hold_entry_ok_def)
  have holds: "hold_entry_ok s' i k" if k: "hm_get (budget_holds s') i = Some k" for i k
  proof (cases "i = fid")
    case True
    with k have "k = ?h" by (simp add: s')
    moreover have "bv_budget_id v = ?i" using be v by (auto simp: budget_entry_ok_def)
    moreover have "hm_get (budget_versions s) (bv_id v) = Some v"
      using budget_inv_version[OF inv v] v by simp
    ultimately show ?thesis
      using True amt aok b cur by (simp add: hold_entry_ok_def s' reserved_hold_def)
  next
    case False
    with k have k: "hm_get (budget_holds s) i = Some k" by (simp add: s')
    with dnew budget_inv_hold[OF inv k] show ?thesis by (simp add: hold_entry_ok_def s')
  qed
  have decisions: "\<exists>k. hm_get (budget_holds s') i = Some k \<and> bh_spend_decision_id k = d"
    if "hm_get (hold_id_by_spend_decision s') d = Some i" for d i
    using that budget_inv_decision[OF inv, of d i] fresh
    by (auto simp: s' reserved_hold_def split: if_splits)
  have rest: "maps_wf s'" "no_overlap s'" "agent_index_ok s'"
    using inv by (auto simp: s' budget_inv_def maps_wf_def no_overlap_def agent_index_ok_def)
  have balances: "\<exists>c. hm_get (budgets s') i = Some c" if "hm_get (budget_balances s') i = Some l" for i l
    using that budget_inv_balance[OF inv] b by (auto simp: s' split: if_splits)
  have versions: "bv_id u = i" if "hm_get (budget_versions s') i = Some u" for i u
    using that budget_inv_version[OF inv] by (simp add: s')
  from entries holds decisions rest balances versions show ?thesis
    unfolding budget_inv_def by blast
qed

text \<open>Under the invariant the overflow branch of a reservation is dead: the sums always fit.\<close>

lemma reserve_budget_at_no_overflow:
  assumes "budget_inv s"
  shows "fst (reserve_budget_at fid req now s) \<noteq> Inl BalanceOverflow"
proof
  assume "fst (reserve_budget_at fid req now s) = Inl BalanceOverflow"
  then obtain b v bal where b: "hm_get (budgets s) (rq_budget_id req) = Some b"
    and v: "hm_get (budget_versions s) (bu_current_version_id b) = Some v"
    and bal: "hm_get (budget_balances s) (rq_budget_id req) = Some bal"
    and le: "0 < units (rq_amount req)" "units (rq_amount req) \<le> units (bal_remaining_amount bal)"
    and ov: "\<not> fits_i64 (units (bal_remaining_amount bal) - units (rq_amount req))
      \<or> \<not> fits_i64 (units (bal_frozen_amount bal) + units (rq_amount req))"
    by (auto simp: reserve_budget_at_def Let_def get_budget_by_id_def budget_with_balance_of_def
        res_simps bind_eq_Some_conv not_le not_less
        split: if_splits option.splits sum.splits prod.splits)
  from budget_inv_budget[OF assms b] b v bal
  have "balance_ok (bv_amount_limit v) (frozen_total s (rq_budget_id req)) bal"
    and "amount_ok (bv_amount_limit v)" by (auto simp: budget_entry_ok_def)
  with le ov frozen_total_nonneg[OF assms, of "rq_budget_id req"] show False
    by (auto simp: balance_ok_def amount_ok_def range_simps)
qed

section \<open>Rolling back an unpersisted reservation\<close>

lemma rollback_reservation:
  assumes inv: "budget_inv s" and fresh: "hm_get (budget_holds s) fid = None"
    and bal: "hm_get (budget_balances s) (rq_budget_id req) = Some before"
    and run: "reserve_budget_at fid req now s = (Inr r, s')"
  shows "rollback_unpersisted_reservation (hr_hold r) before s' = s"
proof -
  obtain b where b: "hm_get (budgets s) (rq_budget_id req) = Some b"
    using budget_inv_balance[OF inv bal] by blast
  have "bal_budget_id before = rq_budget_id req"
    using budget_inv_budget[OF inv b] bal by (auto simp: budget_entry_ok_def)
  with run fresh bal show ?thesis
    by (auto elim!: reserve_budget_at_success
        simp: rollback_unpersisted_reservation_def reserved_hold_def hm_remove_insert_new
          hm_insert_back)
qed

section \<open>Claims\<close>

lemma hold_claim_same: "hold_claim h c e now = Inr h' \<Longrightarrow> same_reservation h h'"
  using hold_claim_frame by (auto simp: same_reservation_def)

lemma claim_budget_eq:
  assumes inv: "budget_inv s" and h: "hm_get (budget_holds s) hid = Some h"
  shows "\<exists>bal. hm_get (budget_balances s) (bh_budget_id h) = Some bal
    \<and> claim_budget hid c e now s =
      (case hold_claim h c e now of
         Inl err \<Rightarrow> (Inl (InvalidBudgetHoldTransition err), s)
       | Inr h' \<Rightarrow> (Inr \<lparr>hr_hold = h', hr_balance = bal\<rparr>,
                    s\<lparr>budget_holds := hm_insert hid h' (budget_holds s)\<rparr>))"
proof -
  from budget_inv_hold_account[OF inv h] obtain bal where
    bal: "hm_get (budget_balances s) (bh_budget_id h) = Some bal" by metis
  show ?thesis
  proof (cases "hold_claim h c e now")
    case (Inr h')
    then have "bh_budget_id h' = bh_budget_id h" using hold_claim_frame by blast
    with Inr bal h show ?thesis by (simp add: claim_budget_def Let_def)
  qed (simp add: claim_budget_def h bal)
qed

lemma budget_inv_claim_hold:
  assumes inv: "budget_inv s" and h: "hm_get (budget_holds s) hid = Some h"
    and c: "hold_claim h c e now = Inr h'"
  shows "budget_inv (s\<lparr>budget_holds := hm_insert hid h' (budget_holds s)\<rparr>)"
proof -
  from budget_inv_hold_account[OF inv h] obtain b v bal where
    b: "hm_get (budgets s) (bh_budget_id h) = Some b" and
    v: "hm_get (budget_versions s) (bu_current_version_id b) = Some v" and
    bal: "hm_get (budget_balances s) (bh_budget_id h) = Some bal" "bal_budget_id bal = bh_budget_id h"
    and ok: "balance_ok (bv_amount_limit v) (frozen_total s (bh_budget_id h)) bal"
    by metis
  have "hold_weight i h' = hold_weight i h" for i
    using hold_claim_frame[OF c] by (auto simp: hold_weight_def)
  then have "budget_inv (s\<lparr>budget_holds := hm_insert hid h' (budget_holds s),
               budget_balances := hm_insert (bh_budget_id h) bal (budget_balances s)\<rparr>)"
    using ok by (intro budget_inv_replace_hold[OF inv h hold_claim_same[OF c] b v bal(2)]) simp
  moreover have "hm_insert (bh_budget_id h) bal (budget_balances s) = budget_balances s"
    using bal(1) by (rule hm_insert_triv)
  ultimately show ?thesis by simp
qed

lemma claim_budget_inv:
  assumes "budget_inv s" and "claim_budget hid c e now s = (res, s')"
  shows "budget_inv s'"
proof (cases "hm_get (budget_holds s) hid")
  case None
  with assms show ?thesis by (auto simp: claim_budget_def)
next
  case (Some h)
  with claim_budget_eq[OF assms(1) Some, of c e now] assms budget_inv_claim_hold show ?thesis
    by (fastforce split: sum.splits)
qed

section \<open>Settlement, release and expiry\<close>

text \<open>The balance after a hold is closed with a charge: the hold thaws, the charge is consumed and
  the difference returns to the remaining balance.\<close>

definition closed_balance :: "budget_balance \<Rightarrow> amount \<Rightarrow> amount \<Rightarrow> budget_balance" where
  "closed_balance bal held charged =
     bal\<lparr>bal_frozen_amount := Amount (units (bal_frozen_amount bal) - units held),
         bal_consumed_amount := Amount (units (bal_consumed_amount bal) + units charged),
         bal_remaining_amount :=
           Amount (units (bal_remaining_amount bal) + (units held - units charged))\<rparr>"

lemma closed_balance_zero:
  "closed_balance bal held (Amount 0) =
     bal\<lparr>bal_frozen_amount := Amount (units (bal_frozen_amount bal) - units held),
         bal_remaining_amount := Amount (units (bal_remaining_amount bal) + units held)\<rparr>"
  by (simp add: closed_balance_def)

lemma balance_ok_close:
  assumes "balance_ok l f bal" and "units held \<le> f" and "0 < units held" and "0 \<le> units charged"
    and "fits_i64 (units (bal_consumed_amount bal) + units charged)"
    and "fits_i64 (units (bal_remaining_amount bal) + (units held - units charged))"
  shows "balance_ok l (f - units held) (closed_balance bal held charged)"
  using assms by (auto simp: balance_ok_def closed_balance_def amount_ok_def range_simps)

text \<open>A charge within the hold always fits the remaining and frozen sums; the consumed sum fits as
  long as the budget is not overspent.\<close>

lemma close_fits:
  assumes "balance_ok l f bal" and "units held \<le> f" and "0 < units held" and "amount_ok held"
    and "0 \<le> units charged" and "units charged \<le> units held" and "amount_ok l"
  shows "fits_i64 (units held - units charged)"
    and "fits_i64 (units (bal_frozen_amount bal) - units held)"
    and "fits_i64 (units (bal_remaining_amount bal) + (units held - units charged))"
    and "0 \<le> units (bal_remaining_amount bal) \<or> charged = Amount 0 \<Longrightarrow>
           fits_i64 (units (bal_consumed_amount bal) + units charged)"
  using assms by (auto simp: balance_ok_def amount_ok_def range_simps)

lemma budget_inv_close_hold:
  assumes inv: "budget_inv s" and h: "hm_get (budget_holds s) hid = Some h" and act: "hold_active h"
    and same: "same_reservation h h'" and closed: "\<not> hold_active h'"
    and bal: "hm_get (budget_balances s) (bh_budget_id h) = Some bal"
    and ch: "0 \<le> units charged"
    and fits: "fits_i64 (units (bal_consumed_amount bal) + units charged)"
      "fits_i64 (units (bal_remaining_amount bal) + (units (bh_amount h) - units charged))"
  shows "budget_inv (s\<lparr>budget_holds := hm_insert hid h' (budget_holds s),
           budget_balances := hm_insert (bh_budget_id h) (closed_balance bal (bh_amount h) charged)
             (budget_balances s)\<rparr>)"
proof -
  from budget_inv_hold_account[OF inv h] obtain b v where
    b: "hm_get (budgets s) (bh_budget_id h) = Some b" and
    v: "hm_get (budget_versions s) (bu_current_version_id b) = Some v" and
    i: "bal_budget_id bal = bh_budget_id h" and
    ok: "balance_ok (bv_amount_limit v) (frozen_total s (bh_budget_id h)) bal"
    using bal by (metis option.inject)
  have w: "hold_weight (bh_budget_id h) h = units (bh_amount h)" "hold_weight (bh_budget_id h) h' = 0"
    using act closed by (simp_all add: hold_weight_def)
  have "units (bh_amount h) \<le> frozen_total s (bh_budget_id h)"
    using frozen_total_ge_hold[OF inv h, of "bh_budget_id h"] w by simp
  moreover have "0 < units (bh_amount h)" using budget_inv_hold[OF inv h] by (simp add: hold_entry_ok_def)
  ultimately have "balance_ok (bv_amount_limit v)
      (frozen_total s (bh_budget_id h) - units (bh_amount h)) (closed_balance bal (bh_amount h) charged)"
    using balance_ok_close[OF ok] ch fits by blast
  with i show ?thesis
    by (intro budget_inv_replace_hold[OF inv h same b v]) (simp_all add: w closed_balance_def)
qed

text \<open>The same ranges for a hold of a state that satisfies the invariant.\<close>

lemma close_ranges:
  assumes inv: "budget_inv s" and h: "hm_get (budget_holds s) hid = Some h" and act: "hold_active h"
    and bal: "hm_get (budget_balances s) (bh_budget_id h) = Some bal"
    and ch: "0 \<le> units charged" "units charged \<le> units (bh_amount h)"
  shows "fits_i64 (units (bh_amount h) - units charged)"
    and "fits_i64 (units (bal_frozen_amount bal) - units (bh_amount h))"
    and "fits_i64 (units (bal_remaining_amount bal) + (units (bh_amount h) - units charged))"
    and "0 \<le> units (bal_remaining_amount bal) \<or> charged = Amount 0 \<Longrightarrow>
           fits_i64 (units (bal_consumed_amount bal) + units charged)"
proof -
  obtain v :: budget_version where lim: "amount_ok (bv_amount_limit v)"
    and ok: "balance_ok (bv_amount_limit v) (frozen_total s (bh_budget_id h)) bal"
    by (rule budget_inv_hold_account[OF inv h]) (simp add: bal)
  have le: "units (bh_amount h) \<le> frozen_total s (bh_budget_id h)"
    using frozen_total_ge_hold[OF inv h, of "bh_budget_id h"] act by (simp add: hold_weight_def)
  have pos: "0 < units (bh_amount h)" "amount_ok (bh_amount h)"
    using budget_inv_hold[OF inv h] by (simp_all add: hold_entry_ok_def)
  show "fits_i64 (units (bh_amount h) - units charged)"
    and "fits_i64 (units (bal_frozen_amount bal) - units (bh_amount h))"
    and "fits_i64 (units (bal_remaining_amount bal) + (units (bh_amount h) - units charged))"
    and "0 \<le> units (bal_remaining_amount bal) \<or> charged = Amount 0 \<Longrightarrow>
           fits_i64 (units (bal_consumed_amount bal) + units charged)"
    using close_fits[OF ok le pos ch lim] by blast+
qed

lemma settle_budget_success:
  assumes "settle_budget hid charged now s = (Inr r, s')"
  obtains h bal where
    "hm_get (budget_holds s) hid = Some h" "hold_active h" "now < bh_expires_at h"
    "hm_get (budget_balances s) (bh_budget_id h) = Some bal"
    "0 \<le> units charged" "units charged \<le> units (bh_amount h)"
    "fits_i64 (units (bal_consumed_amount bal) + units charged)"
    "hr_hold r = h\<lparr>bh_status := Settled, bh_updated_at := now\<rparr>"
    "hr_balance r = closed_balance bal (bh_amount h) charged"
    "s' = s\<lparr>budget_holds := hm_insert hid (h\<lparr>bh_status := Settled, bh_updated_at := now\<rparr>)
              (budget_holds s),
            budget_balances := hm_insert (bh_budget_id h) (closed_balance bal (bh_amount h) charged)
              (budget_balances s)\<rparr>"
  using assms
  by (auto simp: settle_budget_def Let_def is_negative_def res_simps hold_settle_iff
      closed_balance_def not_le not_less
      split: if_splits option.splits sum.splits prod.splits)

lemma settle_budget_error_state: "settle_budget hid charged now s = (Inl e, s') \<Longrightarrow> s' = s"
  by (auto simp: settle_budget_def Let_def split: if_splits option.splits sum.splits prod.splits)

lemma release_budget_success:
  assumes "release_budget hid now s = (Inr r, s')"
  obtains h bal where
    "hm_get (budget_holds s) hid = Some h" "hold_active h"
    "hm_get (budget_balances s) (bh_budget_id h) = Some bal"
    "hr_hold r = h\<lparr>bh_status := Released, bh_updated_at := now\<rparr>"
    "hr_balance r = closed_balance bal (bh_amount h) (Amount 0)"
    "s' = s\<lparr>budget_holds := hm_insert hid (h\<lparr>bh_status := Released, bh_updated_at := now\<rparr>)
              (budget_holds s),
            budget_balances := hm_insert (bh_budget_id h) (closed_balance bal (bh_amount h) (Amount 0))
              (budget_balances s)\<rparr>"
  using assms
  by (auto simp: release_budget_def Let_def res_simps hold_release_iff closed_balance_zero
      split: if_splits option.splits sum.splits prod.splits)

lemma release_budget_error_state: "release_budget hid now s = (Inl e, s') \<Longrightarrow> s' = s"
  by (auto simp: release_budget_def Let_def split: option.splits sum.splits prod.splits)

lemma same_reservation_status [simp]:
  "same_reservation h (h\<lparr>bh_status := st, bh_updated_at := t\<rparr>)"
  by (simp add: same_reservation_def)

lemma closed_status [simp]:
  "\<not> hold_active (h\<lparr>bh_status := Settled, bh_updated_at := t\<rparr>)"
  "\<not> hold_active (h\<lparr>bh_status := Released, bh_updated_at := t\<rparr>)"
  "\<not> hold_active (h\<lparr>bh_status := Expired, bh_updated_at := t\<rparr>)"
  by (simp_all add: hold_active_def)

lemma settle_budget_inv:
  assumes inv: "budget_inv s" and run: "settle_budget hid charged now s = (res, s')"
  shows "budget_inv s'"
proof (cases res)
  case (Inl e)
  with run have "s' = s" using settle_budget_error_state by blast
  with inv show ?thesis by simp
next
  case (Inr r)
  with run inv show ?thesis
    by (auto elim!: settle_budget_success intro!: budget_inv_close_hold dest: close_ranges(3))
qed

lemma budget_inv_release_hold:
  assumes "budget_inv s" and h: "hm_get (budget_holds s) hid = Some h" and "hold_active h"
    and "same_reservation h h'" and "\<not> hold_active h'"
    and "hm_get (budget_balances s) (bh_budget_id h) = Some bal"
  shows "budget_inv (s\<lparr>budget_holds := hm_insert hid h' (budget_holds s),
           budget_balances := hm_insert (bh_budget_id h) (closed_balance bal (bh_amount h) (Amount 0))
             (budget_balances s)\<rparr>)"
proof -
  have "0 < units (bh_amount h)" using budget_inv_hold[OF assms(1) h] by (simp add: hold_entry_ok_def)
  with close_ranges[OF assms(1-3,6), of "Amount 0"] show ?thesis
    by (intro budget_inv_close_hold[OF assms]) simp_all
qed

lemma release_budget_inv:
  assumes inv: "budget_inv s" and run: "release_budget hid now s = (res, s')"
  shows "budget_inv s'"
proof (cases res)
  case (Inl e)
  with run have "s' = s" using release_budget_error_state by blast
  with inv show ?thesis by simp
next
  case (Inr r)
  with run inv show ?thesis
    by (auto elim!: release_budget_success intro!: budget_inv_release_hold)
qed

text \<open>Expiring one active hold of a consistent state always succeeds.\<close>

definition expired_hold :: "instant \<Rightarrow> budget_hold \<Rightarrow> budget_hold" where
  "expired_hold now h = h\<lparr>bh_status := Expired, bh_updated_at := now\<rparr>"

lemma expired_hold_frame [simp]:
  "same_reservation h (expired_hold now h)" "\<not> hold_active (expired_hold now h)"
  by (simp_all add: expired_hold_def)

lemma expire_one_active:
  assumes inv: "budget_inv s" and h: "hm_get (budget_holds s) hid = Some h" and act: "hold_active h"
  obtains bal where "hm_get (budget_balances s) (bh_budget_id h) = Some bal"
    and "expire_one hid now s =
      (Inr \<lparr>hr_hold = expired_hold now h,
            hr_balance = closed_balance bal (bh_amount h) (Amount 0)\<rparr>,
       s\<lparr>budget_holds := hm_insert hid (expired_hold now h) (budget_holds s),
         budget_balances := hm_insert (bh_budget_id h)
           (closed_balance bal (bh_amount h) (Amount 0)) (budget_balances s)\<rparr>)"
proof -
  obtain bal where bal: "hm_get (budget_balances s) (bh_budget_id h) = Some bal"
    by (rule budget_inv_hold_account[OF inv h])
  have pos: "0 < units (bh_amount h)" using budget_inv_hold[OF inv h] by (simp add: hold_entry_ok_def)
  with close_ranges(2,3)[OF inv h act bal, of "Amount 0"]
  have "amount_checked_sub (bal_frozen_amount bal) (bh_amount h)
      = Some (Amount (units (bal_frozen_amount bal) - units (bh_amount h)))"
    and "amount_checked_add (bal_remaining_amount bal) (bh_amount h)
      = Some (Amount (units (bal_remaining_amount bal) + units (bh_amount h)))"
    by (simp_all add: res_simps)
  with h bal show thesis
    by (intro that[OF bal]) (simp add: expire_one_def Let_def closed_balance_zero expired_hold_def)
qed

text \<open>What the expiry loop may and may not change, besides the holds it is given.\<close>

definition same_consumption :: "budget_state \<Rightarrow> budget_state \<Rightarrow> bool" where
  "same_consumption s s' \<longleftrightarrow>
     budgets s' = budgets s \<and> budget_versions s' = budget_versions s
     \<and> hold_id_by_spend_decision s' = hold_id_by_spend_decision s
     \<and> budget_ids_by_agent_id s' = budget_ids_by_agent_id s
     \<and> (\<forall>bid. map_option bal_consumed_amount (hm_get (budget_balances s') bid)
              = map_option bal_consumed_amount (hm_get (budget_balances s) bid))"

lemma same_consumption_refl [simp]: "same_consumption s s"
  by (simp add: same_consumption_def)

lemma same_consumption_trans:
  "same_consumption s s' \<Longrightarrow> same_consumption s' s'' \<Longrightarrow> same_consumption s s''"
  by (simp add: same_consumption_def)

lemma same_consumption_close:
  "hm_get (budget_balances s) bid = Some bal \<Longrightarrow>
   same_consumption s (s\<lparr>budget_holds := hs,
     budget_balances := hm_insert bid (closed_balance bal a (Amount 0)) (budget_balances s)\<rparr>)"
  by (simp add: same_consumption_def closed_balance_zero)

lemma expire_loop_frozen:
  assumes "budget_inv s" and "distinct hids"
    and "\<forall>hid\<in>set hids. \<exists>h. hm_get (budget_holds s) hid = Some h \<and> bh_status h = Frozen"
  shows "\<exists>rs s'. expire_loop hids now s = (Inr rs, s') \<and> budget_inv s' \<and> same_consumption s s'
    \<and> map hr_hold rs = map (\<lambda>hid. expired_hold now (the (hm_get (budget_holds s) hid))) hids
    \<and> (\<forall>i. hm_get (budget_holds s') i =
          (if i \<in> set hids then map_option (expired_hold now) (hm_get (budget_holds s) i)
           else hm_get (budget_holds s) i))"
  using assms
proof (induction hids arbitrary: s)
  case Nil
  then show ?case by simp
next
  case (Cons hid hids)
  then obtain h where h: "hm_get (budget_holds s) hid = Some h" "bh_status h = Frozen" by auto
  then have act: "hold_active h" by (simp add: hold_active_def)
  obtain bal where bal: "hm_get (budget_balances s) (bh_budget_id h) = Some bal"
    and one: "expire_one hid now s =
      (Inr \<lparr>hr_hold = expired_hold now h, hr_balance = closed_balance bal (bh_amount h) (Amount 0)\<rparr>,
       s\<lparr>budget_holds := hm_insert hid (expired_hold now h) (budget_holds s),
         budget_balances := hm_insert (bh_budget_id h)
           (closed_balance bal (bh_amount h) (Amount 0)) (budget_balances s)\<rparr>)"
    (is "_ = (_, ?s1)")
    by (rule expire_one_active[OF Cons.prems(1) h(1) act])
  have inv1: "budget_inv ?s1"
    using Cons.prems(1) h act bal by (intro budget_inv_release_hold) simp_all
  have frozen1: "\<forall>i\<in>set hids. \<exists>k. hm_get (budget_holds ?s1) i = Some k \<and> bh_status k = Frozen"
    using Cons.prems(2,3) by auto
  obtain rs s' where loop: "expire_loop hids now ?s1 = (Inr rs, s')" "budget_inv s'"
    "same_consumption ?s1 s'"
    "map hr_hold rs = map (\<lambda>i. expired_hold now (the (hm_get (budget_holds ?s1) i))) hids"
    "\<forall>i. hm_get (budget_holds s') i =
          (if i \<in> set hids then map_option (expired_hold now) (hm_get (budget_holds ?s1) i)
           else hm_get (budget_holds ?s1) i)"
    using Cons.IH[OF inv1 _ frozen1] Cons.prems(2) by auto
  have "same_consumption s s'"
    using same_consumption_trans[OF same_consumption_close[OF bal]] loop(3) by blast
  moreover have "map hr_hold rs = map (\<lambda>i. expired_hold now (the (hm_get (budget_holds s) i))) hids"
    unfolding loop(4) using Cons.prems(2) by (intro map_cong) auto
  ultimately show ?case
    using loop(1,2,5) one h Cons.prems(2) by auto
qed

lemma overdue_ids:
  assumes "budget_inv s"
  shows "distinct (map bh_id (filter (overdue_hold now) (hm_values (budget_holds s))))"
    and "hid \<in> set (map bh_id (filter (overdue_hold now) (hm_values (budget_holds s)))) \<longleftrightarrow>
         (\<exists>h. hm_get (budget_holds s) hid = Some h \<and> overdue_hold now h)"
proof -
  have key: "bh_id h = i" if "hm_get (budget_holds s) i = Some h" for i h
    using budget_inv_hold[OF assms that] by (simp add: hold_entry_ok_def)
  have "distinct (map bh_id (hm_values (budget_holds s)))"
    using hm_values_keyed[OF budget_inv_holds_wf[OF assms] key] hm_keys_distinct[OF budget_inv_holds_wf[OF assms]]
    by simp
  then show "distinct (map bh_id (filter (overdue_hold now) (hm_values (budget_holds s))))"
    by (rule distinct_map_filter)
  show "hid \<in> set (map bh_id (filter (overdue_hold now) (hm_values (budget_holds s)))) \<longleftrightarrow>
         (\<exists>h. hm_get (budget_holds s) hid = Some h \<and> overdue_hold now h)"
    using key by (fastforce simp: hm.values_get[OF budget_inv_holds_wf[OF assms]])
qed

text \<open>The sweep succeeds on every consistent state and expires exactly the overdue frozen holds.\<close>

lemma expire_overdue_effect:
  assumes "budget_inv s"
  shows "\<exists>rs s'. expire_overdue_budget_holds now s = (Inr rs, s') \<and> budget_inv s' \<and> same_consumption s s'
    \<and> (\<forall>i. hm_get (budget_holds s') i =
          map_option (\<lambda>h. if overdue_hold now h then expired_hold now h else h)
            (hm_get (budget_holds s) i))"
proof -
  let ?ids = "map bh_id (filter (overdue_hold now) (hm_values (budget_holds s)))"
  have frozen: "\<forall>hid\<in>set ?ids. \<exists>h. hm_get (budget_holds s) hid = Some h \<and> bh_status h = Frozen"
    using overdue_ids(2)[OF assms] by (metis overdue_hold_def)
  obtain rs s' where run: "expire_loop ?ids now s = (Inr rs, s')" "budget_inv s'" "same_consumption s s'"
    and get: "\<forall>i. hm_get (budget_holds s') i =
          (if i \<in> set ?ids then map_option (expired_hold now) (hm_get (budget_holds s) i)
           else hm_get (budget_holds s) i)"
    using expire_loop_frozen[OF assms overdue_ids(1)[OF assms] frozen] by blast
  have "hm_get (budget_holds s') i =
          map_option (\<lambda>h. if overdue_hold now h then expired_hold now h else h)
            (hm_get (budget_holds s) i)" for i
    unfolding get[rule_format] overdue_ids(2)[OF assms]
    by (cases "hm_get (budget_holds s) i") auto
  with run show ?thesis unfolding expire_overdue_budget_holds_def by blast
qed

end
