(* ===== verification/Budget_Creation.thy ===== *)
theory Budget_Creation
  imports Budget_Operations
begin

text \<open>
  The operations on budgets themselves under the invariant: creating a budget, revoking it, and
  publishing a finalization that the store has committed.
\<close>

section \<open>Creation\<close>

lemma build_budget_success:
  assumes "build_budget_for_period ci agent limit cur period prov = Inr w"
  shows "bwb_budget w = budget_new (ci_budget_id ci) agent cur period (ci_version_id ci) (ci_now ci)"
    and "bwb_balance w = \<lparr>bal_budget_id = ci_budget_id ci, bal_consumed_amount = ZERO,
           bal_frozen_amount = ZERO, bal_remaining_amount = limit\<rparr>"
    and "bv_id (bwb_version w) = ci_version_id ci" "bv_budget_id (bwb_version w) = ci_budget_id ci"
    and "bv_amount_limit (bwb_version w) = limit" "0 < units limit"
    and "bv_revision (bwb_version w) = 1" "bv_predecessor_version_id (bwb_version w) = None"
  using assms
  by (auto simp: build_budget_for_period_def budget_version_initial_def budget_new_def Let_def
      res_simps not_le less_amount_def less_eq_amount_def ZERO_def split: if_splits)

lemma create_budget_success:
  assumes "create_budget_for_period ci agent limit cur period prov s = (Inr w, s')"
  shows "\<not> has_overlapping_budget s agent cur period" and "s' = insert_budget w s"
    and "build_budget_for_period ci agent limit cur period prov = Inr w"
  using assms by (auto simp: create_budget_for_period_def split: if_splits sum.splits)

lemma create_budget_error_state:
  "create_budget_for_period ci agent limit cur period prov s = (Inl e, s') \<Longrightarrow> s' = s"
  by (auto simp: create_budget_for_period_def split: if_splits sum.splits)

lemma has_overlapping_budget_iff:
  assumes "hm_wf (budgets s)"
  shows "has_overlapping_budget s agent cur period \<longleftrightarrow>
    (\<exists>bid b. hm_get (budgets s) bid = Some b \<and> bu_administrative_state b \<noteq> AdminRevoked
       \<and> bu_currency b = cur \<and> bu_agent_id b = agent \<and> periods_overlap (bu_period b) period)"
  unfolding has_overlapping_budget_def list_ex_iff using hm.values_get[OF assms] by blast

text \<open>A budget identifier that is not in use has no holds, so nothing is frozen for it.\<close>

lemma frozen_total_unused:
  assumes "budget_inv s" and "hm_get (budgets s) bid = None"
  shows "frozen_total s bid = 0"
proof -
  have "hold_weight bid h = 0" if "h \<in> set (hm_values (budget_holds s))" for h
  proof -
    from that obtain i where "hm_get (budget_holds s) i = Some h"
      using hm.values_get[OF budget_inv_holds_wf[OF assms(1)]] by blast
    from budget_inv_hold[OF assms(1) this] assms(2) show ?thesis
      by (auto simp: hold_entry_ok_def hold_weight_def)
  qed
  then have "map (hold_weight bid) (hm_values (budget_holds s)) = map (\<lambda>_. 0) (hm_values (budget_holds s))"
    by simp
  then show ?thesis unfolding frozen_total_def by (simp only: sum_list_0)
qed

lemma insert_budget_fields [simp]:
  "budget_holds (insert_budget w s) = budget_holds s"
  "hold_id_by_spend_decision (insert_budget w s) = hold_id_by_spend_decision s"
  "budgets (insert_budget w s) = hm_insert (bu_id (bwb_budget w)) (bwb_budget w) (budgets s)"
  "budget_versions (insert_budget w s) = hm_insert (bv_id (bwb_version w)) (bwb_version w) (budget_versions s)"
  "budget_balances (insert_budget w s) = hm_insert (bu_id (bwb_budget w)) (bwb_balance w) (budget_balances s)"
  "frozen_total (insert_budget w s) bid = frozen_total s bid"
  by (simp_all add: insert_budget_def index_budget_def Let_def frozen_total_def)

lemma agent_index_insert:
  assumes "agent_index_ok s" and "hm_get (budgets s) (bu_id (bwb_budget w)) = None"
  shows "agent_index_ok (insert_budget w s)"
proof -
  let ?b = "bwb_budget w"
  have "budget_ids_by_agent_id (insert_budget w s) =
    hm_insert (bu_agent_id ?b)
      ((case hm_get (budget_ids_by_agent_id s) (bu_agent_id ?b) of None \<Rightarrow> [] | Some l \<Rightarrow> l) @ [bu_id ?b])
      (budget_ids_by_agent_id s)"
    by (simp add: insert_budget_def index_budget_def Let_def)
  then have new: "(\<exists>l. hm_get (budget_ids_by_agent_id (insert_budget w s)) a = Some l \<and> bid \<in> set l)
    \<longleftrightarrow> (\<exists>l. hm_get (budget_ids_by_agent_id s) a = Some l \<and> bid \<in> set l)
        \<or> (a = bu_agent_id ?b \<and> bid = bu_id ?b)" for a bid
    by (auto split: option.splits)
  have old: "(\<exists>l. hm_get (budget_ids_by_agent_id s) a = Some l \<and> bid \<in> set l)
    \<longleftrightarrow> (\<exists>b. hm_get (budgets s) bid = Some b \<and> bu_agent_id b = a)" for a bid
    using assms(1) unfolding agent_index_ok_def by blast
  show ?thesis unfolding agent_index_ok_def new old using assms(2) by auto
qed

lemma create_budget_inv:
  assumes inv: "budget_inv s" and fresh: "hm_get (budgets s) (ci_budget_id ci) = None"
    "hm_get (budget_versions s) (ci_version_id ci) = None"
    and lim: "amount_ok limit"
    and run: "create_budget_for_period ci agent limit cur period prov s = (res, s')"
  shows "budget_inv s'"
proof (cases res)
  case (Inl e)
  with run have "s' = s" using create_budget_error_state by blast
  with inv show ?thesis by simp
next
  case (Inr w)
  note made = create_budget_success[OF run[unfolded Inr]]
  note no = made(1) and s' = made(2) and w = build_budget_success[OF made(3)]
  have ids: "bu_id (bwb_budget w) = ci_budget_id ci" "bu_current_version_id (bwb_budget w) = ci_version_id ci"
    "bu_agent_id (bwb_budget w) = agent" "bu_currency (bwb_budget w) = cur" "bu_period (bwb_budget w) = period"
    by (simp_all add: w(1) budget_new_def)
  have wf: "maps_wf s'" using inv by (simp add: s' budget_inv_def maps_wf_def)
  have entries: "budget_entry_ok s' i c" if c: "hm_get (budgets s') i = Some c" for i c
  proof (cases "i = ci_budget_id ci")
    case True
    with c have "c = bwb_budget w" by (simp add: s' ids)
    with True w(2-6) lim frozen_total_unused[OF inv fresh(1)] show ?thesis
      by (simp add: budget_entry_ok_def s' ids balance_ok_def amount_ok_def range_simps ZERO_def)
  next
    case False
    with c have "hm_get (budgets s) i = Some c" by (simp add: s' ids)
    from budget_inv_budget[OF inv this] False fresh show ?thesis
      by (auto simp: budget_entry_ok_def s' ids w(2-6))
  qed
  have holds: "hold_entry_ok s' i k" if "hm_get (budget_holds s') i = Some k" for i k
  proof -
    have k: "hold_entry_ok s i k" using that budget_inv_hold[OF inv] by (simp add: s')
    with fresh show ?thesis by (auto simp: hold_entry_ok_def s' ids w(2-6))
  qed
  have overlap: "no_overlap s'"
  proof -
    have "\<not> rival_budgets c (bwb_budget w)" if "hm_get (budgets s) i = Some c" for i c
      using no that has_overlapping_budget_iff inv
      by (auto simp: rival_budgets_def ids budget_inv_def maps_wf_def)
    moreover have "rival_budgets c d = rival_budgets d c" for c d
      by (auto simp: rival_budgets_def periods_overlap_sym)
    moreover have "no_overlap s" using inv by (simp add: budget_inv_def)
    ultimately show ?thesis by (auto simp: no_overlap_def s' ids)
  qed
  have index: "agent_index_ok s'"
    using agent_index_insert[of s w] inv fresh(1) by (simp add: s' ids budget_inv_def)
  have balances: "\<exists>c. hm_get (budgets s') i = Some c" if "hm_get (budget_balances s') i = Some l" for i l
    using that budget_inv_balance[OF inv] by (auto simp: s' split: if_splits)
  have versions: "bv_id u = i" if "hm_get (budget_versions s') i = Some u" for i u
    using that budget_inv_version[OF inv] by (auto simp: s' split: if_splits)
  have decisions: "\<exists>k. hm_get (budget_holds s') i = Some k \<and> bh_spend_decision_id k = d"
    if "hm_get (hold_id_by_spend_decision s') d = Some i" for d i
    using that budget_inv_decision[OF inv] by (simp add: s')
  from wf entries holds overlap index balances versions decisions show ?thesis
    unfolding budget_inv_def by blast
qed

section \<open>Revocation\<close>

lemma revoke_budget_at_eq:
  assumes inv: "budget_inv s" and b: "hm_get (budgets s) bid = Some b"
  obtains v bal where "hm_get (budget_versions s) (bu_current_version_id b) = Some v"
    and "hm_get (budget_balances s) bid = Some bal"
    and "revoke_budget_at bid now s =
      (if bu_administrative_state b = AdminRevoked then (Inl BudgetAlreadyRevoked, s)
       else (Inr \<lparr>bwb_budget = b\<lparr>bu_administrative_state := AdminRevoked, bu_updated_at := now\<rparr>,
                  bwb_version = v, bwb_balance = bal\<rparr>,
             s\<lparr>budgets := hm_insert bid
                 (b\<lparr>bu_administrative_state := AdminRevoked, bu_updated_at := now\<rparr>) (budgets s)\<rparr>))"
  using budget_inv_budget[OF inv b] b that
  by (auto simp: budget_entry_ok_def revoke_budget_at_def Let_def)

lemma budget_inv_revoke:
  assumes inv: "budget_inv s" and b: "hm_get (budgets s) bid = Some b"
  shows "budget_inv (s\<lparr>budgets := hm_insert bid
           (b\<lparr>bu_administrative_state := AdminRevoked, bu_updated_at := now\<rparr>) (budgets s)\<rparr>)"
    (is "budget_inv ?s")
proof -
  have ft: "frozen_total ?s i = frozen_total s i" for i by (simp add: frozen_total_def)
  have "budget_entry_ok ?s i c" if "hm_get (budgets ?s) i = Some c" for i c
    using that budget_inv_budget[OF inv, of i] b
    by (auto simp: budget_entry_ok_def ft split: if_splits)
  moreover have "hold_entry_ok ?s i k" if "hm_get (budget_holds ?s) i = Some k" for i k
    using that budget_inv_hold[OF inv, of i k] b by (auto simp: hold_entry_ok_def)
  moreover have "no_overlap ?s"
    using inv b by (auto simp: budget_inv_def no_overlap_def rival_budgets_def)
  moreover have "agent_index_ok ?s"
    using inv b by (auto simp: budget_inv_def agent_index_ok_def)
  moreover have "maps_wf ?s" using inv by (simp add: budget_inv_def maps_wf_def)
  ultimately show ?thesis using inv unfolding budget_inv_def by auto
qed

lemma revoke_budget_at_inv:
  assumes inv: "budget_inv s" and run: "revoke_budget_at bid now s = (res, s')"
  shows "budget_inv s'"
proof (cases "hm_get (budgets s) bid")
  case None
  with inv run show ?thesis by (auto simp: revoke_budget_at_def split: option.splits)
next
  case (Some b)
  from revoke_budget_at_eq[OF inv Some, of now] run budget_inv_revoke[OF inv Some, of now] inv
  show ?thesis by (metis prod.inject)
qed

section \<open>Persisted finalizations\<close>

text \<open>
  A committed finalization closes an active hold with an actual charge that may exceed the hold: the
  overrun is consumed and the remaining balance may become negative.
\<close>

definition finalizes :: "budget_state \<Rightarrow> budget_hold \<Rightarrow> budget_balance \<Rightarrow> amount \<Rightarrow> bool" where
  "finalizes s hold balance charged \<longleftrightarrow>
     (case hm_get (budget_holds s) (bh_id hold) of
        None \<Rightarrow> False
      | Some h \<Rightarrow>
          (case hm_get (budget_balances s) (bh_budget_id h) of
             None \<Rightarrow> False
           | Some bal \<Rightarrow>
               hold_active h \<and> same_reservation h hold \<and> \<not> hold_active hold
               \<and> 0 \<le> units charged \<and> balance = closed_balance bal (bh_amount h) charged
               \<and> fits_i64 (units (bal_consumed_amount balance))
               \<and> fits_i64 (units (bal_remaining_amount balance))))"

lemma apply_persisted_finalization_inv:
  assumes inv: "budget_inv s" and fin: "finalizes s hold balance charged"
  shows "budget_inv (apply_persisted_finalization hold balance s)"
proof -
  from fin obtain h bal where h: "hm_get (budget_holds s) (bh_id hold) = Some h"
    and bal: "hm_get (budget_balances s) (bh_budget_id h) = Some bal"
    and c: "hold_active h" "same_reservation h hold" "\<not> hold_active hold" "0 \<le> units charged"
      "balance = closed_balance bal (bh_amount h) charged"
      "fits_i64 (units (bal_consumed_amount balance))" "fits_i64 (units (bal_remaining_amount balance))"
    by (auto simp: finalizes_def split: option.splits)
  have "fits_i64 (units (bal_consumed_amount bal) + units charged)"
    "fits_i64 (units (bal_remaining_amount bal) + (units (bh_amount h) - units charged))"
    using c(5-7) by (simp_all add: closed_balance_def)
  from budget_inv_close_hold[OF inv h c(1-3) bal c(4) this] c(2,5) show ?thesis
    by (simp add: apply_persisted_finalization_def same_reservation_def)
qed

end
