(* ===== verification/Budget_Hydration.thy ===== *)
theory Budget_Hydration
  imports Budget_Creation
begin

text \<open>
  \<open>BudgetState::from_records\<close> of \<^verbatim>\<open>crates/hubu-core/src/budget/state.rs\<close>: the in-memory state is rebuilt
  from the persisted budgets, versions, balances and holds, and every inconsistency of the records is
  an error. One definition per loop of the function; the loops run in the order of the source. The
  theorems: a hydrated state satisfies the accounting invariant, and the versions of each budget form
  one chain of consecutive revisions that ends in the current version.
\<close>

section \<open>The loops\<close>

text \<open>Lines 58--79: the versions, each with positive limit and revision and complete metadata.\<close>

definition hydrate_version ::
  "budget_state \<Rightarrow> budget_version \<Rightarrow> budget_manager_error + budget_state" where
  "hydrate_version s v =
     (if bv_amount_limit v \<le> ZERO \<or> bv_revision v = 0 \<or> is_blank (bv_actor v)
         \<or> is_blank (bv_source v) \<or> is_blank (bv_request_fingerprint v)
      then Inl (InvalidPersistedState (InvalidVersionMetadata (bv_id v)))
      else if hm_contains (budget_versions s) (bv_id v)
      then Inl (InvalidPersistedState DuplicateVersionId)
      else Inr (s\<lparr>budget_versions := hm_insert (bv_id v) v (budget_versions s)\<rparr>))"

text \<open>Lines 80--101: the budgets, each with a current version of its own.\<close>

definition hydrate_budget ::
  "budget_state \<Rightarrow> budget \<Rightarrow> budget_manager_error + budget_state" where
  "hydrate_budget s b =
     (case hm_get (budget_versions s) (bu_current_version_id b) of
        None \<Rightarrow> Inl (InvalidPersistedState (NoCurrentVersion (bu_id b)))
      | Some current_version \<Rightarrow>
          if bv_budget_id current_version \<noteq> bu_id b
          then Inl (InvalidPersistedState (CurrentVersionOfOtherBudget (bu_id b)))
          else if hm_contains (budgets s) (bu_id b)
          then Inl (InvalidPersistedState DuplicateBudgetId)
          else let s = index_budget b s in
               Inr (s\<lparr>budgets := hm_insert (bu_id b) b (budgets s)\<rparr>))"

text \<open>Lines 103--121: no two budgets that are not revoked overlap for one agent and currency. The
  pairs are visited in the order of the printed identifiers, which is the order of the UUIDs.\<close>

definition budget_id_key :: "budget_id \<Rightarrow> uuid" where
  "budget_id_key i = (case i of BudgetId u \<Rightarrow> u)"

fun check_overlaps :: "budget list \<Rightarrow> budget_manager_error + unit" where
  "check_overlaps [] = Inr ()"
| "check_overlaps (left # rest) =
     (if bu_administrative_state left = AdminRevoked then check_overlaps rest
      else and_then
        (try_each (\<lambda>right.
           if bu_administrative_state right \<noteq> AdminRevoked
              \<and> bu_agent_id left = bu_agent_id right \<and> bu_currency left = bu_currency right
              \<and> periods_overlap (bu_period left) (bu_period right)
           then Inl (InvalidPersistedState (OverlappingBudgets (bu_id left) (bu_id right)))
           else Inr ()) rest)
        (\<lambda>_. check_overlaps rest))"

text \<open>Lines 123--182: the version chains.\<close>

record chain_state =
  cs_state :: budget_state
  cs_revisions :: "(budget_id \<times> int) list"
  cs_predecessors :: "(budget_id \<times> budget_version_id) list"
  cs_highest_revision_by_budget :: "(budget_id, int) hmap"

definition note_highest :: "budget_version \<Rightarrow> (budget_id, int) hmap \<Rightarrow> (budget_id, int) hmap" where
  "note_highest v m =
     hm_insert (bv_budget_id v)
       (case hm_get m (bv_budget_id v) of None \<Rightarrow> bv_revision v | Some r \<Rightarrow> max r (bv_revision v)) m"

definition hydrate_chain ::
  "chain_state \<Rightarrow> budget_version \<Rightarrow> budget_manager_error + chain_state" where
  "hydrate_chain c v =
     (let s = cs_state c; key = (bv_budget_id v, bv_revision v) in
      if \<not> hm_contains (budgets s) (bv_budget_id v)
      then Inl (InvalidPersistedState (VersionWithoutBudget (bv_id v)))
      else if key \<in> set (cs_revisions c)
      then Inl (InvalidPersistedState (DuplicateRevision (bv_budget_id v) (bv_revision v)))
      else
        let s = s\<lparr>budget_version_id_by_revision :=
                    hm_insert key (bv_id v) (budget_version_id_by_revision s)\<rparr>;
            c = c\<lparr>cs_state := s, cs_revisions := key # cs_revisions c\<rparr>
        in and_then
          (case bv_predecessor_version_id v of
             None \<Rightarrow>
               if bv_revision v = 1 then Inr c
               else Inl (InvalidPersistedState (InvalidRootRevision (bv_id v)))
           | Some predecessor_id \<Rightarrow>
               if \<not> bv_revision v > 1
               then Inl (InvalidPersistedState (InvalidRootRevision (bv_id v)))
               else case hm_get (budget_versions s) predecessor_id of
                 None \<Rightarrow> Inl (InvalidPersistedState (MissingPredecessor (bv_id v)))
               | Some predecessor \<Rightarrow>
                   if bv_budget_id predecessor \<noteq> bv_budget_id v
                      \<or> checked fits_u64 (bv_revision predecessor + 1) \<noteq> Some (bv_revision v)
                   then Inl (InvalidPersistedState (InvalidPredecessorChain (bv_id v)))
                   else if (bv_budget_id v, predecessor_id) \<in> set (cs_predecessors c)
                   then Inl (InvalidPersistedState (MultipleSuccessors predecessor_id))
                   else Inr (c\<lparr>cs_predecessors := (bv_budget_id v, predecessor_id) # cs_predecessors c,
                               cs_state := s\<lparr>successor_version_id_by_predecessor :=
                                 hm_insert predecessor_id (bv_id v)
                                   (successor_version_id_by_predecessor s)\<rparr>\<rparr>))
          (\<lambda>c. Inr (c\<lparr>cs_highest_revision_by_budget :=
                       note_highest v (cs_highest_revision_by_budget c)\<rparr>)))"

text \<open>Lines 184--192: every budget points at its latest version. (The lookup by index of the source
  cannot panic here: the budget loop found the current version.)\<close>

definition check_latest ::
  "(budget_id, int) hmap \<Rightarrow> budget_state \<Rightarrow> budget \<Rightarrow> budget_manager_error + unit" where
  "check_latest highest s b =
     (if hm_get highest (bu_id b)
         \<noteq> map_option bv_revision (hm_get (budget_versions s) (bu_current_version_id b))
      then Inl (InvalidPersistedState (NotLatestVersion (bu_id b)))
      else Inr ())"

text \<open>Lines 194--239: the balances, each derived from the current limit, and one for every budget.\<close>

definition hydrate_balance ::
  "budget_state \<Rightarrow> budget_balance \<Rightarrow> budget_manager_error + budget_state" where
  "hydrate_balance s bal =
     and_then (ok_or (InvalidPersistedState (BalanceOfUnknownBudget (bal_budget_id bal)))
                (hm_get (budgets s) (bal_budget_id bal))) (\<lambda>b.
     if is_negative (bal_consumed_amount bal) \<or> is_negative (bal_frozen_amount bal)
     then Inl (InvalidPersistedState (NegativeBalance (bal_budget_id bal)))
     else and_then
       (ok_or (InvalidPersistedState (BalanceOutOfRange (bal_budget_id bal)))
          (Option.bind (hm_get (budget_versions s) (bu_current_version_id b))
             (\<lambda>v. derived_remaining (bv_amount_limit v) bal))) (\<lambda>derived.
     if bal_remaining_amount bal \<noteq> derived
     then Inl (InvalidPersistedState (RemainingNotDerived (bal_budget_id bal)))
     else if hm_contains (budget_balances s) (bal_budget_id bal)
     then Inl (InvalidPersistedState DuplicateBalance)
     else Inr (s\<lparr>budget_balances := hm_insert (bal_budget_id bal) bal (budget_balances s)\<rparr>)))"

definition check_has_balance ::
  "budget_state \<Rightarrow> budget_id \<Rightarrow> budget_manager_error + unit" where
  "check_has_balance s bid =
     ensure (hm_contains (budget_balances s) bid) (InvalidPersistedState (MissingBalance bid))"

text \<open>Lines 240--286: the holds; the active ones are added up per budget.\<close>

definition note_frozen ::
  "budget_hold \<Rightarrow> (budget_id, amount) hmap \<Rightarrow> budget_manager_error + (budget_id, amount) hmap" where
  "note_frozen h frozen =
     (if bh_status h = Frozen \<or> bh_status h = Claimed
      then and_then
        (ok_or (InvalidPersistedState (FrozenOutOfRange (bh_budget_id h)))
          (amount_checked_add
             (case hm_get frozen (bh_budget_id h) of None \<Rightarrow> ZERO | Some a \<Rightarrow> a) (bh_amount h)))
        (\<lambda>a. Inr (hm_insert (bh_budget_id h) a frozen))
      else Inr frozen)"

definition hydrate_hold ::
  "budget_state \<times> (budget_id, amount) hmap \<Rightarrow> budget_hold
     \<Rightarrow> budget_manager_error + (budget_state \<times> (budget_id, amount) hmap)" where
  "hydrate_hold acc h =
     (case acc of (s, frozen) \<Rightarrow>
      and_then (ok_or (InvalidPersistedState (HoldOfUnknownVersion (bh_id h)))
                 (hm_get (budget_versions s) (bh_budget_version_id h))) (\<lambda>version.
      if bv_budget_id version \<noteq> bh_budget_id h
         \<or> \<not> hm_contains (budget_balances s) (bh_budget_id h)
         \<or> is_none_or (\<lambda>b. bu_currency b \<noteq> bh_currency h) (hm_get (budgets s) (bh_budget_id h))
         \<or> bh_amount h \<le> ZERO
      then Inl (InvalidPersistedState (HoldMismatch (bh_id h)))
      else if hm_contains (hold_id_by_spend_decision s) (bh_spend_decision_id h)
      then Inl (InvalidPersistedState MultipleHoldsForDecision)
      else and_then (note_frozen h frozen) (\<lambda>frozen.
      if hm_contains (budget_holds s) (bh_id h)
      then Inl (InvalidPersistedState DuplicateHoldId)
      else Inr (s\<lparr>hold_id_by_spend_decision :=
                    hm_insert (bh_spend_decision_id h) (bh_id h) (hold_id_by_spend_decision s),
                  budget_holds := hm_insert (bh_id h) h (budget_holds s)\<rparr>, frozen))))"

text \<open>Lines 287--294: the frozen balance of every budget is the sum of its active holds.\<close>

definition check_frozen ::
  "(budget_id, amount) hmap \<Rightarrow> budget_balance \<Rightarrow> budget_manager_error + unit" where
  "check_frozen frozen bal =
     (if (case hm_get frozen (bal_budget_id bal) of None \<Rightarrow> ZERO | Some a \<Rightarrow> a) \<noteq> bal_frozen_amount bal
      then Inl (InvalidPersistedState (FrozenNotMatchingHolds (bal_budget_id bal)))
      else Inr ())"

definition from_records ::
  "budget list \<Rightarrow> budget_version list \<Rightarrow> budget_balance list \<Rightarrow> budget_hold list
     \<Rightarrow> budget_manager_error + budget_state" where
  "from_records bs vs bals hs =
     and_then (try_fold hydrate_version budget_state_new vs) (\<lambda>s.
     and_then (try_fold hydrate_budget s bs) (\<lambda>s.
     and_then (check_overlaps (sort_key (\<lambda>b. budget_id_key (bu_id b)) (hm_values (budgets s)))) (\<lambda>_.
     and_then (try_fold hydrate_chain
       \<lparr>cs_state = s, cs_revisions = [], cs_predecessors = [], cs_highest_revision_by_budget = hm_empty\<rparr>
       (hm_values (budget_versions s))) (\<lambda>c.
     let s = cs_state c in
     and_then (try_each (check_latest (cs_highest_revision_by_budget c) s) (hm_values (budgets s))) (\<lambda>_.
     and_then (try_fold hydrate_balance s bals) (\<lambda>s.
     and_then (try_each (check_has_balance s) (hm_keys (budgets s))) (\<lambda>_.
     and_then (try_fold hydrate_hold (s, hm_empty) hs) (\<lambda>(s, frozen).
     and_then (try_each (check_frozen frozen) (hm_values (budget_balances s))) (\<lambda>_.
     Inr s)))))))))"

section \<open>What each loop establishes\<close>

text \<open>The persisted amounts are \<open>i64\<close> values.\<close>

definition record_amounts_ok ::
  "budget_version list \<Rightarrow> budget_balance list \<Rightarrow> budget_hold list \<Rightarrow> bool" where
  "record_amounts_ok vs bals hs \<longleftrightarrow>
     list_all (\<lambda>v. amount_ok (bv_amount_limit v)) vs
     \<and> list_all (\<lambda>bal. amount_ok (bal_consumed_amount bal) \<and> amount_ok (bal_frozen_amount bal)
                   \<and> amount_ok (bal_remaining_amount bal)) bals
     \<and> list_all (\<lambda>h. amount_ok (bh_amount h)) hs"

definition versions_hydrated :: "budget_state \<Rightarrow> bool" where
  "versions_hydrated s \<longleftrightarrow>
     hm_wf (budget_versions s)
     \<and> (\<forall>vid v. hm_get (budget_versions s) vid = Some v \<longrightarrow>
          bv_id v = vid \<and> 0 < units (bv_amount_limit v) \<and> amount_ok (bv_amount_limit v)
          \<and> bv_revision v \<noteq> 0)"

definition budgets_hydrated :: "budget_state \<Rightarrow> bool" where
  "budgets_hydrated s \<longleftrightarrow>
     hm_wf (budgets s) \<and> agent_index_ok s
     \<and> (\<forall>bid b. hm_get (budgets s) bid = Some b \<longrightarrow>
          bu_id b = bid \<and> (\<exists>v. hm_get (budget_versions s) (bu_current_version_id b) = Some v
                             \<and> bv_budget_id v = bid))"

definition no_accounts :: "budget_state \<Rightarrow> bool" where
  "no_accounts s \<longleftrightarrow> budget_balances s = hm_empty \<and> budget_holds s = hm_empty
     \<and> hold_id_by_spend_decision s = hm_empty"

lemma hydrate_versions_ok:
  assumes run: "try_fold hydrate_version budget_state_new vs = Inr s"
    and ok: "list_all (\<lambda>v. amount_ok (bv_amount_limit v)) vs"
  shows "versions_hydrated s \<and> no_accounts s \<and> budgets s = hm_empty \<and> budget_ids_by_agent_id s = hm_empty"
proof (rule try_fold_preserves[OF _ _ run])
  show "versions_hydrated budget_state_new \<and> no_accounts budget_state_new
      \<and> budgets budget_state_new = hm_empty \<and> budget_ids_by_agent_id budget_state_new = hm_empty"
    by (simp add: versions_hydrated_def no_accounts_def budget_state_new_def)
next
  fix s v s'
  assume I: "versions_hydrated s \<and> no_accounts s \<and> budgets s = hm_empty \<and> budget_ids_by_agent_id s = hm_empty"
    and v: "v \<in> set vs" and step: "hydrate_version s v = Inr s'"
  from v ok have "amount_ok (bv_amount_limit v)" by (auto simp: list_all_iff)
  with I step show "versions_hydrated s' \<and> no_accounts s' \<and> budgets s' = hm_empty
      \<and> budget_ids_by_agent_id s' = hm_empty"
    by (auto simp: hydrate_version_def versions_hydrated_def no_accounts_def not_le less_amount_def ZERO_def
        split: if_splits)
qed

lemma hydrate_budget_ok:
  assumes I: "versions_hydrated s \<and> no_accounts s \<and> budgets_hydrated s" and step: "hydrate_budget s b = Inr s'"
  shows "versions_hydrated s' \<and> no_accounts s' \<and> budgets_hydrated s'"
proof -
  from step obtain v where v: "hm_get (budget_versions s) (bu_current_version_id b) = Some v"
    and own: "bv_budget_id v = bu_id b" and new: "hm_get (budgets s) (bu_id b) = None"
    and s': "s' = (index_budget b s)\<lparr>budgets := hm_insert (bu_id b) b (budgets s)\<rparr>"
    by (auto simp: hydrate_budget_def hm_contains_def Let_def index_budget_def split: option.splits if_splits)
  let ?w = "\<lparr>bwb_budget = b, bwb_version = v, bwb_balance = undefined\<rparr>"
  have "agent_index_ok (insert_budget ?w s)"
    using I new by (intro agent_index_insert) (simp_all add: budgets_hydrated_def)
  then have "agent_index_ok s'"
    by (simp add: agent_index_ok_def s' insert_budget_def index_budget_def Let_def)
  with I v own new show ?thesis
    by (auto simp: versions_hydrated_def no_accounts_def budgets_hydrated_def s' index_budget_def)
qed

lemma hydrate_budgets_ok:
  assumes run: "try_fold hydrate_budget s bs = Inr s'"
    and I: "versions_hydrated s \<and> no_accounts s \<and> budgets s = hm_empty \<and> budget_ids_by_agent_id s = hm_empty"
  shows "versions_hydrated s' \<and> no_accounts s' \<and> budgets_hydrated s'"
proof (rule try_fold_preserves[OF _ _ run])
  show "versions_hydrated s \<and> no_accounts s \<and> budgets_hydrated s"
    using I by (simp add: budgets_hydrated_def agent_index_ok_def)
qed (use hydrate_budget_ok in blast)

lemma check_overlaps_ok:
  assumes "check_overlaps bs = Inr u" and "b \<in> set bs" and "c \<in> set bs" and "b \<noteq> c"
  shows "\<not> rival_budgets b c"
  using assms
proof (induction bs arbitrary: u)
  case (Cons left rest)
  have tail: "\<exists>u. check_overlaps rest = Inr u" using Cons.prems(1) by (auto simp: res_simps split: if_splits)
  have head: "\<not> rival_budgets left r" if "r \<in> set rest" for r
    using Cons.prems(1) that
    by (auto simp: rival_budgets_def res_simps try_each_ok_iff split: if_splits)
  have sym: "rival_budgets x y \<longleftrightarrow> rival_budgets y x" for x y
    by (auto simp: rival_budgets_def periods_overlap_sym)
  show ?case using Cons.IH tail Cons.prems(2-4) head sym by auto
qed simp

lemma check_overlaps_no_overlap:
  assumes "check_overlaps (sort_key f (hm_values (budgets s))) = Inr u" and "budgets_hydrated s"
  shows "no_overlap s"
proof -
  have wf: "hm_wf (budgets s)" and id: "\<And>i b. hm_get (budgets s) i = Some b \<Longrightarrow> bu_id b = i"
    using assms(2) by (auto simp: budgets_hydrated_def)
  have "\<not> rival_budgets b c" if "hm_get (budgets s) i = Some b" "hm_get (budgets s) j = Some c" "i \<noteq> j" for i j b c
  proof -
    have "b \<in> set (hm_values (budgets s))" "c \<in> set (hm_values (budgets s))" "b \<noteq> c"
      using that hm.values_get[OF wf] id by blast+
    then show ?thesis using check_overlaps_ok[OF assms(1)] by simp
  qed
  then show ?thesis unfolding no_overlap_def by blast
qed

section \<open>The version chains\<close>

definition same_accounts :: "budget_state \<Rightarrow> budget_state \<Rightarrow> bool" where
  "same_accounts s s' \<longleftrightarrow>
     budgets s' = budgets s \<and> budget_versions s' = budget_versions s
     \<and> budget_ids_by_agent_id s' = budget_ids_by_agent_id s \<and> budget_balances s' = budget_balances s
     \<and> budget_holds s' = budget_holds s \<and> hold_id_by_spend_decision s' = hold_id_by_spend_decision s"

text \<open>One version is linked: it is a root of revision one, or its predecessor is the previous revision
  of the same budget.\<close>

definition linked :: "budget_state \<Rightarrow> budget_version \<Rightarrow> bool" where
  "linked s v \<longleftrightarrow>
     hm_contains (budgets s) (bv_budget_id v)
     \<and> (case bv_predecessor_version_id v of
          None \<Rightarrow> bv_revision v = 1
        | Some p \<Rightarrow> 1 < bv_revision v \<and>
            (\<exists>q. hm_get (budget_versions s) p = Some q \<and> bv_budget_id q = bv_budget_id v
               \<and> bv_revision q + 1 = bv_revision v))"

definition highest_ok :: "budget_version list \<Rightarrow> (budget_id, int) hmap \<Rightarrow> bool" where
  "highest_ok vs m \<longleftrightarrow>
     (\<forall>bid. case hm_get m bid of
        None \<Rightarrow> \<forall>v\<in>set vs. bv_budget_id v \<noteq> bid
      | Some r \<Rightarrow> (\<exists>v\<in>set vs. bv_budget_id v = bid \<and> bv_revision v = r)
                 \<and> (\<forall>v\<in>set vs. bv_budget_id v = bid \<longrightarrow> bv_revision v \<le> r))"

lemma highest_ok_snoc:
  assumes "highest_ok vs m"
  shows "highest_ok (vs @ [v]) (note_highest v m)"
  unfolding highest_ok_def
proof
  fix bid
  have old: "case hm_get m bid of
        None \<Rightarrow> \<forall>v\<in>set vs. bv_budget_id v \<noteq> bid
      | Some r \<Rightarrow> (\<exists>v\<in>set vs. bv_budget_id v = bid \<and> bv_revision v = r)
                 \<and> (\<forall>v\<in>set vs. bv_budget_id v = bid \<longrightarrow> bv_revision v \<le> r)"
    using assms unfolding highest_ok_def by blast
  show "case hm_get (note_highest v m) bid of
        None \<Rightarrow> \<forall>v\<in>set (vs @ [v]). bv_budget_id v \<noteq> bid
      | Some r \<Rightarrow> (\<exists>w\<in>set (vs @ [v]). bv_budget_id w = bid \<and> bv_revision w = r)
                 \<and> (\<forall>w\<in>set (vs @ [v]). bv_budget_id w = bid \<longrightarrow> bv_revision w \<le> r)"
  proof (cases "bid = bv_budget_id v")
    case False
    with old show ?thesis by (auto simp: note_highest_def split: option.splits)
  next
    case True
    with old show ?thesis
      by (auto simp: note_highest_def max_def split: option.splits)
  qed
qed

definition chain_inv :: "budget_state \<Rightarrow> budget_version list \<Rightarrow> chain_state \<Rightarrow> bool" where
  "chain_inv s vs c \<longleftrightarrow>
     same_accounts s (cs_state c)
     \<and> set (cs_revisions c) = (\<lambda>v. (bv_budget_id v, bv_revision v)) ` set vs
     \<and> distinct (map (\<lambda>v. (bv_budget_id v, bv_revision v)) vs)
     \<and> (\<forall>v\<in>set vs. linked s v)
     \<and> highest_ok vs (cs_highest_revision_by_budget c)"

lemma hydrate_chain_step:
  assumes I: "chain_inv s vs c" and step: "hydrate_chain c v = Inr c'"
  shows "chain_inv s (vs @ [v]) c'"
proof -
  have acc: "same_accounts s (cs_state c)" using I by (simp add: chain_inv_def)
  have new: "(bv_budget_id v, bv_revision v) \<notin> set (cs_revisions c)"
    using step by (auto simp: hydrate_chain_def Let_def split: if_splits)
  have hi: "cs_highest_revision_by_budget c' = note_highest v (cs_highest_revision_by_budget c)"
    and rev: "cs_revisions c' = (bv_budget_id v, bv_revision v) # cs_revisions c"
    and fr: "same_accounts (cs_state c) (cs_state c')"
    using step
    by (auto simp: hydrate_chain_def Let_def res_simps same_accounts_def split: if_splits option.splits)
  have "linked (cs_state c) v"
    using step
    by (auto simp: hydrate_chain_def Let_def res_simps linked_def split: if_splits option.splits)
  then have link: "linked s v" using acc by (auto simp: linked_def same_accounts_def split: option.splits)
  have sa: "same_accounts s (cs_state c')" using acc fr by (simp add: same_accounts_def)
  have hok: "highest_ok (vs @ [v]) (cs_highest_revision_by_budget c')"
    unfolding hi using I by (intro highest_ok_snoc) (simp add: chain_inv_def)
  show ?thesis
    using I sa hok link new by (auto simp: chain_inv_def rev)
qed

lemma hydrate_chains_ok:
  assumes "try_fold hydrate_chain
      \<lparr>cs_state = s, cs_revisions = [], cs_predecessors = [], cs_highest_revision_by_budget = hm_empty\<rparr> vs = Inr c"
  shows "chain_inv s vs c"
proof -
  have "chain_inv s ([] @ vs) c"
  proof (rule try_fold_invariant[OF _ _ assms])
    show "chain_inv s [] \<lparr>cs_state = s, cs_revisions = [], cs_predecessors = [],
        cs_highest_revision_by_budget = hm_empty\<rparr>"
      by (simp add: chain_inv_def same_accounts_def highest_ok_def)
  qed (rule hydrate_chain_step)
  then show ?thesis by simp
qed

text \<open>Linked versions with distinct revisions enumerate the revisions from one to the highest.\<close>

lemma linked_downward:
  assumes link: "\<And>v. v \<in> V \<Longrightarrow> linked s v"
    and pred: "\<And>vid q. hm_get (budget_versions s) vid = Some q \<Longrightarrow> q \<in> V"
    and v: "v \<in> V" "bv_budget_id v = bid" "bv_revision v = int n + 1" and r: "1 \<le> r" "r \<le> int n + 1"
  shows "\<exists>w\<in>V. bv_budget_id w = bid \<and> bv_revision w = r"
  using v r
proof (induction n arbitrary: v)
  case 0
  then have "r = 1" by simp
  with 0 show ?case by auto
next
  case (Suc n)
  show ?case
  proof (cases "r = int (Suc n) + 1")
    case True
    with Suc.prems show ?thesis by blast
  next
    case False
    from link[OF Suc.prems(1)] Suc.prems(3) obtain p q where
      "hm_get (budget_versions s) p = Some q" "bv_budget_id q = bv_budget_id v" "bv_revision q + 1 = bv_revision v"
      by (auto simp: linked_def split: option.splits)
    with Suc.prems Suc.IH[of q] pred False show ?thesis by auto
  qed
qed

lemma linked_positive: "linked s v \<Longrightarrow> 1 \<le> bv_revision v"
  by (auto simp: linked_def split: option.splits)

lemma linked_enumerates:
  assumes link: "\<forall>v\<in>set vs. linked s v"
    and dist: "distinct (map (\<lambda>v. (bv_budget_id v, bv_revision v)) vs)"
    and pred: "\<And>vid q. hm_get (budget_versions s) vid = Some q \<Longrightarrow> q \<in> set vs"
    and top: "c \<in> set vs" "bv_budget_id c = bid" "\<forall>v\<in>set vs. bv_budget_id v = bid \<longrightarrow> bv_revision v \<le> bv_revision c"
  shows "map bv_revision (sort_key bv_revision (filter (\<lambda>v. bv_budget_id v = bid) vs)) = [1..bv_revision c]"
proof (rule sorted_distinct_set_unique)
  let ?l = "filter (\<lambda>v. bv_budget_id v = bid) vs"
  have "distinct vs" and inj: "inj_on (\<lambda>v. (bv_budget_id v, bv_revision v)) (set vs)"
    using dist by (simp_all add: distinct_map)
  then have "inj_on bv_revision (set ?l)" by (auto simp: inj_on_def)
  with \<open>distinct vs\<close> show "distinct (map bv_revision (sort_key bv_revision ?l))" by (simp add: distinct_map)
  obtain n where n: "bv_revision c = int n + 1"
    using linked_positive[of s c] link top(1) by (metis zle_iff_zadd add.commute)
  have "r \<in> bv_revision ` set ?l" if "1 \<le> r" "r \<le> bv_revision c" for r
    using linked_downward[of "set vs" s c bid n r] link pred top(1,2) n that by force
  moreover have "1 \<le> bv_revision v \<and> bv_revision v \<le> bv_revision c" if "v \<in> set ?l" for v
    using that top(3) link linked_positive by auto
  ultimately show "set (map bv_revision (sort_key bv_revision ?l)) = set [1..bv_revision c]" by auto
qed simp_all

section \<open>The balances and the holds\<close>

definition balances_hydrated :: "budget_state \<Rightarrow> bool" where
  "balances_hydrated s \<longleftrightarrow>
     hm_wf (budget_balances s)
     \<and> (\<forall>bid bal. hm_get (budget_balances s) bid = Some bal \<longrightarrow>
          bal_budget_id bal = bid
          \<and> (\<exists>b v. hm_get (budgets s) bid = Some b
               \<and> hm_get (budget_versions s) (bu_current_version_id b) = Some v
               \<and> balance_ok (bv_amount_limit v) (units (bal_frozen_amount bal)) bal))"

definition no_holds :: "budget_state \<Rightarrow> bool" where
  "no_holds s \<longleftrightarrow> budget_holds s = hm_empty \<and> hold_id_by_spend_decision s = hm_empty"

lemma hydrate_balance_ok:
  assumes step: "hydrate_balance s bal = Inr s'" and I: "balances_hydrated s \<and> no_holds s"
    and ok: "amount_ok (bal_consumed_amount bal)" "amount_ok (bal_frozen_amount bal)"
      "amount_ok (bal_remaining_amount bal)"
  shows "balances_hydrated s' \<and> no_holds s' \<and> budgets s' = budgets s \<and> budget_versions s' = budget_versions s
    \<and> budget_ids_by_agent_id s' = budget_ids_by_agent_id s"
proof -
  from step obtain b v where b: "hm_get (budgets s) (bal_budget_id bal) = Some b"
    and v: "hm_get (budget_versions s) (bu_current_version_id b) = Some v"
    and nn: "0 \<le> units (bal_consumed_amount bal)" "0 \<le> units (bal_frozen_amount bal)"
    and rem: "derived_remaining (bv_amount_limit v) bal = Some (bal_remaining_amount bal)"
    and s': "s' = s\<lparr>budget_balances := hm_insert (bal_budget_id bal) bal (budget_balances s)\<rparr>"
    by (auto simp: hydrate_balance_def res_simps bind_eq_Some_conv is_negative_def not_less split: if_splits)
  have "units (bal_remaining_amount bal) =
      units (bv_amount_limit v) - units (bal_consumed_amount bal) - units (bal_frozen_amount bal)"
    using rem by (simp add: res_simps)
  then have "balance_ok (bv_amount_limit v) (units (bal_frozen_amount bal)) bal"
    using nn ok by (simp add: balance_ok_def)
  with I b v show ?thesis by (auto simp: balances_hydrated_def no_holds_def s')
qed

lemma hydrate_balances_ok:
  assumes run: "try_fold hydrate_balance s bals = Inr s'"
    and ok: "list_all (\<lambda>bal. amount_ok (bal_consumed_amount bal) \<and> amount_ok (bal_frozen_amount bal)
                   \<and> amount_ok (bal_remaining_amount bal)) bals"
    and I: "no_accounts s"
  shows "balances_hydrated s' \<and> no_holds s' \<and> budgets s' = budgets s \<and> budget_versions s' = budget_versions s
    \<and> budget_ids_by_agent_id s' = budget_ids_by_agent_id s"
proof (rule try_fold_preserves[OF _ _ run])
  show "balances_hydrated s \<and> no_holds s \<and> budgets s = budgets s \<and> budget_versions s = budget_versions s
    \<and> budget_ids_by_agent_id s = budget_ids_by_agent_id s"
    using I by (simp add: balances_hydrated_def no_holds_def no_accounts_def)
next
  fix bal s1 s2
  assume "balances_hydrated s1 \<and> no_holds s1 \<and> budgets s1 = budgets s \<and> budget_versions s1 = budget_versions s
      \<and> budget_ids_by_agent_id s1 = budget_ids_by_agent_id s"
    and "bal \<in> set bals" and "hydrate_balance s1 bal = Inr s2"
  with ok hydrate_balance_ok[of s1 bal s2] show "balances_hydrated s2 \<and> no_holds s2 \<and> budgets s2 = budgets s
      \<and> budget_versions s2 = budget_versions s \<and> budget_ids_by_agent_id s2 = budget_ids_by_agent_id s"
    by (simp add: list_all_iff)
qed

definition frozen_of :: "(budget_id, amount) hmap \<Rightarrow> budget_id \<Rightarrow> int" where
  "frozen_of m bid = (case hm_get m bid of None \<Rightarrow> 0 | Some a \<Rightarrow> units a)"

definition holds_hydrated :: "budget_state \<Rightarrow> (budget_id, amount) hmap \<Rightarrow> bool" where
  "holds_hydrated s frozen \<longleftrightarrow>
     hm_wf (budget_holds s) \<and> hm_wf (hold_id_by_spend_decision s)
     \<and> (\<forall>hid h. hm_get (budget_holds s) hid = Some h \<longrightarrow> hold_entry_ok s hid h)
     \<and> (\<forall>d hid. hm_get (hold_id_by_spend_decision s) d = Some hid \<longrightarrow>
          (\<exists>h. hm_get (budget_holds s) hid = Some h \<and> bh_spend_decision_id h = d))
     \<and> (\<forall>bid. frozen_of frozen bid = frozen_total s bid)"

lemma note_frozen_of:
  "note_frozen h frozen = Inr frozen' \<Longrightarrow> frozen_of frozen' bid = frozen_of frozen bid + hold_weight bid h"
  by (auto simp: note_frozen_def frozen_of_def hold_weight_def hold_active_def res_simps ZERO_def
      split: if_splits option.splits)

lemma hydrate_hold_ok:
  assumes step: "hydrate_hold (s, frozen) h = Inr (s', frozen')" and I: "holds_hydrated s frozen"
    and ok: "amount_ok (bh_amount h)"
  shows "holds_hydrated s' frozen' \<and> budgets s' = budgets s \<and> budget_versions s' = budget_versions s
    \<and> budget_ids_by_agent_id s' = budget_ids_by_agent_id s \<and> budget_balances s' = budget_balances s"
proof -
  from step obtain v b where v: "hm_get (budget_versions s) (bh_budget_version_id h) = Some v"
      "bv_budget_id v = bh_budget_id h"
    and b: "hm_get (budgets s) (bh_budget_id h) = Some b" "bu_currency b = bh_currency h"
    and pos: "0 < units (bh_amount h)"
    and d: "hm_get (hold_id_by_spend_decision s) (bh_spend_decision_id h) = None"
    and new: "hm_get (budget_holds s) (bh_id h) = None"
    and fr: "note_frozen h frozen = Inr frozen'"
    and s': "s' = s\<lparr>hold_id_by_spend_decision :=
          hm_insert (bh_spend_decision_id h) (bh_id h) (hold_id_by_spend_decision s),
        budget_holds := hm_insert (bh_id h) h (budget_holds s)\<rparr>"
    by (auto simp: hydrate_hold_def res_simps hm_contains_def is_none_or_def not_le less_amount_def ZERO_def
        split: if_splits option.splits)
  have "frozen_total s' bid = frozen_total s bid + hold_weight bid h" for bid
    using hm.sum_insert_new[OF new, of "hold_weight bid" h] by (simp add: s' frozen_total_def)
  then have fz: "\<forall>bid. frozen_of frozen' bid = frozen_total s' bid"
    using I note_frozen_of[OF fr] by (simp add: holds_hydrated_def)
  have "hold_entry_ok s' i k" if k: "hm_get (budget_holds s') i = Some k" for i k
  proof (cases "i = bh_id h")
    case True
    with k v b pos ok show ?thesis by (auto simp: s' hold_entry_ok_def)
  next
    case False
    with k have "hold_entry_ok s i k" using I by (simp add: s' holds_hydrated_def)
    with d show ?thesis by (auto simp: s' hold_entry_ok_def)
  qed
  moreover have "\<exists>k. hm_get (budget_holds s') i = Some k \<and> bh_spend_decision_id k = e"
    if "hm_get (hold_id_by_spend_decision s') e = Some i" for e i
    using that I new by (fastforce simp: s' holds_hydrated_def split: if_splits)
  ultimately show ?thesis using I fz by (simp add: holds_hydrated_def s')
qed

lemma hydrate_holds_ok:
  assumes run: "try_fold hydrate_hold (s, hm_empty) hs = Inr (s', frozen)"
    and ok: "list_all (\<lambda>h. amount_ok (bh_amount h)) hs" and I: "no_holds s"
  shows "holds_hydrated s' frozen \<and> budgets s' = budgets s \<and> budget_versions s' = budget_versions s
    \<and> budget_ids_by_agent_id s' = budget_ids_by_agent_id s \<and> budget_balances s' = budget_balances s"
proof -
  let ?I = "\<lambda>(t, f). holds_hydrated t f \<and> budgets t = budgets s \<and> budget_versions t = budget_versions s
    \<and> budget_ids_by_agent_id t = budget_ids_by_agent_id s \<and> budget_balances t = budget_balances s"
  have "?I (s', frozen)"
  proof (rule try_fold_preserves[OF _ _ run])
    show "?I (s, hm_empty)"
      using I by (simp add: holds_hydrated_def no_holds_def frozen_of_def frozen_total_def hm.values_empty)
  next
    fix h acc acc'
    assume "?I acc" and "h \<in> set hs" and "hydrate_hold acc h = Inr acc'"
    moreover from this ok have "amount_ok (bh_amount h)" by (simp add: list_all_iff)
    ultimately show "?I acc'"
      using hydrate_hold_ok by (cases acc; cases acc') fastforce
  qed
  then show ?thesis by simp
qed

section \<open>The hydrated state\<close>

text \<open>The intermediate states of a successful hydration.\<close>

lemma from_records_success:
  assumes "from_records bs vs bals hs = Inr s"
  obtains s1 s2 c s3 frozen where
    "try_fold hydrate_version budget_state_new vs = Inr s1"
    "try_fold hydrate_budget s1 bs = Inr s2"
    "check_overlaps (sort_key (\<lambda>b. budget_id_key (bu_id b)) (hm_values (budgets s2))) = Inr ()"
    "try_fold hydrate_chain \<lparr>cs_state = s2, cs_revisions = [], cs_predecessors = [],
       cs_highest_revision_by_budget = hm_empty\<rparr> (hm_values (budget_versions s2)) = Inr c"
    "try_each (check_latest (cs_highest_revision_by_budget c) (cs_state c)) (hm_values (budgets (cs_state c))) = Inr ()"
    "try_fold hydrate_balance (cs_state c) bals = Inr s3"
    "try_each (check_has_balance s3) (hm_keys (budgets s3)) = Inr ()"
    "try_fold hydrate_hold (s3, hm_empty) hs = Inr (s, frozen)"
    "try_each (check_frozen frozen) (hm_values (budget_balances s)) = Inr ()"
  using assms by (auto simp: from_records_def Let_def and_then_eq_Inr_iff split: prod.splits)

lemma no_overlap_cong: "budgets s' = budgets s \<Longrightarrow> no_overlap s' \<longleftrightarrow> no_overlap s"
  by (simp add: no_overlap_def)

lemma from_records_facts:
  assumes run: "from_records bs vs bals hs = Inr s" and ok: "record_amounts_ok vs bals hs"
  obtains frozen where "versions_hydrated s" "budgets_hydrated s" "no_overlap s" "balances_hydrated s"
    "holds_hydrated s frozen" "\<forall>bid\<in>set (hm_keys (budgets s)). hm_contains (budget_balances s) bid"
    "\<forall>bal\<in>set (hm_values (budget_balances s)). check_frozen frozen bal = Inr ()"
    "\<forall>v\<in>set (hm_values (budget_versions s)). linked s v"
    "distinct (map (\<lambda>v. (bv_budget_id v, bv_revision v)) (hm_values (budget_versions s)))"
    "\<exists>m. highest_ok (hm_values (budget_versions s)) m
       \<and> (\<forall>b\<in>set (hm_values (budgets s)). check_latest m s b = Inr ())"
proof -
  note rok = ok[unfolded record_amounts_ok_def]
  from from_records_success[OF run] obtain s1 s2 c s3 frozen where
    r: "try_fold hydrate_version budget_state_new vs = Inr s1" "try_fold hydrate_budget s1 bs = Inr s2"
      "check_overlaps (sort_key (\<lambda>b. budget_id_key (bu_id b)) (hm_values (budgets s2))) = Inr ()"
      "try_fold hydrate_chain \<lparr>cs_state = s2, cs_revisions = [], cs_predecessors = [],
         cs_highest_revision_by_budget = hm_empty\<rparr> (hm_values (budget_versions s2)) = Inr c"
      "try_each (check_latest (cs_highest_revision_by_budget c) (cs_state c)) (hm_values (budgets (cs_state c))) = Inr ()"
      "try_fold hydrate_balance (cs_state c) bals = Inr s3"
      "try_each (check_has_balance s3) (hm_keys (budgets s3)) = Inr ()"
      "try_fold hydrate_hold (s3, hm_empty) hs = Inr (s, frozen)"
      "try_each (check_frozen frozen) (hm_values (budget_balances s)) = Inr ()" by metis
  have s2: "versions_hydrated s2" "no_accounts s2" "budgets_hydrated s2"
    using hydrate_budgets_ok[OF r(2) hydrate_versions_ok[OF r(1)]] rok by blast+
  have ov: "no_overlap s2" using check_overlaps_no_overlap[OF r(3) s2(3)] .
  have ci: "chain_inv s2 (hm_values (budget_versions s2)) c" using hydrate_chains_ok[OF r(4)] .
  then have sa: "same_accounts s2 (cs_state c)" by (simp add: chain_inv_def)
  have "no_accounts (cs_state c)" using s2(2) sa by (simp add: no_accounts_def same_accounts_def)
  from hydrate_balances_ok[OF r(6) _ this] rok have s3: "balances_hydrated s3" "no_holds s3"
    "budgets s3 = budgets s2" "budget_versions s3 = budget_versions s2"
    "budget_ids_by_agent_id s3 = budget_ids_by_agent_id s2"
    using sa by (auto simp: same_accounts_def)
  from hydrate_holds_ok[OF r(8) _ s3(2)] rok have s: "holds_hydrated s frozen"
    "budgets s = budgets s2" "budget_versions s = budget_versions s2"
    "budget_ids_by_agent_id s = budget_ids_by_agent_id s2" "budget_balances s = budget_balances s3"
    using s3 by auto
  have link: "linked s v \<longleftrightarrow> linked s2 v" for v unfolding linked_def s(2,3) ..
  show thesis
  proof (rule that)
    show "versions_hydrated s" using s2(1) s(3) by (simp add: versions_hydrated_def)
    show "budgets_hydrated s" using s2(3) s(2-4) by (simp add: budgets_hydrated_def agent_index_ok_def)
    show "no_overlap s" using ov no_overlap_cong[OF s(2)] by simp
    show "balances_hydrated s" using s3(1,3,4) s(2,3,5) by (simp add: balances_hydrated_def)
    show "holds_hydrated s frozen" by (rule s(1))
    show "\<forall>bid\<in>set (hm_keys (budgets s)). hm_contains (budget_balances s) bid"
      using r(7) s(2,5) s3(3) by (auto simp: try_each_ok_iff check_has_balance_def res_simps)
    show "\<forall>bal\<in>set (hm_values (budget_balances s)). check_frozen frozen bal = Inr ()"
      using r(9) by (simp add: try_each_ok_iff)
    show "\<forall>v\<in>set (hm_values (budget_versions s)). linked s v" using ci by (simp add: chain_inv_def link s(3))
    show "distinct (map (\<lambda>v. (bv_budget_id v, bv_revision v)) (hm_values (budget_versions s)))"
      using ci by (simp add: chain_inv_def s(3))
    have "check_latest m (cs_state c) b = check_latest m s b" for m b
      using sa s(3) by (simp add: check_latest_def same_accounts_def)
    with r(5) ci sa s(2,3) show "\<exists>m. highest_ok (hm_values (budget_versions s)) m
       \<and> (\<forall>b\<in>set (hm_values (budgets s)). check_latest m s b = Inr ())"
      by (auto simp: chain_inv_def try_each_ok_iff same_accounts_def)
  qed
qed

lemma from_records_inv:
  assumes run: "from_records bs vs bals hs = Inr s" and ok: "record_amounts_ok vs bals hs"
  shows "budget_inv s"
proof -
  obtain frozen where f: "versions_hydrated s" "budgets_hydrated s" "no_overlap s" "balances_hydrated s"
    "holds_hydrated s frozen" "\<forall>bid\<in>set (hm_keys (budgets s)). hm_contains (budget_balances s) bid"
    "\<forall>bal\<in>set (hm_values (budget_balances s)). check_frozen frozen bal = Inr ()"
    using from_records_facts[OF run ok] by metis
  have wf: "maps_wf s"
    using f by (simp add: maps_wf_def versions_hydrated_def budgets_hydrated_def balances_hydrated_def holds_hydrated_def)
  have fz: "units (bal_frozen_amount bal) = frozen_total s bid" if "hm_get (budget_balances s) bid = Some bal" for bid bal
  proof -
    have "bal \<in> set (hm_values (budget_balances s))" and id: "bal_budget_id bal = bid"
      using that f(4) by (auto simp: balances_hydrated_def hm.values_get)
    with f(7) have "check_frozen frozen bal = Inr ()" by blast
    with id have "units (bal_frozen_amount bal) = frozen_of frozen bid"
      by (cases "hm_get frozen bid") (auto simp: check_frozen_def frozen_of_def ZERO_def split: if_splits dest!: sym[of "Amount 0"])
    then show ?thesis using f(5) by (simp add: holds_hydrated_def)
  qed
  have "budget_entry_ok s bid b" if b: "hm_get (budgets s) bid = Some b" for bid b
  proof -
    from b have "bid \<in> set (hm_keys (budgets s))" by (simp add: hm_keys_get)
    with f(6) obtain bal where bal: "hm_get (budget_balances s) bid = Some bal" by (auto simp: hm_contains_def)
    with f(4) b obtain v where "bal_budget_id bal = bid" "hm_get (budget_versions s) (bu_current_version_id b) = Some v"
      "balance_ok (bv_amount_limit v) (units (bal_frozen_amount bal)) bal"
      by (fastforce simp: balances_hydrated_def)
    with f(1,2) b bal fz[OF bal] show ?thesis
      by (fastforce simp: budget_entry_ok_def budgets_hydrated_def versions_hydrated_def)
  qed
  moreover have "\<exists>b. hm_get (budgets s) bid = Some b" if "hm_get (budget_balances s) bid = Some bal" for bid bal
    using that f(4) by (auto simp: balances_hydrated_def)
  ultimately show ?thesis
    using wf f(1,2,3,5)
    unfolding budget_inv_def versions_hydrated_def budgets_hydrated_def holds_hydrated_def by blast
qed

lemma from_records_revisions:
  assumes run: "from_records bs vs bals hs = Inr s" and ok: "record_amounts_ok vs bals hs"
    and b: "hm_get (budgets s) bid = Some b" and v: "hm_get (budget_versions s) (bu_current_version_id b) = Some v"
  shows "map bv_revision (get_budget_versions_by_budget_id s bid) = [1..bv_revision v]"
proof -
  obtain m where f: "versions_hydrated s" "budgets_hydrated s"
    "\<forall>v\<in>set (hm_values (budget_versions s)). linked s v"
    "distinct (map (\<lambda>v. (bv_budget_id v, bv_revision v)) (hm_values (budget_versions s)))"
    "highest_ok (hm_values (budget_versions s)) m"
    "\<forall>b\<in>set (hm_values (budgets s)). check_latest m s b = Inr ()"
    using from_records_facts[OF run ok] by metis
  have wf: "hm_wf (budget_versions s)" "hm_wf (budgets s)"
    using f(1,2) by (simp_all add: versions_hydrated_def budgets_hydrated_def)
  have ids: "bu_id b = bid" "bv_budget_id v = bid" using f(2) b v by (fastforce simp: budgets_hydrated_def)+
  have "check_latest m s b = Inr ()" using f(6) hm.values_get[OF wf(2)] b by blast
  then have "hm_get m bid = Some (bv_revision v)" using v ids by (simp add: check_latest_def split: if_splits)
  with f(5)[unfolded highest_ok_def, rule_format, of bid]
  have "\<forall>w\<in>set (hm_values (budget_versions s)). bv_budget_id w = bid \<longrightarrow> bv_revision w \<le> bv_revision v"
    by simp
  moreover have "q \<in> set (hm_values (budget_versions s))" if "hm_get (budget_versions s) vid = Some q" for vid q
    using hm.values_get[OF wf(1)] that by blast
  ultimately show ?thesis
    unfolding get_budget_versions_by_budget_id_def
    using linked_enumerates[OF f(3,4)] v ids by blast
qed

end
