(* ===== verification/Governance.thy ===== *)
theory Governance
  imports Spend_Manager Budget_Hydration Ledger
begin

text \<open>
  The governance repository of \<^verbatim>\<open>crates/hubu-core/src/persistence.rs\<close>, as far as it moves money: the tables
  of decisions, tokens, executor claims, receipts, budgets, balances and holds, next to the ledger, and the
  transactions that claim, settle, release, reconcile and void. A table is a map on its primary key with the
  unique indexes and checks of the schema; a transaction that fails leaves the tables as they were.

  The lifecycle journal is written inside the same transactions by code that is not modelled here: the
  captures are arguments that read the tables and answer an error or a new journal. So are the printed
  identifiers, the digest and the JSON of the evidence, which come from third-party crates.
\<close>

section \<open>Errors and receipts\<close>

datatype storage_error = StorageSqlite sqlite_error | StorageInvalidData string

abbreviation stored_invalid :: "string \<Rightarrow> storage_error + 'a" where
  "stored_invalid message \<equiv> Inl (StorageInvalidData message)"

definition ledger_error_to_string :: "ledger_error \<Rightarrow> string" where
  "ledger_error_to_string e =
     (case e of
        LedgerSqlite _ \<Rightarrow> ''sqlite error''
      | TooFewEntries \<Rightarrow> ''ledger transaction must contain at least two entries''
      | Unbalanced cur debits credits \<Rightarrow>
          ''ledger transaction is not balanced for '' @ currency_display cur @ '': debits='' @ show_int debits
            @ '', credits='' @ show_int credits
      | EntryAmountNotPositive \<Rightarrow> ''ledger entry amount must be positive''
      | OwnerMismatch \<Rightarrow> ''ledger entry owner does not match transaction owner''
      | InvalidData message \<Rightarrow> ''invalid ledger data: '' @ message)"

definition storage_ledger_error :: "ledger_error \<Rightarrow> storage_error" where
  "storage_ledger_error e =
     (case e of LedgerSqlite source \<Rightarrow> StorageSqlite source | _ \<Rightarrow> StorageInvalidData (ledger_error_to_string e))"

definition vendor_cost_error_to_string :: "vendor_cost_error \<Rightarrow> string" where
  "vendor_cost_error_to_string e =
     (case e of
        CostNegative \<Rightarrow> ''actual vendor cost cannot be negative''
      | CostScaleTooLarge \<Rightarrow> ''actual vendor cost scale cannot exceed 18''
      | CostNotRepresentable \<Rightarrow> ''actual vendor cost cannot be represented in budget units'')"

text \<open>JSON values as the parser delivers them. The members of an object have distinct keys and stand in the order of
  the keys, as the sorted map of the code keeps them, so that equal objects are equal lists.\<close>

datatype json =
    JNull
  | JBool bool
  | JNumber string
  | JString string
  | JArray "json list"
  | JObject "(string \<times> json) list"

definition json_str_member :: "(string \<times> json) list \<Rightarrow> string \<Rightarrow> string option" where
  "json_str_member members key = (case map_of members key of Some (JString s) \<Rightarrow> Some s | _ \<Rightarrow> None)"

datatype settlement_cost_basis = LegacyUnspecified | ProviderReported | CatalogUsage | FrozenQuote

record settlement_receipt =
  sr_cost_basis :: settlement_cost_basis
  sr_actual_vendor_cost :: vendor_cost
  sr_provider_request_id :: string
  sr_price_model_snapshot :: json
  sr_artifact_reference :: string

record persisted_receipt =
  rc_claim_id :: spend_executor_claim_id
  rc_settlement_id :: payment_id
  rc_authorized_max :: amount
  rc_budget_charge :: amount
  rc_released_amount :: amount
  rc_overrun_amount :: amount
  rc_currency :: currency
  rc_receipt :: settlement_receipt
  rc_created_at :: instant

record settlement_amounts =
  sa_budget_charge :: amount
  sa_released_amount :: amount
  sa_overrun_amount :: amount

definition snapshot_members :: "json \<Rightarrow> storage_error + (string \<times> json) list" where
  "snapshot_members snapshot =
     (case snapshot of
        JObject [] \<Rightarrow> stored_invalid ''pricing snapshot cannot be empty''
      | JObject members \<Rightarrow> Inr members
      | _ \<Rightarrow> stored_invalid ''pricing snapshot must be a JSON object'')"

definition validate_executor_settlement_receipt ::
  "settlement_receipt \<Rightarrow> budget_hold \<Rightarrow> bool \<Rightarrow> storage_error + settlement_amounts" where
  "validate_executor_settlement_receipt receipt hold allow_authorization_overrun =
     (if vc_currency (sr_actual_vendor_cost receipt) \<noteq> bh_currency hold
      then stored_invalid ''actual vendor cost currency does not match the authorization''
      else and_then (map_err (\<lambda>e. StorageInvalidData (vendor_cost_error_to_string e))
                      (budget_charge (sr_actual_vendor_cost receipt))) (\<lambda>charge.
        if \<not> allow_authorization_overrun \<and> bh_amount hold < charge
        then stored_invalid ''actual vendor cost exceeds the authorized maximum''
        else if is_blank (sr_provider_request_id receipt)
        then stored_invalid ''provider request id cannot be empty''
        else if is_blank (sr_artifact_reference receipt)
        then stored_invalid ''artifact reference cannot be empty''
        else and_then (snapshot_members (sr_price_model_snapshot receipt)) (\<lambda>snapshot.
        and_then (try_each (\<lambda>field.
            if (case json_str_member snapshot field of None \<Rightarrow> True | Some v \<Rightarrow> is_blank v)
            then stored_invalid (''price/model snapshot '' @ field @ '' cannot be empty'')
            else Inr ()) [''provider'', ''model'']) (\<lambda>_.
        case json_str_member snapshot ''currency'' of
          None \<Rightarrow> stored_invalid ''price/model snapshot currency cannot be empty''
        | Some snapshot_currency \<Rightarrow>
            if is_blank snapshot_currency
            then stored_invalid ''price/model snapshot currency cannot be empty''
            else if \<not> eq_ignore_ascii_case snapshot_currency (currency_display (bh_currency hold))
            then stored_invalid ''price/model snapshot currency does not match the authorization''
            else Inr \<lparr>sa_budget_charge = charge,
                      sa_released_amount =
                        max (case amount_checked_sub (bh_amount hold) charge of
                               None \<Rightarrow> ZERO | Some a \<Rightarrow> a) ZERO,
                      sa_overrun_amount =
                        max (case amount_checked_sub charge (bh_amount hold) of
                               None \<Rightarrow> ZERO | Some a \<Rightarrow> a) ZERO\<rparr>))))"

definition checked_executor_finalization_balance ::
  "budget_balance \<Rightarrow> budget_hold \<Rightarrow> settlement_amounts option \<Rightarrow> storage_error + budget_balance" where
  "checked_executor_finalization_balance balance hold amounts =
     and_then (ok_or (StorageInvalidData
         ''executor claim finalization exceeds the representable budget balance'')
       (amount_checked_sub (bal_frozen_amount balance) (bh_amount hold))) (\<lambda>frozen.
     case amounts of
       Some amounts \<Rightarrow>
         let overflow = StorageInvalidData
               ''executor claim settlement exceeds the representable budget balance'' in
         and_then (ok_or overflow
           (amount_checked_add (bal_consumed_amount balance) (sa_budget_charge amounts))) (\<lambda>consumed.
         and_then (ok_or overflow
           (amount_checked_sub (bh_amount hold) (sa_budget_charge amounts))) (\<lambda>remaining_delta.
         and_then (ok_or overflow
           (amount_checked_add (bal_remaining_amount balance) remaining_delta)) (\<lambda>remaining.
         Inr \<lparr>bal_budget_id = bal_budget_id balance, bal_consumed_amount = consumed,
              bal_frozen_amount = frozen, bal_remaining_amount = remaining\<rparr>)))
     | None \<Rightarrow>
         and_then (ok_or (StorageInvalidData
             ''executor claim release exceeds the representable budget balance'')
           (amount_checked_add (bal_remaining_amount balance) (bh_amount hold))) (\<lambda>remaining.
         Inr \<lparr>bal_budget_id = bal_budget_id balance, bal_consumed_amount = bal_consumed_amount balance,
              bal_frozen_amount = frozen, bal_remaining_amount = remaining\<rparr>))"

section \<open>Tables\<close>

text \<open>A row of \<open>budgets\<close> carries the pointer of \<open>budget_current_versions\<close>; the accounts are those that
  registration created.\<close>

record account_row =
  ac_agent_id :: agent_id
  ac_owner_user_id :: user_id

record 'j governance =
  gv_decisions :: "(spend_decision_id, spend_decision_record) hmap"
  gv_tokens :: "(spend_auth_token_id, spend_auth_token_record) hmap"
  gv_claims :: "(spend_executor_claim_id, spend_executor_claim_record) hmap"
  gv_receipts :: "(spend_executor_claim_id, persisted_receipt) hmap"
  gv_voids :: "(spend_auth_token_id, string \<times> instant) hmap"
  gv_budgets :: "(budget_id, budget) hmap"
  gv_versions :: "(budget_version_id, budget_version) hmap"
  gv_balances :: "(budget_id, budget_balance) hmap"
  gv_holds :: "(budget_hold_id, budget_hold) hmap"
  gv_accounts :: "(agent_account_id, account_row) hmap"
  gv_ledger :: ledger
  gv_journal :: 'j

record 'j governance_env =
  ge_show_payment_id :: "payment_id \<Rightarrow> string"
  ge_settlement_evidence :: "spend_executor_claim_record \<Rightarrow> persisted_receipt \<Rightarrow> string"
  ge_capture_claim :: "spend_executor_claim_record \<Rightarrow> 'j governance \<Rightarrow> storage_error + 'j"
  ge_capture_finalization :: "spend_executor_claim_record \<Rightarrow> 'j governance \<Rightarrow> storage_error + 'j"
  ge_capture_release :: "spend_decision_id \<Rightarrow> instant \<Rightarrow> 'j governance \<Rightarrow> storage_error + 'j"

text \<open>An \<open>UPDATE\<close> of one row by primary key answers the number of rows it changed.\<close>

definition update_row :: "'k \<Rightarrow> ('v \<Rightarrow> bool) \<Rightarrow> ('v \<Rightarrow> 'v) \<Rightarrow> ('k, 'v) hmap \<Rightarrow> nat \<times> ('k, 'v) hmap" where
  "update_row k condition change table =
     (case hm_get table k of
        None \<Rightarrow> (0, table)
      | Some row \<Rightarrow> if condition row then (1, hm_insert k (change row) table) else (0, table))"

definition require_one_updated_row :: "nat \<Rightarrow> string \<Rightarrow> storage_error + unit" where
  "require_one_updated_row rows message = (if rows = 1 then Inr () else stored_invalid message)"

definition update_one ::
  "'k \<Rightarrow> ('v \<Rightarrow> bool) \<Rightarrow> ('v \<Rightarrow> 'v) \<Rightarrow> string \<Rightarrow> ('k, 'v) hmap \<Rightarrow> storage_error + ('k, 'v) hmap" where
  "update_one k condition change message table =
     (case update_row k condition change table of
        (rows, table') \<Rightarrow> and_then (require_one_updated_row rows message) (\<lambda>_. Inr table'))"

text \<open>The checks of \<open>budget_balances\<close> are on the projections to legacy cents.\<close>

definition balance_row_ok :: "budget_balance \<Rightarrow> bool" where
  "balance_row_ok b \<longleftrightarrow>
     0 \<le> legacy_cents_ceil (bal_consumed_amount b) \<and> 0 \<le> legacy_cents_ceil (bal_frozen_amount b)"

definition compare_and_set_balance ::
  "budget_balance \<Rightarrow> budget_balance \<Rightarrow> (budget_id, budget_balance) hmap
     \<Rightarrow> storage_error + (nat \<times> (budget_id, budget_balance) hmap)" where
  "compare_and_set_balance current updated table =
     (case update_row (bal_budget_id updated)
             (\<lambda>row. bal_consumed_amount row = bal_consumed_amount current
                 \<and> bal_frozen_amount row = bal_frozen_amount current
                 \<and> bal_remaining_amount row = bal_remaining_amount current)
             (\<lambda>row. row\<lparr>bal_consumed_amount := bal_consumed_amount updated,
                       bal_frozen_amount := bal_frozen_amount updated,
                       bal_remaining_amount := bal_remaining_amount updated\<rparr>) table of
        (rows, table') \<Rightarrow>
          if rows = 1 \<and> \<not> balance_row_ok updated then Inl (StorageSqlite ConstraintViolation)
          else Inr (rows, table'))"

definition load_executor_claim_by_operation ::
  "'j governance \<Rightarrow> agent_id \<Rightarrow> string \<Rightarrow> spend_executor_claim_record option" where
  "load_executor_claim_by_operation g agent operation_key =
     find (\<lambda>c. cl_agent_id c = agent \<and> cl_operation_key c = operation_key) (hm_values (gv_claims g))"

definition load_budget_hold_by_claim_id ::
  "'j governance \<Rightarrow> spend_executor_claim_id \<Rightarrow> budget_hold option" where
  "load_budget_hold_by_claim_id g claim_id =
     find (\<lambda>h. bh_executor_claim_id h = Some claim_id) (hm_values (gv_holds g))"

definition validate_hold_and_balance_relationship ::
  "'j governance \<Rightarrow> budget_hold \<Rightarrow> budget_balance \<Rightarrow> bool \<Rightarrow> storage_error + unit" where
  "validate_hold_and_balance_relationship g hold balance require_current_version =
     (if bh_budget_id hold \<noteq> bal_budget_id balance
      then stored_invalid ''budget hold and logical balance ids do not match''
      else if \<not> (is_some_and (\<lambda>b. bu_currency b = bh_currency hold) (hm_get (gv_budgets g) (bh_budget_id hold))
               \<and> is_some_and (\<lambda>v. bv_budget_id v = bh_budget_id hold)
                   (hm_get (gv_versions g) (bh_budget_version_id hold)))
      then stored_invalid ''budget hold attribution does not match its logical budget and version''
      else if require_current_version
              \<and> \<not> is_some_and (\<lambda>b. bu_current_version_id b = bh_budget_version_id hold)
                   (hm_get (gv_budgets g) (bh_budget_id hold))
      then stored_invalid ''a new budget hold must reference the current budget version''
      else Inr ())"

section \<open>Claims\<close>

text \<open>The recheck of the durable authorization under the write lock, for a claim that is not stored yet.\<close>

definition recheck_authorization ::
  "instant \<Rightarrow> spend_executor_claim_record \<Rightarrow> budget_hold \<Rightarrow> 'j governance \<Rightarrow> storage_error + unit" where
  "recheck_authorization now claim hold g =
     and_then (ok_or (StorageInvalidData ''unknown spend auth token'')
                (hm_get (gv_tokens g) (cl_spend_auth_token_id claim))) (\<lambda>t.
     if tk_used_at t \<noteq> None \<or> tk_used_by_payment_id t \<noteq> None \<or> tk_revoked_at t \<noteq> None
        \<or> tk_expires_at t \<le> now
     then stored_invalid ''spend auth token is used, revoked or expired''
     else if \<not> is_some_and (\<lambda>h. bh_spend_decision_id h = tk_spend_decision_id t \<and> bh_status h = Frozen
                  \<and> bh_executor_claim_id h = None) (hm_get (gv_holds g) (bh_id hold))
             \<or> tk_owner_user_id t \<noteq> cl_owner_user_id claim
     then stored_invalid ''authorization is no longer available to claim''
     else Inr ())"

text \<open>The trigger before an insertion: the claim has to be for the decision its token was issued for.\<close>

definition claim_workflow_matches :: "spend_executor_claim_record \<Rightarrow> 'j governance \<Rightarrow> bool" where
  "claim_workflow_matches claim g \<longleftrightarrow>
     is_some_and (\<lambda>t. is_some_and (\<lambda>d. sd_owner_user_id d = cl_owner_user_id claim
           \<and> sr_agent_id (sd_request d) = cl_agent_id claim \<and> sd_operation_key d = cl_operation_key claim)
         (hm_get (gv_decisions g) (tk_spend_decision_id t)))
       (hm_get (gv_tokens g) (cl_spend_auth_token_id claim))"

definition insert_claim ::
  "spend_executor_claim_record \<Rightarrow> 'j governance
     \<Rightarrow> storage_error + (spend_executor_claim_id, spend_executor_claim_record) hmap" where
  "insert_claim claim g =
     (let table = gv_claims g in
      if \<not> claim_workflow_matches claim g then Inl (StorageSqlite ConstraintViolation)
      else if hm_contains table (cl_id claim) then Inr table
      else if list_ex (\<lambda>c. cl_spend_auth_token_id c = cl_spend_auth_token_id claim
                 \<or> (cl_agent_id c = cl_agent_id claim \<and> cl_operation_key c = cl_operation_key claim))
                (hm_values table)
      then Inl (StorageSqlite ConstraintViolation)
      else Inr (hm_insert (cl_id claim) claim table))"

definition store_claimed_hold ::
  "budget_hold \<Rightarrow> (budget_hold_id, budget_hold) hmap \<Rightarrow> storage_error + (budget_hold_id, budget_hold) hmap" where
  "store_claimed_hold hold table =
     and_then (update_one (bh_id hold)
        (\<lambda>h. bh_budget_id h = bh_budget_id hold \<and> bh_budget_version_id h = bh_budget_version_id hold)
        (\<lambda>h. h\<lparr>bh_status := bh_status hold, bh_executor_claim_id := bh_executor_claim_id hold,
              bh_updated_at := bh_updated_at hold, bh_expires_at := bh_expires_at hold\<rparr>)
        ''executor claim hold attribution differs from persisted state'' table) (\<lambda>table'.
     if bh_executor_claim_id hold \<noteq> None
        \<and> list_ex (\<lambda>h. bh_id h \<noteq> bh_id hold \<and> bh_executor_claim_id h = bh_executor_claim_id hold) (hm_values table)
     then Inl (StorageSqlite ConstraintViolation)
     else Inr table')"

definition save_executor_claim_with_budget_hold ::
  "'j governance_env \<Rightarrow> instant \<Rightarrow> spend_executor_claim_record \<Rightarrow> budget_hold \<Rightarrow> budget_balance
     \<Rightarrow> 'j governance \<Rightarrow> storage_error + 'j governance" where
  "save_executor_claim_with_budget_hold env now claim hold balance g =
     (let fresh = hm_get (gv_claims g) (cl_id claim) = None in
      and_then (if fresh then recheck_authorization now claim hold g else Inr ()) (\<lambda>_.
      and_then (validate_hold_and_balance_relationship g hold balance False) (\<lambda>_.
      and_then (insert_claim claim g) (\<lambda>claims.
      and_then (store_claimed_hold hold (gv_holds g)) (\<lambda>holds.
      let g = g\<lparr>gv_claims := claims, gv_holds := holds\<rparr> in
      if fresh
      then and_then (ge_capture_claim env claim g) (\<lambda>journal. Inr (g\<lparr>gv_journal := journal\<rparr>))
      else Inr g)))))"

section \<open>Posting a settlement\<close>

text \<open>The stored rows that tie a settlement to its decision: one join over six tables.\<close>

definition settlement_request ::
  "'j governance \<Rightarrow> spend_executor_claim_id \<Rightarrow> budget_hold_id \<Rightarrow> payment_id \<Rightarrow> spend_request option" where
  "settlement_request g claim_id hold_id settlement_id =
     Option.bind (hm_get (gv_claims g) claim_id) (\<lambda>c.
     Option.bind (hm_get (gv_tokens g) (cl_spend_auth_token_id c)) (\<lambda>t.
     Option.bind (hm_get (gv_decisions g) (tk_spend_decision_id t)) (\<lambda>d.
     Option.bind (hm_get (gv_holds g) hold_id) (\<lambda>h.
     Option.bind (hm_get (gv_budgets g) (bh_budget_id h)) (\<lambda>b.
     Option.bind (hm_get (gv_versions g) (bh_budget_version_id h)) (\<lambda>v.
     if bh_spend_decision_id h = sd_id d \<and> bh_executor_claim_id h = Some claim_id
        \<and> bu_agent_id b = cl_agent_id c \<and> bu_currency b = bh_currency h \<and> bv_budget_id v = bu_id b
        \<and> cl_status c = ClaimSettled \<and> bh_status h = Settled \<and> cl_settlement_id c = Some settlement_id
        \<and> tk_used_by_payment_id t = Some settlement_id \<and> tk_used_at t \<noteq> None
        \<and> sd_operation_key d = cl_operation_key c \<and> sd_owner_user_id d = cl_owner_user_id c
        \<and> sr_agent_id (sd_request d) = cl_agent_id c \<and> tk_owner_user_id t = cl_owner_user_id c
     then Some (sd_request d) else None))))))"

definition exact_cost :: "vendor_cost \<Rightarrow> ledger_money" where
  "exact_cost cost =
     \<lparr>lm_amount = show_int (vc_amount cost), lm_scale = vc_scale cost, lm_currency = vc_currency cost\<rparr>"

definition settlement_provider :: "spend_request \<Rightarrow> persisted_receipt \<Rightarrow> string option" where
  "settlement_provider request receipt =
     (let known = Option.bind (map_option (\<lambda>scope. si_id (es_provider scope)) (sr_execution_scope request))
            (\<lambda>i. if i \<noteq> ''provider:legacy:unresolved'' then Some i else None)
      in case known of
           Some i \<Rightarrow> Some i
         | None \<Rightarrow> (case sr_price_model_snapshot (rc_receipt receipt) of
                      JObject members \<Rightarrow> json_str_member members ''provider''
                    | _ \<Rightarrow> None))"

definition settlement_billing_merchant :: "spend_request \<Rightarrow> string option" where
  "settlement_billing_merchant request =
     (case sr_execution_scope request of
        Some scope \<Rightarrow> Some (si_id (es_billing_merchant scope))
      | None \<Rightarrow> sr_merchant request)"

definition settlement_metadata ::
  "'j governance_env \<Rightarrow> spend_executor_claim_record \<Rightarrow> budget_hold \<Rightarrow> persisted_receipt \<Rightarrow> spend_request
     \<Rightarrow> int \<Rightarrow> bool \<Rightarrow> transaction_metadata" where
  "settlement_metadata env claim hold receipt request expense legacy_backfill =
     (let provider = settlement_provider request receipt;
          billing_merchant = settlement_billing_merchant request;
          purpose = (if is_blank (sr_reason request) then None else Some (sr_reason request))
      in \<lparr>tm_kind = ExternalProvider,
          tm_source_key = ''settlement:'' @ ge_show_payment_id env (rc_settlement_id receipt),
          tm_agent_id = Some (sr_agent_id request),
          tm_agent_account_id = Some (sr_agent_account_id request),
          tm_context = Some \<lparr>gc_agent_id = cl_agent_id claim, gc_agent_account_id = sr_agent_account_id request,
            gc_budget_id = bh_budget_id hold, gc_budget_version_id = bh_budget_version_id hold,
            gc_spend_decision_id = bh_spend_decision_id hold, gc_operation_key = cl_operation_key claim\<rparr>,
          tm_effective_cost = exact_cost (sr_actual_vendor_cost (rc_receipt receipt)),
          tm_budget_charge_delta_cents = None,
          tm_budget_charge_delta = Some (units (rc_budget_charge receipt)),
          tm_budget_charge_scale = Some BUDGET_CHARGE_SCALE,
          tm_rounding_delta_amount =
            Some (show_int (units (rc_budget_charge receipt) * BUDGET_UNIT_AT_SCALE_18 - expense)),
          tm_original_transaction_id = None, tm_previous_transaction_id = None,
          tm_provider = provider, tm_billing_merchant = billing_merchant, tm_purpose = purpose,
          tm_source_evidence = ge_settlement_evidence env claim receipt,
          tm_reason = None, tm_adjustment_evidence = None, tm_legacy_backfill = legacy_backfill,
          tm_missing_evidence =
            (if provider = None then [''provider''] else [])
            @ (if billing_merchant = None then [''billing_merchant''] else [])
            @ (if purpose = None then [''purpose''] else [])\<rparr>)"

definition post_settlement ::
  "'j governance_env \<Rightarrow> pair_ids \<Rightarrow> spend_executor_claim_record \<Rightarrow> budget_hold \<Rightarrow> persisted_receipt \<Rightarrow> bool
     \<Rightarrow> 'j governance \<Rightarrow> storage_error + ledger" where
  "post_settlement env ids claim hold receipt legacy_backfill g =
     and_then (ok_or (StorageInvalidData ''missing or inconsistent provider accounting settlement linkage'')
       (settlement_request g (cl_id claim) (bh_id hold) (rc_settlement_id receipt))) (\<lambda>request.
     let mismatch = stored_invalid ''provider accounting evidence does not match settlement''; cost = sr_actual_vendor_cost (rc_receipt receipt) in
     if sr_owner_user_id request \<noteq> cl_owner_user_id claim \<or> sr_agent_id request \<noteq> cl_agent_id claim
        \<or> rc_authorized_max receipt \<noteq> bh_amount hold \<or> rc_claim_id receipt \<noteq> cl_id claim
        \<or> rc_currency receipt \<noteq> bh_currency hold \<or> vc_currency cost \<noteq> bh_currency hold
     then mismatch
     else and_then (map_err (\<lambda>e. StorageInvalidData (vendor_cost_error_to_string e)) (budget_charge cost)) (\<lambda>charge.
     if rc_budget_charge receipt \<noteq> charge then mismatch
     else and_then (map_err storage_ledger_error (scaled (exact_cost cost))) (\<lambda>expense.
     and_then (map_err storage_ledger_error (post_pair ids
        \<lparr>pp_owner = cl_owner_user_id claim, pp_debit_kind = AgentSpendExpense,
         pp_credit_kind = ExternallyBilledClearing, pp_signed_amount = expense,
         pp_metadata = settlement_metadata env claim hold receipt request expense legacy_backfill,
         pp_external_ref = Some (ge_show_payment_id env (rc_settlement_id receipt)),
         pp_created_at = rc_created_at receipt\<rparr> (gv_ledger g))) (\<lambda>(_, L).
     Inr L))))"

definition receipt_row_ok :: "persisted_receipt \<Rightarrow> bool" where
  "receipt_row_ok r \<longleftrightarrow>
     (let authorized = legacy_cents_ceil (rc_authorized_max r); charge = legacy_cents_ceil (rc_budget_charge r) in
      0 < authorized \<and> 0 \<le> min charge authorized
      \<and> 0 \<le> vc_amount (sr_actual_vendor_cost (rc_receipt r)) \<and> vc_scale (sr_actual_vendor_cost (rc_receipt r)) \<le> 18
      \<and> 0 \<le> charge \<and> 0 \<le> legacy_cents_ceil (rc_overrun_amount r))"

definition save_executor_settlement_receipt ::
  "persisted_receipt \<Rightarrow> (spend_executor_claim_id, persisted_receipt) hmap
     \<Rightarrow> storage_error + (spend_executor_claim_id, persisted_receipt) hmap" where
  "save_executor_settlement_receipt r table =
     (if \<not> receipt_row_ok r \<or> hm_contains table (rc_claim_id r)
         \<or> list_ex (\<lambda>x. rc_settlement_id x = rc_settlement_id r) (hm_values table)
      then Inl (StorageSqlite ConstraintViolation)
      else Inr (hm_insert (rc_claim_id r) r table))"

section \<open>Finalization\<close>

datatype finalization_action = SettleAction payment_id settlement_receipt | ReleaseAction

datatype claim_locator = ByOperation agent_id string | ByClaimId spend_executor_claim_id

datatype finalization_authority = ByExecutor | ByReconciliation string string user_id

record finalization_result =
  fr_claim :: spend_executor_claim_record
  fr_token :: spend_auth_token_record
  fr_hold :: budget_hold
  fr_balance :: budget_balance
  fr_receipt :: "persisted_receipt option"
  fr_idempotent_replay :: bool

definition locate_claim ::
  "'j governance \<Rightarrow> user_id \<Rightarrow> claim_locator \<Rightarrow> storage_error + spend_executor_claim_record" where
  "locate_claim g owner locator =
     and_then (ok_or (StorageInvalidData ''unknown executor claim'')
       (case locator of
          ByOperation agent operation_key \<Rightarrow> load_executor_claim_by_operation g agent operation_key
        | ByClaimId claim_id \<Rightarrow> hm_get (gv_claims g) claim_id)) (\<lambda>claim.
     if cl_owner_user_id claim \<noteq> owner then stored_invalid ''executor claim owner does not match''
     else case locator of
       ByClaimId _ \<Rightarrow> Inr claim
     | ByOperation agent operation_key \<Rightarrow>
         if cl_operation_key claim \<noteq> operation_key
         then stored_invalid ''executor claim operation key does not match''
         else if cl_agent_id claim \<noteq> agent then stored_invalid ''executor claim agent does not match''
         else Inr claim)"

text \<open>Whether the stored state already is what the action asks for.\<close>

definition settled_replay ::
  "spend_executor_claim_record \<Rightarrow> spend_auth_token_record \<Rightarrow> budget_hold \<Rightarrow> persisted_receipt option
     \<Rightarrow> settlement_receipt \<Rightarrow> storage_error + bool" where
  "settled_replay claim t hold persisted receipt =
     and_then (ok_or (StorageInvalidData ''settled executor claim has no settlement id'')
                (cl_settlement_id claim)) (\<lambda>settlement_id.
     and_then (ok_or (StorageInvalidData ''settled executor claim has no settlement receipt'') persisted) (\<lambda>stored.
     if rc_receipt stored \<noteq> receipt
     then stored_invalid ''settlement receipt does not match the original settlement''
     else and_then (validate_executor_settlement_receipt (rc_receipt stored) hold
                     (cl_reconciled_at claim \<noteq> None)) (\<lambda>amounts.
     Inr (tk_used_by_payment_id t = Some settlement_id \<and> tk_used_at t \<noteq> None \<and> tk_revoked_at t = None
          \<and> bh_status hold = Settled \<and> bh_executor_claim_id hold = Some (cl_id claim)
          \<and> rc_settlement_id stored = settlement_id \<and> rc_authorized_max stored = bh_amount hold
          \<and> rc_budget_charge stored = sa_budget_charge amounts
          \<and> rc_released_amount stored = sa_released_amount amounts
          \<and> rc_overrun_amount stored = sa_overrun_amount amounts
          \<and> rc_currency stored = bh_currency hold))))"

definition replay_is_consistent ::
  "finalization_action \<Rightarrow> spend_executor_claim_record \<Rightarrow> spend_auth_token_record \<Rightarrow> budget_hold
     \<Rightarrow> persisted_receipt option \<Rightarrow> storage_error + bool" where
  "replay_is_consistent action claim t hold persisted =
     (case (action, cl_status claim) of
        (SettleAction _ receipt, ClaimSettled) \<Rightarrow> settled_replay claim t hold persisted receipt
      | (ReleaseAction, ClaimReleased) \<Rightarrow>
          Inr (tk_revoked_at t \<noteq> None \<and> tk_used_at t = None \<and> tk_used_by_payment_id t = None
               \<and> bh_status hold = Released \<and> bh_executor_claim_id hold = Some (cl_id claim)
               \<and> persisted = None)
      | (SettleAction _ _, ClaimReleased) \<Rightarrow> stored_invalid ''executor claim has already been released''
      | (ReleaseAction, ClaimSettled) \<Rightarrow> stored_invalid ''executor claim has already been settled''
      | (_, ClaimClaimed) \<Rightarrow> Inr False)"

definition reconciliation_replay_is_consistent ::
  "finalization_authority \<Rightarrow> spend_executor_claim_record \<Rightarrow> bool" where
  "reconciliation_replay_is_consistent authority claim =
     (case authority of
        ByExecutor \<Rightarrow> True
      | ByReconciliation provider_reference evidence by \<Rightarrow>
          cl_provider_reference claim = Some provider_reference
          \<and> cl_reconciliation_evidence claim = Some evidence
          \<and> cl_reconciled_at claim \<noteq> None \<and> cl_reconciled_by_user_id claim = Some by)"

definition by_reconciliation :: "finalization_authority \<Rightarrow> bool" where
  "by_reconciliation authority = (case authority of ByExecutor \<Rightarrow> False | ByReconciliation _ _ _ \<Rightarrow> True)"

text \<open>The guards of a finalization that is not a replay.\<close>

definition finalization_guards ::
  "finalization_authority \<Rightarrow> instant \<Rightarrow> spend_executor_claim_record \<Rightarrow> spend_auth_token_record \<Rightarrow> budget_hold
     \<Rightarrow> budget_balance \<Rightarrow> persisted_receipt option \<Rightarrow> storage_error + unit" where
  "finalization_guards authority started_at claim t hold balance persisted =
     (if cl_status claim \<noteq> ClaimClaimed
      then stored_invalid ''finalized executor claim has inconsistent persisted state''
      else if persisted \<noteq> None
      then stored_invalid ''unsettled executor claim already has a settlement receipt''
      else if \<not> by_reconciliation authority \<and> cl_expires_at claim \<le> started_at
      then stored_invalid ''executor claim expired and requires reconciliation''
      else if by_reconciliation authority \<and> started_at < cl_expires_at claim
      then stored_invalid ''active executor claim does not require reconciliation''
      else if tk_owner_user_id t \<noteq> cl_owner_user_id claim
      then stored_invalid ''executor claim token owner does not match''
      else if tk_used_at t \<noteq> None \<or> tk_used_by_payment_id t \<noteq> None
      then stored_invalid ''executor claim token has already been used''
      else if tk_revoked_at t \<noteq> None then stored_invalid ''executor claim token has been revoked''
      else if bh_status hold \<noteq> Claimed \<or> bh_executor_claim_id hold \<noteq> Some (cl_id claim)
              \<or> bh_spend_decision_id hold \<noteq> tk_spend_decision_id t
      then stored_invalid ''executor claim budget hold is not exclusively claimed''
      else if bal_frozen_amount balance < bh_amount hold
      then stored_invalid ''executor claim budget balance is inconsistent''
      else Inr ())"

text \<open>The rows a finalization writes.\<close>

definition finalized_token ::
  "finalization_action \<Rightarrow> instant \<Rightarrow> spend_auth_token_record \<Rightarrow> spend_auth_token_record" where
  "finalized_token action at t =
     (case action of
        SettleAction settlement_id _ \<Rightarrow> t\<lparr>tk_used_at := Some at, tk_used_by_payment_id := Some settlement_id\<rparr>
      | ReleaseAction \<Rightarrow> t\<lparr>tk_revoked_at := Some at\<rparr>)"

definition terminal_status :: "finalization_action \<Rightarrow> spend_executor_claim_status \<times> budget_hold_status" where
  "terminal_status action =
     (case action of SettleAction _ _ \<Rightarrow> (ClaimSettled, Settled) | ReleaseAction \<Rightarrow> (ClaimReleased, Released))"

definition reconciled_claim ::
  "finalization_authority \<Rightarrow> instant \<Rightarrow> spend_executor_claim_record \<Rightarrow> spend_executor_claim_record" where
  "reconciled_claim authority at c =
     (case authority of
        ByExecutor \<Rightarrow> c
      | ByReconciliation provider_reference evidence by \<Rightarrow>
          c\<lparr>cl_provider_reference := Some provider_reference, cl_reconciliation_evidence := Some evidence,
            cl_reconciled_at := Some at, cl_reconciled_by_user_id := Some by\<rparr>)"

definition settlement_id_of :: "finalization_action \<Rightarrow> payment_id option" where
  "settlement_id_of action = (case action of SettleAction settlement_id _ \<Rightarrow> Some settlement_id | ReleaseAction \<Rightarrow> None)"

definition finalized_claim ::
  "finalization_action \<Rightarrow> finalization_authority \<Rightarrow> instant \<Rightarrow> spend_executor_claim_record
     \<Rightarrow> spend_executor_claim_record" where
  "finalized_claim action authority at c =
     reconciled_claim authority at
       (c\<lparr>cl_status := fst (terminal_status action), cl_finalized_at := Some at,
         cl_settlement_id := settlement_id_of action\<rparr>)"

text \<open>The claim's row is rewritten in all its finalization columns, which clears those a finalization by
  the executor does not have.\<close>

definition finalized_claim_row ::
  "finalization_action \<Rightarrow> finalization_authority \<Rightarrow> instant \<Rightarrow> spend_executor_claim_record
     \<Rightarrow> spend_executor_claim_record" where
  "finalized_claim_row action authority at c =
     finalized_claim action authority at
       (c\<lparr>cl_provider_reference := None, cl_reconciliation_evidence := None, cl_reconciled_at := None,
         cl_reconciled_by_user_id := None\<rparr>)"

definition transition_name :: "finalization_action \<Rightarrow> string" where
  "transition_name action = (case action of SettleAction _ _ \<Rightarrow> ''settlement'' | ReleaseAction \<Rightarrow> ''release'')"

definition write_finalization ::
  "finalization_action \<Rightarrow> finalization_authority \<Rightarrow> instant \<Rightarrow> spend_executor_claim_record
     \<Rightarrow> budget_hold \<Rightarrow> budget_balance \<Rightarrow> budget_balance \<Rightarrow> 'j governance \<Rightarrow> storage_error + 'j governance" where
  "write_finalization action authority at claim hold balance updated g =
     and_then (update_one (cl_spend_auth_token_id claim) (\<lambda>t. tk_used_at t = None \<and> tk_revoked_at t = None)
                (finalized_token action at)
                (''executor claim token changed during '' @ transition_name action) (gv_tokens g)) (\<lambda>tokens.
     and_then (update_one (cl_id claim) (\<lambda>c. cl_status c = ClaimClaimed)
                (finalized_claim_row action authority at)
                (''executor claim changed during '' @ transition_name action) (gv_claims g)) (\<lambda>claims.
     and_then (update_one (bh_id hold)
                (\<lambda>h. bh_status h = Claimed \<and> bh_executor_claim_id h = Some (cl_id claim))
                (\<lambda>h. h\<lparr>bh_status := snd (terminal_status action), bh_updated_at := at\<rparr>)
                (''executor claim budget hold changed during '' @ transition_name action) (gv_holds g)) (\<lambda>holds.
     and_then (compare_and_set_balance balance updated (gv_balances g)) (\<lambda>(rows, balances).
     and_then (require_one_updated_row rows
                (''executor claim budget balance changed during '' @ transition_name action)) (\<lambda>_.
     Inr (g\<lparr>gv_tokens := tokens, gv_claims := claims, gv_holds := holds, gv_balances := balances\<rparr>))))))"

definition settlement_record ::
  "spend_executor_claim_record \<Rightarrow> budget_hold \<Rightarrow> settlement_amounts \<Rightarrow> payment_id \<Rightarrow> settlement_receipt \<Rightarrow> instant
     \<Rightarrow> persisted_receipt" where
  "settlement_record claim hold amounts settlement_id receipt at =
     \<lparr>rc_claim_id = cl_id claim, rc_settlement_id = settlement_id, rc_authorized_max = bh_amount hold,
      rc_budget_charge = sa_budget_charge amounts, rc_released_amount = sa_released_amount amounts,
      rc_overrun_amount = sa_overrun_amount amounts, rc_currency = bh_currency hold,
      rc_receipt = receipt, rc_created_at = at\<rparr>"

text \<open>The receipt and the ledger posting of a settlement, with the claim as it was read plus its
  reconciliation evidence, which is what the posting describes.\<close>

definition record_settlement ::
  "'j governance_env \<Rightarrow> pair_ids \<Rightarrow> finalization_action \<Rightarrow> finalization_authority \<Rightarrow> instant
     \<Rightarrow> spend_executor_claim_record \<Rightarrow> budget_hold \<Rightarrow> settlement_amounts option \<Rightarrow> 'j governance
     \<Rightarrow> storage_error + (persisted_receipt option \<times> 'j governance)" where
  "record_settlement env ids action authority at claim hold amounts g =
     (case (action, amounts) of
        (SettleAction settlement_id receipt, Some amounts) \<Rightarrow>
          let record = settlement_record claim hold amounts settlement_id receipt at in
          and_then (save_executor_settlement_receipt record (gv_receipts g)) (\<lambda>receipts.
          let g = g\<lparr>gv_receipts := receipts\<rparr> in
          and_then (post_settlement env ids (reconciled_claim authority at (claim\<lparr>cl_finalized_at := Some at\<rparr>))
                     (hold\<lparr>bh_updated_at := at\<rparr>) record False g) (\<lambda>L.
          Inr (Some record, g\<lparr>gv_ledger := L\<rparr>)))
      | _ \<Rightarrow> Inr (None, g))"

definition finalize_executor_claim ::
  "'j governance_env \<Rightarrow> pair_ids \<Rightarrow> user_id \<Rightarrow> claim_locator \<Rightarrow> finalization_action \<Rightarrow> finalization_authority
     \<Rightarrow> instant \<Rightarrow> 'j governance \<Rightarrow> storage_error + (finalization_result \<times> 'j governance)" where
  "finalize_executor_claim env ids owner locator action authority started_at g =
     and_then (locate_claim g owner locator) (\<lambda>claim.
     and_then (ok_or (StorageInvalidData ''executor claim token is missing'')
                (hm_get (gv_tokens g) (cl_spend_auth_token_id claim))) (\<lambda>t.
     and_then (ok_or (StorageInvalidData ''executor claim budget hold is missing'')
                (load_budget_hold_by_claim_id g (cl_id claim))) (\<lambda>hold.
     and_then (ok_or (StorageInvalidData ''executor claim budget balance is missing'')
                (hm_get (gv_balances g) (bh_budget_id hold))) (\<lambda>balance.
     let persisted = hm_get (gv_receipts g) (cl_id claim) in
     and_then (replay_is_consistent action claim t hold persisted) (\<lambda>replay.
     if replay \<and> \<not> reconciliation_replay_is_consistent authority claim
     then stored_invalid (if cl_reconciled_at claim \<noteq> None
                          then ''executor claim was reconciled with different evidence''
                          else ''executor claim was finalized without reconciliation'')
     else if replay
     then Inr (\<lparr>fr_claim = claim, fr_token = t, fr_hold = hold, fr_balance = balance,
                fr_receipt = persisted, fr_idempotent_replay = True\<rparr>, g)
     else and_then (finalization_guards authority started_at claim t hold balance persisted) (\<lambda>_.
     and_then (case action of
                 SettleAction _ receipt \<Rightarrow>
                   and_then (validate_executor_settlement_receipt receipt hold (by_reconciliation authority))
                     (\<lambda>amounts. Inr (Some amounts))
               | ReleaseAction \<Rightarrow> Inr None) (\<lambda>amounts.
     and_then (checked_executor_finalization_balance balance hold amounts) (\<lambda>updated.
     and_then (write_finalization action authority started_at claim hold balance updated g) (\<lambda>g.
     and_then (record_settlement env ids action authority started_at claim hold amounts g) (\<lambda>(receipt, g).
     let claim' = finalized_claim action authority started_at claim in
     and_then (ge_capture_finalization env claim' g) (\<lambda>journal.
     Inr (\<lparr>fr_claim = claim', fr_token = finalized_token action started_at t,
           fr_hold = hold\<lparr>bh_status := snd (terminal_status action), bh_updated_at := started_at\<rparr>,
           fr_balance = updated, fr_receipt = receipt, fr_idempotent_replay = False\<rparr>,
          g\<lparr>gv_journal := journal\<rparr>))))))))))))"

text \<open>The four entries of the repository. \<open>settlement_id\<close> is the identifier proposed for the settlement.\<close>

definition settle_executor_claim ::
  "'j governance_env \<Rightarrow> pair_ids \<Rightarrow> user_id \<Rightarrow> agent_id \<Rightarrow> string \<Rightarrow> payment_id \<Rightarrow> settlement_receipt \<Rightarrow> instant
     \<Rightarrow> 'j governance \<Rightarrow> storage_error + (finalization_result \<times> 'j governance)" where
  "settle_executor_claim env ids owner agent operation_key settlement_id receipt at g =
     finalize_executor_claim env ids owner (ByOperation agent operation_key)
       (SettleAction settlement_id receipt) ByExecutor at g"

definition release_executor_claim ::
  "'j governance_env \<Rightarrow> pair_ids \<Rightarrow> user_id \<Rightarrow> agent_id \<Rightarrow> string \<Rightarrow> instant
     \<Rightarrow> 'j governance \<Rightarrow> storage_error + (finalization_result \<times> 'j governance)" where
  "release_executor_claim env ids owner agent operation_key at g =
     finalize_executor_claim env ids owner (ByOperation agent operation_key) ReleaseAction ByExecutor at g"

definition reconcile_executor_claim ::
  "'j governance_env \<Rightarrow> pair_ids \<Rightarrow> spend_executor_claim_id \<Rightarrow> user_id \<Rightarrow> string \<Rightarrow> string \<Rightarrow> finalization_action
     \<Rightarrow> instant \<Rightarrow> 'j governance \<Rightarrow> storage_error + (finalization_result \<times> 'j governance)" where
  "reconcile_executor_claim env ids claim_id owner provider_reference evidence action at g =
     (let provider_reference = trim provider_reference; evidence = trim evidence in
      if provider_reference = [] then stored_invalid ''provider reference cannot be empty''
      else if evidence = [] then stored_invalid ''reconciliation evidence cannot be empty''
      else finalize_executor_claim env ids owner (ByClaimId claim_id) action
             (ByReconciliation provider_reference evidence owner) at g)"

end
