(* ===== verification/Executor_Claims.thy ===== *)
theory Executor_Claims
  imports Governance
begin

text \<open>
  \<^verbatim>\<open>crates/hubu-core/src/app/executor_claim.rs\<close>: the service an external executor spends through. It claims
  an authorization, and later settles, releases or reconciles the claim. The service composes three
  states: the two in-memory managers and the repository, which commits first; what the repository
  committed is then installed in the managers. Log events have no effect on the state.
\<close>

section \<open>Requests, results and errors\<close>

record claim_executor_spend_request =
  xq_authorization :: spend_payment_validation_request
  xq_operation_key :: string

record finalize_claim_request =
  xf_owner_user_id :: user_id
  xf_agent_id :: agent_id
  xf_operation_key :: string

record settle_claim_request =
  xs_owner_user_id :: user_id
  xs_agent_id :: agent_id
  xs_operation_key :: string
  xs_receipt :: settlement_receipt

datatype reconciliation_outcome = VendorBilled | VendorDidNotBill

record reconcile_claim_request =
  xr_claim_id :: spend_executor_claim_id
  xr_owner_user_id :: user_id
  xr_provider_reference :: string
  xr_evidence :: string
  xr_outcome :: reconciliation_outcome
  xr_receipt :: "settlement_receipt option"

record executor_claim_state =
  ec_claim :: spend_executor_claim_record
  ec_decision :: spend_decision_record
  ec_token :: spend_auth_token_record
  ec_authorization :: validated_spend_authorization
  ec_budget_hold :: budget_hold
  ec_budget_balance :: budget_balance
  ec_settlement_receipt :: "persisted_receipt option"
  ec_idempotent_replay :: bool

datatype executor_claim_error =
    ClaimEmptyOperationKey
  | MissingBudgetHold
  | BudgetHoldNotFrozen
  | ExistingClaimBudgetHoldMismatch
  | BudgetHoldAgentMismatch
  | AuthorizationBalanceMissing
  | ClaimDecisionMismatch
  | ClaimUnknown
  | MissingClaimToken
  | MissingClaimDecision
  | ClaimOwnerMismatch
  | MissingClaimBudgetHold
  | ClaimBudgetHoldMismatch
  | MissingClaimBudgetBalance
  | MissingSettlementId
  | MissingSettlementReceipt
  | UnexpectedSettlementReceipt
  | EmptyProviderReference
  | EmptyReconciliationEvidence
  | ClaimSpendError spend_error
  | ClaimBudgetError budget_manager_error
  | ClaimStorageError storage_error

text \<open>The three states the service works on.\<close>

record 'j service =
  sv_spend :: spend_manager
  sv_budgets :: budget_state
  sv_store :: "'j governance"

text \<open>The identifier and the clock readings of one claim, in the order the code takes them.\<close>

record claim_inputs =
  xi_claim_id :: spend_executor_claim_id
  xi_validated_at :: instant
  xi_prepared_at :: instant
  xi_held_at :: instant
  xi_stored_at :: instant

section \<open>Claim states\<close>

definition claim_state_from_records ::
  "spend_executor_claim_record \<Rightarrow> validated_spend_authorization \<Rightarrow> budget_hold \<Rightarrow> budget_balance
     \<Rightarrow> persisted_receipt option \<Rightarrow> bool \<Rightarrow> spend_manager \<Rightarrow> executor_claim_error + executor_claim_state" where
  "claim_state_from_records claim authorization hold balance receipt replay spend =
     and_then (ok_or MissingClaimToken (auth_token_record spend (cl_spend_auth_token_id claim))) (\<lambda>t.
     and_then (ok_or MissingClaimDecision (decision_record spend (tk_spend_decision_id t))) (\<lambda>decision.
     if sd_owner_user_id decision \<noteq> cl_owner_user_id claim \<or> tk_owner_user_id t \<noteq> cl_owner_user_id claim
     then Inl ClaimOwnerMismatch
     else if bh_spend_decision_id hold \<noteq> sd_id decision \<or> bh_executor_claim_id hold \<noteq> Some (cl_id claim)
     then Inl ClaimBudgetHoldMismatch
     else Inr \<lparr>ec_claim = claim, ec_decision = decision, ec_token = t, ec_authorization = authorization,
               ec_budget_hold = hold, ec_budget_balance = balance, ec_settlement_receipt = receipt,
               ec_idempotent_replay = replay\<rparr>))"

definition claim_state ::
  "spend_executor_claim_record \<Rightarrow> bool \<Rightarrow> spend_manager \<Rightarrow> budget_state
     \<Rightarrow> executor_claim_error + executor_claim_state" where
  "claim_state claim replay spend bs =
     and_then (ok_or MissingClaimToken (auth_token_record spend (cl_spend_auth_token_id claim))) (\<lambda>t.
     and_then (ok_or MissingClaimBudgetHold
                (get_budget_hold_by_spend_decision bs (tk_spend_decision_id t))) (\<lambda>hold.
     and_then (ok_or MissingClaimBudgetBalance (get_budget_balance bs (bh_budget_id hold))) (\<lambda>balance.
     claim_state_from_records claim (authorization_of t) hold balance None replay spend)))"

definition get_executor_claim ::
  "spend_executor_claim_id \<Rightarrow> user_id \<Rightarrow> 'j service \<Rightarrow> executor_claim_error + executor_claim_state" where
  "get_executor_claim claim_id owner s =
     and_then (ok_or ClaimUnknown
       (case executor_claim_record (sv_spend s) claim_id of
          None \<Rightarrow> None
        | Some claim \<Rightarrow> if cl_owner_user_id claim = owner then Some claim else None)) (\<lambda>claim.
     claim_state claim False (sv_spend s) (sv_budgets s))"

fun collect_results :: "('e + 'a) list \<Rightarrow> 'e + 'a list" where
  "collect_results [] = Inr []"
| "collect_results (r # rs) = and_then r (\<lambda>x. and_then (collect_results rs) (\<lambda>xs. Inr (x # xs)))"

definition list_requiring_reconciliation ::
  "user_id \<Rightarrow> instant \<Rightarrow> 'j service \<Rightarrow> executor_claim_error + executor_claim_state list" where
  "list_requiring_reconciliation owner now s =
     collect_results
       (map (\<lambda>claim. claim_state claim False (sv_spend s) (sv_budgets s))
          (filter (\<lambda>claim. cl_status claim = ClaimClaimed \<and> cl_expires_at claim \<le> now)
            (executor_claim_records_for_owner (sv_spend s) owner)))"

section \<open>Claiming\<close>

text \<open>The hold of the authorization has to be free, or already owned by the existing claim.\<close>

definition check_claimable_hold ::
  "spend_executor_claim_record option \<Rightarrow> budget_hold \<Rightarrow> executor_claim_error + unit" where
  "check_claimable_hold existing hold =
     (case existing of
        None \<Rightarrow> if bh_status hold = Frozen then Inr () else Inl BudgetHoldNotFrozen
      | Some c \<Rightarrow>
          if bh_executor_claim_id hold = Some (cl_id c) then Inr ()
          else Inl ExistingClaimBudgetHoldMismatch)"

definition claim_executor_spend ::
  "'j governance_env \<Rightarrow> claim_inputs \<Rightarrow> claim_executor_spend_request \<Rightarrow> 'j service
     \<Rightarrow> (executor_claim_error + executor_claim_state) \<times> 'j service" where
  "claim_executor_spend env inputs request s =
     (let operation_key = trim (xq_operation_key request);
          spend = sv_spend s; bs = sv_budgets s; auth = xq_authorization request in
      if operation_key = [] then (Inl ClaimEmptyOperationKey, s)
      else
      let prepared =
        and_then (map_err ClaimSpendError
          (validate_auth_token_for_executor_claim (xi_validated_at inputs) spend auth operation_key))
          (\<lambda>(prevalidated, existing).
        and_then (ok_or MissingBudgetHold
          (get_budget_hold_by_spend_decision bs (va_spend_decision_id prevalidated))) (\<lambda>budget_hold.
        and_then (check_claimable_hold existing budget_hold) (\<lambda>_.
        if \<not> is_some_and (\<lambda>b. bu_agent_id (bwb_budget b) = pv_agent_id auth)
               (get_budget_by_id bs (bh_budget_id budget_hold))
        then Inl BudgetHoldAgentMismatch
        else and_then (map_err ClaimSpendError
          (prepare_auth_token_claim (xi_claim_id inputs) (xi_prepared_at inputs) spend
             \<lparr>cq_authorization = auth, cq_operation_key = operation_key\<rparr>)) (\<lambda>(claim, authorization).
        if va_spend_decision_id authorization \<noteq> va_spend_decision_id prevalidated
        then Inl ClaimDecisionMismatch
        else and_then (ok_or AuthorizationBalanceMissing (get_budget_balance bs (bh_budget_id budget_hold)))
          (\<lambda>balance.
        and_then (if existing \<noteq> None then Inr budget_hold
                  else map_err (\<lambda>e. ClaimBudgetError (InvalidBudgetHoldTransition e))
                         (hold_claim budget_hold (cl_id claim) (cl_expires_at claim) (xi_held_at inputs)))
          (\<lambda>hold.
        and_then (ok_or MissingClaimToken (auth_token_record spend (cl_spend_auth_token_id claim))) (\<lambda>t.
        and_then (map_err ClaimStorageError
          (save_executor_claim_with_budget_hold env (xi_stored_at inputs) claim hold balance (sv_store s)))
          (\<lambda>store.
        Inr (claim, authorization, hold, balance, t, existing \<noteq> None, store)))))))))
      in case prepared of
        Inl e \<Rightarrow> (Inl e, s)
      | Inr (claim, authorization, hold, balance, t, replay, store) \<Rightarrow>
          let spend = apply_persisted_executor_finalization claim t spend in
          (claim_state_from_records claim authorization hold balance None replay spend,
           \<lparr>sv_spend = spend, sv_budgets = apply_persisted_finalization hold balance bs, sv_store = store\<rparr>))"

section \<open>Finalizing\<close>

definition apply_finalization ::
  "finalization_result \<Rightarrow> 'j governance \<Rightarrow> 'j service \<Rightarrow> (executor_claim_error + executor_claim_state) \<times> 'j service" where
  "apply_finalization fin store s =
     (let spend = apply_persisted_executor_finalization (fr_claim fin) (fr_token fin) (sv_spend s) in
      (claim_state_from_records (fr_claim fin) (authorization_of (fr_token fin)) (fr_hold fin)
         (fr_balance fin) (fr_receipt fin) (fr_idempotent_replay fin) spend,
       \<lparr>sv_spend = spend,
        sv_budgets = apply_persisted_finalization (fr_hold fin) (fr_balance fin) (sv_budgets s),
        sv_store = store\<rparr>))"

definition finish_with ::
  "storage_error + (finalization_result \<times> 'j governance) \<Rightarrow> 'j service
     \<Rightarrow> (executor_claim_error + executor_claim_state) \<times> 'j service" where
  "finish_with result s =
     (case result of
        Inl e \<Rightarrow> (Inl (ClaimStorageError e), s)
      | Inr (fin, store) \<Rightarrow> apply_finalization fin store s)"

text \<open>A settled claim has to answer its settlement and its receipt.\<close>

definition require_settlement :: "executor_claim_state \<Rightarrow> executor_claim_error + executor_claim_state" where
  "require_settlement state =
     (if cl_settlement_id (ec_claim state) = None then Inl MissingSettlementId
      else if ec_settlement_receipt state = None then Inl MissingSettlementReceipt
      else Inr state)"

definition settle_claim ::
  "'j governance_env \<Rightarrow> pair_ids \<Rightarrow> payment_id \<Rightarrow> settle_claim_request \<Rightarrow> instant \<Rightarrow> 'j service
     \<Rightarrow> (executor_claim_error + executor_claim_state) \<times> 'j service" where
  "settle_claim env ids settlement_id request started_at s =
     (case finish_with
             (settle_executor_claim env ids (xs_owner_user_id request) (xs_agent_id request)
                (xs_operation_key request) settlement_id (xs_receipt request) started_at (sv_store s)) s of
        (state, s') \<Rightarrow> (and_then state require_settlement, s'))"

definition release_claim ::
  "'j governance_env \<Rightarrow> pair_ids \<Rightarrow> finalize_claim_request \<Rightarrow> instant \<Rightarrow> 'j service
     \<Rightarrow> (executor_claim_error + executor_claim_state) \<times> 'j service" where
  "release_claim env ids request started_at s =
     finish_with
       (release_executor_claim env ids (xf_owner_user_id request) (xf_agent_id request)
          (xf_operation_key request) started_at (sv_store s)) s"

definition reconcile_claim ::
  "'j governance_env \<Rightarrow> pair_ids \<Rightarrow> payment_id \<Rightarrow> reconcile_claim_request \<Rightarrow> instant \<Rightarrow> 'j service
     \<Rightarrow> (executor_claim_error + executor_claim_state) \<times> 'j service" where
  "reconcile_claim env ids settlement_id request started_at s =
     (let provider_reference = trim (xr_provider_reference request); evidence = trim (xr_evidence request);
          reconcile = (\<lambda>action. finish_with
            (reconcile_executor_claim env ids (xr_claim_id request) (xr_owner_user_id request)
               provider_reference evidence action started_at (sv_store s)) s) in
      if provider_reference = [] then (Inl EmptyProviderReference, s)
      else if evidence = [] then (Inl EmptyReconciliationEvidence, s)
      else case xr_outcome request of
        VendorBilled \<Rightarrow>
          (case xr_receipt request of
             None \<Rightarrow> (Inl MissingSettlementReceipt, s)
           | Some receipt \<Rightarrow> reconcile (SettleAction settlement_id receipt))
      | VendorDidNotBill \<Rightarrow>
          if xr_receipt request \<noteq> None then (Inl UnexpectedSettlementReceipt, s)
          else reconcile ReleaseAction)"

end
