(* ===== verification/Governance_Admin.thy ===== *)
theory Governance_Admin
  imports Executor_Claims
begin

text \<open>
  The transactions of the repository that are not an executor's: voiding an unclaimed authorization
  (\<^verbatim>\<open>persistence/authorization_void.rs\<close>), and the report of a budget against the ledger of
  \<^verbatim>\<open>persistence/accounting.rs\<close>.
\<close>

section \<open>Balances\<close>

definition validate_balance_for_limit :: "budget_balance \<Rightarrow> amount \<Rightarrow> storage_error + unit" where
  "validate_balance_for_limit balance limit =
     (if is_negative (bal_consumed_amount balance) \<or> is_negative (bal_frozen_amount balance)
      then stored_invalid ''budget consumed and frozen balances cannot be negative''
      else and_then (ok_or (StorageInvalidData ''budget balance exceeds the representable range'')
        (Option.bind (amount_checked_sub limit (bal_consumed_amount balance))
           (\<lambda>v. amount_checked_sub v (bal_frozen_amount balance)))) (\<lambda>remaining.
        if remaining \<noteq> bal_remaining_amount balance
        then stored_invalid ''remaining budget balance must derive from the current version limit''
        else Inr ()))"

definition active_hold_total :: "(budget_hold_id, budget_hold) hmap \<Rightarrow> budget_id \<Rightarrow> int" where
  "active_hold_total holds bid =
     sum_list (map (units \<circ> bh_amount)
       (filter (\<lambda>h. bh_budget_id h = bid \<and> (bh_status h = Frozen \<or> bh_status h = Claimed)) (hm_values holds)))"

definition upsert_balance :: "'j governance \<Rightarrow> budget_balance \<Rightarrow> storage_error + 'j governance" where
  "upsert_balance g balance =
     and_then (ok_or (StorageInvalidData ''cannot save a balance without a current budget version'')
       (Option.bind (hm_get (gv_budgets g) (bal_budget_id balance)) (\<lambda>b.
        Option.bind (hm_get (gv_versions g) (bu_current_version_id b)) (\<lambda>v.
        if bv_budget_id v = bal_budget_id balance then Some (bv_amount_limit v) else None)))) (\<lambda>limit.
     and_then (validate_balance_for_limit balance limit) (\<lambda>_.
     let active = active_hold_total (gv_holds g) (bal_budget_id balance) in
     if \<not> fits_i64 active then Inl (StorageSqlite SumOverflow)
     else if Amount active \<noteq> bal_frozen_amount balance
     then stored_invalid ''frozen budget balance must equal its active holds''
     else if \<not> balance_row_ok balance then Inl (StorageSqlite ConstraintViolation)
     else Inr (g\<lparr>gv_balances := hm_insert (bal_budget_id balance) balance (gv_balances g)\<rparr>)))"

section \<open>Voiding\<close>

datatype authorization_void_error = ClaimedOrUsed | RevokedOrFinalized | VoidStorageError storage_error

record authorization_void_result =
  av_token :: spend_auth_token_record
  av_hold :: budget_hold
  av_balance :: budget_balance
  av_idempotent_replay :: bool

abbreviation void_invalid :: "string \<Rightarrow> authorization_void_error + 'a" where
  "void_invalid message \<equiv> Inl (VoidStorageError (StorageInvalidData message))"

definition REJECTED_BEFORE_CLAIM :: string where
  "REJECTED_BEFORE_CLAIM = ''executor_rejected_before_claim''"

definition write_void ::
  "'j governance_env \<Rightarrow> instant \<Rightarrow> spend_auth_token_id \<Rightarrow> spend_auth_token_record \<Rightarrow> budget_hold
     \<Rightarrow> budget_balance \<Rightarrow> 'j governance \<Rightarrow> storage_error + (authorization_void_result \<times> 'j governance)" where
  "write_void env now token_id t hold balance g =
     and_then (validate_hold_and_balance_relationship g hold balance False) (\<lambda>_.
     and_then (checked_executor_finalization_balance balance hold None) (\<lambda>balance.
     let t = t\<lparr>tk_revoked_at := Some now\<rparr>; hold = hold\<lparr>bh_status := Released, bh_updated_at := now\<rparr>;
         tokens = snd (update_row token_id (\<lambda>_. True) (\<lambda>r. r\<lparr>tk_revoked_at := Some now\<rparr>) (gv_tokens g));
         holds = snd (update_row (bh_id hold) (\<lambda>_. True)
                   (\<lambda>h. h\<lparr>bh_status := Released, bh_updated_at := now\<rparr>) (gv_holds g)) in
     and_then (upsert_balance (g\<lparr>gv_tokens := tokens, gv_holds := holds\<rparr>) balance) (\<lambda>g.
     if hm_contains (gv_voids g) token_id then Inl (StorageSqlite ConstraintViolation)
     else
     let g = g\<lparr>gv_voids := hm_insert token_id (REJECTED_BEFORE_CLAIM, now) (gv_voids g)\<rparr> in
     and_then (ge_capture_release env (tk_spend_decision_id t) now g) (\<lambda>journal.
     Inr (\<lparr>av_token = t, av_hold = hold, av_balance = balance, av_idempotent_replay = False\<rparr>,
          g\<lparr>gv_journal := journal\<rparr>)))))"

definition void_unclaimed_authorization ::
  "'j governance_env \<Rightarrow> instant \<Rightarrow> user_id \<Rightarrow> agent_account_id \<Rightarrow> spend_auth_token_id \<Rightarrow> string \<Rightarrow> 'j governance
     \<Rightarrow> authorization_void_error + (authorization_void_result \<times> 'j governance)" where
  "void_unclaimed_authorization env now owner account token_id operation_key g =
     and_then (ok_or (VoidStorageError (StorageInvalidData ''unknown owned authorization''))
                (hm_get (gv_tokens g) token_id)) (\<lambda>t.
     let owned_by = (\<lambda>agent. is_some_and (\<lambda>a. ac_agent_id a = agent \<and> ac_owner_user_id a = owner)
                               (hm_get (gv_accounts g) account));
         bound = is_some_and (\<lambda>d. sd_owner_user_id d = owner \<and> sd_operation_key d = operation_key
                    \<and> owned_by (sr_agent_id (sd_request d))) (hm_get (gv_decisions g) (tk_spend_decision_id t)) in
     if tk_owner_user_id t \<noteq> owner \<or> \<not> bound \<or> is_blank operation_key
     then void_invalid ''unknown owned authorization operation''
     else and_then (ok_or (VoidStorageError (StorageSqlite QueryReturnedNoRows))
       (find (\<lambda>h. bh_spend_decision_id h = tk_spend_decision_id t) (hm_values (gv_holds g)))) (\<lambda>hold.
     and_then (ok_or (VoidStorageError (StorageInvalidData ''authorization budget balance is missing''))
                (hm_get (gv_balances g) (bh_budget_id hold))) (\<lambda>balance.
     if \<not> is_some_and (\<lambda>b. owned_by (bu_agent_id b)) (hm_get (gv_budgets g) (bh_budget_id hold))
     then void_invalid ''authorization hold belongs to another agent''
     else if list_ex (\<lambda>c. cl_spend_auth_token_id c = token_id) (hm_values (gv_claims g))
             \<or> bh_executor_claim_id hold \<noteq> None \<or> tk_used_at t \<noteq> None \<or> tk_used_by_payment_id t \<noteq> None
     then Inl ClaimedOrUsed
     else
     let voided = is_some_and (\<lambda>(reason, _). reason = REJECTED_BEFORE_CLAIM) (hm_get (gv_voids g) token_id) in
     if voided \<and> tk_revoked_at t \<noteq> None \<and> bh_status hold = Released
     then Inr (\<lparr>av_token = t, av_hold = hold, av_balance = balance, av_idempotent_replay = True\<rparr>, g)
     else if tk_revoked_at t \<noteq> None \<or> bh_status hold \<noteq> Frozen then Inl RevokedOrFinalized
     else map_err VoidStorageError (write_void env now token_id t hold balance g))))"

definition void_unclaimed ::
  "'j governance_env \<Rightarrow> instant \<Rightarrow> user_id \<Rightarrow> agent_account_id \<Rightarrow> spend_auth_token_id \<Rightarrow> string \<Rightarrow> 'j service
     \<Rightarrow> (authorization_void_error + authorization_void_result) \<times> 'j service" where
  "void_unclaimed env now owner account token_id operation_key s =
     (case void_unclaimed_authorization env now owner account token_id operation_key (sv_store s) of
        Inl e \<Rightarrow> (Inl e, s)
      | Inr (result, store) \<Rightarrow>
          (Inr result,
           \<lparr>sv_spend = apply_persisted_authorization_void (av_token result) (sv_spend s),
            sv_budgets = apply_persisted_finalization (av_hold result) (av_balance result) (sv_budgets s),
            sv_store = store\<rparr>))"

section \<open>The report of a budget\<close>

record budget_ledger_query =
  bq_owner_user_id :: user_id
  bq_agent_id :: agent_id
  bq_budget_id :: budget_id

record budget_ledger_report =
  br_budget_id :: budget_id
  br_agent_id :: agent_id
  br_transactions :: "transaction_record list"
  br_consumed_amount :: amount
  br_recorded_budget_charges :: amount
  br_unaccounted_consumption :: amount
  br_consumed_amount_cents :: int
  br_recorded_budget_charges_cents :: int
  br_unaccounted_consumption_cents :: int
  br_owner_transactions_without_budget_context :: nat
  br_pending_hold_count :: nat

definition record_context :: "transaction_record \<Rightarrow> governed_spend_context option" where
  "record_context r = Option.bind (tr_metadata r) tm_context"

definition add_recorded_charge :: "amount \<Rightarrow> transaction_record \<Rightarrow> storage_error + amount" where
  "add_recorded_charge charged record =
     (case tr_metadata record of
        None \<Rightarrow> Inr charged
      | Some metadata \<Rightarrow>
          and_then (map_err storage_ledger_error (budget_charge_units metadata)) (\<lambda>charge.
          case charge of
            None \<Rightarrow> Inr charged
          | Some u \<Rightarrow> ok_or (StorageInvalidData ''charge total overflow'') (amount_checked_add charged (Amount u))))"

definition query_budget_ledger ::
  "budget_ledger_query \<Rightarrow> 'j governance \<Rightarrow> storage_error + budget_ledger_report" where
  "query_budget_ledger query g =
     (let owned = is_some_and (\<lambda>b. bu_agent_id b = bq_agent_id query) (hm_get (gv_budgets g) (bq_budget_id query))
            \<and> list_ex (\<lambda>a. ac_agent_id a = bq_agent_id query \<and> ac_owner_user_id a = bq_owner_user_id query)
                (hm_values (gv_accounts g)) in
      if \<not> owned then stored_invalid ''unknown owned agent budget''
      else
      let all = owner_transactions (gv_ledger g) (bq_owner_user_id query);
          unlinked = length (filter (\<lambda>r. record_context r = None) all);
          transactions = filter (\<lambda>r. is_some_and (\<lambda>c. gc_agent_id c = bq_agent_id query
              \<and> gc_budget_id c = bq_budget_id query) (record_context r)) all in
      and_then (try_fold add_recorded_charge ZERO transactions) (\<lambda>charged.
      and_then (ok_or (StorageInvalidData ''missing accounting budget'')
                 (hm_get (gv_balances g) (bq_budget_id query))) (\<lambda>balance.
      and_then (ok_or (StorageInvalidData ''coverage difference overflow'')
                 (amount_checked_sub (bal_consumed_amount balance) charged)) (\<lambda>unaccounted.
      Inr \<lparr>br_budget_id = bq_budget_id query, br_agent_id = bq_agent_id query,
           br_transactions = transactions, br_consumed_amount = bal_consumed_amount balance,
           br_recorded_budget_charges = charged, br_unaccounted_consumption = unaccounted,
           br_consumed_amount_cents = legacy_cents_ceil (bal_consumed_amount balance),
           br_recorded_budget_charges_cents = legacy_cents_ceil charged,
           br_unaccounted_consumption_cents = legacy_cents_ceil unaccounted,
           br_owner_transactions_without_budget_context = unlinked,
           br_pending_hold_count = length (filter (\<lambda>h. bh_budget_id h = bq_budget_id query
               \<and> (bh_status h = Frozen \<or> bh_status h = Claimed)) (hm_values (gv_holds g)))\<rparr>))))"

end
