(* ===== verification/Budget_Machine.thy ===== *)
theory Budget_Machine
  imports Budget_Hydration Machines
begin

text \<open>
  The budget manager as a state machine: every public operation of \<^verbatim>\<open>manager.rs\<close> is a step, identifiers
  that the operation generates are new, and a reservation whose persistence fails is rolled back. The
  parameter of the relation says whether finalizations may charge more than the hold (the store allows
  it for actual vendor costs). The theorems are about every reachable state.
\<close>

section \<open>Steps and reachable states\<close>

inductive budget_step :: "bool \<Rightarrow> budget_state \<Rightarrow> budget_state \<Rightarrow> bool" for overruns :: bool where
  step_create:
    "hm_get (budgets s) (ci_budget_id ci) = None \<Longrightarrow>
     hm_get (budget_versions s) (ci_version_id ci) = None \<Longrightarrow>
     amount_ok (cr_amount_limit req) \<Longrightarrow>
     create_single_budget_with_provenance ci req prov s = (res, s') \<Longrightarrow> budget_step overruns s s'"
| step_revoke: "revoke_budget_at bid now s = (res, s') \<Longrightarrow> budget_step overruns s s'"
| step_reserve:
    "hm_get (budget_holds s) fid = None \<Longrightarrow> amount_ok (rq_amount req) \<Longrightarrow>
     reserve_budget_at fid req now s = (res, s') \<Longrightarrow> budget_step overruns s s'"
| step_reserve_rolled_back:
    "hm_get (budget_holds s) fid = None \<Longrightarrow>
     hm_get (budget_balances s) (rq_budget_id req) = Some before \<Longrightarrow>
     reserve_budget_at fid req now s = (Inr r, s1) \<Longrightarrow>
     s' = rollback_unpersisted_reservation (hr_hold r) before s1 \<Longrightarrow> budget_step overruns s s'"
| step_claim: "claim_budget hid c expires now s = (res, s') \<Longrightarrow> budget_step overruns s s'"
| step_settle: "settle_budget hid charged now s = (res, s') \<Longrightarrow> budget_step overruns s s'"
| step_release: "release_budget hid now s = (res, s') \<Longrightarrow> budget_step overruns s s'"
| step_expire: "expire_overdue_budget_holds now s = (res, s') \<Longrightarrow> budget_step overruns s s'"
| step_finalize:
    "finalizes s hold balance charged \<Longrightarrow> overruns \<or> units charged \<le> units (bh_amount hold) \<Longrightarrow>
     s' = apply_persisted_finalization hold balance s \<Longrightarrow> budget_step overruns s s'"

text \<open>A state is solvent when no budget is overspent.\<close>

definition solvent :: "budget_state \<Rightarrow> bool" where
  "solvent s \<longleftrightarrow> (\<forall>bid bal. hm_get (budget_balances s) bid = Some bal \<longrightarrow>
                   0 \<le> units (bal_remaining_amount bal))"

text \<open>The manager starts empty or hydrated from the store; a state committed by the store is installed
  by hydrating again (\<open>apply_committed_state\<close>).\<close>

inductive budget_reachable :: "bool \<Rightarrow> budget_state \<Rightarrow> bool" for overruns :: bool where
  reach_new: "budget_reachable overruns budget_state_new"
| reach_hydrated:
    "from_records bs vs bals hs = Inr s \<Longrightarrow> record_amounts_ok vs bals hs \<Longrightarrow>
     overruns \<or> solvent s \<Longrightarrow> budget_reachable overruns s"
| reach_step: "budget_reachable overruns s \<Longrightarrow> budget_step overruns s s' \<Longrightarrow> budget_reachable overruns s'"

inductive_cases budget_step_cases: "budget_step overruns s s'"

lemma create_single_budget_inv:
  "budget_inv s \<Longrightarrow> hm_get (budgets s) (ci_budget_id ci) = None \<Longrightarrow>
   hm_get (budget_versions s) (ci_version_id ci) = None \<Longrightarrow> amount_ok (cr_amount_limit req) \<Longrightarrow>
   create_single_budget_with_provenance ci req prov s = (res, s') \<Longrightarrow> budget_inv s'"
  unfolding create_single_budget_with_provenance_def by (rule create_budget_inv)

lemma expire_overdue_inv:
  "budget_inv s \<Longrightarrow> expire_overdue_budget_holds now s = (res, s') \<Longrightarrow> budget_inv s'"
  using expire_overdue_effect[of s now] by auto

lemma budget_step_inv: "budget_step overruns s s' \<Longrightarrow> budget_inv s \<Longrightarrow> budget_inv s'"
proof (induction rule: budget_step.induct)
  case (step_reserve_rolled_back s fid req before now r s1 s')
  then show ?case using rollback_reservation by blast
qed (blast intro: create_single_budget_inv revoke_budget_at_inv reserve_budget_at_inv claim_budget_inv
      settle_budget_inv release_budget_inv expire_overdue_inv apply_persisted_finalization_inv)+

interpretation budget: machine "budget_step overruns" budget_inv for overruns
  by unfold_locales (rule budget_step_inv)

lemma reachable_inv: "budget_reachable overruns s \<Longrightarrow> budget_inv s"
  by (induction rule: budget_reachable.induct) (auto intro: budget_inv_new budget.inv_step from_records_inv)

section \<open>Reservations happen exactly when they may\<close>

lemma availability_defined:
  assumes inv: "budget_inv s" and w: "get_budget_by_id s bid = Some w"
  shows "\<exists>a. availability_at w now = Inr a"
proof -
  from w obtain b v bal where w': "w = \<lparr>bwb_budget = b, bwb_version = v, bwb_balance = bal\<rparr>"
    and g: "hm_get (budgets s) bid = Some b" "hm_get (budget_versions s) (bu_current_version_id b) = Some v"
      "hm_get (budget_balances s) bid = Some bal"
    by (auto simp: get_budget_by_id_def budget_with_balance_of_def bind_eq_Some_conv)
  have ok: "balance_ok (bv_amount_limit v) (frozen_total s bid) bal" "amount_ok (bv_amount_limit v)"
    "0 < units (bv_amount_limit v)" "bu_id b = bid" "bv_budget_id v = bid" "bal_budget_id bal = bid"
    "bv_id v = bu_current_version_id b"
    using budget_inv_budget[OF inv g(1)] g budget_inv_version[OF inv g(2)]
    by (auto simp: budget_entry_ok_def)
  have "derived_remaining (bv_amount_limit v) bal = Some (bal_remaining_amount bal)"
    using ok(1-3) by (auto simp: res_simps balance_ok_def amount_ok_def range_simps amount.expand)
  with ok(4-7) show ?thesis
    by (simp add: w' availability_at_def evaluate_budget_availability_def ok_or_def and_then_def)
qed

lemma get_budget_by_id_inv:
  assumes inv: "budget_inv s" and b: "hm_get (budgets s) bid = Some b"
  obtains v bal where "get_budget_by_id s bid = Some \<lparr>bwb_budget = b, bwb_version = v, bwb_balance = bal\<rparr>"
    and "hm_get (budget_versions s) (bu_current_version_id b) = Some v"
    and "hm_get (budget_balances s) bid = Some bal" and "bu_id b = bid"
    and "balance_ok (bv_amount_limit v) (frozen_total s bid) bal"
  using budget_inv_budget[OF inv b] b that
  by (auto simp: budget_entry_ok_def get_budget_by_id_def budget_with_balance_of_def)

section \<open>Solvency\<close>

lemma solvent_insert:
  "solvent s \<Longrightarrow> 0 \<le> units (bal_remaining_amount bal) \<Longrightarrow>
   budget_balances s' = hm_insert bid bal (budget_balances s) \<Longrightarrow> solvent s'"
  by (auto simp: solvent_def)

lemma solvent_same: "solvent s \<Longrightarrow> budget_balances s' = budget_balances s \<Longrightarrow> solvent s'"
  by (simp add: solvent_def)

text \<open>With the invariant, closing holds without a charge keeps every balance solvent: the remaining
  balance is the limit less what is consumed and frozen, and only the frozen part shrinks.\<close>

lemma solvent_close:
  assumes "solvent s" and "hm_get (budget_balances s) bid = Some bal" and "units charged \<le> units held"
    and "budget_balances s' = hm_insert bid (closed_balance bal held charged) (budget_balances s)"
  shows "solvent s'"
  using assms by (intro solvent_insert[OF assms(1) _ assms(4)]) (force simp: solvent_def closed_balance_def)

lemma solvent_expire_loop:
  assumes "budget_inv s" and "distinct hids" and "solvent s"
    and "\<forall>hid\<in>set hids. \<exists>h. hm_get (budget_holds s) hid = Some h \<and> bh_status h = Frozen"
    and "expire_loop hids now s = (res, s')"
  shows "solvent s'"
  using assms
proof (induction hids arbitrary: s res)
  case Nil
  then show ?case by simp
next
  case (Cons hid hids)
  then obtain h where h: "hm_get (budget_holds s) hid = Some h" "bh_status h = Frozen" by auto
  then have act: "hold_active h" by (simp add: hold_active_def)
  obtain bal where bal: "hm_get (budget_balances s) (bh_budget_id h) = Some bal"
    and one: "expire_one hid now s =
      (Inr \<lparr>hr_hold = expired_hold now h, hr_balance = closed_balance bal (bh_amount h) (Amount 0)\<rparr>,
       s\<lparr>budget_holds := hm_insert hid (expired_hold now h) (budget_holds s),
         budget_balances := hm_insert (bh_budget_id h)
           (closed_balance bal (bh_amount h) (Amount 0)) (budget_balances s)\<rparr>)"
    (is "_ = (_, ?s1)")
    by (rule expire_one_active[OF Cons.prems(1) h(1) act])
  have "budget_inv ?s1" using Cons.prems(1) h act bal by (intro budget_inv_release_hold) simp_all
  moreover have "solvent ?s1"
    using budget_inv_hold[OF Cons.prems(1) h(1)]
    by (intro solvent_close[OF Cons.prems(3) bal]) (auto simp: hold_entry_ok_def)
  moreover have "\<forall>i\<in>set hids. \<exists>k. hm_get (budget_holds ?s1) i = Some k \<and> bh_status k = Frozen"
    using Cons.prems(2,4) by auto
  moreover have "\<exists>res'. expire_loop hids now ?s1 = (res', s')"
    using Cons.prems(5) one by (auto split: prod.splits sum.splits)
  ultimately show ?case using Cons.IH Cons.prems(2) by auto
qed

lemma solvent_create:
  assumes "solvent s" and "create_budget_for_period ci agent limit cur period prov s = (res, s')"
  shows "solvent s'"
proof (cases res)
  case (Inl e)
  with assms create_budget_error_state show ?thesis by metis
next
  case (Inr w)
  note made = create_budget_success[OF assms(2)[unfolded Inr]]
  from build_budget_success(2,6)[OF made(3)] made(2) show ?thesis
    by (intro solvent_insert[OF assms(1)]) simp_all
qed

lemma solvent_step:
  assumes "budget_step False s s'" and inv: "budget_inv s" and sol: "solvent s"
  shows "solvent s'"
  using assms(1)
proof (cases rule: budget_step.cases)
  case (step_create ci req prov res)
  then show ?thesis using sol solvent_create by (auto simp: create_single_budget_with_provenance_def)
next
  case (step_revoke bid now res)
  then show ?thesis using sol
    by (auto simp: revoke_budget_at_def Let_def intro: solvent_same split: option.splits if_splits)
next
  case (step_reserve fid req now res)
  then show ?thesis
  proof (cases res)
    case (Inr r)
    with step_reserve show ?thesis
      by (auto elim!: reserve_budget_at_success intro!: solvent_insert[OF sol] simp: reserved_balance_def)
  qed (use sol reserve_budget_at_error_state in blast)
next
  case (step_reserve_rolled_back fid req before now r s1)
  then show ?thesis using sol rollback_reservation[OF inv] by simp
next
  case (step_claim hid c expires now res)
  then show ?thesis using sol
    by (auto simp: claim_budget_def Let_def intro: solvent_same split: option.splits sum.splits)
next
  case (step_settle hid charged now res)
  then show ?thesis using sol
    by (cases res) (auto dest: settle_budget_error_state elim!: settle_budget_success
        intro: solvent_close)
next
  case (step_release hid now res)
  have pos: "0 \<le> units (bh_amount h)" if "hm_get (budget_holds s) hid = Some h" for h
    using budget_inv_hold[OF inv that] by (simp add: hold_entry_ok_def)
  from step_release show ?thesis
  proof (cases res)
    case (Inr r)
    with step_release obtain h bal where h: "hm_get (budget_holds s) hid = Some h"
      and bal: "hm_get (budget_balances s) (bh_budget_id h) = Some bal"
      and s': "budget_balances s' = hm_insert (bh_budget_id h)
        (closed_balance bal (bh_amount h) (Amount 0)) (budget_balances s)"
      by (auto elim!: release_budget_success)
    from pos[OF h] show ?thesis by (intro solvent_close[OF sol bal _ s']) simp
  qed (use sol release_budget_error_state in blast)
next
  case (step_expire now res)
  have "\<forall>hid\<in>set (map bh_id (filter (overdue_hold now) (hm_values (budget_holds s)))).
          \<exists>h. hm_get (budget_holds s) hid = Some h \<and> bh_status h = Frozen"
    using overdue_ids(2)[OF inv] by (metis overdue_hold_def)
  with step_expire show ?thesis
    using solvent_expire_loop[OF inv overdue_ids(1)[OF inv] sol] by (simp add: expire_overdue_budget_holds_def)
next
  case (step_finalize hold balance charged)
  then show ?thesis using sol
    by (auto simp: finalizes_def apply_persisted_finalization_def same_reservation_def
        intro: solvent_close split: option.splits)
qed

lemma reachable_solvent: "budget_reachable False s \<Longrightarrow> solvent s"
proof (induction rule: budget_reachable.induct)
  case reach_new
  show ?case by (simp add: solvent_def budget_state_new_def)
next
  case (reach_hydrated bs vs bals hs s)
  then show ?case by simp
next
  case (reach_step s s')
  then show ?case using solvent_step reachable_inv by blast
qed

end
