(* ===== verification/Executor_Invariant.thy ===== *)
theory Executor_Invariant
  imports Governance_Admin Spend_Theorems Budget_Machine Ledger_Machine
begin

text \<open>
  What an executor's operations rely on and keep: the in-memory managers agree with the tables of the
  repository, and every executor claim is tied to one token, one hold and, once settled, one receipt,
  whose states move together. The laws of the table statements come first.
\<close>

section \<open>Table statements\<close>

lemma update_row_result:
  "update_row k condition change table = (n, table') \<longleftrightarrow>
     (case hm_get table k of
        Some row \<Rightarrow> if condition row then n = 1 \<and> table' = hm_insert k (change row) table
                   else n = 0 \<and> table' = table
      | None \<Rightarrow> n = 0 \<and> table' = table)"
  by (auto simp: update_row_def split: option.splits)

lemma update_one_ok_iff [res_simps]:
  "update_one k condition change message table = Inr table' \<longleftrightarrow>
     (\<exists>row. hm_get table k = Some row \<and> condition row \<and> table' = hm_insert k (change row) table)"
  by (auto simp: update_one_def update_row_def require_one_updated_row_def split: option.splits)

lemma compare_and_set_ok_iff:
  "compare_and_set_balance current updated table = Inr (1, table') \<longleftrightarrow>
     (\<exists>row. hm_get table (bal_budget_id updated) = Some row
        \<and> bal_consumed_amount row = bal_consumed_amount current
        \<and> bal_frozen_amount row = bal_frozen_amount current
        \<and> bal_remaining_amount row = bal_remaining_amount current
        \<and> balance_row_ok updated
        \<and> table' = hm_insert (bal_budget_id updated)
            (row\<lparr>bal_consumed_amount := bal_consumed_amount updated,
                 bal_frozen_amount := bal_frozen_amount updated,
                 bal_remaining_amount := bal_remaining_amount updated\<rparr>) table)"
  by (auto simp: compare_and_set_balance_def update_row_def Let_def split: option.splits)

lemma find_value:
  assumes "hm_wf T" and "find P (hm_values T) = Some x"
  shows "\<exists>k. hm_get T k = Some x \<and> P x"
proof -
  from assms(2) have "x \<in> set (hm_values T)" "P x" by (auto simp: find_Some_iff)
  then show ?thesis using hm.values_get[OF assms(1)] by blast
qed

lemma find_value_unique:
  assumes "hm_wf T" and "hm_get T k = Some x" and "P x"
    and unique: "\<And>j y. hm_get T j = Some y \<Longrightarrow> P y \<Longrightarrow> y = x"
  shows "find P (hm_values T) = Some x"
proof (cases "find P (hm_values T)")
  case None
  then have "x \<notin> set (hm_values T)" using assms(3) by (auto simp: find_None_iff)
  then show ?thesis using hm.values_get[OF assms(1)] assms(2) by blast
next
  case (Some y)
  then show ?thesis using find_value[OF assms(1)] unique by blast
qed

lemma list_ex_values:
  "hm_wf T \<Longrightarrow> list_ex P (hm_values T) \<longleftrightarrow> (\<exists>k x. hm_get T k = Some x \<and> P x)"
  unfolding list_ex_iff using hm.values_get by fastforce

section \<open>The managers and the tables\<close>

definition same_rows :: "('k, 'v) hmap \<Rightarrow> ('k, 'v) hmap \<Rightarrow> bool" where
  "same_rows m m' \<longleftrightarrow> (\<forall>k. hm_get m k = hm_get m' k)"

lemma same_rowsD: "same_rows m m' \<Longrightarrow> hm_get m k = hm_get m' k"
  by (simp add: same_rows_def)

lemma same_rows_insert [intro]: "same_rows m m' \<Longrightarrow> same_rows (hm_insert k v m) (hm_insert k v m')"
  by (simp add: same_rows_def)

definition tables_wf :: "'j governance \<Rightarrow> bool" where
  "tables_wf g \<longleftrightarrow>
     hm_wf (gv_tokens g) \<and> hm_wf (gv_claims g) \<and> hm_wf (gv_receipts g) \<and> hm_wf (gv_balances g)
     \<and> hm_wf (gv_holds g)"

definition coherent :: "'j service \<Rightarrow> bool" where
  "coherent s \<longleftrightarrow>
     same_rows (decisions (sv_spend s)) (gv_decisions (sv_store s))
     \<and> same_rows (tokens (sv_spend s)) (gv_tokens (sv_store s))
     \<and> same_rows (executor_claims (sv_spend s)) (gv_claims (sv_store s))
     \<and> same_rows (budgets (sv_budgets s)) (gv_budgets (sv_store s))
     \<and> same_rows (budget_versions (sv_budgets s)) (gv_versions (sv_store s))
     \<and> same_rows (budget_balances (sv_budgets s)) (gv_balances (sv_store s))
     \<and> same_rows (budget_holds (sv_budgets s)) (gv_holds (sv_store s))"

lemma coherentD:
  assumes "coherent s"
  shows "hm_get (decisions (sv_spend s)) d = hm_get (gv_decisions (sv_store s)) d"
    and "hm_get (tokens (sv_spend s)) t = hm_get (gv_tokens (sv_store s)) t"
    and "hm_get (executor_claims (sv_spend s)) c = hm_get (gv_claims (sv_store s)) c"
    and "hm_get (budgets (sv_budgets s)) b = hm_get (gv_budgets (sv_store s)) b"
    and "hm_get (budget_versions (sv_budgets s)) v = hm_get (gv_versions (sv_store s)) v"
    and "hm_get (budget_balances (sv_budgets s)) b = hm_get (gv_balances (sv_store s)) b"
    and "hm_get (budget_holds (sv_budgets s)) h = hm_get (gv_holds (sv_store s)) h"
  using assms by (simp_all add: coherent_def same_rows_def)

section \<open>Claims, tokens, holds and receipts\<close>

text \<open>A receipt records what the settlement of its hold charged.\<close>

definition receipt_ok :: "persisted_receipt \<Rightarrow> spend_executor_claim_record \<Rightarrow> budget_hold \<Rightarrow> bool" where
  "receipt_ok r c h \<longleftrightarrow>
     rc_claim_id r = cl_id c \<and> cl_settlement_id c = Some (rc_settlement_id r)
     \<and> rc_authorized_max r = bh_amount h \<and> rc_currency r = bh_currency h
     \<and> validate_executor_settlement_receipt (rc_receipt r) h (cl_reconciled_at c \<noteq> None)
       = Inr \<lparr>sa_budget_charge = rc_budget_charge r, sa_released_amount = rc_released_amount r,
              sa_overrun_amount = rc_overrun_amount r\<rparr>"

definition executor_claim_phase ::
  "persisted_receipt option \<Rightarrow> spend_executor_claim_record \<Rightarrow> spend_auth_token_record \<Rightarrow> budget_hold \<Rightarrow> bool" where
  "executor_claim_phase receipt c t h \<longleftrightarrow>
     (case cl_status c of
        ClaimClaimed \<Rightarrow>
          tk_used_at t = None \<and> tk_used_by_payment_id t = None \<and> tk_revoked_at t = None
          \<and> bh_status h = Claimed \<and> receipt = None \<and> cl_settlement_id c = None
          \<and> cl_provider_reference c = None \<and> cl_reconciliation_evidence c = None
          \<and> cl_reconciled_at c = None \<and> cl_reconciled_by_user_id c = None
      | ClaimSettled \<Rightarrow>
          tk_used_at t \<noteq> None \<and> tk_used_by_payment_id t = cl_settlement_id c \<and> tk_revoked_at t = None
          \<and> bh_status h = Settled \<and> (\<exists>r. receipt = Some r \<and> receipt_ok r c h)
      | ClaimReleased \<Rightarrow>
          tk_used_at t = None \<and> tk_used_by_payment_id t = None \<and> tk_revoked_at t \<noteq> None
          \<and> bh_status h = Released \<and> receipt = None)"

definition claim_linked :: "'j governance \<Rightarrow> spend_executor_claim_record \<Rightarrow> bool" where
  "claim_linked g c \<longleftrightarrow>
     (\<exists>t h. hm_get (gv_tokens g) (cl_spend_auth_token_id c) = Some t
        \<and> tk_owner_user_id t = cl_owner_user_id c
        \<and> hm_get (gv_holds g) (bh_id h) = Some h \<and> bh_executor_claim_id h = Some (cl_id c)
        \<and> bh_spend_decision_id h = tk_spend_decision_id t
        \<and> executor_claim_phase (hm_get (gv_receipts g) (cl_id c)) c t h)"

definition hold_linked :: "'j governance \<Rightarrow> budget_hold \<Rightarrow> bool" where
  "hold_linked g h \<longleftrightarrow>
     (\<forall>cid. bh_executor_claim_id h = Some cid \<longrightarrow>
        (\<exists>c t. hm_get (gv_claims g) cid = Some c
           \<and> hm_get (gv_tokens g) (cl_spend_auth_token_id c) = Some t
           \<and> tk_spend_decision_id t = bh_spend_decision_id h))"

definition links_inv :: "'j governance \<Rightarrow> bool" where
  "links_inv g \<longleftrightarrow>
     (\<forall>cid c. hm_get (gv_claims g) cid = Some c \<longrightarrow> cl_id c = cid \<and> claim_linked g c)
     \<and> (\<forall>hid h. hm_get (gv_holds g) hid = Some h \<longrightarrow> bh_id h = hid \<and> hold_linked g h)
     \<and> (\<forall>cid r. hm_get (gv_receipts g) cid = Some r \<longrightarrow> hm_contains (gv_claims g) cid)"

definition service_inv :: "'j service \<Rightarrow> bool" where
  "service_inv s \<longleftrightarrow>
     spend_inv (sv_spend s) \<and> budget_inv (sv_budgets s) \<and> coherent s
     \<and> tables_wf (sv_store s) \<and> links_inv (sv_store s) \<and> ledger_inv (gv_ledger (sv_store s))"

lemma service_invD:
  assumes "service_inv s"
  shows "spend_inv (sv_spend s)" "budget_inv (sv_budgets s)" "coherent s"
    "tables_wf (sv_store s)" "links_inv (sv_store s)" "ledger_inv (gv_ledger (sv_store s))"
  using assms by (simp_all add: service_inv_def)

lemma claim_row:
  "links_inv g \<Longrightarrow> hm_get (gv_claims g) cid = Some c \<Longrightarrow> cl_id c = cid \<and> claim_linked g c"
  by (simp add: links_inv_def)

lemma hold_row:
  "links_inv g \<Longrightarrow> hm_get (gv_holds g) hid = Some h \<Longrightarrow> bh_id h = hid \<and> hold_linked g h"
  by (simp add: links_inv_def)

lemma receipt_row:
  "links_inv g \<Longrightarrow> hm_get (gv_receipts g) cid = Some r \<Longrightarrow> \<exists>c. hm_get (gv_claims g) cid = Some c"
  by (auto simp: links_inv_def hm_contains_def)

lemma claim_link:
  assumes "links_inv g" and "hm_get (gv_claims g) cid = Some c"
  obtains t h where "cl_id c = cid" and "hm_get (gv_tokens g) (cl_spend_auth_token_id c) = Some t"
    and "tk_owner_user_id t = cl_owner_user_id c" and "hm_get (gv_holds g) (bh_id h) = Some h"
    and "bh_executor_claim_id h = Some cid" and "bh_spend_decision_id h = tk_spend_decision_id t"
    and "executor_claim_phase (hm_get (gv_receipts g) cid) c t h"
  using claim_row[OF assms] that unfolding claim_linked_def by blast

text \<open>The hold of a claim is the only one, so the search by claim finds it.\<close>

lemma claim_hold_decision:
  assumes "links_inv g" and "hm_get (gv_holds g) i = Some h" and "bh_executor_claim_id h = Some cid"
  shows "\<exists>c t. hm_get (gv_claims g) cid = Some c
    \<and> hm_get (gv_tokens g) (cl_spend_auth_token_id c) = Some t \<and> tk_spend_decision_id t = bh_spend_decision_id h"
  using hold_row[OF assms(1,2)] assms(3) by (simp add: hold_linked_def)

lemma claim_hold_unique:
  assumes inv: "service_inv s"
    and h: "hm_get (gv_holds (sv_store s)) i = Some h" "bh_executor_claim_id h = Some cid"
    and k: "hm_get (gv_holds (sv_store s)) j = Some k" "bh_executor_claim_id k = Some cid"
  shows "i = j" and "h = k"
proof -
  note bud = service_invD(2)[OF inv] and co = service_invD(3)[OF inv] and links = service_invD(5)[OF inv]
  have d: "bh_spend_decision_id h = bh_spend_decision_id k"
    using claim_hold_decision[OF links h] claim_hold_decision[OF links k] by auto
  have "hm_get (budget_holds (sv_budgets s)) i = Some h" "hm_get (budget_holds (sv_budgets s)) j = Some k"
    using h(1) k(1) by (simp_all add: coherentD(7)[OF co])
  from this[THEN budget_inv_hold[OF bud]] d show "i = j" by (simp add: hold_entry_ok_def)
  with h k show "h = k" by simp
qed

lemma load_claim_hold:
  assumes inv: "service_inv s" and h: "hm_get (gv_holds (sv_store s)) i = Some h"
    and c: "bh_executor_claim_id h = Some cid"
  shows "load_budget_hold_by_claim_id (sv_store s) cid = Some h"
  unfolding load_budget_hold_by_claim_id_def
proof (rule find_value_unique[OF _ h])
  show "bh_executor_claim_id h = Some cid" by (rule c)
  show "hm_wf (gv_holds (sv_store s))" using service_invD(4)[OF inv] by (simp add: tables_wf_def)
  fix j y
  assume "hm_get (gv_holds (sv_store s)) j = Some y" "bh_executor_claim_id y = Some cid"
  from claim_hold_unique(2)[OF inv this h c] show "y = h" .
qed

lemma load_claim_holdD:
  assumes inv: "service_inv s" and f: "load_budget_hold_by_claim_id (sv_store s) cid = Some h"
  shows "hm_get (gv_holds (sv_store s)) (bh_id h) = Some h" and "bh_executor_claim_id h = Some cid"
proof -
  have wf: "hm_wf (gv_holds (sv_store s))" using service_invD(4)[OF inv] by (simp add: tables_wf_def)
  from find_value[OF wf f[unfolded load_budget_hold_by_claim_id_def]] obtain i
    where i: "hm_get (gv_holds (sv_store s)) i = Some h" and c: "bh_executor_claim_id h = Some cid" by blast
  from hold_row[OF service_invD(5)[OF inv] i] i c
  show "hm_get (gv_holds (sv_store s)) (bh_id h) = Some h" "bh_executor_claim_id h = Some cid" by simp_all
qed

section \<open>Finalizations\<close>

text \<open>A finalization that succeeds either replays the stored outcome or writes the four rows, the receipt
  and the posting of a new one.\<close>

lemma write_finalization_okD:
  assumes "write_finalization action authority at claim hold balance updated g = Inr g'"
  shows "\<exists>t c h row. hm_get (gv_tokens g) (cl_spend_auth_token_id claim) = Some t
    \<and> hm_get (gv_claims g) (cl_id claim) = Some c \<and> hm_get (gv_holds g) (bh_id hold) = Some h
    \<and> hm_get (gv_balances g) (bal_budget_id updated) = Some row
    \<and> g' = g\<lparr>gv_tokens := hm_insert (cl_spend_auth_token_id claim) (finalized_token action at t) (gv_tokens g),
        gv_claims := hm_insert (cl_id claim) (finalized_claim_row action authority at c) (gv_claims g),
        gv_holds := hm_insert (bh_id hold)
          (h\<lparr>bh_status := snd (terminal_status action), bh_updated_at := at\<rparr>) (gv_holds g),
        gv_balances := hm_insert (bal_budget_id updated)
          (row\<lparr>bal_consumed_amount := bal_consumed_amount updated,
               bal_frozen_amount := bal_frozen_amount updated,
               bal_remaining_amount := bal_remaining_amount updated\<rparr>) (gv_balances g)\<rparr>"
proof -
  from assms obtain t c h balances
    where rows: "hm_get (gv_tokens g) (cl_spend_auth_token_id claim) = Some t"
      "hm_get (gv_claims g) (cl_id claim) = Some c" "hm_get (gv_holds g) (bh_id hold) = Some h"
    and bal: "compare_and_set_balance balance updated (gv_balances g) = Inr (1, balances)"
    and g': "g' = g\<lparr>gv_tokens := hm_insert (cl_spend_auth_token_id claim) (finalized_token action at t) (gv_tokens g),
        gv_claims := hm_insert (cl_id claim) (finalized_claim_row action authority at c) (gv_claims g),
        gv_holds := hm_insert (bh_id hold)
          (h\<lparr>bh_status := snd (terminal_status action), bh_updated_at := at\<rparr>) (gv_holds g),
        gv_balances := balances\<rparr>"
    by (auto simp: write_finalization_def res_simps require_one_updated_row_def split: if_splits)
  from bal[unfolded compare_and_set_ok_iff] rows g' show ?thesis by blast
qed

text \<open>The new rows of a finalization.\<close>

definition finalized_rows ::
  "finalization_action \<Rightarrow> finalization_authority \<Rightarrow> instant \<Rightarrow> spend_executor_claim_record
     \<Rightarrow> spend_auth_token_record \<Rightarrow> budget_hold \<Rightarrow> budget_balance \<Rightarrow> 'j governance \<Rightarrow> 'j governance" where
  "finalized_rows action authority at c t h updated g =
     g\<lparr>gv_tokens := hm_insert (cl_spend_auth_token_id c) (finalized_token action at t) (gv_tokens g),
       gv_claims := hm_insert (cl_id c) (finalized_claim action authority at c) (gv_claims g),
       gv_holds := hm_insert (bh_id h)
         (h\<lparr>bh_status := snd (terminal_status action), bh_updated_at := at\<rparr>) (gv_holds g),
       gv_balances := hm_insert (bal_budget_id updated) updated (gv_balances g)\<rparr>"

definition settlement_amounts_of ::
  "finalization_action \<Rightarrow> finalization_authority \<Rightarrow> budget_hold \<Rightarrow> storage_error + settlement_amounts option" where
  "settlement_amounts_of action authority h =
     (case action of
        SettleAction _ receipt \<Rightarrow>
          and_then (validate_executor_settlement_receipt receipt h (by_reconciliation authority))
            (\<lambda>amounts. Inr (Some amounts))
      | ReleaseAction \<Rightarrow> Inr None)"

lemma finalize_cases:
  assumes "finalize_executor_claim env ids owner locator action authority at g = Inr (fr, g')"
  obtains (replay) c t h bal where "locate_claim g owner locator = Inr c"
      and "hm_get (gv_tokens g) (cl_spend_auth_token_id c) = Some t"
      and "load_budget_hold_by_claim_id g (cl_id c) = Some h"
      and "hm_get (gv_balances g) (bh_budget_id h) = Some bal"
      and "replay_is_consistent action c t h (hm_get (gv_receipts g) (cl_id c)) = Inr True"
      and "fr = \<lparr>fr_claim = c, fr_token = t, fr_hold = h, fr_balance = bal,
                fr_receipt = hm_get (gv_receipts g) (cl_id c), fr_idempotent_replay = True\<rparr>" and "g' = g"
  | (new) c t h bal amounts updated g1 receipt g2 journal where "locate_claim g owner locator = Inr c"
      and "hm_get (gv_tokens g) (cl_spend_auth_token_id c) = Some t"
      and "load_budget_hold_by_claim_id g (cl_id c) = Some h"
      and "hm_get (gv_balances g) (bh_budget_id h) = Some bal"
      and "finalization_guards authority at c t h bal (hm_get (gv_receipts g) (cl_id c)) = Inr ()"
      and "settlement_amounts_of action authority h = Inr amounts"
      and "checked_executor_finalization_balance bal h amounts = Inr updated"
      and "write_finalization action authority at c h bal updated g = Inr g1"
      and "record_settlement env ids action authority at c h amounts g1 = Inr (receipt, g2)"
      and "g' = g2\<lparr>gv_journal := journal\<rparr>"
      and "fr = \<lparr>fr_claim = finalized_claim action authority at c, fr_token = finalized_token action at t,
                fr_hold = h\<lparr>bh_status := snd (terminal_status action), bh_updated_at := at\<rparr>,
                fr_balance = updated, fr_receipt = receipt, fr_idempotent_replay = False\<rparr>"
proof -
  from assms obtain c t h bal replay
    where rows: "locate_claim g owner locator = Inr c" "hm_get (gv_tokens g) (cl_spend_auth_token_id c) = Some t"
      "load_budget_hold_by_claim_id g (cl_id c) = Some h" "hm_get (gv_balances g) (bh_budget_id h) = Some bal"
    and re: "replay_is_consistent action c t h (hm_get (gv_receipts g) (cl_id c)) = Inr replay"
    by (auto simp: finalize_executor_claim_def Let_def res_simps)
  show thesis
  proof (cases replay)
    case True
    with assms rows re show thesis
      by (intro replay[OF rows]) (auto simp: finalize_executor_claim_def Let_def split: if_splits)
  next
    case False
    with assms rows re show thesis
      by (auto simp: finalize_executor_claim_def Let_def res_simps settlement_amounts_of_def[symmetric]
          split: prod.splits intro: new[OF rows])
  qed
qed

end
