(* ===== verification/Executor_Finalization.thy ===== *)
theory Executor_Finalization
  imports Executor_Invariant
begin

text \<open>
  The effect of a finalization on the repository: it replays the stored outcome and changes nothing, or
  it moves the rows of one open claim together, and for a settlement adds its receipt and its posting.
  The links of the tables survive both.
\<close>

section \<open>One finalization\<close>

definition charge_of :: "settlement_amounts option \<Rightarrow> amount" where
  "charge_of amounts = (case amounts of None \<Rightarrow> Amount 0 | Some a \<Rightarrow> sa_budget_charge a)"

lemma checked_finalization_balance:
  assumes "checked_executor_finalization_balance bal h amounts = Inr updated"
  shows "updated = closed_balance bal (bh_amount h) (charge_of amounts)"
    and "fits_i64 (units (bal_frozen_amount updated))"
    and "fits_i64 (units (bal_consumed_amount bal)) \<Longrightarrow> fits_i64 (units (bal_consumed_amount updated))"
    and "fits_i64 (units (bal_remaining_amount updated))"
  using assms
  by (auto simp: checked_executor_finalization_balance_def res_simps Let_def closed_balance_def charge_of_def
      split: option.splits)

lemma validated_amounts:
  assumes "validate_executor_settlement_receipt receipt h overrun = Inr amounts"
  shows "budget_charge (sr_actual_vendor_cost receipt) = Inr (sa_budget_charge amounts)"
    and "vc_currency (sr_actual_vendor_cost receipt) = bh_currency h"
    and "overrun \<or> sa_budget_charge amounts \<le> bh_amount h"
  using assms
  by (auto simp: validate_executor_settlement_receipt_def res_simps Let_def not_less
      split: if_splits option.splits)

text \<open>A receipt depends on its hold through amount and currency only.\<close>

lemma validate_receipt_same_hold:
  assumes "bh_amount h' = bh_amount h" and "bh_currency h' = bh_currency h"
  shows "validate_executor_settlement_receipt receipt h' overrun = validate_executor_settlement_receipt receipt h overrun"
  by (simp only: validate_executor_settlement_receipt_def assms)

definition action_well_typed :: "finalization_action \<Rightarrow> bool" where
  "action_well_typed action =
     (case action of SettleAction _ receipt \<Rightarrow> fits_i64 (vc_amount (sr_actual_vendor_cost receipt)) | ReleaseAction \<Rightarrow> True)"

lemma settlement_charge_nonneg:
  assumes "settlement_amounts_of action authority h = Inr amounts" and "action_well_typed action"
  shows "0 \<le> units (charge_of amounts)"
proof (cases action)
  case (SettleAction i receipt)
  with assms obtain a where a: "amounts = Some a"
    "validate_executor_settlement_receipt receipt h (by_reconciliation authority) = Inr a"
    by (auto simp: settlement_amounts_of_def res_simps)
  have "fits_i64 (vc_amount (sr_actual_vendor_cost receipt))" using assms(2) SettleAction by (simp add: action_well_typed_def)
  note v = budget_charge_value[OF validated_amounts(1)[OF a(2)] this]
  show ?thesis using v(1,3) a(1) by (simp add: charge_of_def ceil_div_nonneg)
next
  case ReleaseAction
  with assms show ?thesis by (auto simp: settlement_amounts_of_def charge_of_def)
qed

text \<open>The claim a finalization finds is the stored one.\<close>

lemma locate_claim_ok:
  assumes "links_inv g" and "hm_wf (gv_claims g)" and "locate_claim g owner locator = Inr c"
  shows "hm_get (gv_claims g) (cl_id c) = Some c" and "cl_owner_user_id c = owner"
proof -
  have "\<exists>i. hm_get (gv_claims g) i = Some c"
    using assms(3) find_value[OF assms(2)]
    by (fastforce simp: locate_claim_def res_simps load_executor_claim_by_operation_def
        split: claim_locator.splits if_splits)
  with claim_row[OF assms(1)] show "hm_get (gv_claims g) (cl_id c) = Some c" by auto
  show "cl_owner_user_id c = owner"
    using assms(3) by (auto simp: locate_claim_def res_simps split: if_splits claim_locator.splits)
qed

text \<open>What the rows of a claim are before it is finalized.\<close>

record claim_rows =
  cr_claim :: spend_executor_claim_record
  cr_token :: spend_auth_token_record
  cr_hold :: budget_hold
  cr_balance :: budget_balance

definition open_claim :: "'j service \<Rightarrow> claim_rows \<Rightarrow> bool" where
  "open_claim s r \<longleftrightarrow>
     hm_get (gv_claims (sv_store s)) (cl_id (cr_claim r)) = Some (cr_claim r)
     \<and> cl_status (cr_claim r) = ClaimClaimed
     \<and> hm_get (gv_tokens (sv_store s)) (cl_spend_auth_token_id (cr_claim r)) = Some (cr_token r)
     \<and> tk_id (cr_token r) = cl_spend_auth_token_id (cr_claim r)
     \<and> tk_owner_user_id (cr_token r) = cl_owner_user_id (cr_claim r)
     \<and> hm_get (gv_holds (sv_store s)) (bh_id (cr_hold r)) = Some (cr_hold r)
     \<and> bh_executor_claim_id (cr_hold r) = Some (cl_id (cr_claim r))
     \<and> bh_spend_decision_id (cr_hold r) = tk_spend_decision_id (cr_token r)
     \<and> hm_get (gv_balances (sv_store s)) (bh_budget_id (cr_hold r)) = Some (cr_balance r)
     \<and> bal_budget_id (cr_balance r) = bh_budget_id (cr_hold r)
     \<and> executor_claim_phase (hm_get (gv_receipts (sv_store s)) (cl_id (cr_claim r))) (cr_claim r) (cr_token r) (cr_hold r)"

lemma open_claimI:
  assumes inv: "service_inv s" and c: "hm_get (gv_claims (sv_store s)) cid = Some c"
    and st: "cl_status c = ClaimClaimed"
  obtains r where "open_claim s r" and "cr_claim r = c"
proof -
  from claim_link[OF service_invD(5)[OF inv] c] obtain t h where
    th: "cl_id c = cid" "hm_get (gv_tokens (sv_store s)) (cl_spend_auth_token_id c) = Some t"
      "tk_owner_user_id t = cl_owner_user_id c" "hm_get (gv_holds (sv_store s)) (bh_id h) = Some h"
      "bh_executor_claim_id h = Some cid" "bh_spend_decision_id h = tk_spend_decision_id t"
      "executor_claim_phase (hm_get (gv_receipts (sv_store s)) cid) c t h" .
  note co = service_invD(3)[OF inv]
  have "tk_id t = cl_spend_auth_token_id c"
    using token_entry[OF service_invD(1)[OF inv], of "cl_spend_auth_token_id c" t] th(2)
    by (simp add: coherentD(2)[OF co] token_entry_ok_def)
  moreover have "hm_get (budget_holds (sv_budgets s)) (bh_id h) = Some h" using th(4) by (simp add: coherentD(7)[OF co])
  from budget_inv_hold_account[OF service_invD(2)[OF inv] this] obtain bal where
    "hm_get (gv_balances (sv_store s)) (bh_budget_id h) = Some bal" "bal_budget_id bal = bh_budget_id h"
    by (metis coherentD(6)[OF co])
  ultimately show thesis
    using th c st by (intro that[of "\<lparr>cr_claim = c, cr_token = t, cr_hold = h, cr_balance = bal\<rparr>"])
      (simp_all add: open_claim_def)
qed

lemma open_claim_hold:
  assumes "service_inv s" and "open_claim s r"
  shows "load_budget_hold_by_claim_id (sv_store s) (cl_id (cr_claim r)) = Some (cr_hold r)"
  using load_claim_hold[OF assms(1)] assms(2) by (auto simp: open_claim_def)

section \<open>The effect of a new finalization\<close>

lemma finalized_claim_row_open:
  assumes "cl_provider_reference c = None" and "cl_reconciliation_evidence c = None"
    and "cl_reconciled_at c = None" and "cl_reconciled_by_user_id c = None"
  shows "finalized_claim_row action authority at c = finalized_claim action authority at c"
proof -
  have "c\<lparr>cl_provider_reference := None, cl_reconciliation_evidence := None, cl_reconciled_at := None,
         cl_reconciled_by_user_id := None\<rparr> = c" using assms by simp
  then show ?thesis by (simp only: finalized_claim_row_def)
qed

lemma finalized_claim_frame [simp]:
  "cl_id (finalized_claim action authority at c) = cl_id c"
  "cl_spend_auth_token_id (finalized_claim action authority at c) = cl_spend_auth_token_id c"
  "cl_owner_user_id (finalized_claim action authority at c) = cl_owner_user_id c"
  "cl_agent_id (finalized_claim action authority at c) = cl_agent_id c"
  "cl_operation_key (finalized_claim action authority at c) = cl_operation_key c"
  "cl_status (finalized_claim action authority at c) = fst (terminal_status action)"
  "cl_settlement_id (finalized_claim action authority at c) = settlement_id_of action"
  by (simp_all add: finalized_claim_def reconciled_claim_def split: finalization_authority.splits)

lemma by_reconciliation_simps [simp]:
  "\<not> by_reconciliation ByExecutor" "by_reconciliation (ByReconciliation p e u)"
  by (simp_all add: by_reconciliation_def)

lemma finalized_claim_reconciled:
  "cl_reconciled_at c = None \<Longrightarrow>
   cl_reconciled_at (finalized_claim action authority at c) \<noteq> None \<longleftrightarrow> by_reconciliation authority"
  by (simp add: finalized_claim_def reconciled_claim_def by_reconciliation_def split: finalization_authority.splits)

lemma finalized_token_frame [simp]:
  "tk_id (finalized_token action at t) = tk_id t"
  "tk_owner_user_id (finalized_token action at t) = tk_owner_user_id t"
  "tk_spend_decision_id (finalized_token action at t) = tk_spend_decision_id t"
  by (simp_all add: finalized_token_def split: finalization_action.splits)

lemma finalized_rows_frame [simp]:
  "gv_decisions (finalized_rows action authority at c t h bal g) = gv_decisions g"
  "gv_receipts (finalized_rows action authority at c t h bal g) = gv_receipts g"
  "gv_budgets (finalized_rows action authority at c t h bal g) = gv_budgets g"
  "gv_versions (finalized_rows action authority at c t h bal g) = gv_versions g"
  "gv_accounts (finalized_rows action authority at c t h bal g) = gv_accounts g"
  "gv_voids (finalized_rows action authority at c t h bal g) = gv_voids g"
  "gv_ledger (finalized_rows action authority at c t h bal g) = gv_ledger g"
  by (simp_all add: finalized_rows_def)

text \<open>Everything a new finalization does to the repository: the rows of one open claim, and for a
  settlement its receipt and its posting.\<close>

definition finalizes_claim ::
  "'j governance_env \<Rightarrow> pair_ids \<Rightarrow> finalization_action \<Rightarrow> finalization_authority \<Rightarrow> instant \<Rightarrow> 'j governance
     \<Rightarrow> claim_rows \<Rightarrow> settlement_amounts option \<Rightarrow> finalization_result \<Rightarrow> 'j governance \<Rightarrow> bool" where
  "finalizes_claim env ids action authority at g r amounts fr g' \<longleftrightarrow>
     (let updated = closed_balance (cr_balance r) (bh_amount (cr_hold r)) (charge_of amounts);
          hold = (cr_hold r)\<lparr>bh_status := snd (terminal_status action), bh_updated_at := at\<rparr>;
          g1 = finalized_rows action authority at (cr_claim r) (cr_token r) (cr_hold r) updated g in
      settlement_amounts_of action authority (cr_hold r) = Inr amounts
      \<and> fits_i64 (units (bal_remaining_amount updated)) \<and> fits_i64 (units (bal_frozen_amount updated))
      \<and> (fits_i64 (units (bal_consumed_amount (cr_balance r))) \<longrightarrow> fits_i64 (units (bal_consumed_amount updated)))
      \<and> fr_claim fr = finalized_claim action authority at (cr_claim r)
      \<and> fr_token fr = finalized_token action at (cr_token r)
      \<and> fr_hold fr = hold \<and> fr_balance fr = updated \<and> \<not> fr_idempotent_replay fr
      \<and> (case (action, amounts) of
           (SettleAction settlement_id receipt, Some a) \<Rightarrow>
             let record = settlement_record (cr_claim r) (cr_hold r) a settlement_id receipt at in
             fr_receipt fr = Some record
             \<and> (\<exists>receipts L journal. save_executor_settlement_receipt record (gv_receipts g) = Inr receipts
                  \<and> post_settlement env ids (reconciled_claim authority at ((cr_claim r)\<lparr>cl_finalized_at := Some at\<rparr>))
                      ((cr_hold r)\<lparr>bh_updated_at := at\<rparr>) record False (g1\<lparr>gv_receipts := receipts\<rparr>) = Inr L
                  \<and> g' = g1\<lparr>gv_receipts := receipts, gv_ledger := L, gv_journal := journal\<rparr>)
         | _ \<Rightarrow> fr_receipt fr = None \<and> (\<exists>journal. g' = g1\<lparr>gv_journal := journal\<rparr>)))"

lemma record_settlement_ok_iff:
  "record_settlement env ids action authority at c h amounts g = Inr (receipt, g2) \<longleftrightarrow>
     (case (action, amounts) of
        (SettleAction settlement_id rc, Some a) \<Rightarrow>
          receipt = Some (settlement_record c h a settlement_id rc at)
          \<and> (\<exists>receipts L.
               save_executor_settlement_receipt (settlement_record c h a settlement_id rc at) (gv_receipts g) = Inr receipts
             \<and> post_settlement env ids (reconciled_claim authority at (c\<lparr>cl_finalized_at := Some at\<rparr>))
                 (h\<lparr>bh_updated_at := at\<rparr>) (settlement_record c h a settlement_id rc at) False
                 (g\<lparr>gv_receipts := receipts\<rparr>) = Inr L
             \<and> g2 = g\<lparr>gv_receipts := receipts, gv_ledger := L\<rparr>)
      | _ \<Rightarrow> receipt = None \<and> g2 = g)"
  by (cases action; cases amounts) (auto simp: record_settlement_def Let_def res_simps)

lemma record_settlement_cases:
  obtains (settlement) i rc a where "p = (SettleAction i rc, Some a)"
  | (none) i rc where "p = (SettleAction i rc, None)" | (release) a where "p = (ReleaseAction, a)"
  by (metis finalization_action.exhaust option.exhaust surj_pair)

text \<open>A finalization of the service's repository: a replay that leaves it alone, or the above.\<close>

lemma finalize_service_cases:
  assumes inv: "service_inv s"
    and run: "finalize_executor_claim env ids owner locator action authority at (sv_store s) = Inr (fr, g')"
  obtains (replay) c t h bal where "g' = sv_store s" and "fr_idempotent_replay fr"
      and "hm_get (gv_claims g') (cl_id c) = Some c" and "cl_owner_user_id c = owner"
      and "cl_status c = fst (terminal_status action)"
      and "hm_get (gv_tokens g') (cl_spend_auth_token_id c) = Some t" and "tk_id t = cl_spend_auth_token_id c"
      and "hm_get (gv_holds g') (bh_id h) = Some h" and "bh_executor_claim_id h = Some (cl_id c)"
      and "hm_get (gv_balances g') (bh_budget_id h) = Some bal"
      and "fr_claim fr = c" and "fr_token fr = t" and "fr_hold fr = h" and "fr_balance fr = bal"
      and "fr_receipt fr = hm_get (gv_receipts g') (cl_id c)"
  | (new) r amounts where "open_claim s r" and "cl_owner_user_id (cr_claim r) = owner"
      and "locate_claim (sv_store s) owner locator = Inr (cr_claim r)"
      and "by_reconciliation authority \<longleftrightarrow> cl_expires_at (cr_claim r) \<le> at"
      and "finalizes_claim env ids action authority at (sv_store s) r amounts fr g'"
  using run
proof (cases rule: finalize_cases)
  case (replay c t h bal)
  note wf = service_invD(4)[OF inv] and links = service_invD(5)[OF inv]
  have wfc: "hm_wf (gv_claims (sv_store s))" using wf by (simp add: tables_wf_def)
  note c = locate_claim_ok[OF links wfc replay(1)]
  note h = load_claim_holdD[OF inv replay(3)]
  have t: "tk_id t = cl_spend_auth_token_id c"
    using token_entry[OF service_invD(1)[OF inv], of "cl_spend_auth_token_id c" t] replay(2)
    by (simp add: coherentD(2)[OF service_invD(3)[OF inv]] token_entry_ok_def)
  have st: "cl_status c = fst (terminal_status action)"
    using replay(5) by (auto simp: replay_is_consistent_def terminal_status_def
        split: finalization_action.splits spend_executor_claim_status.splits)
  show thesis by (rule that(1)[of c t h bal]) (use replay c h t st in simp_all)
next
  case (new c t h bal amounts updated g1 receipt g2 journal)
  note wf = service_invD(4)[OF inv] and links = service_invD(5)[OF inv]
  have wfc: "hm_wf (gv_claims (sv_store s))" using wf by (simp add: tables_wf_def)
  note c = locate_claim_ok[OF links wfc new(1)]
  have st: "cl_status c = ClaimClaimed" using new(5) by (auto simp: finalization_guards_def split: if_splits)
  obtain r where r: "open_claim s r" "cr_claim r = c" by (rule open_claimI[OF inv c(1) st])
  have eqs: "cr_token r = t" "cr_hold r = h" "cr_balance r = bal"
    using r new(2-4) open_claim_hold[OF inv r(1)] by (auto simp: open_claim_def)
  note o = r(1)[unfolded open_claim_def r(2) eqs]
  have upd: "updated = closed_balance bal (bh_amount h) (charge_of amounts)"
    by (rule checked_finalization_balance(1)[OF new(7)])
  have row: "finalized_claim_row action authority at c = finalized_claim action authority at c"
    using o st by (intro finalized_claim_row_open) (simp_all add: executor_claim_phase_def)
  have bid: "bal_budget_id updated = bh_budget_id h" using o by (simp add: upd closed_balance_def)
  have g1: "g1 = finalized_rows action authority at c t h updated (sv_store s)"
  proof -
    have b: "bal\<lparr>bal_consumed_amount := bal_consumed_amount updated,
               bal_frozen_amount := bal_frozen_amount updated,
               bal_remaining_amount := bal_remaining_amount updated\<rparr> = updated"
      by (simp add: upd closed_balance_def)
    show ?thesis using write_finalization_okD[OF new(8)] c(1) o
      by (auto simp: finalized_rows_def row bid b)
  qed
  have auth: "by_reconciliation authority \<longleftrightarrow> cl_expires_at c \<le> at"
    using new(5) by (auto simp: finalization_guards_def split: if_splits)
  show thesis
  proof (rule that(2)[OF r(1), of amounts, unfolded r(2)])
    have rows: "settlement_amounts_of action authority (cr_hold r) = Inr amounts"
      "fr_claim fr = finalized_claim action authority at (cr_claim r)"
      "fr_token fr = finalized_token action at (cr_token r)" "fr_balance fr = updated"
      "fr_hold fr = (cr_hold r)\<lparr>bh_status := snd (terminal_status action), bh_updated_at := at\<rparr>"
      "\<not> fr_idempotent_replay fr" "fr_receipt fr = receipt"
      using new(6,11) by (simp_all add: r(2) eqs)
    have "case (action, amounts) of
           (SettleAction settlement_id receipt, Some a) \<Rightarrow>
             let record = settlement_record c h a settlement_id receipt at in
             fr_receipt fr = Some record
             \<and> (\<exists>receipts L journal. save_executor_settlement_receipt record (gv_receipts (sv_store s)) = Inr receipts
                  \<and> post_settlement env ids (reconciled_claim authority at (c\<lparr>cl_finalized_at := Some at\<rparr>))
                      (h\<lparr>bh_updated_at := at\<rparr>) record False (g1\<lparr>gv_receipts := receipts\<rparr>) = Inr L
                  \<and> g' = g1\<lparr>gv_receipts := receipts, gv_ledger := L, gv_journal := journal\<rparr>)
         | _ \<Rightarrow> fr_receipt fr = None \<and> (\<exists>journal. g' = g1\<lparr>gv_journal := journal\<rparr>)"
    proof (cases "(action, amounts)" rule: record_settlement_cases)
      case (settlement i rc a)
      have "gv_receipts g1 = gv_receipts (sv_store s)" by (simp add: g1)
      moreover have p: "action = SettleAction i rc" "amounts = Some a" using settlement by simp_all
      ultimately show ?thesis using new(9) rows(7) unfolding p new(10)
        by (auto simp: record_settlement_ok_iff Let_def)
    next
      case (none i rc)
      then have p: "action = SettleAction i rc" "amounts = None" by simp_all
      show ?thesis using new(9) rows(7) unfolding p new(10) by (auto simp: record_settlement_ok_iff)
    next
      case (release a)
      then have p: "action = ReleaseAction" by simp
      show ?thesis using new(9) rows(7) unfolding p new(10) by (auto simp: record_settlement_ok_iff)
    qed
    with rows checked_finalization_balance(2-4)[OF new(7)]
    show "finalizes_claim env ids action authority at (sv_store s) r amounts fr g'"
      unfolding finalizes_claim_def Let_def r(2) eqs upd[symmetric] g1[symmetric] by blast
  qed (use c new(1) auth in simp_all)
qed

section \<open>Links under updates\<close>

text \<open>The rows of one claim change together, the claim possibly being new.\<close>

lemma links_update:
  assumes links: "links_inv g"
    and others: "\<And>i c2. hm_get (gv_claims g) i = Some c2 \<Longrightarrow> i \<noteq> cid \<longleftrightarrow> cl_spend_auth_token_id c2 \<noteq> tid"
    and old: "hm_get (gv_tokens g) tid = Some t" "hm_get (gv_holds g) hid = Some h"
      "bh_spend_decision_id h = tk_spend_decision_id t"
      "bh_executor_claim_id h = None \<or> bh_executor_claim_id h = Some cid"
    and claims: "\<And>i. hm_get (gv_claims g') i = (if i = cid then Some c' else hm_get (gv_claims g) i)"
    and tokens: "\<And>i. hm_get (gv_tokens g') i = (if i = tid then Some t' else hm_get (gv_tokens g) i)"
    and holds: "\<And>i. hm_get (gv_holds g') i = (if i = hid then Some h' else hm_get (gv_holds g) i)"
    and receipts: "\<And>i. hm_get (gv_receipts g') i = (if i = cid then r' else hm_get (gv_receipts g) i)"
    and new: "cl_id c' = cid" "cl_spend_auth_token_id c' = tid" "tk_owner_user_id t' = cl_owner_user_id c'"
      "tk_spend_decision_id t' = tk_spend_decision_id t" "bh_id h' = hid"
      "bh_executor_claim_id h' = Some cid" "bh_spend_decision_id h' = bh_spend_decision_id h"
      "executor_claim_phase r' c' t' h'"
  shows "links_inv g'"
proof -
  have linked: "cl_id c = i \<and> claim_linked g' c" if c: "hm_get (gv_claims g') i = Some c" for i c
  proof (cases "i = cid")
    case True
    with c have "c = c'" by (simp add: claims)
    with True new old show ?thesis by (auto simp: claim_linked_def tokens holds receipts intro!: exI[of _ h'])
  next
    case False
    with c have ci: "hm_get (gv_claims g) i = Some c" by (simp add: claims)
    from claim_link[OF links ci] obtain u k where uk: "cl_id c = i"
      "hm_get (gv_tokens g) (cl_spend_auth_token_id c) = Some u" "tk_owner_user_id u = cl_owner_user_id c"
      "hm_get (gv_holds g) (bh_id k) = Some k" "bh_executor_claim_id k = Some i"
      "bh_spend_decision_id k = tk_spend_decision_id u" "executor_claim_phase (hm_get (gv_receipts g) i) c u k" .
    have "cl_spend_auth_token_id c \<noteq> tid" using others[OF ci] False by simp
    moreover have "bh_id k \<noteq> hid" using old(2,4) uk(4,5) False by auto
    ultimately show ?thesis using uk False
      by (auto simp: claim_linked_def tokens holds receipts intro!: exI[of _ k])
  qed
  have held: "bh_id k = j \<and> hold_linked g' k" if k: "hm_get (gv_holds g') j = Some k" for j k
  proof (cases "j = hid")
    case True
    with k have "k = h'" by (simp add: holds)
    with True new old show ?thesis by (auto simp: hold_linked_def claims tokens)
  next
    case False
    with k have kj: "hm_get (gv_holds g) j = Some k" by (simp add: holds)
    have "\<exists>c u. hm_get (gv_claims g') i = Some c \<and> hm_get (gv_tokens g') (cl_spend_auth_token_id c) = Some u
        \<and> tk_spend_decision_id u = bh_spend_decision_id k" if i: "bh_executor_claim_id k = Some i" for i
    proof -
      from claim_hold_decision[OF links kj i] obtain c u where cu: "hm_get (gv_claims g) i = Some c"
        "hm_get (gv_tokens g) (cl_spend_auth_token_id c) = Some u"
        "tk_spend_decision_id u = bh_spend_decision_id k" by blast
      show ?thesis
      proof (cases "i = cid")
        case True
        with others[OF cu(1)] cu old(1) new show ?thesis by (auto simp: claims tokens)
      next
        case False
        with others[OF cu(1)] cu show ?thesis by (auto simp: claims tokens)
      qed
    qed
    with hold_row[OF links kj] show ?thesis by (simp add: hold_linked_def)
  qed
  have "hm_contains (gv_claims g') i" if "hm_get (gv_receipts g') i = Some r" for i r
    using that receipt_row[OF links, of i r] by (auto simp: receipts claims hm_contains_def split: if_splits)
  with linked held show ?thesis by (simp add: links_inv_def)
qed

text \<open>A token and a hold that no claim is tied to change.\<close>

lemma links_update_unclaimed:
  assumes links: "links_inv g"
    and free: "\<And>i c. hm_get (gv_claims g) i = Some c \<Longrightarrow> cl_spend_auth_token_id c \<noteq> tid"
    and old: "hm_get (gv_holds g) hid = Some h" "bh_executor_claim_id h = None"
    and claims: "gv_claims g' = gv_claims g" and receipts: "gv_receipts g' = gv_receipts g"
    and tokens: "\<And>i. i \<noteq> tid \<Longrightarrow> hm_get (gv_tokens g') i = hm_get (gv_tokens g) i"
    and holds: "\<And>i. hm_get (gv_holds g') i = (if i = hid then Some h' else hm_get (gv_holds g) i)"
    and new: "bh_id h' = hid" "bh_executor_claim_id h' = None"
  shows "links_inv g'"
proof -
  have linked: "cl_id c = i \<and> claim_linked g' c" if c: "hm_get (gv_claims g') i = Some c" for i c
  proof -
    from c have ci: "hm_get (gv_claims g) i = Some c" by (simp add: claims)
    from claim_link[OF links ci] obtain u k where uk: "cl_id c = i"
      "hm_get (gv_tokens g) (cl_spend_auth_token_id c) = Some u" "tk_owner_user_id u = cl_owner_user_id c"
      "hm_get (gv_holds g) (bh_id k) = Some k" "bh_executor_claim_id k = Some i"
      "bh_spend_decision_id k = tk_spend_decision_id u" "executor_claim_phase (hm_get (gv_receipts g) i) c u k" .
    have "bh_id k \<noteq> hid" using old uk(4,5) by auto
    with uk free[OF ci] show ?thesis by (auto simp: claim_linked_def tokens holds receipts intro!: exI[of _ k])
  qed
  have held: "bh_id k = j \<and> hold_linked g' k" if k: "hm_get (gv_holds g') j = Some k" for j k
  proof (cases "j = hid")
    case True
    with k new show ?thesis by (auto simp: holds hold_linked_def)
  next
    case False
    with k have kj: "hm_get (gv_holds g) j = Some k" by (simp add: holds)
    show ?thesis
    proof (cases "bh_executor_claim_id k")
      case None
      with hold_row[OF links kj] show ?thesis by (simp add: hold_linked_def)
    next
      case (Some i)
      from claim_hold_decision[OF links kj Some] free Some hold_row[OF links kj] show ?thesis
        by (auto simp: hold_linked_def claims tokens)
    qed
  qed
  have "hm_contains (gv_claims g') i" if "hm_get (gv_receipts g') i = Some r" for i r
    using that receipt_row[OF links, of i r] by (auto simp: receipts claims hm_contains_def)
  with linked held show ?thesis by (simp add: links_inv_def)
qed

end
