(* ===== verification/Executor_Machine.thy ===== *)
theory Executor_Machine
  imports Executor_Finalization
begin

text \<open>
  The executor service as a machine: its operations keep the agreement of managers and tables and the
  links of every claim, and each is a run of the two managers' own machines.
\<close>

section \<open>Finalizing in the three states\<close>

definition install_finalization :: "finalization_result \<Rightarrow> 'j governance \<Rightarrow> 'j service \<Rightarrow> 'j service" where
  "install_finalization fr g s =
     \<lparr>sv_spend = apply_persisted_executor_finalization (fr_claim fr) (fr_token fr) (sv_spend s),
      sv_budgets = apply_persisted_finalization (fr_hold fr) (fr_balance fr) (sv_budgets s), sv_store = g\<rparr>"

lemma apply_finalization_state: "snd (apply_finalization fr g s) = install_finalization fr g s"
  by (simp add: apply_finalization_def install_finalization_def Let_def)

lemma reinstall_unchanged:
  assumes inv: "service_inv s" and c: "hm_get (gv_claims (sv_store s)) (cl_id c) = Some c"
    and t: "hm_get (gv_tokens (sv_store s)) (cl_spend_auth_token_id c) = Some t" "tk_id t = cl_spend_auth_token_id c"
  shows "apply_persisted_executor_finalization c t (sv_spend s) = sv_spend s"
proof -
  note co = service_invD(3)[OF inv] and sp = service_invD(1)[OF inv]
  have "index_claim c (cl_spend_auth_token_id c) (sv_spend s) = sv_spend s"
    using c by (intro index_claim_known[OF sp]) (simp add: coherentD(3)[OF co])
  moreover have "hm_insert (tk_id t) t (tokens (sv_spend s)) = tokens (sv_spend s)"
    using t by (intro hm_insert_triv) (simp add: coherentD(2)[OF co])
  ultimately show ?thesis by (simp add: apply_persisted_executor_finalization_def t(2))
qed

lemma reinstall_hold_unchanged:
  assumes inv: "service_inv s" and h: "hm_get (gv_holds (sv_store s)) (bh_id h) = Some h"
    and b: "hm_get (gv_balances (sv_store s)) (bh_budget_id h) = Some bal"
  shows "apply_persisted_finalization h bal (sv_budgets s) = sv_budgets s"
proof -
  note co = service_invD(3)[OF inv]
  have "hm_insert (bh_id h) h (budget_holds (sv_budgets s)) = budget_holds (sv_budgets s)"
    using h by (intro hm_insert_triv) (simp add: coherentD(7)[OF co])
  moreover have "hm_insert (bh_budget_id h) bal (budget_balances (sv_budgets s)) = budget_balances (sv_budgets s)"
    using b by (intro hm_insert_triv) (simp add: coherentD(6)[OF co])
  ultimately show ?thesis by (simp add: apply_persisted_finalization_def)
qed

text \<open>The managers' part of a new finalization.\<close>

lemma terminal_hold_inactive: "\<not> hold_active (h\<lparr>bh_status := snd (terminal_status action), bh_updated_at := at\<rparr>)"
  by (simp add: hold_active_def terminal_status_def split: finalization_action.splits)

lemma finalizes_claimD:
  assumes "finalizes_claim env ids action authority at g r amounts fr g'"
  shows "settlement_amounts_of action authority (cr_hold r) = Inr amounts"
    and "fits_i64 (units (bal_remaining_amount (fr_balance fr)))"
    and "fits_i64 (units (bal_consumed_amount (cr_balance r))) \<Longrightarrow> fits_i64 (units (bal_consumed_amount (fr_balance fr)))"
    and "fr_claim fr = finalized_claim action authority at (cr_claim r)"
    and "fr_token fr = finalized_token action at (cr_token r)"
    and "fr_hold fr = (cr_hold r)\<lparr>bh_status := snd (terminal_status action), bh_updated_at := at\<rparr>"
    and "fr_balance fr = closed_balance (cr_balance r) (bh_amount (cr_hold r)) (charge_of amounts)"
    and "\<not> fr_idempotent_replay fr"
  using assms by (simp_all add: finalizes_claim_def Let_def)

lemma open_claim_phaseD:
  assumes "open_claim s r"
  shows "tk_used_at (cr_token r) = None" "tk_used_by_payment_id (cr_token r) = None"
    "tk_revoked_at (cr_token r) = None" "bh_status (cr_hold r) = Claimed"
    "hm_get (gv_receipts (sv_store s)) (cl_id (cr_claim r)) = None"
    "cl_reconciled_at (cr_claim r) = None"
proof -
  from assms have "cl_status (cr_claim r) = ClaimClaimed"
    and "executor_claim_phase (hm_get (gv_receipts (sv_store s)) (cl_id (cr_claim r))) (cr_claim r) (cr_token r) (cr_hold r)"
    by (simp_all add: open_claim_def)
  then show "tk_used_at (cr_token r) = None" "tk_used_by_payment_id (cr_token r) = None"
    "tk_revoked_at (cr_token r) = None" "bh_status (cr_hold r) = Claimed"
    "hm_get (gv_receipts (sv_store s)) (cl_id (cr_claim r)) = None"
    "cl_reconciled_at (cr_claim r) = None" by (simp_all add: executor_claim_phase_def)
qed

lemma new_finalization_spend:
  assumes inv: "service_inv s" and o: "open_claim s r"
    and f: "finalizes_claim env ids action authority at (sv_store s) r amounts fr g'"
  shows "spend_step sha sa su (sv_spend s) (apply_persisted_executor_finalization (fr_claim fr) (fr_token fr) (sv_spend s))"
proof (rule spend_finalize)
  note co = service_invD(3)[OF inv] and d = finalizes_claimD[OF f]
  show "hm_get (executor_claims (sv_spend s)) (cl_id (fr_claim fr)) = Some (cr_claim r)"
    using o by (simp add: d coherentD(3)[OF co] open_claim_def)
  show "hm_get (tokens (sv_spend s)) (tk_id (fr_token fr)) = Some (cr_token r)"
    using o by (simp add: d coherentD(2)[OF co] open_claim_def)
  show "same_claim (cr_claim r) (fr_claim fr)" by (simp add: d same_claim_def)
  show "same_token (cr_token r) (fr_token fr)" by (simp add: d same_token_def)
  show "tk_id (fr_token fr) = cl_spend_auth_token_id (fr_claim fr)" using o by (simp add: d open_claim_def)
  show "spent (fr_token fr)"
    by (simp add: d finalized_token_def spent_def split: finalization_action.splits)
  show "tk_used_at (cr_token r) \<noteq> None \<longrightarrow> tk_used_at (fr_token fr) \<noteq> None"
    using open_claim_phaseD(1)[OF o] by simp
qed simp

lemma new_finalization_budget:
  assumes inv: "service_inv s" and o: "open_claim s r" and ty: "action_well_typed action"
    and f: "finalizes_claim env ids action authority at (sv_store s) r amounts fr g'"
  shows "budget_step True (sv_budgets s) (apply_persisted_finalization (fr_hold fr) (fr_balance fr) (sv_budgets s))"
proof (rule step_finalize[OF _ disjI1])
  note co = service_invD(3)[OF inv] and d = finalizes_claimD[OF f]
  have h: "hm_get (budget_holds (sv_budgets s)) (bh_id (cr_hold r)) = Some (cr_hold r)"
    using o by (simp add: coherentD(7)[OF co] open_claim_def)
  have b: "hm_get (budget_balances (sv_budgets s)) (bh_budget_id (cr_hold r)) = Some (cr_balance r)"
    using o by (simp add: coherentD(6)[OF co] open_claim_def)
  obtain l where "balance_ok l (frozen_total (sv_budgets s) (bh_budget_id (cr_hold r))) (cr_balance r)"
    using budget_inv_hold_account[OF service_invD(2)[OF inv] h] b by (metis option.inject)
  then have fits: "fits_i64 (units (bal_consumed_amount (fr_balance fr)))"
    by (intro d(3)) (simp add: balance_ok_def amount_ok_def)
  have act: "hold_active (cr_hold r)" using open_claim_phaseD(4)[OF o] by (simp add: hold_active_def)
  have h': "bh_id (fr_hold fr) = bh_id (cr_hold r)" "same_reservation (cr_hold r) (fr_hold fr)"
    "\<not> hold_active (fr_hold fr)"
    using terminal_hold_inactive by (simp_all add: d(6) same_reservation_def)
  show "finalizes (sv_budgets s) (fr_hold fr) (fr_balance fr) (charge_of amounts)"
    unfolding finalizes_def h'(1) h option.case b
    by (intro conjI act h'(2,3) settlement_charge_nonneg[OF d(1) ty] d(2,7) fits)
qed simp_all

text \<open>The tables after a new finalization.\<close>

lemma finalizes_claim_tables:
  assumes f: "finalizes_claim env ids action authority at g r amounts fr g'"
  shows "gv_decisions g' = gv_decisions g" "gv_budgets g' = gv_budgets g" "gv_versions g' = gv_versions g"
    "gv_tokens g' = hm_insert (cl_spend_auth_token_id (cr_claim r)) (fr_token fr) (gv_tokens g)"
    "gv_claims g' = hm_insert (cl_id (cr_claim r)) (fr_claim fr) (gv_claims g)"
    "gv_holds g' = hm_insert (bh_id (cr_hold r)) (fr_hold fr) (gv_holds g)"
    "gv_balances g' = hm_insert (bal_budget_id (cr_balance r)) (fr_balance fr) (gv_balances g)"
  using f
  by (auto simp: finalizes_claim_def Let_def finalized_rows_def closed_balance_def
      split: finalization_action.splits option.splits)

lemma finalizes_claim_receipts:
  assumes f: "finalizes_claim env ids action authority at g r amounts fr g'"
    and wf: "hm_wf (gv_receipts g)" and none: "hm_get (gv_receipts g) (cl_id (cr_claim r)) = None"
  shows "hm_wf (gv_receipts g')"
    and "hm_get (gv_receipts g') i = (if i = cl_id (cr_claim r) then fr_receipt fr else hm_get (gv_receipts g) i)"
  using f wf none
  by (auto simp: finalizes_claim_def Let_def save_executor_settlement_receipt_def settlement_record_def finalized_rows_def
      split: finalization_action.splits option.splits if_splits)

lemma finalized_phase:
  assumes o: "open_claim s r"
    and f: "finalizes_claim env ids action authority at g r amounts fr g'"
  shows "executor_claim_phase (fr_receipt fr) (fr_claim fr) (fr_token fr) (fr_hold fr)"
proof (cases action)
  case ReleaseAction
  with open_claim_phaseD[OF o] f show ?thesis
    by (auto simp: finalizes_claim_def Let_def executor_claim_phase_def terminal_status_def finalized_token_def
        split: option.splits)
next
  case (SettleAction settlement_id receipt)
  with f obtain a where a: "amounts = Some a"
    and v: "validate_executor_settlement_receipt receipt (cr_hold r) (by_reconciliation authority) = Inr a"
    by (auto simp: finalizes_claim_def Let_def settlement_amounts_of_def res_simps)
  have v': "validate_executor_settlement_receipt receipt (fr_hold fr) (cl_reconciled_at (fr_claim fr) \<noteq> None) = Inr a"
    using v finalized_claim_reconciled[OF open_claim_phaseD(6)[OF o]]
      validate_receipt_same_hold[of "fr_hold fr" "cr_hold r"]
    by (simp add: finalizes_claimD(4,6)[OF f])
  from f a SettleAction have "fr_receipt fr = Some (settlement_record (cr_claim r) (cr_hold r) a settlement_id receipt at)"
    by (simp add: finalizes_claim_def Let_def)
  with v' SettleAction open_claim_phaseD[OF o] finalizes_claimD[OF f] show ?thesis
    by (auto simp: executor_claim_phase_def terminal_status_def finalized_token_def receipt_ok_def settlement_record_def
        settlement_id_of_def)
qed

lemma post_settlement_ledger:
  assumes "post_settlement env ids c h receipt legacy g = Inr L" and "ledger_inv (gv_ledger g)"
  shows "ledger_inv L"
  using assms post_pair_ok(1) by (auto simp: post_settlement_def res_simps Let_def split: if_splits)

lemma finalizes_claim_ledger:
  assumes f: "finalizes_claim env ids action authority at g r amounts fr g'" and inv: "ledger_inv (gv_ledger g)"
  shows "ledger_inv (gv_ledger g')"
  using f
proof (cases "(action, amounts)" rule: record_settlement_cases)
  case (settlement i rc a)
  then have p: "action = SettleAction i rc" "amounts = Some a" by simp_all
  from f[unfolded finalizes_claim_def Let_def p] obtain receipts L journal g1 rc'
    where post: "post_settlement env ids (reconciled_claim authority at ((cr_claim r)\<lparr>cl_finalized_at := Some at\<rparr>))
        ((cr_hold r)\<lparr>bh_updated_at := at\<rparr>) rc' False (g1\<lparr>gv_receipts := receipts\<rparr>) = Inr L"
    and g1: "gv_ledger g1 = gv_ledger g" and g': "gv_ledger g' = L" by auto
  show ?thesis using post_settlement_ledger[OF post] inv g1 by (simp add: g')
qed (use f inv in \<open>auto simp: finalizes_claim_def Let_def split: finalization_action.splits\<close>)

lemma claim_token_inj:
  assumes inv: "service_inv s" and i: "hm_get (gv_claims (sv_store s)) i = Some c"
    and j: "hm_get (gv_claims (sv_store s)) j = Some c'"
  shows "i \<noteq> j \<longleftrightarrow> cl_spend_auth_token_id c \<noteq> cl_spend_auth_token_id c'"
proof -
  note co = coherentD(3)[OF service_invD(3)[OF inv]] and entry = claim_entry[OF service_invD(1)[OF inv]]
  have "hm_get (claim_id_by_token (sv_spend s)) (cl_spend_auth_token_id c) = Some i"
    "hm_get (claim_id_by_token (sv_spend s)) (cl_spend_auth_token_id c') = Some j"
    using entry[of i c] entry[of j c'] i j by (simp_all add: co claim_entry_ok_def)
  with i j show ?thesis by auto
qed

lemma new_finalization_inv:
  assumes inv: "service_inv s" and o: "open_claim s r" and ty: "action_well_typed action"
    and f: "finalizes_claim env ids action authority at (sv_store s) r amounts fr g'"
  shows "service_inv (install_finalization fr g' s)" (is "service_inv ?s")
proof -
  note d = finalizes_claimD[OF f] and tab = finalizes_claim_tables[OF f]
  note wf = service_invD(4)[OF inv] and co = service_invD(3)[OF inv] and links = service_invD(5)[OF inv]
  note rows = o[unfolded open_claim_def]
  have none: "hm_get (gv_receipts (sv_store s)) (cl_id (cr_claim r)) = None" by (rule open_claim_phaseD(5)[OF o])
  have wfr: "hm_wf (gv_receipts (sv_store s))" using wf by (simp add: tables_wf_def)
  note rec = finalizes_claim_receipts[OF f wfr none]
  have "spend_inv (sv_spend ?s)"
    using spend_step_inv[OF new_finalization_spend[OF inv o f] service_invD(1)[OF inv]]
    by (simp add: install_finalization_def)
  moreover have "budget_inv (sv_budgets ?s)"
    using budget_step_inv[OF new_finalization_budget[OF inv o ty f] service_invD(2)[OF inv]]
    by (simp add: install_finalization_def)
  moreover have "coherent ?s"
    using co rows by (simp add: coherent_def install_finalization_def tab apply_persisted_executor_finalization_def
        apply_persisted_finalization_def index_claim_def Let_def d same_rows_insert)
  moreover have "tables_wf (sv_store ?s)"
    using wf rec(1) by (simp add: tables_wf_def install_finalization_def tab)
  moreover have "links_inv g'"
  proof (rule links_update[OF links, of "cl_id (cr_claim r)" "cl_spend_auth_token_id (cr_claim r)" "cr_token r"
        "bh_id (cr_hold r)" "cr_hold r" _ "fr_claim fr" "fr_token fr" "fr_hold fr" "fr_receipt fr"])
    fix i c2
    assume c2: "hm_get (gv_claims (sv_store s)) i = Some c2"
    show "i \<noteq> cl_id (cr_claim r) \<longleftrightarrow> cl_spend_auth_token_id c2 \<noteq> cl_spend_auth_token_id (cr_claim r)"
      by (rule claim_token_inj[OF inv c2]) (simp add: rows)
  next
    show "executor_claim_phase (fr_receipt fr) (fr_claim fr) (fr_token fr) (fr_hold fr)" by (rule finalized_phase[OF o f])
    show "hm_get (gv_claims g') i = (if i = cl_id (cr_claim r) then Some (fr_claim fr) else hm_get (gv_claims (sv_store s)) i)"
      "hm_get (gv_tokens g') k = (if k = cl_spend_auth_token_id (cr_claim r) then Some (fr_token fr)
         else hm_get (gv_tokens (sv_store s)) k)"
      "hm_get (gv_holds g') l = (if l = bh_id (cr_hold r) then Some (fr_hold fr) else hm_get (gv_holds (sv_store s)) l)"
      "hm_get (gv_receipts g') i = (if i = cl_id (cr_claim r) then fr_receipt fr else hm_get (gv_receipts (sv_store s)) i)"
      for i k l by (simp_all only: tab hm_get_insert rec(2))
  qed (use rows in \<open>simp_all add: d(4-6)\<close>)
  moreover have "ledger_inv (gv_ledger g')" by (rule finalizes_claim_ledger[OF f service_invD(6)[OF inv]])
  ultimately show ?thesis by (simp add: service_inv_def install_finalization_def)
qed

lemma finalization_simulates:
  assumes inv: "service_inv s" and ty: "action_well_typed action"
    and run: "finalize_executor_claim env ids owner locator action authority at (sv_store s) = Inr (fr, g')"
  shows "service_inv (install_finalization fr g' s)
    \<and> (spend_step sha sa su)\<^sup>*\<^sup>* (sv_spend s) (sv_spend (install_finalization fr g' s))
    \<and> (budget_step True)\<^sup>*\<^sup>* (sv_budgets s) (sv_budgets (install_finalization fr g' s))"
  using inv run
proof (cases rule: finalize_service_cases)
  case (replay c t h bal)
  have "install_finalization fr g' s = s"
    using replay reinstall_unchanged[OF inv, of c t] reinstall_hold_unchanged[OF inv, of h bal]
    by (simp add: install_finalization_def)
  with inv show ?thesis by simp
next
  case (new r amounts)
  with new_finalization_inv[OF inv _ ty] new_finalization_spend[OF inv] new_finalization_budget[OF inv _ ty]
  show ?thesis by (auto simp: install_finalization_def)
qed

section \<open>Claiming in the three states\<close>

text \<open>Whether a request meets an existing claim does not depend on the clock.\<close>

lemma existing_claim_same:
  assumes "validate_auth_token_for_executor_claim now s auth key = Inr (v, existing)"
    and "validate_auth_token_for_executor_claim now' s auth key = Inr (v', existing')"
  shows "existing' = existing"
  using assms
  by (auto simp: validate_auth_token_for_executor_claim_def res_simps split: option.splits if_splits)

lemma save_existing_unchanged:
  assumes inv: "service_inv s" and c: "hm_get (gv_claims (sv_store s)) (cl_id c) = Some c"
    and h: "hm_get (gv_holds (sv_store s)) (bh_id h) = Some h"
    and save: "save_executor_claim_with_budget_hold env now c h bal (sv_store s) = Inr g"
  shows "g = sv_store s"
proof -
  have "hm_insert (bh_id h) h (gv_holds (sv_store s)) = gv_holds (sv_store s)" by (rule hm_insert_triv[OF h])
  then show ?thesis
    using save c h
    by (auto simp: save_executor_claim_with_budget_hold_def Let_def res_simps insert_claim_def hm_contains_def
        store_claimed_hold_def split: if_splits)
qed

text \<open>A decision's hold is found through the manager's index.\<close>

lemma decision_hold:
  assumes inv: "service_inv s" and h: "get_budget_hold_by_spend_decision (sv_budgets s) d = Some h"
  shows "hm_get (gv_holds (sv_store s)) (bh_id h) = Some h" and "bh_spend_decision_id h = d"
proof -
  note bud = service_invD(2)[OF inv]
  from h obtain i where i: "hm_get (hold_id_by_spend_decision (sv_budgets s)) d = Some i"
    "hm_get (budget_holds (sv_budgets s)) i = Some h"
    by (auto simp: get_budget_hold_by_spend_decision_def get_budget_hold_def bind_eq_Some_conv)
  have "bh_id h = i" using budget_inv_hold[OF bud i(2)] by (simp add: hold_entry_ok_def)
  with i(2) show "hm_get (gv_holds (sv_store s)) (bh_id h) = Some h"
    by (simp add: coherentD(7)[OF service_invD(3)[OF inv]])
  show "bh_spend_decision_id h = d" using budget_inv_decision[OF bud i(1)] i(2) by auto
qed

text \<open>A claim request changes nothing, or stores one new claim and the hold it takes.\<close>

lemma claim_executor_spend_cases:
  assumes inv: "service_inv s" and run: "claim_executor_spend env inputs request s = (res, s')"
  obtains (same) "s' = s"
  | (new) c v h h' bal t g where
      "validate_auth_token_for_executor_claim (xi_prepared_at inputs) (sv_spend s) (xq_authorization request)
         (trim (xq_operation_key request)) = Inr (v, None)"
      and "prepare_auth_token_claim (xi_claim_id inputs) (xi_prepared_at inputs) (sv_spend s)
         \<lparr>cq_authorization = xq_authorization request, cq_operation_key = trim (xq_operation_key request)\<rparr> = Inr (c, v)"
      and "get_budget_hold_by_spend_decision (sv_budgets s) (va_spend_decision_id v) = Some h"
      and "bh_status h = Frozen"
      and "hold_claim h (cl_id c) (cl_expires_at c) (xi_held_at inputs) = Inr h'"
      and "get_budget_balance (sv_budgets s) (bh_budget_id h) = Some bal"
      and "auth_token_record (sv_spend s) (cl_spend_auth_token_id c) = Some t"
      and "save_executor_claim_with_budget_hold env (xi_stored_at inputs) c h' bal (sv_store s) = Inr g"
      and "s' = \<lparr>sv_spend = apply_persisted_executor_finalization c t (sv_spend s),
                sv_budgets = apply_persisted_finalization h' bal (sv_budgets s), sv_store = g\<rparr>"
      and "res = claim_state_from_records c v h' bal None False (sv_spend s')"
proof (cases "s' = s")
  case False
  let ?key = "trim (xq_operation_key request)" and ?auth = "xq_authorization request"
  from run False obtain v existing
    where val: "validate_auth_token_for_executor_claim (xi_validated_at inputs) (sv_spend s) ?auth ?key = Inr (v, existing)"
    by (auto simp: claim_executor_spend_def Let_def res_simps split: if_splits sum.splits)
  show thesis
  proof (cases existing)
    case None
    from run False obtain h c v2 bal h' t g
      where h: "get_budget_hold_by_spend_decision (sv_budgets s) (va_spend_decision_id v) = Some h" "bh_status h = Frozen"
        "va_spend_decision_id v2 = va_spend_decision_id v"
      and prep: "prepare_auth_token_claim (xi_claim_id inputs) (xi_prepared_at inputs) (sv_spend s)
           \<lparr>cq_authorization = ?auth, cq_operation_key = ?key\<rparr> = Inr (c, v2)"
      and rest: "hold_claim h (cl_id c) (cl_expires_at c) (xi_held_at inputs) = Inr h'"
        "get_budget_balance (sv_budgets s) (bh_budget_id h) = Some bal"
        "auth_token_record (sv_spend s) (cl_spend_auth_token_id c) = Some t"
        "save_executor_claim_with_budget_hold env (xi_stored_at inputs) c h' bal (sv_store s) = Inr g"
        "s' = \<lparr>sv_spend = apply_persisted_executor_finalization c t (sv_spend s),
                sv_budgets = apply_persisted_finalization h' bal (sv_budgets s), sv_store = g\<rparr>"
        "res = claim_state_from_records c v2 h' bal None False (apply_persisted_executor_finalization c t (sv_spend s))"
      by (auto simp: claim_executor_spend_def Let_def res_simps val None check_claimable_hold_def
          split: if_splits sum.splits prod.splits)
    from prep obtain v3 existing' where val2: "validate_auth_token_for_executor_claim (xi_prepared_at inputs)
        (sv_spend s) ?auth ?key = Inr (v3, existing')"
      by (auto simp: prepare_auth_token_claim_def res_simps)
    with existing_claim_same[OF val val2] prep None have "v3 = v2" "existing' = None"
      by (auto simp: prepare_auth_token_claim_def res_simps)
    with new[of v2 c h h' bal t g] val2 h prep rest show thesis by simp
  next
    case (Some c0)
    from run False obtain h c v2 bal t g
      where h: "get_budget_hold_by_spend_decision (sv_budgets s) (va_spend_decision_id v) = Some h"
      and prep: "prepare_auth_token_claim (xi_claim_id inputs) (xi_prepared_at inputs) (sv_spend s)
           \<lparr>cq_authorization = ?auth, cq_operation_key = ?key\<rparr> = Inr (c, v2)"
      and bal: "get_budget_balance (sv_budgets s) (bh_budget_id h) = Some bal"
      and t: "auth_token_record (sv_spend s) (cl_spend_auth_token_id c) = Some t"
      and save: "save_executor_claim_with_budget_hold env (xi_stored_at inputs) c h bal (sv_store s) = Inr g"
      and s': "s' = \<lparr>sv_spend = apply_persisted_executor_finalization c t (sv_spend s),
                sv_budgets = apply_persisted_finalization h bal (sv_budgets s), sv_store = g\<rparr>"
      by (auto simp: claim_executor_spend_def Let_def res_simps val Some
          split: if_splits sum.splits prod.splits)
    from prep obtain v3 existing' where val2: "validate_auth_token_for_executor_claim (xi_prepared_at inputs)
        (sv_spend s) ?auth ?key = Inr (v3, existing')"
      by (auto simp: prepare_auth_token_claim_def res_simps)
    with existing_claim_same[OF val val2] prep Some have c: "c = c0"
      by (auto simp: prepare_auth_token_claim_def res_simps)
    note sp = service_invD(1)[OF inv] and co = service_invD(3)[OF inv]
    have cg: "hm_get (gv_claims (sv_store s)) (cl_id c) = Some c"
      using validate_claim_cases[OF sp val] Some c by (simp add: coherentD(3)[OF co])
    have tg: "hm_get (gv_tokens (sv_store s)) (cl_spend_auth_token_id c) = Some t" "tk_id t = cl_spend_auth_token_id c"
      using t token_entry[OF sp, of "cl_spend_auth_token_id c" t]
      by (simp_all add: auth_token_record_def coherentD(2)[OF co] token_entry_ok_def)
    have bg: "hm_get (gv_balances (sv_store s)) (bh_budget_id h) = Some bal"
      using bal by (simp add: get_budget_balance_def coherentD(6)[OF co])
    note hg = decision_hold(1)[OF inv h]
    have "g = sv_store s" by (rule save_existing_unchanged[OF inv cg hg save])
    then have "s' = s"
      using reinstall_unchanged[OF inv cg tg] reinstall_hold_unchanged[OF inv hg bg] s' by simp
    with False show thesis ..
  qed
qed (rule same)

text \<open>What storing a new claim does.\<close>

lemma save_new_claim:
  assumes h: "hm_get (gv_holds g) (bh_id h) = Some h" and st: "bh_status h = Frozen"
    and cl: "hold_claim h (cl_id c) e now = Inr h'" and fresh: "hm_get (gv_claims g) (cl_id c) = None"
    and save: "save_executor_claim_with_budget_hold env at c h' bal g = Inr g'"
  shows "\<exists>t journal. hm_get (gv_tokens g) (cl_spend_auth_token_id c) = Some t
    \<and> tk_used_at t = None \<and> tk_used_by_payment_id t = None \<and> tk_revoked_at t = None \<and> at < tk_expires_at t
    \<and> tk_owner_user_id t = cl_owner_user_id c \<and> bh_spend_decision_id h = tk_spend_decision_id t
    \<and> bh_executor_claim_id h = None \<and> h' = h\<lparr>bh_status := Claimed, bh_executor_claim_id := Some (cl_id c),
          bh_expires_at := e, bh_updated_at := now\<rparr>
    \<and> g' = g\<lparr>gv_claims := hm_insert (cl_id c) c (gv_claims g),
               gv_holds := hm_insert (bh_id h) h' (gv_holds g), gv_journal := journal\<rparr>"
proof -
  have h': "h' = h\<lparr>bh_status := Claimed, bh_executor_claim_id := Some (cl_id c), bh_expires_at := e, bh_updated_at := now\<rparr>"
    using cl st by (simp add: hold_claim_def)
  have row: "h\<lparr>bh_status := bh_status h', bh_executor_claim_id := bh_executor_claim_id h',
       bh_updated_at := bh_updated_at h', bh_expires_at := bh_expires_at h'\<rparr> = h'"
    by (simp add: h')
  have ids: "bh_id h' = bh_id h" by (simp add: h')
  from save fresh obtain claims holds journal
    where re: "recheck_authorization at c h' g = Inr ()" and ins: "insert_claim c g = Inr claims"
    and sto: "store_claimed_hold h' (gv_holds g) = Inr holds"
    and g': "g' = g\<lparr>gv_claims := claims, gv_holds := holds, gv_journal := journal\<rparr>"
    by (auto simp: save_executor_claim_with_budget_hold_def Let_def res_simps)
  have "claims = hm_insert (cl_id c) c (gv_claims g)"
    using ins fresh by (auto simp: insert_claim_def hm_contains_def Let_def split: if_splits)
  moreover have "holds = hm_insert (bh_id h) h' (gv_holds g)"
    using sto h row ids by (auto simp: store_claimed_hold_def res_simps split: if_splits)
  moreover from re h obtain t where "hm_get (gv_tokens g) (cl_spend_auth_token_id c) = Some t"
    "tk_used_at t = None" "tk_used_by_payment_id t = None" "tk_revoked_at t = None" "at < tk_expires_at t"
    "tk_owner_user_id t = cl_owner_user_id c" "bh_spend_decision_id h = tk_spend_decision_id t"
    "bh_executor_claim_id h = None"
    by (auto simp: recheck_authorization_def res_simps ids is_some_and_iff not_le split: if_splits)
  ultimately show ?thesis using g' h' by blast
qed

text \<open>A new claim in the three states.\<close>

lemma claim_simulates:
  assumes inv: "service_inv s" and fresh: "hm_get (gv_claims (sv_store s)) (xi_claim_id inputs) = None"
    and run: "claim_executor_spend env inputs request s = (res, s')"
  shows "service_inv s' \<and> (spend_step sha sa su)\<^sup>*\<^sup>* (sv_spend s) (sv_spend s')
    \<and> (budget_step True)\<^sup>*\<^sup>* (sv_budgets s) (sv_budgets s')"
  using inv run
proof (cases rule: claim_executor_spend_cases)
  case same
  with inv show ?thesis by simp
next
  case (new c v h h' bal t g)
  let ?cq = "\<lparr>cq_authorization = xq_authorization request, cq_operation_key = trim (xq_operation_key request)\<rparr>"
  note sp = service_invD(1)[OF inv] and bud = service_invD(2)[OF inv] and co = service_invD(3)[OF inv]
  note hg = decision_hold(1)[OF inv new(3)]
  from new(1,2) have c: "cl_id c = xi_claim_id inputs"
    "cl_spend_auth_token_id c = pv_spend_auth_token_id (xq_authorization request)"
    "cl_status c = ClaimClaimed" "cl_settlement_id c = None" "cl_provider_reference c = None"
    "cl_reconciliation_evidence c = None" "cl_reconciled_at c = None" "cl_reconciled_by_user_id c = None"
    by (auto simp: prepare_auth_token_claim_def res_simps)
  have fc: "hm_get (gv_claims (sv_store s)) (cl_id c) = None" using fresh c by simp
  obtain t' journal where tg: "hm_get (gv_tokens (sv_store s)) (cl_spend_auth_token_id c) = Some t'"
    and tp: "tk_used_at t' = None" "tk_used_by_payment_id t' = None" "tk_revoked_at t' = None"
      "tk_owner_user_id t' = cl_owner_user_id c" "bh_spend_decision_id h = tk_spend_decision_id t'"
      "bh_executor_claim_id h = None"
    and h': "h' = h\<lparr>bh_status := Claimed, bh_executor_claim_id := Some (cl_id c),
          bh_expires_at := cl_expires_at c, bh_updated_at := xi_held_at inputs\<rparr>"
    and g: "g = (sv_store s)\<lparr>gv_claims := hm_insert (cl_id c) c (gv_claims (sv_store s)),
               gv_holds := hm_insert (bh_id h) h' (gv_holds (sv_store s)), gv_journal := journal\<rparr>"
    using save_new_claim[OF hg new(4,5) fc new(8)] by blast
  have tt: "t = t'" using new(7) tg by (simp add: auth_token_record_def coherentD(2)[OF co])
  have tid: "tk_id t = cl_spend_auth_token_id c"
    using token_entry[OF sp, of "cl_spend_auth_token_id c" t] new(7) by (simp add: auth_token_record_def token_entry_ok_def)
  have bal: "hm_get (budget_balances (sv_budgets s)) (bh_budget_id h) = Some bal" using new(6) by (simp add: get_budget_balance_def)
  have hm: "hm_get (budget_holds (sv_budgets s)) (bh_id h) = Some h" using hg by (simp add: coherentD(7)[OF co])
  have spend': "sv_spend s' = index_claim c (cl_spend_auth_token_id c) (sv_spend s)"
    using new(7,9) tid by (simp add: apply_persisted_executor_finalization_def Let_def index_claim_def
        auth_token_record_def hm_insert_triv)
  have bids: "bh_id h' = bh_id h" "bh_budget_id h' = bh_budget_id h" by (simp_all add: h')
  have budgets': "sv_budgets s' = (sv_budgets s)\<lparr>budget_holds := hm_insert (bh_id h) h' (budget_holds (sv_budgets s))\<rparr>"
    using new(9) bal by (simp add: apply_persisted_finalization_def hm_insert_triv bids)
  have "claim_auth_token (xi_claim_id inputs) (xi_prepared_at inputs) ?cq (sv_spend s) = (Inr (c, v), sv_spend s')"
    using new(2) by (simp add: claim_auth_token_def spend')
  then have ss: "spend_step sha sa su (sv_spend s) (sv_spend s')"
    using fresh by (intro spend_claim[of "sv_spend s" "xi_claim_id inputs"]) (simp_all add: coherentD(3)[OF co])
  have "claim_budget (bh_id h) (cl_id c) (cl_expires_at c) (xi_held_at inputs) (sv_budgets s)
      = (Inr \<lparr>hr_hold = h', hr_balance = bal\<rparr>, sv_budgets s')"
    using new(5) hm bal by (simp add: claim_budget_def Let_def budgets' bids)
  then have bs: "budget_step True (sv_budgets s) (sv_budgets s')" by (rule step_claim)
  have store': "sv_store s' = g" using new(9) by simp
  have "coherent s'"
    using co by (simp add: coherent_def spend' budgets' store' g index_claim_def same_rows_insert)
  moreover have "tables_wf g" using service_invD(4)[OF inv] by (simp add: tables_wf_def g)
  moreover have "links_inv g"
  proof (rule links_update[OF service_invD(5)[OF inv] _ tg hg tp(5), of "cl_id c" g c t' h' None])
    fix i c2
    assume c2: "hm_get (gv_claims (sv_store s)) i = Some c2"
    have "hm_get (claim_id_by_token (sv_spend s)) (cl_spend_auth_token_id c) = None"
      using validate_claim_cases[OF sp new(1)] c(2) by simp
    moreover have "hm_get (claim_id_by_token (sv_spend s)) (cl_spend_auth_token_id c2) = Some i"
      using claim_entry[OF sp, of i c2] c2 by (simp add: coherentD(3)[OF co] claim_entry_ok_def)
    ultimately show "i \<noteq> cl_id c \<longleftrightarrow> cl_spend_auth_token_id c2 \<noteq> cl_spend_auth_token_id c" using c2 fc by auto
  next
    show "executor_claim_phase None c t' h'" using c tp by (simp add: executor_claim_phase_def h')
  next
    fix i
    show "hm_get (gv_receipts g) i = (if i = cl_id c then None else hm_get (gv_receipts (sv_store s)) i)"
      using receipt_row[OF service_invD(5)[OF inv], of i] fc
      by (cases "hm_get (gv_receipts (sv_store s)) i") (auto simp: g)
  qed (use tp tg in \<open>simp_all add: g h'\<close>)
  ultimately have "service_inv s'"
    using spend_step_inv[OF ss sp] budget_step_inv[OF bs bud] service_invD(6)[OF inv]
    by (simp add: service_inv_def store' g)
  with ss bs show ?thesis by blast
qed

section \<open>Voiding in the three states\<close>

lemma write_void_ok:
  assumes t: "hm_get (gv_tokens g) tid = Some t" and h: "hm_get (gv_holds g) (bh_id h) = Some h"
    and run: "write_void env now tid t h bal g = Inr (r, g')"
  shows "av_token r = t\<lparr>tk_revoked_at := Some now\<rparr>"
    and "av_hold r = h\<lparr>bh_status := Released, bh_updated_at := now\<rparr>"
    and "checked_executor_finalization_balance bal h None = Inr (av_balance r)"
    and "\<exists>journal. g' = g\<lparr>gv_tokens := hm_insert tid (av_token r) (gv_tokens g),
            gv_holds := hm_insert (bh_id h) (av_hold r) (gv_holds g),
            gv_balances := hm_insert (bal_budget_id (av_balance r)) (av_balance r) (gv_balances g),
            gv_voids := hm_insert tid (REJECTED_BEFORE_CLAIM, now) (gv_voids g), gv_journal := journal\<rparr>"
proof -
  let ?t = "t\<lparr>tk_revoked_at := Some now\<rparr>" and ?h = "h\<lparr>bh_status := Released, bh_updated_at := now\<rparr>"
  let ?g = "g\<lparr>gv_tokens := hm_insert tid ?t (gv_tokens g), gv_holds := hm_insert (bh_id h) ?h (gv_holds g)\<rparr>"
  from run obtain bal' g2 journal where c: "checked_executor_finalization_balance bal h None = Inr bal'"
    and r: "r = \<lparr>av_token = ?t, av_hold = ?h, av_balance = bal', av_idempotent_replay = False\<rparr>"
    and u: "upsert_balance ?g bal' = Inr g2"
    and g': "g' = g2\<lparr>gv_voids := hm_insert tid (REJECTED_BEFORE_CLAIM, now) (gv_voids g2), gv_journal := journal\<rparr>"
    by (auto simp: write_void_def Let_def res_simps update_row_def t h split: if_splits)
  from u have "g2 = ?g\<lparr>gv_balances := hm_insert (bal_budget_id bal') bal' (gv_balances ?g)\<rparr>"
    by (auto simp only: upsert_balance_def res_simps Let_def split: if_splits)
  with c r g' have "checked_executor_finalization_balance bal h None = Inr bal'" "r = \<lparr>av_token = ?t, av_hold = ?h,
       av_balance = bal', av_idempotent_replay = False\<rparr>"
    "g' = g\<lparr>gv_tokens := hm_insert tid ?t (gv_tokens g), gv_holds := hm_insert (bh_id h) ?h (gv_holds g),
       gv_balances := hm_insert (bal_budget_id bal') bal' (gv_balances g),
       gv_voids := hm_insert tid (REJECTED_BEFORE_CLAIM, now) (gv_voids g), gv_journal := journal\<rparr>" by simp_all
  note eqs = this
  from eqs show "av_token r = t\<lparr>tk_revoked_at := Some now\<rparr>"
    "av_hold r = h\<lparr>bh_status := Released, bh_updated_at := now\<rparr>"
    "checked_executor_finalization_balance bal h None = Inr (av_balance r)" by simp_all
  show "\<exists>journal. g' = g\<lparr>gv_tokens := hm_insert tid (av_token r) (gv_tokens g),
            gv_holds := hm_insert (bh_id h) (av_hold r) (gv_holds g),
            gv_balances := hm_insert (bal_budget_id (av_balance r)) (av_balance r) (gv_balances g),
            gv_voids := hm_insert tid (REJECTED_BEFORE_CLAIM, now) (gv_voids g), gv_journal := journal\<rparr>"
    by (rule exI[of _ journal]) (simp add: eqs)
qed

lemma void_cases:
  assumes inv: "service_inv s"
    and run: "void_unclaimed_authorization env now owner account tid key (sv_store s) = Inr (r, g)"
  obtains (replay) t h bal where "g = sv_store s" and "av_token r = t" and "av_hold r = h" and "av_balance r = bal"
      and "hm_get (gv_tokens g) tid = Some t" and "hm_get (gv_holds g) (bh_id h) = Some h"
      and "hm_get (gv_balances g) (bh_budget_id h) = Some bal"
  | (new) t h bal voids journal where "hm_get (gv_tokens (sv_store s)) tid = Some t" and "tk_used_at t = None"
      and "hm_get (gv_holds (sv_store s)) (bh_id h) = Some h" and "bh_status h = Frozen"
      and "bh_executor_claim_id h = None"
      and "tk_revoked_at t = None" and "hm_get (gv_balances (sv_store s)) (bh_budget_id h) = Some bal"
      and "\<And>i c. hm_get (gv_claims (sv_store s)) i = Some c \<Longrightarrow> cl_spend_auth_token_id c \<noteq> tid"
      and "av_token r = t\<lparr>tk_revoked_at := Some now\<rparr>"
      and "av_hold r = h\<lparr>bh_status := Released, bh_updated_at := now\<rparr>"
      and "checked_executor_finalization_balance bal h None = Inr (av_balance r)"
      and "g = (sv_store s)\<lparr>gv_tokens := hm_insert tid (av_token r) (gv_tokens (sv_store s)),
            gv_holds := hm_insert (bh_id h) (av_hold r) (gv_holds (sv_store s)),
            gv_balances := hm_insert (bal_budget_id (av_balance r)) (av_balance r) (gv_balances (sv_store s)),
            gv_voids := voids, gv_journal := journal\<rparr>"
proof -
  have wf: "hm_wf (gv_holds (sv_store s))" "hm_wf (gv_claims (sv_store s))"
    using service_invD(4)[OF inv] by (simp_all add: tables_wf_def)
  let ?voided = "is_some_and (\<lambda>(reason, _). reason = REJECTED_BEFORE_CLAIM) (hm_get (gv_voids (sv_store s)) tid)"
  from run obtain t h bal
    where t: "hm_get (gv_tokens (sv_store s)) tid = Some t"
    and f: "find (\<lambda>h. bh_spend_decision_id h = tk_spend_decision_id t) (hm_values (gv_holds (sv_store s))) = Some h"
    and bal: "hm_get (gv_balances (sv_store s)) (bh_budget_id h) = Some bal"
    by (auto simp: void_unclaimed_authorization_def Let_def res_simps split: if_splits)
  have h: "hm_get (gv_holds (sv_store s)) (bh_id h) = Some h"
    using find_value[OF wf(1) f] hold_row[OF service_invD(5)[OF inv]] by fastforce
  show thesis
  proof (cases "?voided \<and> tk_revoked_at t \<noteq> None \<and> bh_status h = Released")
    case True
    with run t f bal show thesis
      by (intro replay[of t h bal]) (auto simp: void_unclaimed_authorization_def Let_def res_simps h split: if_splits)
  next
    case False
    from run t f bal False
    have guards: "\<not> list_ex (\<lambda>c. cl_spend_auth_token_id c = tid) (hm_values (gv_claims (sv_store s)))"
        "bh_executor_claim_id h = None" "tk_used_at t = None" "bh_status h = Frozen" "tk_revoked_at t = None"
      and w: "write_void env now tid t h bal (sv_store s) = Inr (r, g)"
      by (auto simp: void_unclaimed_authorization_def Let_def res_simps split: if_splits)
    note res = write_void_ok[OF t h w]
    from res(4) obtain voids journal where g: "g = (sv_store s)\<lparr>gv_tokens := hm_insert tid (av_token r) (gv_tokens (sv_store s)),
            gv_holds := hm_insert (bh_id h) (av_hold r) (gv_holds (sv_store s)),
            gv_balances := hm_insert (bal_budget_id (av_balance r)) (av_balance r) (gv_balances (sv_store s)),
            gv_voids := voids, gv_journal := journal\<rparr>" by blast
    have "cl_spend_auth_token_id c \<noteq> tid" if "hm_get (gv_claims (sv_store s)) i = Some c" for i c
      using guards(1) that by (auto simp: list_ex_values[OF wf(2)])
    then show thesis by (intro new[OF t guards(3) h guards(4,2,5) bal _ res(1-3) g])
  qed
qed

definition install_void :: "authorization_void_result \<Rightarrow> 'j governance \<Rightarrow> 'j service \<Rightarrow> 'j service" where
  "install_void r g s =
     \<lparr>sv_spend = apply_persisted_authorization_void (av_token r) (sv_spend s),
      sv_budgets = apply_persisted_finalization (av_hold r) (av_balance r) (sv_budgets s), sv_store = g\<rparr>"

lemma void_simulates:
  assumes inv: "service_inv s"
    and run: "void_unclaimed_authorization env now owner account tid key (sv_store s) = Inr (r, g)"
  shows "service_inv (install_void r g s)
    \<and> (spend_step sha sa su)\<^sup>*\<^sup>* (sv_spend s) (sv_spend (install_void r g s))
    \<and> (budget_step True)\<^sup>*\<^sup>* (sv_budgets s) (sv_budgets (install_void r g s))"
  using inv run
proof (cases rule: void_cases)
  case (replay t h bal)
  have "tk_id t = tid"
    using token_entry[OF service_invD(1)[OF inv], of tid t] replay(1,5)
    by (simp add: coherentD(2)[OF service_invD(3)[OF inv]] token_entry_ok_def)
  then have "hm_insert (tk_id t) t (tokens (sv_spend s)) = tokens (sv_spend s)"
    using replay(1,5) by (intro hm_insert_triv) (simp add: coherentD(2)[OF service_invD(3)[OF inv]])
  then have "install_void r g s = s"
    using replay reinstall_hold_unchanged[OF inv, of h bal]
    by (simp add: install_void_def apply_persisted_authorization_void_def)
  with inv show ?thesis by simp
next
  case (new t h bal voids journal)
  let ?s = "install_void r g s"
  note sp = service_invD(1)[OF inv] and bud = service_invD(2)[OF inv] and co = service_invD(3)[OF inv]
  have tm: "hm_get (tokens (sv_spend s)) tid = Some t" using new(1) by (simp add: coherentD(2)[OF co])
  have tid: "tk_id t = tid" using token_entry[OF sp tm] by (simp add: token_entry_ok_def)
  have hm: "hm_get (budget_holds (sv_budgets s)) (bh_id h) = Some h" using new(3) by (simp add: coherentD(7)[OF co])
  have bm: "hm_get (budget_balances (sv_budgets s)) (bh_budget_id h) = Some bal"
    using new(7) by (simp add: coherentD(6)[OF co])
  obtain l where l: "balance_ok l (frozen_total (sv_budgets s) (bh_budget_id h)) bal" "bal_budget_id bal = bh_budget_id h"
    using budget_inv_hold_account[OF bud hm] bm by (metis option.inject)
  have upd: "av_balance r = closed_balance bal (bh_amount h) (Amount 0)"
    using checked_finalization_balance(1)[OF new(11)] by (simp add: charge_of_def)
  have fits: "fits_i64 (units (bal_consumed_amount (av_balance r)))" "fits_i64 (units (bal_remaining_amount (av_balance r)))"
    using checked_finalization_balance(3,4)[OF new(11)] l(1) by (simp_all add: balance_ok_def amount_ok_def)
  have ss: "spend_step sha sa su (sv_spend s) (sv_spend ?s)"
    by (rule spend_void[of _ "av_token r" t])
      (use tm tid new(2) in \<open>simp_all add: new(9) same_token_def spent_def install_void_def\<close>)
  have fin: "finalizes (sv_budgets s) (av_hold r) (av_balance r) (Amount 0)"
    unfolding finalizes_def using hm bm fits new(4) upd
    by (simp add: new(10) same_reservation_def hold_active_def)
  have bs: "budget_step True (sv_budgets s) (sv_budgets ?s)"
    by (rule step_finalize[OF fin]) (simp_all add: install_void_def)
  have bid: "bal_budget_id (av_balance r) = bh_budget_id h" using l(2) by (simp add: upd closed_balance_def)
  have "coherent ?s"
    using co by (simp add: coherent_def install_void_def apply_persisted_authorization_void_def
        apply_persisted_finalization_def same_rows_insert new(9,10,12) tid bid[unfolded new(10)])
  moreover have "tables_wf g" using service_invD(4)[OF inv] by (simp add: tables_wf_def new(12))
  moreover have "links_inv g"
    by (rule links_update_unclaimed[OF service_invD(5)[OF inv] new(8) new(3) new(5), where g' = g and h' = "av_hold r"])
      (simp_all add: new(5,9,10,12))
  ultimately have "service_inv ?s"
    using spend_step_inv[OF ss sp] budget_step_inv[OF bs bud] service_invD(6)[OF inv]
    by (simp add: service_inv_def install_void_def new(12))
  with ss bs show ?thesis by blast
qed

section \<open>The machine\<close>

text \<open>A claim identifier is fresh (a random UUID); the amount of a vendor cost is an \<open>i64\<close>.\<close>

definition receipt_well_typed :: "settlement_receipt \<Rightarrow> bool" where
  "receipt_well_typed receipt \<longleftrightarrow> fits_i64 (vc_amount (sr_actual_vendor_cost receipt))"

inductive service_step :: "'j governance_env \<Rightarrow> 'j service \<Rightarrow> 'j service \<Rightarrow> bool" for env where
  service_claim:
    "hm_get (gv_claims (sv_store s)) (xi_claim_id inputs) = None \<Longrightarrow>
     claim_executor_spend env inputs request s = (res, s') \<Longrightarrow> service_step env s s'"
| service_settle:
    "receipt_well_typed (xs_receipt request) \<Longrightarrow>
     settle_claim env ids settlement_id request at s = (res, s') \<Longrightarrow> service_step env s s'"
| service_release: "release_claim env ids request at s = (res, s') \<Longrightarrow> service_step env s s'"
| service_reconcile:
    "(case xr_receipt request of None \<Rightarrow> True | Some receipt \<Rightarrow> receipt_well_typed receipt) \<Longrightarrow>
     reconcile_claim env ids settlement_id request at s = (res, s') \<Longrightarrow> service_step env s s'"
| service_void: "void_unclaimed env now owner account tid key s = (res, s') \<Longrightarrow> service_step env s s'"

text \<open>Every operation that finalizes goes through the repository's one transaction.\<close>

lemma finish_with_state:
  assumes "finish_with result s = (res, s')"
  shows "s' = (case result of Inl e \<Rightarrow> s | Inr (fr, g) \<Rightarrow> install_finalization fr g s)"
  using assms apply_finalization_state[of _ _ s]
  by (auto simp: finish_with_def split: sum.splits prod.splits) (metis snd_conv)

lemma service_step_cases:
  assumes "service_step env s s'"
  obtains (same) "s' = s"
  | (claim) inputs request res where "hm_get (gv_claims (sv_store s)) (xi_claim_id inputs) = None"
      and "claim_executor_spend env inputs request s = (res, s')"
  | (finalize) ids owner locator action authority at fr g where "action_well_typed action"
      and "finalize_executor_claim env ids owner locator action authority at (sv_store s) = Inr (fr, g)"
      and "s' = install_finalization fr g s"
  | (void) now owner account tid key r g
      where "void_unclaimed_authorization env now owner account tid key (sv_store s) = Inr (r, g)"
      and "s' = install_void r g s"
  using assms
proof (cases rule: service_step.cases)
  case (service_claim inputs request res)
  then show thesis by (rule claim)
next
  case (service_settle request ids settlement_id at res)
  let ?run = "settle_executor_claim env ids (xs_owner_user_id request) (xs_agent_id request)
                (xs_operation_key request) settlement_id (xs_receipt request) at (sv_store s)"
  from service_settle(2) have s': "s' = (case ?run of Inl e \<Rightarrow> s | Inr (fr, g) \<Rightarrow> install_finalization fr g s)"
    using finish_with_state[of ?run s] by (auto simp: settle_claim_def split: prod.splits)
  show thesis
  proof (cases ?run)
    case (Inr p)
    obtain fr g where p: "p = (fr, g)" by (cases p)
    have ty: "action_well_typed (SettleAction settlement_id (xs_receipt request))"
      using service_settle(1) by (simp add: action_well_typed_def receipt_well_typed_def)
    show thesis
      by (rule finalize[OF ty Inr[unfolded settle_executor_claim_def p]]) (use s' in \<open>simp add: Inr p\<close>)
  qed (use s' same in simp)
next
  case (service_release ids request at res)
  let ?run = "release_executor_claim env ids (xf_owner_user_id request) (xf_agent_id request)
                (xf_operation_key request) at (sv_store s)"
  from service_release have s': "s' = (case ?run of Inl e \<Rightarrow> s | Inr (fr, g) \<Rightarrow> install_finalization fr g s)"
    using finish_with_state[of ?run s] by (auto simp: release_claim_def)
  show thesis
  proof (cases ?run)
    case (Inr p)
    obtain fr g where p: "p = (fr, g)" by (cases p)
    have ty: "action_well_typed ReleaseAction" by (simp add: action_well_typed_def)
    show thesis
      by (rule finalize[OF ty Inr[unfolded release_executor_claim_def p]]) (use s' in \<open>simp add: Inr p\<close>)
  qed (use s' same in simp)
next
  case (service_reconcile request ids settlement_id at res)
  let ?run = "\<lambda>action. reconcile_executor_claim env ids (xr_claim_id request) (xr_owner_user_id request)
                (trim (xr_provider_reference request)) (trim (xr_evidence request)) action at (sv_store s)"
  have "s' = s \<or> (\<exists>action. action_well_typed action \<and> finish_with (?run action) s = (res, s'))"
    using service_reconcile
    by (auto simp: reconcile_claim_def Let_def action_well_typed_def receipt_well_typed_def
        split: if_splits option.splits reconciliation_outcome.splits)
  then show thesis
  proof
    assume "\<exists>action. action_well_typed action \<and> finish_with (?run action) s = (res, s')"
    then obtain action where ty: "action_well_typed action" and fin: "finish_with (?run action) s = (res, s')" by blast
    note s' = finish_with_state[OF fin]
    show thesis
    proof (cases "?run action")
      case (Inr p)
      obtain fr g where p: "p = (fr, g)" by (cases p)
      then have "\<exists>provider_reference evidence. finalize_executor_claim env ids (xr_owner_user_id request)
          (ByClaimId (xr_claim_id request)) action
          (ByReconciliation provider_reference evidence (xr_owner_user_id request)) at (sv_store s) = Inr (fr, g)"
        using Inr by (auto simp: reconcile_executor_claim_def Let_def split: if_splits)
      then show thesis using finalize[OF ty] s' by (auto simp: Inr p)
    qed (use s' same in simp)
  qed (rule same)
next
  case (service_void now owner account tid key res)
  show thesis
  proof (cases "void_unclaimed_authorization env now owner account tid key (sv_store s)")
    case (Inl e)
    with service_void same show thesis by (simp add: void_unclaimed_def)
  next
    case (Inr p)
    obtain r g where p: "p = (r, g)" by (cases p)
    show thesis
      by (rule void[OF Inr[unfolded p]]) (use service_void in \<open>simp add: void_unclaimed_def Inr p install_void_def\<close>)
  qed
qed

lemma service_step_simulates:
  assumes "service_step env s s'" and inv: "service_inv s"
  shows "service_inv s' \<and> (spend_step sha sa su)\<^sup>*\<^sup>* (sv_spend s) (sv_spend s')
    \<and> (budget_step True)\<^sup>*\<^sup>* (sv_budgets s) (sv_budgets s')"
  using assms(1)
proof (cases rule: service_step_cases)
  case (claim inputs request res)
  then show ?thesis using claim_simulates[OF inv] by blast
next
  case (finalize ids owner locator action authority at fr g)
  then show ?thesis using finalization_simulates[OF inv] by blast
next
  case (void now owner account tid key r g)
  then show ?thesis using void_simulates[OF inv] by blast
qed (use inv in simp)

interpretation executor: machine "service_step env" service_inv for env
  by unfold_locales (blast dest: service_step_simulates)

interpretation executor_spend: simulation "service_step env" service_inv "spend_step sha sa su" sv_spend
  for env sha sa su
  by unfold_locales (blast dest: service_step_simulates)

interpretation executor_budgets: simulation "service_step env" service_inv "budget_step True" sv_budgets for env
  by unfold_locales (blast dest: service_step_simulates)

end
