(* ===== verification/Executor_Theorems.thy ===== *)
theory Executor_Theorems
  imports Executor_Machine
begin

text \<open>
  The theorems of the executor service: it runs the two managers' machines and keeps them equal to the
  repository, an error changes nothing, the outcome of a claim is final, a settlement is exact, and an
  authorization that was claimed can always be given back.
\<close>

section \<open>Outcomes stay\<close>

definition outcomes_kept :: "'j service \<Rightarrow> 'j service \<Rightarrow> bool" where
  "outcomes_kept s s' \<longleftrightarrow>
     (let g = sv_store s; g' = sv_store s' in
      (\<forall>i c. hm_get (gv_claims g) i = Some c \<and> cl_status c \<noteq> ClaimClaimed \<longrightarrow> hm_get (gv_claims g') i = Some c)
      \<and> (\<forall>i r. hm_get (gv_receipts g) i = Some r \<longrightarrow> hm_get (gv_receipts g') i = Some r)
      \<and> (\<forall>i h. hm_get (gv_holds g) i = Some h \<and> \<not> hold_active h \<longrightarrow> hm_get (gv_holds g') i = Some h)
      \<and> (\<forall>i t. hm_get (gv_tokens g) i = Some t \<and> spent t \<longrightarrow> hm_get (gv_tokens g') i = Some t)
      \<and> extends (gv_ledger g) (gv_ledger g'))"

lemma outcomes_kept_refl: "outcomes_kept s s"
  by (simp add: outcomes_kept_def)

lemma outcomes_kept_trans: "outcomes_kept s s' \<Longrightarrow> outcomes_kept s' s'' \<Longrightarrow> outcomes_kept s s''"
  unfolding outcomes_kept_def Let_def using extends_trans by blast

text \<open>Only rows of an open claim, and of an unclaimed authorization, change.\<close>

lemma outcomes_keptI:
  assumes "\<And>i c. hm_get (gv_claims (sv_store s)) i = Some c \<Longrightarrow> cl_status c \<noteq> ClaimClaimed \<Longrightarrow>
      hm_get (gv_claims (sv_store s')) i = Some c"
    and "\<And>i r. hm_get (gv_receipts (sv_store s)) i = Some r \<Longrightarrow> hm_get (gv_receipts (sv_store s')) i = Some r"
    and "\<And>i h. hm_get (gv_holds (sv_store s)) i = Some h \<Longrightarrow> \<not> hold_active h \<Longrightarrow>
      hm_get (gv_holds (sv_store s')) i = Some h"
    and "\<And>i t. hm_get (gv_tokens (sv_store s)) i = Some t \<Longrightarrow> spent t \<Longrightarrow>
      hm_get (gv_tokens (sv_store s')) i = Some t"
    and "extends (gv_ledger (sv_store s)) (gv_ledger (sv_store s'))"
  shows "outcomes_kept s s'"
  using assms by (simp add: outcomes_kept_def Let_def)

lemma post_settlement_extends:
  assumes "post_settlement env ids c h receipt legacy g = Inr L" and "ledger_inv (gv_ledger g)"
  shows "extends (gv_ledger g) L"
  using assms post_pair_ok(2) by (auto simp: post_settlement_def res_simps Let_def split: if_splits)

lemma finalizes_claim_extends:
  assumes f: "finalizes_claim env ids action authority at g r amounts fr g'" and inv: "ledger_inv (gv_ledger g)"
  shows "extends (gv_ledger g) (gv_ledger g')"
  using f
proof (cases "(action, amounts)" rule: record_settlement_cases)
  case (settlement i rc a)
  then have p: "action = SettleAction i rc" "amounts = Some a" by simp_all
  from f[unfolded finalizes_claim_def Let_def p] obtain receipts L journal g1 rc'
    where post: "post_settlement env ids (reconciled_claim authority at ((cr_claim r)\<lparr>cl_finalized_at := Some at\<rparr>))
        ((cr_hold r)\<lparr>bh_updated_at := at\<rparr>) rc' False (g1\<lparr>gv_receipts := receipts\<rparr>) = Inr L"
    and g1: "gv_ledger g1 = gv_ledger g" and g': "gv_ledger g' = L" by auto
  show ?thesis using post_settlement_extends[OF post] inv g1 by (simp add: g')
qed (use f in \<open>auto simp: finalizes_claim_def Let_def split: finalization_action.splits\<close>)

lemma new_finalization_keeps:
  assumes inv: "service_inv s" and o: "open_claim s r"
    and f: "finalizes_claim env ids action authority at (sv_store s) r amounts fr g'"
  shows "outcomes_kept s (install_finalization fr g' s)"
proof (rule outcomes_keptI)
  note tab = finalizes_claim_tables[OF f] and rows = o[unfolded open_claim_def] and ph = open_claim_phaseD[OF o]
  have wfr: "hm_wf (gv_receipts (sv_store s))" using service_invD(4)[OF inv] by (simp add: tables_wf_def)
  note rec = finalizes_claim_receipts(2)[OF f wfr ph(5)]
  let ?s = "install_finalization fr g' s"
  have g': "sv_store ?s = g'" by (simp add: install_finalization_def)
  show "hm_get (gv_claims (sv_store ?s)) i = Some c"
    if "hm_get (gv_claims (sv_store s)) i = Some c" "cl_status c \<noteq> ClaimClaimed" for i c
    using that rows unfolding g' tab by auto
  show "hm_get (gv_receipts (sv_store ?s)) i = Some x" if "hm_get (gv_receipts (sv_store s)) i = Some x" for i x
    using that ph(5) unfolding g' rec by auto
  show "hm_get (gv_holds (sv_store ?s)) i = Some h"
    if "hm_get (gv_holds (sv_store s)) i = Some h" "\<not> hold_active h" for i h
    using that rows ph(4) unfolding g' tab by (auto simp: hold_active_def)
  show "hm_get (gv_tokens (sv_store ?s)) i = Some t"
    if "hm_get (gv_tokens (sv_store s)) i = Some t" "spent t" for i t
    using that rows ph(1,3) unfolding g' tab by (auto simp: spent_def)
  show "extends (gv_ledger (sv_store s)) (gv_ledger (sv_store ?s))"
    unfolding g' by (rule finalizes_claim_extends[OF f service_invD(6)[OF inv]])
qed

text \<open>A new claim in the tables.\<close>

lemma new_claim_tables:
  assumes inv: "service_inv s" and fresh: "hm_get (gv_claims (sv_store s)) (xi_claim_id inputs) = None"
    and run: "claim_executor_spend env inputs request s = (res, s')"
  shows "s' = s \<or> (\<exists>c h h' journal. hm_get (gv_claims (sv_store s)) (cl_id c) = None
      \<and> hm_get (gv_holds (sv_store s)) (bh_id h) = Some h \<and> bh_status h = Frozen
      \<and> (\<forall>i. hold_weight i h' = hold_weight i h)
      \<and> sv_store s' = (sv_store s)\<lparr>gv_claims := hm_insert (cl_id c) c (gv_claims (sv_store s)),
             gv_holds := hm_insert (bh_id h) h' (gv_holds (sv_store s)), gv_journal := journal\<rparr>)"
  using inv run
proof (cases rule: claim_executor_spend_cases)
  case (new c v h h' bal t g)
  from new(1,2) have c: "cl_id c = xi_claim_id inputs" by (auto simp: prepare_auth_token_claim_def res_simps)
  have fc: "hm_get (gv_claims (sv_store s)) (cl_id c) = None" using fresh c by simp
  note hg = decision_hold(1)[OF inv new(3)]
  have w: "hold_weight i h' = hold_weight i h" for i
    using hold_claim_frame[OF new(5)] by (simp add: hold_weight_def)
  from save_new_claim[OF hg new(4,5) fc new(8)] obtain journal where
    "g = (sv_store s)\<lparr>gv_claims := hm_insert (cl_id c) c (gv_claims (sv_store s)),
           gv_holds := hm_insert (bh_id h) h' (gv_holds (sv_store s)), gv_journal := journal\<rparr>" by blast
  with new(9) have "sv_store s' = (sv_store s)\<lparr>gv_claims := hm_insert (cl_id c) c (gv_claims (sv_store s)),
           gv_holds := hm_insert (bh_id h) h' (gv_holds (sv_store s)), gv_journal := journal\<rparr>" by simp
  with fc hg new(4) w show ?thesis by blast
qed simp

lemma claim_keeps:
  assumes "service_inv s" and "hm_get (gv_claims (sv_store s)) (xi_claim_id inputs) = None"
    and "claim_executor_spend env inputs request s = (res, s')"
  shows "outcomes_kept s s'"
  using new_claim_tables[OF assms]
proof (elim disjE exE conjE)
  fix c h h' journal
  assume fc: "hm_get (gv_claims (sv_store s)) (cl_id c) = None"
    and h: "hm_get (gv_holds (sv_store s)) (bh_id h) = Some h" "bh_status h = Frozen"
    and s': "sv_store s' = (sv_store s)\<lparr>gv_claims := hm_insert (cl_id c) c (gv_claims (sv_store s)),
             gv_holds := hm_insert (bh_id h) h' (gv_holds (sv_store s)), gv_journal := journal\<rparr>"
  show ?thesis
    by (rule outcomes_keptI) (use fc h in \<open>auto simp: s' hold_active_def\<close>)
qed (simp add: outcomes_kept_refl)

lemma void_keeps:
  assumes inv: "service_inv s"
    and run: "void_unclaimed_authorization env now owner account tid key (sv_store s) = Inr (r, g)"
  shows "outcomes_kept s (install_void r g s)"
  using inv run
proof (cases rule: void_cases)
  case (replay t h bal)
  then show ?thesis by (intro outcomes_keptI) (simp_all add: install_void_def)
next
  case (new t h bal voids journal)
  show ?thesis
    by (rule outcomes_keptI)
      (use new(1,2,3,4,6) in \<open>auto simp: install_void_def new(12) spent_def hold_active_def\<close>)
qed

lemma service_step_keeps:
  assumes "service_step env s s'" and inv: "service_inv s"
  shows "outcomes_kept s s'"
  using assms(1)
proof (cases rule: service_step_cases)
  case same
  then show ?thesis by (simp add: outcomes_kept_refl)
next
  case (claim inputs request res)
  then show ?thesis by (rule claim_keeps[OF inv])
next
  case (finalize ids owner locator action authority at fr g)
  from inv finalize(2) show ?thesis
  proof (cases rule: finalize_service_cases)
    case (replay c t h bal)
    then show ?thesis by (intro outcomes_keptI) (simp_all add: finalize(3) install_finalization_def)
  next
    case (new r amounts)
    then show ?thesis unfolding finalize(3) by (intro new_finalization_keeps[OF inv])
  qed
next
  case (void now owner account tid key r g)
  then show ?thesis using void_keeps[OF inv] by blast
qed

interpretation executor_outcomes: growing "service_step env" service_inv outcomes_kept for env
  by unfold_locales (auto intro: outcomes_kept_refl outcomes_kept_trans service_step_keeps)

section \<open>Refinement\<close>

text \<open>
  C3: the executor service refines both managers. Whatever sequence of claims, settlements, releases,
  reconciliations and voids it runs, the two in-memory managers go through steps of their own machines
  (with overruns, which a reconciled vendor bill may cause), the repository's tables stay equal to the
  managers' maps, and every claim stays tied to one token, one hold and at most one receipt.
\<close>

theorem executor_refines_managers:
  assumes "(service_step env)\<^sup>*\<^sup>* s s'" and "service_inv s"
  shows "(spend_step sha256 show_agent show_user)\<^sup>*\<^sup>* (sv_spend s) (sv_spend s')
    \<and> (budget_step True)\<^sup>*\<^sup>* (sv_budgets s) (sv_budgets s') \<and> service_inv s'"
  using executor_spend.steps_simulate[OF assms] executor_budgets.steps_simulate[OF assms]
    executor.steps_inv[OF assms] by blast

section \<open>Finality\<close>

text \<open>
  C9: the outcome of an executor claim is final. Once a claim is settled or released, no later operation
  of the service changes the claim, its receipt, its token or its hold; a settled claim keeps exactly one
  receipt, whose settlement its token carries, and a released one never gets any. What was posted to the
  ledger stays.
\<close>

theorem executor_outcome_final:
  assumes "(service_step env)\<^sup>*\<^sup>* s s'" and "service_inv s"
    and "hm_get (gv_claims (sv_store s)) i = Some c" and "cl_status c \<noteq> ClaimClaimed"
  shows "hm_get (gv_claims (sv_store s')) i = Some c
    \<and> hm_get (gv_receipts (sv_store s')) i = hm_get (gv_receipts (sv_store s)) i
    \<and> (\<exists>t h. hm_get (gv_tokens (sv_store s)) (cl_spend_auth_token_id c) = Some t
         \<and> hm_get (gv_tokens (sv_store s')) (cl_spend_auth_token_id c) = Some t
         \<and> hm_get (gv_holds (sv_store s)) (bh_id h) = Some h \<and> hm_get (gv_holds (sv_store s')) (bh_id h) = Some h
         \<and> bh_executor_claim_id h = Some i
         \<and> executor_claim_phase (hm_get (gv_receipts (sv_store s)) i) c t h)
    \<and> extends (gv_ledger (sv_store s)) (gv_ledger (sv_store s'))"
proof -
  note keep = executor_outcomes.steps_grow[OF assms(1,2), unfolded outcomes_kept_def Let_def]
  have c': "hm_get (gv_claims (sv_store s')) i = Some c" using keep assms(3,4) by blast
  from claim_link[OF service_invD(5)[OF assms(2)] assms(3)] obtain t h where
    th: "cl_id c = i" "hm_get (gv_tokens (sv_store s)) (cl_spend_auth_token_id c) = Some t"
      "hm_get (gv_holds (sv_store s)) (bh_id h) = Some h" "bh_executor_claim_id h = Some i"
      "executor_claim_phase (hm_get (gv_receipts (sv_store s)) i) c t h" .
  have "\<not> hold_active h \<and> spent t"
    using th(5) assms(4) by (auto simp: executor_claim_phase_def hold_active_def spent_def split: spend_executor_claim_status.splits)
  with keep th have t': "hm_get (gv_tokens (sv_store s')) (cl_spend_auth_token_id c) = Some t"
    and h': "hm_get (gv_holds (sv_store s')) (bh_id h) = Some h" by blast+
  have "service_inv s'" by (rule executor.steps_inv[OF assms(1,2)])
  from claim_link[OF service_invD(5)[OF this] c'] obtain h2 where
    ph: "executor_claim_phase (hm_get (gv_receipts (sv_store s')) i) c t h2" by (metis t' option.inject)
  have "hm_get (gv_receipts (sv_store s')) i = hm_get (gv_receipts (sv_store s)) i"
  proof (cases "hm_get (gv_receipts (sv_store s)) i")
    case None
    with th(5) assms(4) have "cl_status c = ClaimReleased"
      by (auto simp: executor_claim_phase_def split: spend_executor_claim_status.splits)
    with ph None show ?thesis by (simp add: executor_claim_phase_def)
  next
    case (Some r)
    with keep show ?thesis by simp
  qed
  with c' t' h' th keep show ?thesis by blast
qed

section \<open>Answers\<close>

text \<open>In a coherent state the answer for a stored claim is well-defined.\<close>

lemma claim_state_ok:
  assumes inv: "service_inv s" and c: "hm_get (gv_claims (sv_store s)) i = Some c"
    and h: "hm_get (gv_holds (sv_store s)) j = Some h" "bh_executor_claim_id h = Some i"
  shows "\<exists>t d. hm_get (gv_tokens (sv_store s)) (cl_spend_auth_token_id c) = Some t
    \<and> hm_get (gv_decisions (sv_store s)) (tk_spend_decision_id t) = Some d
    \<and> claim_state_from_records c auth h bal receipt replay (sv_spend s)
      = Inr \<lparr>ec_claim = c, ec_decision = d, ec_token = t, ec_authorization = auth, ec_budget_hold = h,
             ec_budget_balance = bal, ec_settlement_receipt = receipt, ec_idempotent_replay = replay\<rparr>"
proof -
  note co = service_invD(3)[OF inv] and sp = service_invD(1)[OF inv]
  from claim_link[OF service_invD(5)[OF inv] c] obtain t k where
    t: "cl_id c = i" "hm_get (gv_tokens (sv_store s)) (cl_spend_auth_token_id c) = Some t"
      "tk_owner_user_id t = cl_owner_user_id c" "hm_get (gv_holds (sv_store s)) (bh_id k) = Some k"
      "bh_executor_claim_id k = Some i" "bh_spend_decision_id k = tk_spend_decision_id t" .
  have hk: "h = k" by (rule claim_hold_unique(2)[OF inv h t(4,5)])
  have tm: "hm_get (tokens (sv_spend s)) (cl_spend_auth_token_id c) = Some t" using t(2) by (simp add: coherentD(2)[OF co])
  from token_entry[OF sp tm] obtain d where d: "hm_get (decisions (sv_spend s)) (tk_spend_decision_id t) = Some d"
    "tk_owner_user_id t = sd_owner_user_id d" by (auto simp: token_entry_ok_def)
  have "sd_id d = tk_spend_decision_id t" using decision_entry[OF sp d(1)] by (simp add: decision_entry_ok_def)
  with t hk tm d show ?thesis
    by (auto simp: claim_state_from_records_def auth_token_record_def decision_record_def coherentD(1)[OF co])
qed

text \<open>The rows a finalization answers are the stored ones.\<close>

lemma finalization_answer:
  assumes inv: "service_inv s" and ty: "action_well_typed action"
    and run: "finalize_executor_claim env ids owner locator action authority at (sv_store s) = Inr (fr, g)"
  shows "hm_get (gv_claims g) (cl_id (fr_claim fr)) = Some (fr_claim fr)
    \<and> cl_status (fr_claim fr) = fst (terminal_status action)
    \<and> hm_get (gv_holds g) (bh_id (fr_hold fr)) = Some (fr_hold fr)
    \<and> bh_executor_claim_id (fr_hold fr) = Some (cl_id (fr_claim fr))
    \<and> hm_get (gv_receipts g) (cl_id (fr_claim fr)) = fr_receipt fr"
  using inv run
proof (cases rule: finalize_service_cases)
  case (new r amounts)
  note d = finalizes_claimD[OF new(5)] and tab = finalizes_claim_tables[OF new(5)]
  note rows = new(1)[unfolded open_claim_def]
  have wfr: "hm_wf (gv_receipts (sv_store s))" using service_invD(4)[OF inv] by (simp add: tables_wf_def)
  note rec = finalizes_claim_receipts(2)[OF new(5) wfr open_claim_phaseD(5)[OF new(1)]]
  show ?thesis unfolding tab rec using rows by (simp add: d)
qed simp

lemma finish_with_ok:
  assumes inv: "service_inv s" and ty: "action_well_typed action"
    and run: "finalize_executor_claim env ids owner locator action authority at (sv_store s) = Inr (fr, g)"
  shows "\<exists>st. finish_with (Inr (fr, g)) s = (Inr st, install_finalization fr g s) \<and> ec_claim st = fr_claim fr
    \<and> ec_budget_hold st = fr_hold fr \<and> ec_budget_balance st = fr_balance fr
    \<and> ec_settlement_receipt st = fr_receipt fr \<and> ec_idempotent_replay st = fr_idempotent_replay fr"
proof -
  let ?s = "install_finalization fr g s"
  have inv': "service_inv ?s" using finalization_simulates[OF inv ty run] by blast
  have st: "sv_store ?s = g" by (simp add: install_finalization_def)
  note ans = finalization_answer[OF inv ty run]
  from claim_state_ok[OF inv', unfolded st, of "cl_id (fr_claim fr)" "fr_claim fr" "bh_id (fr_hold fr)" "fr_hold fr"
      "authorization_of (fr_token fr)" "fr_balance fr" "fr_receipt fr" "fr_idempotent_replay fr"] ans
  obtain t d where "claim_state_from_records (fr_claim fr) (authorization_of (fr_token fr)) (fr_hold fr)
      (fr_balance fr) (fr_receipt fr) (fr_idempotent_replay fr) (sv_spend ?s)
    = Inr \<lparr>ec_claim = fr_claim fr, ec_decision = d, ec_token = t,
        ec_authorization = authorization_of (fr_token fr), ec_budget_hold = fr_hold fr,
        ec_budget_balance = fr_balance fr, ec_settlement_receipt = fr_receipt fr,
        ec_idempotent_replay = fr_idempotent_replay fr\<rparr>" by blast
  then show ?thesis
    by (simp add: finish_with_def apply_finalization_def Let_def install_finalization_def)
qed

text \<open>A settled claim always has its settlement and its receipt to answer.\<close>

lemma settled_answer:
  assumes inv: "service_inv s" and ty: "action_well_typed (SettleAction sid receipt)"
    and run: "finalize_executor_claim env ids owner locator (SettleAction sid receipt) authority at (sv_store s) = Inr (fr, g)"
  shows "cl_settlement_id (fr_claim fr) \<noteq> None \<and> fr_receipt fr \<noteq> None"
proof -
  let ?s = "install_finalization fr g s"
  have inv': "service_inv ?s" using finalization_simulates[OF inv ty run] by blast
  have st: "sv_store ?s = g" by (simp add: install_finalization_def)
  note ans = finalization_answer[OF inv ty run]
  from ans have "hm_get (gv_claims (sv_store ?s)) (cl_id (fr_claim fr)) = Some (fr_claim fr)" by (simp add: st)
  from claim_link[OF service_invD(5)[OF inv'] this] obtain t h where
    "executor_claim_phase (hm_get (gv_receipts g) (cl_id (fr_claim fr))) (fr_claim fr) t h" by (metis st)
  with ans show ?thesis by (auto simp: executor_claim_phase_def terminal_status_def receipt_ok_def)
qed

lemma claim_answer:
  assumes inv: "service_inv s" and fresh: "hm_get (gv_claims (sv_store s)) (xi_claim_id inputs) = None"
    and run: "claim_executor_spend env inputs request s = (res, s')" and changed: "s' \<noteq> s"
  shows "\<exists>st. res = Inr st"
  using inv run
proof (cases rule: claim_executor_spend_cases)
  case same
  with changed show ?thesis ..
next
  case (new c v h h' bal t g)
  from new(1,2) have c: "cl_id c = xi_claim_id inputs" by (auto simp: prepare_auth_token_claim_def res_simps)
  have fc: "hm_get (gv_claims (sv_store s)) (cl_id c) = None" using fresh c by simp
  note hg = decision_hold(1)[OF inv new(3)]
  from save_new_claim[OF hg new(4,5) fc new(8)] new(9)
  have rows: "hm_get (gv_claims (sv_store s')) (cl_id c) = Some c"
    "hm_get (gv_holds (sv_store s')) (bh_id h) = Some h'" "bh_executor_claim_id h' = Some (cl_id c)" by auto
  have "service_inv s'" using claim_simulates[OF inv fresh run] by blast
  from claim_state_ok[OF this rows] show ?thesis unfolding new(10) by blast
qed

text \<open>
  C20: an executor operation that answers an error has changed nothing: neither of the managers and no
  table of the repository. In particular no commit is ever followed by an error.
\<close>

theorem executor_errors_atomic:
  assumes inv: "service_inv s" and fresh: "hm_get (gv_claims (sv_store s)) (xi_claim_id inputs) = None"
    and settle_ty: "receipt_well_typed (xs_receipt settlement)"
    and reconcile_ty: "case xr_receipt reconciliation of None \<Rightarrow> True | Some receipt \<Rightarrow> receipt_well_typed receipt"
  shows "(fst (claim_executor_spend env inputs request s) = Inl e \<longrightarrow> snd (claim_executor_spend env inputs request s) = s)
    \<and> (fst (settle_claim env ids sid settlement at s) = Inl e \<longrightarrow> snd (settle_claim env ids sid settlement at s) = s)
    \<and> (fst (release_claim env ids release at s) = Inl e \<longrightarrow> snd (release_claim env ids release at s) = s)
    \<and> (fst (reconcile_claim env ids sid reconciliation at s) = Inl e \<longrightarrow>
         snd (reconcile_claim env ids sid reconciliation at s) = s)
    \<and> (fst (void_unclaimed env at owner account tid key s) = Inl e' \<longrightarrow>
         snd (void_unclaimed env at owner account tid key s) = s)"
proof (intro conjI impI)
  assume "fst (claim_executor_spend env inputs request s) = Inl e"
  then show "snd (claim_executor_spend env inputs request s) = s"
    using claim_answer[OF inv fresh, of env request] by (cases "claim_executor_spend env inputs request s") auto
next
  let ?run = "settle_executor_claim env ids (xs_owner_user_id settlement) (xs_agent_id settlement)
                (xs_operation_key settlement) sid (xs_receipt settlement) at (sv_store s)"
  assume e: "fst (settle_claim env ids sid settlement at s) = Inl e"
  show "snd (settle_claim env ids sid settlement at s) = s"
  proof (cases ?run)
    case (Inl e')
    then show ?thesis by (simp add: settle_claim_def finish_with_def)
  next
    case (Inr p)
    obtain fr g where p: "p = (fr, g)" by (cases p)
    have ty: "action_well_typed (SettleAction sid (xs_receipt settlement))"
      using settle_ty by (simp add: action_well_typed_def receipt_well_typed_def)
    note run = Inr[unfolded settle_executor_claim_def p]
    from finish_with_ok[OF inv ty run] settled_answer[OF inv ty run] e show ?thesis
      by (auto simp: settle_claim_def settle_executor_claim_def run require_settlement_def)
  qed
next
  let ?run = "release_executor_claim env ids (xf_owner_user_id release) (xf_agent_id release)
                (xf_operation_key release) at (sv_store s)"
  assume e: "fst (release_claim env ids release at s) = Inl e"
  show "snd (release_claim env ids release at s) = s"
  proof (cases ?run)
    case (Inl e')
    then show ?thesis by (simp add: release_claim_def finish_with_def)
  next
    case (Inr p)
    obtain fr g where p: "p = (fr, g)" by (cases p)
    have ty: "action_well_typed ReleaseAction" by (simp add: action_well_typed_def)
    note run = Inr[unfolded release_executor_claim_def p]
    from finish_with_ok[OF inv ty run] e show ?thesis
      by (auto simp: release_claim_def release_executor_claim_def run)
  qed
next
  assume e: "fst (reconcile_claim env ids sid reconciliation at s) = Inl e"
  have fin: "snd (finish_with result s) = s"
    if "fst (finish_with result s) = Inl e" and "action_well_typed action"
      and "result = reconcile_executor_claim env ids (xr_claim_id reconciliation) (xr_owner_user_id reconciliation)
             (trim (xr_provider_reference reconciliation)) (trim (xr_evidence reconciliation)) action at (sv_store s)"
    for result action
  proof (cases result)
    case (Inl e')
    then show ?thesis by (simp add: finish_with_def)
  next
    case (Inr p)
    obtain fr g where p: "p = (fr, g)" by (cases p)
    with Inr that(3) obtain locator authority where
      "finalize_executor_claim env ids (xr_owner_user_id reconciliation) locator action authority at (sv_store s)
       = Inr (fr, g)"
      by (auto simp: reconcile_executor_claim_def Let_def split: if_splits)
    from finish_with_ok[OF inv that(2) this] that(1) show ?thesis by (auto simp: Inr p)
  qed
  from e show "snd (reconcile_claim env ids sid reconciliation at s) = s"
    using fin reconcile_ty
    by (auto simp: reconcile_claim_def Let_def action_well_typed_def receipt_well_typed_def
        split: if_splits option.splits reconciliation_outcome.splits)
next
  assume "fst (void_unclaimed env at owner account tid key s) = Inl e'"
  then show "snd (void_unclaimed env at owner account tid key s) = s"
    by (auto simp: void_unclaimed_def split: sum.splits)
qed

section \<open>Repeated finalizations\<close>

lemma locate_by_operation:
  assumes inv: "service_inv s" and c: "hm_get (gv_claims (sv_store s)) i = Some c"
  shows "locate_claim (sv_store s) (cl_owner_user_id c) (ByOperation (cl_agent_id c) (cl_operation_key c)) = Inr c"
proof -
  note co = coherentD(3)[OF service_invD(3)[OF inv]] and entry = claim_entry[OF service_invD(1)[OF inv]]
  have "load_executor_claim_by_operation (sv_store s) (cl_agent_id c) (cl_operation_key c) = Some c"
    unfolding load_executor_claim_by_operation_def
  proof (rule find_value_unique[OF _ c])
    show "hm_wf (gv_claims (sv_store s))" using service_invD(4)[OF inv] by (simp add: tables_wf_def)
    fix j y
    assume y: "hm_get (gv_claims (sv_store s)) j = Some y"
      and eq: "cl_agent_id y = cl_agent_id c \<and> cl_operation_key y = cl_operation_key c"
    have "i = j" using entry[of i c] entry[of j y] c y eq by (auto simp: co claim_entry_ok_def)
    with c y show "y = c" by simp
  qed simp
  then show ?thesis by (simp add: locate_claim_def)
qed

lemma claim_rows_found:
  assumes inv: "service_inv s" and c: "hm_get (gv_claims (sv_store s)) i = Some c"
  obtains t h bal where "cl_id c = i" and "hm_get (gv_tokens (sv_store s)) (cl_spend_auth_token_id c) = Some t"
    and "load_budget_hold_by_claim_id (sv_store s) i = Some h"
    and "hm_get (gv_balances (sv_store s)) (bh_budget_id h) = Some bal"
    and "bh_executor_claim_id h = Some i" and "executor_claim_phase (hm_get (gv_receipts (sv_store s)) i) c t h"
proof -
  from claim_link[OF service_invD(5)[OF inv] c] obtain t h where
    th: "cl_id c = i" "hm_get (gv_tokens (sv_store s)) (cl_spend_auth_token_id c) = Some t"
      "hm_get (gv_holds (sv_store s)) (bh_id h) = Some h" "bh_executor_claim_id h = Some i"
      "executor_claim_phase (hm_get (gv_receipts (sv_store s)) i) c t h" .
  have "hm_get (budget_holds (sv_budgets s)) (bh_id h) = Some h"
    using th(3) by (simp add: coherentD(7)[OF service_invD(3)[OF inv]])
  from budget_inv_hold_account[OF service_invD(2)[OF inv] this] obtain bal where
    "hm_get (gv_balances (sv_store s)) (bh_budget_id h) = Some bal"
    by (metis coherentD(6)[OF service_invD(3)[OF inv]])
  with th load_claim_hold[OF inv th(3,4)] that show thesis by blast
qed

lemma settled_finalize:
  assumes inv: "service_inv s" and c: "hm_get (gv_claims (sv_store s)) i = Some c" "cl_status c = ClaimSettled"
  obtains r fr where "hm_get (gv_receipts (sv_store s)) i = Some r"
    and "fr_claim fr = c" and "fr_receipt fr = Some r" and "fr_idempotent_replay fr"
    and "\<forall>receipt sid. finalize_executor_claim env ids (cl_owner_user_id c)
          (ByOperation (cl_agent_id c) (cl_operation_key c)) (SettleAction sid receipt) ByExecutor at (sv_store s)
        = (if receipt = rc_receipt r then Inr (fr, sv_store s)
           else stored_invalid ''settlement receipt does not match the original settlement'')"
    and "finalize_executor_claim env ids (cl_owner_user_id c)
          (ByOperation (cl_agent_id c) (cl_operation_key c)) ReleaseAction ByExecutor at (sv_store s)
        = stored_invalid ''executor claim has already been settled''"
proof -
  from claim_rows_found[OF inv c(1)] obtain t h bal where
    rows: "cl_id c = i" "hm_get (gv_tokens (sv_store s)) (cl_spend_auth_token_id c) = Some t"
      "load_budget_hold_by_claim_id (sv_store s) i = Some h"
      "hm_get (gv_balances (sv_store s)) (bh_budget_id h) = Some bal"
    and ex: "bh_executor_claim_id h = Some i" and ph: "executor_claim_phase (hm_get (gv_receipts (sv_store s)) i) c t h" .
  note loc = locate_by_operation[OF inv c(1)]
  from ph c(2) obtain r where r: "hm_get (gv_receipts (sv_store s)) i = Some r" "receipt_ok r c h"
    and p: "tk_used_at t \<noteq> None" "tk_used_by_payment_id t = cl_settlement_id c" "tk_revoked_at t = None"
      "bh_status h = Settled"
    by (auto simp: executor_claim_phase_def)
  have rep: "replay_is_consistent (SettleAction sid receipt) c t h (Some r)
      = (if receipt = rc_receipt r then Inr True
         else stored_invalid ''settlement receipt does not match the original settlement'')" for sid receipt
    using r(2) p ex rows(1) c(2)
    by (simp add: replay_is_consistent_def settled_replay_def receipt_ok_def)
  have rel: "replay_is_consistent ReleaseAction c t h (Some r) = stored_invalid ''executor claim has already been settled''"
    using c(2) by (simp add: replay_is_consistent_def)
  define fr where "fr = \<lparr>fr_claim = c, fr_token = t, fr_hold = h, fr_balance = bal, fr_receipt = Some r,
      fr_idempotent_replay = True\<rparr>"
  show thesis
  proof (rule that[OF r(1), of fr])
    show "\<forall>receipt sid. finalize_executor_claim env ids (cl_owner_user_id c)
          (ByOperation (cl_agent_id c) (cl_operation_key c)) (SettleAction sid receipt) ByExecutor at (sv_store s)
        = (if receipt = rc_receipt r then Inr (fr, sv_store s)
           else stored_invalid ''settlement receipt does not match the original settlement'')"
      by (simp add: fr_def finalize_executor_claim_def loc rows r(1) rep reconciliation_replay_is_consistent_def)
    show "finalize_executor_claim env ids (cl_owner_user_id c)
          (ByOperation (cl_agent_id c) (cl_operation_key c)) ReleaseAction ByExecutor at (sv_store s)
        = stored_invalid ''executor claim has already been settled''"
      by (simp add: finalize_executor_claim_def loc rows r(1) rel)
  qed (simp_all add: fr_def)
qed

lemma released_finalize:
  assumes inv: "service_inv s" and c: "hm_get (gv_claims (sv_store s)) i = Some c" "cl_status c = ClaimReleased"
  shows "\<exists>fr. fr_claim fr = c \<and> fr_receipt fr = None \<and> fr_idempotent_replay fr
      \<and> finalize_executor_claim env ids (cl_owner_user_id c)
          (ByOperation (cl_agent_id c) (cl_operation_key c)) ReleaseAction ByExecutor at (sv_store s)
        = Inr (fr, sv_store s)"
    and "finalize_executor_claim env ids (cl_owner_user_id c)
          (ByOperation (cl_agent_id c) (cl_operation_key c)) (SettleAction sid receipt) ByExecutor at (sv_store s)
        = stored_invalid ''executor claim has already been released''"
proof -
  from claim_rows_found[OF inv c(1)] obtain t h bal where
    rows: "cl_id c = i" "hm_get (gv_tokens (sv_store s)) (cl_spend_auth_token_id c) = Some t"
      "load_budget_hold_by_claim_id (sv_store s) i = Some h"
      "hm_get (gv_balances (sv_store s)) (bh_budget_id h) = Some bal"
    and ex: "bh_executor_claim_id h = Some i" and ph: "executor_claim_phase (hm_get (gv_receipts (sv_store s)) i) c t h" .
  note loc = locate_by_operation[OF inv c(1)]
  from ph c(2) have p: "tk_used_at t = None" "tk_used_by_payment_id t = None" "tk_revoked_at t \<noteq> None"
      "bh_status h = Released" "hm_get (gv_receipts (sv_store s)) i = None"
    by (auto simp: executor_claim_phase_def)
  have rel: "replay_is_consistent ReleaseAction c t h None = Inr True"
    using p ex rows(1) c(2) by (simp add: replay_is_consistent_def)
  have set: "replay_is_consistent (SettleAction sid receipt) c t h None
      = stored_invalid ''executor claim has already been released''"
    using c(2) by (simp add: replay_is_consistent_def)
  define fr where "fr = \<lparr>fr_claim = c, fr_token = t, fr_hold = h, fr_balance = bal, fr_receipt = None,
      fr_idempotent_replay = True\<rparr>"
  show "\<exists>fr. fr_claim fr = c \<and> fr_receipt fr = None \<and> fr_idempotent_replay fr
      \<and> finalize_executor_claim env ids (cl_owner_user_id c)
          (ByOperation (cl_agent_id c) (cl_operation_key c)) ReleaseAction ByExecutor at (sv_store s)
        = Inr (fr, sv_store s)"
    by (rule exI[of _ fr])
      (simp add: fr_def finalize_executor_claim_def loc rows p(5) rel reconciliation_replay_is_consistent_def)
  show "finalize_executor_claim env ids (cl_owner_user_id c)
          (ByOperation (cl_agent_id c) (cl_operation_key c)) (SettleAction sid receipt) ByExecutor at (sv_store s)
        = stored_invalid ''executor claim has already been released''"
    by (simp add: finalize_executor_claim_def loc rows p(5) set)
qed

lemma replay_leaves_state:
  assumes inv: "service_inv s" and ty: "action_well_typed action"
    and run: "finalize_executor_claim env ids owner locator action authority at (sv_store s) = Inr (fr, sv_store s)"
    and rep: "fr_idempotent_replay fr"
  shows "install_finalization fr (sv_store s) s = s"
  using inv run
proof (cases rule: finalize_service_cases)
  case (replay c t h bal)
  then show ?thesis
    using reinstall_unchanged[OF inv, of c t] reinstall_hold_unchanged[OF inv, of h bal]
    by (simp add: install_finalization_def)
next
  case (new r amounts)
  then show ?thesis using finalizes_claimD(8)[OF new(5)] rep by simp
qed

text \<open>
  C11: repeating a finalization. A settled claim answers every further settlement carrying the same receipt
  with the stored outcome, whatever settlement identifier is proposed, refuses any other receipt and any
  release; a released claim answers further releases and refuses every settlement. None of them changes
  anything, so a retried settlement can never charge twice.
\<close>

theorem executor_replay_exact:
  fixes env :: "'j governance_env" and ids :: pair_ids and sid :: payment_id and at :: instant
  assumes inv: "service_inv s" and c: "hm_get (gv_claims (sv_store s)) i = Some c"
    and ty: "receipt_well_typed receipt"
  defines "settle \<equiv> settle_claim env ids sid \<lparr>xs_owner_user_id = cl_owner_user_id c, xs_agent_id = cl_agent_id c,
      xs_operation_key = cl_operation_key c, xs_receipt = receipt\<rparr> at s"
    and "release \<equiv> release_claim env ids \<lparr>xf_owner_user_id = cl_owner_user_id c, xf_agent_id = cl_agent_id c,
      xf_operation_key = cl_operation_key c\<rparr> at s"
  shows "(cl_status c = ClaimSettled \<longrightarrow>
      (\<exists>r. hm_get (gv_receipts (sv_store s)) i = Some r
         \<and> (if receipt = rc_receipt r
            then \<exists>st. settle = (Inr st, s) \<and> ec_claim st = c \<and> ec_settlement_receipt st = Some r \<and> ec_idempotent_replay st
            else settle = (Inl (ClaimStorageError (StorageInvalidData
                   ''settlement receipt does not match the original settlement'')), s)))
      \<and> release = (Inl (ClaimStorageError (StorageInvalidData ''executor claim has already been settled'')), s))
    \<and> (cl_status c = ClaimReleased \<longrightarrow>
      settle = (Inl (ClaimStorageError (StorageInvalidData ''executor claim has already been released'')), s)
      \<and> (\<exists>st. release = (Inr st, s) \<and> ec_claim st = c \<and> ec_settlement_receipt st = None \<and> ec_idempotent_replay st))"
proof (intro conjI impI)
  assume st: "cl_status c = ClaimSettled"
  obtain r fr where r: "hm_get (gv_receipts (sv_store s)) i = Some r"
    and fr: "fr_claim fr = c" "fr_receipt fr = Some r" "fr_idempotent_replay fr"
    and run0: "\<forall>receipt sid. finalize_executor_claim env ids (cl_owner_user_id c)
          (ByOperation (cl_agent_id c) (cl_operation_key c)) (SettleAction sid receipt) ByExecutor at (sv_store s)
        = (if receipt = rc_receipt r then Inr (fr, sv_store s)
           else stored_invalid ''settlement receipt does not match the original settlement'')"
    and rel: "finalize_executor_claim env ids (cl_owner_user_id c)
          (ByOperation (cl_agent_id c) (cl_operation_key c)) ReleaseAction ByExecutor at (sv_store s)
        = stored_invalid ''executor claim has already been settled''"
    by (rule settled_finalize[OF inv c st, where env = env and ids = ids and at = at])
  note run = run0[rule_format]
  show "\<exists>r. hm_get (gv_receipts (sv_store s)) i = Some r
         \<and> (if receipt = rc_receipt r
            then \<exists>st. settle = (Inr st, s) \<and> ec_claim st = c \<and> ec_settlement_receipt st = Some r \<and> ec_idempotent_replay st
            else settle = (Inl (ClaimStorageError (StorageInvalidData
                   ''settlement receipt does not match the original settlement'')), s))"
  proof (rule exI[of _ r], intro conjI r)
    show "if receipt = rc_receipt r
            then \<exists>st. settle = (Inr st, s) \<and> ec_claim st = c \<and> ec_settlement_receipt st = Some r \<and> ec_idempotent_replay st
            else settle = (Inl (ClaimStorageError (StorageInvalidData
                   ''settlement receipt does not match the original settlement'')), s)"
    proof (cases "receipt = rc_receipt r")
      case True
      have ty': "action_well_typed (SettleAction sid receipt)" using ty by (simp add: action_well_typed_def receipt_well_typed_def)
      have run': "finalize_executor_claim env ids (cl_owner_user_id c)
          (ByOperation (cl_agent_id c) (cl_operation_key c)) (SettleAction sid receipt) ByExecutor at (sv_store s)
        = Inr (fr, sv_store s)" by (simp add: run True)
      from finish_with_ok[OF inv ty' run'] settled_answer[OF inv ty' run'] replay_leaves_state[OF inv ty' run' fr(3)] fr
      show ?thesis
        by (auto simp: settle_def settle_claim_def settle_executor_claim_def run' require_settlement_def True[symmetric])
    qed (simp add: settle_def settle_claim_def settle_executor_claim_def run finish_with_def)
  qed
  show "release = (Inl (ClaimStorageError (StorageInvalidData ''executor claim has already been settled'')), s)"
    by (simp add: release_def release_claim_def release_executor_claim_def rel finish_with_def)
next
  assume st: "cl_status c = ClaimReleased"
  show "settle = (Inl (ClaimStorageError (StorageInvalidData ''executor claim has already been released'')), s)"
    by (simp add: settle_def settle_claim_def settle_executor_claim_def released_finalize(2)[OF inv c st] finish_with_def)
  from released_finalize(1)[OF inv c st, where env = env and ids = ids and at = at] obtain fr where
    fr: "fr_claim fr = c" "fr_receipt fr = None" "fr_idempotent_replay fr"
    and run: "finalize_executor_claim env ids (cl_owner_user_id c)
          (ByOperation (cl_agent_id c) (cl_operation_key c)) ReleaseAction ByExecutor at (sv_store s)
        = Inr (fr, sv_store s)" by blast
  have ty': "action_well_typed ReleaseAction" by (simp add: action_well_typed_def)
  from finish_with_ok[OF inv ty' run] replay_leaves_state[OF inv ty' run fr(3)] fr
  show "\<exists>st. release = (Inr st, s) \<and> ec_claim st = c \<and> ec_settlement_receipt st = None \<and> ec_idempotent_replay st"
    by (auto simp: release_def release_claim_def release_executor_claim_def run)
qed

section \<open>Giving an authorization back\<close>

lemma legacy_cents_nonneg: "0 \<le> units a \<Longrightarrow> 0 \<le> legacy_cents_ceil a"
  by (simp add: legacy_cents_ceil_eq ceil_div_nonneg money_consts)

lemma release_balance_ok:
  assumes ok: "balance_ok l f bal" and f: "units (bh_amount h) \<le> f" and pos: "0 < units (bh_amount h)"
    and l: "amount_ok l"
  shows "checked_executor_finalization_balance bal h None = Inr (closed_balance bal (bh_amount h) (Amount 0))"
    and "balance_row_ok (closed_balance bal (bh_amount h) (Amount 0))"
proof -
  have fits: "fits_i64 (units (bal_frozen_amount bal) - units (bh_amount h))"
    "fits_i64 (units (bal_remaining_amount bal) + units (bh_amount h))"
    using ok f pos l by (auto simp: balance_ok_def amount_ok_def range_simps)
  then show "checked_executor_finalization_balance bal h None = Inr (closed_balance bal (bh_amount h) (Amount 0))"
    by (simp add: checked_executor_finalization_balance_def amount_checked_sub_def amount_checked_add_def checked_def
        closed_balance_def)
  show "balance_row_ok (closed_balance bal (bh_amount h) (Amount 0))"
    using ok f by (simp add: balance_row_ok_def closed_balance_def balance_ok_def legacy_cents_nonneg)
qed

text \<open>Releasing an open claim goes through, by the executor before the claim expires and by reconciliation
  after.\<close>

lemma open_claim_releases:
  assumes inv: "service_inv s" and o: "open_claim s r"
    and loc: "locate_claim (sv_store s) owner locator = Inr (cr_claim r)"
    and auth: "by_reconciliation authority \<longleftrightarrow> cl_expires_at (cr_claim r) \<le> at"
  obtains fr g where "write_finalization ReleaseAction authority at (cr_claim r) (cr_hold r) (cr_balance r)
      (closed_balance (cr_balance r) (bh_amount (cr_hold r)) (Amount 0)) (sv_store s) = Inr g"
    and "finalize_executor_claim env ids owner locator ReleaseAction authority at (sv_store s)
      = (case ge_capture_finalization env (finalized_claim ReleaseAction authority at (cr_claim r)) g of
           Inl e \<Rightarrow> Inl e | Inr journal \<Rightarrow> Inr (fr, g\<lparr>gv_journal := journal\<rparr>))"
    and "fr_claim fr = finalized_claim ReleaseAction authority at (cr_claim r)"
    and "fr_balance fr = closed_balance (cr_balance r) (bh_amount (cr_hold r)) (Amount 0)"
    and "hm_get (gv_balances g) (bh_budget_id (cr_hold r)) = Some (fr_balance fr)"
proof -
  let ?c = "cr_claim r" and ?t = "cr_token r" and ?h = "cr_hold r" and ?bal = "cr_balance r" and ?g = "sv_store s"
  note rows = o[unfolded open_claim_def] and ph = open_claim_phaseD[OF o] and co = service_invD(3)[OF inv]
  note hold = open_claim_hold[OF inv o]
  have hm: "hm_get (budget_holds (sv_budgets s)) (bh_id ?h) = Some ?h" using rows by (simp add: coherentD(7)[OF co])
  have bm: "hm_get (budget_balances (sv_budgets s)) (bh_budget_id ?h) = Some ?bal" using rows by (simp add: coherentD(6)[OF co])
  note bud = service_invD(2)[OF inv]
  obtain l where l: "balance_ok l (frozen_total (sv_budgets s) (bh_budget_id ?h)) ?bal" "amount_ok l"
    using budget_inv_hold_account[OF bud hm] bm by (metis option.inject)
  have pos: "0 < units (bh_amount ?h)" using budget_inv_hold[OF bud hm] by (simp add: hold_entry_ok_def)
  have f: "units (bh_amount ?h) \<le> frozen_total (sv_budgets s) (bh_budget_id ?h)"
    using frozen_total_ge_hold[OF bud hm, of "bh_budget_id ?h"] ph(4) by (simp add: hold_weight_def hold_active_def)
  note rel = release_balance_ok[OF l(1) f pos l(2)]
  let ?upd = "closed_balance ?bal (bh_amount ?h) (Amount 0)"
  have guards: "finalization_guards authority at ?c ?t ?h ?bal None = Inr ()"
    using rows ph auth f l(1)
    by (cases "cl_expires_at ?c \<le> at") (simp_all add: finalization_guards_def balance_ok_def less_amount_def)
  have wr: "\<exists>g. write_finalization ReleaseAction authority at ?c ?h ?bal ?upd ?g = Inr g
      \<and> hm_get (gv_balances g) (bh_budget_id ?h) = Some ?upd"
    using rows ph rel(2)
    by (auto simp: write_finalization_def update_one_def update_row_def require_one_updated_row_def
        compare_and_set_balance_def closed_balance_def)
  then obtain g where g: "write_finalization ReleaseAction authority at ?c ?h ?bal ?upd ?g = Inr g"
    "hm_get (gv_balances g) (bh_budget_id ?h) = Some ?upd" by blast
  have rep: "replay_is_consistent ReleaseAction ?c ?t ?h None = Inr False"
    using rows by (simp add: replay_is_consistent_def)
  define fr where "fr = \<lparr>fr_claim = finalized_claim ReleaseAction authority at ?c,
      fr_token = finalized_token ReleaseAction at ?t,
      fr_hold = ?h\<lparr>bh_status := snd (terminal_status ReleaseAction), bh_updated_at := at\<rparr>,
      fr_balance = ?upd, fr_receipt = None, fr_idempotent_replay = False\<rparr>"
  have "finalize_executor_claim env ids owner locator ReleaseAction authority at ?g
      = (case ge_capture_finalization env (finalized_claim ReleaseAction authority at ?c) g of
           Inl e \<Rightarrow> Inl e | Inr journal \<Rightarrow> Inr (fr, g\<lparr>gv_journal := journal\<rparr>))"
    using rows
    by (simp add: finalize_executor_claim_def loc hold ph(5) rep guards rel(1) g(1) record_settlement_def fr_def
        split: sum.split)
  then show thesis by (rule that[OF g(1)]) (use g(2) in \<open>simp_all add: fr_def\<close>)
qed

text \<open>A flow of a release that reaches the journal, with the answer it gives.\<close>

definition released_unless :: "storage_error + 'j \<Rightarrow> (executor_claim_error + executor_claim_state) \<times> 'j service
    \<Rightarrow> 'j service \<Rightarrow> budget_hold \<Rightarrow> budget_balance \<Rightarrow> bool" where
  "released_unless journal answer s h bal \<longleftrightarrow>
     (case journal of
        Inl e \<Rightarrow> answer = (Inl (ClaimStorageError e), s)
      | Inr _ \<Rightarrow> \<exists>st s'. answer = (Inr st, s') \<and> cl_status (ec_claim st) = ClaimReleased
          \<and> hm_get (gv_balances (sv_store s')) (bh_budget_id h)
            = Some (closed_balance bal (bh_amount h) (Amount 0)))"

lemma finish_released:
  assumes inv: "service_inv s"
    and run: "finalize_executor_claim env ids owner locator ReleaseAction authority at (sv_store s)
      = (case journal of Inl e \<Rightarrow> Inl e | Inr j \<Rightarrow> Inr (fr, g\<lparr>gv_journal := j\<rparr>))"
    and fr: "fr_claim fr = finalized_claim ReleaseAction authority at c"
      "hm_get (gv_balances g) (bh_budget_id h) = Some (closed_balance bal (bh_amount h) (Amount 0))"
  shows "released_unless journal
    (finish_with (finalize_executor_claim env ids owner locator ReleaseAction authority at (sv_store s)) s) s h bal"
proof (cases journal)
  case (Inl e)
  then show ?thesis by (simp add: run released_unless_def finish_with_def)
next
  case (Inr j)
  have ty: "action_well_typed ReleaseAction" by (simp add: action_well_typed_def)
  from finish_with_ok[OF inv ty run[unfolded Inr sum.case]] fr show ?thesis
    by (auto simp: run Inr released_unless_def install_finalization_def terminal_status_def)
qed

text \<open>
  C12: only the lifecycle journal can keep a claimed authorization from being given back. Releasing an unexpired claim,
  and reconciling an expired one as not billed with any reference and evidence that are not blank, passes every
  check and writes its tables; then the journal is asked for its entry. When the journal refuses, its error is the
  answer and nothing has changed; when it accepts, the claim is released and the whole held amount is back in the
  remaining balance. No hypothesis on the journal is made: it is any function.
\<close>

theorem claimed_funds_recoverable:
  assumes inv: "service_inv s" and c: "hm_get (gv_claims (sv_store s)) i = Some c" "cl_status c = ClaimClaimed"
  shows "\<exists>h bal. load_budget_hold_by_claim_id (sv_store s) i = Some h
    \<and> hm_get (gv_balances (sv_store s)) (bh_budget_id h) = Some bal
    \<and> (at < cl_expires_at c \<longrightarrow>
        (\<exists>g. write_finalization ReleaseAction ByExecutor at c h bal (closed_balance bal (bh_amount h) (Amount 0))
             (sv_store s) = Inr g
           \<and> (case ge_capture_finalization env (finalized_claim ReleaseAction ByExecutor at c) g of
                Inl e \<Rightarrow> release_claim env ids \<lparr>xf_owner_user_id = cl_owner_user_id c, xf_agent_id = cl_agent_id c,
                    xf_operation_key = cl_operation_key c\<rparr> at s = (Inl (ClaimStorageError e), s)
              | Inr journal \<Rightarrow> \<exists>st s'. release_claim env ids \<lparr>xf_owner_user_id = cl_owner_user_id c,
                    xf_agent_id = cl_agent_id c, xf_operation_key = cl_operation_key c\<rparr> at s = (Inr st, s')
                  \<and> cl_status (ec_claim st) = ClaimReleased
                  \<and> hm_get (gv_balances (sv_store s')) (bh_budget_id h)
                    = Some (closed_balance bal (bh_amount h) (Amount 0)))))
    \<and> (cl_expires_at c \<le> at \<and> \<not> is_blank reference \<and> \<not> is_blank evidence \<longrightarrow>
        (let authority = ByReconciliation (trim reference) (trim evidence) (cl_owner_user_id c);
             answer = reconcile_claim env ids sid \<lparr>xr_claim_id = i, xr_owner_user_id = cl_owner_user_id c,
               xr_provider_reference = reference, xr_evidence = evidence, xr_outcome = VendorDidNotBill,
               xr_receipt = None\<rparr> at s
         in \<exists>g. write_finalization ReleaseAction authority at c h bal (closed_balance bal (bh_amount h) (Amount 0))
               (sv_store s) = Inr g
             \<and> (case ge_capture_finalization env (finalized_claim ReleaseAction authority at c) g of
                  Inl e \<Rightarrow> answer = (Inl (ClaimStorageError e), s)
                | Inr journal \<Rightarrow> \<exists>st s'. answer = (Inr st, s') \<and> cl_status (ec_claim st) = ClaimReleased
                    \<and> hm_get (gv_balances (sv_store s')) (bh_budget_id h)
                      = Some (closed_balance bal (bh_amount h) (Amount 0)))))"
proof -
  obtain r where o: "open_claim s r" and r: "cr_claim r = c" by (rule open_claimI[OF inv c])
  note rows = o[unfolded open_claim_def r]
  have id: "cl_id c = i" using claim_row[OF service_invD(5)[OF inv] c(1)] by simp
  let ?closed = "closed_balance (cr_balance r) (bh_amount (cr_hold r)) (Amount 0)"
  have release: "\<exists>g. write_finalization ReleaseAction ByExecutor at c (cr_hold r) (cr_balance r) ?closed (sv_store s) = Inr g
      \<and> released_unless (ge_capture_finalization env (finalized_claim ReleaseAction ByExecutor at c) g)
          (release_claim env ids \<lparr>xf_owner_user_id = cl_owner_user_id c, xf_agent_id = cl_agent_id c,
             xf_operation_key = cl_operation_key c\<rparr> at s) s (cr_hold r) (cr_balance r)"
    if at: "at < cl_expires_at c"
  proof (rule open_claim_releases[OF inv o _ _, unfolded r, OF locate_by_operation[OF inv c(1)],
        where authority = ByExecutor and at = at and env = env and ids = ids])
    show "by_reconciliation ByExecutor = (cl_expires_at c \<le> at)" using at by simp
  next
    fix fr g
    assume g: "write_finalization ReleaseAction ByExecutor at c (cr_hold r) (cr_balance r) ?closed (sv_store s) = Inr g"
      and fr: "fr_claim fr = finalized_claim ReleaseAction ByExecutor at c" "fr_balance fr = ?closed"
        "hm_get (gv_balances g) (bh_budget_id (cr_hold r)) = Some (fr_balance fr)"
      and run: "finalize_executor_claim env ids (cl_owner_user_id c) (ByOperation (cl_agent_id c) (cl_operation_key c))
          ReleaseAction ByExecutor at (sv_store s)
        = (case ge_capture_finalization env (finalized_claim ReleaseAction ByExecutor at c) g of
             Inl e \<Rightarrow> Inl e | Inr journal \<Rightarrow> Inr (fr, g\<lparr>gv_journal := journal\<rparr>))"
    from finish_released[OF inv run fr(1), of "cr_hold r" "cr_balance r"] fr g show ?thesis
      by (auto simp: release_claim_def release_executor_claim_def)
  qed
  let ?by = "ByReconciliation (trim reference) (trim evidence) (cl_owner_user_id c)"
  have reconcile: "\<exists>g. write_finalization ReleaseAction ?by at c (cr_hold r) (cr_balance r) ?closed (sv_store s) = Inr g
      \<and> released_unless (ge_capture_finalization env (finalized_claim ReleaseAction ?by at c) g)
          (reconcile_claim env ids sid \<lparr>xr_claim_id = i, xr_owner_user_id = cl_owner_user_id c,
             xr_provider_reference = reference, xr_evidence = evidence, xr_outcome = VendorDidNotBill,
             xr_receipt = None\<rparr> at s) s (cr_hold r) (cr_balance r)"
    if at: "cl_expires_at c \<le> at" and p: "\<not> is_blank reference" "\<not> is_blank evidence"
  proof -
    have t: "trim reference \<noteq> []" "trim evidence \<noteq> []" using p by (simp_all add: is_blank_def)
    have loc: "locate_claim (sv_store s) (cl_owner_user_id c) (ByClaimId i) = Inr c"
      using c(1) by (simp add: locate_claim_def)
    show ?thesis
    proof (rule open_claim_releases[OF inv o _ _, unfolded r, OF loc,
          where authority = ?by and at = at and env = env and ids = ids])
      show "by_reconciliation ?by = (cl_expires_at c \<le> at)" using at by simp
    next
      fix fr g
      assume g: "write_finalization ReleaseAction ?by at c (cr_hold r) (cr_balance r) ?closed (sv_store s) = Inr g"
        and fr: "fr_claim fr = finalized_claim ReleaseAction ?by at c" "fr_balance fr = ?closed"
          "hm_get (gv_balances g) (bh_budget_id (cr_hold r)) = Some (fr_balance fr)"
        and run: "finalize_executor_claim env ids (cl_owner_user_id c) (ByClaimId i) ReleaseAction ?by at (sv_store s)
          = (case ge_capture_finalization env (finalized_claim ReleaseAction ?by at c) g of
               Inl e \<Rightarrow> Inl e | Inr journal \<Rightarrow> Inr (fr, g\<lparr>gv_journal := journal\<rparr>))"
      from finish_released[OF inv run fr(1), of "cr_hold r" "cr_balance r"] fr g show ?thesis
        by (auto simp: reconcile_claim_def reconcile_executor_claim_def t Let_def trim_trim)
    qed
  qed
  have "load_budget_hold_by_claim_id (sv_store s) i = Some (cr_hold r)"
    using open_claim_hold[OF inv o] by (simp add: r id)
  moreover have "hm_get (gv_balances (sv_store s)) (bh_budget_id (cr_hold r)) = Some (cr_balance r)"
    using rows by simp
  ultimately show ?thesis
    using release reconcile unfolding released_unless_def Let_def by blast
qed

end
