(* ===== verification/Executor_Accounting.thy ===== *)
theory Executor_Accounting
  imports Executor_Theorems
begin

text \<open>
  The service against the ledger: what a settlement posts, and the coverage report of a budget. The
  consumption of a budget and the charges its ledger transactions record move together.
\<close>

section \<open>The tables after an exact pair\<close>

lemma post_entry_frame:
  assumes "post_entry p tid amount L line = Inr L'"
  shows "ledger_transactions L' = ledger_transactions L \<and> ledger_metadata L' = ledger_metadata L"
  using assms by (cases line) (auto simp: post_entry_def Let_def res_simps split: option.splits)

lemma post_pair_tables:
  assumes inv: "ledger_inv L" and post: "post_pair ids p L = Inr (r, L')"
  shows "hm_get (ledger_transactions L) (pi_transaction ids) = None"
    and "\<exists>t. lt_id t = pi_transaction ids \<and> lt_owner_user_id t = pp_owner p
       \<and> ledger_transactions L' = hm_insert (pi_transaction ids) t (ledger_transactions L)"
    and "ledger_metadata L' = hm_insert (pi_transaction ids) (pp_metadata p) (ledger_metadata L)"
    and "tr_owner_user_id r = pp_owner p"
proof -
  let ?tid = "pi_transaction ids"
  define t where "t = \<lparr>lt_id = ?tid, lt_owner_user_id = pp_owner p, lt_external_ref = pp_external_ref p,
     lt_description = transaction_kind_as_str (tm_kind (pp_metadata p)), lt_created_at = pp_created_at p,
     lt_kind = tm_kind (pp_metadata p)\<rparr>"
  have t: "lt_id t = ?tid" "lt_owner_user_id t = pp_owner p" by (simp_all add: t_def)
  from post obtain amount L1 L2 where new: "hm_get (ledger_transactions L) ?tid = None"
    and L1: "post_entry p ?tid amount (L\<lparr>ledger_transactions := hm_insert ?tid t (ledger_transactions L)\<rparr>)
        (pi_debit_account ids, pi_debit_entry ids, pp_debit_kind p, Debit) = Inr L1"
    and L2: "post_entry p ?tid amount L1
        (pi_credit_account ids, pi_credit_entry ids, pp_credit_kind p, Credit) = Inr L2"
    and att: "attach_metadata ?tid (pp_metadata p) L2 = Inr L'" and r: "load_transaction L' ?tid = Some r"
    unfolding t_def by (auto simp: post_pair_def Let_def res_simps split: if_splits)
  note f = post_entry_frame[OF L1] post_entry_frame[OF L2]
  from att have ins: "insert_metadata ?tid (pp_metadata p) L2 = Inr L'" by (rule attach_metadata_split)
  then have L': "L' = L2\<lparr>ledger_metadata := hm_insert ?tid (pp_metadata p) (ledger_metadata L2)\<rparr>"
    by (auto simp: insert_metadata_def split: if_splits)
  show "hm_get (ledger_transactions L) ?tid = None" by (rule new)
  show "\<exists>t. lt_id t = ?tid \<and> lt_owner_user_id t = pp_owner p
       \<and> ledger_transactions L' = hm_insert ?tid t (ledger_transactions L)"
    using f t by (auto simp: L')
  show "ledger_metadata L' = hm_insert ?tid (pp_metadata p) (ledger_metadata L)" using f by (simp add: L')
  show "tr_owner_user_id r = pp_owner p"
    using r f t by (auto simp: L' load_transaction_def Let_def)
qed

lemma old_transaction_same:
  assumes inv: "ledger_inv L" and ext: "extends L L'" and load: "load_transaction L k = Some x"
    and meta: "hm_get (ledger_metadata L') k = hm_get (ledger_metadata L) k"
  shows "load_transaction L' k = Some x"
proof -
  from extends_load[OF ledger_inv_rows[OF inv] ext load] obtain y where y: "load_transaction L' k = Some y"
    "tr_owner_user_id y = tr_owner_user_id x" "tr_kind y = tr_kind x" "tr_entries y = tr_entries x"
    "tr_description y = tr_description x" "tr_created_at y = tr_created_at x" "tr_external_ref y = tr_external_ref x"
    by blast
  have "tr_metadata y = tr_metadata x"
    using load_transaction_metadata[OF y(1)] load_transaction_metadata[OF load] meta by simp
  moreover have "tr_missing_evidence z = (if tr_metadata z = None then [''source_evidence'', ''governed_context''] else [])"
    if "load_transaction M k = Some z" for M z
    using that by (auto simp: load_transaction_def Let_def)
  ultimately have "y = x"
    using y load load_transaction_id[OF y(1)] load_transaction_id[OF load]
    by (intro transaction_record.equality) simp_all
  with y(1) show ?thesis by simp
qed

section \<open>Transactions of an owner\<close>

lemma load_known:
  assumes "ledger_inv L" and "hm_get (ledger_transactions L) k = Some t"
  shows "lt_id t = k" and "load_transaction L k = Some (the (load_transaction L k))"
  using assms ledger_inv_rows[OF assms(1)] by (auto simp: rows_inv_def load_transaction_def)

lemma owner_transactions_mset:
  assumes inv: "ledger_inv L"
  shows "mset (owner_transactions L owner)
    = image_mset (\<lambda>t. the (load_transaction L (lt_id t)))
        (filter_mset (\<lambda>t. lt_owner_user_id t = owner) (mset (hm_values (ledger_transactions L))))"
proof -
  have wf: "hm_wf (ledger_transactions L)" using ledger_inv_rows[OF inv] by (simp add: rows_inv_def)
  let ?ts = "filter (\<lambda>t. lt_owner_user_id t = owner) (hm_values (ledger_transactions L))"
  have loads: "\<forall>t\<in>set ts. load_transaction L (lt_id t) = Some (the (load_transaction L (lt_id t)))"
    if "set ts \<subseteq> set (hm_values (ledger_transactions L))" for ts
    using that load_known[OF inv] hm.values_get[OF wf] by (metis subset_iff)
  have mf: "List.map_filter (\<lambda>t. load_transaction L (lt_id t)) ts = map (\<lambda>t. the (load_transaction L (lt_id t))) ts"
    if "\<forall>t\<in>set ts. load_transaction L (lt_id t) = Some (the (load_transaction L (lt_id t)))" for ts
    using that by (induction ts) (auto simp: List.map_filter_def)
  have "set ?ts \<subseteq> set (hm_values (ledger_transactions L))" by auto
  from loads[OF this] have "owner_transactions L owner
      = map (\<lambda>t. the (load_transaction L (lt_id t))) (sort_key lt_created_at (sort_key (transaction_key \<circ> lt_id) ?ts))"
    unfolding owner_transactions_def by (intro mf) simp
  then show ?thesis by (simp add: mset_filter)
qed

lemma owner_transactions_post:
  assumes inv: "ledger_inv L" and post: "post_pair ids p L = Inr (r, L')"
  shows "mset (owner_transactions L' owner)
    = mset (owner_transactions L owner) + (if pp_owner p = owner then {#r#} else {#})"
proof -
  let ?tid = "pi_transaction ids"
  note ok = post_pair_ok[OF inv post] and tab = post_pair_tables[OF inv post]
  obtain t where t: "lt_id t = ?tid" "lt_owner_user_id t = pp_owner p"
    and tx: "ledger_transactions L' = hm_insert ?tid t (ledger_transactions L)" using tab(2) by blast
  have wf: "hm_wf (ledger_transactions L)" using ledger_inv_rows[OF inv] by (simp add: rows_inv_def)
  have same: "the (load_transaction L' (lt_id u)) = the (load_transaction L (lt_id u))"
    if u: "u \<in> set (hm_values (ledger_transactions L))" for u
  proof -
    from u hm.values_get[OF wf] obtain k where k: "hm_get (ledger_transactions L) k = Some u" by blast
    note load = load_known[OF inv k]
    have "k \<noteq> ?tid" using k tab(1) by auto
    then have "load_transaction L' k = Some (the (load_transaction L k))"
      by (intro old_transaction_same[OF inv ok(2) load(2)]) (simp add: tab(3))
    with load(1) show ?thesis by simp
  qed
  have "mset (hm_values (ledger_transactions L')) = add_mset t (mset (hm_values (ledger_transactions L)))"
    unfolding tx by (rule hm.values_insert_new[OF tab(1)])
  then have "mset (owner_transactions L' owner)
      = image_mset (\<lambda>u. the (load_transaction L' (lt_id u)))
          (filter_mset (\<lambda>u. lt_owner_user_id u = owner) (mset (hm_values (ledger_transactions L))))
        + (if pp_owner p = owner then {#r#} else {#})"
    using t ok(3) by (simp add: owner_transactions_mset[OF ok(1)])
  also have "image_mset (\<lambda>u. the (load_transaction L' (lt_id u)))
          (filter_mset (\<lambda>u. lt_owner_user_id u = owner) (mset (hm_values (ledger_transactions L))))
      = mset (owner_transactions L owner)"
    unfolding owner_transactions_mset[OF inv] using same by (intro image_mset_cong) auto
  finally show ?thesis .
qed

section \<open>The coverage report\<close>

definition recorded_charge :: "transaction_record \<Rightarrow> int" where
  "recorded_charge r =
     (case tr_metadata r of
        None \<Rightarrow> 0
      | Some m \<Rightarrow> (case budget_charge_units m of Inr (Some u) \<Rightarrow> u | _ \<Rightarrow> 0))"

definition of_budget :: "agent_id \<Rightarrow> budget_id \<Rightarrow> transaction_record \<Rightarrow> bool" where
  "of_budget agent bid r \<longleftrightarrow>
     is_some_and (\<lambda>c. gc_agent_id c = agent \<and> gc_budget_id c = bid) (record_context r)"

definition recorded_total :: "ledger \<Rightarrow> budget_ledger_query \<Rightarrow> int" where
  "recorded_total L query =
     (\<Sum>r\<in>#filter_mset (of_budget (bq_agent_id query) (bq_budget_id query))
            (mset (owner_transactions L (bq_owner_user_id query))). recorded_charge r)"

definition consumed_total :: "'j governance \<Rightarrow> budget_id \<Rightarrow> int" where
  "consumed_total g bid =
     (case hm_get (gv_balances g) bid of None \<Rightarrow> 0 | Some bal \<Rightarrow> units (bal_consumed_amount bal))"

lemma add_recorded_charge_ok:
  assumes "add_recorded_charge charged r = Inr charged'"
  shows "units charged' = units charged + recorded_charge r"
proof (cases "tr_metadata r")
  case (Some m)
  with assms obtain charge where charge: "budget_charge_units m = Inr charge"
    by (auto simp: add_recorded_charge_def res_simps)
  with Some assms show ?thesis
    by (cases charge) (simp_all add: add_recorded_charge_def recorded_charge_def res_simps)
qed (use assms in \<open>simp add: add_recorded_charge_def recorded_charge_def\<close>)

lemma add_recorded_charges_ok:
  "try_fold add_recorded_charge charged rs = Inr charged' \<Longrightarrow>
   units charged' = units charged + sum_list (map recorded_charge rs)"
proof (induction rs arbitrary: charged)
  case (Cons r rs)
  then obtain c where "add_recorded_charge charged r = Inr c" "try_fold add_recorded_charge c rs = Inr charged'"
    by (auto simp: res_simps)
  with Cons.IH add_recorded_charge_ok show ?case by fastforce
qed simp

text \<open>What the report answers, and who may ask.\<close>

lemma query_budget_ledger_ok:
  assumes "query_budget_ledger query g = Inr report"
  shows "units (br_recorded_budget_charges report) = recorded_total (gv_ledger g) query"
    and "units (br_consumed_amount report) = consumed_total g (bq_budget_id query)"
    and "units (br_unaccounted_consumption report)
       = consumed_total g (bq_budget_id query) - recorded_total (gv_ledger g) query"
    and "\<exists>b. hm_get (gv_budgets g) (bq_budget_id query) = Some b \<and> bu_agent_id b = bq_agent_id query"
    and "\<exists>a\<in>set (hm_values (gv_accounts g)). ac_agent_id a = bq_agent_id query
       \<and> ac_owner_user_id a = bq_owner_user_id query"
proof -
  let ?rs = "filter (of_budget (bq_agent_id query) (bq_budget_id query))
      (owner_transactions (gv_ledger g) (bq_owner_user_id query))"
  from assms obtain charged bal where c: "try_fold add_recorded_charge ZERO ?rs = Inr charged"
    and bal: "hm_get (gv_balances g) (bq_budget_id query) = Some bal"
    and r: "br_recorded_budget_charges report = charged" "br_consumed_amount report = bal_consumed_amount bal"
      "units (br_unaccounted_consumption report) = units (bal_consumed_amount bal) - units charged"
    and own: "is_some_and (\<lambda>b. bu_agent_id b = bq_agent_id query) (hm_get (gv_budgets g) (bq_budget_id query))"
      "list_ex (\<lambda>a. ac_agent_id a = bq_agent_id query \<and> ac_owner_user_id a = bq_owner_user_id query)
         (hm_values (gv_accounts g))"
    unfolding of_budget_def
    by (auto simp: query_budget_ledger_def Let_def res_simps split: if_splits)
  have "units charged = sum_list (map recorded_charge ?rs)"
    using add_recorded_charges_ok[OF c] by (simp add: ZERO_def)
  also have "\<dots> = recorded_total (gv_ledger g) query"
    by (simp add: recorded_total_def flip: mset_filter sum_mset_sum_list mset_map)
  finally show "units (br_recorded_budget_charges report) = recorded_total (gv_ledger g) query"
    and "units (br_consumed_amount report) = consumed_total g (bq_budget_id query)"
    and "units (br_unaccounted_consumption report)
       = consumed_total g (bq_budget_id query) - recorded_total (gv_ledger g) query"
    using r bal by (simp_all add: consumed_total_def)
  show "\<exists>b. hm_get (gv_budgets g) (bq_budget_id query) = Some b \<and> bu_agent_id b = bq_agent_id query"
    and "\<exists>a\<in>set (hm_values (gv_accounts g)). ac_agent_id a = bq_agent_id query
       \<and> ac_owner_user_id a = bq_owner_user_id query"
    using own by (auto simp: is_some_and_iff list_ex_iff)
qed

lemma recorded_total_post:
  assumes "ledger_inv L" and "post_pair ids p L = Inr (r, L')"
  shows "recorded_total L' query = recorded_total L query
    + (if pp_owner p = bq_owner_user_id query \<and> of_budget (bq_agent_id query) (bq_budget_id query) r
       then recorded_charge r else 0)"
  by (simp add: recorded_total_def owner_transactions_post[OF assms])

section \<open>What a settlement posts\<close>

lemma post_settlement_split:
  assumes "post_settlement env ids c h receipt legacy g = Inr L"
  obtains request expense r where "settlement_request g (cl_id c) (bh_id h) (rc_settlement_id receipt) = Some request"
    and "scaled (exact_cost (sr_actual_vendor_cost (rc_receipt receipt))) = Inr expense"
    and "budget_charge (sr_actual_vendor_cost (rc_receipt receipt)) = Inr (rc_budget_charge receipt)"
    and "post_pair ids \<lparr>pp_owner = cl_owner_user_id c, pp_debit_kind = AgentSpendExpense,
         pp_credit_kind = ExternallyBilledClearing, pp_signed_amount = expense,
         pp_metadata = settlement_metadata env c h receipt request expense legacy,
         pp_external_ref = Some (ge_show_payment_id env (rc_settlement_id receipt)),
         pp_created_at = rc_created_at receipt\<rparr> (gv_ledger g) = Inr (r, L)"
  using assms that by (auto simp: post_settlement_def Let_def res_simps split: if_splits)

lemma settlement_metadata_facts [simp]:
  "budget_charge_units (settlement_metadata env c h receipt request expense legacy)
     = Inr (Some (units (rc_budget_charge receipt)))"
  "tm_kind (settlement_metadata env c h receipt request expense legacy) = ExternalProvider"
  "tm_effective_cost (settlement_metadata env c h receipt request expense legacy)
     = exact_cost (sr_actual_vendor_cost (rc_receipt receipt))"
  by (simp_all add: settlement_metadata_def Let_def budget_charge_units_def)

lemma post_settlement_ok:
  assumes post: "post_settlement env ids c h receipt legacy g = Inr L" and inv: "ledger_inv (gv_ledger g)"
  shows "\<exists>r expense. load_transaction L (pi_transaction ids) = Some r
    \<and> hm_get (ledger_transactions (gv_ledger g)) (pi_transaction ids) = None
    \<and> tr_owner_user_id r = cl_owner_user_id c \<and> tr_kind r = ExternalProvider
    \<and> scaled (exact_cost (sr_actual_vendor_cost (rc_receipt receipt))) = Inr expense
    \<and> expense_of (tr_entries r) = expense
    \<and> recorded_charge r = units (rc_budget_charge receipt)
    \<and> (\<forall>agent bid. of_budget agent bid r \<longleftrightarrow> agent = cl_agent_id c \<and> bid = bh_budget_id h)
    \<and> (\<forall>query. recorded_total L query = recorded_total (gv_ledger g) query
         + (if cl_owner_user_id c = bq_owner_user_id query \<and> bq_agent_id query = cl_agent_id c
               \<and> bq_budget_id query = bh_budget_id h
            then units (rc_budget_charge receipt) else 0))"
  using post
proof (rule post_settlement_split)
  fix request expense r
  let ?meta = "settlement_metadata env c h receipt request expense legacy"
  let ?p = "\<lparr>pp_owner = cl_owner_user_id c, pp_debit_kind = AgentSpendExpense,
         pp_credit_kind = ExternallyBilledClearing, pp_signed_amount = expense, pp_metadata = ?meta,
         pp_external_ref = Some (ge_show_payment_id env (rc_settlement_id receipt)),
         pp_created_at = rc_created_at receipt\<rparr>"
  assume e: "scaled (exact_cost (sr_actual_vendor_cost (rc_receipt receipt))) = Inr expense"
    and pair: "post_pair ids ?p (gv_ledger g) = Inr (r, L)"
  note ok = post_pair_ok[OF inv pair] and tab = post_pair_tables[OF inv pair]
  have m: "tr_metadata r = Some ?meta" using ok(4) by simp
  have "hm_get (ledger_metadata L) (pi_transaction ids) = Some ?meta" by (simp add: tab(3))
  then have "evidence_ok L (pi_transaction ids) ?meta" using ok(1) unfolding ledger_inv_def by blast
  with ok(3) have ev: "posting_ok r ?meta" "cost_of ?meta = expense_of (tr_entries r)"
    by (auto simp: evidence_ok_def)
  have exp: "expense_of (tr_entries r) = expense" using ev(2) e by (simp add: cost_of_def)
  have kind: "tr_kind r = ExternalProvider" using ev(1) by (simp add: posting_ok_def)
  have ch: "recorded_charge r = units (rc_budget_charge receipt)" by (simp add: recorded_charge_def m)
  have ob: "of_budget agent bid r \<longleftrightarrow> agent = cl_agent_id c \<and> bid = bh_budget_id h" for agent bid
    by (auto simp: of_budget_def record_context_def m is_some_and_iff settlement_metadata_def Let_def)
  show ?thesis
    using ok(3) tab(1,4) exp kind ch ob e recorded_total_post[OF inv pair] by auto
qed

section \<open>Settlements are exact\<close>

text \<open>What a new settlement's finalization adds to the receipts and to the ledger.\<close>

lemma settlement_posting:
  fixes env :: "'j governance_env"
  assumes inv: "service_inv s"
    and f: "finalizes_claim env ids (SettleAction sid receipt) authority at (sv_store s) r amounts fr g'"
  obtains a request and g1 :: "'j governance" and rc where "amounts = Some a"
    and "validate_executor_settlement_receipt receipt (cr_hold r) (by_reconciliation authority) = Inr a"
    and "fr_receipt fr = Some rc" and "rc_receipt rc = receipt" and "rc_settlement_id rc = sid"
    and "rc_budget_charge rc = sa_budget_charge a"
    and "settlement_request g1 (cl_id (cr_claim r)) (bh_id (cr_hold r)) sid = Some request"
    and "gv_decisions g1 = gv_decisions (sv_store s)" and "gv_budgets g1 = gv_budgets (sv_store s)"
    and "gv_claims g1 = gv_claims g'" and "gv_holds g1 = gv_holds g'"
    and "\<exists>x expense. load_transaction (gv_ledger g') (pi_transaction ids) = Some x
      \<and> hm_get (ledger_transactions (gv_ledger (sv_store s))) (pi_transaction ids) = None
      \<and> tr_owner_user_id x = cl_owner_user_id (cr_claim r) \<and> tr_kind x = ExternalProvider
      \<and> scaled (exact_cost (sr_actual_vendor_cost receipt)) = Inr expense
      \<and> expense_of (tr_entries x) = expense
      \<and> recorded_charge x = units (sa_budget_charge a)
      \<and> (\<forall>agent bid. of_budget agent bid x \<longleftrightarrow> agent = cl_agent_id (cr_claim r) \<and> bid = bh_budget_id (cr_hold r))
      \<and> (\<forall>query. recorded_total (gv_ledger g') query = recorded_total (gv_ledger (sv_store s)) query
           + (if cl_owner_user_id (cr_claim r) = bq_owner_user_id query \<and> bq_agent_id query = cl_agent_id (cr_claim r)
                 \<and> bq_budget_id query = bh_budget_id (cr_hold r)
              then units (sa_budget_charge a) else 0))"
proof -
  let ?action = "SettleAction sid receipt" and ?at = at
  let ?c = "reconciled_claim authority at ((cr_claim r)\<lparr>cl_finalized_at := Some at\<rparr>)"
  let ?h = "(cr_hold r)\<lparr>bh_updated_at := at\<rparr>"
  let ?g1 = "finalized_rows ?action authority at (cr_claim r) (cr_token r) (cr_hold r)
      (closed_balance (cr_balance r) (bh_amount (cr_hold r)) (charge_of amounts)) (sv_store s)"
  have c: "cl_id ?c = cl_id (cr_claim r)" "cl_owner_user_id ?c = cl_owner_user_id (cr_claim r)"
    "cl_agent_id ?c = cl_agent_id (cr_claim r)"
    by (simp_all add: reconciled_claim_def split: finalization_authority.splits)
  from f obtain a where a: "amounts = Some a"
    and v: "validate_executor_settlement_receipt receipt (cr_hold r) (by_reconciliation authority) = Inr a"
    by (auto simp: finalizes_claim_def Let_def settlement_amounts_of_def res_simps)
  let ?rec = "settlement_record (cr_claim r) (cr_hold r) a sid receipt at"
  from f[unfolded finalizes_claim_def Let_def a] obtain receipts L journal
    where fr: "fr_receipt fr = Some ?rec"
    and post: "post_settlement env ids ?c ?h ?rec False (?g1\<lparr>gv_receipts := receipts\<rparr>) = Inr L"
    and g': "g' = ?g1\<lparr>gv_receipts := receipts, gv_ledger := L, gv_journal := journal\<rparr>"
    by (auto simp: a)
  let ?g = "?g1\<lparr>gv_receipts := receipts\<rparr>"
  have led: "gv_ledger ?g = gv_ledger (sv_store s)" by simp
  have rec: "rc_receipt ?rec = receipt" "rc_settlement_id ?rec = sid" "rc_budget_charge ?rec = sa_budget_charge a"
    by (simp_all add: settlement_record_def)
  from post_settlement_split[OF post] obtain request
    where req: "settlement_request ?g (cl_id (cr_claim r)) (bh_id (cr_hold r)) sid = Some request"
    by (metis (no_types) c(1) rec(2) budget_hold.simps budget_hold.select_convs budget_hold.surjective)
  note ok = post_settlement_ok[OF post, unfolded led, OF service_invD(6)[OF inv], unfolded rec c]
  show thesis
  proof (rule that[OF a v fr rec(1,2,3) req])
    show "gv_decisions ?g = gv_decisions (sv_store s)" "gv_budgets ?g = gv_budgets (sv_store s)"
      "gv_claims ?g = gv_claims g'" "gv_holds ?g = gv_holds g'" by (simp_all add: g')
    show "\<exists>x expense. load_transaction (gv_ledger g') (pi_transaction ids) = Some x
      \<and> hm_get (ledger_transactions (gv_ledger (sv_store s))) (pi_transaction ids) = None
      \<and> tr_owner_user_id x = cl_owner_user_id (cr_claim r) \<and> tr_kind x = ExternalProvider
      \<and> scaled (exact_cost (sr_actual_vendor_cost receipt)) = Inr expense
      \<and> expense_of (tr_entries x) = expense
      \<and> recorded_charge x = units (sa_budget_charge a)
      \<and> (\<forall>agent bid. of_budget agent bid x \<longleftrightarrow> agent = cl_agent_id (cr_claim r) \<and> bid = bh_budget_id (cr_hold r))
      \<and> (\<forall>query. recorded_total (gv_ledger g') query = recorded_total (gv_ledger (sv_store s)) query
           + (if cl_owner_user_id (cr_claim r) = bq_owner_user_id query \<and> bq_agent_id query = cl_agent_id (cr_claim r)
                 \<and> bq_budget_id query = bh_budget_id (cr_hold r)
              then units (sa_budget_charge a) else 0))"
      using ok by (simp add: g')
  qed
qed

lemma settle_claim_run:
  assumes "settle_claim env ids sid request at s = (Inr st, s')"
  obtains fr g where "finalize_executor_claim env ids (xs_owner_user_id request)
        (ByOperation (xs_agent_id request) (xs_operation_key request))
        (SettleAction sid (xs_receipt request)) ByExecutor at (sv_store s) = Inr (fr, g)"
    and "s' = install_finalization fr g s" and "ec_idempotent_replay st = fr_idempotent_replay fr"
proof -
  from assms obtain fr g where run: "finalize_executor_claim env ids (xs_owner_user_id request)
        (ByOperation (xs_agent_id request) (xs_operation_key request))
        (SettleAction sid (xs_receipt request)) ByExecutor at (sv_store s) = Inr (fr, g)"
    and fin: "apply_finalization fr g s = (Inr st, s')"
    by (auto simp: settle_claim_def settle_executor_claim_def finish_with_def require_settlement_def res_simps
        split: sum.splits prod.splits if_splits)
  have "s' = install_finalization fr g s" using apply_finalization_state[of fr g s] fin by simp
  moreover have "ec_idempotent_replay st = fr_idempotent_replay fr"
    using fin by (auto simp: apply_finalization_def Let_def claim_state_from_records_def res_simps split: if_splits)
  ultimately show thesis using run that by blast
qed

text \<open>
  C2: a settlement is exact. When an executor settles a claim for the first time, the claim was open with
  its hold frozen; the vendor cost, rounded up to budget units, is charged and was within the hold; the
  whole hold leaves the frozen amount and what was not charged returns to the remaining one; token, hold,
  claim and receipt carry this settlement; and the ledger gets one new transaction of the owner whose
  expense is the vendor cost to the last digit, bound to the agent and the budget of the hold.
\<close>

theorem settlement_exact:
  assumes inv: "service_inv s" and ty: "receipt_well_typed (xs_receipt request)"
    and run: "settle_claim env ids sid request at s = (Inr st, s')" and new: "\<not> ec_idempotent_replay st"
  shows "\<exists>c t h bal charge expense x.
      hm_get (gv_claims (sv_store s)) (cl_id c) = Some c \<and> cl_status c = ClaimClaimed \<and> at < cl_expires_at c
    \<and> cl_owner_user_id c = xs_owner_user_id request
    \<and> hm_get (gv_tokens (sv_store s)) (cl_spend_auth_token_id c) = Some t \<and> tk_used_at t = None
    \<and> hm_get (gv_holds (sv_store s)) (bh_id h) = Some h \<and> bh_status h = Claimed
    \<and> bh_executor_claim_id h = Some (cl_id c)
    \<and> hm_get (gv_balances (sv_store s)) (bh_budget_id h) = Some bal
    \<and> budget_charge (sr_actual_vendor_cost (xs_receipt request)) = Inr charge \<and> charge \<le> bh_amount h
    \<and> hm_get (gv_balances (sv_store s')) (bh_budget_id h)
      = Some (bal\<lparr>bal_frozen_amount := Amount (units (bal_frozen_amount bal) - units (bh_amount h)),
                 bal_consumed_amount := Amount (units (bal_consumed_amount bal) + units charge),
                 bal_remaining_amount :=
                   Amount (units (bal_remaining_amount bal) + (units (bh_amount h) - units charge))\<rparr>)
    \<and> map_option cl_settlement_id (hm_get (gv_claims (sv_store s')) (cl_id c)) = Some (Some sid)
    \<and> map_option tk_used_by_payment_id (hm_get (gv_tokens (sv_store s')) (cl_spend_auth_token_id c)) = Some (Some sid)
    \<and> map_option bh_status (hm_get (gv_holds (sv_store s')) (bh_id h)) = Some Settled
    \<and> map_option (\<lambda>r. (rc_receipt r, rc_settlement_id r, rc_budget_charge r))
        (hm_get (gv_receipts (sv_store s')) (cl_id c)) = Some (xs_receipt request, sid, charge)
    \<and> hm_get (ledger_transactions (gv_ledger (sv_store s))) (pi_transaction ids) = None
    \<and> load_transaction (gv_ledger (sv_store s')) (pi_transaction ids) = Some x
    \<and> tr_owner_user_id x = cl_owner_user_id c \<and> tr_kind x = ExternalProvider
    \<and> scaled (exact_cost (sr_actual_vendor_cost (xs_receipt request))) = Inr expense
    \<and> expense_of (tr_entries x) = expense \<and> recorded_charge x = units charge
    \<and> of_budget (cl_agent_id c) (bh_budget_id h) x"
proof -
  let ?receipt = "xs_receipt request"
  let ?action = "SettleAction sid ?receipt"
  obtain fr g where fin: "finalize_executor_claim env ids (xs_owner_user_id request)
        (ByOperation (xs_agent_id request) (xs_operation_key request)) ?action ByExecutor at (sv_store s) = Inr (fr, g)"
    and s': "s' = install_finalization fr g s" and rep: "ec_idempotent_replay st = fr_idempotent_replay fr"
    by (rule settle_claim_run[OF run])
  have st': "sv_store s' = g" by (simp add: s' install_finalization_def)
  from inv fin show ?thesis
  proof (cases rule: finalize_service_cases)
    case (replay c t h bal)
    then show ?thesis using new rep by simp
  next
    case (new r amounts)
    note rows = new(1)[unfolded open_claim_def] and ph = open_claim_phaseD[OF new(1)]
    note d = finalizes_claimD[OF new(5)] and tab = finalizes_claim_tables[OF new(5)]
    have wfr: "hm_wf (gv_receipts (sv_store s))" using service_invD(4)[OF inv] by (simp add: tables_wf_def)
    note rec = finalizes_claim_receipts(2)[OF new(5) wfr ph(5)]
    have exp: "at < cl_expires_at (cr_claim r)" using new(4) by (simp add: not_le)
    obtain a rc where a: "amounts = Some a"
      and v: "validate_executor_settlement_receipt ?receipt (cr_hold r) (by_reconciliation ByExecutor) = Inr a"
      and rc: "fr_receipt fr = Some rc" "rc_receipt rc = ?receipt" "rc_settlement_id rc = sid"
        "rc_budget_charge rc = sa_budget_charge a"
      and post: "\<exists>x expense. load_transaction (gv_ledger g) (pi_transaction ids) = Some x
      \<and> hm_get (ledger_transactions (gv_ledger (sv_store s))) (pi_transaction ids) = None
      \<and> tr_owner_user_id x = cl_owner_user_id (cr_claim r) \<and> tr_kind x = ExternalProvider
      \<and> scaled (exact_cost (sr_actual_vendor_cost ?receipt)) = Inr expense
      \<and> expense_of (tr_entries x) = expense
      \<and> recorded_charge x = units (sa_budget_charge a)
      \<and> of_budget (cl_agent_id (cr_claim r)) (bh_budget_id (cr_hold r)) x"
      by (rule settlement_posting[OF inv new(5)]) blast
    note va = validated_amounts[OF v]
    have ch: "charge_of amounts = sa_budget_charge a" by (simp add: charge_of_def a)
    have bal: "hm_get (gv_balances g) (bh_budget_id (cr_hold r))
        = Some (closed_balance (cr_balance r) (bh_amount (cr_hold r)) (sa_budget_charge a))"
      using rows by (simp add: tab(7) d(7) ch)
    have after: "map_option cl_settlement_id (hm_get (gv_claims g) (cl_id (cr_claim r))) = Some (Some sid)"
      "map_option tk_used_by_payment_id (hm_get (gv_tokens g) (cl_spend_auth_token_id (cr_claim r))) = Some (Some sid)"
      "map_option bh_status (hm_get (gv_holds g) (bh_id (cr_hold r))) = Some Settled"
      "map_option (\<lambda>r. (rc_receipt r, rc_settlement_id r, rc_budget_charge r))
        (hm_get (gv_receipts g) (cl_id (cr_claim r))) = Some (?receipt, sid, sa_budget_charge a)"
      unfolding rec using rc by (simp_all add: tab d settlement_id_of_def finalized_token_def terminal_status_def)
    show ?thesis unfolding st'
      by (rule exI[of _ "cr_claim r"], rule exI[of _ "cr_token r"], rule exI[of _ "cr_hold r"],
          rule exI[of _ "cr_balance r"], rule exI[of _ "sa_budget_charge a"])
        (use rows ph exp new(2) va bal[unfolded closed_balance_def] after post in auto)
  qed
qed

section \<open>Coverage\<close>

text \<open>The decisions of the query's agent belong to the query's owner, and so does the budget.\<close>

definition agent_of_owner :: "'j governance \<Rightarrow> budget_ledger_query \<Rightarrow> bool" where
  "agent_of_owner g query \<longleftrightarrow>
     (\<exists>b. hm_get (gv_budgets g) (bq_budget_id query) = Some b \<and> bu_agent_id b = bq_agent_id query)
     \<and> (\<forall>i d. hm_get (gv_decisions g) i = Some d \<and> sr_agent_id (sd_request d) = bq_agent_id query \<longrightarrow>
          sd_owner_user_id d = bq_owner_user_id query)"

definition coverage_gap :: "'j governance \<Rightarrow> budget_ledger_query \<Rightarrow> int" where
  "coverage_gap g query = consumed_total g (bq_budget_id query) - recorded_total (gv_ledger g) query"

definition covered :: "budget_ledger_query \<Rightarrow> int \<Rightarrow> 'j service \<Rightarrow> bool" where
  "covered query gap s \<longleftrightarrow> agent_of_owner (sv_store s) query \<and> coverage_gap (sv_store s) query = gap"

lemma coveredI:
  assumes "covered query gap s"
    and "gv_decisions (sv_store s') = gv_decisions (sv_store s)" and "gv_budgets (sv_store s') = gv_budgets (sv_store s)"
    and "consumed_total (sv_store s') (bq_budget_id query) - consumed_total (sv_store s) (bq_budget_id query)
       = recorded_total (gv_ledger (sv_store s')) query - recorded_total (gv_ledger (sv_store s)) query"
  shows "covered query gap s'"
  using assms unfolding covered_def agent_of_owner_def coverage_gap_def by auto

lemma consumed_total_insert:
  assumes "gv_balances g' = hm_insert i bal (gv_balances g)" and "hm_get (gv_balances g) i = Some old"
  shows "consumed_total g' bid - consumed_total g bid
    = (if bid = i then units (bal_consumed_amount bal) - units (bal_consumed_amount old) else 0)"
  using assms by (simp add: consumed_total_def)

text \<open>A settlement raises both sides by its charge.\<close>

lemma finalization_covered:
  fixes env :: "'j governance_env"
  assumes inv: "service_inv s" and ty: "action_well_typed action"
    and run: "finalize_executor_claim env ids owner locator action authority at (sv_store s) = Inr (fr, g)"
    and cov: "covered query gap s"
  shows "covered query gap (install_finalization fr g s)"
  using inv run
proof (cases rule: finalize_service_cases)
  case (replay c t h bal)
  then show ?thesis using cov by (simp add: install_finalization_def covered_def)
next
  case (new r amounts)
  note rows = new(1)[unfolded open_claim_def] and d = finalizes_claimD[OF new(5)] and tab = finalizes_claim_tables[OF new(5)]
  have st: "sv_store (install_finalization fr g s) = g" by (simp add: install_finalization_def)
  have con: "consumed_total g bid - consumed_total (sv_store s) bid
      = (if bid = bh_budget_id (cr_hold r) then units (charge_of amounts) else 0)" for bid
    using rows consumed_total_insert[OF tab(7), of "cr_balance r" bid] by (simp add: d(7) closed_balance_def)
  show ?thesis
  proof (rule coveredI[OF cov]; unfold st)
    show "consumed_total g (bq_budget_id query) - consumed_total (sv_store s) (bq_budget_id query)
       = recorded_total (gv_ledger g) query - recorded_total (gv_ledger (sv_store s)) query"
    proof (cases action)
      case ReleaseAction
      with new(5) have "gv_ledger g = gv_ledger (sv_store s)" "charge_of amounts = Amount 0"
        by (auto simp: finalizes_claim_def Let_def settlement_amounts_of_def charge_of_def)
      with con show ?thesis by simp
    next
      case (SettleAction sid receipt)
      obtain a request and g1 :: "'j governance" where a: "amounts = Some a"
        and req: "settlement_request g1 (cl_id (cr_claim r)) (bh_id (cr_hold r)) sid = Some request"
        and g1: "gv_decisions g1 = gv_decisions (sv_store s)" "gv_budgets g1 = gv_budgets (sv_store s)"
          "gv_claims g1 = gv_claims g" "gv_holds g1 = gv_holds g"
        and led: "recorded_total (gv_ledger g) query = recorded_total (gv_ledger (sv_store s)) query
           + (if cl_owner_user_id (cr_claim r) = bq_owner_user_id query \<and> bq_agent_id query = cl_agent_id (cr_claim r)
                 \<and> bq_budget_id query = bh_budget_id (cr_hold r)
              then units (sa_budget_charge a) else 0)"
        by (rule settlement_posting[OF inv new(5)[unfolded SettleAction]]) blast
      have "hm_get (gv_claims g1) (cl_id (cr_claim r)) = Some (fr_claim fr)"
        "hm_get (gv_holds g1) (bh_id (cr_hold r)) = Some (fr_hold fr)" by (simp_all add: g1 tab)
      with req obtain b dc i where b: "hm_get (gv_budgets (sv_store s)) (bh_budget_id (cr_hold r)) = Some b"
          "bu_agent_id b = cl_agent_id (cr_claim r)"
        and dc: "hm_get (gv_decisions (sv_store s)) i = Some dc" "sd_owner_user_id dc = cl_owner_user_id (cr_claim r)"
          "sr_agent_id (sd_request dc) = cl_agent_id (cr_claim r)"
        by (auto simp: settlement_request_def d(4,6) g1 split: if_splits bind_splits)
      have "cl_owner_user_id (cr_claim r) = bq_owner_user_id query \<and> bq_agent_id query = cl_agent_id (cr_claim r)"
        if "bq_budget_id query = bh_budget_id (cr_hold r)"
        using that cov b dc unfolding covered_def agent_of_owner_def by auto
      then show ?thesis using con led by (auto simp: charge_of_def a)
    qed
  qed (simp_all add: tab)
qed

lemma claim_covered:
  assumes "service_inv s" and "hm_get (gv_claims (sv_store s)) (xi_claim_id inputs) = None"
    and "claim_executor_spend env inputs request s = (res, s')" and cov: "covered query gap s"
  shows "covered query gap s'"
  using new_claim_tables[OF assms(1-3)]
proof (elim disjE exE conjE)
  assume "s' = s"
  with cov show ?thesis by simp
next
  fix c h h' journal
  assume s': "sv_store s' = (sv_store s)\<lparr>gv_claims := hm_insert (cl_id c) c (gv_claims (sv_store s)),
             gv_holds := hm_insert (bh_id h) h' (gv_holds (sv_store s)), gv_journal := journal\<rparr>"
  show ?thesis by (rule coveredI[OF cov]) (simp_all add: s' consumed_total_def)
qed

lemma void_covered:
  assumes inv: "service_inv s" and cov: "covered query gap s"
    and run: "void_unclaimed_authorization env now owner account tid key (sv_store s) = Inr (r, g)"
  shows "covered query gap (install_void r g s)"
  using inv run
proof (cases rule: void_cases)
  case (replay t h bal)
  then show ?thesis using cov by (simp add: covered_def install_void_def)
next
  case (new t h bal voids journal)
  have st: "sv_store (install_void r g s) = g" by (simp add: install_void_def)
  note b = checked_finalization_balance(1)[OF new(11)]
  have tab: "gv_balances g = hm_insert (bal_budget_id bal) (av_balance r) (gv_balances (sv_store s))"
    by (simp add: new(12) b closed_balance_def)
  have hm: "hm_get (budget_holds (sv_budgets s)) (bh_id h) = Some h"
    using new(3) by (simp add: coherentD(7)[OF service_invD(3)[OF inv]])
  have "bal_budget_id bal = bh_budget_id h"
    using budget_inv_hold_account[OF service_invD(2)[OF inv] hm] new(7)
    by (metis coherentD(6)[OF service_invD(3)[OF inv]] option.inject)
  with new(7) have con: "consumed_total g (bq_budget_id query) - consumed_total (sv_store s) (bq_budget_id query)
      = (if bq_budget_id query = bal_budget_id bal
         then units (bal_consumed_amount (av_balance r)) - units (bal_consumed_amount bal) else 0)"
    by (intro consumed_total_insert[OF tab]) simp
  have con0: "units (bal_consumed_amount (av_balance r)) = units (bal_consumed_amount bal)"
    by (simp add: b closed_balance_def charge_of_def)
  have "consumed_total g (bq_budget_id query) = consumed_total (sv_store s) (bq_budget_id query)"
    using con con0 by (simp split: if_splits)
  moreover have "gv_decisions g = gv_decisions (sv_store s)" "gv_budgets g = gv_budgets (sv_store s)"
    "gv_ledger g = gv_ledger (sv_store s)" by (simp_all add: new(12))
  ultimately show ?thesis by (intro coveredI[OF cov]; unfold st) simp_all
qed

lemma service_step_covered:
  assumes "service_step env s s'" and inv: "service_inv s" and cov: "covered query gap s"
  shows "covered query gap s'"
  using assms(1)
proof (cases rule: service_step_cases)
  case same
  with cov show ?thesis by simp
next
  case (claim inputs request res)
  then show ?thesis using claim_covered[OF inv] cov by blast
next
  case (finalize ids owner locator action authority at fr g)
  then show ?thesis using finalization_covered[OF inv _ _ cov] by blast
next
  case (void now owner account tid key r g)
  then show ?thesis using void_covered[OF inv cov] by blast
qed

text \<open>
  C6: the ledger covers what executors consume. For a budget whose agent's decisions all belong to the
  owner who asks, the consumption the report cannot account for by ledger transactions is the same before
  and after any sequence of executor operations: what they charge to the budget is exactly what they post.
\<close>

theorem coverage_invariant:
  assumes "(service_step env)\<^sup>*\<^sup>* s s'" and "service_inv s" and "agent_of_owner (sv_store s) query"
    and "query_budget_ledger query (sv_store s) = Inr report"
    and "query_budget_ledger query (sv_store s') = Inr report'"
  shows "br_unaccounted_consumption report' = br_unaccounted_consumption report
    \<and> units (br_consumed_amount report') - units (br_consumed_amount report)
      = units (br_recorded_budget_charges report') - units (br_recorded_budget_charges report)"
proof -
  have "covered query (coverage_gap (sv_store s) query) s" using assms(3) by (simp add: covered_def)
  from executor.steps_stable[where P = "covered query (coverage_gap (sv_store s) query)",
      OF assms(1,2) this service_step_covered]
  have "coverage_gap (sv_store s') query = coverage_gap (sv_store s) query" by (simp add: covered_def)
  then show ?thesis
    using query_budget_ledger_ok(1-3)[OF assms(4)] query_budget_ledger_ok(1-3)[OF assms(5)]
    by (intro conjI amount.expand) (simp_all add: coverage_gap_def)
qed

end
