(* ===== verification/Budget_Theorems.thy ===== *)
theory Budget_Theorems
  imports Budget_Machine
begin

text \<open>
  The theorems about the budget state machine, stated over the operations of
  \<^verbatim>\<open>crates/hubu-core/src/budget/state.rs\<close>, and a small worked run of the machine on which each of
  them is evaluated.
\<close>

section \<open>A worked run\<close>

definition example_inputs :: creation_inputs where
  "example_inputs = \<lparr>ci_budget_id = BudgetId 1, ci_version_id = BudgetVersionId 2, ci_now = 100,
     ci_fingerprint = (\<lambda>_ _ _ _. ''sha256:0'')\<rparr>"

definition example_period :: time_period where
  "example_period = \<lparr>starting_at = 50, ending_before = Some 1000\<rparr>"

definition example_create_request :: create_single_budget_request where
  "example_create_request = \<lparr>cr_agent_id = AgentId 7, cr_amount_limit = Amount 5000,
     cr_currency = Usd, cr_period = example_period\<rparr>"

definition example_provenance :: budget_version_provenance where
  "example_provenance = \<lparr>bp_actor = ''admin'', bp_source = ''cli'', bp_reason = None\<rparr>"

definition example_reserve_request :: reserve_budget_request where
  "example_reserve_request = \<lparr>rq_budget_id = BudgetId 1, rq_spend_decision_id = SpendDecisionId 3,
     rq_amount = Amount 1200, rq_currency = Usd, rq_expires_at = 400\<rparr>"

definition example_created :: budget_state where
  "example_created = snd (create_single_budget_with_provenance example_inputs example_create_request
     example_provenance budget_state_new)"

definition example_reserved :: budget_state where
  "example_reserved = snd (reserve_budget_at (BudgetHoldId 4) example_reserve_request 120 example_created)"

lemma example_created_reachable: "budget_reachable False example_created"
proof (rule reach_step[OF reach_new], rule step_create)
  show "create_single_budget_with_provenance example_inputs example_create_request example_provenance
      budget_state_new = (fst (create_single_budget_with_provenance example_inputs
        example_create_request example_provenance budget_state_new), example_created)"
    by (simp add: example_created_def)
qed (code_simp)+

lemma example_reserved_reachable: "budget_reachable False example_reserved"
proof (rule reach_step[OF example_created_reachable], rule step_reserve)
  show "reserve_budget_at (BudgetHoldId 4) example_reserve_request 120 example_created =
      (fst (reserve_budget_at (BudgetHoldId 4) example_reserve_request 120 example_created),
       example_reserved)"
    by (simp add: example_reserved_def)
qed (code_simp)+

section \<open>Conservation and solvency\<close>

lemma frozen_total_filter:
  "frozen_total s bid = (\<Sum>h\<leftarrow>filter (\<lambda>h. hold_active h \<and> bh_budget_id h = bid)
      (hm_values (budget_holds s)). units (bh_amount h))"
  by (simp add: frozen_total_def hold_weight_def[abs_def] sum_list_map_filter')

lemma reachable_balance_ok:
  assumes "budget_reachable overruns s" and "get_budget_by_id s bid = Some w"
  shows "balance_ok (bv_amount_limit (bwb_version w)) (frozen_total s bid) (bwb_balance w)"
proof -
  have inv: "budget_inv s" by (rule reachable_inv[OF assms(1)])
  from assms(2) obtain b where b: "hm_get (budgets s) bid = Some b"
    by (auto simp: get_budget_by_id_def budget_with_balance_of_def bind_eq_Some_conv)
  show ?thesis using get_budget_by_id_inv[OF inv b] assms(2) by fastforce
qed

text \<open>
  C1: in every reachable state each budget balances exactly: the limit of its current version is the
  sum of the consumed, frozen and remaining amounts, and the frozen amount is the sum of the amounts
  of its frozen and claimed holds.
\<close>

theorem budget_conservation:
  assumes "budget_reachable overruns s" and "get_budget_by_id s bid = Some w"
  shows "units (bv_amount_limit (bwb_version w))
      = units (bal_consumed_amount (bwb_balance w)) + units (bal_frozen_amount (bwb_balance w))
        + units (bal_remaining_amount (bwb_balance w))
    \<and> units (bal_frozen_amount (bwb_balance w))
      = (\<Sum>h\<leftarrow>filter (\<lambda>h. hold_active h \<and> bh_budget_id h = bid) (hm_values (budget_holds s)).
          units (bh_amount h))
    \<and> 0 \<le> units (bal_consumed_amount (bwb_balance w)) \<and> 0 \<le> units (bal_frozen_amount (bwb_balance w))"
  using reachable_balance_ok[OF assms] frozen_total_nonneg[OF reachable_inv[OF assms(1)], of bid]
  by (simp add: balance_ok_def frozen_total_filter)

lemma example_reserved_get:
  "get_budget_by_id example_reserved (BudgetId 1) =
     Some (the (get_budget_by_id example_reserved (BudgetId 1)))"
  by code_simp

theorem budget_conservation_witness:
  "units (bal_frozen_amount (bwb_balance (the (get_budget_by_id example_reserved (BudgetId 1)))))
     = (\<Sum>h\<leftarrow>filter (\<lambda>h. hold_active h \<and> bh_budget_id h = BudgetId 1)
          (hm_values (budget_holds example_reserved)). units (bh_amount h))"
  using budget_conservation[OF example_reserved_reachable example_reserved_get] by blast

text \<open>
  C26: unless a finalization charges more than its hold, no budget is ever overspent: the remaining
  balance of every budget in every reachable state is non-negative, so consumed and frozen together
  never exceed the limit.
\<close>

theorem budget_never_overspent:
  assumes "budget_reachable False s" and "get_budget_by_id s bid = Some w"
  shows "0 \<le> units (bal_remaining_amount (bwb_balance w))
    \<and> units (bal_consumed_amount (bwb_balance w)) + units (bal_frozen_amount (bwb_balance w))
        \<le> units (bv_amount_limit (bwb_version w))"
proof -
  have "hm_get (budget_balances s) bid = Some (bwb_balance w)"
    using assms(2) by (auto simp: get_budget_by_id_def budget_with_balance_of_def bind_eq_Some_conv)
  with reachable_solvent[OF assms(1)] have "0 \<le> units (bal_remaining_amount (bwb_balance w))"
    by (auto simp: solvent_def)
  with reachable_balance_ok[OF assms] show ?thesis by (simp add: balance_ok_def)
qed

theorem budget_never_overspent_witness:
  "0 \<le> units (bal_remaining_amount (bwb_balance (the (get_budget_by_id example_reserved (BudgetId 1)))))"
  using budget_never_overspent[OF example_reserved_reachable example_reserved_get] by blast

section \<open>Selecting the available budget\<close>

lemma active_not_revoked_now:
  assumes "evaluate_budget_availability b v bal now = Inr AvailActive"
  shows "bu_administrative_state b \<noteq> AdminRevoked" and "period_contains (bu_period b) now"
  using assms
  by (cases "ending_before (bu_period b)";
      auto simp: evaluate_budget_availability_def res_simps period_contains_def split: if_splits)+

lemma common_instant_overlap:
  "period_contains p t \<Longrightarrow> period_contains q t \<Longrightarrow> periods_overlap p q"
  by (cases "ending_before p"; cases "ending_before q")
    (auto simp: period_contains_def periods_overlap_def)

lemma get_budget_by_id_Some:
  assumes "get_budget_by_id s bid = Some w"
  shows "hm_get (budgets s) bid = Some (bwb_budget w)"
    and "hm_get (budget_versions s) (bu_current_version_id (bwb_budget w)) = Some (bwb_version w)"
    and "hm_get (budget_balances s) bid = Some (bwb_balance w)"
  using assms by (auto simp: get_budget_by_id_def budget_with_balance_of_def bind_eq_Some_conv)

lemma available_budget_unique:
  assumes inv: "budget_inv s"
    and w: "get_budget_by_id s i = Some w" "availability_at w now = Inr AvailActive"
    and u: "get_budget_by_id s j = Some u" "availability_at u now = Inr AvailActive"
    and same: "bu_agent_id (bwb_budget w) = bu_agent_id (bwb_budget u)"
      "bu_currency (bwb_budget w) = bu_currency (bwb_budget u)"
  shows "i = j"
proof (rule ccontr)
  assume "i \<noteq> j"
  have "rival_budgets (bwb_budget w) (bwb_budget u)"
    using active_not_revoked_now[OF w(2)[unfolded availability_at_def]]
      active_not_revoked_now[OF u(2)[unfolded availability_at_def]] same
    by (auto simp: rival_budgets_def intro: common_instant_overlap)
  moreover have "no_overlap s" using inv by (simp add: budget_inv_def)
  ultimately show False
    using \<open>i \<noteq> j\<close> get_budget_by_id_Some(1)[OF w(1)] get_budget_by_id_Some(1)[OF u(1)]
    unfolding no_overlap_def by blast
qed

lemma evaluate_all_ok:
  "\<forall>w\<in>set ws. \<exists>a. availability_at w now = Inr a \<Longrightarrow>
   evaluate_all ws now = Inr (map (\<lambda>w. \<lparr>eb_current = w,
     eb_availability = projr (availability_at w now), eb_evaluated_at = now\<rparr>) ws)"
  by (induction ws) (auto simp: evaluate_snapshot_def evaluate_at_def res_simps)

lemma agent_budgets:
  assumes inv: "budget_inv s"
  shows "w \<in> set (get_budgets_by_agent_id s agent) \<longleftrightarrow>
    (\<exists>bid. get_budget_by_id s bid = Some w \<and> bu_agent_id (bwb_budget w) = agent)"
proof -
  have "agent_index_ok s" using inv by (simp add: budget_inv_def)
  then have idx: "(\<exists>l. hm_get (budget_ids_by_agent_id s) agent = Some l \<and> bid \<in> set l)
      \<longleftrightarrow> (\<exists>b. hm_get (budgets s) bid = Some b \<and> bu_agent_id b = agent)" for bid
    unfolding agent_index_ok_def by blast
  have "w \<in> set (get_budgets_by_agent_id s agent) \<longleftrightarrow>
    (\<exists>bid. (\<exists>l. hm_get (budget_ids_by_agent_id s) agent = Some l \<and> bid \<in> set l)
       \<and> get_budget_by_id s bid = Some w)"
    by (auto simp: get_budgets_by_agent_id_def budgets_with_balances_def List.map_filter_def
        image_iff split: option.splits) force+
  also have "\<dots> \<longleftrightarrow> (\<exists>bid. get_budget_by_id s bid = Some w \<and> bu_agent_id (bwb_budget w) = agent)"
    unfolding idx using get_budget_by_id_Some(1) by fastforce
  finally show ?thesis .
qed

lemma available_budget_eq:
  assumes inv: "budget_inv s"
  shows "available_budget_id_for_agent_at s agent cur now =
    Inr (map_option (\<lambda>w. bu_id (bwb_budget w))
      (find (\<lambda>w. bu_currency (bwb_budget w) = cur \<and> availability_at w now = Inr AvailActive)
        (get_budgets_by_agent_id s agent)))"
proof -
  let ?ws = "get_budgets_by_agent_id s agent"
  have def: "\<forall>w\<in>set ?ws. \<exists>a. availability_at w now = Inr a"
    using agent_budgets[OF inv] availability_defined[OF inv] by blast
  have "find (\<lambda>e. bu_currency (bwb_budget (eb_current e)) = cur \<and> allows_reservation (eb_availability e))
      (map (\<lambda>w. \<lparr>eb_current = w, eb_availability = projr (availability_at w now), eb_evaluated_at = now\<rparr>) ws)
    = map_option (\<lambda>w. \<lparr>eb_current = w, eb_availability = projr (availability_at w now), eb_evaluated_at = now\<rparr>)
      (find (\<lambda>w. bu_currency (bwb_budget w) = cur \<and> availability_at w now = Inr AvailActive) ws)"
    if "\<forall>w\<in>set ws. \<exists>a. availability_at w now = Inr a" for ws
    using that by (induction ws) (auto simp: allows_reservation_def)
  from this[OF def] show ?thesis
    by (simp add: available_budget_id_for_agent_at_def get_evaluated_budgets_by_agent_id_def
        evaluate_all_ok[OF def] and_then_def option.map_comp comp_def)
qed

text \<open>
  the budget that is offered to an agent. In every reachable state the lookup never fails, and it
  answers a budget identifier exactly when that budget belongs to the agent, has the currency and is
  available for reservations at that instant. There is never more than one such budget, so the
  answer does not depend on the order of the index.
\<close>

theorem available_budget_exact:
  assumes "budget_reachable overruns s"
  shows "\<exists>r. available_budget_id_for_agent_at s agent cur now = Inr r
    \<and> (\<forall>bid. r = Some bid \<longleftrightarrow>
         (\<exists>w. get_budget_by_id s bid = Some w \<and> bu_agent_id (bwb_budget w) = agent
            \<and> bu_currency (bwb_budget w) = cur \<and> availability_at w now = Inr AvailActive))"
proof -
  have inv: "budget_inv s" by (rule reachable_inv[OF assms])
  let ?P = "\<lambda>w. bu_currency (bwb_budget w) = cur \<and> availability_at w now = Inr AvailActive"
  let ?f = "find ?P (get_budgets_by_agent_id s agent)"
  have id: "bu_id (bwb_budget w) = bid" if "get_budget_by_id s bid = Some w" for bid w
    using budget_inv_budget[OF inv get_budget_by_id_Some(1)[OF that]] by (simp add: budget_entry_ok_def)
  have "map_option (\<lambda>w. bu_id (bwb_budget w)) ?f = Some bid \<longleftrightarrow>
     (\<exists>w. get_budget_by_id s bid = Some w \<and> bu_agent_id (bwb_budget w) = agent \<and> ?P w)" for bid
  proof (cases ?f)
    case None
    then have "\<not> ?P w" if "w \<in> set (get_budgets_by_agent_id s agent)" for w
      using that unfolding find_None_iff by blast
    with None agent_budgets[OF inv] show ?thesis by auto
  next
    case (Some u)
    then have "u \<in> set (get_budgets_by_agent_id s agent)" "?P u" by (auto simp: find_Some_iff)
    then obtain j where j: "get_budget_by_id s j = Some u" "bu_agent_id (bwb_budget u) = agent"
      using agent_budgets[OF inv] by blast
    with id Some \<open>?P u\<close> available_budget_unique[OF inv] show ?thesis by fastforce
  qed
  then show ?thesis using available_budget_eq[OF inv] by blast
qed

theorem available_budget_exact_witness:
  "available_budget_id_for_agent_at example_created (AgentId 7) Usd 200 = Inr (Some (BudgetId 1))
   \<and> (\<exists>w. get_budget_by_id example_created (BudgetId 1) = Some w \<and> bu_agent_id (bwb_budget w) = AgentId 7
        \<and> bu_currency (bwb_budget w) = Usd \<and> availability_at w 200 = Inr AvailActive)"
proof -
  have "available_budget_id_for_agent_at example_created (AgentId 7) Usd 200 = Inr (Some (BudgetId 1))"
    by code_simp
  with available_budget_exact[OF example_created_reachable, of "AgentId 7" Usd 200] show ?thesis by auto
qed

section \<open>Reservations\<close>

definition reservable :: "budget_state \<Rightarrow> reserve_budget_request \<Rightarrow> instant \<Rightarrow> bool" where
  "reservable s req now \<longleftrightarrow>
     0 < units (rq_amount req)
     \<and> get_budget_hold_by_spend_decision s (rq_spend_decision_id req) = None
     \<and> (case get_budget_by_id s (rq_budget_id req) of
          None \<Rightarrow> False
        | Some w \<Rightarrow> availability_at w now = Inr AvailActive
            \<and> bu_currency (bwb_budget w) = rq_currency req
            \<and> units (rq_amount req) \<le> units (bal_remaining_amount (bwb_balance w)))"

lemma decision_free_iff:
  assumes "budget_inv s"
  shows "get_budget_hold_by_spend_decision s d = None \<longleftrightarrow> hm_get (hold_id_by_spend_decision s) d = None"
  using budget_inv_decision[OF assms, of d]
  by (auto simp: get_budget_hold_by_spend_decision_def get_budget_hold_def split: bind_splits)

lemma reservable_succeeds:
  assumes inv: "budget_inv s" and r: "reservable s req now"
  shows "\<exists>r s'. reserve_budget_at fid req now s = (Inr r, s')"
proof -
  from r obtain w where w: "get_budget_by_id s (rq_budget_id req) = Some w"
    and a: "availability_at w now = Inr AvailActive" "bu_currency (bwb_budget w) = rq_currency req"
      "\<not> bal_remaining_amount (bwb_balance w) < rq_amount req"
    and pos: "\<not> rq_amount req \<le> ZERO"
    and d: "hm_get (hold_id_by_spend_decision s) (rq_spend_decision_id req) = None"
    by (auto simp: reservable_def decision_free_iff[OF inv] less_amount_def less_eq_amount_def
        ZERO_def split: option.splits)
  show ?thesis
  proof (cases "fst (reserve_budget_at fid req now s)")
    case (Inr r)
    then show ?thesis by (metis prod.collapse)
  next
    case (Inl e)
    with w a pos d get_budget_by_id_Some[OF w] have "e = BalanceOverflow"
      by (auto simp: reserve_budget_at_def hm_contains_def allows_reservation_def Let_def
          split: option.splits)
    with Inl reserve_budget_at_no_overflow[OF inv, of fid req now] show ?thesis by simp
  qed
qed

lemma reserve_success_reservable:
  assumes inv: "budget_inv s" and run: "reserve_budget_at fid req now s = (Inr r, s')"
  shows "reservable s req now"
  using run by (elim reserve_budget_at_success)
    (simp add: reservable_def decision_free_iff[OF inv] get_budget_by_id_def
      budget_with_balance_of_def availability_at_def)

text \<open>
  C7: a reservation in a reachable state. It succeeds exactly when the amount is positive, the
  decision holds nothing yet, and the budget is available, has the currency and enough remaining
  money. On success the state is the old one but for three entries: the balance, in which exactly the
  amount moved from remaining to frozen, the new hold and its index under the decision; budgets,
  versions and every other entry are as before. On failure nothing changes, and the failure is never an
  arithmetic overflow.
\<close>

theorem reserve_exact:
  assumes "budget_reachable overruns s" and "get_budget_hold s fid = None"
  shows "case reserve_budget_at fid req now s of
      (Inl e, s') \<Rightarrow> \<not> reservable s req now \<and> s' = s \<and> e \<noteq> BalanceOverflow
    | (Inr r, s') \<Rightarrow> reservable s req now
        \<and> (\<exists>bal. get_budget_balance s (rq_budget_id req) = Some bal
             \<and> hr_balance r = reserved_balance bal (rq_amount req))
        \<and> (\<exists>b. hm_get (budgets s) (rq_budget_id req) = Some b
             \<and> hr_hold r = reserved_hold fid req now (bu_current_version_id b))
        \<and> bh_status (hr_hold r) = Frozen \<and> bh_amount (hr_hold r) = rq_amount req
        \<and> get_budget_hold_by_spend_decision s' (rq_spend_decision_id req) = Some (hr_hold r)
        \<and> (\<forall>bid. get_budget_balance s' bid =
             (if bid = rq_budget_id req then Some (hr_balance r) else get_budget_balance s bid))
        \<and> (\<forall>hid. get_budget_hold s' hid =
             (if hid = fid then Some (hr_hold r) else get_budget_hold s hid))
        \<and> s' = s\<lparr>budget_balances := hm_insert (rq_budget_id req) (hr_balance r) (budget_balances s),
             hold_id_by_spend_decision := hm_insert (rq_spend_decision_id req) fid (hold_id_by_spend_decision s),
             budget_holds := hm_insert fid (hr_hold r) (budget_holds s)\<rparr>"
proof -
  have inv: "budget_inv s" by (rule reachable_inv[OF assms(1)])
  obtain res s' where run: "reserve_budget_at fid req now s = (res, s')" by (cases "reserve_budget_at fid req now s")
  show ?thesis
  proof (cases res)
    case (Inl e)
    with run have "\<not> reservable s req now" using reservable_succeeds[OF inv, of req now fid] by auto
    moreover have "s' = s" using run Inl reserve_budget_at_error_state by blast
    moreover have "e \<noteq> BalanceOverflow" using reserve_budget_at_no_overflow[OF inv, of fid req now] run Inl by auto
    ultimately show ?thesis using run Inl by simp
  next
    case (Inr r)
    have "reservable s req now" using reserve_success_reservable[OF inv] run Inr by blast
    moreover from run[unfolded Inr] have "(\<exists>b. hm_get (budgets s) (rq_budget_id req) = Some b
             \<and> hr_hold r = reserved_hold fid req now (bu_current_version_id b))"
    proof (rule reserve_budget_at_success)
      fix b v
      assume b: "hm_get (budgets s) (rq_budget_id req) = Some b"
        and v: "hm_get (budget_versions s) (bu_current_version_id b) = Some v"
        and h: "hr_hold r = reserved_hold fid req now (bv_id v)"
      have "bv_id v = bu_current_version_id b"
        using budget_inv_version[OF inv v] by simp
      then show ?thesis using b h by simp
    qed
    moreover from run[unfolded Inr] have "(\<exists>bal. get_budget_balance s (rq_budget_id req) = Some bal
             \<and> hr_balance r = reserved_balance bal (rq_amount req))
        \<and> bh_status (hr_hold r) = Frozen \<and> bh_amount (hr_hold r) = rq_amount req
        \<and> get_budget_hold_by_spend_decision s' (rq_spend_decision_id req) = Some (hr_hold r)
        \<and> (\<forall>bid. get_budget_balance s' bid =
             (if bid = rq_budget_id req then Some (hr_balance r) else get_budget_balance s bid))
        \<and> (\<forall>hid. get_budget_hold s' hid =
             (if hid = fid then Some (hr_hold r) else get_budget_hold s hid))"
      by (elim reserve_budget_at_success)
        (simp add: get_budget_balance_def get_budget_hold_def get_budget_hold_by_spend_decision_def
          reserved_hold_def)
    moreover from run[unfolded Inr] have "s' = s\<lparr>budget_balances := hm_insert (rq_budget_id req) (hr_balance r) (budget_balances s),
             hold_id_by_spend_decision := hm_insert (rq_spend_decision_id req) fid (hold_id_by_spend_decision s),
             budget_holds := hm_insert fid (hr_hold r) (budget_holds s)\<rparr>"
      by (elim reserve_budget_at_success) simp
    ultimately show ?thesis unfolding run Inr prod.case sum.case by blast
  qed
qed

theorem reserve_exact_witness:
  "reservable example_created example_reserve_request 120
   \<and> get_budget_hold_by_spend_decision example_reserved (SpendDecisionId 3) \<noteq> None"
proof -
  have free: "get_budget_hold example_created (BudgetHoldId 4) = None" by code_simp
  have "\<not> isl (fst (reserve_budget_at (BudgetHoldId 4) example_reserve_request 120 example_created))"
    by code_simp
  with reserve_exact[OF example_created_reachable free, of example_reserve_request 120] show ?thesis
    by (auto simp: example_reserved_def isl_def example_reserve_request_def split: prod.splits sum.splits)
qed

text \<open>
  C33: rolling back a reservation whose persistence failed restores the whole manager state, indexes
  included, to what it was before the reservation.
\<close>

theorem rollback_restores_state:
  assumes "budget_reachable overruns s" and "get_budget_hold s fid = None"
    and "get_budget_balance s (rq_budget_id req) = Some before"
    and "reserve_budget_at fid req now s = (Inr r, s')"
  shows "rollback_unpersisted_reservation (hr_hold r) before s' = s"
  using rollback_reservation[OF reachable_inv[OF assms(1)]] assms(2-4)
  by (simp add: get_budget_hold_def get_budget_balance_def)

definition example_hold :: budget_hold where
  "example_hold = reserved_hold (BudgetHoldId 4) example_reserve_request 120 (BudgetVersionId 2)"

lemma example_reserve_run:
  "reserve_budget_at (BudgetHoldId 4) example_reserve_request 120 example_created =
     (Inr \<lparr>hr_hold = example_hold, hr_balance = the (get_budget_balance example_reserved (BudgetId 1))\<rparr>,
      example_reserved)"
  by code_simp

theorem rollback_restores_state_witness:
  "rollback_unpersisted_reservation example_hold
     (the (get_budget_balance example_created (BudgetId 1))) example_reserved = example_created"
proof -
  have "get_budget_hold example_created (BudgetHoldId 4) = None" by code_simp
  moreover have "get_budget_balance example_created (rq_budget_id example_reserve_request)
    = Some (the (get_budget_balance example_created (BudgetId 1)))" by code_simp
  ultimately show ?thesis
    using rollback_restores_state[OF example_created_reachable _ _ example_reserve_run] by simp
qed

section \<open>Claims, settlements and the final states\<close>

text \<open>
  A claim is exclusive. Once an executor has claimed a hold, repeating its claim changes nothing
  and answers the same hold, and every other claimant is refused.
\<close>

theorem claim_exclusive:
  assumes "budget_reachable overruns s" and "claim_budget hid c expires now s = (Inr r, s')"
  shows "claim_budget hid c expires' later s' = (Inr r, s')
    \<and> (c' \<noteq> c \<longrightarrow> claim_budget hid c' expires' later s'
           = (Inl (InvalidBudgetHoldTransition CannotClaimNonFrozenHold), s'))"
proof -
  have inv: "budget_inv s" by (rule reachable_inv[OF assms(1)])
  from assms(2) obtain h where h: "hm_get (budget_holds s) hid = Some h"
    by (auto simp: claim_budget_def split: option.splits)
  obtain h' bal where
    h': "hold_claim h c expires now = Inr h'" and bal: "hm_get (budget_balances s) (bh_budget_id h) = Some bal"
    and r: "r = \<lparr>hr_hold = h', hr_balance = bal\<rparr>" "s' = s\<lparr>budget_holds := hm_insert hid h' (budget_holds s)\<rparr>"
    using claim_budget_eq[OF inv h, of c expires now] assms(2)
    by (cases "hold_claim h c expires now") auto
  note f = hold_claim_frame[OF h']
  have twice: "hm_insert hid h' (hm_insert hid h' (budget_holds s)) = hm_insert hid h' (budget_holds s)"
    by (rule hm_insert_triv) simp
  from f bal twice show ?thesis by (auto simp: r claim_budget_def hold_claim_def Let_def)
qed

theorem claim_exclusive_witness:
  "claim_budget (BudgetHoldId 4) (SpendExecutorClaimId 10) 800 140
     (snd (claim_budget (BudgetHoldId 4) (SpendExecutorClaimId 9) 800 130 example_reserved))
   = (Inl (InvalidBudgetHoldTransition CannotClaimNonFrozenHold),
      snd (claim_budget (BudgetHoldId 4) (SpendExecutorClaimId 9) 800 130 example_reserved))"
proof -
  let ?run = "claim_budget (BudgetHoldId 4) (SpendExecutorClaimId 9) 800 130 example_reserved"
  have "?run = (Inr (projr (fst ?run)), snd ?run)" by code_simp
  from claim_exclusive[OF example_reserved_reachable this, of 800 140 "SpendExecutorClaimId 10"]
  show ?thesis by simp
qed

text \<open>
  a settlement in a state without overruns. An expired hold is refused, then a charge that is
  negative or above the hold, then a hold that is no longer frozen or claimed; in every other case the
  settlement succeeds: the hold thaws, the charge is consumed and the difference returns to the
  remaining balance. A refused settlement changes nothing.
\<close>

theorem settle_exact:
  assumes "budget_reachable False s" and "get_budget_hold s hid = Some h"
    and "get_budget_balance s (bh_budget_id h) = Some bal"
  shows "if bh_expires_at h \<le> now then settle_budget hid charged now s = (Inl ExpiredBudgetHold, s)
    else if units charged < 0 \<or> units (bh_amount h) < units charged
    then settle_budget hid charged now s = (Inl ChargeExceedsHold, s)
    else if \<not> hold_active h then \<exists>e. settle_budget hid charged now s = (Inl e, s)
    else settle_budget hid charged now s =
      (Inr \<lparr>hr_hold = h\<lparr>bh_status := Settled, bh_updated_at := now\<rparr>,
            hr_balance = closed_balance bal (bh_amount h) charged\<rparr>,
       s\<lparr>budget_holds := hm_insert hid (h\<lparr>bh_status := Settled, bh_updated_at := now\<rparr>) (budget_holds s),
         budget_balances := hm_insert (bh_budget_id h) (closed_balance bal (bh_amount h) charged)
           (budget_balances s)\<rparr>)"
proof -
  have inv: "budget_inv s" by (rule reachable_inv[OF assms(1)])
  have h: "hm_get (budget_holds s) hid = Some h" and bal: "hm_get (budget_balances s) (bh_budget_id h) = Some bal"
    using assms(2,3) by (simp_all add: get_budget_hold_def get_budget_balance_def)
  have sol: "0 \<le> units (bal_remaining_amount bal)"
    using reachable_solvent[OF assms(1)] bal by (simp add: solvent_def)
  consider (expired) "bh_expires_at h \<le> now"
    | (charge) "now < bh_expires_at h" "units charged < 0 \<or> units (bh_amount h) < units charged"
    | (closed) "now < bh_expires_at h" "0 \<le> units charged" "units charged \<le> units (bh_amount h)" "\<not> hold_active h"
    | (ok) "now < bh_expires_at h" "0 \<le> units charged" "units charged \<le> units (bh_amount h)" "hold_active h"
    by linarith
  then show ?thesis
  proof cases
    case expired
    then show ?thesis by (simp add: settle_budget_def h)
  next
    case charge
    then show ?thesis by (auto simp: settle_budget_def h bal is_negative_def less_amount_def)
  next
    case closed
    have "settle_budget hid charged now s \<noteq> (Inr r, s')" for r s'
      using closed h by (auto elim!: settle_budget_success)
    then have "\<exists>e. settle_budget hid charged now s = (Inl e, s)"
      by (metis settle_budget_error_state old.prod.exhaust sum.exhaust)
    with closed show ?thesis by simp
  next
    case ok
    have "hold_settle h now = Inr (h\<lparr>bh_status := Settled, bh_updated_at := now\<rparr>)"
      using ok by (simp add: hold_settle_iff)
    moreover note close_ranges[OF inv h ok(4) bal ok(2,3)]
    ultimately show ?thesis
      using ok h bal sol
      by (simp add: settle_budget_def is_negative_def less_amount_def amount_checked_add_def
          amount_checked_sub_def checked_def closed_balance_def Let_def)
  qed
qed

theorem settle_exact_witness:
  "settle_budget (BudgetHoldId 4) (Amount 900) 200 example_reserved =
     (Inr \<lparr>hr_hold = example_hold\<lparr>bh_status := Settled, bh_updated_at := 200\<rparr>,
           hr_balance = \<lparr>bal_budget_id = BudgetId 1, bal_consumed_amount = Amount 900,
             bal_frozen_amount = Amount 0, bal_remaining_amount = Amount 4100\<rparr>\<rparr>,
      example_reserved
        \<lparr>budget_holds := hm_insert (BudgetHoldId 4)
           (example_hold\<lparr>bh_status := Settled, bh_updated_at := 200\<rparr>) (budget_holds example_reserved),
         budget_balances := hm_insert (BudgetId 1)
           \<lparr>bal_budget_id = BudgetId 1, bal_consumed_amount = Amount 900,
            bal_frozen_amount = Amount 0, bal_remaining_amount = Amount 4100\<rparr>
           (budget_balances example_reserved)\<rparr>)"
proof -
  have h: "get_budget_hold example_reserved (BudgetHoldId 4) = Some example_hold" by code_simp
  have f: "bh_budget_id example_hold = BudgetId 1" "bh_amount example_hold = Amount 1200"
    "bh_expires_at example_hold = 400" "hold_active example_hold" by code_simp+
  have b: "get_budget_balance example_reserved (bh_budget_id example_hold) =
    Some \<lparr>bal_budget_id = BudgetId 1, bal_consumed_amount = Amount 0, bal_frozen_amount = Amount 1200,
          bal_remaining_amount = Amount 3800\<rparr>" by code_simp
  from settle_exact[OF example_reserved_reachable h b, of 200 "Amount 900"] show ?thesis
    by (simp add: f closed_balance_def)
qed

text \<open>
  The expiry sweep. On every reachable state it succeeds and turns exactly the frozen holds whose
  expiry has passed into expired ones; every other hold (claimed ones included) is untouched and no
  budget's consumption changes.
\<close>

theorem expire_sweep_exact:
  assumes "budget_reachable overruns s"
  shows "\<exists>rs s'. expire_overdue_budget_holds now s = (Inr rs, s') \<and> same_consumption s s'
    \<and> (\<forall>hid. get_budget_hold s' hid =
          map_option (\<lambda>h. if bh_status h = Frozen \<and> bh_expires_at h \<le> now
                          then h\<lparr>bh_status := Expired, bh_updated_at := now\<rparr> else h)
            (get_budget_hold s hid))"
  using expire_overdue_effect[OF reachable_inv[OF assms], of now]
  unfolding get_budget_hold_def overdue_hold_def expired_hold_def by blast

theorem expire_sweep_exact_witness:
  "\<exists>rs s'. expire_overdue_budget_holds 400 example_reserved = (Inr rs, s')
     \<and> get_budget_hold s' (BudgetHoldId 4) = Some (example_hold\<lparr>bh_status := Expired, bh_updated_at := 400\<rparr>)"
proof -
  have h: "get_budget_hold example_reserved (BudgetHoldId 4) = Some example_hold" by code_simp
  have f: "bh_expires_at example_hold = 400" "bh_status example_hold = Frozen" by code_simp+
  obtain rs s' where run: "expire_overdue_budget_holds 400 example_reserved = (Inr rs, s')"
    and get: "\<forall>hid. get_budget_hold s' hid =
          map_option (\<lambda>h. if bh_status h = Frozen \<and> bh_expires_at h \<le> 400
                          then h\<lparr>bh_status := Expired, bh_updated_at := 400\<rparr> else h)
            (get_budget_hold example_reserved hid)"
    using expire_sweep_exact[OF example_reserved_reachable, of 400] by blast
  from get h f have "get_budget_hold s' (BudgetHoldId 4)
    = Some (example_hold\<lparr>bh_status := Expired, bh_updated_at := 400\<rparr>)" by simp
  with run show ?thesis by blast
qed

definition hold_evolves :: "budget_hold \<Rightarrow> budget_hold \<Rightarrow> bool" where
  "hold_evolves h h' \<longleftrightarrow> h' = h \<or> (hold_active h \<and> same_reservation h h')"

lemma hold_evolves_insert:
  assumes "hm_get hs hid = Some h" and "hm_get hs i = Some k"
    and "hold_active k \<and> same_reservation k k'"
  shows "\<exists>h'. hm_get (hm_insert i k' hs) hid = Some h' \<and> hold_evolves h h'"
  using assms by (auto simp: hold_evolves_def)

lemma hold_evolves_same: "hm_get hs hid = Some h \<Longrightarrow> \<exists>h'. hm_get hs hid = Some h' \<and> hold_evolves h h'"
  by (simp add: hold_evolves_def)

text \<open>
  C37: holds are never lost and their final states are final. Whatever step the manager takes, a hold
  keeps its identity, budget, version, decision, amount and currency, and once it is settled, released
  or expired it never changes again.
\<close>

theorem closed_holds_final:
  assumes "budget_reachable overruns s" and "budget_step overruns s s'" and "get_budget_hold s hid = Some h"
  shows "\<exists>h'. get_budget_hold s' hid = Some h' \<and> same_reservation h h' \<and> (\<not> hold_active h \<longrightarrow> h' = h)"
proof -
  have inv: "budget_inv s" by (rule reachable_inv[OF assms(1)])
  have h: "hm_get (budget_holds s) hid = Some h" using assms(3) by (simp add: get_budget_hold_def)
  have "\<exists>h'. hm_get (budget_holds s') hid = Some h' \<and> hold_evolves h h'"
    using assms(2)
  proof (cases rule: budget_step.cases)
    case (step_create ci req prov res)
    have "budget_holds s' = budget_holds s"
      using step_create(4) create_budget_error_state[of ci _ _ _ _ prov s _ s']
        create_budget_success(2)[of ci _ _ _ _ prov s _ s']
      by (cases res) (fastforce simp: create_single_budget_with_provenance_def)+
    then show ?thesis using hold_evolves_same[OF h] by simp
  next
    case (step_revoke bid now res)
    then have "budget_holds s' = budget_holds s"
      by (auto simp: revoke_budget_at_def Let_def split: option.splits if_splits)
    then show ?thesis using hold_evolves_same[OF h] by simp
  next
    case (step_reserve fid req now res)
    then have "hid \<noteq> fid" using h by auto
    with step_reserve h hold_evolves_same[OF h] show ?thesis
      by (cases res) (auto dest: reserve_budget_at_error_state elim!: reserve_budget_at_success)
  next
    case (step_reserve_rolled_back fid req before now r s1)
    then show ?thesis using rollback_reservation[OF inv] hold_evolves_same[OF h] by simp
  next
    case (step_claim i c expires now res)
    show ?thesis
    proof (cases "hm_get (budget_holds s) i")
      case None
      with step_claim hold_evolves_same[OF h] show ?thesis by (simp add: claim_budget_def)
    next
      case (Some k)
      show ?thesis
      proof (cases "hold_claim k c expires now")
        case (Inl e)
        with claim_budget_eq[OF inv Some, of c expires now] step_claim hold_evolves_same[OF h]
        show ?thesis by auto
      next
        case (Inr k')
        with claim_budget_eq[OF inv Some, of c expires now] step_claim
        have "budget_holds s' = hm_insert i k' (budget_holds s)" by auto
        with hold_claim_same[OF Inr] hold_claim_frame[OF Inr] show ?thesis
          using hold_evolves_insert[OF h Some] by simp
      qed
    qed
  next
    case (step_settle i charged now res)
    then show ?thesis using hold_evolves_same[OF h] hold_evolves_insert[OF h]
      by (cases res) (auto dest: settle_budget_error_state elim!: settle_budget_success)
  next
    case (step_release i now res)
    then show ?thesis using hold_evolves_same[OF h] hold_evolves_insert[OF h]
      by (cases res) (auto dest: release_budget_error_state elim!: release_budget_success)
  next
    case (step_expire now res)
    obtain rs where "\<forall>i. hm_get (budget_holds s') i =
          map_option (\<lambda>h. if overdue_hold now h then expired_hold now h else h) (hm_get (budget_holds s) i)"
      using expire_overdue_effect[OF inv, of now] step_expire by auto
    with h show ?thesis by (auto simp: hold_evolves_def overdue_hold_def hold_active_def)
  next
    case (step_finalize hold balance charged)
    then obtain k where k: "hm_get (budget_holds s) (bh_id hold) = Some k"
      and r: "hold_active k \<and> same_reservation k hold"
      by (auto simp: finalizes_def split: option.splits)
    from hold_evolves_insert[OF h k r] step_finalize(3) show ?thesis
      by (simp add: apply_persisted_finalization_def)
  qed
  then show ?thesis by (auto simp: get_budget_hold_def hold_evolves_def same_reservation_def)
qed

theorem closed_holds_final_witness:
  "\<exists>h'. get_budget_hold (snd (release_budget (BudgetHoldId 4) 150 example_reserved)) (BudgetHoldId 4) = Some h'
     \<and> same_reservation example_hold h'"
proof -
  have h: "get_budget_hold example_reserved (BudgetHoldId 4) = Some example_hold" by code_simp
  have "budget_step False example_reserved (snd (release_budget (BudgetHoldId 4) 150 example_reserved))"
    by (rule step_release[of "BudgetHoldId 4" 150 _ "fst (release_budget (BudgetHoldId 4) 150 example_reserved)"])
      simp
  from closed_holds_final[OF example_reserved_reachable this h] show ?thesis by blast
qed

section \<open>Creating budgets\<close>

definition overlaps_live_budget :: "budget_state \<Rightarrow> create_single_budget_request \<Rightarrow> bool" where
  "overlaps_live_budget s req \<longleftrightarrow>
     (\<exists>bid w. get_budget_by_id s bid = Some w
        \<and> bu_administrative_state (bwb_budget w) = AdminActive \<and> bu_agent_id (bwb_budget w) = cr_agent_id req
        \<and> bu_currency (bwb_budget w) = cr_currency req \<and> periods_overlap (bu_period (bwb_budget w)) (cr_period req))"

lemma overlaps_live_budget_iff:
  assumes inv: "budget_inv s"
  shows "has_overlapping_budget s (cr_agent_id req) (cr_currency req) (cr_period req)
    \<longleftrightarrow> overlaps_live_budget s req"
proof -
  have wf: "hm_wf (budgets s)" using inv by (simp add: budget_inv_def maps_wf_def)
  have adm: "st \<noteq> AdminRevoked \<longleftrightarrow> st = AdminActive" for st by (cases st) simp_all
  have ex: "\<exists>w. get_budget_by_id s bid = Some w \<and> bwb_budget w = b" if "hm_get (budgets s) bid = Some b" for bid b
    using get_budget_by_id_inv[OF inv that] by (metis budget_with_balance.select_convs(1))
  show ?thesis
    unfolding has_overlapping_budget_iff[OF wf] overlaps_live_budget_def adm
    by (rule iffI; elim exE conjE) (blast dest: ex get_budget_by_id_Some(1))+
qed

text \<open>
  Creating a budget in a reachable state, with identifiers not yet in use. The three refusals are
  tried in order (an overlapping budget of the same agent and currency that is not revoked, blank
  provenance, a limit that is not positive) and change nothing; otherwise the new budget starts active
  at revision one with its whole limit remaining, it becomes visible under its identifier and no other
  budget changes.
\<close>

theorem create_budget_exact:
  assumes "budget_reachable overruns s" and "hm_get (budgets s) (ci_budget_id ci) = None"
    and "hm_get (budget_versions s) (ci_version_id ci) = None"
  shows "case create_single_budget_with_provenance ci req prov s of
      (Inl e, s') \<Rightarrow> s' = s
        \<and> e = (if overlaps_live_budget s req then OverlappingBudgetPeriod
               else if is_blank (bp_actor prov) \<or> is_blank (bp_source prov)
               then MissingBudgetVersionProvenance
               else InvalidBudget AmountLimitMustBePositive)
    | (Inr w, s') \<Rightarrow> \<not> overlaps_live_budget s req \<and> 0 < units (cr_amount_limit req)
        \<and> \<not> is_blank (bp_actor prov) \<and> \<not> is_blank (bp_source prov)
        \<and> (\<forall>bid. get_budget_by_id s' bid = (if bid = ci_budget_id ci then Some w else get_budget_by_id s bid))
        \<and> bu_administrative_state (bwb_budget w) = AdminActive
        \<and> bu_agent_id (bwb_budget w) = cr_agent_id req \<and> bu_period (bwb_budget w) = cr_period req
        \<and> bv_revision (bwb_version w) = 1 \<and> bv_amount_limit (bwb_version w) = cr_amount_limit req
        \<and> bal_remaining_amount (bwb_balance w) = cr_amount_limit req
        \<and> bal_frozen_amount (bwb_balance w) = Amount 0 \<and> bal_consumed_amount (bwb_balance w) = Amount 0"
proof -
  have inv: "budget_inv s" by (rule reachable_inv[OF assms(1)])
  let ?ov = "has_overlapping_budget s (cr_agent_id req) (cr_currency req) (cr_period req)"
  obtain res s' where run: "create_single_budget_with_provenance ci req prov s = (res, s')"
    by (cases "create_single_budget_with_provenance ci req prov s")
  show ?thesis
  proof (cases res)
    case (Inl e)
    with run show ?thesis
      by (auto simp: create_single_budget_with_provenance_def create_budget_for_period_def
          build_budget_for_period_def budget_version_initial_def overlaps_live_budget_iff[OF inv]
          Let_def res_simps split: if_splits sum.splits)
  next
    case (Inr w)
    note made = create_budget_success[OF run[unfolded Inr create_single_budget_with_provenance_def]]
    note w = build_budget_success[OF made(3)]
    have ids: "bu_id (bwb_budget w) = ci_budget_id ci" "bu_current_version_id (bwb_budget w) = ci_version_id ci"
      by (simp_all add: w(1) budget_new_def)
    have get: "get_budget_by_id s' bid = (if bid = ci_budget_id ci then Some w else get_budget_by_id s bid)" for bid
      using assms(3) made(2) budget_inv_budget[OF inv, of bid]
      by (auto simp: get_budget_by_id_def budget_with_balance_of_def ids w(2-6) budget_entry_ok_def
          split: bind_splits)
    have prov: "\<not> is_blank (bp_actor prov)" "\<not> is_blank (bp_source prov)"
      using made(3) by (auto simp: build_budget_for_period_def split: if_splits)
    show ?thesis
      using run Inr made(1) get prov w by (simp add: overlaps_live_budget_iff[OF inv] budget_new_def ZERO_def)
  qed
qed

theorem create_budget_exact_witness:
  "get_budget_by_id example_created (BudgetId 1) \<noteq> None
   \<and> fst (create_single_budget_with_provenance (example_inputs\<lparr>ci_budget_id := BudgetId 8, ci_version_id := BudgetVersionId 9\<rparr>)
       example_create_request example_provenance example_created) = Inl OverlappingBudgetPeriod
   \<and> overlaps_live_budget example_created example_create_request"
proof -
  let ?ci = "example_inputs\<lparr>ci_budget_id := BudgetId 8, ci_version_id := BudgetVersionId 9\<rparr>"
  have f: "hm_get (budgets example_created) (ci_budget_id ?ci) = None"
    "hm_get (budget_versions example_created) (ci_version_id ?ci) = None" by code_simp+
  have r: "create_single_budget_with_provenance ?ci example_create_request example_provenance example_created
    = (Inl OverlappingBudgetPeriod, example_created)" by code_simp
  have "get_budget_by_id example_created (BudgetId 1) \<noteq> None" by code_simp
  with create_budget_exact[OF example_created_reachable f, of example_create_request example_provenance] r
  show ?thesis by (auto split: if_splits)
qed

section \<open>Hydration\<close>

text \<open>
  C32: hydration accepts only coherent records. Whatever records the store returns, if hydration
  succeeds then the accounting invariant holds for the rebuilt state: balances derive from the current
  limits and the active holds, holds are attributed to known budgets and versions, the decision index
  is exact and no two live budgets of one agent and currency overlap.
\<close>

theorem hydration_sound:
  assumes "from_records bs vs bals hs = Inr s" and "record_amounts_ok vs bals hs"
  shows "budget_inv s"
  by (rule from_records_inv[OF assms])

definition example_records_state :: budget_state where
  "example_records_state = projr (from_records (hm_values (budgets example_reserved))
     (hm_values (budget_versions example_reserved)) (hm_values (budget_balances example_reserved))
     (hm_values (budget_holds example_reserved)))"

lemma example_hydration:
  "from_records (hm_values (budgets example_reserved))
     (hm_values (budget_versions example_reserved)) (hm_values (budget_balances example_reserved))
     (hm_values (budget_holds example_reserved)) = Inr example_records_state"
  "record_amounts_ok (hm_values (budget_versions example_reserved))
     (hm_values (budget_balances example_reserved)) (hm_values (budget_holds example_reserved))"
  by code_simp+

theorem hydration_sound_witness: "budget_inv example_records_state"
  using hydration_sound[OF example_hydration] .

text \<open>
  In a hydrated state the version history of a budget is complete: sorted by revision it is exactly
  1, 2, ..., n with n the revision of the current version.
\<close>

theorem hydrated_revisions_complete:
  assumes "from_records bs vs bals hs = Inr s" and "record_amounts_ok vs bals hs"
    and "get_budget_by_id s bid = Some w"
  shows "map bv_revision (get_budget_versions_by_budget_id s bid) = [1..bv_revision (bwb_version w)]"
  using from_records_revisions[OF assms(1,2) get_budget_by_id_Some(1,2)[OF assms(3)]] .

theorem hydrated_revisions_complete_witness:
  "map bv_revision (get_budget_versions_by_budget_id example_records_state (BudgetId 1)) = [1]"
proof -
  let ?w = "the (get_budget_by_id example_records_state (BudgetId 1))"
  have "get_budget_by_id example_records_state (BudgetId 1) = Some ?w" by code_simp
  moreover have "bv_revision (bwb_version ?w) = 1" by code_simp
  ultimately show ?thesis using hydrated_revisions_complete[OF example_hydration] by fastforce
qed

end
