(* ===== verification/Executor_Examples.thy ===== *)
theory Executor_Examples
  imports Executor_Accounting Budget_Theorems Ledger_Theorems
begin

text \<open>
  A worked run of the executor service: a service whose managers were just loaded holds one authorized
  spend; an executor claims it and settles or releases it. Each theorem about the service is applied to it.
\<close>

section \<open>A service without claims\<close>

definition service_of ::
  "spend_manager \<Rightarrow> budget_state \<Rightarrow> (agent_account_id, account_row) hmap \<Rightarrow> ledger \<Rightarrow> 'j \<Rightarrow> 'j service" where
  "service_of sp bs accounts L journal =
     \<lparr>sv_spend = sp, sv_budgets = bs, sv_store =
        \<lparr>gv_decisions = decisions sp, gv_tokens = tokens sp, gv_claims = executor_claims sp, gv_receipts = hm_empty,
         gv_voids = hm_empty, gv_budgets = budgets bs, gv_versions = budget_versions bs,
         gv_balances = budget_balances bs, gv_holds = budget_holds bs, gv_accounts = accounts,
         gv_ledger = L, gv_journal = journal\<rparr>\<rparr>"

lemma service_of_inv:
  assumes sp: "spend_inv sp" and bs: "budget_inv bs" and L: "ledger_inv L"
    and claims: "executor_claims sp = hm_empty"
    and free: "\<And>i h. hm_get (budget_holds bs) i = Some h \<Longrightarrow> bh_executor_claim_id h = None"
  shows "service_inv (service_of sp bs accounts L journal)"
proof -
  have "links_inv (sv_store (service_of sp bs accounts L journal))"
    using free budget_inv_hold[OF bs]
    by (auto simp: links_inv_def service_of_def claims hold_linked_def hold_entry_ok_def)
  moreover have "tables_wf (sv_store (service_of sp bs accounts L journal))"
    using spend_invD(1)[OF sp] budget_inv_wf[OF bs]
    by (simp add: tables_wf_def service_of_def claims spend_maps_wf_def maps_wf_def)
  moreover have "coherent (service_of sp bs accounts L journal)"
    by (simp add: coherent_def service_of_def same_rows_def)
  ultimately show ?thesis using sp bs L by (simp add: service_inv_def service_of_def)
qed

section \<open>One authorized spend\<close>

definition service_create_request :: create_single_budget_request where
  "service_create_request = \<lparr>cr_agent_id = AgentId 7, cr_amount_limit = Amount 20000,
     cr_currency = Usd, cr_period = \<lparr>starting_at = 0, ending_before = None\<rparr>\<rparr>"

definition service_reserve_request :: reserve_budget_request where
  "service_reserve_request = \<lparr>rq_budget_id = BudgetId 1, rq_spend_decision_id = SpendDecisionId 1,
     rq_amount = Amount 5000, rq_currency = Usd, rq_expires_at = 400\<rparr>"

definition service_inputs :: creation_inputs where
  "service_inputs = \<lparr>ci_budget_id = BudgetId 1, ci_version_id = BudgetVersionId 2, ci_now = 5,
     ci_fingerprint = (\<lambda>_ _ _ _. ''sha256:0'')\<rparr>"

definition service_budgets_created :: budget_state where
  "service_budgets_created = snd (create_single_budget_with_provenance service_inputs service_create_request
     example_provenance budget_state_new)"

definition service_budgets :: budget_state where
  "service_budgets = snd (reserve_budget_at (BudgetHoldId 4) service_reserve_request 12 service_budgets_created)"

lemma service_budgets_created_reachable: "budget_reachable False service_budgets_created"
proof (rule reach_step[OF reach_new], rule step_create)
  show "create_single_budget_with_provenance service_inputs service_create_request example_provenance
      budget_state_new = (fst (create_single_budget_with_provenance service_inputs
        service_create_request example_provenance budget_state_new), service_budgets_created)"
    by (simp add: service_budgets_created_def)
qed (code_simp)+

lemma service_budgets_reachable: "budget_reachable False service_budgets"
proof (rule reach_step[OF service_budgets_created_reachable], rule step_reserve)
  show "reserve_budget_at (BudgetHoldId 4) service_reserve_request 12 service_budgets_created =
      (fst (reserve_budget_at (BudgetHoldId 4) service_reserve_request 12 service_budgets_created),
       service_budgets)"
    by (simp add: service_budgets_def)
qed (code_simp)+

definition example_service :: "unit service" where
  "example_service = service_of example_spend_state service_budgets
     (hm_insert (AgentAccountId 2) \<lparr>ac_agent_id = AgentId 7, ac_owner_user_id = UserId 1\<rparr> hm_empty) ledger_init ()"

definition example_env :: "unit governance_env" where
  "example_env = \<lparr>ge_show_payment_id = (\<lambda>_. ''pay''), ge_settlement_evidence = (\<lambda>_ _. ''{}''),
     ge_capture_claim = (\<lambda>_ _. Inr ()), ge_capture_finalization = (\<lambda>_ _. Inr ()),
     ge_capture_release = (\<lambda>_ _ _. Inr ())\<rparr>"

definition example_claim_inputs :: claim_inputs where
  "example_claim_inputs = \<lparr>xi_claim_id = SpendExecutorClaimId 9, xi_validated_at = 20, xi_prepared_at = 21,
     xi_held_at = 22, xi_stored_at = 23\<rparr>"

definition example_claim_request :: claim_executor_spend_request where
  "example_claim_request = \<lparr>xq_authorization = example_payment, xq_operation_key = '' op-1''\<rparr>"

definition example_claimed :: "unit service" where
  "example_claimed = snd (claim_executor_spend example_env example_claim_inputs example_claim_request example_service)"

definition example_receipt :: settlement_receipt where
  "example_receipt = \<lparr>sr_cost_basis = ProviderReported,
     sr_actual_vendor_cost = \<lparr>vc_amount = 31234567, vc_scale = 10, vc_currency = Usd\<rparr>,
     sr_provider_request_id = ''req-1'',
     sr_price_model_snapshot = JObject [(''provider'', JString ''acme''), (''model'', JString ''m-1''),
       (''currency'', JString ''usd'')],
     sr_artifact_reference = ''artifact''\<rparr>"

definition example_settle_request :: settle_claim_request where
  "example_settle_request = \<lparr>xs_owner_user_id = UserId 1, xs_agent_id = AgentId 7, xs_operation_key = ''op-1'',
     xs_receipt = example_receipt\<rparr>"

definition example_settle_ids :: pair_ids where
  "example_settle_ids = example_pair_ids 50"

definition example_settled :: "unit service" where
  "example_settled = snd (settle_claim example_env example_settle_ids (PaymentId 5) example_settle_request 30 example_claimed)"

definition example_claim :: spend_executor_claim_record where
  "example_claim = \<lparr>cl_id = SpendExecutorClaimId 9, cl_spend_auth_token_id = SpendAuthTokenId 2,
     cl_owner_user_id = UserId 1, cl_agent_id = AgentId 7, cl_operation_key = ''op-1'', cl_lease_profile = ''default'',
     cl_status = ClaimClaimed, cl_claimed_at = 21, cl_expires_at = 900000000021, cl_finalized_at = None,
     cl_settlement_id = None, cl_provider_reference = None, cl_reconciliation_evidence = None,
     cl_reconciled_at = None, cl_reconciled_by_user_id = None\<rparr>"

definition example_open :: claim_rows where
  "example_open = \<lparr>cr_claim = example_claim,
     cr_token = \<lparr>tk_id = SpendAuthTokenId 2, tk_owner_user_id = UserId 1, tk_spend_decision_id = SpendDecisionId 1,
       tk_expires_at = 300000000011, tk_claim_ttl_seconds = 900, tk_used_at = None, tk_used_by_payment_id = None,
       tk_revoked_at = None\<rparr>,
     cr_hold = \<lparr>bh_id = BudgetHoldId 4, bh_budget_id = BudgetId 1, bh_budget_version_id = BudgetVersionId 2,
       bh_spend_decision_id = SpendDecisionId 1, bh_amount = Amount 5000, bh_currency = Usd, bh_status = Claimed,
       bh_executor_claim_id = Some (SpendExecutorClaimId 9), bh_created_at = 12, bh_updated_at = 22,
       bh_expires_at = 900000000021\<rparr>,
     cr_balance = \<lparr>bal_budget_id = BudgetId 1, bal_consumed_amount = Amount 0, bal_frozen_amount = Amount 5000,
       bal_remaining_amount = Amount 15000\<rparr>\<rparr>"

definition example_decision :: spend_decision_record where
  "example_decision = \<lparr>sd_id = SpendDecisionId 1, sd_owner_user_id = UserId 1, sd_operation_key = ''op-1'',
     sd_revision = 1, sd_actor = ''u'',
     sd_request = \<lparr>sr_amount = Amount 5000, sr_currency = Usd, sr_owner_user_id = UserId 1, sr_agent_id = AgentId 7,
       sr_agent_account_id = AgentAccountId 2, sr_merchant = Some ''m'', sr_execution_scope = None, sr_category = None,
       sr_task_id = Some ''t'', sr_reason = ''r'', sr_lease_profile = ''default''\<rparr>,
     sd_evaluation = \<lparr>ev_policy_id = ''p'', ev_policy_version = ''1'', ev_decision = Allow, ev_reasons = [],
       ev_rule_results = []\<rparr>, sd_created_at = 10\<rparr>"

definition example_store :: "unit governance" where
  "example_store =
     \<lparr>gv_decisions = hm_insert (SpendDecisionId 1) example_decision hm_empty,
      gv_tokens = hm_insert (SpendAuthTokenId 2) (cr_token example_open) hm_empty,
      gv_claims = hm_insert (SpendExecutorClaimId 9) example_claim hm_empty, gv_receipts = hm_empty, gv_voids = hm_empty,
      gv_budgets = hm_insert (BudgetId 1) \<lparr>bu_id = BudgetId 1, bu_agent_id = AgentId 7,
        bu_current_version_id = BudgetVersionId 2, bu_currency = Usd,
        bu_period = \<lparr>starting_at = 0, ending_before = None\<rparr>, bu_administrative_state = AdminActive, bu_created_at = 5,
        bu_updated_at = 5\<rparr> hm_empty,
      gv_versions = hm_insert (BudgetVersionId 2) \<lparr>bv_id = BudgetVersionId 2, bv_budget_id = BudgetId 1,
        bv_revision = 1, bv_predecessor_version_id = None, bv_amount_limit = Amount 20000, bv_effective_at = 5,
        bv_actor = ''admin'', bv_source = ''cli'', bv_reason = None, bv_request_fingerprint = ''sha256:0'',
        bv_created_at = 5\<rparr> hm_empty,
      gv_balances = hm_insert (BudgetId 1) (cr_balance example_open) hm_empty,
      gv_holds = hm_insert (BudgetHoldId 4) (cr_hold example_open) hm_empty,
      gv_accounts = hm_insert (AgentAccountId 2) \<lparr>ac_agent_id = AgentId 7, ac_owner_user_id = UserId 1\<rparr> hm_empty,
      gv_ledger = ledger_init, gv_journal = ()\<rparr>"

definition example_query :: budget_ledger_query where
  "example_query = \<lparr>bq_owner_user_id = UserId 1, bq_agent_id = AgentId 7, bq_budget_id = BudgetId 1\<rparr>"

section \<open>The run\<close>

lemma example_service_inv: "service_inv example_service"
  unfolding example_service_def
proof (rule service_of_inv)
  show "spend_inv example_spend_state" by (rule spend_reachable_inv[OF example_spend_reachable])
  show "budget_inv service_budgets" by (rule reachable_inv[OF service_budgets_reachable])
  show "ledger_inv ledger_init" by (rule ledger_inv_init)
  show "executor_claims example_spend_state = hm_empty" by code_simp
  show "bh_executor_claim_id h = None" if "hm_get (budget_holds service_budgets) i = Some h" for i h
  proof -
    have "budget_holds service_budgets = hm_insert (BudgetHoldId 4)
        (reserved_hold (BudgetHoldId 4) service_reserve_request 12 (BudgetVersionId 2)) hm_empty"
      by code_simp
    with that show ?thesis by (auto simp: reserved_hold_def split: if_splits)
  qed
qed

lemma example_claim_step: "service_step example_env example_service example_claimed"
  by (rule service_claim[of _ example_claim_inputs _ example_claim_request
        "fst (claim_executor_spend example_env example_claim_inputs example_claim_request example_service)"])
    (code_simp, simp add: example_claimed_def)

lemma example_receipt_typed: "receipt_well_typed example_receipt"
  by code_simp

lemma example_settle_step: "service_step example_env example_claimed example_settled"
  by (rule service_settle[of example_settle_request _ example_settle_ids "PaymentId 5" 30 _
        "fst (settle_claim example_env example_settle_ids (PaymentId 5) example_settle_request 30 example_claimed)"])
    (code_simp, simp add: example_settled_def)

lemma example_run: "(service_step example_env)\<^sup>*\<^sup>* example_service example_settled"
  using example_claim_step example_settle_step by (meson rtranclp.rtrancl_refl rtranclp.rtrancl_into_rtrancl)

lemma example_claimed_inv: "service_inv example_claimed"
  using executor.inv_step[OF example_claim_step example_service_inv] .

lemma example_settled_inv: "service_inv example_settled"
  using executor.inv_step[OF example_settle_step example_claimed_inv] .

lemma example_claimed_store: "sv_store example_claimed = example_store"
  by code_simp

lemma example_claim_stored:
  "hm_get (gv_claims (sv_store example_claimed)) (SpendExecutorClaimId 9) = Some example_claim"
  "cl_status example_claim = ClaimClaimed"
  by (simp_all add: example_claimed_store example_store_def example_claim_def)

section \<open>The settlement in pieces\<close>

text \<open>What the settlement makes of the rows of the open claim.\<close>

definition example_amounts :: settlement_amounts where
  "example_amounts = \<lparr>sa_budget_charge = Amount 3124, sa_released_amount = Amount 1876, sa_overrun_amount = Amount 0\<rparr>"

definition example_action :: finalization_action where
  "example_action = SettleAction (PaymentId 5) example_receipt"

definition example_closed :: budget_balance where
  "example_closed = \<lparr>bal_budget_id = BudgetId 1, bal_consumed_amount = Amount 3124, bal_frozen_amount = Amount 0,
     bal_remaining_amount = Amount 16876\<rparr>"

definition example_written :: "unit governance" where
  "example_written = projr (write_finalization example_action ByExecutor 30 (cr_claim example_open)
     (cr_hold example_open) (cr_balance example_open) example_closed example_store)"

definition example_record :: persisted_receipt where
  "example_record = settlement_record (cr_claim example_open) (cr_hold example_open) example_amounts (PaymentId 5)
     example_receipt 30"

definition example_receipts :: "(spend_executor_claim_id, persisted_receipt) hmap" where
  "example_receipts = hm_insert (SpendExecutorClaimId 9) example_record hm_empty"

definition example_recorded :: "unit governance" where
  "example_recorded = example_written\<lparr>gv_receipts := example_receipts\<rparr>"

definition example_settled_hold :: budget_hold where
  "example_settled_hold = (cr_hold example_open)\<lparr>bh_updated_at := 30\<rparr>"

definition example_posted_claim :: spend_executor_claim_record where
  "example_posted_claim = reconciled_claim ByExecutor 30 ((cr_claim example_open)\<lparr>cl_finalized_at := Some 30\<rparr>)"

definition example_posting_metadata :: transaction_metadata where
  "example_posting_metadata =
     \<lparr>tm_kind = ExternalProvider, tm_source_key = ''settlement:pay'', tm_agent_id = Some (AgentId 7),
      tm_agent_account_id = Some (AgentAccountId 2),
      tm_context = Some \<lparr>gc_agent_id = AgentId 7, gc_agent_account_id = AgentAccountId 2, gc_budget_id = BudgetId 1,
        gc_budget_version_id = BudgetVersionId 2, gc_spend_decision_id = SpendDecisionId 1, gc_operation_key = ''op-1''\<rparr>,
      tm_effective_cost = \<lparr>lm_amount = ''31234567'', lm_scale = 10, lm_currency = Usd\<rparr>,
      tm_budget_charge_delta_cents = None, tm_budget_charge_delta = Some 3124, tm_budget_charge_scale = Some 6,
      tm_rounding_delta_amount = Some ''543300000000'', tm_original_transaction_id = None,
      tm_previous_transaction_id = None, tm_provider = Some ''acme'', tm_billing_merchant = Some ''m'',
      tm_purpose = Some ''r'', tm_source_evidence = ''{}'', tm_reason = None, tm_adjustment_evidence = None,
      tm_legacy_backfill = False, tm_missing_evidence = []\<rparr>"

definition example_posting :: pair_posting where
  "example_posting = \<lparr>pp_owner = UserId 1, pp_debit_kind = AgentSpendExpense,
     pp_credit_kind = ExternallyBilledClearing, pp_signed_amount = 3123456700000000,
     pp_metadata = example_posting_metadata, pp_external_ref = Some ''pay'', pp_created_at = 30\<rparr>"

definition example_settled_ledger :: ledger where
  "example_settled_ledger = snd (projr (post_pair example_settle_ids example_posting ledger_init))"

definition example_result :: finalization_result where
  "example_result = \<lparr>fr_claim = finalized_claim example_action ByExecutor 30 (cr_claim example_open),
     fr_token = finalized_token example_action 30 (cr_token example_open),
     fr_hold = (cr_hold example_open)\<lparr>bh_status := Settled, bh_updated_at := 30\<rparr>, fr_balance = example_closed,
     fr_receipt = Some example_record, fr_idempotent_replay = False\<rparr>"

lemma example_found:
  "locate_claim example_store (UserId 1) (ByOperation (AgentId 7) ''op-1'') = Inr (cr_claim example_open)"
  "hm_get (gv_tokens example_store) (cl_spend_auth_token_id (cr_claim example_open)) = Some (cr_token example_open)"
  "load_budget_hold_by_claim_id example_store (cl_id (cr_claim example_open)) = Some (cr_hold example_open)"
  "hm_get (gv_balances example_store) (bh_budget_id (cr_hold example_open)) = Some (cr_balance example_open)"
  "hm_get (gv_receipts example_store) (cl_id (cr_claim example_open)) = None"
  by code_simp+

lemma example_checked:
  "replay_is_consistent example_action (cr_claim example_open) (cr_token example_open) (cr_hold example_open) None = Inr False"
  "finalization_guards ByExecutor 30 (cr_claim example_open) (cr_token example_open) (cr_hold example_open)
     (cr_balance example_open) None = Inr ()"
  "validate_executor_settlement_receipt example_receipt (cr_hold example_open) False = Inr example_amounts"
  "checked_executor_finalization_balance (cr_balance example_open) (cr_hold example_open) (Some example_amounts)
     = Inr example_closed"
  "write_finalization example_action ByExecutor 30 (cr_claim example_open) (cr_hold example_open)
     (cr_balance example_open) example_closed example_store = Inr example_written"
  "save_executor_settlement_receipt example_record (gv_receipts example_written) = Inr example_receipts"
  by code_simp+

lemma example_posting_checked:
  "settlement_request example_recorded (cl_id example_posted_claim) (bh_id example_settled_hold)
     (rc_settlement_id example_record) = Some (sd_request example_decision)"
  "sr_owner_user_id (sd_request example_decision) = cl_owner_user_id example_posted_claim"
  "sr_agent_id (sd_request example_decision) = cl_agent_id example_posted_claim"
  "rc_authorized_max example_record = bh_amount example_settled_hold"
  "rc_claim_id example_record = cl_id example_posted_claim"
  "rc_currency example_record = bh_currency example_settled_hold"
  "vc_currency (sr_actual_vendor_cost (rc_receipt example_record)) = bh_currency example_settled_hold"
  "budget_charge (sr_actual_vendor_cost (rc_receipt example_record)) = Inr (rc_budget_charge example_record)"
  "scaled (exact_cost (sr_actual_vendor_cost (rc_receipt example_record))) = Inr 3123456700000000"
  "cl_owner_user_id example_posted_claim = UserId 1"
  "settlement_metadata example_env example_posted_claim example_settled_hold example_record (sd_request example_decision)
     3123456700000000 False = example_posting_metadata"
  "ge_show_payment_id example_env (rc_settlement_id example_record) = ''pay''"
  "rc_created_at example_record = 30"
  "gv_ledger example_recorded = ledger_init"
  by code_simp+

lemma example_posting_texts:
  "scaled \<lparr>lm_amount = show_int 3123456700000000, lm_scale = 18, lm_currency = Usd\<rparr> = Inr 3123456700000000"
  by (rule scaled_show; simp add: fits_i128_def)

lemma example_posting_digits:
  "scaled \<lparr>lm_amount = ''31234567'', lm_scale = 10, lm_currency = Usd\<rparr> = Inr 3123456700000000"
  "budget_units \<lparr>lm_amount = ''31234567'', lm_scale = 10, lm_currency = Usd\<rparr> 6 = Inr 3124"
  "show_int 543300000000 = ''543300000000''"
  "is_blank ''settlement:pay'' = False" "is_blank ''op-1'' = False"
  by code_simp+

lemma example_posting_run: "\<exists>r. post_pair example_settle_ids example_posting ledger_init = Inr (r, example_settled_ledger)"
  unfolding example_settled_ledger_def
  by (simp add: ledger_eval example_posting_def example_posting_metadata_def example_settle_ids_def
      example_pair_ids_def example_posting_texts example_posting_digits)

lemma example_post_settlement:
  "post_settlement example_env example_settle_ids example_posted_claim example_settled_hold example_record False
     example_recorded = Inr example_settled_ledger"
proof -
  obtain r where r: "post_pair example_settle_ids example_posting ledger_init = Inr (r, example_settled_ledger)"
    using example_posting_run by blast
  show ?thesis
    unfolding post_settlement_def example_posting_checked(1)
    by (simp add: example_posting_checked Let_def r[unfolded example_posting_def] map_err_def del: One_nat_def)
qed

lemma example_record_settlement:
  "record_settlement example_env example_settle_ids example_action ByExecutor 30 (cr_claim example_open)
     (cr_hold example_open) (Some example_amounts) example_written
   = Inr (Some example_record, example_recorded\<lparr>gv_ledger := example_settled_ledger\<rparr>)"
  using example_post_settlement example_checked(6)
  by (simp add: record_settlement_def example_action_def example_record_def[symmetric] Let_def
      example_recorded_def[symmetric] example_posted_claim_def[symmetric] example_settled_hold_def[symmetric])

lemma example_finalize:
  "finalize_executor_claim example_env example_settle_ids (UserId 1) (ByOperation (AgentId 7) ''op-1'') example_action
     ByExecutor 30 example_store
   = Inr (example_result, example_recorded\<lparr>gv_ledger := example_settled_ledger, gv_journal := ()\<rparr>)"
proof -
  have amounts: "settlement_amounts_of example_action ByExecutor (cr_hold example_open) = Inr (Some example_amounts)"
    using example_checked(3) by (simp add: settlement_amounts_of_def example_action_def by_reconciliation_def)
  have capture: "ge_capture_finalization example_env c g = Inr ()" for c g by (simp add: example_env_def)
  have status: "snd (terminal_status example_action) = Settled" by (simp add: example_action_def terminal_status_def)
  show ?thesis
    by (simp add: finalize_executor_claim_def example_found example_checked Let_def settlement_amounts_of_def[symmetric]
        amounts example_record_settlement capture example_result_def status del: One_nat_def)
qed

section \<open>The settled service\<close>

definition example_settled_store :: "unit governance" where
  "example_settled_store = example_recorded\<lparr>gv_ledger := example_settled_ledger, gv_journal := ()\<rparr>"

definition example_settled_claim :: spend_executor_claim_record where
  "example_settled_claim = finalized_claim example_action ByExecutor 30 example_claim"

lemma example_settle_run:
  "\<exists>st. settle_claim example_env example_settle_ids (PaymentId 5) example_settle_request 30 example_claimed
     = (Inr st, example_settled) \<and> \<not> ec_idempotent_replay st"
  "sv_store example_settled = example_settled_store"
proof -
  let ?settle = "settle_claim example_env example_settle_ids (PaymentId 5) example_settle_request 30 example_claimed"
  let ?s = "install_finalization example_result example_settled_store example_claimed"
  have ty: "action_well_typed (SettleAction (PaymentId 5) example_receipt)"
    using example_receipt_typed by (simp add: action_well_typed_def receipt_well_typed_def)
  have run: "finalize_executor_claim example_env example_settle_ids (UserId 1) (ByOperation (AgentId 7) ''op-1'')
      (SettleAction (PaymentId 5) example_receipt) ByExecutor 30 (sv_store example_claimed)
    = Inr (example_result, example_settled_store)"
    using example_finalize by (simp add: example_claimed_store example_settled_store_def example_action_def)
  from finish_with_ok[OF example_claimed_inv ty run] obtain st
    where st: "finish_with (Inr (example_result, example_settled_store)) example_claimed = (Inr st, ?s)"
      "ec_claim st = fr_claim example_result" "ec_settlement_receipt st = fr_receipt example_result"
      "ec_idempotent_replay st = fr_idempotent_replay example_result" by blast
  have "require_settlement st = Inr st"
    using settled_answer[OF example_claimed_inv ty run] st(2,3) by (simp add: require_settlement_def)
  then have settle: "?settle = (Inr st, ?s)"
    by (simp add: settle_claim_def settle_executor_claim_def example_settle_request_def run st(1) del: One_nat_def)
  then show "\<exists>st. ?settle = (Inr st, example_settled) \<and> \<not> ec_idempotent_replay st"
    and "sv_store example_settled = example_settled_store"
    using st(4) by (auto simp: example_settled_def example_result_def install_finalization_def)
qed

lemma example_settled_stored:
  "hm_get (gv_claims (sv_store example_settled)) (SpendExecutorClaimId 9) = Some example_settled_claim"
  "cl_status example_settled_claim = ClaimSettled"
proof -
  have "hm_get (gv_claims example_written) (SpendExecutorClaimId 9) = Some example_settled_claim" by code_simp
  then show "hm_get (gv_claims (sv_store example_settled)) (SpendExecutorClaimId 9) = Some example_settled_claim"
    by (simp add: example_settle_run(2) example_settled_store_def example_recorded_def)
qed code_simp

section \<open>The theorems on the run\<close>

theorem executor_refines_managers_witness:
  "(budget_step True)\<^sup>*\<^sup>* service_budgets (sv_budgets example_settled) \<and> service_inv example_settled"
  using executor_refines_managers[OF example_run example_service_inv]
  by (simp add: example_service_def service_of_def)

theorem executor_outcome_final_witness:
  "hm_get (gv_claims (sv_store (snd (release_claim example_env example_settle_ids
      \<lparr>xf_owner_user_id = UserId 1, xf_agent_id = AgentId 7, xf_operation_key = ''op-1''\<rparr> 40 example_settled))))
     (SpendExecutorClaimId 9) = Some example_settled_claim"
proof -
  let ?rq = "\<lparr>xf_owner_user_id = UserId 1, xf_agent_id = AgentId 7, xf_operation_key = ''op-1''\<rparr>"
  let ?run = "release_claim example_env example_settle_ids ?rq 40 example_settled"
  have "service_step example_env example_settled (snd ?run)"
    by (rule service_release[of _ example_settle_ids ?rq 40 _ "fst ?run"]) simp
  then have "(service_step example_env)\<^sup>*\<^sup>* example_settled (snd ?run)" by blast
  from executor_outcome_final[OF this example_settled_inv example_settled_stored(1)] example_settled_stored(2)
  show ?thesis by simp
qed

theorem executor_errors_atomic_witness:
  "settle_claim example_env example_settle_ids (PaymentId 6) example_settle_request 30 example_service
   = (Inl (ClaimStorageError (StorageInvalidData ''unknown executor claim'')), example_service)"
proof -
  let ?run = "settle_claim example_env example_settle_ids (PaymentId 6) example_settle_request 30 example_service"
  have e: "fst ?run = Inl (ClaimStorageError (StorageInvalidData ''unknown executor claim''))" by code_simp
  have f: "hm_get (gv_claims (sv_store example_service)) (xi_claim_id example_claim_inputs) = None" by code_simp
  have t: "receipt_well_typed (xs_receipt example_settle_request)"
    using example_receipt_typed by (simp add: example_settle_request_def)
  have r: "case xr_receipt \<lparr>xr_claim_id = SpendExecutorClaimId 9, xr_owner_user_id = UserId 1,
      xr_provider_reference = [], xr_evidence = [], xr_outcome = VendorDidNotBill, xr_receipt = None\<rparr>
      of None \<Rightarrow> True | Some receipt \<Rightarrow> receipt_well_typed receipt" by simp
  have "snd ?run = example_service"
    using executor_errors_atomic[OF example_service_inv f t r] e by blast
  with e show ?thesis by (simp add: prod_eq_iff)
qed

theorem executor_replay_exact_witness:
  "\<exists>st. settle_claim example_env example_settle_ids (PaymentId 8) example_settle_request 50 example_settled
     = (Inr st, example_settled) \<and> ec_idempotent_replay st \<and> cl_settlement_id (ec_claim st) = Some (PaymentId 5)"
proof -
  have c: "cl_owner_user_id example_settled_claim = UserId 1" "cl_agent_id example_settled_claim = AgentId 7"
    "cl_operation_key example_settled_claim = ''op-1''" "cl_settlement_id example_settled_claim = Some (PaymentId 5)"
    by code_simp+
  have r: "hm_get (gv_receipts (sv_store example_settled)) (SpendExecutorClaimId 9) = Some example_record"
    by (simp add: example_settle_run(2) example_settled_store_def example_recorded_def example_receipts_def)
  have rc: "rc_receipt example_record = example_receipt" by (simp add: example_record_def settlement_record_def)
  from executor_replay_exact[OF example_settled_inv example_settled_stored(1) example_receipt_typed,
      of example_env example_settle_ids "PaymentId 8" 50] r example_settled_stored(2)
  show ?thesis by (auto simp: c rc example_settle_request_def simp del: One_nat_def)
qed

theorem claimed_funds_recoverable_witness:
  "\<exists>st s'. release_claim example_env example_settle_ids
      \<lparr>xf_owner_user_id = UserId 1, xf_agent_id = AgentId 7, xf_operation_key = ''op-1''\<rparr> 30 example_claimed = (Inr st, s')
    \<and> cl_status (ec_claim st) = ClaimReleased"
proof -
  have c: "cl_owner_user_id example_claim = UserId 1" "cl_agent_id example_claim = AgentId 7"
    "cl_operation_key example_claim = ''op-1''" "30 < cl_expires_at example_claim" by code_simp+
  have "ge_capture_finalization example_env k g = Inr ()" for k g by (simp add: example_env_def)
  with claimed_funds_recoverable[OF example_claimed_inv example_claim_stored, where at = 30 and env = example_env
      and ids = example_settle_ids] c
  show ?thesis by fastforce
qed

theorem settlement_exact_witness:
  "\<exists>x. load_transaction (gv_ledger (sv_store example_settled)) (LedgerTransactionId 50) = Some x
     \<and> expense_of (tr_entries x) = 3123456700000000 \<and> recorded_charge x = 3124"
proof -
  obtain st where run: "settle_claim example_env example_settle_ids (PaymentId 5) example_settle_request 30 example_claimed
      = (Inr st, example_settled)" and new: "\<not> ec_idempotent_replay st" using example_settle_run(1) by blast
  have ty: "receipt_well_typed (xs_receipt example_settle_request)"
    using example_receipt_typed by (simp add: example_settle_request_def)
  have cost: "scaled (exact_cost (sr_actual_vendor_cost (xs_receipt example_settle_request))) = Inr 3123456700000000"
    "budget_charge (sr_actual_vendor_cost (xs_receipt example_settle_request)) = Inr (Amount 3124)"
    "pi_transaction example_settle_ids = LedgerTransactionId 50" by code_simp+
  from settlement_exact[OF example_claimed_inv ty run new, unfolded cost] show ?thesis by fastforce
qed

definition coverage_report :: "unit governance \<Rightarrow> budget_ledger_report" where
  "coverage_report g = projr (query_budget_ledger example_query g)"

lemma example_report_before:
  "query_budget_ledger example_query (sv_store example_claimed) = Inr (coverage_report (sv_store example_claimed))"
  "br_unaccounted_consumption (coverage_report (sv_store example_claimed)) = Amount 0"
  unfolding example_claimed_store by code_simp+

lemma example_settled_ledger_eq:
  "example_settled_ledger =
     \<lparr>ledger_accounts =
        [(LedgerAccountId 50, \<lparr>la_id = LedgerAccountId 50, la_owner_user_id = UserId 1,
            la_name = account_kind_as_str AgentSpendExpense, la_kind = AgentSpendExpense, la_currency = Usd,
            la_created_at = 30\<rparr>),
         (LedgerAccountId 51, \<lparr>la_id = LedgerAccountId 51, la_owner_user_id = UserId 1,
            la_name = account_kind_as_str ExternallyBilledClearing, la_kind = ExternallyBilledClearing,
            la_currency = Usd, la_created_at = 30\<rparr>)],
      ledger_transactions =
        [(LedgerTransactionId 50, \<lparr>lt_id = LedgerTransactionId 50, lt_owner_user_id = UserId 1,
            lt_external_ref = Some ''pay'', lt_description = transaction_kind_as_str ExternalProvider,
            lt_created_at = 30, lt_kind = ExternalProvider\<rparr>)],
      ledger_entries =
        [(LedgerEntryId 50, example_entry 50 50 50 Debit 30 3123456700000000),
         (LedgerEntryId 51, example_entry 51 50 51 Credit 30 3123456700000000)],
      ledger_metadata = [(LedgerTransactionId 50, example_posting_metadata)]\<rparr>"
  unfolding example_settled_ledger_def
  by (simp add: ledger_eval example_posting_def example_posting_metadata_def example_settle_ids_def
      example_pair_ids_def example_posting_texts example_posting_digits example_entry_def)

lemma example_settled_transactions:
  "owner_transactions example_settled_ledger (UserId 1)
   = [the (load_transaction example_settled_ledger (LedgerTransactionId 50))]"
  by (simp add: example_settled_ledger_eq owner_transactions_def ledger_eval sort_key_def)

lemma example_report_after:
  "query_budget_ledger example_query (sv_store example_settled) = Inr (coverage_report (sv_store example_settled))"
proof -
  let ?t = "the (load_transaction example_settled_ledger (LedgerTransactionId 50))"
  let ?g = "sv_store example_settled"
  have meta: "tr_metadata ?t = Some example_posting_metadata"
    by (simp add: example_settled_ledger_eq load_transaction_def Let_def hm_eval)
  have ctx: "is_some_and (\<lambda>c. gc_agent_id c = AgentId 7 \<and> gc_budget_id c = BudgetId 1) (record_context ?t)"
    by (simp add: record_context_def meta example_posting_metadata_def)
  have charge: "add_recorded_charge ZERO ?t = Inr (Amount 3124)"
    by (simp add: add_recorded_charge_def meta) code_simp
  have rows: "hm_get (gv_budgets ?g) (BudgetId 1) = hm_get (gv_budgets example_written) (BudgetId 1)"
    "hm_get (gv_balances ?g) (BudgetId 1) = hm_get (gv_balances example_written) (BudgetId 1)"
    "gv_accounts ?g = gv_accounts example_written" "gv_ledger ?g = example_settled_ledger"
    by (simp_all add: example_settle_run(2) example_settled_store_def example_recorded_def)
  have written: "is_some_and (\<lambda>b. bu_agent_id b = AgentId 7) (hm_get (gv_budgets example_written) (BudgetId 1))"
    "hm_get (gv_balances example_written) (BudgetId 1) = Some example_closed"
    "list_ex (\<lambda>a. ac_agent_id a = AgentId 7 \<and> ac_owner_user_id a = UserId 1) (hm_values (gv_accounts example_written))"
    "amount_checked_sub (bal_consumed_amount example_closed) (Amount 3124) = Some (Amount 0)"
    by code_simp+
  have "isl (query_budget_ledger example_query ?g) = False"
    using written ctx charge
    by (simp add: query_budget_ledger_def example_query_def rows Let_def example_settled_transactions del: One_nat_def)
  then show ?thesis by (cases "query_budget_ledger example_query ?g") (simp_all add: coverage_report_def)
qed

theorem coverage_invariant_witness:
  "br_unaccounted_consumption (coverage_report (sv_store example_settled)) = Amount 0"
proof -
  have "agent_of_owner (sv_store example_claimed) example_query"
    by (auto simp: agent_of_owner_def example_claimed_store example_store_def example_query_def example_decision_def
        split: if_splits)
  from coverage_invariant[OF _ example_claimed_inv this example_report_before(1) example_report_after]
    example_settle_step example_report_before(2) show ?thesis by (metis r_into_rtranclp)
qed

end
