(* ===== verification/Gongbu_Rational.thy ===== *)
theory Gongbu_Rational
  imports Complex_Main Execution_Scope
begin

text \<open>
  \<^verbatim>\<open>crates/gongbu-api/src/provider/contract.rs\<close>, the arithmetic of the pricing contract: the checked
  rational numbers a catalog price is computed with, and the exact decimal charge of an external
  vendor with its conversion into budget units. A rational counts minor units (cents) over a positive
  denominator; every product and sum is checked against the range of \<open>i128\<close>.
\<close>

section \<open>Errors and constants\<close>

datatype contract_error =
    Malformed string
  | AmbiguousRule
  | UnsupportedTarget
  | IndeterminableCost
  | InsufficientAuthorization
  | SettlementOverage
  | UnsafeRetry
  | ProviderError string
  | IoError string

definition MAX_VENDOR_COST_SCALE :: nat where
  "MAX_VENDOR_COST_SCALE = 18"

definition UNITS_SCALE :: nat where
  "UNITS_SCALE = 6"

definition UNITS_PER_MINOR :: int where
  "UNITS_PER_MINOR = 10000"

definition units_to_minor_ceil :: "int \<Rightarrow> int" where
  "units_to_minor_ceil u = u div UNITS_PER_MINOR + (if u mod UNITS_PER_MINOR \<noteq> 0 then 1 else 0)"

lemma units_to_minor_ceil: "units_to_minor_ceil u = ceil_div u UNITS_PER_MINOR"
  by (simp add: units_to_minor_ceil_def ceil_div_def)

abbreviation indeterminable :: "'a option \<Rightarrow> contract_error + 'a" where
  "indeterminable \<equiv> ok_or IndeterminableCost"

definition checked_pow10 :: "nat \<Rightarrow> contract_error + int" where
  "checked_pow10 n = indeterminable (checked fits_i128 (10 ^ n))"

lemma fits_i128_pow10: "fits_i128 (10 ^ n)" if "n \<le> 38"
proof -
  have "(10::int) ^ n \<le> 10 ^ 38" using that by (intro power_increasing) simp_all
  then have "(10::int) ^ n \<le> 100000000000000000000000000000000000000" by simp
  moreover have "(0::int) < 10 ^ n" by simp
  ultimately show ?thesis unfolding fits_i128_def by (intro conjI) (linarith | simp)+
qed

lemma checked_pow10_small [simp]: "n \<le> 38 \<Longrightarrow> checked_pow10 n = Inr (10 ^ n)"
  by (simp add: checked_pow10_def checked_def fits_i128_pow10)

lemma checked_pow10_eq: "checked_pow10 n = Inr x \<Longrightarrow> x = 10 ^ n"
  by (simp add: checked_pow10_def res_simps)

section \<open>Rational prices\<close>

record rational =
  rat_n :: int
  rat_d :: int

text \<open>Euclid's loop, on \<open>i128\<close> with the truncating remainder.\<close>

function gcd_loop :: "int \<Rightarrow> int \<Rightarrow> int" where
  "gcd_loop a b = (if b = 0 then max \<bar>a\<bar> 1 else gcd_loop b (trunc_mod a b))"
  by pat_completeness auto

lemma trunc_mod_decreases: "b \<noteq> 0 \<Longrightarrow> \<bar>trunc_mod a b\<bar> < \<bar>b\<bar>"
proof -
  assume b: "b \<noteq> 0"
  have "trunc_mod a b = sgn a * (\<bar>a\<bar> mod \<bar>b\<bar>)"
  proof -
    have "b * (sgn b * (\<bar>a\<bar> div \<bar>b\<bar>)) = \<bar>b\<bar> * (\<bar>a\<bar> div \<bar>b\<bar>)"
      by (metis abs_sgn mult.assoc mult.commute)
    then have "trunc_mod a b = sgn a * \<bar>a\<bar> - sgn a * (\<bar>b\<bar> * (\<bar>a\<bar> div \<bar>b\<bar>))"
      by (simp add: trunc_mod_def trunc_div_def sgn_mult_abs mult.left_commute)
    then show ?thesis by (simp flip: right_diff_distrib add: minus_mult_div_eq_mod)
  qed
  then have "\<bar>trunc_mod a b\<bar> \<le> \<bar>a\<bar> mod \<bar>b\<bar>" using b by (simp add: abs_mult sgn_if)
  also have "\<dots> < \<bar>b\<bar>" using b by simp
  finally show ?thesis .
qed

termination gcd_loop
  by (relation "measure (\<lambda>(a, b). nat \<bar>b\<bar>)") (auto simp: trunc_mod_decreases)

declare gcd_loop.simps [simp del]

lemma gcd_loop_eq: "0 \<le> a \<Longrightarrow> 0 \<le> b \<Longrightarrow> gcd_loop a b = max (gcd a b) 1"
proof (induction a b rule: gcd_loop.induct)
  case (1 a b)
  show ?case
  proof (cases "b = 0")
    case True
    with 1 show ?thesis by (simp add: gcd_loop.simps[of a 0])
  next
    case False
    with 1 have m: "trunc_mod a b = a mod b" by (simp add: trunc_nonneg)
    with False 1 have "gcd_loop b (a mod b) = max (gcd b (a mod b)) 1" by simp
    with False m show ?thesis by (simp add: gcd_loop.simps[of a b] gcd_red_int[of a b])
  qed
qed

lemma gcd_loop_pos: "0 \<le> a \<Longrightarrow> 0 < b \<Longrightarrow> gcd_loop a b = gcd a b"
proof -
  assume a: "0 \<le> a" "0 < b"
  then have "0 < gcd a b" by simp
  then have "max (gcd a b) 1 = gcd a b" by linarith
  with a show "gcd_loop a b = gcd a b" by (simp only: gcd_loop_eq less_imp_le)
qed

definition rational_zero :: rational where
  "rational_zero = \<lparr>rat_n = 0, rat_d = 1\<rparr>"

definition rational_new :: "int \<Rightarrow> int \<Rightarrow> contract_error + rational" where
  "rational_new n d =
     (if n < 0 \<or> d \<le> 0 then Inl IndeterminableCost else Inr \<lparr>rat_n = n, rat_d = d\<rparr>)"

definition rational_mul :: "rational \<Rightarrow> int \<Rightarrow> contract_error + rational" where
  "rational_mul r quantity =
     (if quantity < 0 then Inl IndeterminableCost
      else and_then (indeterminable (checked_mul_i128 (rat_n r) quantity)) (\<lambda>n.
           Inr \<lparr>rat_n = n, rat_d = rat_d r\<rparr>))"

definition rational_add :: "rational \<Rightarrow> rational \<Rightarrow> contract_error + rational" where
  "rational_add r other =
     and_then (indeterminable (checked_mul_i128 (rat_n r) (rat_d other))) (\<lambda>a.
     and_then (indeterminable (checked_mul_i128 (rat_n other) (rat_d r))) (\<lambda>b.
     and_then (indeterminable (checked fits_i128 (a + b))) (\<lambda>n.
     and_then (indeterminable (checked_mul_i128 (rat_d r) (rat_d other))) (\<lambda>d.
     let g = gcd_loop n d in
     Inr \<lparr>rat_n = trunc_div n g, rat_d = trunc_div d g\<rparr>))))"

definition ceil_i64 :: "rational \<Rightarrow> contract_error + int" where
  "ceil_i64 r =
     and_then (indeterminable (checked fits_i128 (rat_n r + (rat_d r - 1)))) (\<lambda>sum.
     indeterminable (checked fits_i64 (trunc_div sum (rat_d r))))"

definition to_units_ceil :: "rational \<Rightarrow> contract_error + int" where
  "to_units_ceil r =
     and_then (indeterminable (checked_mul_i128 (rat_n r) UNITS_PER_MINOR)) (\<lambda>n.
     ceil_i64 \<lparr>rat_n = n, rat_d = rat_d r\<rparr>)"

text \<open>The values every rational of the contract has: not negative, and after a sum of \<open>i128\<close>.\<close>

definition rational_pos :: "rational \<Rightarrow> bool" where
  "rational_pos r \<longleftrightarrow> 0 \<le> rat_n r \<and> 0 < rat_d r"

definition rational_ok :: "rational \<Rightarrow> bool" where
  "rational_ok r \<longleftrightarrow> rational_pos r \<and> fits_i128 (rat_n r) \<and> fits_i128 (rat_d r)"

lemma rational_posD: "rational_pos r \<Longrightarrow> 0 \<le> rat_n r" "rational_pos r \<Longrightarrow> 0 < rat_d r"
  by (simp_all add: rational_pos_def)

lemma rational_ok_pos [intro]: "rational_ok r \<Longrightarrow> rational_pos r"
  by (simp add: rational_ok_def)

text \<open>The value of a rational, as a fraction of the library.\<close>

definition cents_of :: "rational \<Rightarrow> rat" where
  "cents_of r = Fract (rat_n r) (rat_d r)"

lemma rational_zero_ok [simp]: "rational_ok rational_zero" "cents_of rational_zero = 0"
  by (simp_all add: rational_zero_def rational_ok_def rational_pos_def cents_of_def Zero_rat_def range_simps)

lemma rational_new_ok:
  assumes "rational_new n d = Inr r"
  shows "rational_pos r" and "cents_of r = Fract n d" and "0 \<le> n" and "0 < d"
  using assms by (auto simp: rational_new_def rational_pos_def cents_of_def split: if_splits)

lemma rational_mul_ok:
  assumes "rational_mul r q = Inr s" and "rational_pos r"
  shows "rational_pos s" and "cents_of s = cents_of r * of_int q" and "0 \<le> q"
  using assms
  by (auto simp: rational_mul_def rational_pos_def cents_of_def res_simps of_int_rat split: if_splits)

lemma reduced_fraction:
  assumes "0 \<le> n" and "0 < (d::int)"
  shows "Fract (n div gcd n d) (d div gcd n d) = Fract n d" and "0 < d div gcd n d" and "d div gcd n d \<le> d"
    and "0 \<le> n div gcd n d" and "n div gcd n d \<le> n"
proof -
  have g: "0 < gcd n d" using assms by simp
  show "0 \<le> n div gcd n d" using assms g by (simp add: pos_imp_zdiv_nonneg_iff)
  have dd: "d div gcd n d * gcd n d = d" by simp
  have nn: "n div gcd n d * gcd n d = n" by simp
  show "0 < d div gcd n d" using assms g dd by (metis pos_imp_zdiv_pos_iff dvd_imp_le_int gcd_dvd2 abs_of_pos less_irrefl zdvd_imp_le)
  then have "Fract (gcd n d * (n div gcd n d)) (gcd n d * (d div gcd n d)) = Fract (n div gcd n d) (d div gcd n d)"
    using g by (intro mult_rat_cancel) simp
  then show "Fract (n div gcd n d) (d div gcd n d) = Fract n d" using dd nn by (simp add: mult.commute)
  show "d div gcd n d \<le> d" "n div gcd n d \<le> n"
    using assms zdiv_mono2[of d 1 "gcd n d"] zdiv_mono2[of n 1 "gcd n d"] g by simp_all
qed

lemma rational_add_ok:
  assumes "rational_add r s = Inr t" and "rational_pos r" and "rational_pos s"
  shows "rational_ok t" and "cents_of t = cents_of r + cents_of s"
proof -
  let ?n = "rat_n r * rat_d s + rat_n s * rat_d r" and ?d = "rat_d r * rat_d s"
  have nd: "0 \<le> ?n" "0 < ?d" using assms(2,3) by (simp_all add: rational_pos_def)
  note red = reduced_fraction[OF nd]
  from assms(1) have fits: "fits_i128 ?n" "fits_i128 ?d"
    and t: "t = \<lparr>rat_n = trunc_div ?n (gcd_loop ?n ?d), rat_d = trunc_div ?d (gcd_loop ?n ?d)\<rparr>"
    by (auto simp: rational_add_def res_simps Let_def)
  have "gcd_loop ?n ?d = gcd ?n ?d" "0 < gcd ?n ?d" using nd gcd_loop_pos[OF nd] by (simp_all only: gcd_pos_int) auto
  with t nd have t': "t = \<lparr>rat_n = ?n div gcd ?n ?d, rat_d = ?d div gcd ?n ?d\<rparr>"
    by (simp add: trunc_nonneg)
  show "rational_ok t" using red(2-5) fits nd unfolding t' rational_ok_def rational_pos_def fits_i128_def rational.simps
    by (intro conjI) linarith+
  have "cents_of t = Fract ?n ?d" by (simp add: t' cents_of_def red(1))
  also have "\<dots> = cents_of r + cents_of s" using assms(2,3) by (simp add: cents_of_def rational_pos_def)
  finally show "cents_of t = cents_of r + cents_of s" .
qed

section \<open>Exact vendor costs\<close>

record actual_vendor_cost =
  ac_amount :: int
  ac_scale :: nat
  ac_currency :: string

definition to_ascii_uppercase :: "char \<Rightarrow> char" where
  "to_ascii_uppercase c = (if is_ascii_lowercase c then char_of ((of_char c :: nat) - 32) else c)"

definition cost_validate :: "actual_vendor_cost \<Rightarrow> contract_error + unit" where
  "cost_validate c =
     (if ac_amount c < 0 \<or> MAX_VENDOR_COST_SCALE < ac_scale c \<or> length (ac_currency c) \<noteq> 3
         \<or> \<not> list_all is_ascii_uppercase (ac_currency c)
      then Inl IndeterminableCost else Inr ())"

definition cost_new :: "int \<Rightarrow> nat \<Rightarrow> string \<Rightarrow> contract_error + actual_vendor_cost" where
  "cost_new n scale currency =
     (let value = \<lparr>ac_amount = n, ac_scale = scale, ac_currency = map to_ascii_uppercase (trim currency)\<rparr> in
      and_then (cost_validate value) (\<lambda>_. Inr value))"

text \<open>The decimal lexeme of a JSON number, worth \<open>10 ^ - source_unit_scale\<close> major units each.\<close>

fun split_once_by :: "(char \<Rightarrow> bool) \<Rightarrow> string \<Rightarrow> (string \<times> string) option" where
  "split_once_by p [] = None"
| "split_once_by p (x # xs) =
     (if p x then Some ([], xs) else map_option (\<lambda>(a, b). (x # a, b)) (split_once_by p xs))"

definition fits_i32 :: "int \<Rightarrow> bool" where
  [range_simps]: "fits_i32 n \<longleftrightarrow> - 2147483648 \<le> n \<and> n \<le> 2147483647"

definition exponent_mark :: "char \<Rightarrow> bool" where
  "exponent_mark c \<longleftrightarrow> c = CHR ''e'' \<or> c = CHR ''E''"

definition lexeme_exponent :: "string \<Rightarrow> contract_error + (string \<times> int)" where
  "lexeme_exponent raw =
     (case split_once_by exponent_mark raw of
        Some (significand, exponent) \<Rightarrow>
          if significand \<noteq> [] \<and> exponent \<noteq> [] \<and> \<not> list_ex exponent_mark exponent
          then and_then (indeterminable (parse_signed fits_i32 exponent)) (\<lambda>e. Inr (significand, e))
          else Inl IndeterminableCost
      | None \<Rightarrow> Inr (raw, 0))"

definition lexeme_fraction :: "string \<Rightarrow> contract_error + (string \<times> string)" where
  "lexeme_fraction significand =
     (case split_once CHR ''.'' significand of
        Some (whole, fraction) \<Rightarrow>
          if whole \<noteq> [] \<and> fraction \<noteq> [] \<and> CHR ''.'' \<notin> set fraction then Inr (whole, fraction)
          else Inl IndeterminableCost
      | None \<Rightarrow> Inr (significand, []))"

definition lexeme_scaled :: "int \<Rightarrow> int \<Rightarrow> contract_error + (int \<times> nat)" where
  "lexeme_scaled coefficient decimal_places =
     (if decimal_places \<le> 0
      then and_then (checked_pow10 (nat (- decimal_places))) (\<lambda>factor.
           and_then (indeterminable (checked_mul_i128 coefficient factor)) (\<lambda>n. Inr (n, 0)))
      else if MAX_VENDOR_COST_SCALE < nat decimal_places then Inl IndeterminableCost
      else Inr (coefficient, nat decimal_places))"

definition from_decimal_scaled_units ::
  "string \<Rightarrow> string \<Rightarrow> nat \<Rightarrow> contract_error + actual_vendor_cost" where
  "from_decimal_scaled_units raw currency source_unit_scale =
     and_then (lexeme_exponent raw) (\<lambda>(significand, exponent).
     if significand = [] \<or> hd significand \<in> {CHR ''-'', CHR ''+''} then Inl IndeterminableCost
     else and_then (lexeme_fraction significand) (\<lambda>(whole, fraction).
     if \<not> all_digits whole \<or> \<not> all_digits fraction then Inl IndeterminableCost
     else and_then (indeterminable (parse_i128 (whole @ fraction))) (\<lambda>coefficient.
     and_then (indeterminable (checked fits_i32 (int source_unit_scale))) (\<lambda>source_unit_scale.
     and_then (indeterminable (checked fits_i32 (int (length fraction)))) (\<lambda>digits.
     and_then (indeterminable (checked fits_i32 (digits - exponent))) (\<lambda>places.
     and_then (indeterminable (checked fits_i32 (places + source_unit_scale))) (\<lambda>decimal_places.
     and_then (lexeme_scaled coefficient decimal_places) (\<lambda>(n, scale).
     and_then (indeterminable (checked fits_i64 n)) (\<lambda>n. cost_new n scale currency)))))))))"

definition from_decimal_major_units :: "string \<Rightarrow> string \<Rightarrow> contract_error + actual_vendor_cost" where
  "from_decimal_major_units raw currency = from_decimal_scaled_units raw currency 0"

definition to_budget_units :: "actual_vendor_cost \<Rightarrow> string \<Rightarrow> contract_error + int" where
  "to_budget_units c budget_currency =
     and_then (cost_validate c) (\<lambda>_.
     if \<not> eq_ignore_ascii_case (ac_currency c) budget_currency then Inl IndeterminableCost
     else and_then
       (if UNITS_SCALE < ac_scale c
        then and_then (checked_pow10 (ac_scale c - UNITS_SCALE)) (\<lambda>divisor.
             and_then (indeterminable (checked fits_i128 (ac_amount c + (divisor - 1)))) (\<lambda>sum.
             Inr (trunc_div sum divisor)))
        else and_then (checked_pow10 (UNITS_SCALE - ac_scale c)) (\<lambda>factor.
             indeterminable (checked_mul_i128 (ac_amount c) factor))) (\<lambda>u.
     indeterminable (checked fits_i64 u)))"

text \<open>The factors of two or five of a denominator. The loop runs as long as the remainder is zero, which
  is forever on zero; every rational it is used on has a positive denominator.\<close>

partial_function (option) strip_factor :: "int \<Rightarrow> nat \<Rightarrow> int \<Rightarrow> (nat \<times> int) option" where
  "strip_factor p k denominator =
     (if trunc_mod denominator p = 0 then strip_factor p (k + 1) (trunc_div denominator p)
      else Some (k, denominator))"

declare strip_factor.simps [code]

definition to_actual_vendor_cost :: "rational \<Rightarrow> string \<Rightarrow> (contract_error + actual_vendor_cost) option" where
  "to_actual_vendor_cost r currency =
     (case indeterminable (checked_mul_i128 (rat_d r) 100) of
        Inl e \<Rightarrow> Some (Inl e)
      | Inr major_denominator \<Rightarrow>
          let divisor = gcd_loop (rat_n r) major_denominator;
              numerator = trunc_div (rat_n r) divisor;
              reduced = trunc_div major_denominator divisor
          in Option.bind (strip_factor 2 0 reduced) (\<lambda>(twos, denominator).
             Option.bind (strip_factor 5 0 denominator) (\<lambda>(fives, denominator).
             Some (if denominator \<noteq> 1 then Inl IndeterminableCost
                   else let scale = max twos fives in
                     if MAX_VENDOR_COST_SCALE < scale then Inl IndeterminableCost
                     else and_then (checked_pow10 scale) (\<lambda>decimal_denominator.
                       and_then (indeterminable
                         (checked_mul_i128 numerator (trunc_div decimal_denominator reduced))) (\<lambda>n.
                       and_then (indeterminable (checked fits_i64 n)) (\<lambda>n.
                       cost_new n scale currency)))))))"

end
