(* ===== verification/Btree_Map.thy ===== *)
theory Btree_Map
  imports Hash_Map "HOL-Library.List_Lexorder" "HOL-Library.Char_ord"
begin

text \<open>
  \<^verbatim>\<open>std::collections::BTreeMap\<close> as an association list with strictly increasing keys, so that two maps
  with the same entries are the same list, as the derived equality and the ordered iteration of the
  sources need. Strings are compared by their bytes, as \<open>str\<close> is. The interface is the one of the hash
  map, interpreted a second time.
\<close>

type_synonym ('k, 'v) btmap = "('k \<times> 'v) list"

fun bt_insert :: "'k :: linorder \<Rightarrow> 'v \<Rightarrow> ('k, 'v) btmap \<Rightarrow> ('k, 'v) btmap" where
  "bt_insert k v [] = [(k, v)]"
| "bt_insert k v ((j, w) # m) =
     (if k < j then (k, v) # (j, w) # m else if k = j then (k, v) # m else (j, w) # bt_insert k v m)"

definition bt_get :: "('k, 'v) btmap \<Rightarrow> 'k \<Rightarrow> 'v option" where
  "bt_get m k = map_of m k"

definition bt_remove :: "'k \<Rightarrow> ('k, 'v) btmap \<Rightarrow> ('k, 'v) btmap" where
  "bt_remove k m = filter (\<lambda>e. fst e \<noteq> k) m"

definition bt_wf :: "('k :: linorder, 'v) btmap \<Rightarrow> bool" where
  "bt_wf m \<longleftrightarrow> sorted_wrt (<) (map fst m)"

lemma bt_insert_keys: "set (map fst (bt_insert k v m)) = insert k (set (map fst m))"
  by (induction k v m rule: bt_insert.induct) auto

lemma bt_wf_insert: "bt_wf m \<Longrightarrow> bt_wf (bt_insert k v m)"
proof (induction k v m rule: bt_insert.induct)
  case (2 k v j w m)
  then show ?case using bt_insert_keys[of k v m] by (fastforce simp: bt_wf_def)
qed (simp add: bt_wf_def)

lemma bt_wf_distinct: "bt_wf m \<Longrightarrow> distinct (map fst m)"
  by (simp add: bt_wf_def strict_sorted_iff)

lemma bt_wf_remove: "bt_wf m \<Longrightarrow> bt_wf (bt_remove k m)"
  by (induction m) (auto simp: bt_wf_def bt_remove_def)

lemma bt_get_insert: "bt_get (bt_insert k v m) j = (if j = k then Some v else bt_get m j)"
  by (induction k v m rule: bt_insert.induct) (auto simp: bt_get_def)

lemma bt_get_remove: "bt_get (bt_remove k m) j = (if j = k then None else bt_get m j)"
  by (induction m) (auto simp: bt_get_def bt_remove_def)

lemma bt_insert_new: "bt_get m k = None \<Longrightarrow> mset (map snd (bt_insert k v m)) = add_mset v (mset (map snd m))"
  by (induction k v m rule: bt_insert.induct) (auto simp: bt_get_def split: if_splits)

lemma bt_insert_old:
  "bt_get m k = Some u \<Longrightarrow> bt_wf m \<Longrightarrow>
   add_mset u (mset (map snd (bt_insert k v m))) = add_mset v (mset (map snd m))"
proof (induction k v m rule: bt_insert.induct)
  case (2 k v j w m)
  have "map_of m k = None" if "k < j"
    using 2(3) that by (force simp: bt_wf_def map_of_eq_None_iff)
  with 2 show ?case by (auto simp: bt_get_def bt_wf_def add_mset_commute split: if_splits)
qed (simp add: bt_get_def)

lemma bt_remove_none: "bt_get m k = None \<Longrightarrow> bt_remove k m = m"
  by (induction m) (auto simp: bt_get_def bt_remove_def split: if_splits)

lemma bt_remove_old:
  "bt_get m k = Some u \<Longrightarrow> bt_wf m \<Longrightarrow> add_mset u (mset (map snd (bt_remove k m))) = mset (map snd m)"
proof (induction m)
  case (Cons e m)
  have "bt_wf m" using Cons.prems(2) by (simp add: bt_wf_def)
  moreover have "bt_remove k m = m" if "fst e = k"
  proof (rule bt_remove_none)
    show "bt_get m k = None"
      using Cons.prems(2) that by (force simp: bt_wf_def bt_get_def map_of_eq_None_iff)
  qed
  ultimately show ?case using Cons by (cases e) (auto simp: bt_get_def bt_remove_def add_mset_commute split: if_splits)
qed (simp add: bt_get_def)

interpretation bt: hash_map "[]" bt_get bt_insert bt_remove "map snd" bt_wf
proof unfold_locales
  fix m :: "('a :: linorder, 'b) btmap" and v
  assume "bt_wf m"
  then show "v \<in> set (map snd m) \<longleftrightarrow> (\<exists>k. bt_get m k = Some v)"
    using bt_wf_distinct[of m] by (force simp: bt_get_def dest: map_of_SomeD)
qed ((rule bt_wf_insert bt_wf_remove bt_get_insert bt_get_remove bt_insert_new bt_insert_old
      bt_remove_none bt_remove_old; assumption) | simp add: bt_remove_none | simp add: bt_wf_def bt_get_def)+

text \<open>Two ordered maps that answer every lookup alike are equal.\<close>

lemma bt_wf_ext:
  assumes "bt_wf m" and "bt_wf n" and "\<And>k. bt_get m k = bt_get n k"
  shows "m = n"
proof -
  have "map_of m = map_of n" using assms(3) by (auto simp: bt_get_def)
  then have s: "set m = set n"
    using assms(1,2) bt_wf_distinct by (metis map_of_inject_set)
  then have "set (map fst m) = set (map fst n)" by simp
  with assms(1,2) have "map fst m = map fst n" by (simp add: bt_wf_def strict_sorted_equal)
  moreover have "inj_on fst (set m \<union> set n)"
    using s bt_wf_distinct[OF assms(1)] by (simp add: distinct_map)
  ultimately show ?thesis by (rule map_inj_on)
qed

end
