(* ===== verification/Gongbu_Pricing.thy ===== *)
theory Gongbu_Pricing
  imports Gongbu_Rational Btree_Map
begin

text \<open>
  \<^verbatim>\<open>crates/gongbu-api/src/provider/contract.rs\<close>, the pricing contract of the execution service: the
  catalog of an operator and its validation, the price of a request frozen into a snapshot, the
  integrity of a stored snapshot, and the settlement of reported usage against it. JSON parsing and the digest of
  the canonical catalog are parameters.
\<close>

section \<open>Units and selectors\<close>

datatype pricing_unit =
    Image | InputToken | OutputToken | Request | ResultUnit | Page | Second
  | Megapixel | AdditionalMegapixel | InputImage | InputMegapixel

text \<open>The derived order is the order of declaration.\<close>

fun unit_index :: "pricing_unit \<Rightarrow> nat" where
  "unit_index Image = 0" | "unit_index InputToken = 1" | "unit_index OutputToken = 2"
| "unit_index Request = 3" | "unit_index ResultUnit = 4" | "unit_index Page = 5" | "unit_index Second = 6"
| "unit_index Megapixel = 7" | "unit_index AdditionalMegapixel = 8" | "unit_index InputImage = 9"
| "unit_index InputMegapixel = 10"

lemma unit_index_inj: "unit_index u = unit_index v \<Longrightarrow> u = v"
  by (cases u; cases v) simp_all

instantiation pricing_unit :: linorder
begin

definition less_eq_pricing_unit :: "pricing_unit \<Rightarrow> pricing_unit \<Rightarrow> bool" where
  "less_eq_pricing_unit u v \<longleftrightarrow> unit_index u \<le> unit_index v"

definition less_pricing_unit :: "pricing_unit \<Rightarrow> pricing_unit \<Rightarrow> bool" where
  "less_pricing_unit u v \<longleftrightarrow> unit_index u < unit_index v"

instance
  by standard (auto simp: less_eq_pricing_unit_def less_pricing_unit_def intro: unit_index_inj)

end

fun quantity_name :: "pricing_unit \<Rightarrow> string option" where
  "quantity_name Image = Some ''image_count''"
| "quantity_name InputToken = Some ''input_tokens''"
| "quantity_name OutputToken = Some ''max_output_tokens''"
| "quantity_name Request = None"
| "quantity_name ResultUnit = Some ''results''"
| "quantity_name Page = Some ''pages''"
| "quantity_name Second = Some ''seconds''"
| "quantity_name Megapixel = Some ''megapixels''"
| "quantity_name AdditionalMegapixel = Some ''additional_megapixels''"
| "quantity_name InputImage = Some ''input_images''"
| "quantity_name InputMegapixel = Some ''input_megapixels''"

definition prices_inputs :: "pricing_unit \<Rightarrow> bool" where
  "prices_inputs u \<longleftrightarrow> u = InputImage \<or> u = InputMegapixel"

definition prices_images_only :: "pricing_unit list \<Rightarrow> bool" where
  "prices_images_only all_units =
     (let us = filter (\<lambda>u. \<not> prices_inputs u) all_units in
      us = [Image]
      \<or> us \<noteq> []
        \<and> list_ex (\<lambda>u. u = Megapixel \<or> u = AdditionalMegapixel) us
        \<and> list_all (\<lambda>u. u = Image \<or> u = Megapixel \<or> u = AdditionalMegapixel) us)"

definition allows_zero :: "pricing_unit \<Rightarrow> bool" where
  "allows_zero u \<longleftrightarrow> u = AdditionalMegapixel"

definition REQUEST_QUANTITIES :: "string list" where
  "REQUEST_QUANTITIES =
     [''image_count'', ''input_tokens'', ''max_output_tokens'', ''results'', ''pages'', ''seconds'',
      ''megapixels'', ''additional_megapixels'', ''input_images'', ''input_megapixels'']"

type_synonym pricing_selector = "(string, string) btmap"

definition IMAGE_SIZE_SELECTOR :: string where
  "IMAGE_SIZE_SELECTOR = ''image_size''"

definition IMAGE_SIZES :: "string list" where
  "IMAGE_SIZES = [''768sq'', ''1k'', ''1.5k'', ''2k'', ''4k'']"

definition valid_selector_key :: "string \<Rightarrow> bool" where
  "valid_selector_key key \<longleftrightarrow>
     length key \<le> 64
     \<and> (case key of
          [] \<Rightarrow> False
        | c # rest \<Rightarrow> is_ascii_lowercase c
            \<and> list_all (\<lambda>c. is_ascii_lowercase c \<or> is_ascii_digit c \<or> c = CHR ''_'') rest)"

definition invalid_selector :: "contract_error + 'a" where
  "invalid_selector = Inl (Malformed ''invalid pricing selector'')"

definition is_ascii_alphanumeric :: "char \<Rightarrow> bool" where
  "is_ascii_alphanumeric c \<longleftrightarrow> is_ascii_lowercase c \<or> is_ascii_uppercase c \<or> is_ascii_digit c"

definition normalize_selector_value :: "string \<Rightarrow> contract_error + string" where
  "normalize_selector_value v =
     (let v = map to_ascii_lowercase (trim v) in
      if v = [] \<or> 64 < length v
         \<or> \<not> list_all (\<lambda>c. is_ascii_alphanumeric c \<or> c \<in> set ''_-.:'') v
      then invalid_selector else Inr v)"

definition normalize_image_size :: "string \<Rightarrow> contract_error + string" where
  "normalize_image_size v =
     (let v = map to_ascii_lowercase (trim v) in
      if v \<in> set IMAGE_SIZES then Inr v else Inl (Malformed ''invalid image_size''))"

definition selector_image_size :: "pricing_selector \<Rightarrow> string option" where
  "selector_image_size s = bt_get s IMAGE_SIZE_SELECTOR"

fun try_map :: "('a \<Rightarrow> 'e + 'b) \<Rightarrow> 'a list \<Rightarrow> 'e + 'b list" where
  "try_map f [] = Inr []"
| "try_map f (x # xs) = and_then (f x) (\<lambda>y. and_then (try_map f xs) (\<lambda>ys. Inr (y # ys)))"

text \<open>The keys stay as they are, so the collected map has the same order.\<close>

definition normalized_entry :: "string \<times> string \<Rightarrow> contract_error + string \<times> string" where
  "normalized_entry e =
     (case e of (key, v) \<Rightarrow>
        if \<not> valid_selector_key key then invalid_selector
        else and_then (if key = IMAGE_SIZE_SELECTOR then normalize_image_size v else normalize_selector_value v)
               (\<lambda>v. Inr (key, v)))"

definition selector_normalized :: "pricing_selector \<Rightarrow> contract_error + pricing_selector" where
  "selector_normalized s = try_map normalized_entry s"

section \<open>The catalog\<close>

record price_component =
  pcm_unit :: pricing_unit
  pcm_rate_numerator_minor :: int
  pcm_rate_denominator :: int

record pricing_rule =
  prl_rule_id :: string
  prl_provider :: string
  prl_model :: string
  prl_workload_type :: "string option"
  prl_currency :: string
  prl_selector :: "pricing_selector option"
  prl_components :: "price_component list"

record catalog_document =
  doc_schema_version :: int
  doc_catalog_version :: string
  doc_rules :: "pricing_rule list"

record frozen_catalog =
  cat_version :: string
  cat_digest :: string
  cat_rules :: "pricing_rule list"

definition DEFAULT_WORKLOAD_TYPE :: string where
  "DEFAULT_WORKLOAD_TYPE = ''image_generation''"

definition SUPPORTED_CURRENCIES :: "string list" where
  "SUPPORTED_CURRENCIES = [''USD'']"

definition normalized_field :: "string \<Rightarrow> string \<Rightarrow> contract_error + string" where
  "normalized_field v field =
     (let v = trim v in
      if v = [] \<or> 255 < length v then Inl (Malformed (''invalid '' @ field)) else Inr v)"

text \<open>Each rule is brought into its canonical form.\<close>

definition normalize_rule :: "pricing_rule \<Rightarrow> contract_error + pricing_rule" where
  "normalize_rule r =
     and_then (normalized_field (prl_rule_id r) ''rule_id'') (\<lambda>rule_id.
     and_then (normalized_field (prl_provider r) ''provider'') (\<lambda>provider.
     and_then (normalized_field (prl_model r) ''model'') (\<lambda>model.
     and_then (case prl_workload_type r of
                 None \<Rightarrow> Inr None
               | Some w \<Rightarrow> and_then (normalized_field w ''workload_type'') (\<lambda>w. Inr (Some w))) (\<lambda>workload.
     and_then (case prl_selector r of
                 None \<Rightarrow> Inr None
               | Some s \<Rightarrow> if s = [] then Inl (Malformed ''empty pricing selector'')
                           else and_then (selector_normalized s) (\<lambda>s. Inr (Some s))) (\<lambda>selector.
     Inr \<lparr>prl_rule_id = rule_id, prl_provider = provider, prl_model = model, prl_workload_type = workload,
          prl_currency = map to_ascii_uppercase (trim (prl_currency r)), prl_selector = selector,
          prl_components = sort_key pcm_unit (prl_components r)\<rparr>)))))"

type_synonym rule_key = "string \<times> string \<times> string option \<times> pricing_selector option"

definition rule_key :: "pricing_rule \<Rightarrow> rule_key" where
  "rule_key r = (prl_provider r, prl_model r, prl_workload_type r, prl_selector r)"

definition check_rule ::
  "string list \<times> rule_key list \<Rightarrow> pricing_rule \<Rightarrow> contract_error + (string list \<times> rule_key list)" where
  "check_rule seen r =
     (case seen of (ids, selectors) \<Rightarrow>
        if prl_rule_id r \<in> set ids then Inl (Malformed ''duplicate rule_id'')
        else if prl_currency r \<notin> set SUPPORTED_CURRENCIES then Inl (Malformed ''unsupported currency'')
        else if prl_components r = [] then Inl (Malformed ''invalid v2 rule shape'')
        else if list_ex (\<lambda>c. pcm_rate_numerator_minor c < 0 \<or> pcm_rate_denominator c \<le> 0) (prl_components r)
        then Inl (Malformed ''invalid rate'')
        else if \<not> distinct (map pcm_unit (prl_components r)) then Inl (Malformed ''duplicate price component'')
        else if (case prl_selector r of None \<Rightarrow> False | Some s \<Rightarrow> selector_image_size s \<noteq> None)
                \<and> \<not> prices_images_only (map pcm_unit (prl_components r))
        then Inl (Malformed ''image selector requires image or megapixel components only'')
        else if rule_key r \<in> set selectors then Inl AmbiguousRule
        else Inr (prl_rule_id r # ids, rule_key r # selectors))"

definition same_target :: "pricing_rule \<Rightarrow> pricing_rule \<Rightarrow> bool" where
  "same_target r other \<longleftrightarrow>
     prl_provider other = prl_provider r \<and> prl_model other = prl_model r
     \<and> prl_workload_type other = prl_workload_type r"

definition catalog_from_document ::
  "(catalog_document \<Rightarrow> string) \<Rightarrow> catalog_document \<Rightarrow> contract_error + frozen_catalog" where
  "catalog_from_document digest doc =
     (if doc_schema_version doc \<noteq> 2 \<or> is_blank (doc_catalog_version doc) \<or> doc_rules doc = []
      then Inl (Malformed ''unsupported schema, empty version, or no rules'')
      else
        let version = trim (doc_catalog_version doc) in
        and_then (try_map normalize_rule (doc_rules doc)) (\<lambda>rules.
        let rules = sort_key (\<lambda>r. [prl_provider r, prl_model r, prl_rule_id r]) rules in
        and_then (try_fold check_rule ([], []) rules) (\<lambda>_.
        if list_ex (\<lambda>r. prl_selector r = None \<and> 1 < length (filter (same_target r) rules)) rules
        then Inl AmbiguousRule
        else Inr \<lparr>cat_version = version,
                  cat_digest = digest (doc\<lparr>doc_catalog_version := version, doc_rules := rules\<rparr>),
                  cat_rules = rules\<rparr>)))"

definition catalog_from_json ::
  "(catalog_document \<Rightarrow> string) \<Rightarrow> (string \<Rightarrow> string + catalog_document) \<Rightarrow> string
     \<Rightarrow> contract_error + frozen_catalog" where
  "catalog_from_json digest parse bytes =
     and_then (map_err Malformed (parse bytes)) (catalog_from_document digest)"

definition rule_prices :: "frozen_catalog \<Rightarrow> pricing_rule \<Rightarrow> string \<Rightarrow> string \<Rightarrow> string \<Rightarrow> bool" where
  "rule_prices cat r provider model workload \<longleftrightarrow>
     prl_provider r = provider \<and> prl_model r = model
     \<and> (case prl_workload_type r of
          Some named \<Rightarrow> named = workload
        | None \<Rightarrow> \<not> list_ex (\<lambda>other. prl_provider other = provider \<and> prl_model other = model
                              \<and> prl_workload_type other = Some workload) (cat_rules cat))"

end
