(* ===== verification/Gongbu_Snapshot.thy ===== *)
theory Gongbu_Snapshot
  imports Gongbu_Pricing
begin

text \<open>
  \<^verbatim>\<open>crates/gongbu-api/src/provider/contract.rs\<close>, continued: the priced request, the snapshot that freezes
  its price with its wire forms of schema 2 and 3, the check against an authorization, and the settlement
  of a provider's usage. An operation that runs the conversion of a price into a decimal returns an
  option, whose \<open>None\<close> is a loop that does not end.
\<close>

section \<open>Requests\<close>

record output_dimensions =
  dim_width :: int
  dim_height :: int

record normalized_request =
  nr_provider :: string
  nr_model :: string
  nr_workload_type :: "string option"
  nr_quantities :: "(string, int) btmap"
  nr_selector :: pricing_selector
  nr_output_dimensions :: "output_dimensions option"

record target_key =
  tg_workload_type :: string
  tg_provider :: string
  tg_adapter :: string
  tg_model :: string

definition request_workload :: "normalized_request \<Rightarrow> string" where
  "request_workload r = (case nr_workload_type r of None \<Rightarrow> DEFAULT_WORKLOAD_TYPE | Some w \<Rightarrow> w)"

definition zero_dimensions :: "output_dimensions option \<Rightarrow> bool" where
  "zero_dimensions dims = (case dims of None \<Rightarrow> False | Some d \<Rightarrow> dim_width d = 0 \<or> dim_height d = 0)"

definition request_validate :: "normalized_request \<Rightarrow> contract_error + unit" where
  "request_validate r =
     (if is_blank (nr_provider r) \<or> is_blank (nr_model r) then Inl IndeterminableCost
      else if list_ex (\<lambda>(name, v). name \<notin> set REQUEST_QUANTITIES \<or> v < 0) (nr_quantities r)
      then Inl IndeterminableCost
      else if selector_normalized (nr_selector r) \<noteq> Inr (nr_selector r) then Inl IndeterminableCost
      else if zero_dimensions (nr_output_dimensions r) then Inl IndeterminableCost
      else Inr ())"

definition request_quantity_for :: "normalized_request \<Rightarrow> pricing_unit \<Rightarrow> contract_error + int" where
  "request_quantity_for r u =
     (case quantity_name u of
        None \<Rightarrow> Inr 1
      | Some name \<Rightarrow>
          (case bt_get (nr_quantities r) name of
             None \<Rightarrow> Inl IndeterminableCost
           | Some v \<Rightarrow> if 0 < v \<or> (v = 0 \<and> allows_zero u) then Inr v else Inl IndeterminableCost))"

section \<open>Snapshots\<close>

record frozen_component =
  fpc_unit :: pricing_unit
  fpc_rate_numerator_minor :: int
  fpc_rate_denominator :: int
  fpc_quantity :: int

record pricing_snapshot =
  snap_schema_version :: int
  snap_provider :: string
  snap_model :: string
  snap_catalog_version :: string
  snap_catalog_digest :: string
  snap_pricing_rule_id :: string
  snap_selector :: "pricing_selector option"
  snap_output_dimensions :: "output_dimensions option"
  snap_components :: "frozen_component list"
  snap_exact_estimate_numerator :: string
  snap_exact_estimate_denominator :: string
  snap_estimated_units :: int
  snap_currency :: string

text \<open>The price of one component, added to the sum so far.\<close>

definition add_price :: "int \<Rightarrow> int \<Rightarrow> int \<Rightarrow> rational \<Rightarrow> contract_error + rational" where
  "add_price n d quantity exact =
     and_then (rational_new n d) (\<lambda>rate. and_then (rational_mul rate quantity) (rational_add exact))"

definition freeze_component ::
  "normalized_request \<Rightarrow> rational \<times> frozen_component list \<Rightarrow> price_component
     \<Rightarrow> contract_error + (rational \<times> frozen_component list)" where
  "freeze_component request acc c =
     (case acc of (exact, frozen) \<Rightarrow>
        and_then (request_quantity_for request (pcm_unit c)) (\<lambda>quantity.
        and_then (add_price (pcm_rate_numerator_minor c) (pcm_rate_denominator c) quantity exact) (\<lambda>exact.
        Inr (exact, frozen @ [\<lparr>fpc_unit = pcm_unit c, fpc_rate_numerator_minor = pcm_rate_numerator_minor c,
                               fpc_rate_denominator = pcm_rate_denominator c, fpc_quantity = quantity\<rparr>]))))"

definition rule_for_request :: "frozen_catalog \<Rightarrow> normalized_request \<Rightarrow> pricing_rule \<Rightarrow> bool" where
  "rule_for_request cat request r \<longleftrightarrow>
     rule_prices cat r (nr_provider request) (nr_model request) (request_workload request)"

definition selected_rule :: "frozen_catalog \<Rightarrow> normalized_request \<Rightarrow> contract_error + pricing_rule" where
  "selected_rule cat request =
     (case filter (\<lambda>r. rule_for_request cat request r
                       \<and> (case prl_selector r of
                            Some s \<Rightarrow> s = nr_selector request
                          | None \<Rightarrow> nr_selector request = [])) (cat_rules cat) of
        [] \<Rightarrow> Inl UnsupportedTarget
      | [r] \<Rightarrow>
          if list_ex (\<lambda>r. rule_for_request cat request r \<and> prl_selector r \<noteq> None) (cat_rules cat)
             \<and> prl_selector r = None
          then Inl IndeterminableCost else Inr r
      | _ \<Rightarrow> Inl AmbiguousRule)"

definition catalog_snapshot :: "frozen_catalog \<Rightarrow> normalized_request \<Rightarrow> contract_error + pricing_snapshot" where
  "catalog_snapshot cat request =
     and_then (request_validate request) (\<lambda>_.
     and_then (selected_rule cat request) (\<lambda>rule.
     and_then (try_fold (freeze_component request) (rational_zero, []) (prl_components rule)) (\<lambda>(exact, frozen).
     and_then (to_units_ceil exact) (\<lambda>estimated_units.
     Inr \<lparr>snap_schema_version = 3, snap_provider = nr_provider request, snap_model = nr_model request,
          snap_catalog_version = cat_version cat, snap_catalog_digest = cat_digest cat,
          snap_pricing_rule_id = prl_rule_id rule, snap_selector = prl_selector rule,
          snap_output_dimensions = nr_output_dimensions request, snap_components = frozen,
          snap_exact_estimate_numerator = show_int (rat_n exact),
          snap_exact_estimate_denominator = show_int (rat_d exact),
          snap_estimated_units = estimated_units, snap_currency = prl_currency rule\<rparr>))))"

definition snapshot_for_target ::
  "frozen_catalog \<Rightarrow> target_key \<Rightarrow> normalized_request \<Rightarrow> contract_error + pricing_snapshot" where
  "snapshot_for_target cat target request =
     (if nr_provider request \<noteq> tg_provider target \<or> nr_model request \<noteq> tg_model target
         \<or> request_workload request \<noteq> tg_workload_type target
      then Inl UnsupportedTarget
      else catalog_snapshot cat request)"

definition supports_target :: "frozen_catalog \<Rightarrow> target_key \<Rightarrow> bool" where
  "supports_target cat target =
     list_ex (\<lambda>r. rule_prices cat r (tg_provider target) (tg_model target) (tg_workload_type target)) (cat_rules cat)"

section \<open>The wire forms\<close>

record snapshot_wire =
  wire_snapshot :: pricing_snapshot
  wire_estimated_amount_minor :: "int option"
  wire_estimated_units :: "int option"

text \<open>All other fields are copied in both directions; \<open>wire_snapshot\<close> carries them.\<close>

definition snapshot_try_from :: "snapshot_wire \<Rightarrow> string + pricing_snapshot" where
  "snapshot_try_from w =
     (let version = snap_schema_version (wire_snapshot w) in
      and_then
        (if version = 2
         then (case (wire_estimated_amount_minor w, wire_estimated_units w) of
                 (Some minor, None) \<Rightarrow>
                   ok_or ''schema 2 pricing estimate is out of range'' (checked_mul_i64 minor UNITS_PER_MINOR)
               | _ \<Rightarrow> Inl ''schema 2 pricing snapshots carry estimated_amount_minor'')
         else if version = 3
         then (case (wire_estimated_amount_minor w, wire_estimated_units w) of
                 (None, Some units) \<Rightarrow> Inr units
               | _ \<Rightarrow> Inl ''schema 3 pricing snapshots carry estimated_units'')
         else Inl (''unsupported pricing snapshot schema '' @ show_int version))
        (\<lambda>units. Inr ((wire_snapshot w)\<lparr>snap_estimated_units := units\<rparr>)))"

definition snapshot_into_wire :: "pricing_snapshot \<Rightarrow> snapshot_wire" where
  "snapshot_into_wire s =
     (let (minor, units) =
            (if snap_schema_version s = 2 then (Some (trunc_div (snap_estimated_units s) UNITS_PER_MINOR), None)
             else (None, Some (snap_estimated_units s)))
      in \<lparr>wire_snapshot = s, wire_estimated_amount_minor = minor, wire_estimated_units = units\<rparr>)"

section \<open>Integrity\<close>

definition effective_components :: "pricing_snapshot \<Rightarrow> contract_error + frozen_component list" where
  "effective_components s =
     (if snap_schema_version s \<in> {2, 3} \<and> snap_components s \<noteq> [] then Inr (snap_components s)
      else Inl IndeterminableCost)"

definition exact_estimate :: "pricing_snapshot \<Rightarrow> contract_error + rational" where
  "exact_estimate s =
     and_then (indeterminable (parse_i128 (snap_exact_estimate_numerator s))) (\<lambda>n.
     and_then (indeterminable (parse_i128 (snap_exact_estimate_denominator s))) (\<lambda>d.
     if n < 0 \<or> d \<le> 0 then Inl IndeterminableCost
     else and_then (effective_components s) (\<lambda>components.
     and_then (try_fold (\<lambda>exact c. add_price (fpc_rate_numerator_minor c) (fpc_rate_denominator c)
                                     (fpc_quantity c) exact) rational_zero components) (\<lambda>recomputed.
     if recomputed \<noteq> \<lparr>rat_n = n, rat_d = d\<rparr> then Inl IndeterminableCost else Inr recomputed))))"

definition is_ascii_hexdigit :: "char \<Rightarrow> bool" where
  "is_ascii_hexdigit c \<longleftrightarrow> is_ascii_digit c
     \<or> 65 \<le> (of_char c :: nat) \<and> (of_char c :: nat) \<le> 70 \<or> 97 \<le> (of_char c :: nat) \<and> (of_char c :: nat) \<le> 102"

definition digest_ok :: "string \<Rightarrow> bool" where
  "digest_ok d \<longleftrightarrow>
     prefix ''sha256:'' d \<and> length (drop 7 d) = 64 \<and> list_all is_ascii_hexdigit (drop 7 d)"

definition component_ok :: "frozen_component \<Rightarrow> bool" where
  "component_ok c \<longleftrightarrow>
     \<not> (fpc_rate_numerator_minor c < 0 \<or> fpc_rate_denominator c \<le> 0 \<or> fpc_quantity c < 0
        \<or> (fpc_quantity c = 0 \<and> \<not> allows_zero (fpc_unit c)))"

definition validate_integrity :: "pricing_snapshot \<Rightarrow> contract_error + unit" where
  "validate_integrity s =
     (if snap_schema_version s \<notin> {2, 3} \<or> is_blank (snap_provider s) \<or> is_blank (snap_model s)
         \<or> is_blank (snap_catalog_version s) \<or> is_blank (snap_pricing_rule_id s)
         \<or> \<not> digest_ok (snap_catalog_digest s) \<or> snap_currency s \<notin> set SUPPORTED_CURRENCIES
         \<or> snap_estimated_units s < 0
      then Inl IndeterminableCost
      else if (case snap_selector s of None \<Rightarrow> False | Some sel \<Rightarrow> sel = [] \<or> selector_normalized sel \<noteq> Inr sel)
      then Inl IndeterminableCost
      else
        let image_size = Option.bind (snap_selector s) selector_image_size in
        if zero_dimensions (snap_output_dimensions s) then Inl IndeterminableCost
        else and_then (effective_components s) (\<lambda>components.
        if \<not> (list_all component_ok components \<and> distinct (map fpc_unit components))
           \<or> (image_size \<noteq> None \<and> \<not> prices_images_only (map fpc_unit components))
        then Inl IndeterminableCost
        else and_then (exact_estimate s) (\<lambda>exact.
        and_then (if snap_schema_version s = 2
                  then and_then (ceil_i64 exact) (\<lambda>minor. indeterminable (checked_mul_i64 minor UNITS_PER_MINOR))
                  else to_units_ceil exact) (\<lambda>expected.
        if expected \<noteq> snap_estimated_units s then Inl IndeterminableCost else Inr ()))))"

definition check_authorization :: "pricing_snapshot \<Rightarrow> int \<Rightarrow> string \<Rightarrow> contract_error + unit" where
  "check_authorization s authorized_units currency =
     and_then (validate_integrity s) (\<lambda>_.
     if authorized_units < 0 \<or> \<not> eq_ignore_ascii_case (snap_currency s) currency
        \<or> authorized_units < snap_estimated_units s
     then Inl InsufficientAuthorization else Inr ())"

section \<open>Settlement\<close>

record normalized_usage =
  us_images :: "int option"
  us_input_tokens :: "int option"
  us_output_tokens :: "int option"
  us_results :: "int option"
  us_pages :: "int option"
  us_seconds :: "int option"
  us_megapixels :: "int option"
  us_additional_megapixels :: "int option"
  us_input_images :: "int option"
  us_input_megapixels :: "int option"

fun usage_field :: "normalized_usage \<Rightarrow> pricing_unit \<Rightarrow> int option" where
  "usage_field us Image = us_images us"
| "usage_field us InputToken = us_input_tokens us"
| "usage_field us OutputToken = us_output_tokens us"
| "usage_field us Request = Some 1"
| "usage_field us ResultUnit = us_results us"
| "usage_field us Page = us_pages us"
| "usage_field us Second = us_seconds us"
| "usage_field us Megapixel = us_megapixels us"
| "usage_field us AdditionalMegapixel = us_additional_megapixels us"
| "usage_field us InputImage = us_input_images us"
| "usage_field us InputMegapixel = us_input_megapixels us"

definition usage_quantity_for :: "normalized_usage \<Rightarrow> pricing_unit \<Rightarrow> int option" where
  "usage_quantity_for us u =
     (case usage_field us u of None \<Rightarrow> None | Some v \<Rightarrow> if 0 \<le> v then Some v else None)"

record precise_settlement =
  pst_actual_vendor_cost :: actual_vendor_cost
  pst_budget_units :: int

definition usage_price :: "normalized_usage \<Rightarrow> rational \<Rightarrow> frozen_component \<Rightarrow> contract_error + rational" where
  "usage_price us exact c =
     and_then (indeterminable (usage_quantity_for us (fpc_unit c))) (\<lambda>quantity.
     if fpc_quantity c < quantity then Inl SettlementOverage
     else add_price (fpc_rate_numerator_minor c) (fpc_rate_denominator c) quantity exact)"

definition settled_cost ::
  "pricing_snapshot \<Rightarrow> actual_vendor_cost option \<Rightarrow> rational \<Rightarrow> (contract_error + actual_vendor_cost) option" where
  "settled_cost s provider_cost exact =
     (case provider_cost of
        Some cost \<Rightarrow>
          Some (and_then (cost_validate cost) (\<lambda>_.
                if ac_currency cost \<noteq> snap_currency s then Inl IndeterminableCost else Inr cost))
      | None \<Rightarrow> to_actual_vendor_cost exact (snap_currency s))"

definition settle_precise ::
  "pricing_snapshot \<Rightarrow> normalized_usage \<Rightarrow> actual_vendor_cost option \<Rightarrow> int
     \<Rightarrow> (contract_error + precise_settlement) option" where
  "settle_precise s us provider_cost authorized_units =
     (case and_then (validate_integrity s) (\<lambda>_.
           and_then (effective_components s) (try_fold (usage_price us) rational_zero)) of
        Inl e \<Rightarrow> Some (Inl e)
      | Inr exact \<Rightarrow>
          map_option (\<lambda>r. and_then r (\<lambda>cost.
            and_then (to_budget_units cost (snap_currency s)) (\<lambda>units.
            if snap_estimated_units s < units \<or> authorized_units < units then Inl SettlementOverage
            else Inr \<lparr>pst_actual_vendor_cost = cost, pst_budget_units = units\<rparr>)))
            (settled_cost s provider_cost exact))"

definition settle_from_quote ::
  "pricing_snapshot \<Rightarrow> normalized_usage \<Rightarrow> int \<Rightarrow> (contract_error + precise_settlement) option" where
  "settle_from_quote s us authorized_units =
     (case and_then (validate_integrity s) (\<lambda>_. exact_estimate s) of
        Inl e \<Rightarrow> Some (Inl e)
      | Inr exact \<Rightarrow>
          Option.bind (to_actual_vendor_cost exact (snap_currency s)) (\<lambda>r.
            case r of
              Inl e \<Rightarrow> Some (Inl e)
            | Inr quote \<Rightarrow> settle_precise s us (Some quote) authorized_units))"

end
