(* ===== verification/Gongbu_Provider.thy ===== *)
theory Gongbu_Provider
  imports Gongbu_Snapshot
begin

text \<open>
  \<^verbatim>\<open>crates/gongbu-api/src/provider/contract.rs\<close>, the boundary to a provider: what an adapter reports,
  the checkpoint of an asynchronous operation with its validation, the deadline under which it may be
  inspected again.
\<close>

section \<open>Asynchronous operations\<close>

record polling_recovery_context =
  prc_schema_version :: int
  prc_policy_version :: string
  prc_scheme :: "string option"
  prc_normalized_host :: "string option"
  prc_explicit_port :: "int option"
  prc_endpoint_shape :: string
  prc_query_keys :: "string list"
  prc_url_fingerprint :: string
  prc_validation_reason :: "string option"

record async_provider_operation =
  apo_provider_request_id :: "string option"
  apo_provider_operation_id :: string
  apo_polling_host :: string
  apo_polling_recovery :: "polling_recovery_context option"
  apo_deadline_unix_ms :: int

definition POLLING_RECOVERY_MIN_REINSPECT_WINDOW_MS :: int where
  "POLLING_RECOVERY_MIN_REINSPECT_WINDOW_MS = 1000"

definition polling_deadline_allows_reinspect :: "int \<Rightarrow> int \<Rightarrow> bool" where
  "polling_deadline_allows_reinspect deadline_unix_ms now_unix_ms \<longleftrightarrow>
     (case checked_sub_i64 deadline_unix_ms now_unix_ms of
        None \<Rightarrow> False | Some remaining \<Rightarrow> POLLING_RECOVERY_MIN_REINSPECT_WINDOW_MS \<le> remaining)"

definition some_fails :: "('a \<Rightarrow> bool) \<Rightarrow> 'a option \<Rightarrow> bool" where
  "some_fails ok v \<longleftrightarrow> (case v of None \<Rightarrow> False | Some x \<Rightarrow> \<not> ok x)"

definition safe_token :: "nat \<Rightarrow> string \<Rightarrow> bool" where
  "safe_token limit v \<longleftrightarrow>
     v \<noteq> [] \<and> length v \<le> limit
     \<and> list_all (\<lambda>c. is_ascii_lowercase c \<or> is_ascii_digit c \<or> c \<in> set ''-_./:'') v"

definition recovery_context_validate :: "polling_recovery_context \<Rightarrow> contract_error + unit" where
  "recovery_context_validate c =
     (if prc_schema_version c \<noteq> 1 \<or> \<not> safe_token 64 (prc_policy_version c)
         \<or> some_fails (safe_token 16) (prc_scheme c)
         \<or> some_fails (safe_token 253) (prc_normalized_host c)
         \<or> \<not> safe_token 64 (prc_endpoint_shape c)
         \<or> 8 < length (prc_query_keys c) \<or> \<not> list_all (safe_token 64) (prc_query_keys c)
         \<or> length (prc_url_fingerprint c) \<noteq> 71 \<or> \<not> prefix ''sha256:'' (prc_url_fingerprint c)
         \<or> \<not> list_all (\<lambda>c. is_ascii_hexdigit c \<and> \<not> is_ascii_uppercase c) (drop 7 (prc_url_fingerprint c))
         \<or> some_fails (safe_token 64) (prc_validation_reason c)
      then Inl (ProviderError ''invalid_provider_operation'') else Inr ())"

definition safe_evidence :: "string \<Rightarrow> bool" where
  "safe_evidence v \<longleftrightarrow>
     v \<noteq> [] \<and> length v \<le> 255 \<and> trim v = v
     \<and> list_all (\<lambda>c. is_ascii_alphanumeric c \<or> c \<in> set ''-_.:'') v"

definition operation_validate :: "async_provider_operation \<Rightarrow> contract_error + unit" where
  "operation_validate p =
     (let host = apo_polling_host p in
      if \<not> safe_evidence (apo_provider_operation_id p)
         \<or> some_fails safe_evidence (apo_provider_request_id p)
         \<or> host = [] \<or> 253 < length host
         \<or> list_ex (\<lambda>c. \<not> (is_ascii_lowercase c \<or> is_ascii_digit c \<or> c \<in> set ''-.'')) host
         \<or> hd host \<in> set ''-.'' \<or> last host \<in> set ''-.'' \<or> sublist ''..'' host
         \<or> apo_deadline_unix_ms p \<le> 0
         \<or> some_fails (\<lambda>c. recovery_context_validate c = Inr ()) (apo_polling_recovery p)
      then Inl (ProviderError ''invalid_provider_operation'') else Inr ())"

section \<open>Outcomes\<close>

datatype contract_cost_basis = LegacyUnspecified | ProviderReported | CatalogUsage | FrozenQuote

definition cost_basis_for_outcome :: "actual_vendor_cost option \<Rightarrow> string option \<Rightarrow> contract_cost_basis" where
  "cost_basis_for_outcome cost billing_failure =
     (if billing_failure = Some ''pack_response_cost_missing'' then FrozenQuote
      else if cost \<noteq> None then ProviderReported else CatalogUsage)"

datatype provider_transport_interaction = PollTransport | ArtifactFetchTransport

record normalized_artifact =
  na_media_type :: string
  na_bytes :: "char list"

record adapter_outcome =
  ao_billing_failure :: "string option"
  ao_usage :: "normalized_usage option"
  ao_actual_vendor_cost :: "actual_vendor_cost option"
  ao_provider_request_id :: "string option"
  ao_provider_operation_id :: "string option"
  ao_artifacts :: "normalized_artifact list"

definition known_billing_failure :: "string \<Rightarrow> bool" where
  "known_billing_failure code \<longleftrightarrow> code = ''pack_response_cost_missing'' \<or> code = ''pack_response_cost_invalid''"

definition outcome_validate :: "adapter_outcome \<Rightarrow> contract_error + unit" where
  "outcome_validate p =
     (if some_fails (\<lambda>code. known_billing_failure code \<and> ao_actual_vendor_cost p = None) (ao_billing_failure p)
      then Inl IndeterminableCost
      else if some_fails (\<lambda>cost. cost_validate cost = Inr ()) (ao_actual_vendor_cost p)
      then Inl IndeterminableCost
      else if ao_usage p = None \<or> ao_artifacts p = []
              \<or> ao_provider_request_id p = None \<and> ao_provider_operation_id p = None
              \<or> some_fails (\<lambda>v. \<not> is_blank v) (ao_provider_request_id p)
              \<or> some_fails (\<lambda>v. \<not> is_blank v) (ao_provider_operation_id p)
      then Inl (ProviderError ''invalid_provider_success'')
      else Inr ())"

lemma some_fails_simps [simp]:
  "\<not> some_fails ok None"
  "some_fails ok (Some v) \<longleftrightarrow> \<not> ok v"
  by (simp_all add: some_fails_def)

end
