(* ===== verification/Gongbu_Store.thy ===== *)
theory Gongbu_Store
  imports Gongbu_Provider Hash_Map
begin

text \<open>
  \<^verbatim>\<open>crates/gongbu-api/src/execution/mod.rs\<close>, the durable aggregate of one execution: its row, its
  provider attempt with staged and stored artifacts, its receipt and its reconciliation record. The
  tables are maps with the unique indexes and checks of the schema that a write can hit; a write answers
  its result with the new tables, or an error, which leaves them as they were.

  JSON columns are the typed values they decode to: \<open>usage\<close> and the recovery context always decode,
  since only encoded values are written; a pricing snapshot that does not decode is \<open>None\<close>. The evidence of a reconciliation record,
  a report of the other rows, is not kept. The failure messages of updates and results are left out:
  no caller passes one.
\<close>

section \<open>JSON values\<close>

text \<open>The members of an object have distinct keys and stand in the order of the keys, as the sorted map of the code
  keeps them, so that equal objects are equal lists.\<close>

datatype json =
    JsonNull
  | JsonBool bool
  | JsonNumber string
  | JsonString string
  | JsonArray "json list"
  | JsonObject "(string \<times> json) list"

definition BAD_KEYS :: "string list" where
  "BAD_KEYS = [''token'', ''authorization'', ''api_key'', ''apikey'', ''secret'', ''password'', ''credential'']"

fun secret_bearing :: "json \<Rightarrow> bool" where
  "secret_bearing (JsonObject m) =
     list_ex (\<lambda>(k, v). list_ex (\<lambda>b. sublist b (map to_ascii_lowercase k)) BAD_KEYS \<or> secret_bearing v) m"
| "secret_bearing (JsonArray a) = list_ex secret_bearing a"
| "secret_bearing _ = False"

section \<open>Rows\<close>

datatype store_error =
    DbError string
  | InvalidRow string
  | RowNotFound
  | AmbiguousLegacyToken
  | StaleVersion
  | OverAuthorization
  | LimitExceeded string
  | ForbiddenTransition string string

datatype lifecycle_outcome = OutcomeSucceeded | OutcomeFailed | OutcomeAmbiguous | OutcomeReleased

record execution =
  ex_execution_id :: string
  ex_account_id :: string
  ex_operation_key :: string
  ex_hubu_authorization_id :: string
  ex_hubu_claim_id :: "string option"
  ex_hubu_token_reference :: string
  ex_authorized_units :: int
  ex_authorization_currency :: string
  ex_normalized_input :: json
  ex_input_hash :: string
  ex_input_schema_version :: int
  ex_target :: string
  ex_config_version :: string
  ex_workload_type :: string
  ex_provider :: string
  ex_adapter :: string
  ex_model :: string
  ex_provider_config_version :: string
  ex_provider_config_digest :: string
  ex_pricing_snapshot :: "pricing_snapshot option"
  ex_pricing_schema_version :: int
  ex_execution_scope :: "execution_scope option"
  ex_status :: string
  ex_outcome :: "string option"
  ex_provider_outcome :: "lifecycle_outcome option"
  ex_artifact_outcome :: "lifecycle_outcome option"
  ex_settlement_outcome :: "lifecycle_outcome option"
  ex_failure_code :: "string option"
  ex_failure_message_redacted :: "string option"
  ex_created_at :: string
  ex_updated_at :: string
  ex_started_at :: "string option"
  ex_completed_at :: "string option"
  ex_release_transmission_started_at :: "string option"
  ex_version :: int

record execution_update =
  eu_status :: string
  eu_outcome :: "string option"
  eu_started_at :: "string option"
  eu_completed_at :: "string option"
  eu_failure_code :: "string option"
  eu_provider_outcome :: "lifecycle_outcome option"
  eu_artifact_outcome :: "lifecycle_outcome option"
  eu_settlement_outcome :: "lifecycle_outcome option"

record provider_attempt =
  pa_provider_attempt_id :: string
  pa_execution_id :: string
  pa_provider :: string
  pa_provider_request_id :: "string option"
  pa_provider_operation_id :: "string option"
  pa_provider_polling_host :: "string option"
  pa_provider_recovery_context :: "polling_recovery_context option"
  pa_provider_deadline_unix_ms :: "int option"
  pa_operation_checkpointed_at :: "string option"
  pa_provider_poll_count :: int
  pa_artifact_fetch_count :: int
  pa_outcome :: string
  pa_usage :: "normalized_usage option"
  pa_usage_schema_version :: "int option"
  pa_actual_vendor_cost :: "actual_vendor_cost option"
  pa_failure_code :: "string option"
  pa_failure_message_redacted :: "string option"
  pa_started_at :: string
  pa_transmission_started_at :: "string option"
  pa_completed_at :: "string option"

record attempt_result =
  ar_outcome :: string
  ar_completed_at :: string
  ar_usage :: normalized_usage
  ar_usage_schema_version :: int
  ar_actual_vendor_cost :: "actual_vendor_cost option"
  ar_failure_code :: "string option"
  ar_provider_request_id :: "string option"
  ar_provider_operation_id :: "string option"

record staged_artifact =
  sa_media_type :: string
  sa_bytes :: "char list"

record artifact_row =
  art_artifact_id :: string
  art_execution_id :: string
  art_provider_attempt_id :: "string option"
  art_kind :: string
  art_storage_backend :: string
  art_media_type :: string
  art_storage_key :: string
  art_size_bytes :: int
  art_sha256 :: string
  art_metadata :: json
  art_metadata_schema_version :: int
  art_created_at :: string

record create_receipt_params =
  crp_receipt_id :: string
  crp_execution_id :: string
  crp_provider_attempt_id :: string
  crp_settlement_units :: int
  crp_currency :: string
  crp_pricing_catalog_version :: string
  crp_actual_vendor_cost :: actual_vendor_cost
  crp_created_at :: string
  crp_settled_at :: "string option"
  crp_hubu_settlement_id :: "string option"

record receipt_row =
  rcp_cost_basis :: contract_cost_basis
  rcp_receipt_id :: string
  rcp_execution_id :: string
  rcp_provider_attempt_id :: string
  rcp_settlement_units :: int
  rcp_currency :: string
  rcp_pricing_catalog_version :: string
  rcp_actual_vendor_cost :: actual_vendor_cost
  rcp_provider_request_id :: string
  rcp_price_model_snapshot :: pricing_snapshot
  rcp_created_at :: string
  rcp_transmission_started_at :: "string option"
  rcp_settled_at :: "string option"
  rcp_hubu_settlement_id :: "string option"

record reconciliation_record =
  rec_execution_id :: string
  rec_last_confirmed_step :: string
  rec_entered_at :: string
  rec_updated_at :: string
  rec_automatic_attempts :: int
  rec_last_automatic_attempt_at :: "string option"
  rec_automatic_attempts_exhausted :: bool
  rec_last_operator_action_id :: "string option"
  rec_last_operator_action :: "string option"

text \<open>The authorization an execution was admitted under, as the governance service answered it.\<close>

record hubu_authorization_snapshot =
  has_account_id :: string
  has_agent_id :: string
  has_operation_key :: string
  has_decision_id :: string
  has_spend_auth_token_id :: string
  has_amount_units :: int
  has_currency :: string
  has_execution_scope :: execution_scope
  has_lease_profile :: string
  has_expires_at :: string
  has_authorization_status :: string
  has_task_id :: "string option"
  has_reason :: string

record repository =
  st_executions :: "(string, execution) hmap"
  st_attempts :: "(string, provider_attempt) hmap"
  st_staged :: "(string, staged_artifact list) hmap"
  st_artifacts :: "(string, artifact_row) hmap"
  st_receipts :: "(string, receipt_row) hmap"
  st_reconciliations :: "(string, reconciliation_record) hmap"
  st_operator_actions :: "(string \<times> string, string \<times> string) hmap"
  st_authorizations :: "(string, hubu_authorization_snapshot) hmap"

type_synonym 'a db_write = "repository \<Rightarrow> store_error + ('a \<times> repository)"
text \<open>The registered credentials of the redactor, and the test for one of them in a text.\<close>

type_synonym secrets = "string list"

definition contains_registered_secret :: "secrets \<Rightarrow> string \<Rightarrow> bool" where
  "contains_registered_secret exact text = list_ex (\<lambda>secret. sublist secret text) exact"

section \<open>Shared checks\<close>

definition reject_registered_secrets :: "secrets \<Rightarrow> string list \<Rightarrow> store_error + unit" where
  "reject_registered_secrets secret vs =
     (if list_ex (contains_registered_secret secret) vs then Inl (InvalidRow ''secret-bearing persistence value'') else Inr ())"

definition reject_registered_numbers :: "secrets \<Rightarrow> int list \<Rightarrow> store_error + unit" where
  "reject_registered_numbers secret vs =
     (if list_ex (\<lambda>v. contains_registered_secret secret (show_int v)) vs then Inl (InvalidRow ''secret-bearing persistence value'') else Inr ())"

fun json_contains_registered_secret :: "secrets \<Rightarrow> json \<Rightarrow> bool" where
  "json_contains_registered_secret exact (JsonString v) = contains_registered_secret exact v"
| "json_contains_registered_secret exact (JsonArray vs) = list_ex (json_contains_registered_secret exact) vs"
| "json_contains_registered_secret exact (JsonObject vs) =
     list_ex (\<lambda>(key, v). contains_registered_secret exact key \<or> json_contains_registered_secret exact v) vs"
| "json_contains_registered_secret exact _ = False"

definition reject_registered_json :: "secrets \<Rightarrow> json list \<Rightarrow> store_error + unit" where
  "reject_registered_json secret vs =
     (if list_ex (json_contains_registered_secret secret) vs
      then Inl (InvalidRow ''secret-bearing persistence value'') else Inr ())"

definition safe_json :: "json \<Rightarrow> store_error + unit" where
  "safe_json v = (if secret_bearing v then Inl (InvalidRow ''secret-bearing JSON'') else Inr ())"

definition or_empty :: "string option \<Rightarrow> string" where
  "or_empty v = (case v of None \<Rightarrow> [] | Some s \<Rightarrow> s)"

definition coalesce :: "'a option \<Rightarrow> 'a option \<Rightarrow> 'a option" where
  "coalesce a b = (case a of None \<Rightarrow> b | Some _ \<Rightarrow> a)"

definition EXECUTION_STATUSES :: "string list" where
  "EXECUTION_STATUSES =
     [''pending'', ''preflighting'', ''claimed'', ''executing'', ''settling'', ''succeeded'', ''failed'',
      ''released'', ''reconciliation_required'']"

definition check_status :: "string \<Rightarrow> store_error + unit" where
  "check_status s = (if s \<in> set EXECUTION_STATUSES then Inr () else Inl (InvalidRow ''status''))"

definition allowed_transition :: "string \<Rightarrow> string \<Rightarrow> bool" where
  "allowed_transition from to \<longleftrightarrow>
     from \<notin> {''succeeded'', ''released'', ''failed''}
     \<and> (from, to) \<in>
        {(''pending'', ''preflighting''), (''pending'', ''failed''),
         (''preflighting'', ''claimed''), (''preflighting'', ''failed''),
         (''preflighting'', ''reconciliation_required''),
         (''claimed'', ''executing''), (''claimed'', ''released''), (''claimed'', ''reconciliation_required''),
         (''executing'', ''settling''), (''executing'', ''released''), (''executing'', ''reconciliation_required''),
         (''settling'', ''succeeded''), (''settling'', ''reconciliation_required''),
         (''reconciliation_required'', ''succeeded''), (''reconciliation_required'', ''released''),
         (''reconciliation_required'', ''settling'')}"

section \<open>Reading\<close>

definition get_execution :: "string \<Rightarrow> repository \<Rightarrow> store_error + execution" where
  "get_execution i s = ok_or RowNotFound (hm_get (st_executions s) i)"

definition attempt_of :: "repository \<Rightarrow> string \<Rightarrow> provider_attempt option" where
  "attempt_of s i = find (\<lambda>a. pa_execution_id a = i) (hm_values (st_attempts s))"

definition get_provider_attempt_for_execution :: "string \<Rightarrow> repository \<Rightarrow> store_error + provider_attempt" where
  "get_provider_attempt_for_execution i s = ok_or RowNotFound (attempt_of s i)"

definition get_provider_attempt :: "string \<Rightarrow> repository \<Rightarrow> store_error + provider_attempt" where
  "get_provider_attempt i s = ok_or RowNotFound (hm_get (st_attempts s) i)"

definition get_staged_provider_artifacts :: "string \<Rightarrow> repository \<Rightarrow> store_error + staged_artifact list" where
  "get_staged_provider_artifacts i s = Inr (case hm_get (st_staged s) i of None \<Rightarrow> [] | Some rows \<Rightarrow> rows)"

definition count_artifacts :: "(artifact_row \<Rightarrow> bool) \<Rightarrow> repository \<Rightarrow> nat" where
  "count_artifacts p s = length (filter p (hm_values (st_artifacts s)))"

definition count_artifacts_for_attempt :: "string \<Rightarrow> repository \<Rightarrow> store_error + nat" where
  "count_artifacts_for_attempt i s = Inr (count_artifacts (\<lambda>a. art_provider_attempt_id a = Some i) s)"

definition receipt_of :: "repository \<Rightarrow> string \<Rightarrow> receipt_row option" where
  "receipt_of s i = find (\<lambda>r. rcp_execution_id r = i) (hm_values (st_receipts s))"

definition get_receipt_for_execution :: "string \<Rightarrow> repository \<Rightarrow> store_error + receipt_row" where
  "get_receipt_for_execution i s = ok_or RowNotFound (receipt_of s i)"

definition get_reconciliation :: "string \<Rightarrow> repository \<Rightarrow> store_error + reconciliation_record" where
  "get_reconciliation i s = ok_or RowNotFound (hm_get (st_reconciliations s) i)"

definition provider_operation :: "provider_attempt \<Rightarrow> store_error + async_provider_operation option" where
  "provider_operation a =
     (case (pa_provider_operation_id a, pa_provider_polling_host a, pa_provider_deadline_unix_ms a,
            pa_operation_checkpointed_at a) of
        (None, None, None, None) \<Rightarrow> Inr None
      | (Some operation_id, Some host, Some deadline, Some _) \<Rightarrow>
          let operation = \<lparr>apo_provider_request_id = pa_provider_request_id a,
                apo_provider_operation_id = operation_id, apo_polling_host = host,
                apo_polling_recovery = pa_provider_recovery_context a, apo_deadline_unix_ms = deadline\<rparr>
          in and_then (map_err (\<lambda>_. InvalidRow ''provider operation checkpoint'') (operation_validate operation))
               (\<lambda>_. Inr (Some operation))
      | _ \<Rightarrow> Inl (InvalidRow ''provider operation checkpoint''))"

section \<open>The execution row\<close>

text \<open>An update of the row with this version; every update counts the version up.\<close>

definition put_execution :: "execution \<Rightarrow> repository \<Rightarrow> repository" where
  "put_execution e s = s\<lparr>st_executions := hm_insert (ex_execution_id e) e (st_executions s)\<rparr>"

definition update_where ::
  "string \<Rightarrow> (execution \<Rightarrow> bool) \<Rightarrow> (execution \<Rightarrow> execution) \<Rightarrow> execution db_write" where
  "update_where i p f s =
     (case hm_get (st_executions s) i of
        None \<Rightarrow> Inl StaleVersion
      | Some e \<Rightarrow>
          if p e then let e' = (f e)\<lparr>ex_version := ex_version e + 1\<rparr> in Inr (e', put_execution e' s)
          else Inl StaleVersion)"

definition update_execution :: "secrets \<Rightarrow> string \<Rightarrow> int \<Rightarrow> execution_update \<Rightarrow> string \<Rightarrow> execution db_write" where
  "update_execution secret i expected u ts s =
     and_then (check_status (eu_status u)) (\<lambda>_.
     and_then (reject_registered_secrets secret
       [eu_status u, or_empty (eu_outcome u), or_empty (eu_started_at u), or_empty (eu_completed_at u),
        or_empty (eu_failure_code u), [], ts, i]) (\<lambda>_.
     and_then (reject_registered_numbers secret [min (expected + 1) 9223372036854775807]) (\<lambda>_.
     case hm_get (st_executions s) i of
       None \<Rightarrow> Inl RowNotFound
     | Some e \<Rightarrow>
         if ex_version e \<noteq> expected then Inl StaleVersion
         else if \<not> allowed_transition (ex_status e) (eu_status u)
         then Inl (ForbiddenTransition (ex_status e) (eu_status u))
         else update_where i (\<lambda>e. ex_version e = expected) (\<lambda>e.
           e\<lparr>ex_status := eu_status u, ex_outcome := eu_outcome u,
             ex_started_at := coalesce (ex_started_at e) (eu_started_at u),
             ex_completed_at := eu_completed_at u, ex_failure_code := eu_failure_code u,
             ex_failure_message_redacted := None, ex_updated_at := ts,
             ex_provider_outcome := coalesce (eu_provider_outcome u) (ex_provider_outcome e),
             ex_artifact_outcome := coalesce (eu_artifact_outcome u) (ex_artifact_outcome e),
             ex_settlement_outcome := coalesce (eu_settlement_outcome u) (ex_settlement_outcome e)\<rparr>) s)))"

definition set_claim :: "string \<Rightarrow> int \<Rightarrow> string \<Rightarrow> string \<Rightarrow> execution db_write" where
  "set_claim i expected claim_id ts =
     update_where i (\<lambda>e. ex_version e = expected \<and> ex_status e = ''preflighting'' \<and> ex_hubu_claim_id e = None)
       (\<lambda>e. e\<lparr>ex_hubu_claim_id := Some claim_id, ex_status := ''claimed'', ex_updated_at := ts\<rparr>)"

definition accept_existing_claim :: "string \<Rightarrow> int \<Rightarrow> string \<Rightarrow> execution db_write" where
  "accept_existing_claim i expected ts =
     update_where i (\<lambda>e. ex_version e = expected \<and> ex_status e = ''preflighting'' \<and> ex_hubu_claim_id e \<noteq> None)
       (\<lambda>e. e\<lparr>ex_status := ''claimed'', ex_updated_at := ts\<rparr>)"

definition set_reconciliation_claim :: "string \<Rightarrow> int \<Rightarrow> string \<Rightarrow> string \<Rightarrow> execution db_write" where
  "set_reconciliation_claim i expected claim_id ts =
     update_where i
       (\<lambda>e. ex_version e = expected \<and> ex_status e = ''reconciliation_required'' \<and> ex_hubu_claim_id e = None)
       (\<lambda>e. e\<lparr>ex_hubu_claim_id := Some claim_id, ex_updated_at := ts\<rparr>)"

definition begin_release_transmission :: "string \<Rightarrow> int \<Rightarrow> string \<Rightarrow> execution db_write" where
  "begin_release_transmission i expected ts =
     update_where i
       (\<lambda>e. ex_version e = expected \<and> ex_status e = ''executing'' \<and> ex_release_transmission_started_at e = None)
       (\<lambda>e. e\<lparr>ex_release_transmission_started_at := Some ts, ex_updated_at := ts\<rparr>)"

section \<open>The provider attempt\<close>

definition put_attempt :: "provider_attempt \<Rightarrow> repository \<Rightarrow> repository" where
  "put_attempt a s = s\<lparr>st_attempts := hm_insert (pa_provider_attempt_id a) a (st_attempts s)\<rparr>"

definition started_attempt :: "string \<Rightarrow> execution \<Rightarrow> string \<Rightarrow> provider_attempt" where
  "started_attempt new_id e ts =
     \<lparr>pa_provider_attempt_id = new_id, pa_execution_id = ex_execution_id e, pa_provider = ex_provider e,
      pa_provider_request_id = None, pa_provider_operation_id = None, pa_provider_polling_host = None,
      pa_provider_recovery_context = None, pa_provider_deadline_unix_ms = None,
      pa_operation_checkpointed_at = None, pa_provider_poll_count = 0, pa_artifact_fetch_count = 0,
      pa_outcome = ''started'', pa_usage = None, pa_usage_schema_version = None,
      pa_actual_vendor_cost = None, pa_failure_code = None, pa_failure_message_redacted = None,
      pa_started_at = ts, pa_transmission_started_at = None, pa_completed_at = None\<rparr>"

text \<open>The version is compared when the row is read; the update in the same transaction compares it again
  and can not miss.\<close>

definition start_provider_attempt :: "string \<Rightarrow> execution \<Rightarrow> string \<Rightarrow> provider_attempt db_write" where
  "start_provider_attempt new_id e ts s =
     (case hm_get (st_executions s) (ex_execution_id e) of
        None \<Rightarrow> Inl StaleVersion
      | Some current \<Rightarrow>
          if ex_version current \<noteq> ex_version e then Inl StaleVersion
          else if ex_status current \<noteq> ''claimed''
          then Inl (ForbiddenTransition (ex_status current) ''executing'')
          else if list_ex (\<lambda>a. pa_execution_id a = ex_execution_id e) (hm_values (st_attempts s))
          then Inl (InvalidRow ''execution already has provider attempt'')
          else if hm_contains (st_attempts s) new_id
          then Inl (DbError ''UNIQUE constraint failed: provider_attempts.provider_attempt_id'')
          else
            and_then (update_where (ex_execution_id e) (\<lambda>c. ex_version c = ex_version e)
                 (\<lambda>c. c\<lparr>ex_status := ''executing'', ex_started_at := coalesce (ex_started_at c) (Some ts),
                        ex_updated_at := ts\<rparr>)
                 (put_attempt (started_attempt new_id e ts) s)) (\<lambda>(_, s').
            and_then (get_provider_attempt_for_execution (ex_execution_id e) s') (\<lambda>a. Inr (a, s'))))"

text \<open>An update of one attempt row that has to hit it.\<close>

definition update_attempt ::
  "string \<Rightarrow> (provider_attempt \<Rightarrow> bool) \<Rightarrow> (provider_attempt \<Rightarrow> provider_attempt) \<Rightarrow> store_error \<Rightarrow> unit db_write" where
  "update_attempt i p f e s =
     (case hm_get (st_attempts s) i of
        None \<Rightarrow> Inl e
      | Some a \<Rightarrow> if p a then Inr ((), put_attempt (f a) s) else Inl e)"

definition begin_provider_transmission :: "string \<Rightarrow> string \<Rightarrow> unit db_write" where
  "begin_provider_transmission i ts =
     update_attempt i (\<lambda>a. pa_transmission_started_at a = None \<and> pa_completed_at a = None)
       (\<lambda>a. a\<lparr>pa_transmission_started_at := Some ts\<rparr>) StaleVersion"

definition in_flight :: "provider_attempt \<Rightarrow> bool" where
  "in_flight a \<longleftrightarrow>
     pa_outcome a = ''started'' \<and> pa_completed_at a = None \<and> pa_transmission_started_at a \<noteq> None"

definition record_provider_poll :: "string \<Rightarrow> unit db_write" where
  "record_provider_poll i =
     update_attempt i (\<lambda>a. in_flight a \<and> pa_provider_poll_count a < 9223372036854775807)
       (\<lambda>a. a\<lparr>pa_provider_poll_count := pa_provider_poll_count a + 1\<rparr>) StaleVersion"

definition record_artifact_fetch :: "string \<Rightarrow> unit db_write" where
  "record_artifact_fetch i =
     update_attempt i (\<lambda>a. in_flight a \<and> pa_artifact_fetch_count a < 9223372036854775807)
       (\<lambda>a. a\<lparr>pa_artifact_fetch_count := pa_artifact_fetch_count a + 1\<rparr>) StaleVersion"

text \<open>The unique index on provider and request id.\<close>

definition request_id_taken :: "string \<Rightarrow> string option \<Rightarrow> repository \<Rightarrow> bool" where
  "request_id_taken i request_id s \<longleftrightarrow>
     request_id \<noteq> None
     \<and> (case hm_get (st_attempts s) i of
          None \<Rightarrow> False
        | Some a \<Rightarrow> list_ex (\<lambda>b. pa_provider_attempt_id b \<noteq> i \<and> pa_provider b = pa_provider a
                            \<and> pa_provider_request_id b = request_id) (hm_values (st_attempts s)))"

definition with_unique_request_id :: "string \<Rightarrow> string option \<Rightarrow> unit db_write \<Rightarrow> unit db_write" where
  "with_unique_request_id i request_id w s =
     and_then (w s) (\<lambda>r. if request_id_taken i request_id s
       then Inl (DbError ''UNIQUE constraint failed: provider_attempts.provider_request_id'') else Inr r)"

definition operation_unset :: "provider_attempt \<Rightarrow> bool" where
  "operation_unset a \<longleftrightarrow>
     pa_provider_operation_id a = None \<and> pa_provider_polling_host a = None
     \<and> pa_provider_deadline_unix_ms a = None \<and> pa_operation_checkpointed_at a = None"

text \<open>The texts of the recovery context's JSON, its keys included; its numbers are not searched.\<close>

definition context_texts :: "polling_recovery_context \<Rightarrow> string list" where
  "context_texts c =
     [''schema_version'', ''policy_version'', ''scheme'', ''normalized_host'', ''explicit_port'',
      ''endpoint_shape'', ''query_keys'', ''url_fingerprint'', ''validation_reason'', prc_policy_version c,
      or_empty (prc_scheme c), or_empty (prc_normalized_host c), prc_endpoint_shape c, prc_url_fingerprint c,
      or_empty (prc_validation_reason c)] @ prc_query_keys c"

definition record_provider_operation ::
  "secrets \<Rightarrow> string \<Rightarrow> async_provider_operation \<Rightarrow> string \<Rightarrow> provider_attempt db_write" where
  "record_provider_operation secret i operation ts s =
     and_then (map_err (\<lambda>_. InvalidRow ''provider operation checkpoint'') (operation_validate operation)) (\<lambda>_.
     and_then (reject_registered_secrets secret
       ([i, or_empty (apo_provider_request_id operation), apo_provider_operation_id operation,
         apo_polling_host operation,
         or_empty (Option.bind (apo_polling_recovery operation) prc_normalized_host), ts]
        @ (case apo_polling_recovery operation of None \<Rightarrow> [] | Some c \<Rightarrow> context_texts c))) (\<lambda>_.
     and_then (reject_registered_numbers secret [apo_deadline_unix_ms operation]) (\<lambda>_.
     case hm_get (st_attempts s) i of
       None \<Rightarrow> Inl RowNotFound
     | Some a \<Rightarrow>
         if in_flight a \<and> operation_unset a
         then and_then (with_unique_request_id i (apo_provider_request_id operation)
                (update_attempt i (\<lambda>_. True) (\<lambda>a.
                  a\<lparr>pa_provider_request_id := apo_provider_request_id operation,
                    pa_provider_operation_id := Some (apo_provider_operation_id operation),
                    pa_provider_polling_host := Some (apo_polling_host operation),
                    pa_provider_deadline_unix_ms := Some (apo_deadline_unix_ms operation),
                    pa_operation_checkpointed_at := Some ts,
                    pa_provider_recovery_context := apo_polling_recovery operation\<rparr>) StaleVersion) s) (\<lambda>(_, s').
              and_then (get_provider_attempt i s') (\<lambda>a. Inr (a, s')))
         else if in_flight a \<and> pa_provider_request_id a = apo_provider_request_id operation
                 \<and> pa_provider_operation_id a = Some (apo_provider_operation_id operation)
                 \<and> pa_provider_polling_host a = Some (apo_polling_host operation)
                 \<and> pa_provider_recovery_context a = apo_polling_recovery operation
                 \<and> pa_provider_deadline_unix_ms a = Some (apo_deadline_unix_ms operation)
                 \<and> pa_operation_checkpointed_at a = Some ts
         then Inr (a, s)
         else Inl StaleVersion)))"

end
