(* ===== verification/Gongbu_Receipts.thy ===== *)
theory Gongbu_Receipts
  imports Gongbu_Store
begin

text \<open>
  \<^verbatim>\<open>crates/gongbu-api/src/execution/mod.rs\<close>, continued: the outcome of a provider attempt with its
  staged artifacts, stored artifacts, the receipt of a settlement and its delivery, and the
  reconciliation record with the actions of operators.
\<close>

section \<open>The outcome of an attempt\<close>

definition ATTEMPT_OUTCOMES :: "string list" where
  "ATTEMPT_OUTCOMES = [''started'', ''succeeded'', ''failed'', ''ambiguous'', ''canceled'']"

text \<open>The JSON text of a usage: the members that are set, in the order of their keys.\<close>

definition usage_member :: "string \<Rightarrow> int option \<Rightarrow> string list" where
  "usage_member key v =
     (case v of None \<Rightarrow> [] | Some n \<Rightarrow> [[CHR 0x22] @ key @ [CHR 0x22] @ '':'' @ show_int n])"

fun join_members :: "string \<Rightarrow> string list \<Rightarrow> string" where
  "join_members sep [] = []"
| "join_members sep [s] = s"
| "join_members sep (s # t # ss) = s @ sep @ join_members sep (t # ss)"

definition usage_json :: "normalized_usage \<Rightarrow> string" where
  "usage_json us =
     ''{'' @ join_members '','' (concat
        [usage_member ''additional_megapixels'' (us_additional_megapixels us),
         usage_member ''images'' (us_images us), usage_member ''input_images'' (us_input_images us),
         usage_member ''input_megapixels'' (us_input_megapixels us),
         usage_member ''input_tokens'' (us_input_tokens us), usage_member ''megapixels'' (us_megapixels us),
         usage_member ''output_tokens'' (us_output_tokens us), usage_member ''pages'' (us_pages us),
         usage_member ''results'' (us_results us), usage_member ''seconds'' (us_seconds us)]) @ ''}''"

definition result_numbers :: "attempt_result \<Rightarrow> int list" where
  "result_numbers r =
     ar_usage_schema_version r
     # (case ar_actual_vendor_cost r of None \<Rightarrow> [] | Some c \<Rightarrow> [ac_amount c, int (ac_scale c)])"

definition result_texts :: "string \<Rightarrow> attempt_result \<Rightarrow> string list" where
  "result_texts i r =
     [ar_outcome r, ar_completed_at r, usage_json (ar_usage r),
      (case ar_actual_vendor_cost r of None \<Rightarrow> [] | Some c \<Rightarrow> ac_currency c),
      or_empty (ar_failure_code r), or_empty (ar_provider_request_id r),
      or_empty (ar_provider_operation_id r), i]"

text \<open>The whole-cent projection of the cost has to exist; its value is stored for old readers only.\<close>

definition compatibility_minor :: "attempt_result \<Rightarrow> store_error + int option" where
  "compatibility_minor r =
     (case ar_actual_vendor_cost r of
        None \<Rightarrow> Inr None
      | Some c \<Rightarrow> and_then (map_err (\<lambda>_. InvalidRow ''attempt result'') (to_budget_units c (ac_currency c)))
                   (\<lambda>u. Inr (Some (units_to_minor_ceil u))))"

definition completed_attempt :: "attempt_result \<Rightarrow> provider_attempt \<Rightarrow> provider_attempt" where
  "completed_attempt r a =
     a\<lparr>pa_outcome := ar_outcome r, pa_completed_at := Some (ar_completed_at r), pa_usage := Some (ar_usage r),
       pa_usage_schema_version := Some (ar_usage_schema_version r),
       pa_actual_vendor_cost := ar_actual_vendor_cost r, pa_failure_code := ar_failure_code r,
       pa_failure_message_redacted := None, pa_provider_request_id := ar_provider_request_id r,
       pa_provider_operation_id := ar_provider_operation_id r\<rparr>"

definition write_attempt_result :: "string \<Rightarrow> attempt_result \<Rightarrow> unit db_write" where
  "write_attempt_result i r s =
     and_then (with_unique_request_id i (ar_provider_request_id r)
       (update_attempt i (\<lambda>a. pa_completed_at a = None \<and> pa_transmission_started_at a \<noteq> None)
          (completed_attempt r) RowNotFound) s) (\<lambda>w.
     if ar_outcome r \<in> set ATTEMPT_OUTCOMES then Inr w else Inl (DbError ''CHECK constraint failed: outcome''))"

definition complete_provider_attempt :: "secrets \<Rightarrow> string \<Rightarrow> attempt_result \<Rightarrow> unit db_write" where
  "complete_provider_attempt secret i r s =
     (if ar_usage_schema_version r < 1 \<or> some_fails (\<lambda>c. cost_validate c = Inr ()) (ar_actual_vendor_cost r)
      then Inl (InvalidRow ''attempt result'')
      else and_then (reject_registered_numbers secret (result_numbers r)) (\<lambda>_.
           and_then (reject_registered_secrets secret (result_texts i r)) (\<lambda>_.
           and_then (compatibility_minor r) (\<lambda>_. write_attempt_result i r s))))"

definition complete_provider_attempt_with_artifacts ::
  "secrets \<Rightarrow> string \<Rightarrow> attempt_result \<Rightarrow> staged_artifact list \<Rightarrow> unit db_write" where
  "complete_provider_attempt_with_artifacts secret i r artifacts s =
     (if artifacts = [] then Inl (InvalidRow ''staged provider artifacts'')
      else if ar_outcome r \<noteq> ''succeeded''
              \<or> some_fails (\<lambda>code. known_billing_failure code \<and> ar_actual_vendor_cost r = None) (ar_failure_code r)
              \<or> ar_usage_schema_version r < 1
              \<or> some_fails (\<lambda>c. cost_validate c = Inr ()) (ar_actual_vendor_cost r)
              \<or> list_ex (\<lambda>a. is_blank (sa_media_type a)) artifacts
      then Inl (InvalidRow ''attempt result'')
      else and_then (reject_registered_numbers secret (result_numbers r)) (\<lambda>_.
           and_then (reject_registered_secrets secret (result_texts i r)) (\<lambda>_.
           and_then (compatibility_minor r) (\<lambda>_.
           and_then (write_attempt_result i r s) (\<lambda>(_, s).
           if hm_contains (st_staged s) i
           then Inl (DbError ''UNIQUE constraint failed: staged_provider_artifacts'')
           else Inr ((), s\<lparr>st_staged := hm_insert i artifacts (st_staged s)\<rparr>))))))"

text \<open>A rejected polling origin that an operator allowed is inspected again: the same attempt is reopened.\<close>

definition reopens :: "string \<Rightarrow> int \<Rightarrow> provider_attempt \<Rightarrow> bool" where
  "reopens execution_id minimum_deadline a \<longleftrightarrow>
     pa_execution_id a = execution_id \<and> pa_outcome a = ''ambiguous'' \<and> pa_completed_at a \<noteq> None
     \<and> pa_provider_operation_id a \<noteq> None \<and> pa_provider_polling_host a \<noteq> None
     \<and> (case pa_provider_deadline_unix_ms a of None \<Rightarrow> False | Some d \<Rightarrow> minimum_deadline \<le> d)
     \<and> pa_operation_checkpointed_at a \<noteq> None
     \<and> (case pa_provider_recovery_context a of
          None \<Rightarrow> False
        | Some c \<Rightarrow> prc_validation_reason c = Some ''host_not_allowlisted''
                    \<and> prc_normalized_host c = pa_provider_polling_host a)"

definition begin_provider_reconciliation_poll ::
  "(string \<Rightarrow> int option) \<Rightarrow> string \<Rightarrow> string \<Rightarrow> int \<Rightarrow> string \<Rightarrow> execution db_write" where
  "begin_provider_reconciliation_poll unix_millis execution_id attempt_id expected ts s =
     and_then (ok_or (InvalidRow ''reconciliation timestamp'') (unix_millis ts)) (\<lambda>now.
     and_then (ok_or (InvalidRow ''reconciliation timestamp'')
       (checked_add_i64 now POLLING_RECOVERY_MIN_REINSPECT_WINDOW_MS)) (\<lambda>minimum_deadline.
     and_then (update_attempt attempt_id (reopens execution_id minimum_deadline)
       (\<lambda>a. a\<lparr>pa_outcome := ''started'', pa_completed_at := None, pa_failure_code := None,
              pa_failure_message_redacted := None\<rparr>) StaleVersion s) (\<lambda>(_, s).
     update_where execution_id (\<lambda>e. ex_version e = expected \<and> ex_status e = ''reconciliation_required'')
       (\<lambda>e. e\<lparr>ex_status := ''executing'', ex_outcome := None, ex_failure_code := None,
              ex_failure_message_redacted := None, ex_completed_at := None, ex_updated_at := ts\<rparr>) s)))"

section \<open>Artifacts\<close>

definition media_extension :: "string \<Rightarrow> string option" where
  "media_extension media_type =
     (if media_type = ''image/png'' then Some ''png''
      else if media_type = ''image/jpeg'' then Some ''jpg'' else None)"

definition create_artifact_with_limit ::
  "secrets \<Rightarrow> (json \<Rightarrow> string) \<Rightarrow> artifact_row \<Rightarrow> nat \<Rightarrow> artifact_row db_write" where
  "create_artifact_with_limit secret json_text n limit s =
     and_then (reject_registered_numbers secret [art_size_bytes n, art_metadata_schema_version n]) (\<lambda>_.
     and_then (reject_registered_json secret [art_metadata n]) (\<lambda>_.
     and_then (reject_registered_secrets secret
       [art_artifact_id n, art_execution_id n, or_empty (art_provider_attempt_id n), art_kind n,
        art_storage_backend n, art_media_type n, art_storage_key n, art_sha256 n,
        json_text (art_metadata n), art_created_at n]) (\<lambda>_.
     and_then (safe_json (art_metadata n)) (\<lambda>_.
     if art_artifact_id n = []
        \<or> \<not> list_all (\<lambda>c. is_ascii_alphanumeric c \<or> c \<in> set ''-_'') (art_artifact_id n)
        \<or> art_storage_backend n \<noteq> ''local_fs'' \<or> art_size_bytes n < 0 \<or> art_metadata_schema_version n < 1
     then Inl (InvalidRow ''artifact'')
     else and_then (ok_or (InvalidRow ''artifact media type'') (media_extension (art_media_type n))) (\<lambda>extension.
     if art_kind n \<noteq> ''image''
        \<or> art_storage_key n \<noteq> ''executions/'' @ art_execution_id n @ ''/'' @ art_artifact_id n @ ''.'' @ extension
        \<or> length (art_sha256 n) \<noteq> 64 \<or> \<not> list_all is_ascii_hexdigit (art_sha256 n)
     then Inl (InvalidRow ''artifact storage metadata'')
     else if limit \<le> count_artifacts (\<lambda>a. art_execution_id a = art_execution_id n) s
     then Inl (LimitExceeded ''artifact count'')
     else and_then
       (case art_provider_attempt_id n of
          None \<Rightarrow> Inr ()
        | Some attempt_id \<Rightarrow>
            and_then (get_provider_attempt attempt_id s) (\<lambda>a.
            if pa_execution_id a \<noteq> art_execution_id n then Inl (InvalidRow ''artifact attempt relationship'')
            else Inr ())) (\<lambda>_.
     if hm_contains (st_artifacts s) (art_artifact_id n)
        \<or> list_ex (\<lambda>a. art_storage_key a = art_storage_key n) (hm_values (st_artifacts s))
     then Inl (DbError ''UNIQUE constraint failed: artifacts'')
     else if \<not> hm_contains (st_executions s) (art_execution_id n) then Inl (DbError ''FOREIGN KEY constraint failed'')
     else Inr (n, s\<lparr>st_artifacts := hm_insert (art_artifact_id n) n (st_artifacts s)\<rparr>)))))))"

definition complete_artifact_persistence ::
  "secrets \<Rightarrow> execution \<Rightarrow> string \<Rightarrow> string \<Rightarrow> execution db_write" where
  "complete_artifact_persistence secret e attempt_id ts s =
     and_then (reject_registered_secrets secret
       [ex_execution_id e, attempt_id, ts, ''settling'', ''succeeded'']) (\<lambda>_.
     and_then (reject_registered_numbers secret [min (ex_version e + 1) 9223372036854775807]) (\<lambda>_.
     and_then (update_where (ex_execution_id e)
       (\<lambda>c. ex_version c = ex_version e \<and> ex_status c = ''executing''
            \<and> (case hm_get (st_attempts s) attempt_id of
                 None \<Rightarrow> False
               | Some a \<Rightarrow> pa_execution_id a = ex_execution_id e \<and> pa_outcome a = ''succeeded''
                           \<and> pa_completed_at a \<noteq> None))
       (\<lambda>c. c\<lparr>ex_status := ''settling'', ex_outcome := None,
              ex_started_at := coalesce (ex_started_at c) (Some ts), ex_completed_at := None,
              ex_failure_code := None, ex_failure_message_redacted := None, ex_updated_at := ts,
              ex_provider_outcome := Some OutcomeSucceeded, ex_artifact_outcome := Some OutcomeSucceeded\<rparr>) s) (\<lambda>(e', s).
     Inr (e', s\<lparr>st_staged := hm_remove attempt_id (st_staged s)\<rparr>))))"

section \<open>Receipts\<close>

definition put_receipt :: "receipt_row \<Rightarrow> repository \<Rightarrow> repository" where
  "put_receipt r s = s\<lparr>st_receipts := hm_insert (rcp_receipt_id r) r (st_receipts s)\<rparr>"

text \<open>The settlement a receipt has to state, computed from the stored attempt and execution.\<close>

definition expected_settlement ::
  "pricing_snapshot \<Rightarrow> provider_attempt \<Rightarrow> normalized_usage \<Rightarrow> int \<Rightarrow> (store_error + precise_settlement) option" where
  "expected_settlement snapshot a usage authorized_units =
     map_option (map_err (\<lambda>e. if e = SettlementOverage then OverAuthorization else InvalidRow ''precise settlement''))
       (if pa_failure_code a = Some ''pack_response_cost_missing''
        then settle_from_quote snapshot usage authorized_units
        else settle_precise snapshot usage (pa_actual_vendor_cost a) authorized_units)"

definition receipt_constraints :: "create_receipt_params \<Rightarrow> string \<Rightarrow> repository \<Rightarrow> store_error + unit" where
  "receipt_constraints n provider_request_id s =
     (if hm_contains (st_receipts s) (crp_receipt_id n)
         \<or> list_ex (\<lambda>r. rcp_execution_id r = crp_execution_id n
                        \<or> rcp_provider_attempt_id r = crp_provider_attempt_id n
                        \<or> crp_hubu_settlement_id n \<noteq> None \<and> rcp_hubu_settlement_id r = crp_hubu_settlement_id n)
              (hm_values (st_receipts s))
      then Inl (DbError ''UNIQUE constraint failed: receipts'')
      else if length (crp_currency n) \<noteq> 3 \<or> list_all (\<lambda>c. c = CHR 0x20) provider_request_id
      then Inl (DbError ''CHECK constraint failed: receipts'') else Inr ())"

text \<open>What a receipt may be created for: an attempt of this execution that succeeded and left evidence.\<close>

definition receipt_attempt :: "create_receipt_params \<Rightarrow> repository \<Rightarrow> store_error + provider_attempt" where
  "receipt_attempt n s =
     and_then (get_provider_attempt (crp_provider_attempt_id n) s) (\<lambda>a.
     if pa_execution_id a \<noteq> crp_execution_id n then Inl (InvalidRow ''receipt attempt relationship'')
     else if pa_outcome a \<noteq> ''succeeded'' \<or> pa_completed_at a = None
             \<or> (pa_provider_request_id a = None \<and> pa_provider_operation_id a = None)
     then Inl (InvalidRow ''receipt requires a succeeded attempt'')
     else Inr a)"

definition receipt_snapshot ::
  "create_receipt_params \<Rightarrow> execution \<Rightarrow> store_error + pricing_snapshot" where
  "receipt_snapshot n e =
     and_then (ok_or (InvalidRow ''pricing snapshot'') (ex_pricing_snapshot e)) (\<lambda>snapshot.
     and_then (map_err (\<lambda>_. InvalidRow ''pricing snapshot'') (validate_integrity snapshot)) (\<lambda>_.
     if crp_pricing_catalog_version n \<noteq> snap_catalog_version snapshot
     then Inl (InvalidRow ''pricing catalog version'') else Inr snapshot))"

definition new_receipt :: "create_receipt_params \<Rightarrow> provider_attempt \<Rightarrow> pricing_snapshot \<Rightarrow> receipt_row" where
  "new_receipt n a snapshot =
     \<lparr>rcp_cost_basis = cost_basis_for_outcome (pa_actual_vendor_cost a) (pa_failure_code a),
      rcp_receipt_id = crp_receipt_id n, rcp_execution_id = crp_execution_id n,
      rcp_provider_attempt_id = crp_provider_attempt_id n, rcp_settlement_units = crp_settlement_units n,
      rcp_currency = crp_currency n, rcp_pricing_catalog_version = crp_pricing_catalog_version n,
      rcp_actual_vendor_cost = crp_actual_vendor_cost n,
      rcp_provider_request_id = or_empty (coalesce (pa_provider_request_id a) (pa_provider_operation_id a)),
      rcp_price_model_snapshot = snapshot, rcp_created_at = crp_created_at n,
      rcp_transmission_started_at = None, rcp_settled_at = crp_settled_at n,
      rcp_hubu_settlement_id = crp_hubu_settlement_id n\<rparr>"

definition create_receipt ::
  "secrets \<Rightarrow> create_receipt_params \<Rightarrow> repository \<Rightarrow> (store_error + (receipt_row \<times> repository)) option" where
  "create_receipt secret n s =
     (case and_then (map_err (\<lambda>_. InvalidRow ''actual vendor cost'') (cost_validate (crp_actual_vendor_cost n))) (\<lambda>_.
           and_then (reject_registered_secrets secret
             [crp_receipt_id n, crp_execution_id n, crp_provider_attempt_id n, crp_currency n,
              crp_pricing_catalog_version n, ac_currency (crp_actual_vendor_cost n), crp_created_at n,
              or_empty (crp_settled_at n), or_empty (crp_hubu_settlement_id n)]) (\<lambda>_.
           and_then (reject_registered_numbers secret
             [crp_settlement_units n, ac_amount (crp_actual_vendor_cost n),
              int (ac_scale (crp_actual_vendor_cost n))]) (\<lambda>_.
           if crp_settlement_units n < 0 then Inl (InvalidRow ''settlement'')
           else and_then (receipt_attempt n s) (\<lambda>a.
           and_then (get_execution (crp_execution_id n) s) (\<lambda>e.
           and_then (receipt_snapshot n e) (\<lambda>snapshot.
           and_then (ok_or (InvalidRow ''receipt requires provider usage'') (pa_usage a)) (\<lambda>usage.
           if pa_failure_code a \<notin> {None, Some ''pack_response_cost_missing''}
           then Inl (InvalidRow ''receipt has unresolved billing evidence'')
           else Inr (a, e, snapshot, usage)))))))) of
        Inl err \<Rightarrow> Some (Inl err)
      | Inr (a, e, snapshot, usage) \<Rightarrow>
          map_option (\<lambda>expected. and_then expected (\<lambda>expected.
            if pst_budget_units expected \<noteq> crp_settlement_units n
               \<or> pst_actual_vendor_cost expected \<noteq> crp_actual_vendor_cost n
               \<or> \<not> eq_ignore_ascii_case (crp_currency n) (ex_authorization_currency e)
               \<or> \<not> eq_ignore_ascii_case (crp_currency n) (snap_currency snapshot)
            then Inl OverAuthorization
            else let r = new_receipt n a snapshot in
              and_then (receipt_constraints n (rcp_provider_request_id r) s) (\<lambda>_. Inr (r, put_receipt r s))))
            (expected_settlement snapshot a usage (ex_authorized_units e)))"

definition update_receipt :: "string \<Rightarrow> (receipt_row \<Rightarrow> bool) \<Rightarrow> (receipt_row \<Rightarrow> receipt_row) \<Rightarrow> unit db_write" where
  "update_receipt i p f s =
     (case hm_get (st_receipts s) i of
        None \<Rightarrow> Inl StaleVersion
      | Some r \<Rightarrow> if p r then Inr ((), put_receipt (f r) s) else Inl StaleVersion)"

definition begin_settlement_transmission :: "string \<Rightarrow> string \<Rightarrow> unit db_write" where
  "begin_settlement_transmission i ts =
     update_receipt i (\<lambda>r. rcp_transmission_started_at r = None \<and> rcp_settled_at r = None)
       (\<lambda>r. r\<lparr>rcp_transmission_started_at := Some ts\<rparr>)"

definition complete_receipt :: "string \<Rightarrow> string \<Rightarrow> string \<Rightarrow> unit db_write" where
  "complete_receipt i settlement_id ts s =
     and_then (update_receipt i (\<lambda>r. rcp_settled_at r = None)
       (\<lambda>r. r\<lparr>rcp_settled_at := Some ts, rcp_hubu_settlement_id := Some settlement_id\<rparr>) s) (\<lambda>w.
     if list_ex (\<lambda>r. rcp_receipt_id r \<noteq> i \<and> rcp_hubu_settlement_id r = Some settlement_id) (hm_values (st_receipts s))
     then Inl (DbError ''UNIQUE constraint failed: receipts.hubu_settlement_id'') else Inr w)"

section \<open>Reconciliation\<close>

text \<open>The step a record names: the caller's, unless an ambiguous operation was checkpointed.\<close>

definition outcome_ambiguous :: "execution \<Rightarrow> provider_attempt option \<Rightarrow> bool" where
  "outcome_ambiguous e attempt \<longleftrightarrow>
     ex_provider_outcome e = Some OutcomeAmbiguous
     \<or> (case attempt of
          None \<Rightarrow> False
        | Some a \<Rightarrow> pa_outcome a = ''ambiguous'' \<or> in_flight a)"

definition confirmed_step :: "execution \<Rightarrow> provider_attempt option \<Rightarrow> string \<Rightarrow> string" where
  "confirmed_step e attempt step =
     (if outcome_ambiguous e attempt
         \<and> (case attempt of None \<Rightarrow> False | Some a \<Rightarrow> pa_operation_checkpointed_at a \<noteq> None)
      then ''provider_operation_checkpointed'' else step)"

text \<open>A report whose evidence holds a registered credential is not written; \<open>evidence_rejected\<close> stands for that test
  of the JSON report.\<close>

definition record_reconciliation ::
  "(execution \<Rightarrow> repository \<Rightarrow> bool) \<Rightarrow> execution \<Rightarrow> string \<Rightarrow> string \<Rightarrow> reconciliation_record db_write" where
  "record_reconciliation evidence_rejected e step ts s =
     (if evidence_rejected e s then Inl (InvalidRow ''secret-bearing persistence value'')
      else if \<not> hm_contains (st_executions s) (ex_execution_id e)
      then Inl (DbError ''FOREIGN KEY constraint failed'')
      else
        let i = ex_execution_id e; step = confirmed_step e (attempt_of s i) step;
            row = (case hm_get (st_reconciliations s) i of
                Some r \<Rightarrow> r\<lparr>rec_last_confirmed_step := step, rec_updated_at := ts\<rparr>
              | None \<Rightarrow> \<lparr>rec_execution_id = i, rec_last_confirmed_step = step, rec_entered_at = ts,
                  rec_updated_at = ts, rec_automatic_attempts = 0, rec_last_automatic_attempt_at = None,
                  rec_automatic_attempts_exhausted = False, rec_last_operator_action_id = None,
                  rec_last_operator_action = None\<rparr>)
        in Inr (row, s\<lparr>st_reconciliations := hm_insert i row (st_reconciliations s)\<rparr>))"

definition mark_recovery_attempt :: "string \<Rightarrow> string \<Rightarrow> bool \<Rightarrow> reconciliation_record db_write" where
  "mark_recovery_attempt i ts exhausted s =
     (case hm_get (st_reconciliations s) i of
        None \<Rightarrow> Inl RowNotFound
      | Some r \<Rightarrow>
          let row = r\<lparr>rec_automatic_attempts := rec_automatic_attempts r + 1,
                rec_last_automatic_attempt_at := Some ts, rec_automatic_attempts_exhausted := exhausted,
                rec_updated_at := ts\<rparr>
          in Inr (row, s\<lparr>st_reconciliations := hm_insert i row (st_reconciliations s)\<rparr>))"

text \<open>An operator's action is taken once: repeated with the same content it is accepted again without a
  write, with other content it is refused. The evidence is the redacted text, of which the redactor is a third
  of the arguments: \<open>None\<close> when it no longer is JSON.\<close>

definition record_operator_action ::
  "string \<Rightarrow> string \<Rightarrow> string \<Rightarrow> string option \<Rightarrow> string \<Rightarrow> bool db_write" where
  "record_operator_action execution_id action_id action redacted_evidence ts s =
     and_then (ok_or (InvalidRow ''operator evidence'') redacted_evidence) (\<lambda>evidence.
     case hm_get (st_operator_actions s) (execution_id, action_id) of
       Some existing \<Rightarrow> Inr (existing = (action, evidence), s)
     | None \<Rightarrow>
         (case hm_get (st_reconciliations s) execution_id of
            None \<Rightarrow> Inl (DbError ''FOREIGN KEY constraint failed'')
          | Some r \<Rightarrow>
              let row = r\<lparr>rec_last_operator_action_id := Some action_id, rec_last_operator_action := Some action,
                    rec_updated_at := ts\<rparr>
              in Inr (True, s\<lparr>st_operator_actions :=
                     hm_insert (execution_id, action_id) (action, evidence) (st_operator_actions s),
                   st_reconciliations := hm_insert execution_id row (st_reconciliations s)\<rparr>)))"

end
