(* ===== verification/Gongbu_World.thy ===== *)
theory Gongbu_World
  imports Gongbu_Receipts
begin

text \<open>
  What the phases of \<^verbatim>\<open>crates/gongbu-api/src/workflow.rs\<close> run in: the traits
  \<^verbatim>\<open>HubuActivities\<close>, \<^verbatim>\<open>ProviderActivities\<close> and \<^verbatim>\<open>ArtifactActivities\<close> as the functions of
  an environment, and a world of the repository, the calls made to the outside and the points at which the process
  could have died. Every write of the repository and every call to the governance service, the provider
  or the artifact storage is such a point; a crash leaves the repository and the calls of one of them.

  The outside answers as any function of the calls made so far, so that a repeated call may be answered differently.
  A phase answers an option, whose \<open>None\<close> is a loop that does not end.
\<close>

section \<open>Calls and answers\<close>

datatype activity_error =
    Proven string
  | ProvenWithEvidence string "string option" "string option"
  | Ambiguous string
  | AmbiguousWithEvidence string "string option" "string option"

record provider_success =
  psu_billing_failure :: "string option"
  psu_request_id :: "string option"
  psu_operation_id :: "string option"
  psu_usage :: normalized_usage
  psu_actual_vendor_cost :: "actual_vendor_cost option"
  psu_artifacts :: "staged_artifact list"

datatype provider_submission = SubmissionComplete provider_success | SubmissionPending async_provider_operation

text \<open>A call as the outside saw it, with whether it was accepted.\<close>

datatype outside_call =
    ClaimCall string bool
  | ValidateClaimCall string bool
  | SettleCall string string int bool
  | ReleaseCall string bool
  | SubmitCall string string
  | PollCall string string
  | WriteFileCall string string bool
  | RemoveFileCall string

text \<open>\<^verbatim>\<open>ArtifactLimits\<close> of \<^verbatim>\<open>crates/gongbu-api/src/artifact/mod.rs\<close>.\<close>

record artifact_limits =
  al_max_encoded_bytes :: nat
  al_max_decoded_bytes :: nat
  al_max_width :: nat
  al_max_height :: nat
  al_max_artifacts_per_execution :: nat

record environment =
  env_secrets :: secrets
  env_json_text :: "json \<Rightarrow> string"
  env_evidence_rejected :: "execution \<Rightarrow> repository \<Rightarrow> bool"
  env_unix_millis :: "string \<Rightarrow> int option"
  env_clock :: "nat \<Rightarrow> string"
  env_new_id :: "nat \<Rightarrow> string"
  env_hubu_preflight :: "execution \<Rightarrow> activity_error + unit"
  env_provider_preflight :: "execution \<Rightarrow> activity_error + unit"
  env_artifact_preflight :: "activity_error + unit"
  env_claim :: "outside_call list \<Rightarrow> execution \<Rightarrow> activity_error + string"
  env_validate_claim :: "outside_call list \<Rightarrow> execution \<Rightarrow> activity_error + unit"
  env_settle :: "outside_call list \<Rightarrow> execution \<Rightarrow> string \<Rightarrow> int \<Rightarrow> activity_error + string"
  env_release :: "outside_call list \<Rightarrow> execution \<Rightarrow> activity_error + unit"
  env_submit :: "outside_call list \<Rightarrow> execution \<Rightarrow> string
     \<Rightarrow> provider_transport_interaction list \<times> (activity_error + provider_submission)"
  env_poll :: "outside_call list \<Rightarrow> execution \<Rightarrow> string \<Rightarrow> async_provider_operation
     \<Rightarrow> provider_transport_interaction list \<times> (activity_error + provider_success)"
  env_write_file :: "outside_call list \<Rightarrow> string \<Rightarrow> char list \<Rightarrow> bool"
  env_read_file :: "outside_call list \<Rightarrow> string \<Rightarrow> char list option"
  env_guess_format :: "char list \<Rightarrow> string option"
  env_dimensions :: "char list \<Rightarrow> (nat \<times> nat) option"
  env_decodes :: "char list \<Rightarrow> bool"
  env_sha256 :: "char list \<Rightarrow> string"
  env_limits :: artifact_limits

record world =
  wd_store :: repository
  wd_calls :: "outside_call list"
  wd_ticks :: nat
  wd_trail :: "(repository \<times> outside_call list) list"

type_synonym 'a flow = "world \<Rightarrow> ((store_error + 'a) \<times> world) option"

definition flow_return :: "'a \<Rightarrow> 'a flow" where
  "flow_return x w = Some (Inr x, w)"

definition flow_error :: "store_error \<Rightarrow> 'a flow" where
  "flow_error e w = Some (Inl e, w)"

definition flow_bind :: "'a flow \<Rightarrow> ('a \<Rightarrow> 'b flow) \<Rightarrow> 'b flow" where
  "flow_bind m f w =
     Option.bind (m w) (\<lambda>(r, w'). case r of Inl e \<Rightarrow> Some (Inl e, w') | Inr x \<Rightarrow> f x w')"

text \<open>The result of a step as a value, where the code looks at an error instead of returning it.\<close>

definition flow_try :: "'a flow \<Rightarrow> (store_error + 'a) flow" where
  "flow_try m w = map_option (\<lambda>(r, w'). (Inr r, w')) (m w)"

definition query :: "(repository \<Rightarrow> store_error + 'a) \<Rightarrow> 'a flow" where
  "query q w = Some (q (wd_store w), w)"

text \<open>A point of the trail, at which a crash may leave the world.\<close>

definition durable :: "world \<Rightarrow> world" where
  "durable w = w\<lparr>wd_trail := wd_trail w @ [(wd_store w, wd_calls w)]\<rparr>"

definition commit :: "'a db_write \<Rightarrow> 'a flow" where
  "commit m w =
     (case m (wd_store w) of
        Inl e \<Rightarrow> Some (Inl e, w)
      | Inr (x, s) \<Rightarrow> Some (Inr x, durable (w\<lparr>wd_store := s\<rparr>)))"

definition record_call :: "outside_call \<Rightarrow> unit flow" where
  "record_call c w = Some (Inr (), durable (w\<lparr>wd_calls := wd_calls w @ [c]\<rparr>))"

definition calls_so_far :: "outside_call list flow" where
  "calls_so_far w = Some (Inr (wd_calls w), w)"

definition clock :: "environment \<Rightarrow> string flow" where
  "clock env w = Some (Inr (env_clock env (wd_ticks w)), w\<lparr>wd_ticks := wd_ticks w + 1\<rparr>)"

definition fresh_id :: "environment \<Rightarrow> string flow" where
  "fresh_id env w = Some (Inr (env_new_id env (wd_ticks w)), w\<lparr>wd_ticks := wd_ticks w + 1\<rparr>)"

text \<open>A call: the outside answers by what it saw before, and the call is durable in its history.\<close>

definition call_outside ::
  "(outside_call list \<Rightarrow> 'e + 'a) \<Rightarrow> (bool \<Rightarrow> outside_call) \<Rightarrow> ('e + 'a) flow" where
  "call_outside answer c =
     flow_bind calls_so_far (\<lambda>calls.
     let r = answer calls in flow_bind (record_call (c (is_ok r))) (\<lambda>_. flow_return r))"

end
