(* ===== verification/Gongbu_Workflow.thy ===== *)
theory Gongbu_Workflow
  imports Gongbu_World
begin

text \<open>
  \<^verbatim>\<open>crates/gongbu-api/src/workflow.rs\<close>: the orchestration of one durable execution up to the end of its
  provider work, one definition per phase.
\<close>

section \<open>Transitions\<close>

definition terminal :: "string \<Rightarrow> bool" where
  "terminal s \<longleftrightarrow> s \<in> {''succeeded'', ''released'', ''failed'', ''reconciliation_required''}"

definition final_terminal :: "string \<Rightarrow> bool" where
  "final_terminal s \<longleftrightarrow> s \<in> {''succeeded'', ''released'', ''failed''}"

definition activity_error_code :: "activity_error \<Rightarrow> string" where
  "activity_error_code e =
     (case e of Proven code \<Rightarrow> code | ProvenWithEvidence code _ _ \<Rightarrow> code
      | Ambiguous code \<Rightarrow> code | AmbiguousWithEvidence code _ _ \<Rightarrow> code)"

definition workflow_update ::
  "string \<Rightarrow> string option \<Rightarrow> string \<Rightarrow> lifecycle_outcome option \<Rightarrow> lifecycle_outcome option
     \<Rightarrow> lifecycle_outcome option \<Rightarrow> execution_update" where
  "workflow_update status outcome now provider artifact settlement =
     \<lparr>eu_status = status, eu_outcome = outcome, eu_started_at = Some now,
      eu_completed_at = (if final_terminal status then Some now else None),
      eu_failure_code = (if status \<in> {''failed'', ''reconciliation_required''} then outcome else None),
      eu_provider_outcome = provider, eu_artifact_outcome = artifact, eu_settlement_outcome = settlement\<rparr>"

definition transition ::
  "environment \<Rightarrow> execution \<Rightarrow> string \<Rightarrow> string option \<Rightarrow> string \<Rightarrow> lifecycle_outcome option
     \<Rightarrow> lifecycle_outcome option \<Rightarrow> lifecycle_outcome option \<Rightarrow> execution flow" where
  "transition env e status outcome now provider artifact settlement =
     flow_bind (commit (update_execution (env_secrets env) (ex_execution_id e) (ex_version e)
       (workflow_update status outcome now provider artifact settlement) now)) (\<lambda>updated.
     if status = ''reconciliation_required''
     then flow_bind (commit (record_reconciliation (env_evidence_rejected env) updated (ex_status e) now))
            (\<lambda>_. flow_return updated)
     else flow_return updated)"

text \<open>Most failures hold the execution for reconciliation.\<close>

definition hold ::
  "environment \<Rightarrow> execution \<Rightarrow> string \<Rightarrow> string \<Rightarrow> lifecycle_outcome option
     \<Rightarrow> lifecycle_outcome option \<Rightarrow> lifecycle_outcome option \<Rightarrow> execution flow" where
  "hold env e code = transition env e ''reconciliation_required'' (Some code)"

section \<open>Before provider work\<close>

definition preflight :: "environment \<Rightarrow> execution \<Rightarrow> activity_error + unit" where
  "preflight env e =
     and_then (env_hubu_preflight env e) (\<lambda>_. and_then (env_provider_preflight env e) (\<lambda>_.
     env_artifact_preflight env))"

definition fail_before_claim :: "environment \<Rightarrow> execution \<Rightarrow> activity_error \<Rightarrow> string \<Rightarrow> execution flow" where
  "fail_before_claim env e err now = transition env e ''failed'' (Some (activity_error_code err)) now None None None"

definition preflight_checked :: "environment \<Rightarrow> execution \<Rightarrow> string \<Rightarrow> execution flow" where
  "preflight_checked env e now =
     (if ex_status e = ''preflighting''
      then (case preflight env e of Inl err \<Rightarrow> fail_before_claim env e err now | Inr _ \<Rightarrow> flow_return e)
      else flow_return e)"

definition preflight_phase :: "environment \<Rightarrow> string \<Rightarrow> string \<Rightarrow> execution flow" where
  "preflight_phase env i now =
     flow_bind (query (get_execution i)) (\<lambda>e.
     flow_bind (if ex_status e = ''pending'' then transition env e ''preflighting'' None now None None None
                else flow_return e) (\<lambda>e.
     flow_bind (preflight_checked env e now) (\<lambda>_. query (get_execution i))))"

definition hubu_claim :: "environment \<Rightarrow> execution \<Rightarrow> (activity_error + string) flow" where
  "hubu_claim env e = call_outside (\<lambda>calls. env_claim env calls e) (ClaimCall (ex_execution_id e))"

definition claim_answer :: "environment \<Rightarrow> execution \<Rightarrow> string \<Rightarrow> activity_error + string \<Rightarrow> execution flow" where
  "claim_answer env e now r =
     (case r of
        Inr claim \<Rightarrow> commit (set_claim (ex_execution_id e) (ex_version e) claim now)
      | Inl (Proven code) \<Rightarrow> transition env e ''failed'' (Some code) now None None None
      | Inl (ProvenWithEvidence code _ _) \<Rightarrow> transition env e ''failed'' (Some code) now None None None
      | Inl (Ambiguous code) \<Rightarrow> hold env e code now None None (Some OutcomeAmbiguous)
      | Inl (AmbiguousWithEvidence code _ _) \<Rightarrow> hold env e code now None None (Some OutcomeAmbiguous))"

definition claim_phase :: "environment \<Rightarrow> string \<Rightarrow> string \<Rightarrow> execution flow" where
  "claim_phase env i now =
     flow_bind (query (get_execution i)) (\<lambda>e.
     if ex_status e \<noteq> ''preflighting'' then flow_return e
     else if ex_hubu_claim_id e \<noteq> None then commit (accept_existing_claim i (ex_version e) now)
     else flow_bind (hubu_claim env e) (claim_answer env e now))"

definition validated_claim :: "environment \<Rightarrow> execution \<Rightarrow> string \<Rightarrow> activity_error + unit \<Rightarrow> execution flow" where
  "validated_claim env e now r =
     (case r of
        Inr _ \<Rightarrow>
          flow_bind (fresh_id env) (\<lambda>new_id.
          flow_bind (commit (start_provider_attempt new_id e now)) (\<lambda>_. query (get_execution (ex_execution_id e))))
      | Inl err \<Rightarrow> hold env e (activity_error_code err) now None None (Some OutcomeAmbiguous))"

definition validate_claim_phase :: "environment \<Rightarrow> string \<Rightarrow> string \<Rightarrow> execution flow" where
  "validate_claim_phase env i now =
     flow_bind (query (get_execution i)) (\<lambda>e.
     if ex_status e \<noteq> ''claimed'' then flow_return e
     else flow_bind (call_outside (\<lambda>calls. env_validate_claim env calls e) (ValidateClaimCall i))
            (validated_claim env e now))"

section \<open>Provider work\<close>

datatype provider_phase_outcome =
    PollExisting
  | PersistArtifacts
  | ReleaseAuthorization
  | PhaseComplete string "string option"

definition phase_complete :: "execution \<Rightarrow> provider_phase_outcome" where
  "phase_complete e = PhaseComplete (ex_status e) (ex_failure_code e)"

definition empty_usage :: normalized_usage where
  "empty_usage = \<lparr>us_images = None, us_input_tokens = None, us_output_tokens = None, us_results = None,
     us_pages = None, us_seconds = None, us_megapixels = None, us_additional_megapixels = None,
     us_input_images = None, us_input_megapixels = None\<rparr>"

definition attempt_failure ::
  "string \<Rightarrow> string \<Rightarrow> string \<Rightarrow> string option \<Rightarrow> string option \<Rightarrow> attempt_result" where
  "attempt_failure outcome code now request_id operation_id =
     \<lparr>ar_outcome = outcome, ar_completed_at = now, ar_usage = empty_usage, ar_usage_schema_version = 1,
      ar_actual_vendor_cost = None, ar_failure_code = Some code, ar_provider_request_id = request_id,
      ar_provider_operation_id = operation_id\<rparr>"

definition successful_attempt :: "provider_success \<Rightarrow> string \<Rightarrow> attempt_result" where
  "successful_attempt p now =
     \<lparr>ar_outcome = ''succeeded'', ar_completed_at = now, ar_usage = psu_usage p, ar_usage_schema_version = 1,
      ar_actual_vendor_cost = psu_actual_vendor_cost p, ar_failure_code = psu_billing_failure p,
      ar_provider_request_id = psu_request_id p, ar_provider_operation_id = psu_operation_id p\<rparr>"

definition release_call :: "environment \<Rightarrow> execution \<Rightarrow> (activity_error + unit) flow" where
  "release_call env e = call_outside (\<lambda>calls. env_release env calls e) (ReleaseCall (ex_execution_id e))"

definition release_answer :: "environment \<Rightarrow> execution \<Rightarrow> string \<Rightarrow> string \<Rightarrow> activity_error + unit \<Rightarrow> execution flow" where
  "release_answer env marked code now r =
     (case r of
        Inr _ \<Rightarrow> transition env marked ''released'' (Some code) now (Some OutcomeFailed) None (Some OutcomeReleased)
      | Inl err \<Rightarrow> hold env marked (activity_error_code err) now (Some OutcomeFailed) None (Some OutcomeAmbiguous))"

definition release_or_reconcile :: "environment \<Rightarrow> execution \<Rightarrow> string \<Rightarrow> string \<Rightarrow> execution flow" where
  "release_or_reconcile env e code now =
     (if ex_release_transmission_started_at e \<noteq> None
      then hold env e ''release_delivery_interrupted'' now (Some OutcomeFailed) None (Some OutcomeAmbiguous)
      else flow_bind (commit (begin_release_transmission (ex_execution_id e) (ex_version e) now)) (\<lambda>marked.
        flow_bind (release_call env marked) (release_answer env marked code now)))"

definition advance_completed_attempt :: "environment \<Rightarrow> execution \<Rightarrow> string \<Rightarrow> string \<Rightarrow> execution flow" where
  "advance_completed_attempt env e outcome now =
     (if outcome = ''succeeded''
      then hold env e ''artifact_delivery_interrupted'' now (Some OutcomeSucceeded) (Some OutcomeAmbiguous) None
      else if outcome = ''failed'' then release_or_reconcile env e ''provider_failed'' now
      else hold env e ''provider_ambiguous'' now (Some OutcomeAmbiguous) None None)"

text \<open>What is left to do when the attempt already has its outcome.\<close>

definition advance_and_report :: "environment \<Rightarrow> execution \<Rightarrow> string \<Rightarrow> string \<Rightarrow> provider_phase_outcome option flow" where
  "advance_and_report env e outcome phase_at =
     flow_bind (advance_completed_attempt env e outcome phase_at) (\<lambda>_.
     flow_bind (query (get_execution (ex_execution_id e))) (\<lambda>e. flow_return (Some (phase_complete e))))"

definition completed_provider_phase ::
  "environment \<Rightarrow> execution \<Rightarrow> provider_attempt \<Rightarrow> string \<Rightarrow> provider_phase_outcome option flow" where
  "completed_provider_phase env e a phase_at =
     (if pa_completed_at a = None then flow_return None
      else if pa_outcome a = ''succeeded''
      then flow_bind (query (get_staged_provider_artifacts (pa_provider_attempt_id a))) (\<lambda>staged.
           if staged \<noteq> [] then flow_return (Some PersistArtifacts)
           else advance_and_report env e (pa_outcome a) phase_at)
      else if pa_outcome a = ''failed'' then flow_return (Some ReleaseAuthorization)
      else advance_and_report env e (pa_outcome a) phase_at)"

text \<open>Both provider phases look at the attempt first; what they do with an open one is their own part.\<close>

definition provider_phase_with ::
  "environment \<Rightarrow> string \<Rightarrow> string \<Rightarrow> (execution \<Rightarrow> provider_attempt \<Rightarrow> provider_phase_outcome flow)
     \<Rightarrow> provider_phase_outcome flow" where
  "provider_phase_with env i phase_at open_part =
     flow_bind (query (get_execution i)) (\<lambda>e.
     if ex_status e \<noteq> ''executing'' then flow_return (phase_complete e)
     else flow_bind (query (get_provider_attempt_for_execution i)) (\<lambda>a.
     flow_bind (completed_provider_phase env e a phase_at) (\<lambda>outcome.
     case outcome of Some outcome \<Rightarrow> flow_return outcome | None \<Rightarrow> open_part e a)))"

definition held_complete :: "environment \<Rightarrow> execution \<Rightarrow> string \<Rightarrow> string \<Rightarrow> lifecycle_outcome option
     \<Rightarrow> lifecycle_outcome option \<Rightarrow> provider_phase_outcome flow" where
  "held_complete env e code now provider artifact =
     flow_bind (hold env e code now provider artifact None) (\<lambda>held. flow_return (phase_complete held))"

definition complete_attempt :: "environment \<Rightarrow> string \<Rightarrow> attempt_result \<Rightarrow> unit flow" where
  "complete_attempt env attempt_id r = commit (complete_provider_attempt (env_secrets env) attempt_id r)"

definition finish_success ::
  "environment \<Rightarrow> execution \<Rightarrow> string \<Rightarrow> provider_success \<Rightarrow> string \<Rightarrow> provider_phase_outcome flow" where
  "finish_success env e attempt_id success completed_at =
     (if psu_artifacts success = []
      then flow_bind (complete_attempt env attempt_id (successful_attempt success completed_at)) (\<lambda>_.
           held_complete env e ''provider_returned_no_artifacts'' completed_at (Some OutcomeSucceeded)
             (Some OutcomeFailed))
      else flow_bind (commit (complete_provider_attempt_with_artifacts (env_secrets env) attempt_id
             (successful_attempt success completed_at) (psu_artifacts success))) (\<lambda>_.
           flow_return PersistArtifacts))"

definition finish_failure ::
  "environment \<Rightarrow> string \<Rightarrow> string \<Rightarrow> string option \<Rightarrow> string option \<Rightarrow> string \<Rightarrow> provider_phase_outcome flow" where
  "finish_failure env attempt_id code request_id operation_id completed_at =
     flow_bind (complete_attempt env attempt_id (attempt_failure ''failed'' code completed_at request_id operation_id))
       (\<lambda>_. flow_return ReleaseAuthorization)"

definition finish_ambiguous ::
  "environment \<Rightarrow> execution \<Rightarrow> string \<Rightarrow> string \<Rightarrow> string option \<Rightarrow> string option \<Rightarrow> string
     \<Rightarrow> provider_phase_outcome flow" where
  "finish_ambiguous env e attempt_id code request_id operation_id completed_at =
     flow_bind (complete_attempt env attempt_id (attempt_failure ''ambiguous'' code completed_at request_id operation_id))
       (\<lambda>_. held_complete env e code completed_at (Some OutcomeAmbiguous) None)"

definition finish_provider_result ::
  "environment \<Rightarrow> execution \<Rightarrow> string \<Rightarrow> activity_error + provider_success \<Rightarrow> string
     \<Rightarrow> provider_phase_outcome flow" where
  "finish_provider_result env e attempt_id result t =
     (case result of
        Inr success \<Rightarrow> finish_success env e attempt_id success t
      | Inl (Proven code) \<Rightarrow> finish_failure env attempt_id code None None t
      | Inl (ProvenWithEvidence code request_id operation_id) \<Rightarrow>
          finish_failure env attempt_id code request_id operation_id t
      | Inl (Ambiguous code) \<Rightarrow> finish_ambiguous env e attempt_id code None None t
      | Inl (AmbiguousWithEvidence code request_id operation_id) \<Rightarrow>
          finish_ambiguous env e attempt_id code request_id operation_id t)"

text \<open>The transport calls a provider makes are counted in the repository before it makes them.\<close>

fun observe :: "string \<Rightarrow> provider_transport_interaction list \<Rightarrow> unit flow" where
  "observe i [] = flow_return ()"
| "observe i (PollTransport # xs) = flow_bind (flow_try (commit (record_provider_poll i))) (\<lambda>_. observe i xs)"
| "observe i (ArtifactFetchTransport # xs) =
     flow_bind (flow_try (commit (record_artifact_fetch i))) (\<lambda>_. observe i xs)"

definition call_provider ::
  "string \<Rightarrow> outside_call \<Rightarrow> (outside_call list \<Rightarrow> provider_transport_interaction list \<times> 'a) \<Rightarrow> 'a flow" where
  "call_provider attempt_id c answer =
     flow_bind calls_so_far (\<lambda>calls.
     case answer calls of (interactions, r) \<Rightarrow>
       flow_bind (record_call c) (\<lambda>_. flow_bind (observe attempt_id interactions) (\<lambda>_. flow_return r)))"

definition bind_poll_result_to_checkpoint ::
  "activity_error + provider_success \<Rightarrow> async_provider_operation \<Rightarrow> activity_error + provider_success" where
  "bind_poll_result_to_checkpoint result operation =
     (let request_id = apo_provider_request_id operation; operation_id = Some (apo_provider_operation_id operation) in
      case result of
        Inr success \<Rightarrow>
          let candidate = operation\<lparr>apo_provider_request_id := psu_request_id success,
                apo_provider_operation_id := or_empty (psu_operation_id success)\<rparr>;
              request_matches = (request_id = None \<or> psu_request_id success = request_id)
          in if operation_validate candidate \<noteq> Inr ()
                \<or> apo_provider_operation_id candidate \<noteq> apo_provider_operation_id operation \<or> \<not> request_matches
             then Inl (AmbiguousWithEvidence ''provider_operation_identity_mismatch'' request_id operation_id)
             else Inr (success\<lparr>psu_operation_id := operation_id,
                    psu_request_id := (if request_id \<noteq> None then request_id else psu_request_id success)\<rparr>)
      | Inl (Proven code) \<Rightarrow> Inl (ProvenWithEvidence code request_id operation_id)
      | Inl (ProvenWithEvidence code _ _) \<Rightarrow> Inl (ProvenWithEvidence code request_id operation_id)
      | Inl (Ambiguous code) \<Rightarrow> Inl (AmbiguousWithEvidence code request_id operation_id)
      | Inl (AmbiguousWithEvidence code _ _) \<Rightarrow> Inl (AmbiguousWithEvidence code request_id operation_id))"

text \<open>The checkpoint of an accepted operation; when it can not be written, the stored attempt decides
  whether it was.\<close>

definition checkpoint_operation ::
  "environment \<Rightarrow> execution \<Rightarrow> string \<Rightarrow> async_provider_operation \<Rightarrow> provider_phase_outcome flow" where
  "checkpoint_operation env e attempt_id operation =
     flow_bind (clock env) (\<lambda>checkpointed_at.
     flow_bind (flow_try (commit (record_provider_operation (env_secrets env) attempt_id operation checkpointed_at))) (\<lambda>r.
     if is_ok r then flow_return PollExisting
     else flow_bind (flow_try (query (\<lambda>s. and_then (get_provider_attempt attempt_id s) provider_operation))) (\<lambda>persisted.
          if persisted = Inr (Some operation) then flow_return PollExisting
          else held_complete env e ''provider_operation_persistence_failed'' checkpointed_at
                 (Some OutcomeAmbiguous) None)))"

definition submission_result ::
  "environment \<Rightarrow> execution \<Rightarrow> string \<Rightarrow> activity_error + provider_submission \<Rightarrow> provider_phase_outcome flow" where
  "submission_result env e attempt_id result =
     (case result of
        Inr (SubmissionPending operation) \<Rightarrow> checkpoint_operation env e attempt_id operation
      | Inr (SubmissionComplete success) \<Rightarrow> flow_bind (clock env) (finish_provider_result env e attempt_id (Inr success))
      | Inl err \<Rightarrow> flow_bind (clock env) (finish_provider_result env e attempt_id (Inl err)))"

text \<open>The one submission: its start is durable before it is made, and an attempt that was started before is
  never submitted again.\<close>

definition submit_open_attempt ::
  "environment \<Rightarrow> string \<Rightarrow> execution \<Rightarrow> provider_attempt \<Rightarrow> provider_phase_outcome flow" where
  "submit_open_attempt env phase_at e a =
     (let attempt_id = pa_provider_attempt_id a in
      case provider_operation a of
        Inr (Some _) \<Rightarrow> flow_return PollExisting
      | Inl _ \<Rightarrow> held_complete env e ''provider_operation_checkpoint_invalid'' phase_at (Some OutcomeAmbiguous) None
      | Inr None \<Rightarrow>
          if pa_transmission_started_at a \<noteq> None
          then held_complete env e ''provider_submission_interrupted'' phase_at (Some OutcomeAmbiguous) None
          else flow_bind (clock env) (\<lambda>started_at.
               flow_bind (commit (begin_provider_transmission attempt_id started_at)) (\<lambda>_.
               flow_bind (call_provider attempt_id (SubmitCall (ex_execution_id e) attempt_id)
                 (\<lambda>calls. env_submit env calls e attempt_id)) (submission_result env e attempt_id))))"

definition provider_submit_phase :: "environment \<Rightarrow> string \<Rightarrow> string \<Rightarrow> provider_phase_outcome flow" where
  "provider_submit_phase env i phase_at = provider_phase_with env i phase_at (submit_open_attempt env phase_at)"

definition poll_open_attempt ::
  "environment \<Rightarrow> string \<Rightarrow> execution \<Rightarrow> provider_attempt \<Rightarrow> provider_phase_outcome flow" where
  "poll_open_attempt env phase_at e a =
     (let attempt_id = pa_provider_attempt_id a in
      case provider_operation a of
        Inr (Some operation) \<Rightarrow>
          flow_bind (call_provider attempt_id (PollCall (ex_execution_id e) attempt_id)
            (\<lambda>calls. env_poll env calls e attempt_id operation)) (\<lambda>result.
          flow_bind (clock env) (finish_provider_result env e attempt_id
            (bind_poll_result_to_checkpoint result operation)))
      | _ \<Rightarrow> held_complete env e ''provider_operation_checkpoint_invalid'' phase_at (Some OutcomeAmbiguous) None)"

definition provider_poll_phase :: "environment \<Rightarrow> string \<Rightarrow> string \<Rightarrow> provider_phase_outcome flow" where
  "provider_poll_phase env i phase_at = provider_phase_with env i phase_at (poll_open_attempt env phase_at)"

end
