(* ===== verification/Gongbu_Artifacts.thy ===== *)
theory Gongbu_Artifacts
  imports Gongbu_World
begin

text \<open>
  \<^verbatim>\<open>crates/gongbu-api/src/artifact/mod.rs\<close>, the artifact service: an image is checked against the limits, written
  under a key made from the execution and a fresh id, read back, and only then recorded. \<open>persist\<close> is the activity
  of \<^verbatim>\<open>application.rs\<close> that does so for every image a provider returned. The image decoder, the digest
  and the file system are functions of the environment; a failed write is answered by it as well, so the
  temporary file of an atomic write is not modelled.
\<close>

datatype artifact_error =
    ArtifactIo
  | ArtifactPersistence store_error
  | UnsupportedMediaType
  | MediaTypeMismatch
  | ArtifactLimit string
  | InvalidStorageKey
  | InvalidImage

definition LOCAL_FS_BACKEND :: string where
  "LOCAL_FS_BACKEND = ''local_fs''"

text \<open>A step of an operation whose own errors are values of the surrounding flow.\<close>

definition res_bind :: "('e + 'a) flow \<Rightarrow> ('a \<Rightarrow> ('e + 'b) flow) \<Rightarrow> ('e + 'b) flow" where
  "res_bind m f = flow_bind m (\<lambda>r. case r of Inl e \<Rightarrow> flow_return (Inl e) | Inr x \<Rightarrow> f x)"

section \<open>Images\<close>

definition checked_mul_u64 :: "nat \<Rightarrow> nat \<Rightarrow> nat option" where
  "checked_mul_u64 a b = (if a * b < 2 ^ 64 then Some (a * b) else None)"

definition validate_image :: "environment \<Rightarrow> char list \<Rightarrow> string \<Rightarrow> artifact_error + (nat \<times> nat)" where
  "validate_image env bytes media_type =
     (let limits = env_limits env in
      if al_max_encoded_bytes limits < length bytes then Inl (ArtifactLimit ''encoded size'')
      else if media_type \<noteq> ''image/png'' \<and> media_type \<noteq> ''image/jpeg'' then Inl UnsupportedMediaType
      else if env_guess_format env bytes \<noteq> Some media_type then Inl MediaTypeMismatch
      else
        and_then (ok_or InvalidImage (env_dimensions env bytes)) (\<lambda>(width, height).
        if al_max_width limits < width \<or> al_max_height limits < height then Inl (ArtifactLimit ''dimensions'')
        else
          and_then (ok_or (ArtifactLimit ''decoded size'')
            (Option.bind (checked_mul_u64 width height) (\<lambda>pixels. checked_mul_u64 pixels 4))) (\<lambda>decoded_size.
          if al_max_decoded_bytes limits < decoded_size then Inl (ArtifactLimit ''decoded size'')
          else if \<not> env_decodes env bytes then Inl InvalidImage
          else Inr (width, height))))"

definition sniff_image_media_type :: "environment \<Rightarrow> char list \<Rightarrow> string option" where
  "sniff_image_media_type env bytes =
     (case env_guess_format env bytes of
        Some f \<Rightarrow> if f = ''image/png'' \<or> f = ''image/jpeg'' then Some f else None
      | None \<Rightarrow> None)"

section \<open>Storage keys\<close>

fun split_slash :: "string \<Rightarrow> string \<Rightarrow> string list" where
  "split_slash part [] = [part]"
| "split_slash part (c # cs) = (if c = CHR 0x2F then part # split_slash [] cs else split_slash (part @ [c]) cs)"

text \<open>\<^verbatim>\<open>Path::components\<close> skips empty parts and a dot after the first part.\<close>

definition normal_components :: "string \<Rightarrow> bool" where
  "normal_components key \<longleftrightarrow>
     hd (split_slash [] key) \<notin> {[], ''.''} \<and> ''..'' \<notin> set (split_slash [] key)"

definition validate_storage_key :: "string \<Rightarrow> artifact_error + unit" where
  "validate_storage_key key =
     (if key = [] \<or> CHR 0x5C \<in> set key \<or> \<not> normal_components key \<or> \<not> prefix ''executions/'' key
      then Inl InvalidStorageKey else Inr ())"

section \<open>Storage\<close>

definition write_atomic :: "environment \<Rightarrow> string \<Rightarrow> string \<Rightarrow> char list \<Rightarrow> (artifact_error + unit) flow" where
  "write_atomic env execution_id key bytes =
     (case validate_storage_key key of
        Inl e \<Rightarrow> flow_return (Inl e)
      | Inr _ \<Rightarrow> call_outside
          (\<lambda>calls. if env_write_file env calls key bytes then Inr () else Inl ArtifactIo)
          (WriteFileCall execution_id key))"

definition read_file :: "environment \<Rightarrow> string \<Rightarrow> (artifact_error + char list) flow" where
  "read_file env key =
     (case validate_storage_key key of
        Inl e \<Rightarrow> flow_return (Inl e)
      | Inr _ \<Rightarrow> flow_bind calls_so_far (\<lambda>calls. flow_return (ok_or ArtifactIo (env_read_file env calls key))))"

definition remove_file :: "string \<Rightarrow> unit flow" where
  "remove_file key =
     (case validate_storage_key key of Inl _ \<Rightarrow> flow_return () | Inr _ \<Rightarrow> record_call (RemoveFileCall key))"

definition removing :: "string \<Rightarrow> artifact_error \<Rightarrow> (artifact_error + 'a) flow" where
  "removing key e = flow_bind (remove_file key) (\<lambda>_. flow_return (Inl e))"

section \<open>The service\<close>

definition image_metadata :: "nat \<Rightarrow> nat \<Rightarrow> json" where
  "image_metadata width height =
     JsonObject [(''height'', JsonNumber (show_int (int height))), (''width'', JsonNumber (show_int (int width)))]"

definition new_artifact ::
  "environment \<Rightarrow> string \<Rightarrow> string \<Rightarrow> string option \<Rightarrow> string \<Rightarrow> string \<Rightarrow> char list \<Rightarrow> nat \<Rightarrow> nat \<Rightarrow> string
     \<Rightarrow> artifact_row" where
  "new_artifact env artifact_id execution_id attempt_id media_type storage_key persisted width height created_at =
     \<lparr>art_artifact_id = artifact_id, art_execution_id = execution_id, art_provider_attempt_id = attempt_id,
      art_kind = ''image'', art_storage_backend = LOCAL_FS_BACKEND, art_media_type = media_type,
      art_storage_key = storage_key, art_size_bytes = int (length persisted), art_sha256 = env_sha256 env persisted,
      art_metadata = image_metadata width height, art_metadata_schema_version = 1, art_created_at = created_at\<rparr>"

text \<open>What is left once the file is written: it has to read back as it was given, and its row to be accepted;
  otherwise the file is removed.\<close>

definition record_stored_image ::
  "environment \<Rightarrow> artifact_row \<Rightarrow> char list \<Rightarrow> char list \<Rightarrow> (artifact_error + artifact_row) flow" where
  "record_stored_image env row bytes persisted =
     (if persisted \<noteq> bytes then removing (art_storage_key row) ArtifactIo
      else flow_bind (flow_try (commit (create_artifact_with_limit (env_secrets env) (env_json_text env) row
             (al_max_artifacts_per_execution (env_limits env))))) (\<lambda>r.
           case r of
             Inr artifact \<Rightarrow> flow_return (Inr artifact)
           | Inl e \<Rightarrow> removing (art_storage_key row)
               (if e = LimitExceeded ''artifact count'' then ArtifactLimit ''artifact count''
                else ArtifactPersistence e)))"

definition store_image ::
  "environment \<Rightarrow> string \<Rightarrow> string option \<Rightarrow> string \<Rightarrow> char list \<Rightarrow> string \<Rightarrow> (artifact_error + artifact_row) flow" where
  "store_image env execution_id attempt_id media_type bytes created_at =
     flow_bind (query (\<lambda>s. Inr (count_artifacts (\<lambda>a. art_execution_id a = execution_id) s))) (\<lambda>n.
     if al_max_artifacts_per_execution (env_limits env) \<le> n then flow_return (Inl (ArtifactLimit ''artifact count''))
     else res_bind (flow_return (ok_or UnsupportedMediaType (media_extension media_type))) (\<lambda>extension.
     res_bind (flow_return (validate_image env bytes media_type)) (\<lambda>(width, height).
     flow_bind (fresh_id env) (\<lambda>artifact_id.
     let storage_key = ''executions/'' @ execution_id @ ''/'' @ artifact_id @ ''.'' @ extension in
     res_bind (flow_return (validate_storage_key storage_key)) (\<lambda>_.
     res_bind (write_atomic env execution_id storage_key bytes) (\<lambda>_.
     flow_bind (read_file env storage_key) (\<lambda>persisted.
     case persisted of
       Inl e \<Rightarrow> removing storage_key e
     | Inr persisted \<Rightarrow>
         record_stored_image env (new_artifact env artifact_id execution_id attempt_id media_type storage_key
             persisted width height created_at) bytes persisted)))))))"

fun persist :: "environment \<Rightarrow> string \<Rightarrow> string \<Rightarrow> staged_artifact list \<Rightarrow> (activity_error + unit) flow" where
  "persist env execution_id attempt_id [] = flow_return (Inr ())"
| "persist env execution_id attempt_id (a # as) =
     flow_bind (clock env) (\<lambda>now.
     flow_bind (store_image env execution_id (Some attempt_id) (sa_media_type a) (sa_bytes a) now) (\<lambda>r.
     case r of
       Inl _ \<Rightarrow> flow_return (Inl (Proven ''artifact_policy_failure''))
     | Inr _ \<Rightarrow> persist env execution_id attempt_id as))"

section \<open>Retrieval\<close>

definition get_artifact_for_account :: "string \<Rightarrow> string \<Rightarrow> repository \<Rightarrow> store_error + artifact_row" where
  "get_artifact_for_account artifact_id account_id s =
     (case hm_get (st_artifacts s) artifact_id of
        None \<Rightarrow> Inl RowNotFound
      | Some a \<Rightarrow>
          (case hm_get (st_executions s) (art_execution_id a) of
             None \<Rightarrow> Inl RowNotFound
           | Some e \<Rightarrow> if ex_account_id e = account_id then Inr a else Inl RowNotFound))"

definition retrieve_for_account ::
  "environment \<Rightarrow> string \<Rightarrow> string \<Rightarrow> (artifact_error + (artifact_row \<times> char list)) flow" where
  "retrieve_for_account env artifact_id account_id =
     res_bind (flow_bind (flow_try (query (get_artifact_for_account artifact_id account_id)))
       (\<lambda>r. flow_return (map_err ArtifactPersistence r))) (\<lambda>artifact.
     if art_storage_backend artifact \<noteq> LOCAL_FS_BACKEND then flow_return (Inl InvalidStorageKey)
     else res_bind (read_file env (art_storage_key artifact)) (\<lambda>bytes.
       if int (length bytes) \<noteq> art_size_bytes artifact \<or> env_sha256 env bytes \<noteq> art_sha256 artifact
       then flow_return (Inl ArtifactIo) else flow_return (Inr (artifact, bytes))))"

end
