(* ===== verification/Gongbu_Settlement.thy ===== *)
theory Gongbu_Settlement
  imports Gongbu_Workflow Gongbu_Artifacts
begin

text \<open>
  \<^verbatim>\<open>crates/gongbu-api/src/workflow.rs\<close>, continued: the phases after provider work, the recovery of a held
  execution with the actions of operators, and the loop \<open>run\<close> over the durable status.
\<close>

section \<open>Artifacts\<close>

definition has_unit :: "pricing_snapshot \<Rightarrow> pricing_unit \<Rightarrow> bool" where
  "has_unit s unit \<longleftrightarrow> list_ex (\<lambda>component. fpc_unit component = unit) (snap_components s)"

definition artifacts_match_usage_count ::
  "execution \<Rightarrow> nat \<Rightarrow> nat \<Rightarrow> normalized_usage \<Rightarrow> store_error + bool" where
  "artifacts_match_usage_count e stored returned usage =
     (if stored = 0 \<or> stored \<noteq> returned then Inr False
      else and_then (ok_or (InvalidRow ''pricing snapshot'') (ex_pricing_snapshot e)) (\<lambda>snapshot.
        if has_unit snapshot Image
        then (case us_images usage of
                Some images \<Rightarrow> Inr (images < 0 \<or> int stored = images)
              | None \<Rightarrow> Inr True)
        else Inr True))"

text \<open>The images have to be as many as were returned and as the usage names.\<close>

definition complete_artifacts :: "environment \<Rightarrow> execution \<Rightarrow> provider_attempt \<Rightarrow> nat \<Rightarrow> string \<Rightarrow> execution flow" where
  "complete_artifacts env e a returned now =
     flow_bind (query (count_artifacts_for_attempt (pa_provider_attempt_id a))) (\<lambda>stored.
     flow_bind (query (\<lambda>_. ok_or (InvalidRow ''attempt usage'') (pa_usage a))) (\<lambda>usage.
     flow_bind (query (\<lambda>_. artifacts_match_usage_count e stored returned usage)) (\<lambda>matches.
     if \<not> matches
     then hold env e ''artifact_count_mismatch'' now (Some OutcomeSucceeded) (Some OutcomeFailed) None
     else commit (complete_artifact_persistence (env_secrets env) e (pa_provider_attempt_id a) now))))"

text \<open>They are recorded unless an earlier run recorded them.\<close>

definition persist_staged ::
  "environment \<Rightarrow> execution \<Rightarrow> provider_attempt \<Rightarrow> staged_artifact list \<Rightarrow> string \<Rightarrow> execution flow" where
  "persist_staged env e a staged now =
     flow_bind (query (count_artifacts_for_attempt (pa_provider_attempt_id a))) (\<lambda>stored.
     flow_bind (if stored = 0 then persist env (ex_execution_id e) (pa_provider_attempt_id a) staged
                else flow_return (Inr ())) (\<lambda>persisted.
     case persisted of
       Inl err \<Rightarrow> hold env e (activity_error_code err) now (Some OutcomeSucceeded) (Some OutcomeFailed) None
     | Inr _ \<Rightarrow> complete_artifacts env e a (length staged) now))"

definition artifact_work :: "environment \<Rightarrow> execution \<Rightarrow> provider_attempt \<Rightarrow> string \<Rightarrow> execution flow" where
  "artifact_work env e a now =
     flow_bind (query (get_staged_provider_artifacts (pa_provider_attempt_id a))) (\<lambda>staged.
     if staged = []
     then flow_bind (advance_completed_attempt env e (pa_outcome a) now) (\<lambda>_. query (get_execution (ex_execution_id e)))
     else persist_staged env e a staged now)"

definition artifact_phase :: "environment \<Rightarrow> string \<Rightarrow> string \<Rightarrow> execution flow" where
  "artifact_phase env i now =
     flow_bind (query (get_execution i)) (\<lambda>e.
     if ex_status e \<noteq> ''executing'' then flow_return e
     else flow_bind (query (get_provider_attempt_for_execution i)) (\<lambda>a.
     if pa_completed_at a = None \<or> pa_outcome a \<noteq> ''succeeded'' then flow_return e
     else artifact_work env e a now))"

definition release_phase :: "environment \<Rightarrow> string \<Rightarrow> string \<Rightarrow> execution flow" where
  "release_phase env i now =
     flow_bind (query (get_execution i)) (\<lambda>e.
     if ex_status e \<noteq> ''executing'' then flow_return e
     else flow_bind (query (get_provider_attempt_for_execution i)) (\<lambda>a.
     flow_bind (if pa_completed_at a \<noteq> None \<and> pa_outcome a = ''failed''
                then release_or_reconcile env e
                  (case pa_failure_code a of None \<Rightarrow> ''provider_failed'' | Some code \<Rightarrow> code) now
                else flow_return e) (\<lambda>_. query (get_execution i))))"

section \<open>Settlement\<close>

text \<open>What the attempt costs: an empty cost of the provider settles the frozen quote.\<close>

definition attempt_settlement ::
  "pricing_snapshot \<Rightarrow> provider_attempt \<Rightarrow> normalized_usage \<Rightarrow> int \<Rightarrow> (contract_error + precise_settlement) option" where
  "attempt_settlement snapshot a usage authorized_units =
     (if pa_failure_code a = Some ''pack_response_cost_missing''
      then settle_from_quote snapshot usage authorized_units
      else settle_precise snapshot usage (pa_actual_vendor_cost a) authorized_units)"

definition settlement_receipt_params ::
  "string \<Rightarrow> provider_attempt \<Rightarrow> pricing_snapshot \<Rightarrow> precise_settlement \<Rightarrow> string \<Rightarrow> create_receipt_params" where
  "settlement_receipt_params i a snapshot settlement now =
     \<lparr>crp_receipt_id = ''receipt-'' @ i, crp_execution_id = i,
      crp_provider_attempt_id = pa_provider_attempt_id a, crp_settlement_units = pst_budget_units settlement,
      crp_currency = snap_currency snapshot, crp_pricing_catalog_version = snap_catalog_version snapshot,
      crp_actual_vendor_cost = pst_actual_vendor_cost settlement, crp_created_at = now,
      crp_settled_at = None, crp_hubu_settlement_id = None\<rparr>"

text \<open>A write whose computation may not end.\<close>

definition commit_returning ::
  "(repository \<Rightarrow> (store_error + ('a \<times> repository)) option) \<Rightarrow> 'a flow" where
  "commit_returning m w = Option.bind (m (wd_store w)) (\<lambda>r. commit (\<lambda>_. r) w)"

definition settle_call :: "environment \<Rightarrow> execution \<Rightarrow> string \<Rightarrow> int \<Rightarrow> (activity_error + string) flow" where
  "settle_call env e receipt_id units =
     call_outside (\<lambda>calls. env_settle env calls e receipt_id units)
       (SettleCall (ex_execution_id e) receipt_id units)"

definition existing_or_new_receipt ::
  "environment \<Rightarrow> string \<Rightarrow> create_receipt_params \<Rightarrow> receipt_row flow" where
  "existing_or_new_receipt env i params =
     flow_bind (flow_try (query (get_receipt_for_execution i))) (\<lambda>r.
     case r of
       Inr receipt \<Rightarrow> flow_return receipt
     | Inl e \<Rightarrow> if e = RowNotFound then commit_returning (create_receipt (env_secrets env) params) else flow_error e)"

definition succeed ::
  "environment \<Rightarrow> execution \<Rightarrow> string \<Rightarrow> lifecycle_outcome option \<Rightarrow> lifecycle_outcome option \<Rightarrow> execution flow" where
  "succeed env e now provider artifact =
     transition env e ''succeeded'' (Some ''succeeded'') now provider artifact (Some OutcomeSucceeded)"

text \<open>The delivery of a receipt: it is marked before it is sent, so that an interrupted delivery is held.\<close>

definition settle_answer ::
  "environment \<Rightarrow> execution \<Rightarrow> receipt_row \<Rightarrow> string \<Rightarrow> activity_error + string \<Rightarrow> execution flow" where
  "settle_answer env e receipt now r =
     (case r of
        Inr settlement_id \<Rightarrow>
          flow_bind (commit (complete_receipt (rcp_receipt_id receipt) settlement_id now)) (\<lambda>_.
          succeed env e now None None)
      | Inl err \<Rightarrow> hold env e (activity_error_code err) now None None (Some OutcomeAmbiguous))"

definition deliver_receipt :: "environment \<Rightarrow> execution \<Rightarrow> receipt_row \<Rightarrow> int \<Rightarrow> string \<Rightarrow> execution flow" where
  "deliver_receipt env e receipt amount now =
     (if rcp_settled_at receipt \<noteq> None then succeed env e now None None
      else if rcp_transmission_started_at receipt \<noteq> None
      then hold env e ''settlement_delivery_interrupted'' now None None (Some OutcomeAmbiguous)
      else flow_bind (commit (begin_settlement_transmission (rcp_receipt_id receipt) now)) (\<lambda>_.
        flow_bind (settle_call env e (rcp_receipt_id receipt) amount) (settle_answer env e receipt now)))"

definition settle_attempt ::
  "environment \<Rightarrow> execution \<Rightarrow> provider_attempt \<Rightarrow> pricing_snapshot \<Rightarrow> normalized_usage \<Rightarrow> string \<Rightarrow> execution flow" where
  "settle_attempt env e a snapshot usage now w =
     Option.bind (attempt_settlement snapshot a usage (ex_authorized_units e)) (\<lambda>calculated.
     case calculated of
       Inl err \<Rightarrow>
         hold env e
           (if err = SettlementOverage then ''settlement_over_authorization'' else ''invalid_provider_usage'')
           now None None (Some OutcomeAmbiguous) w
     | Inr settlement \<Rightarrow>
         flow_bind (existing_or_new_receipt env (ex_execution_id e)
             (settlement_receipt_params (ex_execution_id e) a snapshot settlement now)) (\<lambda>receipt.
         deliver_receipt env e receipt (pst_budget_units settlement) now) w)"

definition settlement_phase :: "environment \<Rightarrow> string \<Rightarrow> string \<Rightarrow> execution flow" where
  "settlement_phase env i now =
     flow_bind (query (get_execution i)) (\<lambda>e.
     if ex_status e \<noteq> ''settling'' then flow_return e
     else flow_bind (query (get_provider_attempt_for_execution i)) (\<lambda>a.
     flow_bind (query (\<lambda>_. ok_or (InvalidRow ''pricing snapshot'') (ex_pricing_snapshot e))) (\<lambda>snapshot.
     flow_bind (query (\<lambda>_. ok_or (InvalidRow ''attempt usage'') (pa_usage a))) (\<lambda>usage.
     if pa_failure_code a \<notin> {None, Some ''pack_response_cost_missing''}
     then hold env e (or_empty (pa_failure_code a)) now None None (Some OutcomeAmbiguous)
     else settle_attempt env e a snapshot usage now))))"

section \<open>Recovery\<close>

datatype reconciliation_action = Reinspect | Settle | Release

text \<open>An operator's request, with its evidence as the redactor leaves it: \<open>None\<close> when that is no JSON any more.\<close>

record operator_reconciliation_request =
  orr_action_id :: string
  orr_action :: reconciliation_action
  orr_evidence_is_object :: bool
  orr_redacted_evidence :: "string option"

definition action_name :: "reconciliation_action \<Rightarrow> string" where
  "action_name a = (case a of Reinspect \<Rightarrow> ''reinspect'' | Settle \<Rightarrow> ''settle'' | Release \<Rightarrow> ''release'')"

definition rejected_origin :: "provider_attempt \<Rightarrow> bool" where
  "rejected_origin a \<longleftrightarrow>
     (case pa_provider_recovery_context a of
        None \<Rightarrow> False | Some c \<Rightarrow> prc_validation_reason c = Some ''host_not_allowlisted'')"

text \<open>The poll of a recovery takes every time from the start of the recovery.\<close>

definition at_time :: "environment \<Rightarrow> string \<Rightarrow> environment" where
  "at_time env now = env\<lparr>env_clock := (\<lambda>_. now)\<rparr>"

definition resume_reopened_provider_poll :: "environment \<Rightarrow> string \<Rightarrow> string \<Rightarrow> execution flow" where
  "resume_reopened_provider_poll env i now =
     flow_bind (provider_poll_phase (at_time env now) i now) (\<lambda>outcome.
     case outcome of
       PersistArtifacts \<Rightarrow>
         flow_bind (artifact_phase env i now) (\<lambda>persisted.
         if ex_status persisted = ''settling'' then settlement_phase env i now else flow_return persisted)
     | ReleaseAuthorization \<Rightarrow> release_phase env i now
     | _ \<Rightarrow> query (get_execution i))"

text \<open>Whether an operator's action may be taken: one that was recorded before with other content is refused.\<close>

definition operator_accepted ::
  "string \<Rightarrow> string \<Rightarrow> operator_reconciliation_request option \<Rightarrow> bool flow" where
  "operator_accepted i now operator =
     (case operator of
        None \<Rightarrow> flow_return True
      | Some request \<Rightarrow>
          if is_blank (orr_action_id request) \<or> \<not> orr_evidence_is_object request then flow_return False
          else commit (record_operator_action i (orr_action_id request) (action_name (orr_action request))
                 (orr_redacted_evidence request) now))"

text \<open>A row that may be missing.\<close>

definition optional_row :: "'a flow \<Rightarrow> 'a option flow" where
  "optional_row m =
     flow_bind (flow_try m) (\<lambda>r.
     case r of
       Inr v \<Rightarrow> flow_return (Some v)
     | Inl e \<Rightarrow> if e = RowNotFound then flow_return None else flow_error e)"

text \<open>A claim whose delivery was ambiguous is claimed again; \<open>None\<close> when that fails.\<close>

definition recovered_claim ::
  "environment \<Rightarrow> execution \<Rightarrow> string \<Rightarrow> activity_error + string \<Rightarrow> execution option flow" where
  "recovered_claim env e now r =
     (case r of
        Inr claim_id \<Rightarrow>
          flow_bind (commit (set_reconciliation_claim (ex_execution_id e) (ex_version e) claim_id now)) (\<lambda>e.
          flow_bind (commit (record_reconciliation (env_evidence_rejected env) e ''claim_recovered'' now)) (\<lambda>_.
          flow_return (Some e)))
      | Inl _ \<Rightarrow> flow_return None)"

definition recover_claim ::
  "environment \<Rightarrow> execution \<Rightarrow> provider_attempt option \<Rightarrow> string \<Rightarrow> execution option flow" where
  "recover_claim env e attempt now =
     (if attempt = None \<and> ex_hubu_claim_id e = None
      then flow_bind (hubu_claim env e) (recovered_claim env e now)
      else flow_return (Some e))"

text \<open>The reopening of an attempt whose polling origin was rejected.\<close>

definition reopen_poll ::
  "environment \<Rightarrow> execution \<Rightarrow> provider_attempt option \<Rightarrow> reconciliation_action option \<Rightarrow> string \<Rightarrow> bool flow" where
  "reopen_poll env e attempt requested now =
     (case attempt of
        None \<Rightarrow> flow_return False
      | Some a \<Rightarrow>
          if requested = Some Reinspect \<and> pa_outcome a = ''ambiguous'' \<and> rejected_origin a
          then flow_bind (flow_try (commit (begin_provider_reconciliation_poll (env_unix_millis env)
                 (ex_execution_id e) (pa_provider_attempt_id a) (ex_version e) now))) (\<lambda>r. flow_return (is_ok r))
          else flow_return False)"

definition replays_settlement ::
  "provider_attempt option \<Rightarrow> receipt_row option \<Rightarrow> reconciliation_action option \<Rightarrow> repository \<Rightarrow> bool" where
  "replays_settlement attempt receipt requested s \<longleftrightarrow>
     requested \<noteq> Some Release \<and> receipt \<noteq> None
     \<and> (case attempt of
          None \<Rightarrow> False
        | Some a \<Rightarrow> pa_outcome a = ''succeeded'' \<and> pa_usage a \<noteq> None
                    \<and> 0 < count_artifacts (\<lambda>r. art_provider_attempt_id r = Some (pa_provider_attempt_id a)) s)"

definition replay_answer ::
  "environment \<Rightarrow> execution \<Rightarrow> receipt_row \<Rightarrow> string \<Rightarrow> activity_error + string \<Rightarrow> execution flow" where
  "replay_answer env e receipt now r =
     (case r of
        Inr settlement_id \<Rightarrow>
          flow_bind (if rcp_settled_at receipt = None
                     then commit (complete_receipt (rcp_receipt_id receipt) settlement_id now)
                     else flow_return ()) (\<lambda>_.
          succeed env e now (Some OutcomeSucceeded) (Some OutcomeSucceeded))
      | Inl _ \<Rightarrow> flow_return e)"

definition replay_settlement :: "environment \<Rightarrow> execution \<Rightarrow> receipt_row \<Rightarrow> string \<Rightarrow> execution flow" where
  "replay_settlement env e receipt now =
     flow_bind (settle_call env e (rcp_receipt_id receipt) (rcp_settlement_units receipt))
       (replay_answer env e receipt now)"

text \<open>A release is safe only before the transmission of provider work or after its proven failure.\<close>

definition safe_release :: "execution \<Rightarrow> provider_attempt option \<Rightarrow> bool" where
  "safe_release e attempt \<longleftrightarrow>
     (case attempt of
        None \<Rightarrow> ex_hubu_claim_id e \<noteq> None
      | Some a \<Rightarrow> pa_transmission_started_at a = None \<or> (pa_outcome a = ''failed'' \<and> pa_completed_at a \<noteq> None))"

definition recover_release ::
  "environment \<Rightarrow> execution \<Rightarrow> provider_attempt option \<Rightarrow> reconciliation_action option \<Rightarrow> string \<Rightarrow> execution flow" where
  "recover_release env e attempt requested now =
     (if safe_release e attempt \<and> requested \<noteq> Some Settle
      then flow_bind (release_call env e) (\<lambda>r.
        if is_ok r
        then transition env e ''released'' (Some ''recovered_release'') now
               (map_option (\<lambda>_. OutcomeFailed) attempt) None (Some OutcomeReleased)
        else flow_return e)
      else flow_return e)"

text \<open>What is done with a claimed execution: poll again, deliver its receipt again, or give the authorization back.\<close>

definition recover_claimed ::
  "environment \<Rightarrow> execution \<Rightarrow> string \<Rightarrow> reconciliation_action option \<Rightarrow> provider_attempt option
     \<Rightarrow> receipt_row option \<Rightarrow> execution flow" where
  "recover_claimed env e now requested attempt receipt =
     flow_bind (reopen_poll env e attempt requested now) (\<lambda>reopened.
     if reopened then resume_reopened_provider_poll env (ex_execution_id e) now
     else flow_bind (query (\<lambda>s. Inr (replays_settlement attempt receipt requested s))) (\<lambda>replays.
          case (receipt, replays) of
            (Some receipt, True) \<Rightarrow> replay_settlement env e receipt now
          | _ \<Rightarrow> recover_release env e attempt requested now))"

definition recover_held ::
  "environment \<Rightarrow> execution \<Rightarrow> string \<Rightarrow> reconciliation_action option \<Rightarrow> execution flow" where
  "recover_held env e now requested =
     flow_bind (optional_row (query (get_provider_attempt_for_execution (ex_execution_id e)))) (\<lambda>attempt.
     flow_bind (optional_row (query (get_receipt_for_execution (ex_execution_id e)))) (\<lambda>receipt.
     flow_bind (recover_claim env e attempt now) (\<lambda>claimed.
     case claimed of
       None \<Rightarrow> flow_return e
     | Some e \<Rightarrow> recover_claimed env e now requested attempt receipt)))"

text \<open>An execution whose poll was reopened by a recovery that did not end.\<close>

definition interrupted_reopening :: "execution \<Rightarrow> bool flow" where
  "interrupted_reopening e =
     (if ex_status e = ''executing'' \<and> ex_provider_outcome e = Some OutcomeAmbiguous
      then flow_bind (query (get_provider_attempt_for_execution (ex_execution_id e))) (\<lambda>a.
           flow_return (pa_operation_checkpointed_at a \<noteq> None \<and> rejected_origin a))
      else flow_return False)"

definition recover ::
  "environment \<Rightarrow> string \<Rightarrow> string \<Rightarrow> operator_reconciliation_request option \<Rightarrow> execution flow" where
  "recover env i now operator =
     flow_bind (query (get_execution i)) (\<lambda>e.
     flow_bind (interrupted_reopening e) (\<lambda>reopened.
     if reopened then resume_reopened_provider_poll env i now
     else if ex_status e = ''settling'' \<and> ex_provider_outcome e = Some OutcomeSucceeded then settlement_phase env i now
     else if ex_status e \<noteq> ''reconciliation_required'' then flow_return e
     else flow_bind (operator_accepted i now operator) (\<lambda>accepted.
          if accepted then recover_held env e now (map_option orr_action operator) else flow_return e)))"

section \<open>The loop\<close>

text \<open>Submission and poll as the one activity of earlier workflow histories.\<close>

definition provider_phase :: "environment \<Rightarrow> string \<Rightarrow> string \<Rightarrow> provider_phase_outcome flow" where
  "provider_phase env i phase_at =
     flow_bind (provider_submit_phase env i phase_at) (\<lambda>outcome.
     if outcome = PollExisting then flow_bind (clock env) (provider_poll_phase env i) else flow_return outcome)"

definition provider_and_following_phase :: "environment \<Rightarrow> string \<Rightarrow> string \<Rightarrow> unit flow" where
  "provider_and_following_phase env i now =
     flow_bind (provider_submit_phase env i now) (\<lambda>outcome.
     flow_bind (if outcome = PollExisting then flow_bind (clock env) (provider_poll_phase env i)
                else flow_return outcome) (\<lambda>outcome.
     case outcome of
       PersistArtifacts \<Rightarrow> flow_bind (clock env) (\<lambda>t. flow_bind (artifact_phase env i t) (\<lambda>_. flow_return ()))
     | ReleaseAuthorization \<Rightarrow> flow_bind (clock env) (\<lambda>t. flow_bind (release_phase env i t) (\<lambda>_. flow_return ()))
     | _ \<Rightarrow> flow_return ()))"

definition status_phase :: "environment \<Rightarrow> string \<Rightarrow> string \<Rightarrow> string \<Rightarrow> unit flow" where
  "status_phase env i now status =
     (let ignoring = (\<lambda>m. flow_bind m (\<lambda>_ :: execution. flow_return ())) in
      if status = ''pending'' then ignoring (preflight_phase env i now)
      else if status = ''preflighting'' then ignoring (claim_phase env i now)
      else if status = ''claimed'' then ignoring (validate_claim_phase env i now)
      else if status = ''executing'' then provider_and_following_phase env i now
      else if status = ''settling'' then ignoring (settlement_phase env i now)
      else flow_error (InvalidRow ''workflow status''))"

definition record_missing_reconciliation :: "environment \<Rightarrow> execution \<Rightarrow> string \<Rightarrow> unit flow" where
  "record_missing_reconciliation env e now =
     flow_bind (query (\<lambda>s. Inr (get_reconciliation (ex_execution_id e) s))) (\<lambda>r.
     if ex_status e = ''reconciliation_required'' \<and> r = Inl RowNotFound
     then flow_bind (commit (record_reconciliation (env_evidence_rejected env) e ''reconciliation_replay'' now))
            (\<lambda>_. flow_return ())
     else flow_return ())"

text \<open>One turn of the loop, which answers the execution when it is done.\<close>

definition run_turn :: "environment \<Rightarrow> string \<Rightarrow> execution option flow" where
  "run_turn env i =
     flow_bind (query (get_execution i)) (\<lambda>e.
     flow_bind (clock env) (\<lambda>now.
     flow_bind (record_missing_reconciliation env e now) (\<lambda>_.
     if terminal (ex_status e) then flow_return (Some e)
     else flow_bind (status_phase env i now (ex_status e)) (\<lambda>_. flow_return None))))"

partial_function (option) run_with_clock ::
  "environment \<Rightarrow> string \<Rightarrow> world \<Rightarrow> ((store_error + execution) \<times> world) option" where
  "run_with_clock env i w =
     Option.bind (run_turn env i w) (\<lambda>(r, w').
     case r of
       Inl e \<Rightarrow> Some (Inl e, w')
     | Inr (Some e) \<Rightarrow> Some (Inr e, w')
     | Inr None \<Rightarrow> run_with_clock env i w')"

declare run_with_clock.simps [code]

end
