(* ===== verification/Gongbu_Lifecycle.thy ===== *)
theory Gongbu_Lifecycle
  imports Gongbu_Settlement
begin

text \<open>
  What holds of one execution at every point a crash may leave behind: \<open>lifecycle_ok\<close> relates its row, its
  attempt, its receipt and the calls made for it, \<open>consistent\<close> says so of every execution, and \<open>evolves\<close> says what
  no later point takes back.
\<close>

section \<open>Attempts and calls\<close>

definition completed :: "provider_attempt \<Rightarrow> bool" where
  "completed a \<longleftrightarrow> pa_completed_at a \<noteq> None"

definition transmitted :: "provider_attempt \<Rightarrow> bool" where
  "transmitted a \<longleftrightarrow> pa_transmission_started_at a \<noteq> None"

definition checkpointed :: "provider_attempt \<Rightarrow> bool" where
  "checkpointed a \<longleftrightarrow> pa_operation_checkpointed_at a \<noteq> None"

definition succeeded_attempt :: "provider_attempt \<Rightarrow> bool" where
  "succeeded_attempt a \<longleftrightarrow> completed a \<and> pa_outcome a = ''succeeded''"

definition failed_attempt :: "provider_attempt \<Rightarrow> bool" where
  "failed_attempt a \<longleftrightarrow> completed a \<and> pa_outcome a = ''failed''"

text \<open>The calls made to submit work for an execution.\<close>

definition submission_of :: "string \<Rightarrow> outside_call \<Rightarrow> bool" where
  "submission_of x k \<longleftrightarrow> (case k of SubmitCall y _ \<Rightarrow> y = x | _ \<Rightarrow> False)"

definition submissions :: "string \<Rightarrow> outside_call list \<Rightarrow> outside_call list" where
  "submissions x calls = filter (submission_of x) calls"

definition call_about :: "string \<Rightarrow> outside_call \<Rightarrow> bool" where
  "call_about x k \<longleftrightarrow>
     (case k of ClaimCall y _ \<Rightarrow> y = x | ValidateClaimCall y _ \<Rightarrow> y = x | SettleCall y _ _ _ \<Rightarrow> y = x
      | ReleaseCall y _ \<Rightarrow> y = x | SubmitCall y _ \<Rightarrow> y = x | PollCall y _ \<Rightarrow> y = x
      | WriteFileCall _ _ _ \<Rightarrow> False | RemoveFileCall _ \<Rightarrow> False)"

section \<open>One execution\<close>

text \<open>Nothing is done under a claim that was not made.\<close>

definition claim_ok :: "string \<Rightarrow> execution \<Rightarrow> provider_attempt option \<Rightarrow> outside_call list \<Rightarrow> bool" where
  "claim_ok x e attempt calls \<longleftrightarrow>
     (ex_status e \<in> {''claimed'', ''executing'', ''settling''} \<or> attempt \<noteq> None
        \<or> (\<exists>b. ReleaseCall x b \<in> set calls) \<longrightarrow> ex_hubu_claim_id e \<noteq> None)
     \<and> (ex_hubu_claim_id e \<noteq> None \<longrightarrow> ClaimCall x True \<in> set calls)"

text \<open>Work is submitted once, after it was marked; only a checkpointed operation is polled.\<close>

definition attempt_ok :: "string \<Rightarrow> provider_attempt \<Rightarrow> outside_call list \<Rightarrow> bool" where
  "attempt_ok x a calls \<longleftrightarrow>
     (completed a \<longleftrightarrow> pa_outcome a \<noteq> ''started'')
     \<and> length (submissions x calls) \<le> 1
     \<and> set (submissions x calls) \<subseteq> {SubmitCall x (pa_provider_attempt_id a)}
     \<and> (completed a \<or> checkpointed a \<longrightarrow> submissions x calls \<noteq> [])
     \<and> (\<not> transmitted a \<longrightarrow> submissions x calls = [])
     \<and> (\<forall>i. PollCall x i \<in> set calls \<longrightarrow> i = pa_provider_attempt_id a \<and> checkpointed a)
     \<and> ValidateClaimCall x True \<in> set calls"

text \<open>A receipt states the settlement computed from the stored attempt.\<close>

definition receipt_priced :: "execution \<Rightarrow> provider_attempt \<Rightarrow> receipt_row \<Rightarrow> bool" where
  "receipt_priced e a r \<longleftrightarrow>
     (\<exists>snapshot usage st. ex_pricing_snapshot e = Some snapshot \<and> pa_usage a = Some usage
        \<and> attempt_settlement snapshot a usage (ex_authorized_units e) = Some (Inr st)
        \<and> rcp_settlement_units r = pst_budget_units st)"

definition receipt_ok :: "string \<Rightarrow> execution \<Rightarrow> provider_attempt \<Rightarrow> receipt_row \<Rightarrow> outside_call list \<Rightarrow> bool" where
  "receipt_ok x e a r calls \<longleftrightarrow>
     succeeded_attempt a \<and> rcp_provider_attempt_id r = pa_provider_attempt_id a \<and> receipt_priced e a r
     \<and> (rcp_settled_at r \<noteq> None \<longrightarrow> SettleCall x (rcp_receipt_id r) (rcp_settlement_units r) True \<in> set calls)"

definition attempt_and_receipt_ok ::
  "string \<Rightarrow> execution \<Rightarrow> provider_attempt option \<Rightarrow> receipt_row option \<Rightarrow> nat \<Rightarrow> outside_call list \<Rightarrow> bool" where
  "attempt_and_receipt_ok x e attempt receipt images calls \<longleftrightarrow>
     (case attempt of
        None \<Rightarrow> submissions x calls = [] \<and> (\<forall>i. PollCall x i \<notin> set calls) \<and> receipt = None
                \<and> ex_status e \<notin> {''executing'', ''settling'', ''succeeded''}
      | Some a \<Rightarrow>
          attempt_ok x a calls \<and> ex_status e \<notin> {''pending'', ''preflighting'', ''claimed'', ''failed''}
          \<and> (\<forall>r. receipt = Some r \<longrightarrow> receipt_ok x e a r calls \<and> 0 < images)
          \<and> (ex_status e = ''settling'' \<longrightarrow> succeeded_attempt a \<and> 0 < images))"

text \<open>When an authorization may be given back: no work was sent, and none will be, or the work failed.\<close>

definition release_justified :: "execution \<Rightarrow> provider_attempt option \<Rightarrow> bool" where
  "release_justified e attempt \<longleftrightarrow>
     (case attempt of
        None \<Rightarrow> ex_status e \<in> {''reconciliation_required'', ''released''}
      | Some a \<Rightarrow> failed_attempt a
                  \<or> \<not> transmitted a \<and> ex_status e \<in> {''reconciliation_required'', ''released''})"

definition accounting_ok ::
  "string \<Rightarrow> execution \<Rightarrow> provider_attempt option \<Rightarrow> receipt_row option \<Rightarrow> outside_call list \<Rightarrow> bool" where
  "accounting_ok x e attempt receipt calls \<longleftrightarrow>
     (\<forall>i u b. SettleCall x i u b \<in> set calls \<longrightarrow>
        (\<exists>r. receipt = Some r \<and> rcp_receipt_id r = i \<and> rcp_settlement_units r = u))
     \<and> (\<forall>b. ReleaseCall x b \<in> set calls \<longrightarrow> release_justified e attempt)
     \<and> (ex_status e = ''succeeded'' \<longrightarrow> (\<exists>r. receipt = Some r \<and> rcp_settled_at r \<noteq> None))
     \<and> (ex_status e = ''released'' \<longrightarrow> ReleaseCall x True \<in> set calls)"

definition lifecycle_ok ::
  "string \<Rightarrow> execution \<Rightarrow> provider_attempt option \<Rightarrow> receipt_row option \<Rightarrow> nat \<Rightarrow> outside_call list \<Rightarrow> bool" where
  "lifecycle_ok x e attempt receipt images calls \<longleftrightarrow>
     claim_ok x e attempt calls \<and> attempt_and_receipt_ok x e attempt receipt images calls
     \<and> accounting_ok x e attempt receipt calls"

section \<open>The tables\<close>

definition row_of :: "repository \<Rightarrow> string \<Rightarrow> execution option" where
  "row_of s x = hm_get (st_executions s) x"

definition images_of :: "repository \<Rightarrow> string \<Rightarrow> nat" where
  "images_of s x =
     (case attempt_of s x of
        None \<Rightarrow> 0
      | Some a \<Rightarrow> count_artifacts (\<lambda>r. art_provider_attempt_id r = Some (pa_provider_attempt_id a)) s)"

definition keyed_table :: "('v \<Rightarrow> string) \<Rightarrow> (string, 'v) hmap \<Rightarrow> bool" where
  "keyed_table key m \<longleftrightarrow> hm_wf m \<and> (\<forall>k v. hm_get m k = Some v \<longrightarrow> key v = k)"

text \<open>One row for an owner at most.\<close>

definition owned_once :: "('v \<Rightarrow> string) \<Rightarrow> (string, 'v) hmap \<Rightarrow> bool" where
  "owned_once owner m \<longleftrightarrow>
     (\<forall>k v k' v'. hm_get m k = Some v \<longrightarrow> hm_get m k' = Some v' \<longrightarrow> owner v = owner v' \<longrightarrow> k = k')"

definition tables_ok :: "repository \<Rightarrow> bool" where
  "tables_ok s \<longleftrightarrow>
     keyed_table ex_execution_id (st_executions s)
     \<and> keyed_table pa_provider_attempt_id (st_attempts s) \<and> owned_once pa_execution_id (st_attempts s)
     \<and> keyed_table rcp_receipt_id (st_receipts s) \<and> owned_once rcp_execution_id (st_receipts s)"

definition consistent_at :: "repository \<Rightarrow> outside_call list \<Rightarrow> string \<Rightarrow> bool" where
  "consistent_at s calls x \<longleftrightarrow>
     (case row_of s x of
        None \<Rightarrow> attempt_of s x = None \<and> receipt_of s x = None \<and> (\<forall>k \<in> set calls. \<not> call_about x k)
      | Some e \<Rightarrow> lifecycle_ok x e (attempt_of s x) (receipt_of s x) (images_of s x) calls)"

definition consistent :: "repository \<Rightarrow> outside_call list \<Rightarrow> bool" where
  "consistent s calls \<longleftrightarrow> tables_ok s \<and> (\<forall>x. consistent_at s calls x)"

section \<open>What is never taken back\<close>

definition same_authorization :: "execution \<Rightarrow> execution \<Rightarrow> bool" where
  "same_authorization e e' \<longleftrightarrow>
     ex_execution_id e' = ex_execution_id e \<and> ex_account_id e' = ex_account_id e
     \<and> ex_operation_key e' = ex_operation_key e \<and> ex_hubu_authorization_id e' = ex_hubu_authorization_id e
     \<and> ex_hubu_token_reference e' = ex_hubu_token_reference e
     \<and> ex_authorized_units e' = ex_authorized_units e \<and> ex_authorization_currency e' = ex_authorization_currency e
     \<and> ex_normalized_input e' = ex_normalized_input e \<and> ex_input_hash e' = ex_input_hash e
     \<and> ex_provider e' = ex_provider e \<and> ex_model e' = ex_model e
     \<and> ex_pricing_snapshot e' = ex_pricing_snapshot e
     \<and> (ex_hubu_claim_id e \<noteq> None \<longrightarrow> ex_hubu_claim_id e' = ex_hubu_claim_id e)"

definition row_evolves :: "execution \<Rightarrow> execution \<Rightarrow> bool" where
  "row_evolves e e' \<longleftrightarrow> same_authorization e e' \<and> (final_terminal (ex_status e) \<longrightarrow> e' = e)"

definition attempt_evolves :: "provider_attempt \<Rightarrow> provider_attempt \<Rightarrow> bool" where
  "attempt_evolves a a' \<longleftrightarrow>
     pa_provider_attempt_id a' = pa_provider_attempt_id a \<and> pa_execution_id a' = pa_execution_id a
     \<and> (completed a \<and> pa_outcome a \<noteq> ''ambiguous'' \<longrightarrow> a' = a)"

definition receipt_evolves :: "receipt_row \<Rightarrow> receipt_row \<Rightarrow> bool" where
  "receipt_evolves r r' \<longleftrightarrow>
     (\<exists>sent settled settlement. r' = r\<lparr>rcp_transmission_started_at := sent, rcp_settled_at := settled,
        rcp_hubu_settlement_id := settlement\<rparr>)
     \<and> (rcp_transmission_started_at r \<noteq> None \<longrightarrow> rcp_transmission_started_at r' = rcp_transmission_started_at r)
     \<and> (rcp_settled_at r \<noteq> None \<longrightarrow>
          rcp_settled_at r' = rcp_settled_at r \<and> rcp_hubu_settlement_id r' = rcp_hubu_settlement_id r)"

definition option_evolves :: "('a \<Rightarrow> 'a \<Rightarrow> bool) \<Rightarrow> 'a option \<Rightarrow> 'a option \<Rightarrow> bool" where
  "option_evolves R v v' \<longleftrightarrow> (\<forall>a. v = Some a \<longrightarrow> (\<exists>a'. v' = Some a' \<and> R a a'))"

definition evolves_at :: "repository \<Rightarrow> repository \<Rightarrow> string \<Rightarrow> bool" where
  "evolves_at s s' x \<longleftrightarrow>
     option_evolves row_evolves (row_of s x) (row_of s' x)
     \<and> option_evolves attempt_evolves (attempt_of s x) (attempt_of s' x)
     \<and> option_evolves receipt_evolves (receipt_of s x) (receipt_of s' x)"

definition evolves :: "repository \<Rightarrow> outside_call list \<Rightarrow> repository \<Rightarrow> outside_call list \<Rightarrow> bool" where
  "evolves s calls s' calls' \<longleftrightarrow> prefix calls calls' \<and> (\<forall>x. evolves_at s s' x)"

end
