(* ===== verification/Gongbu_Tables.thy ===== *)
theory Gongbu_Tables
  imports Gongbu_Lifecycle
begin

text \<open>
  How a write of one row changes the view of every execution: each kind of row is kept in a table with one
  row for an owner, and a write that keeps the owner's lifecycle keeps \<open>consistent\<close>.
\<close>

section \<open>Tables with one row for an owner\<close>

lemma keyed_values:
  assumes "keyed_table key m"
  shows "v \<in> set (hm_values m) \<longleftrightarrow> hm_get m (key v) = Some v"
  using assms hm.values_get by (fastforce simp: keyed_table_def)

lemma find_owner_iff:
  assumes keyed: "keyed_table key m" and owned: "owned_once owner m"
  shows "find (\<lambda>v. owner v = x) (hm_values m) = Some v \<longleftrightarrow> hm_get m (key v) = Some v \<and> owner v = x"
proof -
  have found: "hm_get m (key u) = Some u \<and> owner u = x" if "find (\<lambda>v. owner v = x) (hm_values m) = Some u" for u
  proof -
    from that have "u \<in> set (hm_values m) \<and> owner u = x" by (auto simp: find_Some_iff)
    then show ?thesis using keyed_values[OF keyed, of u] by simp
  qed
  show ?thesis
  proof
    assume v: "hm_get m (key v) = Some v \<and> owner v = x"
    then have "v \<in> set (hm_values m)" using keyed_values[OF keyed] by simp
    with v have "find (\<lambda>v. owner v = x) (hm_values m) \<noteq> None" by (auto simp: find_None_iff)
    then obtain u where u: "find (\<lambda>v. owner v = x) (hm_values m) = Some u" by blast
    have "owner u = owner v" using found[OF u] v by simp
    then have "key u = key v"
      by (rule owned[unfolded owned_once_def, rule_format, OF conjunct1[OF found[OF u]] conjunct1[OF v]])
    then have "Some u = Some v" using conjunct1[OF found[OF u]] conjunct1[OF v] by metis
    then have "u = v" by (rule option.inject[THEN iffD1])
    then show "find (\<lambda>v. owner v = x) (hm_values m) = Some v" using u by simp
  qed (rule found)
qed

lemma find_owner_None:
  assumes "keyed_table key m"
  shows "find (\<lambda>v. owner v = x) (hm_values m) = None \<longleftrightarrow> (\<forall>k v. hm_get m k = Some v \<longrightarrow> owner v \<noteq> x)"
  using hm.values_get[of m] assms by (auto simp: find_None_iff keyed_table_def)

text \<open>The owner of a row that replaces another, or is new, does not change.\<close>

definition keeps_owner :: "('v \<Rightarrow> string) \<Rightarrow> ('v \<Rightarrow> string) \<Rightarrow> (string, 'v) hmap \<Rightarrow> 'v \<Rightarrow> bool" where
  "keeps_owner key owner m v \<longleftrightarrow>
     (\<forall>k u. hm_get m k = Some u \<longrightarrow> (k = key v \<longleftrightarrow> owner u = owner v))"

lemma owned_table_insert:
  assumes "keyed_table key m" and "owned_once owner m" and "keeps_owner key owner m v"
  shows "keyed_table key (hm_insert (key v) v m)" and "owned_once owner (hm_insert (key v) v m)"
    and "find (\<lambda>u. owner u = x) (hm_values (hm_insert (key v) v m))
         = (if x = owner v then Some v else find (\<lambda>u. owner u = x) (hm_values m))"
proof -
  show k: "keyed_table key (hm_insert (key v) v m)" using assms(1) by (simp add: keyed_table_def)
  show o: "owned_once owner (hm_insert (key v) v m)"
    using assms(2,3) unfolding owned_once_def keeps_owner_def by (auto split: if_splits)
  show "find (\<lambda>u. owner u = x) (hm_values (hm_insert (key v) v m))
      = (if x = owner v then Some v else find (\<lambda>u. owner u = x) (hm_values m))"
  proof (cases "x = owner v")
    case True
    then show ?thesis using find_owner_iff[OF k o] by simp
  next
    case False
    have "find (\<lambda>u. owner u = x) (hm_values (hm_insert (key v) v m)) = Some u
        \<longleftrightarrow> find (\<lambda>u. owner u = x) (hm_values m) = Some u" for u
    proof -
      have "hm_get m (key u) = Some u \<Longrightarrow> owner u = x \<Longrightarrow> key u \<noteq> key v"
        using assms(3) False by (auto simp: keeps_owner_def)
      then show ?thesis
        using False by (auto simp: find_owner_iff[OF k o] find_owner_iff[OF assms(1,2)])
    qed
    then show ?thesis using False by (metis not_Some_eq)
  qed
qed

section \<open>The view of an execution\<close>

lemma tables_okD:
  assumes "tables_ok s"
  shows "keyed_table ex_execution_id (st_executions s)"
    and "keyed_table pa_provider_attempt_id (st_attempts s)" and "owned_once pa_execution_id (st_attempts s)"
    and "keyed_table rcp_receipt_id (st_receipts s)" and "owned_once rcp_execution_id (st_receipts s)"
  using assms by (simp_all add: tables_ok_def)

lemma row_id: "tables_ok s \<Longrightarrow> row_of s x = Some e \<Longrightarrow> ex_execution_id e = x"
  by (simp add: tables_ok_def keyed_table_def row_of_def)

lemma attempt_of_iff:
  assumes "tables_ok s"
  shows "attempt_of s x = Some a \<longleftrightarrow>
    hm_get (st_attempts s) (pa_provider_attempt_id a) = Some a \<and> pa_execution_id a = x"
  unfolding attempt_of_def by (rule find_owner_iff[OF tables_okD(2,3)[OF assms]])

lemma receipt_of_iff:
  assumes "tables_ok s"
  shows "receipt_of s x = Some r \<longleftrightarrow>
    hm_get (st_receipts s) (rcp_receipt_id r) = Some r \<and> rcp_execution_id r = x"
  unfolding receipt_of_def by (rule find_owner_iff[OF tables_okD(4,5)[OF assms]])

lemma stored_attempt:
  assumes "tables_ok s" and "hm_get (st_attempts s) i = Some a"
  shows "attempt_of s (pa_execution_id a) = Some a" and "pa_provider_attempt_id a = i"
  using assms by (auto simp: attempt_of_iff tables_ok_def keyed_table_def)

lemma stored_receipt:
  assumes "tables_ok s" and "hm_get (st_receipts s) i = Some r"
  shows "receipt_of s (rcp_execution_id r) = Some r" and "rcp_receipt_id r = i"
  using assms by (auto simp: receipt_of_iff tables_ok_def keyed_table_def)

text \<open>Only the tables the view reads matter.\<close>

lemma view_cong:
  assumes "st_executions s' = st_executions s" and "st_attempts s' = st_attempts s"
    and "st_receipts s' = st_receipts s"
  shows "tables_ok s' = tables_ok s" and "row_of s' x = row_of s x" and "attempt_of s' x = attempt_of s x"
    and "receipt_of s' x = receipt_of s x"
  using assms by (simp_all add: tables_ok_def row_of_def attempt_of_def receipt_of_def)

lemma images_cong:
  "st_artifacts s' = st_artifacts s \<Longrightarrow> attempt_of s' x = attempt_of s x \<Longrightarrow> images_of s' x = images_of s x"
  by (cases "attempt_of s x") (simp_all add: images_of_def count_artifacts_def)

section \<open>Evolution\<close>

lemma same_authorization_trans: "same_authorization e e' \<Longrightarrow> same_authorization e' e'' \<Longrightarrow> same_authorization e e''"
  by (auto simp: same_authorization_def)

lemma row_evolves_trans: "row_evolves e e' \<Longrightarrow> row_evolves e' e'' \<Longrightarrow> row_evolves e e''"
  by (auto simp: row_evolves_def intro: same_authorization_trans)

lemma attempt_evolves_trans: "attempt_evolves a a' \<Longrightarrow> attempt_evolves a' a'' \<Longrightarrow> attempt_evolves a a''"
  by (auto simp: attempt_evolves_def)

lemma receipt_evolves_trans:
  assumes "receipt_evolves r r'" and "receipt_evolves r' r''"
  shows "receipt_evolves r r''"
  using assms unfolding receipt_evolves_def by (elim conjE exE) (simp, intro exI, rule refl)

lemma receipt_evolves_refl: "receipt_evolves r r"
proof -
  have "r = r\<lparr>rcp_transmission_started_at := rcp_transmission_started_at r, rcp_settled_at := rcp_settled_at r,
      rcp_hubu_settlement_id := rcp_hubu_settlement_id r\<rparr>" by simp
  then show ?thesis unfolding receipt_evolves_def by blast
qed

lemma evolves_reflexive [simp, intro]:
  "row_evolves e e" "attempt_evolves a a" "receipt_evolves r r" "evolves_at s s x" "evolves s c s c"
  using receipt_evolves_refl
  by (simp_all add: row_evolves_def same_authorization_def attempt_evolves_def evolves_at_def
      option_evolves_def evolves_def)

lemma option_evolves_trans:
  assumes "\<And>a b c. R a b \<Longrightarrow> R b c \<Longrightarrow> R a c" and "option_evolves R u v" and "option_evolves R v w"
  shows "option_evolves R u w"
  unfolding option_evolves_def
proof (intro allI impI)
  fix a assume "u = Some a"
  then obtain b where b: "v = Some b" "R a b" using assms(2) by (auto simp: option_evolves_def)
  then obtain c where "w = Some c" "R b c" using assms(3) by (auto simp: option_evolves_def)
  then show "\<exists>c. w = Some c \<and> R a c" using assms(1)[OF b(2)] by blast
qed

lemma evolves_at_trans:
  assumes "evolves_at s s' x" and "evolves_at s' s'' x"
  shows "evolves_at s s'' x"
proof -
  note parts = assms[unfolded evolves_at_def]
  have "option_evolves row_evolves (row_of s x) (row_of s'' x)"
    by (rule option_evolves_trans[where v = "row_of s' x"], erule (1) row_evolves_trans) (simp_all add: parts)
  moreover have "option_evolves attempt_evolves (attempt_of s x) (attempt_of s'' x)"
    by (rule option_evolves_trans[where v = "attempt_of s' x"], erule (1) attempt_evolves_trans) (simp_all add: parts)
  moreover have "option_evolves receipt_evolves (receipt_of s x) (receipt_of s'' x)"
    by (rule option_evolves_trans[where v = "receipt_of s' x"], erule (1) receipt_evolves_trans) (simp_all add: parts)
  ultimately show ?thesis by (simp add: evolves_at_def)
qed

lemma evolves_trans: "evolves s c s' c' \<Longrightarrow> evolves s' c' s'' c'' \<Longrightarrow> evolves s c s'' c''"
  unfolding evolves_def using evolves_at_trans prefix_order.trans by blast

section \<open>Consistency\<close>

lemma consistentD:
  assumes "consistent s c"
  shows "tables_ok s" and "row_of s x = Some e \<Longrightarrow> lifecycle_ok x e (attempt_of s x) (receipt_of s x) (images_of s x) c"
    and "attempt_of s x = Some a \<Longrightarrow> \<exists>e. row_of s x = Some e"
    and "receipt_of s x = Some r \<Longrightarrow> \<exists>e. row_of s x = Some e"
  using assms by (auto simp: consistent_def consistent_at_def split: option.splits)

lemma consistent_change_one:
  assumes cons: "consistent s c" and tables: "tables_ok s'"
    and rows: "\<And>y. y \<noteq> x \<Longrightarrow> row_of s' y = row_of s y" and attempts: "\<And>y. y \<noteq> x \<Longrightarrow> attempt_of s' y = attempt_of s y"
    and receipts: "\<And>y. y \<noteq> x \<Longrightarrow> receipt_of s' y = receipt_of s y"
    and images: "st_artifacts s' = st_artifacts s"
    and ev: "evolves_at s s' x"
    and row: "row_of s' x = Some e" "lifecycle_ok x e (attempt_of s' x) (receipt_of s' x) (images_of s' x) c"
  shows "consistent s' c \<and> evolves s c s' c"
proof -
  have "consistent_at s' c y" for y
  proof (cases "y = x")
    case True
    then show ?thesis using row by (simp add: consistent_at_def)
  next
    case False
    then have "consistent_at s' c y = consistent_at s c y"
      using rows[OF False] attempts[OF False] receipts[OF False] images_cong[OF images attempts[OF False]]
      by (simp add: consistent_at_def cong: option.case_cong)
    then show ?thesis using cons by (simp add: consistent_def)
  qed
  moreover have "evolves_at s s' y" for y
  proof (cases "y = x")
    case False
    then show ?thesis using rows[OF False] attempts[OF False] receipts[OF False]
      by (simp add: evolves_at_def option_evolves_def)
  qed (use ev in simp)
  ultimately show ?thesis using tables by (simp add: consistent_def evolves_def)
qed

lemma put_execution_view [simp]:
  "row_of (put_execution e s) x = (if x = ex_execution_id e then Some e else row_of s x)"
  "attempt_of (put_execution e s) x = attempt_of s x" "receipt_of (put_execution e s) x = receipt_of s x"
  "images_of (put_execution e s) x = images_of s x" "st_artifacts (put_execution e s) = st_artifacts s"
  "st_attempts (put_execution e s) = st_attempts s" "st_receipts (put_execution e s) = st_receipts s"
  "tables_ok s \<Longrightarrow> tables_ok (put_execution e s)"
  by (simp_all add: put_execution_def row_of_def attempt_of_def receipt_of_def images_of_def count_artifacts_def
      tables_ok_def keyed_table_def cong: option.case_cong)

lemma consistent_put_execution:
  assumes "consistent s c" and "row_of s x = Some e" and "ex_execution_id e' = x" and "row_evolves e e'"
    and "lifecycle_ok x e' (attempt_of s x) (receipt_of s x) (images_of s x) c"
  shows "consistent (put_execution e' s) c \<and> evolves s c (put_execution e' s) c"
  using assms consistentD(1)[OF assms(1)]
  by (intro consistent_change_one[where x = x and e = e']) (auto simp: evolves_at_def option_evolves_def)

lemma put_attempt_view:
  assumes "tables_ok s" and "keeps_owner pa_provider_attempt_id pa_execution_id (st_attempts s) a"
  shows "attempt_of (put_attempt a s) x = (if x = pa_execution_id a then Some a else attempt_of s x)"
    and "tables_ok (put_attempt a s)"
  using owned_table_insert[OF tables_okD(2,3)[OF assms(1)] assms(2)] assms(1)
  by (simp_all add: put_attempt_def attempt_of_def tables_ok_def)

lemma put_attempt_simps [simp]:
  "row_of (put_attempt a s) x = row_of s x" "receipt_of (put_attempt a s) x = receipt_of s x"
  "st_artifacts (put_attempt a s) = st_artifacts s" "st_executions (put_attempt a s) = st_executions s"
  "st_receipts (put_attempt a s) = st_receipts s" "st_staged (put_attempt a s) = st_staged s"
  by (simp_all add: put_attempt_def row_of_def receipt_of_def)

lemma keeps_owner_attempt:
  assumes "tables_ok s" and "attempt_of s x = Some a" and "pa_provider_attempt_id a' = pa_provider_attempt_id a"
    and "pa_execution_id a' = pa_execution_id a"
  shows "keeps_owner pa_provider_attempt_id pa_execution_id (st_attempts s) a'"
  using assms tables_okD(3)[OF assms(1)]
  by (auto simp: attempt_of_iff keeps_owner_def owned_once_def)

lemma consistent_put_attempt:
  assumes cons: "consistent s c" and a: "attempt_of s x = Some a" and ev: "attempt_evolves a a'"
    and row: "row_of s x = Some e"
    and ok: "lifecycle_ok x e (Some a') (receipt_of s x) (images_of s x) c"
  shows "consistent (put_attempt a' s) c \<and> evolves s c (put_attempt a' s) c"
    and "attempt_of (put_attempt a' s) y = (if y = x then Some a' else attempt_of s y)"
proof -
  note t = consistentD(1)[OF cons]
  have x: "pa_execution_id a = x" using a t by (simp add: attempt_of_iff)
  have keep: "keeps_owner pa_provider_attempt_id pa_execution_id (st_attempts s) a'"
    using ev by (intro keeps_owner_attempt[OF t a]) (simp_all add: attempt_evolves_def)
  have view: "attempt_of (put_attempt a' s) y = (if y = x then Some a' else attempt_of s y)" for y
    using put_attempt_view(1)[OF t keep] ev x by (simp add: attempt_evolves_def)
  then show "attempt_of (put_attempt a' s) y = (if y = x then Some a' else attempt_of s y)" .
  have "images_of (put_attempt a' s) x = images_of s x"
    using view a ev by (simp add: images_of_def count_artifacts_def attempt_evolves_def)
  then show "consistent (put_attempt a' s) c \<and> evolves s c (put_attempt a' s) c"
    using put_attempt_view(2)[OF t keep] view a ev row ok
    by (intro consistent_change_one[OF cons, where x = x and e = e]) (auto simp: evolves_at_def option_evolves_def)
qed

lemma put_receipt_simps [simp]:
  "row_of (put_receipt r s) x = row_of s x" "attempt_of (put_receipt r s) x = attempt_of s x"
  "images_of (put_receipt r s) x = images_of s x"
  "st_artifacts (put_receipt r s) = st_artifacts s" "st_executions (put_receipt r s) = st_executions s"
  by (simp_all add: put_receipt_def row_of_def attempt_of_def images_of_def count_artifacts_def cong: option.case_cong)

lemma put_receipt_view:
  assumes "tables_ok s" and "keeps_owner rcp_receipt_id rcp_execution_id (st_receipts s) r"
  shows "receipt_of (put_receipt r s) x = (if x = rcp_execution_id r then Some r else receipt_of s x)"
    and "tables_ok (put_receipt r s)"
  using owned_table_insert[OF tables_okD(4,5)[OF assms(1)] assms(2)] assms(1)
  by (simp_all add: put_receipt_def receipt_of_def tables_ok_def)

lemma consistent_put_receipt:
  assumes cons: "consistent s c"
    and keep: "keeps_owner rcp_receipt_id rcp_execution_id (st_receipts s) r'"
    and x: "rcp_execution_id r' = x" and row: "row_of s x = Some e"
    and ev: "\<And>r. receipt_of s x = Some r \<Longrightarrow> receipt_evolves r r'"
    and ok: "lifecycle_ok x e (attempt_of s x) (Some r') (images_of s x) c"
  shows "consistent (put_receipt r' s) c \<and> evolves s c (put_receipt r' s) c"
    and "receipt_of (put_receipt r' s) y = (if y = x then Some r' else receipt_of s y)"
proof -
  note t = consistentD(1)[OF cons]
  show view: "receipt_of (put_receipt r' s) y = (if y = x then Some r' else receipt_of s y)" for y
    using put_receipt_view(1)[OF t keep] x by simp
  show "consistent (put_receipt r' s) c \<and> evolves s c (put_receipt r' s) c"
    using put_receipt_view(2)[OF t keep] view ev row ok x
    by (intro consistent_change_one[OF cons, where x = x and e = e]) (auto simp: evolves_at_def option_evolves_def)
qed

text \<open>A write beside the view.\<close>

lemma consistent_beside:
  assumes "consistent s c" and "st_executions s' = st_executions s" and "st_attempts s' = st_attempts s"
    and "st_receipts s' = st_receipts s" and "st_artifacts s' = st_artifacts s"
  shows "consistent s' c \<and> evolves s c s' c"
  using assms view_cong[OF assms(2-4)] images_cong[OF assms(5)]
  by (simp add: consistent_def consistent_at_def evolves_def evolves_at_def option_evolves_def cong: option.case_cong)

section \<open>Calls\<close>

lemma lifecycle_call_frame:
  "\<not> call_about x k \<Longrightarrow> lifecycle_ok x e a r n (c @ [k]) \<longleftrightarrow> lifecycle_ok x e a r n c"
  by (cases k) (auto simp: lifecycle_ok_def claim_ok_def attempt_and_receipt_ok_def attempt_ok_def receipt_ok_def
      accounting_ok_def submissions_def submission_of_def call_about_def split: option.splits)

lemma consistent_call:
  assumes cons: "consistent s c"
    and about: "\<And>x. call_about x k \<Longrightarrow>
      \<exists>e. row_of s x = Some e \<and> lifecycle_ok x e (attempt_of s x) (receipt_of s x) (images_of s x) (c @ [k])"
  shows "consistent s (c @ [k]) \<and> evolves s c s (c @ [k])"
proof -
  have "consistent_at s (c @ [k]) x" for x
  proof (cases "call_about x k")
    case True
    then show ?thesis using about[of x] by (auto simp: consistent_at_def)
  next
    case False
    moreover have "consistent_at s c x" using cons by (simp add: consistent_def)
    ultimately show ?thesis
      by (cases "row_of s x") (auto simp: consistent_at_def lifecycle_call_frame)
  qed
  then show ?thesis using consistentD(1)[OF cons] by (simp add: consistent_def evolves_def)
qed

end
