(* ===== verification/Gongbu_Flow_Logic.thy ===== *)
theory Gongbu_Flow_Logic
  imports Gongbu_Tables
begin

text \<open>
  A total-correctness logic for flows: from a consistent world a flow that \<open>achieves\<close> its postcondition returns, every
  point it adds to the trail is consistent and has evolved from the start, and so is the world it leaves,
  on the error branches too.
\<close>

type_synonym assertion = "repository \<Rightarrow> outside_call list \<Rightarrow> bool"

definition sound_from :: "world \<Rightarrow> repository \<times> outside_call list \<Rightarrow> bool" where
  "sound_from w = (\<lambda>(s, c). consistent s c \<and> evolves (wd_store w) (wd_calls w) s c)"

definition achieves :: "assertion \<Rightarrow> 'a flow \<Rightarrow> ('a \<Rightarrow> assertion) \<Rightarrow> bool" where
  "achieves P m Q \<longleftrightarrow>
     (\<forall>w. consistent (wd_store w) (wd_calls w) \<longrightarrow> P (wd_store w) (wd_calls w) \<longrightarrow>
        (\<exists>r w' new. m w = Some (r, w') \<and> wd_trail w' = wd_trail w @ new
           \<and> (\<forall>t \<in> set new. sound_from w t) \<and> sound_from w (wd_store w', wd_calls w')
           \<and> (\<forall>x. r = Inr x \<longrightarrow> Q x (wd_store w') (wd_calls w'))))"

lemma achievesI:
  assumes "\<And>w. consistent (wd_store w) (wd_calls w) \<Longrightarrow> P (wd_store w) (wd_calls w) \<Longrightarrow>
    \<exists>r w' new. m w = Some (r, w') \<and> wd_trail w' = wd_trail w @ new
      \<and> (\<forall>t \<in> set new. sound_from w t) \<and> sound_from w (wd_store w', wd_calls w')
      \<and> (\<forall>x. r = Inr x \<longrightarrow> Q x (wd_store w') (wd_calls w'))"
  shows "achieves P m Q"
  using assms by (simp add: achieves_def)

lemma achievesD:
  assumes "achieves P m Q" and "consistent (wd_store w) (wd_calls w)" and "P (wd_store w) (wd_calls w)"
  obtains r w' new where "m w = Some (r, w')" and "wd_trail w' = wd_trail w @ new"
    and "\<forall>t \<in> set new. sound_from w t" and "sound_from w (wd_store w', wd_calls w')"
    and "\<And>x. r = Inr x \<Longrightarrow> Q x (wd_store w') (wd_calls w')"
  using assms unfolding achieves_def by blast

lemma sound_from_trans: "sound_from w (wd_store w', wd_calls w') \<Longrightarrow> sound_from w' t \<Longrightarrow> sound_from w t"
  by (auto simp: sound_from_def intro: evolves_trans)

lemma sound_from_refl: "consistent (wd_store w) (wd_calls w) \<Longrightarrow> sound_from w (wd_store w, wd_calls w)"
  by (simp add: sound_from_def)

section \<open>Structural rules\<close>

lemma achieves_pre: "achieves P m Q \<Longrightarrow> (\<And>s c. consistent s c \<Longrightarrow> P' s c \<Longrightarrow> P s c) \<Longrightarrow> achieves P' m Q"
  unfolding achieves_def by blast

lemma achieves_post:
  assumes "achieves P m Q" and "\<And>x s c. consistent s c \<Longrightarrow> Q x s c \<Longrightarrow> Q' x s c"
  shows "achieves P m Q'"
proof (rule achievesI)
  fix w :: world
  assume "consistent (wd_store w) (wd_calls w)" and "P (wd_store w) (wd_calls w)"
  from achievesD[OF assms(1) this] obtain r w' new where f: "m w = Some (r, w')" "wd_trail w' = wd_trail w @ new"
    "\<forall>t \<in> set new. sound_from w t" "sound_from w (wd_store w', wd_calls w')"
    "\<And>x. r = Inr x \<Longrightarrow> Q x (wd_store w') (wd_calls w')" by blast
  moreover have "consistent (wd_store w') (wd_calls w')" using f(4) by (simp add: sound_from_def)
  ultimately show "\<exists>r w' new. m w = Some (r, w') \<and> wd_trail w' = wd_trail w @ new
      \<and> (\<forall>t \<in> set new. sound_from w t) \<and> sound_from w (wd_store w', wd_calls w')
      \<and> (\<forall>x. r = Inr x \<longrightarrow> Q' x (wd_store w') (wd_calls w'))" using assms(2) by blast
qed

lemma achieves_bind:
  assumes "achieves P m R" and "\<And>x. achieves (R x) (f x) Q"
  shows "achieves P (flow_bind m f) Q"
proof (rule achievesI)
  fix w :: world
  assume "consistent (wd_store w) (wd_calls w)" and "P (wd_store w) (wd_calls w)"
  from achievesD[OF assms(1) this] obtain r w' new where m: "m w = Some (r, w')" "wd_trail w' = wd_trail w @ new"
    "\<forall>t \<in> set new. sound_from w t" "sound_from w (wd_store w', wd_calls w')"
    and R: "\<And>x. r = Inr x \<Longrightarrow> R x (wd_store w') (wd_calls w')" by blast
  show "\<exists>r w' new. flow_bind m f w = Some (r, w') \<and> wd_trail w' = wd_trail w @ new
      \<and> (\<forall>t \<in> set new. sound_from w t) \<and> sound_from w (wd_store w', wd_calls w')
      \<and> (\<forall>x. r = Inr x \<longrightarrow> Q x (wd_store w') (wd_calls w'))"
  proof (cases r)
    case (Inl e)
    then show ?thesis using m by (auto simp: flow_bind_def)
  next
    case (Inr x)
    have "consistent (wd_store w') (wd_calls w')" using m(4) by (simp add: sound_from_def)
    from achievesD[OF assms(2) this R[OF Inr]] obtain r' w'' new' where f: "f x w' = Some (r', w'')"
      "wd_trail w'' = wd_trail w' @ new'" "\<forall>t \<in> set new'. sound_from w' t"
      "sound_from w' (wd_store w'', wd_calls w'')" "\<And>y. r' = Inr y \<Longrightarrow> Q y (wd_store w'') (wd_calls w'')" by blast
    have "flow_bind m f w = Some (r', w'')" using m(1) f(1) Inr by (simp add: flow_bind_def)
    moreover have "wd_trail w'' = wd_trail w @ (new @ new')" using m(2) f(2) by simp
    moreover have "\<forall>t \<in> set (new @ new'). sound_from w t" "sound_from w (wd_store w'', wd_calls w'')"
      using m(3) f(3,4) sound_from_trans[OF m(4)] by auto
    ultimately show ?thesis using f(5) by blast
  qed
qed

text \<open>Facts that do not depend on the world move out of a precondition.\<close>

lemma achieves_assume:
  assumes "\<And>s c. consistent s c \<Longrightarrow> P s c \<Longrightarrow> F" and "F \<Longrightarrow> achieves P m Q"
  shows "achieves P m Q"
  using assms unfolding achieves_def by blast

lemma achieves_if: "(b \<Longrightarrow> achieves P m Q) \<Longrightarrow> (\<not> b \<Longrightarrow> achieves P m' Q) \<Longrightarrow> achieves P (if b then m else m') Q"
  by simp

lemma achieves_exists: "(\<And>v. achieves (P v) m Q) \<Longrightarrow> achieves (\<lambda>s c. \<exists>v. P v s c) m Q"
  unfolding achieves_def by blast

section \<open>Steps\<close>

lemma achieves_same:
  fixes w' :: "world \<Rightarrow> world" and m :: "'a flow"
  assumes "\<And>w. m w = Some (f w, w' w)" and "\<And>w. wd_store (w' w) = wd_store w"
    and "\<And>w. wd_calls (w' w) = wd_calls w" and "\<And>w. wd_trail (w' w) = wd_trail w"
    and "\<And>w x. consistent (wd_store w) (wd_calls w) \<Longrightarrow> P (wd_store w) (wd_calls w) \<Longrightarrow> f w = Inr x
      \<Longrightarrow> Q x (wd_store w) (wd_calls w)"
  shows "achieves P m Q"
proof (rule achievesI)
  fix w :: world
  assume c: "consistent (wd_store w) (wd_calls w)" and P: "P (wd_store w) (wd_calls w)"
  have "m w = Some (f w, w' w) \<and> wd_trail (w' w) = wd_trail w @ [] \<and> (\<forall>t \<in> set []. sound_from w t)
      \<and> sound_from w (wd_store (w' w), wd_calls (w' w))
      \<and> (\<forall>x. f w = Inr x \<longrightarrow> Q x (wd_store (w' w)) (wd_calls (w' w)))"
    using assms c P sound_from_refl[OF c] by simp
  then show "\<exists>r w' new. m w = Some (r, w') \<and> wd_trail w' = wd_trail w @ new
      \<and> (\<forall>t \<in> set new. sound_from w t) \<and> sound_from w (wd_store w', wd_calls w')
      \<and> (\<forall>x. r = Inr x \<longrightarrow> Q x (wd_store w') (wd_calls w'))" by blast
qed

lemma achieves_return: "(\<And>s c. consistent s c \<Longrightarrow> P s c \<Longrightarrow> Q x s c) \<Longrightarrow> achieves P (flow_return x) Q"
  by (rule achieves_same[where w' = "\<lambda>w. w" and f = "\<lambda>w. Inr x"]) (simp_all add: flow_return_def)

lemma achieves_error: "achieves P (flow_error e) Q"
  by (rule achieves_same[where w' = "\<lambda>w. w" and f = "\<lambda>w. Inl e"]) (simp_all add: flow_error_def)

lemma achieves_query: "achieves P (query q) (\<lambda>v s c. P s c \<and> q s = Inr v)"
  by (rule achieves_same[where w' = "\<lambda>w. w" and f = "\<lambda>w. q (wd_store w)"]) (simp_all add: query_def)

lemma achieves_try_query: "achieves P (flow_try (query q)) (\<lambda>v s c. P s c \<and> q s = v)"
  by (rule achieves_same[where w' = "\<lambda>w. w" and f = "\<lambda>w. Inr (q (wd_store w))"])
    (simp_all add: query_def flow_try_def)

lemma achieves_clock: "achieves P (clock env) (\<lambda>_. P)"
  by (rule achieves_same[where w' = "\<lambda>w. w\<lparr>wd_ticks := wd_ticks w + 1\<rparr>" and f = "\<lambda>w. Inr (env_clock env (wd_ticks w))"])
    (simp_all add: clock_def)

lemma achieves_fresh_id: "achieves P (fresh_id env) (\<lambda>_. P)"
  by (rule achieves_same[where w' = "\<lambda>w. w\<lparr>wd_ticks := wd_ticks w + 1\<rparr>" and f = "\<lambda>w. Inr (env_new_id env (wd_ticks w))"])
    (simp_all add: fresh_id_def)

lemma achieves_calls: "achieves P calls_so_far (\<lambda>_. P)"
  by (rule achieves_same[where w' = "\<lambda>w. w" and f = "\<lambda>w. Inr (wd_calls w)"]) (simp_all add: calls_so_far_def)

text \<open>A durable step: it has to keep consistency and to take nothing back.\<close>

definition safe_step :: "repository \<Rightarrow> outside_call list \<Rightarrow> repository \<Rightarrow> outside_call list \<Rightarrow> bool" where
  "safe_step s c s' c' \<longleftrightarrow> consistent s' c' \<and> evolves s c s' c'"

lemma achieves_durable:
  assumes "\<And>w. consistent (wd_store w) (wd_calls w) \<Longrightarrow> P (wd_store w) (wd_calls w) \<Longrightarrow>
    m w = Some (r w, w) \<and> (\<forall>x. r w = Inr x \<longrightarrow> Q x (wd_store w) (wd_calls w))
    \<or> (\<exists>w'. m w = Some (r w, durable w') \<and> wd_trail w' = wd_trail w
        \<and> safe_step (wd_store w) (wd_calls w) (wd_store w') (wd_calls w')
        \<and> (\<forall>x. r w = Inr x \<longrightarrow> Q x (wd_store w') (wd_calls w')))"
  shows "achieves P m Q"
proof (rule achievesI)
  fix w :: world
  assume c: "consistent (wd_store w) (wd_calls w)" and P: "P (wd_store w) (wd_calls w)"
  show "\<exists>r w' new. m w = Some (r, w') \<and> wd_trail w' = wd_trail w @ new
      \<and> (\<forall>t \<in> set new. sound_from w t) \<and> sound_from w (wd_store w', wd_calls w')
      \<and> (\<forall>x. r = Inr x \<longrightarrow> Q x (wd_store w') (wd_calls w'))"
  proof (rule disjE[OF assms[OF c P]], goal_cases)
    case 1
    then show ?case using sound_from_refl[OF c] by auto
  next
    case 2
    then obtain w' where w': "m w = Some (r w, durable w')" "wd_trail w' = wd_trail w"
      "safe_step (wd_store w) (wd_calls w) (wd_store w') (wd_calls w')"
      "\<forall>x. r w = Inr x \<longrightarrow> Q x (wd_store w') (wd_calls w')" by blast
    have "wd_trail (durable w') = wd_trail w @ [(wd_store w', wd_calls w')]" using w'(2) by (simp add: durable_def)
    moreover have "\<forall>t \<in> set [(wd_store w', wd_calls w')]. sound_from w t"
      and "sound_from w (wd_store (durable w'), wd_calls (durable w'))"
      using w'(3) by (simp_all add: sound_from_def safe_step_def durable_def)
    moreover have "\<forall>x. r w = Inr x \<longrightarrow> Q x (wd_store (durable w')) (wd_calls (durable w'))"
      using w'(4) by (simp add: durable_def)
    ultimately show ?case using w'(1) by blast
  qed
qed

lemma achieves_commit:
  assumes "\<And>s c x s'. consistent s c \<Longrightarrow> P s c \<Longrightarrow> m s = Inr (x, s') \<Longrightarrow> safe_step s c s' c \<and> Q x s' c"
  shows "achieves P (commit m) Q"
proof (rule achieves_durable[where r = "\<lambda>w :: world. map_sum id fst (m (wd_store w))"], goal_cases)
  case (1 w)
  show ?case
  proof (cases "m (wd_store w)")
    case (Inl e)
    then show ?thesis by (simp add: commit_def)
  next
    case (Inr p)
    obtain x s' where p: "p = (x, s')" by (cases p)
    have step: "safe_step (wd_store w) (wd_calls w) s' (wd_calls w) \<and> Q x s' (wd_calls w)"
      using assms[OF 1] Inr p by simp
    show ?thesis
      by (rule disjI2, rule exI[of _ "w\<lparr>wd_store := s'\<rparr>"]) (use Inr p step in \<open>simp add: commit_def\<close>)
  qed
qed

lemma achieves_try_commit:
  assumes "\<And>s c x s'. consistent s c \<Longrightarrow> P s c \<Longrightarrow> m s = Inr (x, s') \<Longrightarrow> safe_step s c s' c \<and> Q (Inr x) s' c"
    and "\<And>s c e. consistent s c \<Longrightarrow> P s c \<Longrightarrow> m s = Inl e \<Longrightarrow> Q (Inl e) s c"
  shows "achieves P (flow_try (commit m)) Q"
proof (rule achieves_durable[where r = "\<lambda>w :: world. Inr (map_sum id fst (m (wd_store w)))"], goal_cases)
  case (1 w)
  show ?case
  proof (cases "m (wd_store w)")
    case (Inl e)
    then show ?thesis using assms(2)[OF 1] by (simp add: commit_def flow_try_def)
  next
    case (Inr p)
    obtain x s' where p: "p = (x, s')" by (cases p)
    have step: "safe_step (wd_store w) (wd_calls w) s' (wd_calls w) \<and> Q (Inr x) s' (wd_calls w)"
      using assms(1)[OF 1] Inr p by simp
    show ?thesis
      by (rule disjI2, rule exI[of _ "w\<lparr>wd_store := s'\<rparr>"]) (use Inr p step in \<open>simp add: commit_def flow_try_def\<close>)
  qed
qed

lemma achieves_record:
  assumes "\<And>s c. consistent s c \<Longrightarrow> P s c \<Longrightarrow> safe_step s c s (c @ [k]) \<and> Q () s (c @ [k])"
  shows "achieves P (record_call k) Q"
proof (rule achieves_durable[where r = "\<lambda>w :: world. Inr ()"], goal_cases)
  case (1 w)
  show ?case
    by (rule disjI2, rule exI[of _ "w\<lparr>wd_calls := wd_calls w @ [k]\<rparr>"])
      (use assms[OF 1] in \<open>simp add: record_call_def\<close>)
qed

lemma achieves_call_outside:
  assumes "\<And>s c r. consistent s c \<Longrightarrow> P s c \<Longrightarrow>
    safe_step s c s (c @ [k (is_ok r)]) \<and> Q r s (c @ [k (is_ok r)])"
  shows "achieves P (call_outside answer k) Q"
  unfolding call_outside_def Let_def
proof (rule achieves_bind[OF achieves_calls])
  fix calls
  show "achieves P (flow_bind (record_call (k (is_ok (answer calls)))) (\<lambda>_. flow_return (answer calls))) Q"
    by (rule achieves_bind[where R = "\<lambda>_. Q (answer calls)"])
      (rule achieves_record, use assms in blast, rule achieves_return)
qed

text \<open>A write whose computation returns.\<close>

lemma achieves_commit_returning:
  assumes "\<And>s. m s \<noteq> None"
    and "\<And>s c x s'. consistent s c \<Longrightarrow> P s c \<Longrightarrow> m s = Some (Inr (x, s')) \<Longrightarrow> safe_step s c s' c \<and> Q x s' c"
  shows "achieves P (commit_returning m) Q"
proof (rule achieves_durable[where r = "\<lambda>w :: world. map_sum id fst (the (m (wd_store w)))"], goal_cases)
  case (1 w)
  obtain r where r: "m (wd_store w) = Some r" using assms(1) by blast
  show ?case
  proof (cases r)
    case (Inl e)
    then show ?thesis using r by (simp add: commit_returning_def commit_def)
  next
    case (Inr p)
    obtain x s' where p: "p = (x, s')" by (cases p)
    have step: "safe_step (wd_store w) (wd_calls w) s' (wd_calls w) \<and> Q x s' (wd_calls w)"
      using assms(2)[OF 1] Inr p r by simp
    show ?thesis
      by (rule disjI2, rule exI[of _ "w\<lparr>wd_store := s'\<rparr>"])
        (use Inr p r step in \<open>simp add: commit_returning_def commit_def\<close>)
  qed
qed

end
