(* ===== verification/Gongbu_Row_Steps.thy ===== *)
theory Gongbu_Row_Steps
  imports Gongbu_Flow_Logic
begin

text \<open>
  The writes of the execution row and the calls are safe steps.
\<close>

lemmas lifecycle_defs =
  lifecycle_ok_def claim_ok_def attempt_and_receipt_ok_def accounting_ok_def release_justified_def receipt_ok_def
  receipt_priced_def

section \<open>Changes of the status\<close>

definition status_change :: "execution \<Rightarrow> execution \<Rightarrow> string \<Rightarrow> bool" where
  "status_change e e' status \<longleftrightarrow>
     ex_status e' = status \<and> ex_pricing_snapshot e' = ex_pricing_snapshot e
     \<and> ex_authorized_units e' = ex_authorized_units e \<and> ex_hubu_claim_id e' = ex_hubu_claim_id e"

lemma succeeded_attempt_not_released:
  assumes "attempt_ok x a c" and "succeeded_attempt a"
  shows "transmitted a" and "\<not> failed_attempt a" and "completed a"
  using assms by (auto simp: attempt_ok_def succeeded_attempt_def failed_attempt_def)

lemma receipt_excludes_release:
  assumes "lifecycle_ok x e attempt (Some r) n c"
  shows "ReleaseCall x b \<notin> set c"
proof (cases attempt)
  case None
  then show ?thesis using assms by (simp add: lifecycle_ok_def attempt_and_receipt_ok_def)
next
  case (Some a)
  then have a: "attempt_ok x a c" "succeeded_attempt a"
    using assms by (simp_all add: lifecycle_ok_def attempt_and_receipt_ok_def receipt_ok_def)
  show ?thesis
  proof
    assume "ReleaseCall x b \<in> set c"
    then have "release_justified e attempt" using assms by (auto simp: lifecycle_ok_def accounting_ok_def)
    then show False using succeeded_attempt_not_released[OF a] Some by (simp add: release_justified_def)
  qed
qed

lemma receipt_ok_cong:
  "ex_pricing_snapshot e' = ex_pricing_snapshot e \<Longrightarrow> ex_authorized_units e' = ex_authorized_units e
     \<Longrightarrow> receipt_ok x e' a r c = receipt_ok x e a r c"
  by (simp add: receipt_ok_def receipt_priced_def)

text \<open>A change of the row has to check what the status and the claim say.\<close>

lemma lifecycle_row_change:
  assumes "lifecycle_ok x e attempt receipt n c"
    and same: "ex_pricing_snapshot e' = ex_pricing_snapshot e" "ex_authorized_units e' = ex_authorized_units e"
    and claim: "ex_hubu_claim_id e \<noteq> None \<Longrightarrow> ex_hubu_claim_id e' \<noteq> None"
      "ex_hubu_claim_id e' \<noteq> None \<Longrightarrow> ClaimCall x True \<in> set c"
      "ex_status e' \<in> {''claimed'', ''executing'', ''settling''} \<Longrightarrow> ex_hubu_claim_id e' \<noteq> None"
    and "case attempt of
        None \<Rightarrow> ex_status e' \<notin> {''executing'', ''settling'', ''succeeded''}
      | Some a \<Rightarrow> ex_status e' \<notin> {''pending'', ''preflighting'', ''claimed'', ''failed''}
                  \<and> (ex_status e' = ''settling'' \<longrightarrow> succeeded_attempt a \<and> 0 < n)"
    and "\<And>b. ReleaseCall x b \<in> set c \<Longrightarrow> release_justified e attempt \<Longrightarrow> release_justified e' attempt"
    and "ex_status e' = ''succeeded'' \<Longrightarrow> \<exists>r. receipt = Some r \<and> rcp_settled_at r \<noteq> None"
    and "ex_status e' = ''released'' \<Longrightarrow> ReleaseCall x True \<in> set c"
  shows "lifecycle_ok x e' attempt receipt n c"
proof -
  have "claim_ok x e attempt c" using assms(1) by (simp add: lifecycle_ok_def)
  then have "claim_ok x e' attempt c" using claim unfolding claim_ok_def by blast
  moreover have "attempt_and_receipt_ok x e' attempt receipt n c"
    using assms(1,7) receipt_ok_cong[OF same]
    by (cases attempt) (simp_all add: lifecycle_ok_def attempt_and_receipt_ok_def)
  moreover have "accounting_ok x e' attempt receipt c"
    using assms(1,8-10) by (auto simp: lifecycle_ok_def accounting_ok_def)
  ultimately show ?thesis by (simp add: lifecycle_ok_def)
qed

lemma lifecycle_status_change:
  assumes ok: "lifecycle_ok x e attempt receipt n c" and ch: "status_change e e' t"
    and "t \<in> {''claimed'', ''executing'', ''settling''} \<Longrightarrow> ex_hubu_claim_id e \<noteq> None"
    and "case attempt of
        None \<Rightarrow> t \<notin> {''executing'', ''settling'', ''succeeded''}
      | Some a \<Rightarrow> t \<notin> {''pending'', ''preflighting'', ''claimed'', ''failed''}
                  \<and> (t = ''settling'' \<longrightarrow> succeeded_attempt a \<and> 0 < n)"
    and "\<And>b. ReleaseCall x b \<in> set c \<Longrightarrow> release_justified e attempt \<Longrightarrow> release_justified e' attempt"
    and "t = ''succeeded'' \<Longrightarrow> \<exists>r. receipt = Some r \<and> rcp_settled_at r \<noteq> None"
    and "t = ''released'' \<Longrightarrow> ReleaseCall x True \<in> set c"
  shows "lifecycle_ok x e' attempt receipt n c"
proof -
  have st: "ex_status e' = t" "ex_hubu_claim_id e' = ex_hubu_claim_id e"
    "ex_pricing_snapshot e' = ex_pricing_snapshot e" "ex_authorized_units e' = ex_authorized_units e"
    using ch by (simp_all add: status_change_def)
  have claimed: "ex_hubu_claim_id e \<noteq> None \<Longrightarrow> ClaimCall x True \<in> set c"
    using ok by (simp add: lifecycle_ok_def claim_ok_def)
  show ?thesis
    by (rule lifecycle_row_change[OF ok st(3,4)]; (unfold st)?) (fact assms claimed | assumption)+
qed

lemma lifecycle_same_row:
  assumes "ex_status e' = ex_status e" "ex_pricing_snapshot e' = ex_pricing_snapshot e"
    "ex_authorized_units e' = ex_authorized_units e" "ex_hubu_claim_id e' = ex_hubu_claim_id e"
  shows "lifecycle_ok x e' attempt receipt n c = lifecycle_ok x e attempt receipt n c"
  using assms receipt_ok_cong[OF assms(2,3)]
  by (simp add: lifecycle_ok_def claim_ok_def attempt_and_receipt_ok_def accounting_ok_def release_justified_def
      cong: option.case_cong)

lemma lifecycle_attempt_free:
  assumes "lifecycle_ok x e attempt receipt n c"
  shows "ex_status e \<in> {''pending'', ''preflighting'', ''claimed'', ''failed''} \<Longrightarrow> attempt = None \<and> receipt = None"
    and "ex_status e \<in> {''pending'', ''preflighting'', ''claimed'', ''failed''} \<Longrightarrow> ReleaseCall x b \<notin> set c"
proof -
  assume st: "ex_status e \<in> {''pending'', ''preflighting'', ''claimed'', ''failed''}"
  show "attempt = None \<and> receipt = None"
    using assms st by (cases attempt) (simp_all add: lifecycle_ok_def attempt_and_receipt_ok_def)
  then have "\<not> release_justified e attempt" using st by (auto simp: release_justified_def)
  then show "ReleaseCall x b \<notin> set c" using assms by (auto simp: lifecycle_ok_def accounting_ok_def)
qed

lemma lifecycle_hold:
  assumes ok: "lifecycle_ok x e attempt receipt n c" and ch: "status_change e e' ''reconciliation_required''"
    and "\<not> final_terminal (ex_status e)"
  shows "lifecycle_ok x e' attempt receipt n c"
  using ch by (intro lifecycle_status_change[OF ok ch])
    (auto simp: release_justified_def status_change_def split: option.splits)

lemma lifecycle_before_claim:
  assumes ok: "lifecycle_ok x e attempt receipt n c" and ch: "status_change e e' t"
    and st: "ex_status e \<in> {''pending'', ''preflighting''}" and t: "t \<in> {''preflighting'', ''failed''}"
  shows "lifecycle_ok x e' attempt receipt n c"
proof (rule lifecycle_status_change[OF ok ch])
  have "attempt = None" using lifecycle_attempt_free(1)[OF ok] st by auto
  then show "case attempt of
        None \<Rightarrow> t \<notin> {''executing'', ''settling'', ''succeeded''}
      | Some a \<Rightarrow> t \<notin> {''pending'', ''preflighting'', ''claimed'', ''failed''}
                  \<and> (t = ''settling'' \<longrightarrow> succeeded_attempt a \<and> 0 < n)" using t by auto
  show "ReleaseCall x b \<in> set c \<Longrightarrow> release_justified e' attempt" for b
    using lifecycle_attempt_free(2)[OF ok] st by auto
qed (use t in auto)

lemma lifecycle_released:
  assumes ok: "lifecycle_ok x e attempt receipt n c" and ch: "status_change e e' ''released''"
    and "ReleaseCall x True \<in> set c"
  shows "lifecycle_ok x e' attempt receipt n c"
  using ch assms(3) by (intro lifecycle_status_change[OF ok ch])
    (auto simp: release_justified_def status_change_def split: option.splits)

lemma lifecycle_succeeded:
  assumes ok: "lifecycle_ok x e attempt (Some r) n c" and ch: "status_change e e' ''succeeded''"
    and r: "rcp_settled_at r \<noteq> None"
  shows "lifecycle_ok x e' attempt (Some r) n c"
proof (rule lifecycle_status_change[OF ok ch])
  show "case attempt of
        None \<Rightarrow> ''succeeded'' \<notin> {''executing'', ''settling'', ''succeeded''}
      | Some a \<Rightarrow> ''succeeded'' \<notin> {''pending'', ''preflighting'', ''claimed'', ''failed''}
                  \<and> (''succeeded'' = ''settling'' \<longrightarrow> succeeded_attempt a \<and> 0 < n)"
    using ok by (cases attempt) (simp_all add: lifecycle_ok_def attempt_and_receipt_ok_def)
  show "ReleaseCall x b \<in> set c \<Longrightarrow> release_justified e' attempt" for b
    using receipt_excludes_release[OF ok] by blast
qed (use r in auto)

section \<open>Updates of the row\<close>

lemma update_where_Inr:
  "update_where i p f s = Inr (e', s') \<longleftrightarrow>
     (\<exists>e. row_of s i = Some e \<and> p e \<and> e' = (f e)\<lparr>ex_version := ex_version e + 1\<rparr> \<and> s' = put_execution e' s)"
  by (auto simp: update_where_def row_of_def Let_def split: option.splits if_splits)

lemma update_where_safe:
  assumes cons: "consistent s c" and up: "update_where i p f s = Inr (e', s')"
    and new: "\<And>e e'. row_of s i = Some e \<Longrightarrow> ex_execution_id e = i \<Longrightarrow> p e \<Longrightarrow>
        lifecycle_ok i e (attempt_of s i) (receipt_of s i) (images_of s i) c \<Longrightarrow>
        e' = (f e)\<lparr>ex_version := ex_version e + 1\<rparr> \<Longrightarrow>
        same_authorization e e' \<and> \<not> final_terminal (ex_status e)
        \<and> lifecycle_ok i e' (attempt_of s i) (receipt_of s i) (images_of s i) c"
  shows "safe_step s c s' c" and "row_of s' i = Some e'" and "attempt_of s' y = attempt_of s y"
    and "receipt_of s' y = receipt_of s y" and "st_artifacts s' = st_artifacts s"
    and "\<exists>e. row_of s i = Some e \<and> p e \<and> e' = (f e)\<lparr>ex_version := ex_version e + 1\<rparr>"
proof -
  from up obtain e where e: "row_of s i = Some e" "p e" "e' = (f e)\<lparr>ex_version := ex_version e + 1\<rparr>"
    "s' = put_execution e' s" by (auto simp: update_where_Inr)
  have id: "ex_execution_id e = i" by (rule row_id[OF consistentD(1)[OF cons] e(1)])
  note n = new[OF e(1) id e(2) consistentD(2)[OF cons e(1)] e(3)]
  have id': "ex_execution_id e' = i" using n id by (simp add: same_authorization_def)
  show "safe_step s c s' c" unfolding safe_step_def e(4)
    using n by (intro consistent_put_execution[OF cons e(1) id']) (simp_all add: row_evolves_def)
  show "row_of s' i = Some e'" "attempt_of s' y = attempt_of s y" "receipt_of s' y = receipt_of s y"
    "st_artifacts s' = st_artifacts s" using e(4) id' by simp_all
  show "\<exists>e. row_of s i = Some e \<and> p e \<and> e' = (f e)\<lparr>ex_version := ex_version e + 1\<rparr>" using e by blast
qed

lemma update_execution_Inr:
  assumes "update_execution secret i expected u ts s = Inr (e', s')"
  obtains e where "row_of s i = Some e" and "allowed_transition (ex_status e) (eu_status u)"
    and "s' = put_execution e' s" and "same_authorization e e'" and "status_change e e' (eu_status u)"
    and "ex_version e = expected"
proof -
  obtain e where e: "hm_get (st_executions s) i = Some e"
    using assms by (cases "hm_get (st_executions s) i") (simp_all add: update_execution_def res_simps)
  have g: "ex_version e = expected \<and> allowed_transition (ex_status e) (eu_status u)"
    and up: "update_where i (\<lambda>e. ex_version e = expected) (\<lambda>e.
           e\<lparr>ex_status := eu_status u, ex_outcome := eu_outcome u,
             ex_started_at := coalesce (ex_started_at e) (eu_started_at u),
             ex_completed_at := eu_completed_at u, ex_failure_code := eu_failure_code u,
             ex_failure_message_redacted := None, ex_updated_at := ts,
             ex_provider_outcome := coalesce (eu_provider_outcome u) (ex_provider_outcome e),
             ex_artifact_outcome := coalesce (eu_artifact_outcome u) (ex_artifact_outcome e),
             ex_settlement_outcome := coalesce (eu_settlement_outcome u) (ex_settlement_outcome e)\<rparr>) s = Inr (e', s')"
    using assms unfolding update_execution_def and_then_eq_Inr_iff e option.case by (simp_all split: if_split_asm)
  show ?thesis
    using up e g by (intro that[of e]) (auto simp: update_where_Inr row_of_def same_authorization_def status_change_def)
qed

lemma allowed_transition_nonfinal: "allowed_transition from to \<Longrightarrow> \<not> final_terminal from"
  by (auto simp: allowed_transition_def final_terminal_def)

lemma allowed_from:
  "allowed_transition from ''failed'' \<Longrightarrow> from \<in> {''pending'', ''preflighting''}"
  "allowed_transition from ''preflighting'' \<Longrightarrow> from = ''pending''"
  by (auto simp: allowed_transition_def)

text \<open>What the target of a transition asks for.\<close>

definition target_ok :: "string \<Rightarrow> string \<Rightarrow> repository \<Rightarrow> outside_call list \<Rightarrow> bool" where
  "target_ok i t s c \<longleftrightarrow>
     t \<in> {''preflighting'', ''failed'', ''reconciliation_required'', ''released'', ''succeeded''}
     \<and> (t = ''released'' \<longrightarrow> ReleaseCall i True \<in> set c)
     \<and> (t = ''succeeded'' \<longrightarrow> (\<exists>r. receipt_of s i = Some r \<and> rcp_settled_at r \<noteq> None))"

lemma transition_lifecycle:
  assumes ok: "lifecycle_ok i e (attempt_of s i) (receipt_of s i) n c" and ch: "status_change e e' t"
    and al: "allowed_transition (ex_status e) t" and t: "target_ok i t s c"
  shows "lifecycle_ok i e' (attempt_of s i) (receipt_of s i) n c"
proof -
  note nf = allowed_transition_nonfinal[OF al]
  have "t \<in> {''preflighting'', ''failed'', ''reconciliation_required'', ''released'', ''succeeded''}"
    using t unfolding target_ok_def by (rule conjunct1)
  then have "t = ''preflighting'' \<or> t = ''failed'' \<or> t = ''reconciliation_required'' \<or> t = ''released''
    \<or> t = ''succeeded''" by (simp only: insert_iff empty_iff simp_thms)
  then show ?thesis
  proof (elim disjE)
    assume "t = ''preflighting''"
    then show ?thesis using lifecycle_before_claim[OF ok ch] allowed_from(2) al by simp
  next
    assume "t = ''failed''"
    then show ?thesis using lifecycle_before_claim[OF ok ch] allowed_from(1) al by simp
  next
    assume "t = ''reconciliation_required''"
    then show ?thesis using lifecycle_hold[OF ok _ nf] ch by simp
  next
    assume "t = ''released''"
    then show ?thesis using lifecycle_released[OF ok] ch t unfolding target_ok_def by simp
  next
    assume s: "t = ''succeeded''"
    then obtain r where r: "receipt_of s i = Some r" "rcp_settled_at r \<noteq> None" using t by (auto simp: target_ok_def)
    show ?thesis using lifecycle_succeeded[OF ok[unfolded r(1)] _ r(2)] ch s r(1) by simp
  qed
qed

lemma update_execution_safe:
  assumes cons: "consistent s c" and up: "update_execution secret i expected u ts s = Inr (e', s')"
    and t: "target_ok i (eu_status u) s c"
  shows "safe_step s c s' c" and "row_of s' i = Some e'" and "ex_status e' = eu_status u"
    and "attempt_of s' y = attempt_of s y" and "receipt_of s' y = receipt_of s y"
proof -
  from up obtain e where e: "row_of s i = Some e" "allowed_transition (ex_status e) (eu_status u)"
    "s' = put_execution e' s" "same_authorization e e'" "status_change e e' (eu_status u)"
    by (rule update_execution_Inr)
  have id: "ex_execution_id e' = i"
    using row_id[OF consistentD(1)[OF cons] e(1)] e(4) by (simp add: same_authorization_def)
  have ok: "lifecycle_ok i e' (attempt_of s i) (receipt_of s i) (images_of s i) c"
    by (rule transition_lifecycle[OF consistentD(2)[OF cons e(1)] e(5,2) t])
  show "safe_step s c s' c" unfolding safe_step_def e(3)
    using ok allowed_transition_nonfinal[OF e(2)] e(4)
    by (intro consistent_put_execution[OF cons e(1) id]) (simp_all add: row_evolves_def)
  show "row_of s' i = Some e'" "attempt_of s' y = attempt_of s y" "receipt_of s' y = receipt_of s y"
    using e(3) id by simp_all
  show "ex_status e' = eu_status u" using e(5) by (simp add: status_change_def)
qed

section \<open>Claims and releases\<close>

lemma set_claim_safe:
  assumes cons: "consistent s c" and up: "set_claim i expected claim ts s = Inr (e', s')"
    and claimed: "ClaimCall i True \<in> set c"
  shows "safe_step s c s' c" and "row_of s' i = Some e'" and "ex_status e' = ''claimed''"
proof -
  note w = update_where_safe[OF cons up[unfolded set_claim_def]]
  have new: "same_authorization e e' \<and> \<not> final_terminal (ex_status e)
      \<and> lifecycle_ok i e' (attempt_of s i) (receipt_of s i) (images_of s i) c"
    if st: "ex_version e = expected \<and> ex_status e = ''preflighting'' \<and> ex_hubu_claim_id e = None"
      and ok: "lifecycle_ok i e (attempt_of s i) (receipt_of s i) (images_of s i) c"
      and e': "e' = e\<lparr>ex_hubu_claim_id := Some claim, ex_status := ''claimed'', ex_updated_at := ts,
          ex_version := ex_version e + 1\<rparr>" for e e'
  proof -
    have "attempt_of s i = None" and "\<And>b. ReleaseCall i b \<notin> set c"
      using lifecycle_attempt_free[OF ok] st by simp_all
    then have "lifecycle_ok i e' (attempt_of s i) (receipt_of s i) (images_of s i) c"
      using e' claimed by (intro lifecycle_row_change[OF ok]) simp_all
    then show ?thesis using st e' by (simp add: same_authorization_def final_terminal_def)
  qed
  show "safe_step s c s' c" and "row_of s' i = Some e'" by (rule w(1,2); rule new; simp)+
  show "ex_status e' = ''claimed''" using up by (auto simp: set_claim_def update_where_Inr)
qed

lemma accept_existing_claim_safe:
  assumes cons: "consistent s c" and up: "accept_existing_claim i expected ts s = Inr (e', s')"
  shows "safe_step s c s' c" and "row_of s' i = Some e'" and "ex_status e' = ''claimed''"
proof -
  note w = update_where_safe[OF cons up[unfolded accept_existing_claim_def]]
  have new: "same_authorization e e' \<and> \<not> final_terminal (ex_status e)
      \<and> lifecycle_ok i e' (attempt_of s i) (receipt_of s i) (images_of s i) c"
    if st: "ex_version e = expected \<and> ex_status e = ''preflighting'' \<and> ex_hubu_claim_id e \<noteq> None"
      and ok: "lifecycle_ok i e (attempt_of s i) (receipt_of s i) (images_of s i) c"
      and e': "e' = e\<lparr>ex_status := ''claimed'', ex_updated_at := ts, ex_version := ex_version e + 1\<rparr>" for e e'
  proof -
    have "attempt_of s i = None" and "\<And>b. ReleaseCall i b \<notin> set c"
      using lifecycle_attempt_free[OF ok] st by simp_all
    then have "lifecycle_ok i e' (attempt_of s i) (receipt_of s i) (images_of s i) c"
      using e' st by (intro lifecycle_status_change[OF ok, where t = "''claimed''"]) (simp_all add: status_change_def)
    then show ?thesis using st e' by (simp add: same_authorization_def final_terminal_def)
  qed
  show "safe_step s c s' c" and "row_of s' i = Some e'" by (rule w(1,2); rule new; simp)+
  show "ex_status e' = ''claimed''" using up by (auto simp: accept_existing_claim_def update_where_Inr)
qed

lemma set_reconciliation_claim_safe:
  assumes cons: "consistent s c" and up: "set_reconciliation_claim i expected claim ts s = Inr (e', s')"
    and claimed: "ClaimCall i True \<in> set c"
  shows "safe_step s c s' c" and "row_of s' i = Some e'" and "attempt_of s' y = attempt_of s y"
    and "receipt_of s' y = receipt_of s y" and "ex_status e' = ''reconciliation_required''"
    and "ex_hubu_claim_id e' = Some claim"
proof -
  note w = update_where_safe[OF cons up[unfolded set_reconciliation_claim_def]]
  have new: "same_authorization e e' \<and> \<not> final_terminal (ex_status e)
      \<and> lifecycle_ok i e' (attempt_of s i) (receipt_of s i) (images_of s i) c"
    if st: "ex_version e = expected \<and> ex_status e = ''reconciliation_required'' \<and> ex_hubu_claim_id e = None"
      and ok: "lifecycle_ok i e (attempt_of s i) (receipt_of s i) (images_of s i) c"
      and e': "e' = e\<lparr>ex_hubu_claim_id := Some claim, ex_updated_at := ts, ex_version := ex_version e + 1\<rparr>" for e e'
  proof -
    have "lifecycle_ok i e' (attempt_of s i) (receipt_of s i) (images_of s i) c"
      using e' claimed st
      by (intro lifecycle_row_change[OF ok]) (simp_all add: release_justified_def split: option.splits)
    then show ?thesis using st e' by (simp add: same_authorization_def final_terminal_def)
  qed
  show "safe_step s c s' c" "row_of s' i = Some e'" "attempt_of s' y = attempt_of s y"
    "receipt_of s' y = receipt_of s y" by (rule w(1-4); rule new; simp)+
  show "ex_status e' = ''reconciliation_required''" "ex_hubu_claim_id e' = Some claim"
    using up by (auto simp: set_reconciliation_claim_def update_where_Inr)
qed

lemma begin_release_transmission_safe:
  assumes cons: "consistent s c" and up: "begin_release_transmission i expected ts s = Inr (e', s')"
  shows "safe_step s c s' c" and "row_of s' i = Some e'" and "attempt_of s' y = attempt_of s y"
    and "receipt_of s' y = receipt_of s y" and "ex_status e' = ''executing''"
proof -
  note w = update_where_safe[OF cons up[unfolded begin_release_transmission_def]]
  have new: "same_authorization e e' \<and> \<not> final_terminal (ex_status e)
      \<and> lifecycle_ok i e' (attempt_of s i) (receipt_of s i) (images_of s i) c"
    if "ex_version e = expected \<and> ex_status e = ''executing'' \<and> ex_release_transmission_started_at e = None"
      and "lifecycle_ok i e (attempt_of s i) (receipt_of s i) (images_of s i) c"
      and "e' = e\<lparr>ex_release_transmission_started_at := Some ts, ex_updated_at := ts,
        ex_version := ex_version e + 1\<rparr>" for e e'
    using that lifecycle_same_row[of e' e] by (simp add: same_authorization_def final_terminal_def)
  show "safe_step s c s' c" "row_of s' i = Some e'" "attempt_of s' y = attempt_of s y"
    "receipt_of s' y = receipt_of s y" by (rule w(1-4); rule new; simp)+
  show "ex_status e' = ''executing''" using up by (auto simp: begin_release_transmission_def update_where_Inr)
qed

section \<open>Writes beside the view\<close>

lemma safe_step_beside:
  assumes "consistent s c" and "st_executions s' = st_executions s \<and> st_attempts s' = st_attempts s
    \<and> st_receipts s' = st_receipts s \<and> st_artifacts s' = st_artifacts s"
  shows "safe_step s c s' c" and "row_of s' y = row_of s y" and "attempt_of s' y = attempt_of s y"
    and "receipt_of s' y = receipt_of s y" and "images_of s' y = images_of s y"
  using consistent_beside[OF assms(1)] view_cong[of s' s] images_cong[of s' s y] assms(2)
  by (simp_all add: safe_step_def)

lemma record_reconciliation_beside:
  assumes "record_reconciliation rejected e step ts s = Inr (r, s')"
  shows "st_executions s' = st_executions s \<and> st_attempts s' = st_attempts s
    \<and> st_receipts s' = st_receipts s \<and> st_artifacts s' = st_artifacts s"
  using assms by (auto simp: record_reconciliation_def Let_def split: if_splits)

lemma record_operator_action_beside:
  assumes "record_operator_action i j action evidence ts s = Inr (r, s')"
  shows "st_executions s' = st_executions s \<and> st_attempts s' = st_attempts s
    \<and> st_receipts s' = st_receipts s \<and> st_artifacts s' = st_artifacts s"
  using assms by (auto simp: record_operator_action_def res_simps Let_def split: option.splits)

lemma safe_step_trans: "safe_step s c s' c' \<Longrightarrow> safe_step s' c' s'' c'' \<Longrightarrow> safe_step s c s'' c''"
  unfolding safe_step_def using evolves_trans by blast

lemma complete_artifact_persistence_safe:
  assumes cons: "consistent s c" and up: "complete_artifact_persistence secret e attempt_id ts s = Inr (e', s')"
    and images: "0 < images_of s (ex_execution_id e)"
  shows "safe_step s c s' c" and "row_of s' (ex_execution_id e) = Some e'" and "ex_status e' = ''settling''"
proof -
  let ?i = "ex_execution_id e"
  let ?p = "\<lambda>d. ex_version d = ex_version e \<and> ex_status d = ''executing''
            \<and> (case hm_get (st_attempts s) attempt_id of
                 None \<Rightarrow> False
               | Some a \<Rightarrow> pa_execution_id a = ex_execution_id e \<and> pa_outcome a = ''succeeded''
                           \<and> pa_completed_at a \<noteq> None)"
  let ?f = "\<lambda>d. d\<lparr>ex_status := ''settling'', ex_outcome := None,
              ex_started_at := coalesce (ex_started_at d) (Some ts), ex_completed_at := None,
              ex_failure_code := None, ex_failure_message_redacted := None, ex_updated_at := ts,
              ex_provider_outcome := Some OutcomeSucceeded, ex_artifact_outcome := Some OutcomeSucceeded\<rparr>"
  from up obtain s1 where row: "update_where ?i ?p ?f s = Inr (e', s1)"
    and s': "s' = s1\<lparr>st_staged := hm_remove attempt_id (st_staged s1)\<rparr>"
    unfolding complete_artifact_persistence_def and_then_eq_Inr_iff by (auto split: prod.splits)
  note w = update_where_safe[OF cons row]
  have new: "same_authorization d d' \<and> \<not> final_terminal (ex_status d)
      \<and> lifecycle_ok ?i d' (attempt_of s ?i) (receipt_of s ?i) (images_of s ?i) c"
    if p: "?p d" and ok: "lifecycle_ok ?i d (attempt_of s ?i) (receipt_of s ?i) (images_of s ?i) c"
      and d': "d' = (?f d)\<lparr>ex_version := ex_version d + 1\<rparr>" for d d'
  proof -
    from p obtain a where a: "hm_get (st_attempts s) attempt_id = Some a" "pa_execution_id a = ?i"
      "pa_outcome a = ''succeeded''" "pa_completed_at a \<noteq> None" by (auto split: option.splits)
    have at: "attempt_of s ?i = Some a" using stored_attempt(1)[OF consistentD(1)[OF cons] a(1)] a(2) by simp
    have suc: "succeeded_attempt a" using a(3,4) by (simp add: succeeded_attempt_def completed_def)
    have aok: "attempt_ok ?i a c" using ok at by (simp add: lifecycle_ok_def attempt_and_receipt_ok_def)
    have "\<not> release_justified d (attempt_of s ?i)"
      using at p succeeded_attempt_not_released[OF aok suc] by (simp add: release_justified_def)
    moreover have "ex_hubu_claim_id d \<noteq> None" using ok p by (simp add: lifecycle_ok_def claim_ok_def)
    ultimately have "lifecycle_ok ?i d' (attempt_of s ?i) (receipt_of s ?i) (images_of s ?i) c"
      using at suc images d'
      by (intro lifecycle_status_change[OF ok, where t = "''settling''"]) (simp_all add: status_change_def)
    then show ?thesis using p d' by (simp add: same_authorization_def final_terminal_def)
  qed
  have one: "safe_step s c s1 c" "row_of s1 ?i = Some e'" by (rule w(1,2); rule new; simp)+
  note two = safe_step_beside[of s1 c s', unfolded s']
  show "safe_step s c s' c"
    using one(1) two(1) safe_step_trans by (simp add: s' safe_step_def)
  show "row_of s' ?i = Some e'" using one two(2) by (simp add: s' safe_step_def)
  show "ex_status e' = ''settling''" using row by (auto simp: update_where_Inr)
qed

end
