(* ===== verification/Gongbu_Attempt_Steps.thy ===== *)
theory Gongbu_Attempt_Steps
  imports Gongbu_Row_Steps
begin

text \<open>
  The writes of the provider attempt, of its artifacts and of the receipt are safe steps.
\<close>

section \<open>Changes of an attempt\<close>

lemma lifecycle_attemptD:
  assumes "lifecycle_ok x e (Some a) receipt n c"
  shows "attempt_ok x a c" and "\<not> succeeded_attempt a \<Longrightarrow> receipt = None"
    and "ex_hubu_claim_id e \<noteq> None" and "\<not> succeeded_attempt a \<Longrightarrow> ex_status e \<noteq> ''settling''"
    and "ex_status e \<notin> {''pending'', ''preflighting'', ''claimed'', ''failed''}"
    and "ReleaseCall x b \<in> set c \<Longrightarrow> release_justified e (Some a)"
  using assms
  by (auto simp: lifecycle_ok_def attempt_and_receipt_ok_def claim_ok_def receipt_ok_def accounting_ok_def)

lemma lifecycle_attempt_change:
  assumes ok: "lifecycle_ok x e (Some a) receipt n c" and "\<not> succeeded_attempt a"
    and "attempt_ok x a' c"
    and "\<And>b. ReleaseCall x b \<in> set c \<Longrightarrow> release_justified e (Some a) \<Longrightarrow> release_justified e (Some a')"
  shows "lifecycle_ok x e (Some a') receipt n c"
proof -
  have none: "receipt = None" "ex_status e \<noteq> ''settling''" using lifecycle_attemptD(2,4)[OF ok] assms(2) by simp_all
  have "attempt_and_receipt_ok x e (Some a') receipt n c"
    using ok none assms(3) by (simp add: lifecycle_ok_def attempt_and_receipt_ok_def)
  moreover have "accounting_ok x e (Some a') receipt c" using ok assms(4) none
    by (auto simp: lifecycle_ok_def accounting_ok_def)
  moreover have "claim_ok x e (Some a') c" using ok by (simp add: lifecycle_ok_def claim_ok_def)
  ultimately show ?thesis by (simp add: lifecycle_ok_def)
qed

lemma update_attempt_Inr:
  "update_attempt i p f err s = Inr (u, s') \<longleftrightarrow>
     (\<exists>a. hm_get (st_attempts s) i = Some a \<and> p a \<and> s' = put_attempt (f a) s)"
  by (auto simp: update_attempt_def split: option.splits if_splits)

text \<open>An attempt that has not succeeded may change as long as its own conditions stay.\<close>

definition attempt_step_ok ::
  "repository \<Rightarrow> string \<Rightarrow> outside_call list \<Rightarrow> provider_attempt \<Rightarrow> provider_attempt \<Rightarrow> bool" where
  "attempt_step_ok s x c a a' \<longleftrightarrow>
     \<not> succeeded_attempt a \<and> attempt_evolves a a' \<and> (attempt_ok x a c \<longrightarrow> attempt_ok x a' c)
     \<and> (\<forall>e b. row_of s x = Some e \<longrightarrow> ReleaseCall x b \<in> set c \<longrightarrow> release_justified e (Some a)
          \<longrightarrow> release_justified e (Some a'))"

lemma put_attempt_safe:
  assumes cons: "consistent s c" and at: "attempt_of s x = Some a" and st: "attempt_step_ok s x c a a'"
  shows "safe_step s c (put_attempt a' s) c"
    and "attempt_of (put_attempt a' s) y = (if y = x then Some a' else attempt_of s y)"
proof -
  obtain e where e: "row_of s x = Some e" using consistentD(3)[OF cons at] by blast
  note lo = consistentD(2)[OF cons e, unfolded at]
  have "lifecycle_ok x e (Some a') (receipt_of s x) (images_of s x) c"
    using lifecycle_attemptD(1)[OF lo] st e by (intro lifecycle_attempt_change[OF lo]) (auto simp: attempt_step_ok_def)
  moreover have "attempt_evolves a a'" using st by (simp add: attempt_step_ok_def)
  ultimately show "safe_step s c (put_attempt a' s) c"
    and "attempt_of (put_attempt a' s) y = (if y = x then Some a' else attempt_of s y)"
    using consistent_put_attempt[OF cons at _ e] by (simp_all add: safe_step_def)
qed

lemma stored_attempt_unique:
  assumes "consistent s c" and "attempt_of s x = Some a" and "hm_get (st_attempts s) (pa_provider_attempt_id a) = Some b"
  shows "b = a" and "pa_execution_id a = x"
  using assms attempt_of_iff[OF consistentD(1)[OF assms(1)]] by auto

text \<open>An attempt in flight has neither a receipt nor a release.\<close>

lemma in_flightD:
  assumes "in_flight a"
  shows "\<not> completed a" "transmitted a" "\<not> succeeded_attempt a" "\<not> failed_attempt a"
    "\<not> release_justified e (Some a)" "pa_outcome a = ''started''"
  using assms by (simp_all add: in_flight_def completed_def transmitted_def succeeded_attempt_def failed_attempt_def
      release_justified_def)

lemmas attempt_flags =
  attempt_evolves_def attempt_ok_def completed_def transmitted_def checkpointed_def succeeded_attempt_def
  failed_attempt_def

lemma begin_provider_transmission_safe:
  assumes cons: "consistent s c" and up: "begin_provider_transmission i ts s = Inr (u, s')"
    and a: "attempt_of s x = Some a" "pa_provider_attempt_id a = i"
    and row: "row_of s x = Some e" "ex_status e = ''executing''"
  shows "safe_step s c s' c" and "row_of s' x = Some e"
    and "\<exists>a'. attempt_of s' x = Some a' \<and> pa_provider_attempt_id a' = i \<and> transmitted a' \<and> submissions x c = []"
proof -
  let ?a = "a\<lparr>pa_transmission_started_at := Some ts\<rparr>"
  from up have b: "pa_transmission_started_at a = None" "pa_completed_at a = None" and s': "s' = put_attempt ?a s"
    using stored_attempt_unique(1)[OF cons a(1)] a(2)
    by (auto simp: begin_provider_transmission_def update_attempt_Inr)
  note lo = consistentD(2)[OF cons row(1), unfolded a(1)]
  have "attempt_step_ok s x c a ?a"
    using b row by (auto simp: attempt_step_ok_def release_justified_def attempt_flags)
  note safe = put_attempt_safe[OF cons a(1) this]
  show "safe_step s c s' c" "row_of s' x = Some e" using safe(1) row(1) s' by simp_all
  have "submissions x c = []"
    using lifecycle_attemptD(1)[OF lo] b(1) by (simp add: attempt_ok_def transmitted_def)
  then show "\<exists>a'. attempt_of s' x = Some a' \<and> pa_provider_attempt_id a' = i \<and> transmitted a' \<and> submissions x c = []"
    using safe(2)[of x] s' a(2) by (simp add: transmitted_def)
qed

text \<open>An execution whose work was submitted.\<close>

definition at_work :: "string \<Rightarrow> execution \<Rightarrow> string \<Rightarrow> assertion" where
  "at_work x e i s c \<longleftrightarrow>
     row_of s x = Some e \<and> ex_status e = ''executing''
     \<and> (\<exists>a. attempt_of s x = Some a \<and> pa_provider_attempt_id a = i) \<and> submissions x c \<noteq> []"

lemma count_interaction_safe:
  assumes cons: "consistent s c" and work: "at_work x e i s c"
    and up: "update_attempt i p f err s = Inr (u, s')" and p: "\<And>a. p a \<Longrightarrow> in_flight a"
    and f: "\<And>a. f a = a\<lparr>pa_provider_poll_count := pa_provider_poll_count (f a),
        pa_artifact_fetch_count := pa_artifact_fetch_count (f a)\<rparr>"
  shows "safe_step s c s' c \<and> at_work x e i s' c"
proof -
  from work obtain a where a: "attempt_of s x = Some a" "pa_provider_attempt_id a = i"
    by (auto simp: at_work_def)
  from up have fl: "in_flight a" and s': "s' = put_attempt (f a) s"
    using stored_attempt_unique(1)[OF cons a(1)] a(2) p by (auto simp: update_attempt_Inr)
  obtain m n where fa: "f a = a\<lparr>pa_provider_poll_count := m, pa_artifact_fetch_count := n\<rparr>"
    by (rule that[OF f])
  have "attempt_step_ok s x c a (f a)" unfolding fa
    using in_flightD(1,3)[OF fl] in_flightD(5)[OF fl]
    by (simp add: attempt_step_ok_def attempt_evolves_def attempt_ok_def completed_def transmitted_def checkpointed_def)
  note safe = put_attempt_safe[OF cons a(1) this]
  show ?thesis using safe work a(2) fa by (simp add: s' at_work_def)
qed

lemma record_provider_poll_safe:
  assumes "consistent s c" and "at_work x e i s c" and "record_provider_poll i s = Inr (u, s')"
  shows "safe_step s c s' c \<and> at_work x e i s' c"
  using assms(3) unfolding record_provider_poll_def by (rule count_interaction_safe[OF assms(1,2)]) simp_all

lemma record_artifact_fetch_safe:
  assumes "consistent s c" and "at_work x e i s c" and "record_artifact_fetch i s = Inr (u, s')"
  shows "safe_step s c s' c \<and> at_work x e i s' c"
  using assms(3) unfolding record_artifact_fetch_def by (rule count_interaction_safe[OF assms(1,2)]) simp_all

lemma with_unique_request_id_Inr:
  "with_unique_request_id i request_id w s = Inr r \<Longrightarrow> w s = Inr r"
  by (auto simp: with_unique_request_id_def res_simps split: if_splits)

lemma record_provider_operation_safe:
  assumes cons: "consistent s c" and work: "at_work x e i s c"
    and up: "record_provider_operation secret i operation ts s = Inr (b, s')"
  shows "safe_step s c s' c \<and> at_work x e i s' c"
proof -
  from work obtain a where a: "attempt_of s x = Some a" "pa_provider_attempt_id a = i"
    by (auto simp: at_work_def)
  have get: "hm_get (st_attempts s) i = Some a" using a attempt_of_iff[OF consistentD(1)[OF cons]] by auto
  let ?a = "a\<lparr>pa_provider_request_id := apo_provider_request_id operation,
                    pa_provider_operation_id := Some (apo_provider_operation_id operation),
                    pa_provider_polling_host := Some (apo_polling_host operation),
                    pa_provider_deadline_unix_ms := Some (apo_deadline_unix_ms operation),
                    pa_operation_checkpointed_at := Some ts,
                    pa_provider_recovery_context := apo_polling_recovery operation\<rparr>"
  from up consider "s' = s" | "in_flight a" "s' = put_attempt ?a s"
    unfolding record_provider_operation_def and_then_eq_Inr_iff get option.case
    by (auto simp: res_simps update_attempt_Inr get split: if_split_asm dest!: with_unique_request_id_Inr)
  then show ?thesis
  proof cases
    case 1
    then show ?thesis using cons work by (simp add: safe_step_def)
  next
    case 2
    have "attempt_step_ok s x c a ?a"
      using in_flightD[OF 2(1)] work by (auto simp: attempt_step_ok_def attempt_flags at_work_def)
    note safe = put_attempt_safe[OF cons a(1) this]
    show ?thesis using safe work a(2) by (simp add: 2(2) at_work_def)
  qed
qed

section \<open>The outcome\<close>

definition finished :: "string \<Rightarrow> execution \<Rightarrow> string \<Rightarrow> assertion" where
  "finished x e outcome s c \<longleftrightarrow>
     row_of s x = Some e \<and> ex_status e = ''executing''
     \<and> (\<exists>a. attempt_of s x = Some a \<and> completed a \<and> pa_outcome a = outcome)"

lemma write_attempt_result_safe:
  assumes cons: "consistent s c" and work: "at_work x e i s c"
    and up: "write_attempt_result i r s = Inr (u, s')" and r: "ar_outcome r \<noteq> ''started''"
  shows "safe_step s c s' c \<and> finished x e (ar_outcome r) s' c"
proof -
  from work obtain a where a: "attempt_of s x = Some a" "pa_provider_attempt_id a = i"
    by (auto simp: at_work_def)
  have get: "hm_get (st_attempts s) i = Some a" using a attempt_of_iff[OF consistentD(1)[OF cons]] by auto
  from up have fl: "pa_completed_at a = None" "pa_transmission_started_at a \<noteq> None"
    and s': "s' = put_attempt (completed_attempt r a) s"
    by (auto simp: write_attempt_result_def res_simps update_attempt_Inr get split: if_split_asm
        dest!: with_unique_request_id_Inr)
  have "attempt_step_ok s x c a (completed_attempt r a)"
    using fl work r
    by (auto simp: attempt_step_ok_def attempt_flags at_work_def completed_attempt_def release_justified_def)
  note safe = put_attempt_safe[OF cons a(1) this]
  show ?thesis using safe work by (simp add: s' finished_def at_work_def completed_attempt_def completed_def)
qed

lemma complete_provider_attempt_safe:
  assumes "consistent s c" and "at_work x e i s c"
    and "complete_provider_attempt secret i r s = Inr (u, s')" and "ar_outcome r \<noteq> ''started''"
  shows "safe_step s c s' c \<and> finished x e (ar_outcome r) s' c"
  using assms(3) write_attempt_result_safe[OF assms(1,2) _ assms(4)]
  by (auto simp: complete_provider_attempt_def res_simps split: if_split_asm)

lemma complete_provider_attempt_with_artifacts_safe:
  assumes cons: "consistent s c" and work: "at_work x e i s c"
    and up: "complete_provider_attempt_with_artifacts secret i r as s = Inr (u, s')" and r: "ar_outcome r \<noteq> ''started''"
  shows "safe_step s c s' c \<and> finished x e (ar_outcome r) s' c"
proof -
  from up obtain w s1 where s1: "write_attempt_result i r s = Inr (w, s1)"
    and s': "s' = s1\<lparr>st_staged := hm_insert i as (st_staged s1)\<rparr>"
    by (auto simp: complete_provider_attempt_with_artifacts_def res_simps split: if_split_asm)
  have one: "safe_step s c s1 c \<and> finished x e (ar_outcome r) s1 c"
    by (rule write_attempt_result_safe[OF cons work s1 r])
  then have "consistent s1 c" by (simp add: safe_step_def)
  note two = safe_step_beside[OF this, of s', unfolded s', simplified]
  show ?thesis using one two safe_step_trans[OF conjunct1[OF one] two(1)] by (simp add: s' finished_def)
qed

end
