(* ===== verification/Gongbu_Cost.thy ===== *)
theory Gongbu_Cost
  imports Gongbu_Rational Spend_Request
begin

text \<open>
  Facts about the vendor costs of the execution service: an exact price becomes a decimal without loss, the loops of
  that conversion end, a decimal lexeme is read without rounding, and the conversion into budget units
  charges what \<^verbatim>\<open>hubu-core\<close> will charge for the same cost.
\<close>

section \<open>Factors of two and five\<close>

lemma strip_factor_pos:
  assumes "2 \<le> p" and "0 < d"
  shows "\<exists>m d'. strip_factor p k d = Some (k + m, d') \<and> d = p ^ m * d' \<and> 0 < d' \<and> \<not> p dvd d'"
  using assms(2)
proof (induction "nat d" arbitrary: d k rule: less_induct)
  case less
  have p: "0 < p" using assms(1) by simp
  have mod_div: "trunc_mod d p = d mod p" "trunc_div d p = d div p"
    using less.prems p by (simp_all add: trunc_nonneg)
  show ?case
  proof (cases "p dvd d")
    case False
    then have "strip_factor p k d = Some (k, d)"
      by (simp add: strip_factor.simps[of p k d] mod_div dvd_eq_mod_eq_0)
    with False less.prems show ?thesis by (intro exI[of _ 0] exI[of _ d]) simp
  next
    case True
    then have q: "d = p * (d div p)" by simp
    with less.prems p have pos: "0 < d div p" by (metis mult.commute mult_0_right nonneg1_imp_zdiv_pos_iff zero_less_mult_pos)
    have "d div p < d" using less.prems assms(1) by (intro int_div_less_self) simp_all
    with pos have "nat (d div p) < nat d" by simp
    from less.hyps[OF this pos, of "k + 1"] obtain m d' where
      "strip_factor p (k + 1) (d div p) = Some (k + 1 + m, d')" "d div p = p ^ m * d'" "0 < d'" "\<not> p dvd d'"
      by blast
    moreover have "strip_factor p k d = strip_factor p (k + 1) (d div p)"
      using True by (simp add: strip_factor.simps[of p k d] mod_div dvd_eq_mod_eq_0)
    ultimately show ?thesis using q by (intro exI[of _ "Suc m"] exI[of _ d']) (simp add: mult.assoc)
  qed
qed

text \<open>The cost of a reduced fraction over \<open>2 ^ twos * 5 ^ fives\<close>.\<close>

lemma power_of_ten_multiple:
  assumes "k = max a b"
  shows "(10::int) ^ k = 2 ^ a * 5 ^ b * (2 ^ (k - a) * 5 ^ (k - b))"
proof -
  have "(10::int) ^ k = 2 ^ k * 5 ^ k" by (simp flip: power_mult_distrib)
  moreover have "(2::int) ^ k = 2 ^ a * 2 ^ (k - a)" "(5::int) ^ k = 5 ^ b * 5 ^ (k - b)"
    using assms by (simp_all flip: power_add)
  ultimately show ?thesis by simp
qed

lemma cost_new_ok:
  assumes "cost_new n s cur = Inr c"
  shows "c = \<lparr>ac_amount = n, ac_scale = s, ac_currency = map to_ascii_uppercase (trim cur)\<rparr>"
    and "cost_validate c = Inr ()" and "0 \<le> ac_amount c" and "ac_scale c \<le> 18"
  using assms by (auto simp: cost_new_def cost_validate_def Let_def MAX_VENDOR_COST_SCALE_def res_simps split: if_splits)

lemma to_actual_vendor_cost_returns:
  assumes "rational_pos r"
  shows "to_actual_vendor_cost r cur \<noteq> None"
proof (cases "checked_mul_i128 (rat_d r) 100")
  case None
  then show ?thesis by (simp add: to_actual_vendor_cost_def)
next
  case (Some M)
  then have M: "M = rat_d r * 100" by (simp add: res_simps)
  define reduced where "reduced = trunc_div M (gcd_loop (rat_n r) M)"
  note r = rational_posD[OF assms]
  have pos: "0 \<le> rat_n r" "0 < M" using r M by simp_all
  then have "0 < reduced"
    using reduced_fraction(2)[OF pos] gcd_pos_int[of "rat_n r" M]
    by (simp add: reduced_def gcd_loop_pos trunc_nonneg)
  from strip_factor_pos[of 2, OF _ this, of 0] obtain m d' where
    two: "strip_factor 2 0 reduced = Some (m, d')" "0 < d'" by auto
  from strip_factor_pos[of 5, OF _ two(2), of 0] obtain l d'' where
    "strip_factor 5 0 d' = Some (l, d'')" by auto
  with two show ?thesis using Some by (simp add: to_actual_vendor_cost_def Let_def flip: reduced_def)
qed

text \<open>The decimal of an exact price is that price: \<open>amount / 10 ^ scale\<close> majors are \<open>n / d\<close> cents.\<close>

lemma to_actual_vendor_cost_exact:
  assumes "rational_pos r" and "to_actual_vendor_cost r cur = Some (Inr c)"
  shows "ac_amount c * (100 * rat_d r) = rat_n r * 10 ^ ac_scale c"
    and "cost_validate c = Inr ()" and "ac_currency c = map to_ascii_uppercase (trim cur)"
    and "fits_i64 (ac_amount c)"
proof -
  define M where "M = rat_d r * 100"
  define g where "g = gcd (rat_n r) M"
  note r = rational_posD[OF assms(1)]
  have pos: "0 \<le> rat_n r" "0 < M" using r by (simp_all add: M_def)
  then have g: "gcd_loop (rat_n r) M = g" "0 < g" by (simp_all add: g_def gcd_loop_pos)
  define reduced numerator where "reduced = M div g" and "numerator = rat_n r div g"
  have reduced: "trunc_div M g = reduced" "trunc_div (rat_n r) g = numerator"
    using pos g(2) by (simp_all add: reduced_def numerator_def trunc_nonneg)
  have rpos: "0 < reduced" using reduced_fraction(2)[OF pos] by (simp add: reduced_def g_def)
  from strip_factor_pos[of 2, OF _ rpos, of 0] obtain a d' where
    two: "strip_factor 2 0 reduced = Some (a, d')" "reduced = 2 ^ a * d'" "0 < d'" by auto
  from strip_factor_pos[of 5, OF _ two(3), of 0] obtain b d'' where
    five: "strip_factor 5 0 d' = Some (b, d'')" "d' = 5 ^ b * d''" by auto
  have "checked_mul_i128 (rat_d r) 100 = Some M"
    using assms(2) by (auto simp: to_actual_vendor_cost_def checked_def M_def split: if_splits)
  with assms(2) obtain n where n: "d'' = 1" "fits_i64 n"
    "n = numerator * trunc_div (10 ^ max a b) reduced" "cost_new n (max a b) cur = Inr c"
    using two(1) five(1) g(1) reduced
    by (auto simp: to_actual_vendor_cost_def Let_def res_simps MAX_VENDOR_COST_SCALE_def split: if_splits
        dest!: checked_pow10_eq)
  note c = cost_new_ok[OF n(4)]
  show "cost_validate c = Inr ()" by (rule c(2))
  show "ac_currency c = map to_ascii_uppercase (trim cur)" "fits_i64 (ac_amount c)" using c(1) n(2) by simp_all
  define k where "k = max a b"
  have red: "reduced = 2 ^ a * 5 ^ b" using two(2) five(2) n(1) by simp
  define cofactor :: int where "cofactor = 2 ^ (k - a) * 5 ^ (k - b)"
  have ten: "10 ^ k = reduced * cofactor" using power_of_ten_multiple[of k a b] by (simp add: k_def red cofactor_def)
  have "0 \<le> cofactor" by (simp add: cofactor_def)
  then have "trunc_div (10 ^ k) reduced = cofactor" using rpos by (simp add: trunc_nonneg ten)
  then have nc: "n = numerator * cofactor" using n(3) by (simp add: k_def)
  have M': "M = reduced * g" and N': "rat_n r = numerator * g" by (simp_all add: reduced_def numerator_def g_def)
  have "n * M = rat_n r * 10 ^ k" unfolding nc ten M' N' by (simp add: ac_simps)
  then show "ac_amount c * (100 * rat_d r) = rat_n r * 10 ^ ac_scale c" using c(1) by (simp add: M_def k_def ac_simps)
qed

section \<open>The charge in budget units\<close>

lemma ceil_div_sum: "0 < b \<Longrightarrow> (a + (b - 1)) div b = ceil_div a b"
proof (rule ceil_div_unique[symmetric])
  assume b: "0 < b"
  define q r where "q = (a + (b - 1)) div b" and "r = (a + (b - 1)) mod b"
  have e: "a + (b - 1) = q * b + r" by (simp add: q_def r_def)
  have m: "0 \<le> r" "r < b" using b by (simp_all add: r_def)
  show "a \<le> (a + (b - 1)) div b * b" "(a + (b - 1)) div b * b < a + b"
    using e m unfolding q_def[symmetric] by linarith+
qed

lemma scaled_down:
  assumes "6 < (s::nat)"
  shows "ceil_div (A * 1000000) (10 ^ s) = ceil_div A (10 ^ (s - 6))"
proof -
  have "s = (s - 6) + 6" using assms by simp
  then have "(10::int) ^ s = 10 ^ (s - 6) * 10 ^ 6" using power_add[of "10::int" "s - 6" 6] by metis
  then show ?thesis by (simp add: ceil_div_cancel)
qed

lemma scaled_up:
  assumes "(s::nat) \<le> 6"
  shows "ceil_div (A * 1000000) (10 ^ s) = A * 10 ^ (6 - s)"
proof -
  have "A * 1000000 = A * 10 ^ (6 - s) * 10 ^ s" using assms by (simp flip: power_add)
  then show ?thesis by (simp only: ceil_div_exact zero_less_power zero_less_numeral)
qed

lemma pow10_le: "n \<le> 18 \<Longrightarrow> (10::int) ^ n \<le> 1000000000000000000"
  using power_increasing[of n 18 "10::int"] by simp

lemma to_budget_units_value:
  assumes "fits_i64 (ac_amount c)" and "eq_ignore_ascii_case (ac_currency c) cur" and "cost_validate c = Inr ()"
  shows "to_budget_units c cur = indeterminable (checked fits_i64 (ceil_div (ac_amount c * 1000000) (10 ^ ac_scale c)))"
proof -
  let ?A = "ac_amount c" and ?s = "ac_scale c"
  have v: "0 \<le> ?A" "?s \<le> 18"
    using assms(3) by (auto simp: cost_validate_def MAX_VENDOR_COST_SCALE_def split: if_splits)
  show ?thesis
  proof (cases "6 < ?s")
    case True
    define D where "D = (10::int) ^ (?s - 6)"
    have D: "0 < D" "D \<le> 1000000000000000000" using v(2) pow10_le[of "?s - 6"] by (simp_all add: D_def)
    have "fits_i128 (?A + (D - 1))" using D v(1) assms(1) by (simp add: range_simps)
    moreover have "trunc_div (?A + (D - 1)) D = ceil_div ?A D" using D v(1) by (simp add: trunc_nonneg ceil_div_sum)
    ultimately show ?thesis using True v(2) assms
      by (simp add: to_budget_units_def UNITS_SCALE_def checked_def scaled_down flip: D_def)
  next
    case False
    have "(10::int) ^ (6 - ?s) \<le> 1000000" using power_increasing[of "6 - ?s" 6 "10::int"] by simp
    moreover have "?A * 10 ^ (6 - ?s) \<le> 9223372036854775807 * 1000000"
      using calculation v(1) assms(1) by (intro mult_mono) (simp_all add: range_simps)
    ultimately have "fits_i128 (?A * 10 ^ (6 - ?s))"
      using v(1) by (simp add: fits_i128_def) (smt (verit) mult_nonneg_nonneg zero_le_power)
    then show ?thesis using False assms
      by (simp add: to_budget_units_def UNITS_SCALE_def checked_def scaled_up)
  qed
qed

lemma to_budget_units_ok:
  assumes "to_budget_units c cur = Inr u" and "fits_i64 (ac_amount c)"
  shows "u = ceil_div (ac_amount c * 1000000) (10 ^ ac_scale c)" and "fits_i64 u" and "0 \<le> u"
    and "eq_ignore_ascii_case (ac_currency c) cur" and "cost_validate c = Inr ()"
proof -
  show v: "cost_validate c = Inr ()" and e: "eq_ignore_ascii_case (ac_currency c) cur"
    using assms(1) by (auto simp: to_budget_units_def res_simps split: if_splits)
  from assms(1)[unfolded to_budget_units_value[OF assms(2) e v]]
  show u: "u = ceil_div (ac_amount c * 1000000) (10 ^ ac_scale c)" and "fits_i64 u" by (simp_all add: res_simps)
  have "0 \<le> ac_amount c" using v by (auto simp: cost_validate_def split: if_splits)
  then show "0 \<le> u" by (simp add: u ceil_div_nonneg)
qed

text \<open>The charge of \<^verbatim>\<open>hubu-core\<close> for a valid cost, on both branches.\<close>

lemma budget_charge_total:
  assumes "0 \<le> vc_amount c" and "vc_scale c \<le> 18" and "fits_i64 (vc_amount c)"
  shows "budget_charge c =
    map_err (\<lambda>_. CostNotRepresentable) (ok_or Overflow (map_option Amount
      (checked fits_i64 (ceil_div (vc_amount c * 1000000) (10 ^ vc_scale c)))))"
proof -
  let ?A = "vc_amount c" and ?s = "vc_scale c"
  have t: "(0::int) < 10 ^ ?s" "fits_i128 (10 ^ ?s)" using fits_i128_pow10[of ?s] assms(2) by simp_all
  have "fits_i128 1" "fits_i128 ?A" "fits_i128 (?A * 1000000)"
    using assms(1,3) by (simp_all add: range_simps)
  with assms(1,2) t show ?thesis
    by (simp add: budget_charge_def MAX_VENDOR_COST_DECIMAL_SCALE_def exact_money_new_def MAX_EXACT_SCALE_def
        to_amount_ceil_def identity_rate_def checked_def ACCOUNTING_SCALE_def trunc_nonneg ceil_div_def Let_def)
qed

text \<open>
  C22: both services charge one vendor cost alike. The execution service decides whether a cost fits its
  authorization by \<open>to_budget_units\<close>, the governance service charges the budget by \<open>budget_charge\<close>; for
  every valid cost in the currency of the budget the two computations give the same amount, or both
  refuse it as not representable.
\<close>

theorem vendor_cost_charged_alike:
  assumes "cost_validate c = Inr ()" and "fits_i64 (ac_amount c)"
    and "eq_ignore_ascii_case (ac_currency c) (currency_display cur)"
  shows "budget_charge \<lparr>vc_amount = ac_amount c, vc_scale = ac_scale c, vc_currency = cur\<rparr>
    = (case to_budget_units c (currency_display cur) of
         Inl _ \<Rightarrow> Inl CostNotRepresentable | Inr u \<Rightarrow> Inr (Amount u))"
proof -
  have "0 \<le> ac_amount c" "ac_scale c \<le> 18"
    using assms(1) by (auto simp: cost_validate_def MAX_VENDOR_COST_SCALE_def split: if_splits)
  then show ?thesis
    using assms by (simp add: budget_charge_total to_budget_units_value checked_def)
qed

theorem vendor_cost_charged_alike_witness:
  "budget_charge \<lparr>vc_amount = 1234567, vc_scale = 8, vc_currency = Usd\<rparr> = Inr (Amount 12346)"
proof -
  let ?c = "\<lparr>ac_amount = 1234567, ac_scale = 8, ac_currency = ''USD''\<rparr>"
  have "cost_validate ?c = Inr ()" "fits_i64 (ac_amount ?c)"
    "eq_ignore_ascii_case (ac_currency ?c) (currency_display Usd)"
    "to_budget_units ?c (currency_display Usd) = Inr 12346" by code_simp+
  with vendor_cost_charged_alike[of ?c Usd] show ?thesis by simp
qed

section \<open>Decimal lexemes\<close>

lemma split_once_by_Some:
  "split_once_by p s = Some (a, b) \<Longrightarrow> \<exists>x. p x \<and> s = a @ x # b"
  by (induction s arbitrary: a) (auto split: if_splits)

text \<open>The text of a decimal with whole and fractional digits and an exponent.\<close>

definition is_lexeme :: "string \<Rightarrow> string \<Rightarrow> string \<Rightarrow> int \<Rightarrow> bool" where
  "is_lexeme raw whole fraction exponent \<longleftrightarrow>
     whole \<noteq> [] \<and> all_digits whole \<and> all_digits fraction
     \<and> (\<exists>rest. raw = whole @ (if fraction = [] then [] else CHR ''.'' # fraction) @ rest
          \<and> (rest = [] \<and> exponent = 0
             \<or> (\<exists>mark digits. rest = mark # digits \<and> exponent_mark mark \<and> parse_signed fits_i32 digits = Some exponent)))"

lemma lexeme_parts:
  assumes "lexeme_exponent raw = Inr (significand, e)" and "significand \<noteq> []"
    and "lexeme_fraction significand = Inr (whole, fraction)" and "all_digits whole" and "all_digits fraction"
  shows "is_lexeme raw whole fraction e"
proof -
  have sig: "whole \<noteq> []" "significand = whole @ (if fraction = [] then [] else CHR ''.'' # fraction)"
    using assms(2,3) split_once_Some[of "CHR ''.''" significand]
    by (auto simp: lexeme_fraction_def split: option.splits prod.splits if_splits)
  have "raw = significand \<and> e = 0 \<or>
    (\<exists>mark digits. raw = significand @ mark # digits \<and> exponent_mark mark \<and> parse_signed fits_i32 digits = Some e)"
    using assms(1) split_once_by_Some[of exponent_mark raw]
    by (fastforce simp: lexeme_exponent_def res_simps split: option.splits prod.splits if_splits)
  with sig assms(4,5) show ?thesis unfolding is_lexeme_def by fastforce
qed

text \<open>
  C39: reading a provider's decimal never rounds. An accepted lexeme is whole digits, an optional
  fraction and an optional exponent, and the cost is its exact value times ten to the minus the scale of
  the source unit.
\<close>

theorem from_decimal_scaled_units_exact:
  assumes "from_decimal_scaled_units raw cur s = Inr c"
  shows "\<exists>whole fraction e. is_lexeme raw whole fraction e
    \<and> of_int (ac_amount c) / 10 ^ ac_scale c
        = (of_nat (digits_val (whole @ fraction)) * 10 powi (e - int (length fraction) - int s) :: rat)
    \<and> cost_validate c = Inr () \<and> fits_i64 (ac_amount c)"
proof -
  from assms obtain significand e whole fraction n m k where
    lex: "lexeme_exponent raw = Inr (significand, e)" "significand \<noteq> []"
      "lexeme_fraction significand = Inr (whole, fraction)" "all_digits whole" "all_digits fraction"
    and n: "parse_i128 (whole @ fraction) = Some n"
    and scale: "lexeme_scaled n (int (length fraction) - e + int s) = Inr (m, k)"
    and c: "cost_new m k cur = Inr c" "fits_i64 m"
    by (auto simp: from_decimal_scaled_units_def res_simps split: if_splits prod.splits)
  define places where "places = int (length fraction) - e + int s"
  note parts = lexeme_parts[OF lex]
  have nd: "n = int (digits_val (whole @ fraction))"
    using n parts lex(4,5) by (simp add: parse_signed_digits is_lexeme_def res_simps)
  have cm: "ac_amount c = m" "ac_scale c = k" using cost_new_ok(1)[OF c(1)] by simp_all
  have "of_int m / 10 ^ k = (of_int n * 10 powi (- places) :: rat)"
    using scale unfolding places_def[symmetric]
    by (auto simp: lexeme_scaled_def res_simps power_int_def field_simps split: if_splits dest!: checked_pow10_eq)
  then have "of_int m / 10 ^ k = (of_nat (digits_val (whole @ fraction)) * 10 powi (- places) :: rat)"
    by (simp only: nd of_int_of_nat_eq)
  moreover have "- places = e - int (length fraction) - int s" by (simp add: places_def)
  ultimately show ?thesis
    using parts c(2) cost_new_ok(2)[OF c(1)] cm by (intro exI[of _ whole] exI[of _ fraction] exI[of _ e]) simp
qed

theorem from_decimal_scaled_units_exact_witness:
  "from_decimal_scaled_units ''12.50e-3'' ''usd'' 2 = Inr \<lparr>ac_amount = 1250, ac_scale = 7, ac_currency = ''USD''\<rparr>
   \<and> (\<exists>whole fraction e. is_lexeme ''12.50e-3'' whole fraction e)"
proof -
  have r: "from_decimal_scaled_units ''12.50e-3'' ''usd'' 2 =
    Inr \<lparr>ac_amount = 1250, ac_scale = 7, ac_currency = ''USD''\<rparr>" by code_simp
  from from_decimal_scaled_units_exact[OF r] r show ?thesis by blast
qed

end
