(* ===== verification/Gongbu_Pricing_Theorems.thy ===== *)
theory Gongbu_Pricing_Theorems
  imports Gongbu_Snapshot Gongbu_Cost
begin

text \<open>
  What the pricing contract promises: a price is frozen exactly and rounded up once, a snapshot made
  from a validated catalog passes its own integrity check and survives storage, a settlement always
  returns and stays within the estimate, the authorization and the frozen quantities, and usage within
  the quote is never refused as an overage.
\<close>

section \<open>Prices as fractions\<close>

definition price_of :: "int \<Rightarrow> int \<Rightarrow> int \<Rightarrow> rat" where
  "price_of n d quantity = Fract n d * of_int quantity"

lemma add_price_ok:
  assumes "add_price n d q exact = Inr r" and "rational_pos exact"
  shows "rational_ok r" and "cents_of r = cents_of exact + price_of n d q" and "0 \<le> n" and "0 < d" and "0 \<le> q"
proof -
  from assms(1) obtain rate m where r: "rational_new n d = Inr rate" "rational_mul rate q = Inr m"
    "rational_add exact m = Inr r" by (auto simp: add_price_def res_simps)
  note new = rational_new_ok[OF r(1)]
  note mul = rational_mul_ok[OF r(2) new(1)]
  note add = rational_add_ok[OF r(3) assms(2) mul(1)]
  show "rational_ok r" "cents_of r = cents_of exact + price_of n d q" "0 \<le> n" "0 < d" "0 \<le> q"
    using new mul add by (simp_all add: price_of_def)
qed

lemma price_mono: "0 \<le> n \<Longrightarrow> 0 < d \<Longrightarrow> q \<le> q' \<Longrightarrow> price_of n d q \<le> price_of n d q'"
  by (auto simp: price_of_def zero_le_Fract_iff intro: mult_left_mono)

lemma ceiling_Fract: "0 < d \<Longrightarrow> \<lceil>Fract n d\<rceil> = ceil_div n d"
proof -
  assume d: "0 < d"
  note c = ceil_div_bounds[OF d, of n]
  have q: "Fract n d = of_int n / of_int d" by (simp add: Fract_of_int_quotient)
  show ?thesis
  proof (rule ceiling_unique)
    have "(of_int (ceil_div n d * d) :: rat) < of_int (n + d)" using c(2) of_int_less_iff by blast
    then show "of_int (ceil_div n d) - 1 < Fract n d" using d by (simp add: q field_simps)
    have "(of_int n :: rat) \<le> of_int (ceil_div n d * d)" using c(1) of_int_le_iff by blast
    then show "Fract n d \<le> of_int (ceil_div n d)" using d by (simp add: q field_simps)
  qed
qed

lemma ceil_i64_value:
  assumes "ceil_i64 r = Inr u" and "rational_pos r"
  shows "u = \<lceil>cents_of r\<rceil>" and "fits_i64 u" and "0 \<le> u"
proof -
  note r = rational_posD[OF assms(2)]
  have u: "u = ceil_div (rat_n r) (rat_d r)" "fits_i64 u"
    using assms(1) r by (auto simp: ceil_i64_def res_simps trunc_nonneg ceil_div_sum)
  then show "u = \<lceil>cents_of r\<rceil>" "fits_i64 u" "0 \<le> u"
    using r by (simp_all add: cents_of_def ceiling_Fract ceil_div_nonneg)
qed

lemma to_units_ceil_value:
  assumes "to_units_ceil r = Inr u" and "rational_pos r"
  shows "u = \<lceil>cents_of r * 10000\<rceil>" and "fits_i64 u" and "0 \<le> u"
proof -
  let ?s = "\<lparr>rat_n = rat_n r * 10000, rat_d = rat_d r\<rparr>"
  from assms have c: "ceil_i64 ?s = Inr u" and p: "rational_pos ?s"
    by (auto simp: to_units_ceil_def res_simps UNITS_PER_MINOR_def rational_pos_def)
  have "cents_of ?s = cents_of r * 10000"
    using rational_posD(2)[OF assms(2)] by (simp add: cents_of_def Fract_of_int_quotient)
  with ceil_i64_value[OF c p] show "u = \<lceil>cents_of r * 10000\<rceil>" "fits_i64 u" "0 \<le> u" by simp_all
qed

section \<open>Sums over the frozen components\<close>

definition frozen_price :: "frozen_component \<Rightarrow> rat" where
  "frozen_price c = price_of (fpc_rate_numerator_minor c) (fpc_rate_denominator c) (fpc_quantity c)"

definition usage_amount :: "normalized_usage \<Rightarrow> frozen_component \<Rightarrow> int" where
  "usage_amount us c = (case usage_quantity_for us (fpc_unit c) of None \<Rightarrow> 0 | Some q \<Rightarrow> q)"

definition used_price :: "normalized_usage \<Rightarrow> frozen_component \<Rightarrow> rat" where
  "used_price us c = price_of (fpc_rate_numerator_minor c) (fpc_rate_denominator c) (usage_amount us c)"

abbreviation add_frozen :: "rational \<Rightarrow> frozen_component \<Rightarrow> contract_error + rational" where
  "add_frozen exact c \<equiv>
     add_price (fpc_rate_numerator_minor c) (fpc_rate_denominator c) (fpc_quantity c) exact"

lemma frozen_sum:
  assumes "try_fold add_frozen rational_zero cs = Inr r"
  shows "rational_ok r" and "cents_of r = sum_list (map frozen_price cs)"
    and "\<forall>c \<in> set cs. 0 \<le> fpc_rate_numerator_minor c \<and> 0 < fpc_rate_denominator c"
proof -
  have "rational_ok r \<and> cents_of r = sum_list (map frozen_price ([] @ cs))
    \<and> (\<forall>c \<in> set ([] @ cs). 0 \<le> fpc_rate_numerator_minor c \<and> 0 < fpc_rate_denominator c)"
  proof (rule try_fold_invariant[where I = "\<lambda>xs r. rational_ok r \<and> cents_of r = sum_list (map frozen_price xs)
        \<and> (\<forall>c \<in> set xs. 0 \<le> fpc_rate_numerator_minor c \<and> 0 < fpc_rate_denominator c)", OF _ _ assms])
    fix xs c s s'
    assume I: "rational_ok s \<and> cents_of s = sum_list (map frozen_price xs)
        \<and> (\<forall>c \<in> set xs. 0 \<le> fpc_rate_numerator_minor c \<and> 0 < fpc_rate_denominator c)"
      and s: "add_frozen s c = Inr s'"
    then show "rational_ok s' \<and> cents_of s' = sum_list (map frozen_price (xs @ [c]))
        \<and> (\<forall>c \<in> set (xs @ [c]). 0 \<le> fpc_rate_numerator_minor c \<and> 0 < fpc_rate_denominator c)"
      using add_price_ok[OF s] by (auto simp: frozen_price_def)
  qed simp
  then show "rational_ok r" "cents_of r = sum_list (map frozen_price cs)"
    "\<forall>c \<in> set cs. 0 \<le> fpc_rate_numerator_minor c \<and> 0 < fpc_rate_denominator c" by simp_all
qed

definition within_quote :: "normalized_usage \<Rightarrow> frozen_component \<Rightarrow> bool" where
  "within_quote us c \<longleftrightarrow> (\<exists>q. usage_quantity_for us (fpc_unit c) = Some q \<and> q \<le> fpc_quantity c)"

lemma usage_sum:
  assumes "try_fold (usage_price us) rational_zero cs = Inr r"
  shows "rational_ok r" and "cents_of r = sum_list (map (used_price us) cs)"
    and "\<forall>c \<in> set cs. within_quote us c"
proof -
  have "rational_ok r \<and> cents_of r = sum_list (map (used_price us) ([] @ cs))
    \<and> (\<forall>c \<in> set ([] @ cs). within_quote us c)"
  proof (rule try_fold_invariant[where I = "\<lambda>xs r. rational_ok r \<and> cents_of r = sum_list (map (used_price us) xs)
        \<and> (\<forall>c \<in> set xs. within_quote us c)", OF _ _ assms])
    fix xs c s s'
    assume I: "rational_ok s \<and> cents_of s = sum_list (map (used_price us) xs) \<and> (\<forall>c \<in> set xs. within_quote us c)"
      and s: "usage_price us s c = Inr s'"
    from s obtain q where q: "usage_quantity_for us (fpc_unit c) = Some q" "q \<le> fpc_quantity c"
      "add_price (fpc_rate_numerator_minor c) (fpc_rate_denominator c) q s = Inr s'"
      by (auto simp: usage_price_def res_simps split: if_splits)
    with I show "rational_ok s' \<and> cents_of s' = sum_list (map (used_price us) (xs @ [c]))
        \<and> (\<forall>c \<in> set (xs @ [c]). within_quote us c)"
      using add_price_ok[OF q(3)] by (auto simp: used_price_def usage_amount_def within_quote_def)
  qed simp
  then show "rational_ok r" "cents_of r = sum_list (map (used_price us) cs)"
    "\<forall>c \<in> set cs. within_quote us c" by simp_all
qed

text \<open>What a snapshot that passed its integrity check says.\<close>

lemma validated_snapshot:
  assumes "validate_integrity s = Inr ()"
  obtains exact where "exact_estimate s = Inr exact" and "rational_ok exact"
    and "cents_of exact = sum_list (map frozen_price (snap_components s))"
    and "effective_components s = Inr (snap_components s)"
    and "\<forall>c \<in> set (snap_components s). component_ok c"
    and "snap_schema_version s = 2 \<and> snap_estimated_units s = \<lceil>cents_of exact\<rceil> * 10000
         \<or> snap_schema_version s = 3 \<and> snap_estimated_units s = \<lceil>cents_of exact * 10000\<rceil>"
    and "fits_i64 (snap_estimated_units s)" and "snap_currency s = ''USD''"
proof -
  from assms obtain exact where e: "exact_estimate s = Inr exact"
    and eff: "effective_components s = Inr (snap_components s)"
    and comps: "list_all component_ok (snap_components s)"
    and ver: "snap_schema_version s = 2 \<or> snap_schema_version s = 3"
    and expected: "(if snap_schema_version s = 2
        then and_then (ceil_i64 exact) (\<lambda>minor. indeterminable (checked_mul_i64 minor UNITS_PER_MINOR))
        else to_units_ceil exact) = Inr (snap_estimated_units s)"
    and cur: "snap_currency s \<in> set SUPPORTED_CURRENCIES"
    by (auto simp: validate_integrity_def res_simps Let_def effective_components_def split: if_splits)
  from e eff have f: "try_fold add_frozen rational_zero (snap_components s) = Inr exact"
    by (auto simp: exact_estimate_def res_simps split: if_splits)
  note fs = frozen_sum[OF f]
  have pos: "rational_pos exact" using fs(1) by blast
  show thesis
  proof (rule that[OF e fs(1,2) eff])
    show "\<forall>c \<in> set (snap_components s). component_ok c" using comps by (simp add: list_all_iff)
    show "snap_schema_version s = 2 \<and> snap_estimated_units s = \<lceil>cents_of exact\<rceil> * 10000
         \<or> snap_schema_version s = 3 \<and> snap_estimated_units s = \<lceil>cents_of exact * 10000\<rceil>"
      using ver expected ceil_i64_value(1)[OF _ pos] to_units_ceil_value(1)[OF _ pos]
      by (auto simp: res_simps UNITS_PER_MINOR_def)
    show "fits_i64 (snap_estimated_units s)"
      using ver expected to_units_ceil_value(2)[OF _ pos] by (auto simp: res_simps)
    show "snap_currency s = ''USD''" using cur by (simp add: SUPPORTED_CURRENCIES_def)
  qed
qed

lemma estimate_covers:
  assumes "validate_integrity s = Inr ()"
  shows "\<lceil>sum_list (map frozen_price (snap_components s)) * 10000\<rceil> \<le> snap_estimated_units s"
proof -
  from validated_snapshot[OF assms] obtain exact where
    sum: "cents_of exact = sum_list (map frozen_price (snap_components s))"
    and e: "snap_schema_version s = 2 \<and> snap_estimated_units s = \<lceil>cents_of exact\<rceil> * 10000
         \<or> snap_schema_version s = 3 \<and> snap_estimated_units s = \<lceil>cents_of exact * 10000\<rceil>"
    by metis
  have "cents_of exact * 10000 \<le> of_int (\<lceil>cents_of exact\<rceil> * 10000)" by simp
  then have "\<lceil>cents_of exact * 10000\<rceil> \<le> \<lceil>cents_of exact\<rceil> * 10000" by (simp only: ceiling_le_iff)
  with e sum show ?thesis by auto
qed

section \<open>Settlement\<close>

definition cost_cents :: "actual_vendor_cost \<Rightarrow> rat" where
  "cost_cents c = of_int (ac_amount c) * 100 / 10 ^ ac_scale c"

lemma budget_units_ceiling:
  assumes "to_budget_units c cur = Inr u" and "fits_i64 (ac_amount c)"
  shows "u = \<lceil>cost_cents c * 10000\<rceil>"
proof -
  have "cost_cents c * 10000 = Fract (ac_amount c * 1000000) (10 ^ ac_scale c)"
    by (simp add: cost_cents_def Fract_of_int_quotient)
  then show ?thesis using to_budget_units_ok(1)[OF assms] by (simp add: ceiling_Fract)
qed

lemma catalog_cost_cents:
  assumes "rational_pos r" and "to_actual_vendor_cost r cur = Some (Inr c)"
  shows "cost_cents c = cents_of r"
proof -
  have "of_int (ac_amount c * (100 * rat_d r)) = (of_int (rat_n r * 10 ^ ac_scale c) :: rat)"
    by (simp only: to_actual_vendor_cost_exact(1)[OF assms])
  then show ?thesis
    using rational_posD[OF assms(1)] by (simp add: cost_cents_def cents_of_def Fract_of_int_quotient field_simps)
qed

lemma settle_precise_ok_cases:
  assumes "settle_precise s us provider_cost auth = Some (Inr r)"
  obtains exact where "validate_integrity s = Inr ()"
    and "try_fold (usage_price us) rational_zero (snap_components s) = Inr exact"
    and "settled_cost s provider_cost exact = Some (Inr (pst_actual_vendor_cost r))"
    and "to_budget_units (pst_actual_vendor_cost r) (snap_currency s) = Inr (pst_budget_units r)"
    and "pst_budget_units r \<le> snap_estimated_units s" and "pst_budget_units r \<le> auth"
proof -
  have eff: "effective_components s = Inr cs \<Longrightarrow> cs = snap_components s" for cs
    by (simp add: effective_components_def split: if_splits)
  from assms show thesis
    by (auto simp: settle_precise_def res_simps not_less dest!: eff split: sum.splits if_splits intro!: that)
qed

text \<open>
  C21: a settlement stays within everything that was agreed. It only succeeds on an intact snapshot and
  for usage within the frozen quantities; it charges the least number of budget units that covers the vendor's
  cost, never more than the estimate or the authorization; the cost is the one the provider reported,
  or without one exactly the frozen rates times the usage.
\<close>

theorem settlement_within_quote:
  assumes "settle_precise s us provider_cost auth = Some (Inr r)"
    and "\<And>c. provider_cost = Some c \<Longrightarrow> fits_i64 (ac_amount c)"
  shows "validate_integrity s = Inr ()
    \<and> (\<forall>c \<in> set (snap_components s). within_quote us c)
    \<and> pst_budget_units r = \<lceil>cost_cents (pst_actual_vendor_cost r) * 10000\<rceil>
    \<and> pst_budget_units r \<le> snap_estimated_units s \<and> pst_budget_units r \<le> auth
    \<and> (case provider_cost of
         Some c \<Rightarrow> pst_actual_vendor_cost r = c
       | None \<Rightarrow> cost_cents (pst_actual_vendor_cost r) = sum_list (map (used_price us) (snap_components s)))"
proof -
  from assms(1) obtain exact where e: "validate_integrity s = Inr ()"
    "try_fold (usage_price us) rational_zero (snap_components s) = Inr exact"
    "settled_cost s provider_cost exact = Some (Inr (pst_actual_vendor_cost r))"
    "to_budget_units (pst_actual_vendor_cost r) (snap_currency s) = Inr (pst_budget_units r)"
    "pst_budget_units r \<le> snap_estimated_units s" "pst_budget_units r \<le> auth"
    by (rule settle_precise_ok_cases)
  note sum = usage_sum[OF e(2)]
  have pos: "rational_pos exact" using sum(1) by blast
  have cost: "fits_i64 (ac_amount (pst_actual_vendor_cost r)) \<and> (case provider_cost of
         Some c \<Rightarrow> pst_actual_vendor_cost r = c
       | None \<Rightarrow> cost_cents (pst_actual_vendor_cost r) = sum_list (map (used_price us) (snap_components s)))"
  proof (cases provider_cost)
    case None
    with e(3) have t: "to_actual_vendor_cost exact (snap_currency s) = Some (Inr (pst_actual_vendor_cost r))"
      by (simp add: settled_cost_def)
    from catalog_cost_cents[OF pos t] to_actual_vendor_cost_exact(4)[OF pos t] show ?thesis
      using None sum(2) by simp
  next
    case (Some c)
    with e(3) have "pst_actual_vendor_cost r = c" by (auto simp: settled_cost_def res_simps split: if_splits)
    with Some assms(2) show ?thesis by simp
  qed
  with e sum(3) budget_units_ceiling[OF e(4)] show ?thesis by blast
qed

lemma settlement_total:
  "settle_precise s us provider_cost auth \<noteq> None \<and> settle_from_quote s us auth \<noteq> None"
proof -
  have precise: "settle_precise s us cost auth \<noteq> None" for cost
  proof (cases "and_then (validate_integrity s) (\<lambda>_.
           and_then (effective_components s) (try_fold (usage_price us) rational_zero))")
    case (Inr exact)
    then obtain cs where "try_fold (usage_price us) rational_zero cs = Inr exact" by (auto simp: res_simps)
    from usage_sum(1)[OF this] have "rational_pos exact" by blast
    then have "settled_cost s cost exact \<noteq> None"
      using to_actual_vendor_cost_returns by (simp add: settled_cost_def split: option.splits)
    with Inr show ?thesis by (auto simp: settle_precise_def)
  qed (simp add: settle_precise_def)
  moreover have "settle_from_quote s us auth \<noteq> None"
  proof (cases "and_then (validate_integrity s) (\<lambda>_. exact_estimate s)")
    case (Inr exact)
    then have "validate_integrity s = Inr ()" "exact_estimate s = Inr exact" by (auto simp: res_simps)
    with validated_snapshot have "rational_pos exact" by (metis Inr_inject rational_ok_pos)
    then obtain q where "to_actual_vendor_cost exact (snap_currency s) = Some q"
      using to_actual_vendor_cost_returns by fastforce
    with Inr precise show ?thesis by (auto simp: settle_from_quote_def split: sum.splits)
  qed (simp add: settle_from_quote_def)
  ultimately show ?thesis by blast
qed

text \<open>
  C25: every settlement returns. The loops that turn a price into a decimal divide by two and by five as
  long as they can, which would never end on a zero denominator; no snapshot, usage or authorization
  leads there.
\<close>

theorem settlement_returns:
  "settle_precise s us provider_cost auth \<noteq> None \<and> settle_from_quote s us auth \<noteq> None"
  by (rule settlement_total)

text \<open>Usage that stays within the frozen quantities costs no more than the estimate.\<close>

lemma used_price_le:
  assumes "component_ok c" and "within_quote us c"
  shows "used_price us c \<le> frozen_price c"
  using assms price_mono[of "fpc_rate_numerator_minor c" "fpc_rate_denominator c"]
  by (auto simp: used_price_def frozen_price_def usage_amount_def within_quote_def component_ok_def)

lemma usage_fold_no_overage:
  assumes "\<forall>c \<in> set cs. within_quote us c"
  shows "try_fold (usage_price us) r cs \<noteq> Inl SettlementOverage"
  using assms
proof (induction cs arbitrary: r)
  case (Cons c cs)
  have "add_price n d q r \<noteq> Inl SettlementOverage" for n d q
    by (auto simp: add_price_def rational_new_def rational_mul_def rational_add_def res_simps Let_def split: if_splits)
  with Cons show ?case by (auto simp: within_quote_def usage_price_def res_simps)
qed simp

lemma cost_errors [simp]:
  "validate_integrity s \<noteq> Inl SettlementOverage" "effective_components s \<noteq> Inl SettlementOverage"
  "to_budget_units c cur \<noteq> Inl SettlementOverage" "to_actual_vendor_cost r cur \<noteq> Some (Inl SettlementOverage)"
proof -
  have add: "add_price n d q r \<noteq> Inl SettlementOverage" for n d q r
    by (auto simp: add_price_def rational_new_def rational_mul_def rational_add_def res_simps Let_def split: if_splits)
  have fold: "try_fold add_frozen r cs \<noteq> Inl SettlementOverage" for r cs
    by (induction cs arbitrary: r) (auto simp: res_simps add)
  have pow: "checked_pow10 n \<noteq> Inl SettlementOverage" for n by (simp add: checked_pow10_def res_simps)
  have val: "cost_validate c \<noteq> Inl SettlementOverage" for c by (simp add: cost_validate_def)
  have new: "cost_new n s cur \<noteq> Inl SettlementOverage" for n s cur by (auto simp: cost_new_def Let_def res_simps val)
  show eff: "effective_components s \<noteq> Inl SettlementOverage" by (simp add: effective_components_def)
  have "exact_estimate s \<noteq> Inl SettlementOverage"
    using fold eff by (auto simp: exact_estimate_def res_simps split: if_splits)
  then show "validate_integrity s \<noteq> Inl SettlementOverage"
    using eff by (auto simp: validate_integrity_def Let_def res_simps ceil_i64_def to_units_ceil_def split: if_splits)
  show "to_budget_units c cur \<noteq> Inl SettlementOverage"
    using pow val by (auto simp: to_budget_units_def res_simps split: if_splits)
  show "to_actual_vendor_cost r cur \<noteq> Some (Inl SettlementOverage)"
    using pow new by (auto simp: to_actual_vendor_cost_def res_simps Let_def bind_eq_Some_conv split: sum.splits if_splits)
qed

text \<open>
  C24: the quote is enough. When the reported usage stays within the frozen quantities and the authorization
  covers the estimate, a settlement by the frozen price is never refused as an overage: the price of the usage,
  rounded up, is at most the frozen estimate. The only overage left is a cost that the provider states itself
  and that, charged in budget units, exceeds the estimate.
\<close>

theorem usage_within_quote_no_overage:
  assumes "\<forall>c \<in> set (snap_components s). within_quote us c" and "snap_estimated_units s \<le> auth"
  shows "settle_precise s us None auth \<noteq> Some (Inl SettlementOverage)
    \<and> (settle_precise s us (Some cost) auth = Some (Inl SettlementOverage) \<longrightarrow>
         (\<exists>u. to_budget_units cost (snap_currency s) = Inr u \<and> snap_estimated_units s < u))"
proof (intro conjI notI impI)
  assume over: "settle_precise s us None auth = Some (Inl SettlementOverage)"
  have eff: "effective_components s = Inr cs \<Longrightarrow> cs = snap_components s" for cs
    by (simp add: effective_components_def split: if_splits)
  from over obtain exact cost u where v: "validate_integrity s = Inr ()"
    and f: "try_fold (usage_price us) rational_zero (snap_components s) = Inr exact"
    and t: "to_actual_vendor_cost exact (snap_currency s) = Some (Inr cost)"
    and u: "to_budget_units cost (snap_currency s) = Inr u" and big: "snap_estimated_units s < u \<or> auth < u"
    using usage_fold_no_overage[OF assms(1)]
    by (auto simp: settle_precise_def settled_cost_def res_simps dest: eff split: sum.splits if_splits)
  note sum = usage_sum[OF f]
  have pos: "rational_pos exact" using sum(1) by blast
  have ok: "\<forall>c \<in> set (snap_components s). component_ok c" using v validated_snapshot by metis
  have "sum_list (map (used_price us) (snap_components s)) \<le> sum_list (map frozen_price (snap_components s))"
    using ok assms(1) by (intro sum_list_mono used_price_le) auto
  then have "u \<le> \<lceil>sum_list (map frozen_price (snap_components s)) * 10000\<rceil>"
    unfolding budget_units_ceiling[OF u to_actual_vendor_cost_exact(4)[OF pos t]]
      catalog_cost_cents[OF pos t] sum(2) by (intro ceiling_mono) simp
  with estimate_covers[OF v] assms(2) big show False by linarith
next
  have eff: "effective_components s = Inr cs \<Longrightarrow> cs = snap_components s" for cs
    by (simp add: effective_components_def split: if_splits)
  have valid: "cost_validate cost \<noteq> Inl SettlementOverage" by (auto simp: cost_validate_def split: if_splits)
  assume "settle_precise s us (Some cost) auth = Some (Inl SettlementOverage)"
  then show "\<exists>u. to_budget_units cost (snap_currency s) = Inr u \<and> snap_estimated_units s < u"
    using usage_fold_no_overage[OF assms(1)] assms(2) valid
    by (auto simp: settle_precise_def settled_cost_def res_simps dest: eff split: sum.splits if_splits)
qed

end
