(* ===== verification/Gongbu_Receipt_Steps.thy ===== *)
theory Gongbu_Receipt_Steps
  imports Gongbu_Attempt_Steps Gongbu_Pricing_Theorems
begin

text \<open>
  The start and the reopening of an attempt, the writes of artifacts and receipts, and the calls are safe steps.
\<close>

section \<open>The start of an attempt\<close>

lemma start_provider_attempt_safe:
  assumes cons: "consistent s c" and row: "row_of s x = Some e"
    and up: "start_provider_attempt new_id e ts s = Inr (a, s')"
    and valid: "ValidateClaimCall x True \<in> set c"
  shows "safe_step s c s' c \<and> (\<exists>e'. row_of s' x = Some e' \<and> ex_status e' = ''executing'')"
proof -
  note t = consistentD(1)[OF cons]
  have id: "ex_execution_id e = x" by (rule row_id[OF t row])
  have get: "hm_get (st_executions s) x = Some e" using row by (simp add: row_of_def)
  let ?a = "started_attempt new_id e ts"
  let ?e = "e\<lparr>ex_status := ''executing'', ex_started_at := coalesce (ex_started_at e) (Some ts),
      ex_updated_at := ts, ex_version := ex_version e + 1\<rparr>"
  have a_id: "pa_provider_attempt_id ?a = new_id" "pa_execution_id ?a = x"
    "\<not> completed ?a" "\<not> transmitted ?a" "\<not> checkpointed ?a" "pa_outcome ?a = ''started''"
    by (simp_all add: started_attempt_def id completed_def transmitted_def checkpointed_def)
  from up have st: "ex_status e = ''claimed''"
    and free: "\<not> list_ex (\<lambda>a. pa_execution_id a = x) (hm_values (st_attempts s))"
    "\<not> hm_contains (st_attempts s) new_id"
    and s': "s' = put_execution ?e (put_attempt ?a s)"
    unfolding start_provider_attempt_def id get option.case
    by (auto simp: res_simps update_where_Inr row_of_def get split: if_split_asm)
  note lo = consistentD(2)[OF cons row]
  have none: "attempt_of s x = None" "receipt_of s x = None" and norel: "\<And>b. ReleaseCall x b \<notin> set c"
    using lifecycle_attempt_free[OF lo] st by simp_all
  have keep: "keeps_owner pa_provider_attempt_id pa_execution_id (st_attempts s) ?a"
    using free keyed_values[OF tables_okD(2)[OF t]] t
    by (fastforce simp: keeps_owner_def a_id list_ex_iff hm_contains_def tables_ok_def keyed_table_def)
  note view = put_attempt_view[OF t keep]
  have sub: "submissions x c = []" "\<And>i. PollCall x i \<notin> set c" "ex_hubu_claim_id e \<noteq> None"
    "ClaimCall x True \<in> set c" "\<And>i u b. SettleCall x i u b \<notin> set c"
    using lo none st by (auto simp: lifecycle_ok_def attempt_and_receipt_ok_def claim_ok_def accounting_ok_def)
  have ok: "lifecycle_ok x ?e (Some ?a) None n c" for n
    using sub norel valid a_id
    by (simp add: lifecycle_ok_def attempt_and_receipt_ok_def claim_ok_def accounting_ok_def attempt_ok_def)
  have "consistent s' c \<and> evolves s c s' c" unfolding s'
    by (rule consistent_change_one[OF cons, where x = x and e = ?e])
      (use view none row id a_id ok in \<open>auto simp: evolves_at_def option_evolves_def row_evolves_def
        same_authorization_def st final_terminal_def\<close>)
  then show ?thesis using id by (simp add: safe_step_def s')
qed

section \<open>Reopening\<close>

lemma begin_provider_reconciliation_poll_safe:
  assumes cons: "consistent s c" and up: "begin_provider_reconciliation_poll ms x i expected ts s = Inr (e', s')"
  shows "safe_step s c s' c \<and> (\<exists>e. row_of s' x = Some e \<and> ex_status e = ''executing'')"
proof -
  let ?open = "\<lambda>a. a\<lparr>pa_outcome := ''started'', pa_completed_at := None, pa_failure_code := None,
              pa_failure_message_redacted := None\<rparr>"
  let ?p = "\<lambda>e. ex_version e = expected \<and> ex_status e = ''reconciliation_required''"
  let ?f = "\<lambda>e. e\<lparr>ex_status := ''executing'', ex_outcome := None, ex_failure_code := None,
              ex_failure_message_redacted := None, ex_completed_at := None, ex_updated_at := ts\<rparr>"
  from up obtain a m where get: "hm_get (st_attempts s) i = Some a" and re: "reopens x m a"
    and row: "update_where x ?p ?f (put_attempt (?open a) s) = Inr (e', s')"
    by (auto simp: begin_provider_reconciliation_poll_def res_simps update_attempt_Inr)
  have at: "attempt_of s x = Some a"
    using stored_attempt(1)[OF consistentD(1)[OF cons] get] re by (simp add: reopens_def)
  have flags: "pa_outcome a = ''ambiguous''" "completed a" "checkpointed a"
    using re by (simp_all add: reopens_def completed_def checkpointed_def)
  obtain e0 where e0: "row_of s x = Some e0" using consistentD(3)[OF cons at] by blast
  have aok: "attempt_ok x a c" using lifecycle_attemptD(1) consistentD(2)[OF cons e0] at by simp
  have tr: "transmitted a" using aok flags(2) by (auto simp: attempt_ok_def)
  have "attempt_step_ok s x c a (?open a)"
    using flags tr by (simp add: attempt_step_ok_def attempt_flags release_justified_def)
  note one = put_attempt_safe[OF cons at this]
  have cons1: "consistent (put_attempt (?open a) s) c" using one(1) by (simp add: safe_step_def)
  note w = update_where_safe[OF cons1 row]
  have new: "same_authorization e e'' \<and> \<not> final_terminal (ex_status e)
      \<and> lifecycle_ok x e'' (attempt_of (put_attempt (?open a) s) x) (receipt_of (put_attempt (?open a) s) x)
          (images_of (put_attempt (?open a) s) x) c"
    if p: "?p e" and lo: "lifecycle_ok x e (attempt_of (put_attempt (?open a) s) x)
        (receipt_of (put_attempt (?open a) s) x) (images_of (put_attempt (?open a) s) x) c"
      and e'': "e'' = (?f e)\<lparr>ex_version := ex_version e + 1\<rparr>" for e e''
  proof -
    have at1: "attempt_of (put_attempt (?open a) s) x = Some (?open a)" using one(2) by simp
    have "\<not> release_justified e (Some (?open a))"
      using tr by (simp add: release_justified_def failed_attempt_def transmitted_def completed_def)
    then have "lifecycle_ok x e'' (attempt_of (put_attempt (?open a) s) x)
        (receipt_of (put_attempt (?open a) s) x) (images_of (put_attempt (?open a) s) x) c"
      using lifecycle_attemptD(3)[OF lo[unfolded at1]] e'' at1
      by (intro lifecycle_status_change[OF lo, where t = "''executing''"]) (simp_all add: status_change_def)
    then show ?thesis using p e'' by (simp add: same_authorization_def final_terminal_def)
  qed
  have "safe_step (put_attempt (?open a) s) c s' c" "row_of s' x = Some e'" by (rule w(1,2); rule new; simp)+
  moreover have "ex_status e' = ''executing''" using row by (auto simp: update_where_Inr)
  ultimately show ?thesis using safe_step_trans[OF one(1)] by blast
qed

section \<open>Artifacts\<close>

lemma lifecycle_images_mono:
  "lifecycle_ok x e attempt receipt n c \<Longrightarrow> n \<le> m \<Longrightarrow> lifecycle_ok x e attempt receipt m c"
  by (auto simp: lifecycle_ok_def attempt_and_receipt_ok_def split: option.splits)

lemma create_artifact_Inr:
  assumes "create_artifact_with_limit secret json_text n limit s = Inr (r, s')"
  shows "\<not> hm_contains (st_artifacts s) (art_artifact_id n)"
    and "s' = s\<lparr>st_artifacts := hm_insert (art_artifact_id n) n (st_artifacts s)\<rparr>" and "r = n"
  using assms unfolding create_artifact_with_limit_def and_then_eq_Inr_iff
  by (auto simp: res_simps split: if_split_asm)

lemma create_artifact_safe:
  assumes cons: "consistent s c" and up: "create_artifact_with_limit secret json_text n limit s = Inr (r, s')"
  shows "safe_step s c s' c" and "row_of s' y = row_of s y" and "attempt_of s' y = attempt_of s y"
    and "receipt_of s' y = receipt_of s y" and "st_staged s' = st_staged s"
proof -
  note s' = create_artifact_Inr[OF up]
  have same: "st_executions s' = st_executions s" "st_attempts s' = st_attempts s" "st_receipts s' = st_receipts s"
    using s'(2) by simp_all
  note view = view_cong[OF same]
  have count: "count_artifacts p s \<le> count_artifacts p s'" for p
    using s'(1) hm_values_insert_append[of "st_artifacts s" "art_artifact_id n" n]
    by (simp add: s'(2) count_artifacts_def hm_contains_def)
  then have "images_of s x \<le> images_of s' x" for x
    using view(3)[of x] by (simp add: images_of_def split: option.splits)
  then have "consistent_at s c x \<Longrightarrow> consistent_at s' c x" for x
    using view(2-4)[of x] lifecycle_images_mono[of x _ "attempt_of s x" "receipt_of s x" "images_of s x" c "images_of s' x"]
    by (cases "row_of s x") (simp_all add: consistent_at_def)
  then have "consistent_at s' c x" for x using cons by (simp add: consistent_def)
  then show "safe_step s c s' c"
    using cons view by (simp add: safe_step_def consistent_def evolves_def evolves_at_def option_evolves_def)
  show "row_of s' y = row_of s y" "attempt_of s' y = attempt_of s y" "receipt_of s' y = receipt_of s y"
    using view by simp_all
  show "st_staged s' = st_staged s" using s'(2) by simp
qed

section \<open>Receipts\<close>

lemma create_receipt_Inr:
  assumes "create_receipt secret n s = Some (Inr (r, s'))"
  obtains a e snapshot usage st where
    "hm_get (st_attempts s) (crp_provider_attempt_id n) = Some a" "pa_execution_id a = crp_execution_id n"
    "succeeded_attempt a" "row_of s (crp_execution_id n) = Some e" "ex_pricing_snapshot e = Some snapshot"
    "pa_usage a = Some usage" "attempt_settlement snapshot a usage (ex_authorized_units e) = Some (Inr st)"
    "pst_budget_units st = crp_settlement_units n" "r = new_receipt n a snapshot" "s' = put_receipt r s"
    "receipt_constraints n (rcp_provider_request_id r) s = Inr ()"
proof -
  from assms obtain a e snapshot usage expected where
    at: "receipt_attempt n s = Inr a" "get_execution (crp_execution_id n) s = Inr e" "receipt_snapshot n e = Inr snapshot"
    "pa_usage a = Some usage"
    and ex: "expected_settlement snapshot a usage (ex_authorized_units e) = Some expected"
    and out: "and_then expected (\<lambda>expected.
            if pst_budget_units expected \<noteq> crp_settlement_units n
               \<or> pst_actual_vendor_cost expected \<noteq> crp_actual_vendor_cost n
               \<or> \<not> eq_ignore_ascii_case (crp_currency n) (ex_authorization_currency e)
               \<or> \<not> eq_ignore_ascii_case (crp_currency n) (snap_currency snapshot)
            then Inl OverAuthorization
            else let r = new_receipt n a snapshot in
              and_then (receipt_constraints n (rcp_provider_request_id r) s) (\<lambda>_. Inr (r, put_receipt r s)))
      = Inr (r, s')"
    unfolding create_receipt_def
    by (auto simp: res_simps split: sum.split_asm prod.split_asm if_split_asm)
  from at(1) have a: "hm_get (st_attempts s) (crp_provider_attempt_id n) = Some a"
    "pa_execution_id a = crp_execution_id n" "succeeded_attempt a"
    by (auto simp: receipt_attempt_def get_provider_attempt_def res_simps succeeded_attempt_def completed_def
        split: if_split_asm)
  have e: "row_of s (crp_execution_id n) = Some e" using at(2) by (simp add: get_execution_def row_of_def res_simps)
  have sn: "ex_pricing_snapshot e = Some snapshot" using at(3)
    by (auto simp: receipt_snapshot_def res_simps split: if_split_asm)
  from out obtain st where st: "expected = Inr st" "pst_budget_units st = crp_settlement_units n"
    "r = new_receipt n a snapshot" "s' = put_receipt r s" "receipt_constraints n (rcp_provider_request_id r) s = Inr ()"
    by (auto simp: res_simps Let_def split: if_split_asm)
  have "attempt_settlement snapshot a usage (ex_authorized_units e) = Some (Inr st)"
    using ex st(1) by (auto simp: expected_settlement_def attempt_settlement_def res_simps split: if_split_asm)
  then show ?thesis using that a e sn at(4) st(2-) by blast
qed

lemma create_receipt_returns: "create_receipt secret n s \<noteq> None"
  using settlement_total
  by (auto simp: create_receipt_def expected_settlement_def split: sum.splits)

lemma create_receipt_safe:
  assumes cons: "consistent s c" and up: "create_receipt secret n s = Some (Inr (r, s'))"
    and n: "crp_execution_id n = x" "crp_settled_at n = None"
    and row: "row_of s x = Some e" "ex_status e = ''settling''"
  shows "safe_step s c s' c" and "receipt_of s' x = Some r" and "row_of s' x = Some e"
    and "attempt_of s' x = attempt_of s x"
proof -
  note t = consistentD(1)[OF cons]
  from up obtain a e' snapshot usage st where
    a: "hm_get (st_attempts s) (crp_provider_attempt_id n) = Some a" "pa_execution_id a = crp_execution_id n"
    "succeeded_attempt a" "row_of s (crp_execution_id n) = Some e'" "ex_pricing_snapshot e' = Some snapshot"
    "pa_usage a = Some usage" "attempt_settlement snapshot a usage (ex_authorized_units e') = Some (Inr st)"
    "pst_budget_units st = crp_settlement_units n" and r: "r = new_receipt n a snapshot" "s' = put_receipt r s"
    and con: "receipt_constraints n (rcp_provider_request_id r) s = Inr ()"
    by (rule create_receipt_Inr)
  have e': "e' = e" using a(4) row n by simp
  have at: "attempt_of s x = Some a" using stored_attempt(1)[OF t a(1)] a(2) n by simp
  have rx: "rcp_execution_id r = x" "rcp_receipt_id r = crp_receipt_id n" "rcp_settled_at r = None"
    "rcp_settlement_units r = crp_settlement_units n" "rcp_provider_attempt_id r = crp_provider_attempt_id n"
    using n r by (simp_all add: new_receipt_def)
  have free: "\<not> hm_contains (st_receipts s) (rcp_receipt_id r)"
    "\<not> list_ex (\<lambda>q. rcp_execution_id q = x) (hm_values (st_receipts s))"
    using con n rx by (auto simp: receipt_constraints_def list_ex_iff split: if_split_asm)
  have keep: "keeps_owner rcp_receipt_id rcp_execution_id (st_receipts s) r"
    using free keyed_values[OF tables_okD(4)[OF t]] t
    by (fastforce simp: keeps_owner_def rx(1) list_ex_iff hm_contains_def tables_ok_def keyed_table_def)
  have none: "receipt_of s x = None"
    using free(2) by (auto simp: receipt_of_def find_None_iff list_ex_iff)
  note lo = consistentD(2)[OF cons row(1), unfolded at none]
  have "pa_provider_attempt_id a = crp_provider_attempt_id n" using stored_attempt(2)[OF t a(1)] .
  then have "receipt_ok x e a r c" using a(3,5-8) rx e' by (auto simp: receipt_ok_def receipt_priced_def)
  then have "lifecycle_ok x e (Some a) (Some r) (images_of s x) c"
    using lo row(2) by (simp add: lifecycle_ok_def attempt_and_receipt_ok_def accounting_ok_def)
  then have "consistent s' c \<and> evolves s c s' c" and "receipt_of s' x = Some r"
    using consistent_put_receipt[OF cons keep rx(1) row(1)] at none r(2) by simp_all
  then show "safe_step s c s' c" and "receipt_of s' x = Some r" by (simp_all add: safe_step_def)
  show "row_of s' x = Some e" "attempt_of s' x = attempt_of s x" using r(2) row by simp_all
qed

lemma receipt_evolvesD:
  assumes "receipt_evolves r r'"
  shows "rcp_receipt_id r' = rcp_receipt_id r" "rcp_execution_id r' = rcp_execution_id r"
    "rcp_settlement_units r' = rcp_settlement_units r" "rcp_provider_attempt_id r' = rcp_provider_attempt_id r"
    "rcp_settled_at r \<noteq> None \<Longrightarrow> rcp_settled_at r' \<noteq> None"
  using assms by (auto simp: receipt_evolves_def)

lemma lifecycle_receipt_change:
  assumes ok: "lifecycle_ok x e attempt (Some r) n c" and ev: "receipt_evolves r r'"
    and "rcp_settled_at r' \<noteq> None \<Longrightarrow> SettleCall x (rcp_receipt_id r) (rcp_settlement_units r) True \<in> set c"
  shows "lifecycle_ok x e attempt (Some r') n c"
proof (cases attempt)
  case None
  then show ?thesis using ok by (simp add: lifecycle_ok_def attempt_and_receipt_ok_def)
next
  case (Some a)
  note same = receipt_evolvesD[OF ev]
  have "receipt_ok x e a r' c"
    using ok Some assms(3) same
    by (simp add: lifecycle_ok_def attempt_and_receipt_ok_def receipt_ok_def receipt_priced_def)
  then have "attempt_and_receipt_ok x e attempt (Some r') n c"
    using ok Some by (simp add: lifecycle_ok_def attempt_and_receipt_ok_def)
  moreover have "accounting_ok x e attempt (Some r') c"
    using ok same by (auto simp: lifecycle_ok_def accounting_ok_def)
  ultimately show ?thesis using ok by (simp add: lifecycle_ok_def)
qed

lemma update_receipt_safe:
  assumes cons: "consistent s c" and r: "receipt_of s x = Some r"
    and up: "update_receipt (rcp_receipt_id r) p f s = Inr (u, s')"
    and ev: "p r \<Longrightarrow> receipt_evolves r (f r)"
    and settled: "p r \<Longrightarrow> rcp_settled_at (f r) \<noteq> None \<Longrightarrow>
      SettleCall x (rcp_receipt_id r) (rcp_settlement_units r) True \<in> set c"
  shows "safe_step s c s' c" and "receipt_of s' x = Some (f r)" and "row_of s' y = row_of s y"
    and "attempt_of s' y = attempt_of s y"
proof -
  note t = consistentD(1)[OF cons]
  have get: "hm_get (st_receipts s) (rcp_receipt_id r) = Some r" "rcp_execution_id r = x"
    using r receipt_of_iff[OF t] by auto
  from up have p: "p r" and s': "s' = put_receipt (f r) s"
    by (auto simp: update_receipt_def get split: if_split_asm)
  note same = receipt_evolvesD[OF ev[OF p]]
  have keep: "keeps_owner rcp_receipt_id rcp_execution_id (st_receipts s) (f r)"
    unfolding keeps_owner_def
  proof (intro allI impI)
    fix k q assume q: "hm_get (st_receipts s) k = Some q"
    show "(k = rcp_receipt_id (f r)) = (rcp_execution_id q = rcp_execution_id (f r))"
      unfolding same(1,2)
    proof
      assume "k = rcp_receipt_id r"
      then show "rcp_execution_id q = rcp_execution_id r" using q get(1) by simp
    next
      assume "rcp_execution_id q = rcp_execution_id r"
      then show "k = rcp_receipt_id r" by (rule tables_okD(5)[OF t, unfolded owned_once_def, rule_format, OF q get(1)])
    qed
  qed
  obtain e where e: "row_of s x = Some e" using consistentD(4)[OF cons r] by blast
  have "lifecycle_ok x e (attempt_of s x) (Some (f r)) (images_of s x) c"
    by (rule lifecycle_receipt_change[OF consistentD(2)[OF cons e, unfolded r] ev[OF p] settled[OF p]])
  then show "safe_step s c s' c" and "receipt_of s' x = Some (f r)"
    using consistent_put_receipt[OF cons keep _ e] same get(2) r ev[OF p] by (simp_all add: safe_step_def s')
  show "row_of s' y = row_of s y" "attempt_of s' y = attempt_of s y" using s' by simp_all
qed

lemma begin_settlement_transmission_safe:
  assumes "consistent s c" and "receipt_of s x = Some r"
    and "begin_settlement_transmission (rcp_receipt_id r) ts s = Inr (u, s')"
  shows "safe_step s c s' c" and "receipt_of s' x = Some (r\<lparr>rcp_transmission_started_at := Some ts\<rparr>)"
    and "row_of s' y = row_of s y" and "attempt_of s' y = attempt_of s y" and "rcp_settled_at r = None"
proof -
  note safe = update_receipt_safe[OF assms(1,2) assms(3)[unfolded begin_settlement_transmission_def]]
  have ev: "receipt_evolves r (r\<lparr>rcp_transmission_started_at := Some ts\<rparr>)"
    if "rcp_transmission_started_at r = None \<and> rcp_settled_at r = None"
    unfolding receipt_evolves_def using that
    by (intro conjI exI[of _ "Some ts"] exI[of _ "rcp_settled_at r"] exI[of _ "rcp_hubu_settlement_id r"]) simp_all
  show "safe_step s c s' c" and "receipt_of s' x = Some (r\<lparr>rcp_transmission_started_at := Some ts\<rparr>)"
    and "row_of s' y = row_of s y" and "attempt_of s' y = attempt_of s y"
    by (rule safe(1-4); simp add: ev)+
  show "rcp_settled_at r = None"
    using assms(2,3) consistentD(1)[OF assms(1)]
    by (auto simp: begin_settlement_transmission_def update_receipt_def receipt_of_iff split: if_split_asm)
qed

lemma complete_receipt_safe:
  assumes cons: "consistent s c" and r: "receipt_of s x = Some r"
    and up: "complete_receipt (rcp_receipt_id r) settlement ts s = Inr (u, s')"
    and paid: "SettleCall x (rcp_receipt_id r) (rcp_settlement_units r) True \<in> set c"
  shows "safe_step s c s' c" and "\<exists>r'. receipt_of s' x = Some r' \<and> rcp_settled_at r' \<noteq> None"
    and "row_of s' y = row_of s y" and "attempt_of s' y = attempt_of s y"
proof -
  let ?r = "r\<lparr>rcp_settled_at := Some ts, rcp_hubu_settlement_id := Some settlement\<rparr>"
  from up have "update_receipt (rcp_receipt_id r) (\<lambda>r. rcp_settled_at r = None)
      (\<lambda>r. r\<lparr>rcp_settled_at := Some ts, rcp_hubu_settlement_id := Some settlement\<rparr>) s = Inr ((), s')"
    by (auto simp: complete_receipt_def res_simps split: if_split_asm)
  note safe = update_receipt_safe[OF cons r this]
  have ev: "receipt_evolves r ?r" if "rcp_settled_at r = None"
    unfolding receipt_evolves_def using that
    by (intro conjI exI[of _ "rcp_transmission_started_at r"] exI[of _ "Some ts"] exI[of _ "Some settlement"]) simp_all
  show "safe_step s c s' c" and "row_of s' y = row_of s y" and "attempt_of s' y = attempt_of s y"
    by (rule safe(1,3,4); simp add: ev paid)+
  have "receipt_of s' x = Some ?r" by (rule safe(2); simp add: ev paid)
  then show "\<exists>r'. receipt_of s' x = Some r' \<and> rcp_settled_at r' \<noteq> None" by simp
qed

section \<open>Calls\<close>

lemma call_about_iff [simp]:
  "call_about y (ClaimCall x b) \<longleftrightarrow> y = x" "call_about y (ValidateClaimCall x b) \<longleftrightarrow> y = x"
  "call_about y (SettleCall x i u b) \<longleftrightarrow> y = x" "call_about y (ReleaseCall x b) \<longleftrightarrow> y = x"
  "call_about y (SubmitCall x i) \<longleftrightarrow> y = x" "call_about y (PollCall x i) \<longleftrightarrow> y = x"
  "\<not> call_about y (WriteFileCall x k b)" "\<not> call_about y (RemoveFileCall k)"
  by (auto simp: call_about_def)

lemma submissions_snoc [simp]:
  "submissions x (c @ [k]) = submissions x c @ (if submission_of x k then [k] else [])"
  by (simp add: submissions_def)

lemma submission_of_iff [simp]:
  "\<not> submission_of y (ClaimCall x b)" "\<not> submission_of y (ValidateClaimCall x b)"
  "\<not> submission_of y (SettleCall x i u b)" "\<not> submission_of y (ReleaseCall x b)"
  "submission_of y (SubmitCall x i) \<longleftrightarrow> x = y" "\<not> submission_of y (PollCall x i)"
  "\<not> submission_of y (WriteFileCall x k b)" "\<not> submission_of y (RemoveFileCall k)"
  by (simp_all add: submission_of_def)

lemma call_safe:
  assumes "consistent s c" and "row_of s x = Some e" and "\<And>y. call_about y k \<Longrightarrow> y = x"
    and "lifecycle_ok x e (attempt_of s x) (receipt_of s x) (images_of s x) c \<Longrightarrow>
      lifecycle_ok x e (attempt_of s x) (receipt_of s x) (images_of s x) (c @ [k])"
  shows "safe_step s c s (c @ [k])"
  unfolding safe_step_def
  by (rule consistent_call[OF assms(1)]) (use assms consistentD(2)[OF assms(1,2)] in blast)

lemma file_call_safe:
  assumes "consistent s c"
  shows "safe_step s c s (c @ [WriteFileCall x k b])" and "safe_step s c s (c @ [RemoveFileCall k])"
  unfolding safe_step_def by (rule consistent_call[OF assms]; simp)+

lemma claim_call_safe:
  assumes "consistent s c" and "row_of s x = Some e"
  shows "safe_step s c s (c @ [ClaimCall x b])" and "safe_step s c s (c @ [ValidateClaimCall x b])"
  by (rule call_safe[OF assms]; auto simp: lifecycle_ok_def claim_ok_def attempt_and_receipt_ok_def attempt_ok_def
      receipt_ok_def accounting_ok_def split: option.splits)+

lemma settle_call_safe:
  assumes "consistent s c" and "row_of s x = Some e" and "receipt_of s x = Some r"
    and "rcp_receipt_id r = i" and "rcp_settlement_units r = u"
  shows "safe_step s c s (c @ [SettleCall x i u b])"
  using assms(3-5)
  by (intro call_safe[OF assms(1,2)]) (auto simp: lifecycle_ok_def claim_ok_def attempt_and_receipt_ok_def attempt_ok_def
      receipt_ok_def accounting_ok_def split: option.splits)

lemma release_call_safe:
  assumes "consistent s c" and "row_of s x = Some e" and "release_justified e (attempt_of s x)"
    and "ex_hubu_claim_id e \<noteq> None"
  shows "safe_step s c s (c @ [ReleaseCall x b])"
  using assms(3,4)
  by (intro call_safe[OF assms(1,2)]) (auto simp: lifecycle_ok_def claim_ok_def attempt_and_receipt_ok_def attempt_ok_def
      receipt_ok_def accounting_ok_def split: option.splits)

lemma submit_call_safe:
  assumes "consistent s c" and "row_of s x = Some e" and "attempt_of s x = Some a"
    and "pa_provider_attempt_id a = i" and "transmitted a" and "submissions x c = []"
  shows "safe_step s c s (c @ [SubmitCall x i])"
  using assms(3-6)
  by (intro call_safe[OF assms(1,2)]) (auto simp: lifecycle_ok_def claim_ok_def attempt_and_receipt_ok_def attempt_ok_def
      receipt_ok_def accounting_ok_def)

lemma poll_call_safe:
  assumes "consistent s c" and "row_of s x = Some e" and "attempt_of s x = Some a"
    and "pa_provider_attempt_id a = i" and "checkpointed a"
  shows "safe_step s c s (c @ [PollCall x i])"
  using assms(3-5)
  by (intro call_safe[OF assms(1,2)]) (auto simp: lifecycle_ok_def claim_ok_def attempt_and_receipt_ok_def attempt_ok_def
      receipt_ok_def accounting_ok_def)

end
