(* ===== verification/Gongbu_Phases.thy ===== *)
theory Gongbu_Phases
  imports Gongbu_Receipt_Steps
begin

text \<open>
  Every phase up to the end of provider work returns, keeps consistency at each durable point and takes the
  execution forward.
\<close>

section \<open>Reading rows\<close>

lemma get_execution_iff: "get_execution i s = Inr e \<longleftrightarrow> row_of s i = Some e"
  by (simp add: get_execution_def row_of_def res_simps)

lemma get_attempt_iff: "get_provider_attempt_for_execution i s = Inr a \<longleftrightarrow> attempt_of s i = Some a"
  by (simp add: get_provider_attempt_for_execution_def res_simps)

lemma achieves_with_row:
  assumes "\<And>e. ex_execution_id e = i \<Longrightarrow> achieves (\<lambda>s c. P s c \<and> row_of s i = Some e) (f e) Q"
  shows "achieves P (flow_bind (query (get_execution i)) f) Q"
proof (rule achieves_bind[OF achieves_query])
  fix e
  show "achieves (\<lambda>s c. P s c \<and> get_execution i s = Inr e) (f e) Q"
  proof (rule achieves_assume[where F = "ex_execution_id e = i"])
    show "ex_execution_id e = i" if "consistent s c" "P s c \<and> get_execution i s = Inr e" for s c
      using row_id[OF consistentD(1)[OF that(1)]] that(2) by (simp add: get_execution_iff)
  qed (rule assms[simplified get_execution_iff[symmetric]])
qed

lemma achieves_with_attempt:
  assumes "\<And>a. achieves (\<lambda>s c. P s c \<and> attempt_of s i = Some a) (f a) Q"
  shows "achieves P (flow_bind (query (get_provider_attempt_for_execution i)) f) Q"
  by (rule achieves_bind[OF achieves_query]) (use assms in \<open>simp add: get_attempt_iff\<close>)

lemma achieves_read_row: "achieves P (query (get_execution i)) (\<lambda>e s c. P s c \<and> row_of s i = Some e)"
  using achieves_query[of P "get_execution i"] by (simp add: get_execution_iff)

text \<open>A phase that starts by reading a row fails without a write when there is none.\<close>

lemma achieves_any_row:
  assumes m: "m = flow_bind (query (get_execution i)) f"
    and some: "\<And>e. achieves (\<lambda>s c. row_of s i = Some e) m Q"
  shows "achieves (\<lambda>s c. True) m Q"
proof (rule achievesI)
  fix w :: world
  assume c: "consistent (wd_store w) (wd_calls w)"
  show "\<exists>r w' new. m w = Some (r, w') \<and> wd_trail w' = wd_trail w @ new
      \<and> (\<forall>t \<in> set new. sound_from w t) \<and> sound_from w (wd_store w', wd_calls w')
      \<and> (\<forall>x. r = Inr x \<longrightarrow> Q x (wd_store w') (wd_calls w'))"
  proof (cases "row_of (wd_store w) i")
    case None
    then have "m w = Some (Inl RowNotFound, w)"
      by (simp add: m flow_bind_def query_def get_execution_def row_of_def)
    then show ?thesis using sound_from_refl[OF c] by auto
  next
    case (Some e)
    then show ?thesis using some[of e] c unfolding achieves_def by blast
  qed
qed

section \<open>Progress of the status\<close>

definition status_rank :: "string \<Rightarrow> nat" where
  "status_rank st =
     (if st = ''pending'' then 0 else if st = ''preflighting'' then 1 else if st = ''claimed'' then 2
      else if st = ''executing'' then 3 else if st = ''settling'' then 4 else 5)"

definition reaches :: "string \<Rightarrow> (string \<Rightarrow> bool) \<Rightarrow> assertion" where
  "reaches i p s c \<longleftrightarrow> (\<exists>e. row_of s i = Some e \<and> p (ex_status e))"

lemma reaches_mono: "reaches i p s c \<Longrightarrow> (\<And>st. p st \<Longrightarrow> q st) \<Longrightarrow> reaches i q s c"
  by (auto simp: reaches_def)

lemma reachesI: "row_of s i = Some e \<Longrightarrow> p (ex_status e) \<Longrightarrow> reaches i p s c"
  by (auto simp: reaches_def)

lemma achieves_transition:
  assumes "ex_execution_id e = i" and "\<And>s c. consistent s c \<Longrightarrow> P s c \<Longrightarrow> target_ok i status s c"
  shows "achieves P (transition env e status outcome now p a st)
    (\<lambda>e' s c. row_of s i = Some e' \<and> ex_status e' = status)"
  unfolding transition_def
proof (rule achieves_bind)
  show "achieves P (commit (update_execution (env_secrets env) (ex_execution_id e) (ex_version e)
       (workflow_update status outcome now p a st) now)) (\<lambda>e' s c. row_of s i = Some e' \<and> ex_status e' = status)"
  proof (rule achieves_commit)
    fix s c e' s'
    assume "consistent s c" "P s c" and up: "update_execution (env_secrets env) (ex_execution_id e) (ex_version e)
       (workflow_update status outcome now p a st) now s = Inr (e', s')"
    have "eu_status (workflow_update status outcome now p a st) = status" by (simp add: workflow_update_def)
    then show "safe_step s c s' c \<and> row_of s' i = Some e' \<and> ex_status e' = status"
      using update_execution_safe[OF \<open>consistent s c\<close> up[unfolded assms(1)]] assms(2)[OF \<open>consistent s c\<close> \<open>P s c\<close>] by simp
  qed
next
  fix e'
  let ?P = "\<lambda>s c. row_of s i = Some e' \<and> ex_status e' = status"
  show "achieves ?P (if status = ''reconciliation_required''
     then flow_bind (commit (record_reconciliation (env_evidence_rejected env) e' (ex_status e) now))
            (\<lambda>_. flow_return e') else flow_return e') (\<lambda>e' s c. row_of s i = Some e' \<and> ex_status e' = status)"
  proof (rule achieves_if)
    have "achieves ?P (commit (record_reconciliation (env_evidence_rejected env) e' (ex_status e) now)) (\<lambda>_. ?P)"
      by (rule achieves_commit) (simp add: safe_step_beside[OF _ record_reconciliation_beside])
    then show "achieves ?P (flow_bind (commit (record_reconciliation (env_evidence_rejected env) e' (ex_status e) now))
            (\<lambda>_. flow_return e')) (\<lambda>e' s c. row_of s i = Some e' \<and> ex_status e' = status)"
      by (rule achieves_bind) (rule achieves_return)
  qed (rule achieves_return)
qed

lemma target_hold [simp]: "target_ok i ''reconciliation_required'' s c"
  by (simp add: target_ok_def)

lemma target_before_claim [simp]: "target_ok i ''failed'' s c" "target_ok i ''preflighting'' s c"
  by (simp_all add: target_ok_def)

lemma achieves_hold:
  assumes "ex_execution_id e = i"
  shows "achieves P (hold env e code now p a st)
    (\<lambda>e' s c. row_of s i = Some e' \<and> ex_status e' = ''reconciliation_required'')"
  unfolding hold_def by (rule achieves_transition[OF assms]) simp

section \<open>Before provider work\<close>

text \<open>The assertion that fixes the row.\<close>

definition at_row :: "string \<Rightarrow> execution \<Rightarrow> assertion" where
  "at_row i e s c \<longleftrightarrow> row_of s i = Some e"

definition at_status :: "string \<Rightarrow> string set \<Rightarrow> execution \<Rightarrow> assertion" where
  "at_status i ts e s c \<longleftrightarrow> row_of s i = Some e \<and> ex_status e \<in> ts"

lemma achieves_to_status:
  assumes "ex_execution_id e = i" and "\<And>s c. consistent s c \<Longrightarrow> P s c \<Longrightarrow> target_ok i status s c" and "status \<in> ts"
  shows "achieves P (transition env e status outcome now p a st) (at_status i ts)"
  by (rule achieves_post[OF achieves_transition[OF assms(1,2)]]) (use assms(3) in \<open>auto simp: at_status_def\<close>)

lemma achieves_hold_status:
  assumes "ex_execution_id e = i" and "''reconciliation_required'' \<in> ts"
  shows "achieves P (hold env e code now p a st) (at_status i ts)"
  unfolding hold_def by (rule achieves_to_status[OF assms(1) _ assms(2)]) simp

lemma at_status_id: "consistent s c \<Longrightarrow> at_status i ts e s c \<Longrightarrow> ex_execution_id e = i"
  by (auto simp: at_status_def dest: row_id[OF consistentD(1)])

lemma achieves_read_status:
  "(\<And>s c. P s c \<Longrightarrow> \<exists>e. at_status i ts e s c) \<Longrightarrow> achieves P (query (get_execution i)) (at_status i ts)"
  by (rule achieves_post[OF achieves_read_row]) (fastforce simp: at_status_def)

lemma preflight_checked_achieves:
  assumes "''failed'' \<in> ts"
  shows "achieves (at_status i ts e) (preflight_checked env e now) (at_status i ts)"
proof (rule achieves_assume[OF at_status_id], assumption, assumption)
  assume "ex_execution_id e = i"
  from achieves_to_status[OF this _ assms]
  show "achieves (at_status i ts e) (preflight_checked env e now) (at_status i ts)"
    by (auto simp: preflight_checked_def fail_before_claim_def intro!: achieves_return split: sum.splits)
qed

lemma preflight_phase_achieves:
  assumes "ex_status e0 = ''pending'' \<Longrightarrow> ts = {''preflighting'', ''failed''}"
    and "ex_status e0 \<noteq> ''pending'' \<Longrightarrow> ts = UNIV"
  shows "achieves (at_row i e0) (preflight_phase env i now) (at_status i ts)"
  unfolding preflight_phase_def
proof (rule achieves_with_row)
  fix e :: execution
  assume i: "ex_execution_id e = i"
  have ts: "''failed'' \<in> ts" "''preflighting'' \<in> ts" using assms by auto
  have "achieves (\<lambda>s c. at_row i e0 s c \<and> row_of s i = Some e)
      (if ex_status e = ''pending'' then transition env e ''preflighting'' None now None None None
       else flow_return e) (at_status i ts)"
    by (intro achieves_if achieves_to_status[OF i _ ts(2)] achieves_return)
      (use assms(2) in \<open>auto simp: at_status_def at_row_def\<close>)
  then show "achieves (\<lambda>s c. at_row i e0 s c \<and> row_of s i = Some e)
      (flow_bind (if ex_status e = ''pending'' then transition env e ''preflighting'' None now None None None
                  else flow_return e) (\<lambda>e. flow_bind (preflight_checked env e now) (\<lambda>_. query (get_execution i))))
      (at_status i ts)"
    by (rule achieves_bind, intro achieves_bind[OF preflight_checked_achieves[OF ts(1)] achieves_read_status]) blast
qed

lemma hubu_claim_achieves:
  assumes "ex_execution_id e = i" and "\<And>s c. P s c \<Longrightarrow> row_of s i = Some e"
    and "\<And>s c b. P s c \<Longrightarrow> P s (c @ [ClaimCall i b])"
  shows "achieves P (hubu_claim env e) (\<lambda>r s c. P s c \<and> (is_ok r \<longrightarrow> ClaimCall i True \<in> set c))"
  unfolding hubu_claim_def
  by (rule achieves_call_outside) (use assms claim_call_safe(1) in auto)

lemma claim_answer_achieves:
  assumes i: "ex_execution_id e = i" and ts: "{''claimed'', ''failed'', ''reconciliation_required''} \<subseteq> ts"
  shows "achieves (\<lambda>s c. row_of s i = Some e \<and> (is_ok r \<longrightarrow> ClaimCall i True \<in> set c))
    (claim_answer env e now r) (at_status i ts)"
proof (cases r)
  case (Inl err)
  then show ?thesis using achieves_to_status[OF i] achieves_hold_status[OF i] ts
    by (cases err) (auto simp: claim_answer_def)
next
  case (Inr claim)
  then show ?thesis using ts set_claim_safe
    by (auto simp: claim_answer_def i at_status_def intro!: achieves_commit)
qed

lemma claim_phase_achieves:
  assumes "ex_status e0 = ''preflighting'' \<Longrightarrow> ts = {''claimed'', ''failed'', ''reconciliation_required''}"
    and "ex_status e0 \<noteq> ''preflighting'' \<Longrightarrow> ts = UNIV"
  shows "achieves (at_row i e0) (claim_phase env i now) (at_status i ts)"
  unfolding claim_phase_def
proof (rule achieves_with_row)
  fix e :: execution
  assume i: "ex_execution_id e = i"
  let ?P = "\<lambda>s c. at_row i e0 s c \<and> row_of s i = Some e"
  have ts: "{''claimed'', ''failed'', ''reconciliation_required''} \<subseteq> ts" using assms by auto
  have accept: "achieves ?P (commit (accept_existing_claim i (ex_version e) now)) (at_status i ts)"
    by (rule achieves_commit) (use accept_existing_claim_safe ts in \<open>auto simp: at_status_def\<close>)
  have claim: "achieves ?P (flow_bind (hubu_claim env e) (claim_answer env e now)) (at_status i ts)"
    by (rule achieves_bind[OF hubu_claim_achieves[OF i] achieves_pre[OF claim_answer_achieves[OF i ts]]])
      (auto simp: at_row_def)
  show "achieves ?P (if ex_status e \<noteq> ''preflighting'' then flow_return e
     else if ex_hubu_claim_id e \<noteq> None then commit (accept_existing_claim i (ex_version e) now)
     else flow_bind (hubu_claim env e) (claim_answer env e now)) (at_status i ts)"
    by (intro achieves_if achieves_return accept claim) (use assms(2) in \<open>auto simp: at_status_def at_row_def\<close>)
qed

lemma validated_claim_achieves:
  assumes i: "ex_execution_id e = i" and ts: "{''executing'', ''reconciliation_required''} \<subseteq> ts"
  shows "achieves (\<lambda>s c. row_of s i = Some e \<and> (is_ok r \<longrightarrow> ValidateClaimCall i True \<in> set c))
    (validated_claim env e now r) (at_status i ts)"
proof (cases r)
  case (Inl err)
  then show ?thesis using achieves_hold_status[OF i] ts by (simp add: validated_claim_def)
next
  case (Inr u)
  have "achieves (\<lambda>s c. row_of s i = Some e \<and> ValidateClaimCall i True \<in> set c)
      (commit (start_provider_attempt new_id e now)) (\<lambda>_ s c. \<exists>e. at_status i ts e s c)" for new_id
    by (rule achieves_commit) (use start_provider_attempt_safe ts in \<open>fastforce simp: at_status_def\<close>)
  then have "achieves (\<lambda>s c. row_of s i = Some e \<and> ValidateClaimCall i True \<in> set c) (flow_bind (fresh_id env) (\<lambda>new_id.
      flow_bind (commit (start_provider_attempt new_id e now)) (\<lambda>_. query (get_execution i)))) (at_status i ts)"
    by (intro achieves_bind[OF achieves_fresh_id] achieves_bind[OF _ achieves_read_status])
  with Inr show ?thesis by (simp add: validated_claim_def i)
qed

lemma validate_claim_phase_achieves:
  assumes "ex_status e0 = ''claimed'' \<Longrightarrow> ts = {''executing'', ''reconciliation_required''}"
    and "ex_status e0 \<noteq> ''claimed'' \<Longrightarrow> ts = UNIV"
  shows "achieves (at_row i e0) (validate_claim_phase env i now) (at_status i ts)"
  unfolding validate_claim_phase_def
proof (rule achieves_with_row)
  fix e :: execution
  assume i: "ex_execution_id e = i"
  let ?P = "\<lambda>s c. at_row i e0 s c \<and> row_of s i = Some e"
  have ts: "{''executing'', ''reconciliation_required''} \<subseteq> ts" using assms by auto
  have "achieves ?P (call_outside (\<lambda>calls. env_validate_claim env calls e) (ValidateClaimCall i))
      (\<lambda>r s c. row_of s i = Some e \<and> (is_ok r \<longrightarrow> ValidateClaimCall i True \<in> set c))"
    by (rule achieves_call_outside) (use claim_call_safe(2) in auto)
  then have "achieves ?P (flow_bind (call_outside (\<lambda>calls. env_validate_claim env calls e) (ValidateClaimCall i))
      (validated_claim env e now)) (at_status i ts)"
    by (rule achieves_bind[OF _ validated_claim_achieves[OF i ts]])
  then show "achieves ?P (if ex_status e \<noteq> ''claimed'' then flow_return e
     else flow_bind (call_outside (\<lambda>calls. env_validate_claim env calls e) (ValidateClaimCall i))
            (validated_claim env e now)) (at_status i ts)"
    by (intro achieves_if achieves_return) (use assms(2) in \<open>auto simp: at_status_def at_row_def\<close>)
qed

end
