(* ===== verification/Gongbu_Provider_Phases.thy ===== *)
theory Gongbu_Provider_Phases
  imports Gongbu_Phases
begin

text \<open>
  The phases of provider work: what each outcome says of the stored attempt, and that the work is sent, polled and
  given back only under its conditions.
\<close>

definition past_work :: "string set" where
  "past_work = {''settling'', ''succeeded'', ''released'', ''failed'', ''reconciliation_required''}"

definition phase_outcome :: "string \<Rightarrow> bool \<Rightarrow> bool \<Rightarrow> provider_phase_outcome \<Rightarrow> assertion" where
  "phase_outcome i was_executing polls outcome s c \<longleftrightarrow>
     (case outcome of
        PollExisting \<Rightarrow> polls \<and> (\<exists>e. at_status i {''executing''} e s c)
      | PersistArtifacts \<Rightarrow> \<exists>e. finished i e ''succeeded'' s c
      | ReleaseAuthorization \<Rightarrow> \<exists>e. finished i e ''failed'' s c
      | PhaseComplete _ _ \<Rightarrow> \<exists>e. at_status i (if was_executing then past_work else UNIV) e s c)"

lemma phase_outcome_simps [simp]:
  "phase_outcome i b p PollExisting s c \<longleftrightarrow> p \<and> (\<exists>e. at_status i {''executing''} e s c)"
  "phase_outcome i b p PersistArtifacts s c \<longleftrightarrow> (\<exists>e. finished i e ''succeeded'' s c)"
  "phase_outcome i b p ReleaseAuthorization s c \<longleftrightarrow> (\<exists>e. finished i e ''failed'' s c)"
  "phase_outcome i b p (phase_complete e) s c \<longleftrightarrow> (\<exists>e. at_status i (if b then past_work else UNIV) e s c)"
  by (simp_all add: phase_outcome_def phase_complete_def)

lemma past_work_members [simp]:
  "''reconciliation_required'' \<in> past_work" "''released'' \<in> past_work" "''settling'' \<in> past_work"
  "''succeeded'' \<in> past_work"
  by (simp_all add: past_work_def)

lemma at_status_mono: "at_status i ts e s c \<Longrightarrow> ts \<subseteq> us \<Longrightarrow> at_status i us e s c"
  by (auto simp: at_status_def)

lemma hold_complete_achieves:
  assumes "ex_execution_id e = i"
  shows "achieves P (held_complete env e code now pr a) (phase_outcome i b p)"
  unfolding held_complete_def
  by (rule achieves_bind[OF achieves_hold_status[OF assms past_work_members(1)]], rule achieves_return)
    (auto intro: at_status_mono)

section \<open>Release\<close>

lemma finished_cong:
  "row_of s' i = row_of s i \<Longrightarrow> attempt_of s' i = attempt_of s i \<Longrightarrow> finished i e out s' c' = finished i e out s c"
  by (simp add: finished_def)

lemma finished_id: "consistent s c \<Longrightarrow> finished i e out s c \<Longrightarrow> ex_execution_id e = i"
  by (auto simp: finished_def dest: row_id[OF consistentD(1)])

lemma working_claimed:
  assumes "consistent s c" and "row_of s i = Some e" and "ex_status e = ''executing''"
  shows "ex_hubu_claim_id e \<noteq> None"
  using consistentD(2)[OF assms(1,2)] assms(3) by (simp add: lifecycle_ok_def claim_ok_def)

lemma release_call_achieves:
  assumes "ex_execution_id e = i"
  shows "achieves (finished i e ''failed'') (release_call env e) (\<lambda>r s c. is_ok r \<longrightarrow> ReleaseCall i True \<in> set c)"
  unfolding release_call_def assms
proof (rule achieves_call_outside)
  fix s c and r :: "activity_error + unit"
  assume cons: "consistent s c" and f: "finished i e ''failed'' s c"
  then have "safe_step s c s (c @ [ReleaseCall i (is_ok r)])"
    using working_claimed[OF cons]
    by (intro release_call_safe[OF cons]) (auto simp: finished_def release_justified_def failed_attempt_def)
  then show "safe_step s c s (c @ [ReleaseCall i (is_ok r)])
      \<and> (is_ok r \<longrightarrow> ReleaseCall i True \<in> set (c @ [ReleaseCall i (is_ok r)]))" by simp
qed

lemma release_answer_achieves:
  assumes i: "ex_execution_id e = i"
  shows "achieves (\<lambda>s c. is_ok r \<longrightarrow> ReleaseCall i True \<in> set c) (release_answer env e code now r) (at_status i past_work)"
proof (cases r)
  case (Inl err)
  then show ?thesis using achieves_hold_status[OF i, of past_work] by (simp add: release_answer_def)
next
  case (Inr u)
  then show ?thesis using achieves_to_status[OF i, of _ "''released''" past_work]
    by (simp add: release_answer_def target_ok_def)
qed

lemma release_or_reconcile_achieves:
  assumes i: "ex_execution_id e = i"
  shows "achieves (finished i e ''failed'') (release_or_reconcile env e code now) (at_status i past_work)"
  unfolding release_or_reconcile_def
proof (rule achieves_if)
  have "achieves (finished i e ''failed'') (commit (begin_release_transmission (ex_execution_id e) (ex_version e) now))
      (\<lambda>marked. finished i marked ''failed'')"
    using begin_release_transmission_safe by (intro achieves_commit) (fastforce simp: i finished_def)
  moreover have send: "achieves (finished i marked ''failed'') (flow_bind (release_call env marked)
      (release_answer env marked code now)) (at_status i past_work)" for marked
  proof (rule achieves_assume[where F = "ex_execution_id marked = i", OF finished_id], assumption, assumption)
    assume m: "ex_execution_id marked = i"
    show "achieves (finished i marked ''failed'') (flow_bind (release_call env marked)
        (release_answer env marked code now)) (at_status i past_work)"
      by (rule achieves_bind[OF release_call_achieves[OF m] release_answer_achieves[OF m]])
  qed
  ultimately show "achieves (finished i e ''failed'') (flow_bind (commit (begin_release_transmission (ex_execution_id e)
      (ex_version e) now)) (\<lambda>marked. flow_bind (release_call env marked) (release_answer env marked code now)))
      (at_status i past_work)"
    by (rule achieves_bind)
qed (simp add: achieves_hold_status[OF i])

lemma advance_completed_attempt_achieves:
  assumes i: "ex_execution_id e = i"
  shows "achieves (finished i e outcome) (advance_completed_attempt env e outcome now) (at_status i past_work)"
  unfolding advance_completed_attempt_def
  by (intro achieves_if achieves_hold_status[OF i]) (auto intro: release_or_reconcile_achieves[OF i])

text \<open>What a completed attempt leaves to do.\<close>

definition open_or_outcome :: "string \<Rightarrow> execution \<Rightarrow> provider_attempt \<Rightarrow> provider_phase_outcome option \<Rightarrow> assertion" where
  "open_or_outcome i e a outcome s c \<longleftrightarrow>
     (case outcome of
        None \<Rightarrow> row_of s i = Some e \<and> attempt_of s i = Some a \<and> \<not> completed a
      | Some outcome \<Rightarrow> phase_outcome i True False outcome s c)"

lemma advance_and_report_achieves:
  assumes i: "ex_execution_id e = i"
  shows "achieves (finished i e outcome) (advance_and_report env e outcome phase_at) (open_or_outcome i e a)"
  unfolding advance_and_report_def i
  by (rule achieves_bind[OF advance_completed_attempt_achieves[OF i]], rule achieves_bind[OF achieves_query],
      rule achieves_return) (auto simp: open_or_outcome_def)

lemma completed_provider_phase_achieves:
  assumes i: "ex_execution_id e = i" and st: "ex_status e = ''executing''"
  shows "achieves (\<lambda>s c. row_of s i = Some e \<and> attempt_of s i = Some a) (completed_provider_phase env e a phase_at)
    (open_or_outcome i e a)" (is "achieves ?P _ _")
proof -
  have report: "achieves ?P (advance_and_report env e (pa_outcome a) phase_at) (open_or_outcome i e a)"
    if "pa_completed_at a \<noteq> None"
    using that st by (intro achieves_pre[OF advance_and_report_achieves[OF i]]) (simp add: finished_def completed_def)
  have "achieves ?P (flow_bind (query (get_staged_provider_artifacts (pa_provider_attempt_id a))) (\<lambda>staged.
           if staged \<noteq> [] then flow_return (Some PersistArtifacts)
           else advance_and_report env e (pa_outcome a) phase_at)) (open_or_outcome i e a)"
    if "pa_completed_at a \<noteq> None" "pa_outcome a = ''succeeded''"
    using that st report
    by (intro achieves_bind[OF achieves_query] achieves_if achieves_return)
      (auto simp: open_or_outcome_def finished_def completed_def intro: achieves_pre)
  with report st show ?thesis unfolding completed_provider_phase_def
    by (auto simp: open_or_outcome_def finished_def completed_def intro: achieves_return)
qed

section \<open>The result of provider work\<close>

lemma complete_attempt_achieves:
  assumes "ar_outcome r \<noteq> ''started''"
  shows "achieves (at_work i e attempt_id) (complete_attempt env attempt_id r) (\<lambda>_. finished i e (ar_outcome r))"
  unfolding complete_attempt_def by (rule achieves_commit) (rule complete_provider_attempt_safe, use assms in auto)

lemma complete_attempt_with_artifacts_achieves:
  assumes "ar_outcome r \<noteq> ''started''"
  shows "achieves (at_work i e attempt_id) (commit (complete_provider_attempt_with_artifacts secret attempt_id r as))
    (\<lambda>_. finished i e (ar_outcome r))"
  by (rule achieves_commit) (rule complete_provider_attempt_with_artifacts_safe, use assms in auto)

lemma finish_provider_result_achieves:
  assumes i: "ex_execution_id e = i"
  shows "achieves (at_work i e attempt_id) (finish_provider_result env e attempt_id result t) (phase_outcome i True False)"
proof -
  have failed: "achieves (at_work i e attempt_id) (finish_failure env attempt_id code q p t) (phase_outcome i True False)"
    for code q p
    unfolding finish_failure_def
    by (rule achieves_bind[OF complete_attempt_achieves]) (simp add: attempt_failure_def, rule achieves_return,
      auto simp: attempt_failure_def)
  have ambiguous: "achieves (at_work i e attempt_id) (finish_ambiguous env e attempt_id code q p t)
      (phase_outcome i True False)" for code q p
    unfolding finish_ambiguous_def
    by (rule achieves_bind[OF complete_attempt_achieves hold_complete_achieves[OF i]]) (simp add: attempt_failure_def)
  have success: "achieves (at_work i e attempt_id) (finish_success env e attempt_id success t) (phase_outcome i True False)"
    for success
    unfolding finish_success_def
  proof (rule achieves_if)
    show "achieves (at_work i e attempt_id) (flow_bind (complete_attempt env attempt_id (successful_attempt success t))
        (\<lambda>_. held_complete env e ''provider_returned_no_artifacts'' t (Some OutcomeSucceeded) (Some OutcomeFailed)))
        (phase_outcome i True False)"
      by (rule achieves_bind[OF complete_attempt_achieves hold_complete_achieves[OF i]]) (simp add: successful_attempt_def)
    show "achieves (at_work i e attempt_id) (flow_bind (commit (complete_provider_attempt_with_artifacts (env_secrets env)
        attempt_id (successful_attempt success t) (psu_artifacts success))) (\<lambda>_. flow_return PersistArtifacts))
        (phase_outcome i True False)"
      by (rule achieves_bind[OF complete_attempt_with_artifacts_achieves]) (simp add: successful_attempt_def,
        rule achieves_return, auto simp: successful_attempt_def)
  qed
  show ?thesis unfolding finish_provider_result_def
    using failed ambiguous success by (auto split: sum.splits activity_error.splits)
qed

section \<open>Calls to the provider\<close>

lemma observe_achieves: "achieves (at_work i e attempt_id) (observe attempt_id interactions) (\<lambda>_. at_work i e attempt_id)"
proof (induction interactions)
  case Nil
  then show ?case by (simp add: achieves_return)
next
  case (Cons x xs)
  have "achieves (at_work i e attempt_id) (flow_try (commit (record_provider_poll attempt_id))) (\<lambda>_. at_work i e attempt_id)"
    and "achieves (at_work i e attempt_id) (flow_try (commit (record_artifact_fetch attempt_id))) (\<lambda>_. at_work i e attempt_id)"
    by (rule achieves_try_commit; auto dest: record_provider_poll_safe record_artifact_fetch_safe)+
  then show ?case by (cases x) (auto intro: achieves_bind[OF _ Cons.IH])
qed

lemma call_provider_achieves:
  assumes "\<And>s c. consistent s c \<Longrightarrow> P s c \<Longrightarrow> safe_step s c s (c @ [k]) \<and> at_work i e attempt_id s (c @ [k])"
  shows "achieves P (call_provider attempt_id k answer) (\<lambda>_. at_work i e attempt_id)"
  unfolding call_provider_def
proof (rule achieves_bind[OF achieves_calls])
  fix calls
  obtain interactions r where a: "answer calls = (interactions, r)" by (cases "answer calls")
  have "achieves P (record_call k) (\<lambda>_. at_work i e attempt_id)" by (rule achieves_record) (rule assms)
  then show "achieves P (case answer calls of (interactions, r) \<Rightarrow> flow_bind (record_call k) (\<lambda>_.
      flow_bind (observe attempt_id interactions) (\<lambda>_. flow_return r))) (\<lambda>_. at_work i e attempt_id)"
    using achieves_bind[OF _ achieves_bind[OF observe_achieves achieves_return]] by (simp add: a)
qed

lemma checkpoint_operation_achieves:
  assumes i: "ex_execution_id e = i"
  shows "achieves (at_work i e attempt_id) (checkpoint_operation env e attempt_id operation) (phase_outcome i True True)"
proof -
  have existing: "achieves (\<lambda>s c. at_work i e attempt_id s c \<and> F s c) (flow_return PollExisting) (phase_outcome i True True)" for F
    by (rule achieves_return) (auto simp: at_work_def at_status_def)
  have checkpoint: "achieves (at_work i e attempt_id)
      (flow_try (commit (record_provider_operation (env_secrets env) attempt_id operation t))) (\<lambda>_. at_work i e attempt_id)" for t
    by (rule achieves_try_commit) (auto dest: record_provider_operation_safe)
  show ?thesis unfolding checkpoint_operation_def
    by (intro achieves_bind[OF achieves_clock] achieves_bind[OF checkpoint] achieves_if achieves_bind[OF achieves_try_query]
        existing hold_complete_achieves[OF i] existing[of "\<lambda>_ _. True", simplified])
qed

lemma submission_result_achieves:
  assumes i: "ex_execution_id e = i"
  shows "achieves (at_work i e attempt_id) (submission_result env e attempt_id result) (phase_outcome i True True)"
proof -
  have "achieves (at_work i e attempt_id) (flow_bind (clock env) (finish_provider_result env e attempt_id r))
      (phase_outcome i True True)" for r
    by (rule achieves_post[OF achieves_bind[OF achieves_clock finish_provider_result_achieves[OF i]]])
      (simp add: phase_outcome_def split: provider_phase_outcome.splits)
  with checkpoint_operation_achieves[OF i] show ?thesis
    by (auto simp: submission_result_def split: sum.splits provider_submission.splits)
qed

section \<open>The phases\<close>

lemma phase_outcome_weaken:
  "phase_outcome i True q outcome s c \<Longrightarrow> (q \<Longrightarrow> p) \<Longrightarrow> phase_outcome i b p outcome s c"
  by (cases outcome) (auto simp: phase_outcome_def intro: at_status_mono)

lemma provider_phase_with_achieves:
  assumes open_part: "\<And>e a. ex_execution_id e = i \<Longrightarrow> ex_status e = ''executing'' \<Longrightarrow>
    achieves (open_or_outcome i e a None) (open_part e a) (phase_outcome i True p)"
  shows "achieves (at_row i e0) (provider_phase_with env i phase_at open_part)
    (phase_outcome i (ex_status e0 = ''executing'') p)" (is "achieves _ _ ?Q")
  unfolding provider_phase_with_def
proof (rule achieves_with_row, rule achieves_if)
  fix e :: execution
  let ?P = "\<lambda>s c. at_row i e0 s c \<and> row_of s i = Some e"
  show "achieves ?P (flow_return (phase_complete e)) ?Q" if "ex_status e \<noteq> ''executing''"
    by (rule achieves_return) (use that in \<open>auto simp: at_row_def at_status_def\<close>)
  assume i: "ex_execution_id e = i" and "\<not> ex_status e \<noteq> ''executing''"
  then have st: "ex_status e = ''executing''" by simp
  have answer: "achieves (open_or_outcome i e a outcome)
      (case outcome of Some outcome \<Rightarrow> flow_return outcome | None \<Rightarrow> open_part e a) ?Q" for outcome a
  proof (cases outcome)
    case None
    then show ?thesis using achieves_post[OF open_part[OF i st]] phase_outcome_weaken by simp
  next
    case (Some out)
    then show ?thesis using phase_outcome_weaken by (auto intro: achieves_return simp: open_or_outcome_def)
  qed
  show "achieves ?P (flow_bind (query (get_provider_attempt_for_execution i)) (\<lambda>a.
      flow_bind (completed_provider_phase env e a phase_at) (\<lambda>outcome.
      case outcome of Some outcome \<Rightarrow> flow_return outcome | None \<Rightarrow> open_part e a))) ?Q"
    by (rule achieves_with_attempt, rule achieves_bind[OF _ answer],
        rule achieves_pre[OF completed_provider_phase_achieves[OF i st]]) auto
qed

text \<open>An attempt that was marked but not submitted yet.\<close>

definition marked :: "string \<Rightarrow> execution \<Rightarrow> string \<Rightarrow> assertion" where
  "marked i e attempt_id s c \<longleftrightarrow>
     row_of s i = Some e
     \<and> (\<exists>a. attempt_of s i = Some a \<and> pa_provider_attempt_id a = attempt_id \<and> transmitted a \<and> submissions i c = [])"

lemma begin_transmission_achieves:
  assumes "ex_status e = ''executing''"
  shows "achieves (open_or_outcome i e a None) (commit (begin_provider_transmission (pa_provider_attempt_id a) t))
    (\<lambda>_. marked i e (pa_provider_attempt_id a))"
proof (rule achieves_commit)
  fix s c u s'
  assume cons: "consistent s c" and P: "open_or_outcome i e a None s c"
    and up: "begin_provider_transmission (pa_provider_attempt_id a) t s = Inr (u, s')"
  show "safe_step s c s' c \<and> marked i e (pa_provider_attempt_id a) s' c"
    using begin_provider_transmission_safe[OF cons up _ refl _ assms, of i] P by (simp add: open_or_outcome_def marked_def)
qed

lemma submit_open_attempt_achieves:
  assumes i: "ex_execution_id e = i" and st: "ex_status e = ''executing''"
  shows "achieves (open_or_outcome i e a None) (submit_open_attempt env phase_at e a) (phase_outcome i True True)"
proof -
  have submit: "achieves (marked i e (pa_provider_attempt_id a)) (call_provider (pa_provider_attempt_id a)
      (SubmitCall i (pa_provider_attempt_id a)) answer) (\<lambda>_. at_work i e (pa_provider_attempt_id a))"
    for answer :: "outside_call list \<Rightarrow> provider_transport_interaction list \<times> (activity_error + provider_submission)"
    by (rule call_provider_achieves) (use submit_call_safe st in \<open>auto simp: at_work_def marked_def\<close>)
  have "achieves (open_or_outcome i e a None) (flow_return PollExisting) (phase_outcome i True True)"
    by (rule achieves_return) (use st in \<open>auto simp: at_status_def open_or_outcome_def\<close>)
  then show ?thesis
    using hold_complete_achieves[OF i] achieves_bind[OF achieves_clock achieves_bind[OF begin_transmission_achieves[OF st]
      achieves_bind[OF submit submission_result_achieves[OF i]]]]
    by (auto simp: submit_open_attempt_def Let_def i split: sum.splits option.splits)
qed

lemma provider_submit_phase_achieves:
  "achieves (at_row i e0) (provider_submit_phase env i phase_at) (phase_outcome i (ex_status e0 = ''executing'') True)"
  unfolding provider_submit_phase_def by (rule provider_phase_with_achieves) (rule submit_open_attempt_achieves)

lemma provider_operation_checkpointed:
  "provider_operation a = Inr (Some operation) \<Longrightarrow> checkpointed a"
  by (auto simp: provider_operation_def checkpointed_def split: option.splits)

lemma poll_open_attempt_achieves:
  assumes i: "ex_execution_id e = i" and st: "ex_status e = ''executing''"
  shows "achieves (open_or_outcome i e a None) (poll_open_attempt env phase_at e a) (phase_outcome i True False)"
proof -
  let ?id = "pa_provider_attempt_id a"
  have poll: "achieves (open_or_outcome i e a None) (call_provider ?id (PollCall i ?id) answer) (\<lambda>_. at_work i e ?id)"
    if op: "provider_operation a = Inr (Some operation)" for operation and answer :: "outside_call list
        \<Rightarrow> provider_transport_interaction list \<times> (activity_error + provider_success)"
  proof (rule call_provider_achieves)
    fix s c
    assume cons: "consistent s c" and P: "open_or_outcome i e a None s c"
    then have at: "row_of s i = Some e" "attempt_of s i = Some a" by (simp_all add: open_or_outcome_def)
    have check: "checkpointed a" by (rule provider_operation_checkpointed[OF op])
    have "submissions i c \<noteq> []"
      using consistentD(2)[OF cons at(1)] at check
      by (simp add: lifecycle_ok_def attempt_and_receipt_ok_def attempt_ok_def)
    then show "safe_step s c s (c @ [PollCall i ?id]) \<and> at_work i e ?id s (c @ [PollCall i ?id])"
      using poll_call_safe[OF cons at refl check] at st by (auto simp: at_work_def)
  qed
  show ?thesis
    using hold_complete_achieves[OF i]
      achieves_bind[OF poll achieves_bind[OF achieves_clock finish_provider_result_achieves[OF i]]]
    by (auto simp: poll_open_attempt_def Let_def i split: sum.splits option.splits)
qed

lemma provider_poll_phase_achieves:
  "achieves (at_row i e0) (provider_poll_phase env i phase_at) (phase_outcome i (ex_status e0 = ''executing'') False)"
  unfolding provider_poll_phase_def by (rule provider_phase_with_achieves) (rule poll_open_attempt_achieves)

end
