(* ===== verification/Gongbu_Settlement_Phases.thy ===== *)
theory Gongbu_Settlement_Phases
  imports Gongbu_Provider_Phases
begin

text \<open>
  The phases after provider work: what they keep, and how far each takes the execution.
\<close>

section \<open>Flows that keep an assertion\<close>

definition keeps :: "assertion \<Rightarrow> 'a flow \<Rightarrow> bool" where
  "keeps P m \<longleftrightarrow> achieves P m (\<lambda>_. P)"

lemma keeps_return [simp]: "keeps P (flow_return x)"
  unfolding keeps_def by (rule achieves_return)

lemma keeps_reads [simp]: "keeps P (clock env)" "keeps P (fresh_id env)" "keeps P calls_so_far" "keeps P (query q)"
  unfolding keeps_def
  by (rule achieves_clock achieves_fresh_id achieves_calls achieves_post[OF achieves_query], simp?)+

lemma keeps_bind: "keeps P m \<Longrightarrow> (\<And>x. keeps P (f x)) \<Longrightarrow> keeps P (flow_bind m f)"
  unfolding keeps_def by (rule achieves_bind)

lemma keeps_res_bind: "keeps P m \<Longrightarrow> (\<And>x. keeps P (f x)) \<Longrightarrow> keeps P (res_bind m f)"
  unfolding res_bind_def by (rule keeps_bind) (auto split: sum.splits)

section \<open>The artifact service\<close>

definition sees :: "string \<Rightarrow> execution \<Rightarrow> provider_attempt \<Rightarrow> assertion" where
  "sees i e a s c \<longleftrightarrow> row_of s i = Some e \<and> attempt_of s i = Some a"

lemma keeps_file_calls:
  "keeps (sees i e a) (record_call (RemoveFileCall key))"
  "keeps (sees i e a) (call_outside answer (WriteFileCall x key))"
  unfolding keeps_def
  by (rule achieves_record achieves_call_outside; simp add: file_call_safe sees_def)+

lemma keeps_remove_file: "keeps (sees i e a) (remove_file key)"
  by (auto simp: remove_file_def keeps_file_calls split: sum.splits)

lemma keeps_removing: "keeps (sees i e a) (removing key err)"
  unfolding removing_def by (rule keeps_bind[OF keeps_remove_file]) simp

lemma keeps_create_artifact: "keeps (sees i e a) (flow_try (commit (create_artifact_with_limit secret text row limit)))"
  unfolding keeps_def by (rule achieves_try_commit) (auto simp: sees_def create_artifact_safe)

lemma keeps_record_stored_image: "keeps (sees i e a) (record_stored_image env row bytes persisted)"
  unfolding record_stored_image_def
  by (auto intro!: keeps_bind keeps_create_artifact keeps_removing split: sum.splits)

lemma keeps_store_image: "keeps (sees i e a) (store_image env x attempt media bytes now)"
  unfolding store_image_def Let_def
  by (intro keeps_bind keeps_reads)
    (auto intro!: keeps_bind keeps_res_bind keeps_record_stored_image keeps_removing keeps_file_calls
      simp: write_atomic_def read_file_def split: sum.splits)

lemma keeps_persist: "keeps (sees i e a) (persist env x attempt_id images)"
  by (induction images) (auto intro!: keeps_bind keeps_store_image split: sum.splits)

section \<open>The artifact and the release phase\<close>

lemma complete_artifacts_achieves:
  assumes i: "ex_execution_id e = i"
  shows "achieves (sees i e a) (complete_artifacts env e a returned now) (at_status i past_work)"
proof -
  have "achieves (\<lambda>s c. ((sees i e a s c \<and> count_artifacts_for_attempt (pa_provider_attempt_id a) s = Inr stored)
          \<and> ok_or (InvalidRow ''attempt usage'') (pa_usage a) = Inr usage)
          \<and> artifacts_match_usage_count e stored returned usage = Inr True)
        (commit (complete_artifact_persistence (env_secrets env) e (pa_provider_attempt_id a) now)) (at_status i past_work)"
    (is "achieves ?P _ _") for stored usage
  proof (rule achieves_commit)
    fix s c e' s'
    assume cons: "consistent s c" and P: "?P s c"
      and up: "complete_artifact_persistence (env_secrets env) e (pa_provider_attempt_id a) now s = Inr (e', s')"
    have "0 < images_of s i"
      using P by (auto simp: sees_def images_of_def count_artifacts_for_attempt_def artifacts_match_usage_count_def
          split: if_split_asm)
    then show "safe_step s c s' c \<and> at_status i past_work e' s' c"
      using complete_artifact_persistence_safe[OF cons up] i by (simp add: at_status_def)
  qed
  then show ?thesis unfolding complete_artifacts_def
    by (intro achieves_bind[OF achieves_query] achieves_if achieves_hold_status[OF i]) simp_all
qed

lemma persist_staged_achieves:
  assumes i: "ex_execution_id e = i"
  shows "achieves (sees i e a) (persist_staged env e a staged now) (at_status i past_work)"
proof -
  have keep: "achieves (sees i e a) (if stored = (0 :: nat) then persist env i (pa_provider_attempt_id a) staged
      else flow_return (Inr ())) (\<lambda>_. sees i e a)" for stored
    by (rule achieves_if) (simp_all add: keeps_persist[unfolded keeps_def] keeps_return[unfolded keeps_def])
  have answer: "achieves (sees i e a) (case r of
       Inl err \<Rightarrow> hold env e (activity_error_code err) now (Some OutcomeSucceeded) (Some OutcomeFailed) None
     | Inr _ \<Rightarrow> complete_artifacts env e a (length staged) now) (at_status i past_work)" for r :: "activity_error + unit"
    using achieves_hold_status[OF i, of past_work] complete_artifacts_achieves[OF i] by (cases r) simp_all
  show ?thesis unfolding persist_staged_def i
    by (rule achieves_bind[where R = "\<lambda>_. sees i e a"], rule achieves_post[OF achieves_query], simp,
        rule achieves_bind[OF keep answer])
qed

lemma artifact_work_achieves:
  assumes i: "ex_execution_id e = i" and st: "ex_status e = ''executing''" and a: "succeeded_attempt a"
  shows "achieves (sees i e a) (artifact_work env e a now) (at_status i past_work)"
proof -
  have "achieves (sees i e a) (flow_bind (advance_completed_attempt env e (pa_outcome a) now)
      (\<lambda>_. query (get_execution i))) (at_status i past_work)"
    by (rule achieves_bind[OF achieves_pre[OF advance_completed_attempt_achieves[OF i]] achieves_read_status])
      (use a st in \<open>auto simp: sees_def finished_def succeeded_attempt_def\<close>)
  then show ?thesis unfolding artifact_work_def i
    by (intro achieves_bind[OF achieves_post[OF achieves_query, of _ _ "\<lambda>_. sees i e a"]] achieves_if
        persist_staged_achieves[OF i]) simp_all
qed

lemma artifact_phase_achieves:
  "achieves (\<lambda>s c. at_row i e0 s c \<and> (b \<longrightarrow> (\<exists>e. finished i e ''succeeded'' s c))) (artifact_phase env i now)
     (at_status i (if b then past_work else UNIV))" (is "achieves ?P _ ?Q")
  unfolding artifact_phase_def
proof (rule achieves_with_row, rule achieves_if)
  fix e :: execution
  show "achieves (\<lambda>s c. ?P s c \<and> row_of s i = Some e) (flow_return e) ?Q" if "ex_status e \<noteq> ''executing''"
    by (rule achieves_return) (use that in \<open>auto simp: at_row_def at_status_def finished_def\<close>)
  assume i: "ex_execution_id e = i" and "\<not> ex_status e \<noteq> ''executing''"
  then have work: "achieves (sees i e a) (artifact_work env e a now) (at_status i past_work)" if "succeeded_attempt a" for a
    using artifact_work_achieves that by simp
  show "achieves (\<lambda>s c. ?P s c \<and> row_of s i = Some e) (flow_bind (query (get_provider_attempt_for_execution i)) (\<lambda>a.
     if pa_completed_at a = None \<or> pa_outcome a \<noteq> ''succeeded'' then flow_return e else artifact_work env e a now)) ?Q"
  proof (rule achieves_with_attempt, rule achieves_if)
    fix a
    show "achieves (\<lambda>s c. (?P s c \<and> row_of s i = Some e) \<and> attempt_of s i = Some a) (flow_return e) ?Q"
      if "pa_completed_at a = None \<or> pa_outcome a \<noteq> ''succeeded''"
      by (rule achieves_return) (use that in \<open>auto simp: at_row_def at_status_def finished_def completed_def\<close>)
    assume "\<not> (pa_completed_at a = None \<or> pa_outcome a \<noteq> ''succeeded'')"
    then show "achieves (\<lambda>s c. (?P s c \<and> row_of s i = Some e) \<and> attempt_of s i = Some a) (artifact_work env e a now) ?Q"
      by (intro achieves_post[OF achieves_pre[OF work]])
        (auto simp: succeeded_attempt_def completed_def sees_def at_status_def)
  qed
qed

definition release_failed :: "environment \<Rightarrow> execution \<Rightarrow> provider_attempt \<Rightarrow> string \<Rightarrow> execution flow" where
  "release_failed env e a now =
     (if pa_completed_at a \<noteq> None \<and> pa_outcome a = ''failed''
      then release_or_reconcile env e (case pa_failure_code a of None \<Rightarrow> ''provider_failed'' | Some code \<Rightarrow> code) now
      else flow_return e)"

lemma release_failed_achieves:
  assumes i: "ex_execution_id e = i" and st: "ex_status e = ''executing''"
    and ts: "past_work \<subseteq> ts" "\<not> failed_attempt a \<Longrightarrow> ts = UNIV"
  shows "achieves (sees i e a) (release_failed env e a now) (at_status i ts)"
proof (cases "failed_attempt a")
  case True
  have "achieves (sees i e a) (release_or_reconcile env e code now) (at_status i ts)" for code
    by (rule achieves_post[OF achieves_pre[OF release_or_reconcile_achieves[OF i]]])
      (use True st ts(1) in \<open>auto simp: sees_def finished_def failed_attempt_def intro: at_status_mono\<close>)
  then show ?thesis using True by (simp add: release_failed_def failed_attempt_def completed_def)
next
  case False
  have "achieves (sees i e a) (flow_return e) (at_status i ts)"
    by (rule achieves_return) (simp add: sees_def at_status_def ts(2)[OF False])
  then show ?thesis using False by (auto simp: release_failed_def failed_attempt_def completed_def)
qed

lemma release_phase_achieves:
  "achieves (\<lambda>s c. at_row i e0 s c \<and> (b \<longrightarrow> (\<exists>e. finished i e ''failed'' s c))) (release_phase env i now)
     (at_status i (if b then past_work else UNIV))" (is "achieves ?P _ (at_status i ?ts)")
  unfolding release_phase_def release_failed_def[symmetric]
proof (rule achieves_with_row, rule achieves_if)
  fix e :: execution
  show "achieves (\<lambda>s c. ?P s c \<and> row_of s i = Some e) (flow_return e) (at_status i ?ts)" if "ex_status e \<noteq> ''executing''"
    by (rule achieves_return) (use that in \<open>auto simp: at_row_def at_status_def finished_def\<close>)
  assume i: "ex_execution_id e = i" and "\<not> ex_status e \<noteq> ''executing''"
  then have st: "ex_status e = ''executing''" by simp
  have release: "achieves (\<lambda>s c. (?P s c \<and> row_of s i = Some e) \<and> attempt_of s i = Some a) (release_failed env e a now)
      (at_status i ?ts)" for a
  proof (rule achieves_assume[where F = "\<not> failed_attempt a \<longrightarrow> ?ts = UNIV"])
    show "\<not> failed_attempt a \<longrightarrow> ?ts = UNIV" if "(?P s c \<and> row_of s i = Some e) \<and> attempt_of s i = Some a" for s c
      using that by (auto simp: finished_def failed_attempt_def)
    show "achieves (\<lambda>s c. (?P s c \<and> row_of s i = Some e) \<and> attempt_of s i = Some a) (release_failed env e a now)
        (at_status i ?ts)" if "\<not> failed_attempt a \<longrightarrow> ?ts = UNIV"
      by (rule achieves_pre[OF release_failed_achieves[OF i st]]) (use that in \<open>simp_all add: sees_def\<close>)
  qed
  show "achieves (\<lambda>s c. ?P s c \<and> row_of s i = Some e) (flow_bind (query (get_provider_attempt_for_execution i)) (\<lambda>a.
     flow_bind (release_failed env e a now) (\<lambda>_. query (get_execution i)))) (at_status i ?ts)"
    by (rule achieves_with_attempt, rule achieves_bind[OF release], rule achieves_read_status) blast
qed

section \<open>Settlement\<close>

lemma succeed_achieves:
  assumes "ex_execution_id e = i" and "''succeeded'' \<in> ts"
  shows "achieves (\<lambda>s c. \<exists>r. receipt_of s i = Some r \<and> rcp_settled_at r \<noteq> None) (succeed env e now p a) (at_status i ts)"
  unfolding succeed_def by (rule achieves_to_status[OF assms(1) _ assms(2)]) (simp add: target_ok_def)

lemma settle_call_achieves:
  assumes i: "ex_execution_id e = i"
  shows "achieves (\<lambda>s c. row_of s i = Some e \<and> receipt_of s i = Some r)
    (settle_call env e (rcp_receipt_id r) (rcp_settlement_units r))
    (\<lambda>x s c. (row_of s i = Some e \<and> receipt_of s i = Some r)
       \<and> (is_ok x \<longrightarrow> SettleCall i (rcp_receipt_id r) (rcp_settlement_units r) True \<in> set c))"
  unfolding settle_call_def i
proof (rule achieves_call_outside)
  fix s c and x :: "activity_error + string"
  assume cons: "consistent s c" and P: "row_of s i = Some e \<and> receipt_of s i = Some r"
  show "safe_step s c s (c @ [SettleCall i (rcp_receipt_id r) (rcp_settlement_units r) (is_ok x)])
      \<and> (row_of s i = Some e \<and> receipt_of s i = Some r)
      \<and> (is_ok x \<longrightarrow> SettleCall i (rcp_receipt_id r) (rcp_settlement_units r) True
            \<in> set (c @ [SettleCall i (rcp_receipt_id r) (rcp_settlement_units r) (is_ok x)]))"
    using settle_call_safe[OF cons conjunct1[OF P] conjunct2[OF P] refl refl] P by simp
qed

lemma complete_receipt_achieves:
  "achieves (\<lambda>s c. receipt_of s i = Some r
      \<and> SettleCall i (rcp_receipt_id r) (rcp_settlement_units r) True \<in> set c)
    (commit (complete_receipt (rcp_receipt_id r) settlement now))
    (\<lambda>_ s c. \<exists>r. receipt_of s i = Some r \<and> rcp_settled_at r \<noteq> None)"
proof (rule achieves_commit)
  fix s c u s'
  assume cons: "consistent s c" and P: "receipt_of s i = Some r
      \<and> SettleCall i (rcp_receipt_id r) (rcp_settlement_units r) True \<in> set c"
    and up: "complete_receipt (rcp_receipt_id r) settlement now s = Inr (u, s')"
  show "safe_step s c s' c \<and> (\<exists>r. receipt_of s' i = Some r \<and> rcp_settled_at r \<noteq> None)"
    using complete_receipt_safe[OF cons conjunct1[OF P] up conjunct2[OF P]] by simp
qed

lemma settle_answer_achieves:
  assumes i: "ex_execution_id e = i" and ts: "{''succeeded'', ''reconciliation_required''} \<subseteq> ts"
    and r: "rcp_receipt_id r0 = rcp_receipt_id r" "rcp_settlement_units r0 = rcp_settlement_units r"
  shows "achieves (\<lambda>s c. (row_of s i = Some e \<and> receipt_of s i = Some r)
       \<and> (is_ok x \<longrightarrow> SettleCall i (rcp_receipt_id r) (rcp_settlement_units r) True \<in> set c))
    (settle_answer env e r0 now x) (at_status i ts)"
proof (cases x)
  case (Inl err)
  then show ?thesis using achieves_hold_status[OF i] ts by (simp add: settle_answer_def)
next
  case (Inr settlement)
  have "achieves (\<lambda>s c. receipt_of s i = Some r \<and> SettleCall i (rcp_receipt_id r) (rcp_settlement_units r) True \<in> set c)
      (flow_bind (commit (complete_receipt (rcp_receipt_id r) settlement now)) (\<lambda>_. succeed env e now None None))
      (at_status i ts)"
    by (rule achieves_bind[OF complete_receipt_achieves succeed_achieves[OF i]]) (use ts in simp)
  then show ?thesis using Inr r(1) by (auto simp: settle_answer_def intro: achieves_pre)
qed

lemma deliver_receipt_achieves:
  assumes i: "ex_execution_id e = i" and ts: "{''succeeded'', ''reconciliation_required''} \<subseteq> ts"
    and amount: "amount = rcp_settlement_units r"
  shows "achieves (\<lambda>s c. row_of s i = Some e \<and> receipt_of s i = Some r) (deliver_receipt env e r amount now) (at_status i ts)"
  unfolding deliver_receipt_def amount
proof (intro achieves_if achieves_hold_status[OF i])
  show "achieves (\<lambda>s c. row_of s i = Some e \<and> receipt_of s i = Some r) (succeed env e now None None) (at_status i ts)"
    if "rcp_settled_at r \<noteq> None"
    by (rule achieves_pre[OF succeed_achieves[OF i]]) (use that ts in auto)
  show "''reconciliation_required'' \<in> ts" using ts by simp
  let ?r = "r\<lparr>rcp_transmission_started_at := Some now\<rparr>"
  have mark: "achieves (\<lambda>s c. row_of s i = Some e \<and> receipt_of s i = Some r)
      (commit (begin_settlement_transmission (rcp_receipt_id r) now))
      (\<lambda>_ s c. row_of s i = Some e \<and> receipt_of s i = Some ?r)"
  proof (rule achieves_commit)
    fix s c u s'
    assume cons: "consistent s c" and P: "row_of s i = Some e \<and> receipt_of s i = Some r"
      and up: "begin_settlement_transmission (rcp_receipt_id r) now s = Inr (u, s')"
    show "safe_step s c s' c \<and> row_of s' i = Some e \<and> receipt_of s' i = Some ?r"
      using begin_settlement_transmission_safe[OF cons conjunct2[OF P] up] P by simp
  qed
  have send: "achieves (\<lambda>s c. row_of s i = Some e \<and> receipt_of s i = Some ?r)
      (flow_bind (settle_call env e (rcp_receipt_id r) (rcp_settlement_units r)) (settle_answer env e r now)) (at_status i ts)"
    using achieves_bind[OF settle_call_achieves[OF i, of ?r] settle_answer_achieves[OF i ts, of r ?r]] by simp
  show "achieves (\<lambda>s c. row_of s i = Some e \<and> receipt_of s i = Some r)
      (flow_bind (commit (begin_settlement_transmission (rcp_receipt_id r) now)) (\<lambda>_.
        flow_bind (settle_call env e (rcp_receipt_id r) (rcp_settlement_units r)) (settle_answer env e r now))) (at_status i ts)"
    by (rule achieves_bind[OF mark send])
qed

lemma existing_or_new_receipt_achieves:
  assumes "crp_execution_id params = i" and "crp_settled_at params = None" and st: "ex_status e = ''settling''"
  shows "achieves (sees i e a) (existing_or_new_receipt env i params) (\<lambda>r s c. sees i e a s c \<and> receipt_of s i = Some r)"
  unfolding existing_or_new_receipt_def
proof (rule achieves_bind[OF achieves_try_query])
  fix r
  have create: "achieves (sees i e a) (commit_returning (create_receipt (env_secrets env) params))
      (\<lambda>r s c. sees i e a s c \<and> receipt_of s i = Some r)"
    by (rule achieves_commit_returning[OF create_receipt_returns])
      (use create_receipt_safe[OF _ _ assms(1,2) _ st] in \<open>auto simp: sees_def\<close>)
  show "achieves (\<lambda>s c. sees i e a s c \<and> get_receipt_for_execution i s = r) (case r of
       Inr receipt \<Rightarrow> flow_return receipt
     | Inl e \<Rightarrow> if e = RowNotFound then commit_returning (create_receipt (env_secrets env) params) else flow_error e)
      (\<lambda>r s c. sees i e a s c \<and> receipt_of s i = Some r)"
  proof (cases r)
    case (Inl err)
    then show ?thesis using create by (auto intro: achieves_pre achieves_error)
  next
    case (Inr receipt)
    then show ?thesis by (auto simp: get_receipt_for_execution_def res_simps intro: achieves_return)
  qed
qed

lemma settle_attempt_achieves:
  assumes i: "ex_execution_id e = i" and st: "ex_status e = ''settling''"
    and ts: "{''succeeded'', ''reconciliation_required''} \<subseteq> ts"
    and snapshot: "ex_pricing_snapshot e = Some snapshot" and usage: "pa_usage a = Some usage"
  shows "achieves (sees i e a) (settle_attempt env e a snapshot usage now) (at_status i ts)"
proof -
  obtain calculated where c: "attempt_settlement snapshot a usage (ex_authorized_units e) = Some calculated"
    using settlement_total by (force simp: attempt_settlement_def)
  have eq: "settle_attempt env e a snapshot usage now = (case calculated of
       Inl err \<Rightarrow>
         hold env e (if err = SettlementOverage then ''settlement_over_authorization'' else ''invalid_provider_usage'')
           now None None (Some OutcomeAmbiguous)
     | Inr settlement \<Rightarrow>
         flow_bind (existing_or_new_receipt env (ex_execution_id e)
             (settlement_receipt_params (ex_execution_id e) a snapshot settlement now)) (\<lambda>receipt.
         deliver_receipt env e receipt (pst_budget_units settlement) now))"
    by (rule ext) (simp add: settle_attempt_def c split: sum.splits)
  show ?thesis
  proof (cases calculated)
    case (Inl err)
    then show ?thesis using achieves_hold_status[OF i] ts by (simp add: eq)
  next
    case (Inr settlement)
    have deliver: "achieves (\<lambda>s c. sees i e a s c \<and> receipt_of s i = Some r)
        (deliver_receipt env e r (pst_budget_units settlement) now) (at_status i ts)" for r
    proof (rule achieves_assume[where F = "pst_budget_units settlement = rcp_settlement_units r"])
      show "pst_budget_units settlement = rcp_settlement_units r"
        if "consistent s c" "sees i e a s c \<and> receipt_of s i = Some r" for s c
        using consistentD(2)[OF that(1), of i e] that(2) snapshot usage c Inr
        by (auto simp: sees_def lifecycle_ok_def attempt_and_receipt_ok_def receipt_ok_def receipt_priced_def)
      show "achieves (\<lambda>s c. sees i e a s c \<and> receipt_of s i = Some r)
          (deliver_receipt env e r (pst_budget_units settlement) now) (at_status i ts)"
        if "pst_budget_units settlement = rcp_settlement_units r"
        by (rule achieves_pre[OF deliver_receipt_achieves[OF i ts that]]) (simp add: sees_def)
    qed
    have "achieves (sees i e a) (flow_bind (existing_or_new_receipt env i (settlement_receipt_params i a snapshot settlement now))
        (\<lambda>receipt. deliver_receipt env e receipt (pst_budget_units settlement) now)) (at_status i ts)"
      by (rule achieves_bind[OF existing_or_new_receipt_achieves deliver]) (simp_all add: settlement_receipt_params_def st)
    with Inr show ?thesis by (simp add: eq i)
  qed
qed

lemma settlement_phase_achieves:
  assumes "ex_status e0 = ''settling'' \<Longrightarrow> ts = {''succeeded'', ''reconciliation_required''}"
    and "ex_status e0 \<noteq> ''settling'' \<Longrightarrow> ts = UNIV"
  shows "achieves (at_row i e0) (settlement_phase env i now) (at_status i ts)"
  unfolding settlement_phase_def
proof (rule achieves_with_row, rule achieves_if)
  fix e :: execution
  let ?P = "\<lambda>s c. at_row i e0 s c \<and> row_of s i = Some e"
  have ts: "{''succeeded'', ''reconciliation_required''} \<subseteq> ts" using assms by auto
  show "achieves ?P (flow_return e) (at_status i ts)" if "ex_status e \<noteq> ''settling''"
    by (rule achieves_return) (use that assms(2) in \<open>auto simp: at_row_def at_status_def\<close>)
  assume i: "ex_execution_id e = i" and "\<not> ex_status e \<noteq> ''settling''"
  then have st: "ex_status e = ''settling''" by simp
  have settle: "achieves (\<lambda>s c. ((?P s c \<and> attempt_of s i = Some a)
        \<and> ok_or (InvalidRow ''pricing snapshot'') (ex_pricing_snapshot e) = Inr snapshot)
        \<and> ok_or (InvalidRow ''attempt usage'') (pa_usage a) = Inr usage)
      (settle_attempt env e a snapshot usage now) (at_status i ts)" for a snapshot usage
    by (rule achieves_assume[where F = "ex_pricing_snapshot e = Some snapshot \<and> pa_usage a = Some usage"],
        simp add: res_simps, rule achieves_pre[OF settle_attempt_achieves[OF i st ts]]) (auto simp: sees_def)
  show "achieves ?P (flow_bind (query (get_provider_attempt_for_execution i)) (\<lambda>a.
     flow_bind (query (\<lambda>_. ok_or (InvalidRow ''pricing snapshot'') (ex_pricing_snapshot e))) (\<lambda>snapshot.
     flow_bind (query (\<lambda>_. ok_or (InvalidRow ''attempt usage'') (pa_usage a))) (\<lambda>usage.
     if pa_failure_code a \<notin> {None, Some ''pack_response_cost_missing''}
     then hold env e (or_empty (pa_failure_code a)) now None None (Some OutcomeAmbiguous)
     else settle_attempt env e a snapshot usage now)))) (at_status i ts)"
    by (intro achieves_with_attempt achieves_bind[OF achieves_query] achieves_if achieves_hold_status[OF i] settle)
      (use ts in simp)
qed

end
