(* ===== verification/Gongbu_Recovery.thy ===== *)
theory Gongbu_Recovery
  imports Gongbu_Settlement_Phases
begin

text \<open>
  Recovery and the loop: a recovery keeps the lifecycle of every execution, whatever an operator asks for, and
  the loop over the status returns in a terminal one.
\<close>

section \<open>Phases from any state\<close>

text \<open>A flow that returns from every consistent world and keeps it consistent.\<close>

definition safe_flow :: "'a flow \<Rightarrow> bool" where
  "safe_flow m \<longleftrightarrow> achieves (\<lambda>_ _. True) m (\<lambda>_ _ _. True)"

lemma safe_flow_any_row:
  assumes m: "m = flow_bind (query (get_execution i)) f" and some: "\<And>e. achieves (at_row i e) m (Q e)"
  shows "safe_flow m"
  unfolding safe_flow_def
proof (rule achieves_any_row[OF m])
  fix e
  have "achieves (at_row i e) m (\<lambda>_ _ _. True)" by (rule achieves_post[OF some]) simp
  then show "achieves (\<lambda>s c. row_of s i = Some e) m (\<lambda>_ _ _. True)" by (simp add: at_row_def[abs_def])
qed

lemma safe_flow_achieves: "safe_flow m \<Longrightarrow> achieves P m (\<lambda>_ _ _. True)"
  unfolding safe_flow_def by (rule achieves_pre) simp_all

lemma safe_flow_bind: "safe_flow m \<Longrightarrow> (\<And>x. safe_flow (f x)) \<Longrightarrow> safe_flow (flow_bind m f)"
  unfolding safe_flow_def by (rule achieves_bind)

lemma safe_flow_reads [simp]: "safe_flow (flow_return x)" "safe_flow (flow_error err)" "safe_flow (query q)"
  "safe_flow (clock env)"
  unfolding safe_flow_def
  by (rule achieves_return achieves_error achieves_post[OF achieves_query] achieves_clock; simp)+

text \<open>The statuses a phase may leave, when it starts in its own status and when it does not.\<close>

definition if_in :: "string \<Rightarrow> string set \<Rightarrow> execution \<Rightarrow> string set" where
  "if_in st ts e = (if ex_status e = st then ts else UNIV)"

lemma if_in_simps [simp]: "ex_status e = st \<Longrightarrow> if_in st ts e = ts" "ex_status e \<noteq> st \<Longrightarrow> if_in st ts e = UNIV"
  by (simp_all add: if_in_def)

lemma safe_phases:
  "safe_flow (preflight_phase env i now)" "safe_flow (claim_phase env i now)" "safe_flow (validate_claim_phase env i now)"
  "safe_flow (provider_submit_phase env i now)" "safe_flow (provider_poll_phase env i now)"
  "safe_flow (artifact_phase env i now)" "safe_flow (release_phase env i now)" "safe_flow (settlement_phase env i now)"
proof -
  show "safe_flow (preflight_phase env i now)"
    by (rule safe_flow_any_row[OF preflight_phase_def, where Q = "\<lambda>e. at_status i (if_in ''pending'' {''preflighting'', ''failed''} e)"],
      rule preflight_phase_achieves) simp_all
  show "safe_flow (claim_phase env i now)"
    by (rule safe_flow_any_row[OF claim_phase_def, where Q = "\<lambda>e. at_status i (if_in ''preflighting'' {''claimed'', ''failed'', ''reconciliation_required''} e)"],
      rule claim_phase_achieves) simp_all
  show "safe_flow (validate_claim_phase env i now)"
    by (rule safe_flow_any_row[OF validate_claim_phase_def, where Q = "\<lambda>e. at_status i (if_in ''claimed'' {''executing'', ''reconciliation_required''} e)"],
      rule validate_claim_phase_achieves) simp_all
  show "safe_flow (settlement_phase env i now)"
    by (rule safe_flow_any_row[OF settlement_phase_def, where Q = "\<lambda>e. at_status i (if_in ''settling'' {''succeeded'', ''reconciliation_required''} e)"],
      rule settlement_phase_achieves) simp_all
  show "safe_flow (provider_submit_phase env i now)"
    by (rule safe_flow_any_row[OF provider_submit_phase_def[unfolded provider_phase_with_def]])
      (rule provider_submit_phase_achieves)
  show "safe_flow (provider_poll_phase env i now)"
    by (rule safe_flow_any_row[OF provider_poll_phase_def[unfolded provider_phase_with_def]])
      (rule provider_poll_phase_achieves)
  show "safe_flow (artifact_phase env i now)"
    by (rule safe_flow_any_row[OF artifact_phase_def])
      (rule achieves_pre[OF artifact_phase_achieves[where b = False]], simp)
  show "safe_flow (release_phase env i now)"
    by (rule safe_flow_any_row[OF release_phase_def])
      (rule achieves_pre[OF release_phase_achieves[where b = False]], simp)
qed

lemma safe_provider_phase: "safe_flow (provider_phase env i now)"
  unfolding provider_phase_def by (auto intro!: safe_flow_bind safe_phases)

section \<open>Recovery\<close>

lemma safe_resume: "safe_flow (resume_reopened_provider_poll env i now)"
  unfolding resume_reopened_provider_poll_def
  by (auto intro!: safe_flow_bind safe_phases split: provider_phase_outcome.splits)

text \<open>An execution that is held, with the rows a recovery read.\<close>

definition held :: "string \<Rightarrow> execution \<Rightarrow> provider_attempt option \<Rightarrow> receipt_row option \<Rightarrow> assertion" where
  "held i e attempt receipt s c \<longleftrightarrow>
     row_of s i = Some e \<and> ex_status e = ''reconciliation_required'' \<and> attempt_of s i = attempt \<and> receipt_of s i = receipt"

lemma held_id: "consistent s c \<Longrightarrow> held i e attempt receipt s c \<Longrightarrow> ex_execution_id e = i"
  by (auto simp: held_def dest: row_id[OF consistentD(1)])

lemma optional_row_achieves:
  assumes "\<And>s. q s = ok_or RowNotFound (v s)"
  shows "achieves P (optional_row (query q)) (\<lambda>r s c. P s c \<and> v s = r)"
  unfolding optional_row_def
proof (rule achieves_bind[OF achieves_try_query])
  fix r
  show "achieves (\<lambda>s c. P s c \<and> q s = r) (case r of Inr v \<Rightarrow> flow_return (Some v)
     | Inl e \<Rightarrow> if e = RowNotFound then flow_return None else flow_error e) (\<lambda>r s c. P s c \<and> v s = r)"
    by (cases r) (auto simp: assms res_simps intro: achieves_return achieves_error)
qed

lemma recover_claim_achieves:
  assumes i: "ex_execution_id e = i"
  shows "achieves (held i e attempt receipt) (recover_claim env e attempt now)
    (\<lambda>r s c. \<forall>e'. r = Some e' \<longrightarrow> held i e' attempt receipt s c)"
proof -
  let ?Q = "\<lambda>r s c. \<forall>e'. r = Some e' \<longrightarrow> held i e' attempt receipt s c"
  have set_claim: "achieves (\<lambda>s c. held i e attempt receipt s c \<and> ClaimCall i True \<in> set c)
      (commit (set_reconciliation_claim i (ex_version e) claim now)) (\<lambda>e. held i e attempt receipt)" for claim
  proof (rule achieves_commit)
    fix s c x s'
    assume cons: "consistent s c" and P: "held i e attempt receipt s c \<and> ClaimCall i True \<in> set c"
      and up: "set_reconciliation_claim i (ex_version e) claim now s = Inr (x, s')"
    show "safe_step s c s' c \<and> held i x attempt receipt s' c"
      using set_reconciliation_claim_safe[OF cons up] P by (simp add: held_def)
  qed
  have report: "achieves (held i e' attempt receipt)
      (commit (record_reconciliation (env_evidence_rejected env) e' ''claim_recovered'' now)) (\<lambda>_. held i e' attempt receipt)" for e'
    by (rule achieves_commit) (simp add: held_def safe_step_beside[OF _ record_reconciliation_beside])
  have answer: "achieves (\<lambda>s c. held i e attempt receipt s c \<and> (is_ok r \<longrightarrow> ClaimCall i True \<in> set c))
      (recovered_claim env e now r) ?Q" for r
  proof (cases r)
    case (Inl err)
    then show ?thesis by (auto simp: recovered_claim_def intro: achieves_return)
  next
    case (Inr claim)
    have "achieves (\<lambda>s c. held i e attempt receipt s c \<and> ClaimCall i True \<in> set c) (recovered_claim env e now r) ?Q"
      unfolding recovered_claim_def Inr sum.case i
      by (rule achieves_bind[OF set_claim], rule achieves_bind[OF report], rule achieves_return) simp
    with Inr show ?thesis by simp
  qed
  have "achieves (held i e attempt receipt) (flow_bind (hubu_claim env e) (recovered_claim env e now)) ?Q"
    by (rule achieves_bind[OF hubu_claim_achieves[OF i] answer]) (simp_all add: held_def)
  then show ?thesis by (auto simp: recover_claim_def intro: achieves_return)
qed

lemma reopen_poll_achieves:
  assumes i: "ex_execution_id e = i"
  shows "achieves (held i e attempt receipt) (reopen_poll env e attempt requested now)
    (\<lambda>reopened s c. \<not> reopened \<longrightarrow> held i e attempt receipt s c)"
proof (cases attempt)
  case None
  then show ?thesis by (simp add: reopen_poll_def achieves_return)
next
  case (Some a)
  have "achieves (held i e attempt receipt) (flow_try (commit (begin_provider_reconciliation_poll (env_unix_millis env) i
      (pa_provider_attempt_id a) (ex_version e) now))) (\<lambda>r s c. \<not> is_ok r \<longrightarrow> held i e attempt receipt s c)"
    by (rule achieves_try_commit) (simp_all add: begin_provider_reconciliation_poll_safe)
  then have reopened: "achieves (held i e attempt receipt)
      (flow_bind (flow_try (commit (begin_provider_reconciliation_poll (env_unix_millis env) i
        (pa_provider_attempt_id a) (ex_version e) now))) (\<lambda>r. flow_return (is_ok r)))
      (\<lambda>reopened s c. \<not> reopened \<longrightarrow> held i e attempt receipt s c)"
    by (rule achieves_bind) (rule achieves_return)
  show ?thesis unfolding reopen_poll_def Some option.case i
    by (rule achieves_if, rule reopened[unfolded Some], rule achieves_return) simp
qed

lemma replay_settlement_achieves:
  assumes i: "ex_execution_id e = i"
  shows "achieves (held i e attempt (Some r)) (replay_settlement env e r now) (\<lambda>_ _ _. True)"
proof -
  let ?paid = "\<lambda>s c. \<exists>r. receipt_of s i = Some r \<and> rcp_settled_at r \<noteq> None"
  have settled: "achieves (\<lambda>s c. receipt_of s i = Some r \<and> SettleCall i (rcp_receipt_id r) (rcp_settlement_units r) True \<in> set c)
      (if rcp_settled_at r = None then commit (complete_receipt (rcp_receipt_id r) settlement now) else flow_return ())
      (\<lambda>_. ?paid)" for settlement
    by (rule achieves_if[OF complete_receipt_achieves]) (rule achieves_return, auto)
  have "achieves (\<lambda>s c. (row_of s i = Some e \<and> receipt_of s i = Some r)
       \<and> (is_ok x \<longrightarrow> SettleCall i (rcp_receipt_id r) (rcp_settlement_units r) True \<in> set c))
      (replay_answer env e r now x) (\<lambda>_ _ _. True)" for x
  proof (cases x)
    case (Inl err)
    then show ?thesis by (simp add: replay_answer_def achieves_return)
  next
    case (Inr settlement)
    have "achieves ?paid (succeed env e now p a) (\<lambda>_ _ _. True)" for p a
      by (rule achieves_post[OF succeed_achieves[OF i, of UNIV]]) simp_all
    from achieves_bind[OF settled this] show ?thesis unfolding replay_answer_def Inr sum.case
      by (rule achieves_pre) (auto simp: Inr)
  qed
  then have "achieves (\<lambda>s c. row_of s i = Some e \<and> receipt_of s i = Some r) (replay_settlement env e r now) (\<lambda>_ _ _. True)"
    unfolding replay_settlement_def by (rule achieves_bind[OF settle_call_achieves[OF i]])
  then show ?thesis by (rule achieves_pre) (simp add: held_def)
qed

lemma recover_release_achieves:
  assumes i: "ex_execution_id e = i"
  shows "achieves (held i e attempt receipt) (recover_release env e attempt requested now) (\<lambda>_ _ _. True)"
  unfolding recover_release_def
proof (rule achieves_if)
  assume safe: "safe_release e attempt \<and> requested \<noteq> Some Settle"
  have call: "achieves (held i e attempt receipt) (release_call env e) (\<lambda>r s c. is_ok r \<longrightarrow> ReleaseCall i True \<in> set c)"
    unfolding release_call_def i
  proof (rule achieves_call_outside)
    fix s c and r :: "activity_error + unit"
    assume cons: "consistent s c" and h: "held i e attempt receipt s c"
    have row: "row_of s i = Some e" using h by (simp add: held_def)
    have "release_justified e (attempt_of s i)"
      using safe h by (auto simp: held_def safe_release_def release_justified_def transmitted_def failed_attempt_def
          completed_def split: option.splits)
    moreover have "ex_hubu_claim_id e \<noteq> None"
      using safe h consistentD(2)[OF cons row]
      by (auto simp: held_def safe_release_def lifecycle_ok_def claim_ok_def split: option.splits)
    ultimately show "safe_step s c s (c @ [ReleaseCall i (is_ok r)])
        \<and> (is_ok r \<longrightarrow> ReleaseCall i True \<in> set (c @ [ReleaseCall i (is_ok r)]))"
      using release_call_safe[OF cons row] by simp
  qed
  have answer: "achieves (\<lambda>s c. is_ok r \<longrightarrow> ReleaseCall i True \<in> set c) (if is_ok r
        then transition env e ''released'' (Some ''recovered_release'') now
               (map_option (\<lambda>_. OutcomeFailed) attempt) None (Some OutcomeReleased)
        else flow_return e) (\<lambda>_ _ _. True)" for r :: "activity_error + unit"
    by (rule achieves_if, rule achieves_post[OF achieves_to_status[OF i, of _ _ UNIV]])
      (auto simp: target_ok_def intro: achieves_return)
  show "achieves (held i e attempt receipt) (flow_bind (release_call env e) (\<lambda>r. if is_ok r
        then transition env e ''released'' (Some ''recovered_release'') now
               (map_option (\<lambda>_. OutcomeFailed) attempt) None (Some OutcomeReleased)
        else flow_return e)) (\<lambda>_ _ _. True)"
    by (rule achieves_bind[OF call answer])
qed (rule achieves_return, simp)

lemma recover_claimed_achieves:
  assumes i: "ex_execution_id e = i"
  shows "achieves (held i e attempt receipt) (recover_claimed env e now requested attempt receipt) (\<lambda>_ _ _. True)"
proof -
  have choose: "achieves (held i e attempt receipt) (case (receipt, replays) of
            (Some receipt, True) \<Rightarrow> replay_settlement env e receipt now
          | _ \<Rightarrow> recover_release env e attempt requested now) (\<lambda>_ _ _. True)" for replays
    using replay_settlement_achieves[OF i] recover_release_achieves[OF i] by (cases receipt; cases replays) auto
  show ?thesis unfolding recover_claimed_def
    by (rule achieves_bind[OF reopen_poll_achieves[OF i]], rule achieves_if, rule safe_flow_achieves[OF safe_resume],
        rule achieves_bind[OF achieves_query], rule achieves_pre[OF choose]) simp
qed

lemma recover_held_achieves:
  assumes i: "ex_execution_id e = i" and st: "ex_status e = ''reconciliation_required''"
  shows "achieves (at_row i e) (recover_held env e now requested) (\<lambda>_ _ _. True)"
proof -
  have claimed: "achieves (\<lambda>s c. \<forall>e'. r = Some e' \<longrightarrow> held i e' attempt receipt s c)
      (case r of None \<Rightarrow> flow_return e | Some e \<Rightarrow> recover_claimed env e now requested attempt receipt) (\<lambda>_ _ _. True)"
    for r attempt receipt
  proof (cases r)
    case (Some e')
    have "achieves (held i e' attempt receipt) (recover_claimed env e' now requested attempt receipt) (\<lambda>_ _ _. True)"
      by (rule achieves_assume[where F = "ex_execution_id e' = i", OF held_id], assumption, assumption)
        (rule recover_claimed_achieves)
    with Some show ?thesis by simp
  qed (simp add: achieves_return)
  show ?thesis unfolding recover_held_def i
    by (rule achieves_bind[OF optional_row_achieves[where v = "\<lambda>s. attempt_of s i"]],
        simp add: get_provider_attempt_for_execution_def,
        rule achieves_bind[OF optional_row_achieves[where v = "\<lambda>s. receipt_of s i"]],
        simp add: get_receipt_for_execution_def,
        rule achieves_bind[OF achieves_pre[OF recover_claim_achieves[OF i]] claimed])
      (simp add: held_def at_row_def st)
qed

lemma operator_accepted_achieves:
  "achieves (at_row i e) (operator_accepted i now operator) (\<lambda>_. at_row i e)"
proof (cases operator)
  case (Some request)
  have "achieves (at_row i e) (commit (record_operator_action i (orr_action_id request)
      (action_name (orr_action request)) (orr_redacted_evidence request) now)) (\<lambda>_. at_row i e)"
    by (rule achieves_commit) (simp add: at_row_def safe_step_beside[OF _ record_operator_action_beside])
  with Some show ?thesis by (auto simp: operator_accepted_def intro: achieves_return)
qed (simp add: operator_accepted_def achieves_return)

lemma interrupted_reopening_achieves: "achieves P (interrupted_reopening e) (\<lambda>_. P)"
  unfolding interrupted_reopening_def
  by (rule achieves_if, rule achieves_bind[OF achieves_query]) (auto intro: achieves_return)

lemma safe_recover: "safe_flow (recover env i now operator)"
proof (rule safe_flow_any_row[OF recover_def])
  fix e0
  show "achieves (at_row i e0) (recover env i now operator) (\<lambda>_ _ _. True)"
    unfolding recover_def
  proof (rule achieves_with_row)
    fix e :: execution
    assume i: "ex_execution_id e = i"
    have accepted: "achieves (at_row i e) (if accepted then recover_held env e now (map_option orr_action operator)
        else flow_return e) (\<lambda>_ _ _. True)" if "ex_status e = ''reconciliation_required''" for accepted
      using recover_held_achieves[OF i that] by (auto intro: achieves_return)
    have rest: "achieves (at_row i e) (if reopened then resume_reopened_provider_poll env i now
     else if ex_status e = ''settling'' \<and> ex_provider_outcome e = Some OutcomeSucceeded then settlement_phase env i now
     else if ex_status e \<noteq> ''reconciliation_required'' then flow_return e
     else flow_bind (operator_accepted i now operator) (\<lambda>accepted.
          if accepted then recover_held env e now (map_option orr_action operator) else flow_return e)) (\<lambda>_ _ _. True)"
      for reopened
      by (intro achieves_if safe_flow_achieves safe_resume safe_phases(8) achieves_return
          achieves_bind[OF operator_accepted_achieves accepted]) simp_all
    show "achieves (\<lambda>s c. at_row i e0 s c \<and> row_of s i = Some e) (flow_bind (interrupted_reopening e) (\<lambda>reopened.
     if reopened then resume_reopened_provider_poll env i now
     else if ex_status e = ''settling'' \<and> ex_provider_outcome e = Some OutcomeSucceeded then settlement_phase env i now
     else if ex_status e \<noteq> ''reconciliation_required'' then flow_return e
     else flow_bind (operator_accepted i now operator) (\<lambda>accepted.
          if accepted then recover_held env e now (map_option orr_action operator) else flow_return e))) (\<lambda>_ _ _. True)"
      by (rule achieves_bind[OF interrupted_reopening_achieves achieves_pre[OF rest]]) (auto simp: at_row_def)
  qed
qed

end
