(* ===== verification/Gongbu_Loop.thy ===== *)
theory Gongbu_Loop
  imports Gongbu_Recovery
begin

text \<open>
  The loop over the status: every turn that does not end it takes the status of the execution forward, so that the
  loop returns, in a terminal status.
\<close>

section \<open>A turn\<close>

definition past_rank :: "string \<Rightarrow> nat \<Rightarrow> assertion" where
  "past_rank i n = reaches i (\<lambda>st. n < status_rank st)"

lemma at_status_past_rank:
  "at_status i ts e s c \<Longrightarrow> (\<And>st. st \<in> ts \<Longrightarrow> n < status_rank st) \<Longrightarrow> past_rank i n s c"
  by (auto simp: at_status_def past_rank_def reaches_def)

lemma past_work_rank: "st \<in> past_work \<Longrightarrow> 3 < status_rank st"
  by (auto simp: past_work_def status_rank_def)

lemma achieves_ignoring:
  assumes "achieves P m (at_status i ts)" and "\<And>st. st \<in> ts \<Longrightarrow> n < status_rank st"
  shows "achieves P (flow_bind m (\<lambda>_ :: execution. flow_return ())) (\<lambda>_. past_rank i n)"
  by (rule achieves_bind[OF assms(1) achieves_return], rule at_status_past_rank[OF _ assms(2)])

text \<open>A phase that starts from a row that is not named any more.\<close>

lemma achieves_from_some_row:
  assumes "\<And>e. achieves (\<lambda>s c. at_row i e s c \<and> P e s c) m Q"
  shows "achieves (\<lambda>s c. \<exists>e. at_row i e s c \<and> P e s c) m Q"
  by (rule achieves_exists) (rule assms)

lemma artifacts_follow:
  "achieves (phase_outcome i True b PersistArtifacts)
     (flow_bind (clock env) (\<lambda>t. flow_bind (artifact_phase env i t) (\<lambda>_. flow_return ()))) (\<lambda>_. past_rank i 3)"
proof (rule achieves_bind[OF achieves_clock], rule achieves_ignoring[where ts = past_work])
  fix t
  have "achieves (\<lambda>s c. \<exists>e. at_row i e s c \<and> finished i e ''succeeded'' s c) (artifact_phase env i t) (at_status i past_work)"
    by (rule achieves_from_some_row,
        rule achieves_pre[OF artifact_phase_achieves[where b = True, unfolded if_True]]) blast
  then show "achieves (phase_outcome i True b PersistArtifacts) (artifact_phase env i t) (at_status i past_work)"
    by (rule achieves_pre) (auto simp: phase_outcome_def finished_def at_row_def)
qed (rule past_work_rank)

lemma release_follows:
  "achieves (phase_outcome i True b ReleaseAuthorization)
     (flow_bind (clock env) (\<lambda>t. flow_bind (release_phase env i t) (\<lambda>_. flow_return ()))) (\<lambda>_. past_rank i 3)"
proof (rule achieves_bind[OF achieves_clock], rule achieves_ignoring[where ts = past_work])
  fix t
  have "achieves (\<lambda>s c. \<exists>e. at_row i e s c \<and> finished i e ''failed'' s c) (release_phase env i t) (at_status i past_work)"
    by (rule achieves_from_some_row,
        rule achieves_pre[OF release_phase_achieves[where b = True, unfolded if_True]]) blast
  then show "achieves (phase_outcome i True b ReleaseAuthorization) (release_phase env i t) (at_status i past_work)"
    by (rule achieves_pre) (auto simp: phase_outcome_def finished_def at_row_def)
qed (rule past_work_rank)

lemma poll_follows:
  "achieves (phase_outcome i True True outcome)
     (if outcome = PollExisting then flow_bind (clock env) (provider_poll_phase env i) else flow_return outcome)
     (phase_outcome i True False)"
proof (rule achieves_if)
  assume poll: "outcome = PollExisting"
  have "achieves (\<lambda>s c. \<exists>e. at_row i e s c \<and> ex_status e = ''executing'') (provider_poll_phase env i t)
      (phase_outcome i True False)" for t
  proof (rule achieves_from_some_row)
    fix e :: execution
    show "achieves (\<lambda>s c. at_row i e s c \<and> ex_status e = ''executing'') (provider_poll_phase env i t)
        (phase_outcome i True False)"
    proof (rule achieves_assume[where F = "ex_status e = ''executing''"])
      assume "ex_status e = ''executing''"
      then show "achieves (\<lambda>s c. at_row i e s c \<and> ex_status e = ''executing'') (provider_poll_phase env i t)
        (phase_outcome i True False)"
        using achieves_pre[OF provider_poll_phase_achieves[of i e env t]] by simp
    qed blast
  qed
  then have "achieves (phase_outcome i True True outcome) (provider_poll_phase env i t) (phase_outcome i True False)" for t
    by (rule achieves_pre) (auto simp: poll at_status_def at_row_def)
  then show "achieves (phase_outcome i True True outcome) (flow_bind (clock env) (provider_poll_phase env i))
      (phase_outcome i True False)" by (rule achieves_bind[OF achieves_clock])
next
  assume "outcome \<noteq> PollExisting"
  then show "achieves (phase_outcome i True True outcome) (flow_return outcome) (phase_outcome i True False)"
    by (intro achieves_return) (cases outcome; simp add: phase_outcome_def)
qed

lemma provider_and_following_phase_achieves:
  assumes "ex_status e = ''executing''"
  shows "achieves (at_row i e) (provider_and_following_phase env i now) (\<lambda>_. past_rank i 3)"
  unfolding provider_and_following_phase_def
proof (rule achieves_bind[OF provider_submit_phase_achieves[where ?e0.0 = e]], rule achieves_bind)
  fix outcome
  show "achieves (phase_outcome i (ex_status e = ''executing'') True outcome)
     (if outcome = PollExisting then flow_bind (clock env) (provider_poll_phase env i) else flow_return outcome)
     (phase_outcome i True False)" using poll_follows assms by simp
next
  fix outcome
  show "achieves (phase_outcome i True False outcome) (case outcome of
       PersistArtifacts \<Rightarrow> flow_bind (clock env) (\<lambda>t. flow_bind (artifact_phase env i t) (\<lambda>_. flow_return ()))
     | ReleaseAuthorization \<Rightarrow> flow_bind (clock env) (\<lambda>t. flow_bind (release_phase env i t) (\<lambda>_. flow_return ()))
     | _ \<Rightarrow> flow_return ()) (\<lambda>_. past_rank i 3)"
  proof (cases outcome)
    case (PhaseComplete st code)
    then show ?thesis
      by (auto simp: phase_outcome_def intro!: achieves_return dest: at_status_past_rank[OF _ past_work_rank])
  next
    case PollExisting
    then show ?thesis by (simp, intro achieves_return) simp
  qed (simp_all add: artifacts_follow release_follows)
qed

lemma status_phase_achieves:
  "achieves (at_row i e) (status_phase env i now (ex_status e)) (\<lambda>_. past_rank i (status_rank (ex_status e)))"
proof -
  consider "ex_status e = ''pending''" | "ex_status e = ''preflighting''" | "ex_status e = ''claimed''"
    | "ex_status e = ''executing''" | "ex_status e = ''settling''"
    | "ex_status e \<notin> {''pending'', ''preflighting'', ''claimed'', ''executing'', ''settling''}" by blast
  then show ?thesis
  proof cases
    case 1
    then show ?thesis
      by (auto simp: status_phase_def status_rank_def intro!: 
          achieves_ignoring[OF preflight_phase_achieves[where ts = "{''preflighting'', ''failed''}"]])
  next
    case 2
    then show ?thesis
      by (auto simp: status_phase_def status_rank_def intro!: 
          achieves_ignoring[OF claim_phase_achieves[where ts = "{''claimed'', ''failed'', ''reconciliation_required''}"]])
  next
    case 3
    then show ?thesis
      by (auto simp: status_phase_def status_rank_def intro!: 
          achieves_ignoring[OF validate_claim_phase_achieves[where ts = "{''executing'', ''reconciliation_required''}"]])
  next
    case 4
    then show ?thesis using provider_and_following_phase_achieves[OF 4]
      by (simp add: status_phase_def status_rank_def)
  next
    case 5
    then show ?thesis
      by (auto simp: status_phase_def status_rank_def intro!: 
          achieves_ignoring[OF settlement_phase_achieves[where ts = "{''succeeded'', ''reconciliation_required''}"]])
  next
    case 6
    then show ?thesis by (simp add: status_phase_def achieves_error)
  qed
qed

lemma record_missing_reconciliation_achieves:
  "achieves (at_row i e) (record_missing_reconciliation env e now) (\<lambda>_. at_row i e)"
proof -
  have "achieves (at_row i e) (commit (record_reconciliation (env_evidence_rejected env) e ''reconciliation_replay'' now))
      (\<lambda>_. at_row i e)"
    by (rule achieves_commit) (simp add: at_row_def safe_step_beside[OF _ record_reconciliation_beside])
  then have written: "achieves (at_row i e)
      (flow_bind (commit (record_reconciliation (env_evidence_rejected env) e ''reconciliation_replay'' now)) (\<lambda>_. flow_return ()))
      (\<lambda>_. at_row i e)" by (rule achieves_bind) (rule achieves_return)
  show ?thesis unfolding record_missing_reconciliation_def
    by (rule achieves_bind[OF achieves_query], rule achieves_if)
      (rule achieves_pre[OF written] achieves_return; simp)+
qed

text \<open>A turn either ends the loop at a terminal row or takes the status forward.\<close>

lemma run_turn_achieves:
  "achieves (at_row i e0) (run_turn env i) (\<lambda>r s c.
     case r of Some e \<Rightarrow> row_of s i = Some e \<and> terminal (ex_status e)
     | None \<Rightarrow> past_rank i (status_rank (ex_status e0)) s c)"
  unfolding run_turn_def
proof (rule achieves_with_row)
  fix e :: execution
  let ?Q = "\<lambda>r s c. case r of Some e \<Rightarrow> row_of s i = Some e \<and> terminal (ex_status e)
     | None \<Rightarrow> past_rank i (status_rank (ex_status e0)) s c"
  let ?rest = "flow_bind (clock env) (\<lambda>now. flow_bind (record_missing_reconciliation env e now) (\<lambda>_.
     if terminal (ex_status e) then flow_return (Some e)
     else flow_bind (status_phase env i now (ex_status e)) (\<lambda>_. flow_return None)))"
  show "achieves (\<lambda>s c. at_row i e0 s c \<and> row_of s i = Some e) ?rest ?Q"
  proof (rule achieves_assume[where F = "e = e0"])
    show "e = e0" if "at_row i e0 s c \<and> row_of s i = Some e" for s c using that by (auto simp: at_row_def)
  next
    assume e: "e = e0"
    have "achieves (at_row i e) (if terminal (ex_status e) then flow_return (Some e)
        else flow_bind (status_phase env i now (ex_status e)) (\<lambda>_. flow_return None)) ?Q" for now
      by (rule achieves_if, rule achieves_return, simp add: at_row_def,
          rule achieves_bind[OF status_phase_achieves], rule achieves_return) (simp add: e)
    then have "achieves (at_row i e) ?rest ?Q"
      by (intro achieves_bind[OF achieves_clock] achieves_bind[OF record_missing_reconciliation_achieves])
    then show "achieves (\<lambda>s c. at_row i e0 s c \<and> row_of s i = Some e) ?rest ?Q"
      by (rule achieves_pre) (simp add: e)
  qed
qed

section \<open>The loop\<close>

lemma run_with_clock_unfold:
  "run_with_clock env i = flow_bind (run_turn env i) (\<lambda>r.
     case r of Some e \<Rightarrow> flow_return e | None \<Rightarrow> run_with_clock env i)"
proof (rule ext)
  fix w
  show "run_with_clock env i w = flow_bind (run_turn env i) (\<lambda>r.
     case r of Some e \<Rightarrow> flow_return e | None \<Rightarrow> run_with_clock env i) w"
  proof (cases "run_turn env i w")
    case None
    then show ?thesis by (subst run_with_clock.simps) (simp add: flow_bind_def)
  next
    case (Some p)
    then show ?thesis by (subst run_with_clock.simps)
      (cases p; auto simp: flow_bind_def flow_return_def split: sum.splits option.splits)
  qed
qed

definition ended :: "string \<Rightarrow> execution \<Rightarrow> assertion" where
  "ended i e s c \<longleftrightarrow> row_of s i = Some e \<and> terminal (ex_status e)"

lemma run_achieves_at_row: "achieves (at_row i e0) (run_with_clock env i) (ended i)"
proof (induction "5 - status_rank (ex_status e0)" arbitrary: e0 rule: less_induct)
  case less
  let ?n = "status_rank (ex_status e0)"
  have again: "achieves (past_rank i ?n) (run_with_clock env i) (ended i)"
  proof -
    have "achieves (\<lambda>s c. at_row i e s c \<and> ?n < status_rank (ex_status e)) (run_with_clock env i) (ended i)" for e
    proof (rule achieves_assume[where F = "?n < status_rank (ex_status e)"])
      assume "?n < status_rank (ex_status e)"
      moreover have "status_rank (ex_status e) \<le> 5" by (simp add: status_rank_def)
      ultimately have "achieves (at_row i e) (run_with_clock env i) (ended i)" by (intro less) linarith
      then show "achieves (\<lambda>s c. at_row i e s c \<and> ?n < status_rank (ex_status e)) (run_with_clock env i) (ended i)"
        by (rule achieves_pre) simp
    qed simp
    from achieves_from_some_row[OF this] show ?thesis
      by (rule achieves_pre) (auto simp: past_rank_def reaches_def at_row_def)
  qed
  show ?case
    by (subst run_with_clock_unfold, rule achieves_bind[OF run_turn_achieves])
      (auto simp: ended_def split: option.splits intro!: achieves_return again)
qed

lemma run_achieves: "achieves (\<lambda>_ _. True) (run_with_clock env i) (ended i)"
proof (rule achieves_any_row)
  show "run_with_clock env i = flow_bind (query (get_execution i)) (\<lambda>e.
     flow_bind (flow_bind (clock env) (\<lambda>now.
     flow_bind (record_missing_reconciliation env e now) (\<lambda>_.
     if terminal (ex_status e) then flow_return (Some e)
     else flow_bind (status_phase env i now (ex_status e)) (\<lambda>_. flow_return None))))
     (\<lambda>r. case r of Some e \<Rightarrow> flow_return e | None \<Rightarrow> run_with_clock env i))"
    by (subst run_with_clock_unfold, unfold run_turn_def)
      (rule ext, auto simp: flow_bind_def split: option.splits sum.splits bind_split)
  show "achieves (\<lambda>s c. row_of s i = Some e) (run_with_clock env i) (ended i)" for e
    using run_achieves_at_row[of i e] by (simp add: at_row_def[abs_def])
qed

lemma safe_run: "safe_flow (run_with_clock env i)"
  unfolding safe_flow_def by (rule achieves_post[OF run_achieves]) simp

end
