(* ===== verification/Gongbu_Admission.thy ===== *)
theory Gongbu_Admission
  imports Gongbu_Store
begin

text \<open>
  The admission of an execution: \<^verbatim>\<open>create_execution_inner\<close> of
  \<^verbatim>\<open>crates/gongbu-api/src/execution/mod.rs\<close> with the checks of its parameters and the look-up by token, and
  the scope a target runs under, \<^verbatim>\<open>crates/gongbu-api/src/execution_scope.rs\<close>, whose structs have the fields of the
  governance service's.

  The decoding of a pricing snapshot from JSON, the texts JSON values are stored as and the new
  identifier are arguments. Of the schema's checks those are left out that the validation already implies.
\<close>

section \<open>The scope of a target\<close>

definition identity :: "string \<Rightarrow> string \<Rightarrow> scope_identity" where
  "identity i display_name = \<lparr>si_id = i, si_display_name = display_name\<rparr>"

definition workload_capability :: "string \<Rightarrow> scope_identity option" where
  "workload_capability workload_type =
     (if workload_type = ''image_generation'' then Some (identity ''capability:image:generate'' ''Generate image'')
      else if workload_type = ''image_edit'' then Some (identity ''capability:image:edit'' ''Edit image'')
      else None)"

definition target_provider :: "string \<Rightarrow> string \<Rightarrow> (scope_identity \<times> scope_identity) option" where
  "target_provider provider adapter =
     (if provider = ''google'' \<and> adapter = ''gemini_developer_image''
      then Some (identity ''provider:google:gemini-developer'' ''Google Gemini Developer API'',
                 identity ''merchant:google'' ''Google'')
      else if provider = ''flux'' \<and> adapter = ''flux2_api''
      then Some (identity ''provider:black-forest-labs:flux'' ''Black Forest Labs FLUX'',
                 identity ''merchant:black-forest-labs'' ''Black Forest Labs'')
      else if provider = ''local-mock'' \<or> provider = ''mock'' \<and> adapter = ''deterministic''
              \<or> provider = ''sandbox'' \<and> adapter = ''fixture'' \<or> provider = ''example'' \<and> adapter = ''fixture''
      then Some (identity ''provider:local:fixture'' ''Local fixture provider'',
                 identity ''merchant:local'' ''Local merchant'')
      else None)"

definition for_workload_target :: "string \<Rightarrow> string \<Rightarrow> string \<Rightarrow> execution_scope option" where
  "for_workload_target workload_type provider adapter =
     Option.bind (workload_capability workload_type) (\<lambda>capability.
     Option.bind (target_provider provider adapter) (\<lambda>(provider, merchant).
     Some \<lparr>es_schema_version = EXECUTION_SCOPE_SCHEMA_VERSION, es_provider = provider,
           es_executor = identity ''executor:gongbu:image'' ''Gongbu image executor'',
           es_capability = capability, es_billing_merchant = merchant, es_model = None, es_image_size = None\<rparr>))"

definition for_target :: "string \<Rightarrow> string \<Rightarrow> execution_scope option" where
  "for_target provider adapter = for_workload_target ''image_generation'' provider adapter"

definition for_execution ::
  "nat option \<Rightarrow> string \<Rightarrow> string \<Rightarrow> string \<Rightarrow> string \<Rightarrow> string option \<Rightarrow> execution_scope option" where
  "for_execution authorized_schema_version workload_type provider adapter model image_size =
     Option.bind (for_workload_target workload_type provider adapter) (\<lambda>scope.
     if authorized_schema_version = Some EXECUTION_SCOPE_SCHEMA_VERSION then Some scope
     else Some (scope\<lparr>es_schema_version := EXECUTION_SCOPE_TARGET_SCHEMA_VERSION, es_model := Some model,
                     es_image_size := image_size\<rparr>))"

section \<open>Parameters\<close>

text \<open>A reference to a token, never the token itself.\<close>

definition hubu_token_reference_new :: "string \<Rightarrow> store_error + string" where
  "hubu_token_reference_new v =
     (let v = trim v; l = map to_ascii_lowercase v in
      if v = [] \<or> 255 < length v \<or> prefix ''bearer '' l \<or> prefix ''eyj'' l \<or> CHR ''.'' \<in> set v
      then Inl (InvalidRow ''raw Hubu token'') else Inr v)"

record create_execution_params =
  cep_account_id :: string
  cep_operation_key :: string
  cep_hubu_authorization_id :: string
  cep_hubu_claim_id :: "string option"
  cep_hubu_token_reference :: string
  cep_authorized_units :: int
  cep_authorization_currency :: string
  cep_normalized_input :: json
  cep_input_hash :: string
  cep_input_schema_version :: int
  cep_target :: string
  cep_config_version :: string
  cep_workload_type :: string
  cep_provider :: string
  cep_adapter :: string
  cep_model :: string
  cep_provider_config_version :: string
  cep_provider_config_digest :: string
  cep_pricing_snapshot :: json
  cep_pricing_schema_version :: int
  cep_execution_scope :: "execution_scope option"
  cep_created_at :: string

definition PRICING_SNAPSHOT_SCHEMA_VERSION :: int where
  "PRICING_SNAPSHOT_SCHEMA_VERSION = 3"

text \<open>A member of an object as a text.\<close>

definition text_member :: "string \<Rightarrow> json \<Rightarrow> string option" where
  "text_member key v =
     (case v of
        JsonObject m \<Rightarrow> (case map_of m key of Some (JsonString t) \<Rightarrow> Some t | _ \<Rightarrow> None)
      | _ \<Rightarrow> None)"

definition sha256_digest :: "string \<Rightarrow> bool" where
  "sha256_digest v \<longleftrightarrow>
     prefix ''sha256:'' v \<and> length (drop 7 v) = 64 \<and> list_all is_ascii_hexdigit (drop 7 v)"

definition scope_derived :: "create_execution_params \<Rightarrow> bool" where
  "scope_derived n \<longleftrightarrow>
     (case cep_execution_scope n of
        None \<Rightarrow> True
      | Some scope \<Rightarrow>
          for_execution (Some (es_schema_version scope)) (cep_workload_type n) (cep_provider n) (cep_adapter n)
            (cep_model n) (text_member ''image_size'' (cep_normalized_input n)) = Some scope)"

definition validate_execution ::
  "(json \<Rightarrow> pricing_snapshot option) \<Rightarrow> create_execution_params \<Rightarrow> store_error + pricing_snapshot" where
  "validate_execution decode n =
     (if is_blank (cep_account_id n) \<or> is_blank (cep_operation_key n)
         \<or> cep_hubu_authorization_id n \<noteq> cep_hubu_token_reference n
         \<or> cep_authorized_units n < 0 \<or> cep_input_schema_version n < 1
         \<or> cep_pricing_schema_version n \<notin> {2..PRICING_SNAPSHOT_SCHEMA_VERSION}
         \<or> list_ex is_blank [cep_workload_type n, cep_provider n, cep_adapter n, cep_model n,
              cep_provider_config_version n, cep_provider_config_digest n]
      then Inl (InvalidRow ''execution'')
      else if \<not> sha256_digest (cep_provider_config_digest n) then Inl (InvalidRow ''provider config digest'')
      else
        and_then (safe_json (cep_normalized_input n)) (\<lambda>_.
        and_then (safe_json (cep_pricing_snapshot n)) (\<lambda>_.
        if \<not> scope_derived n then Inl (InvalidRow ''execution scope'')
        else
          and_then (ok_or (InvalidRow ''pricing snapshot'') (decode (cep_pricing_snapshot n))) (\<lambda>snapshot.
          if snap_schema_version snapshot \<noteq> cep_pricing_schema_version n
          then Inl (InvalidRow ''pricing schema version'')
          else
            and_then (map_err (\<lambda>_. InvalidRow ''pricing snapshot authorization'')
                 (check_authorization snapshot (cep_authorized_units n) (cep_authorization_currency n))) (\<lambda>_.
            if snap_provider snapshot \<noteq> cep_provider n \<or> snap_model snapshot \<noteq> cep_model n
            then Inl (InvalidRow ''pricing snapshot target'') else Inr snapshot)))))"

definition authorization_matches :: "create_execution_params \<Rightarrow> hubu_authorization_snapshot \<Rightarrow> bool" where
  "authorization_matches n a \<longleftrightarrow>
     has_account_id a = cep_account_id n \<and> has_operation_key a = cep_operation_key n
     \<and> has_spend_auth_token_id a = cep_hubu_authorization_id n
     \<and> has_spend_auth_token_id a = cep_hubu_token_reference n
     \<and> has_amount_units a = cep_authorized_units n
     \<and> eq_ignore_ascii_case (has_currency a) (cep_authorization_currency n)
     \<and> cep_execution_scope n = Some (has_execution_scope a)
     \<and> has_authorization_status a = ''available''
     \<and> \<not> is_blank (has_agent_id a) \<and> \<not> is_blank (has_expires_at a) \<and> \<not> is_blank (has_reason a)"

section \<open>Look-ups\<close>

definition query_key :: "string \<Rightarrow> string \<Rightarrow> repository \<Rightarrow> store_error + execution" where
  "query_key account_id operation_key s =
     ok_or (DbError ''Query returned no rows'')
       (find (\<lambda>e. ex_account_id e = account_id \<and> ex_operation_key e = operation_key) (hm_values (st_executions s)))"

text \<open>The execution admitted under a token; a row from before the snapshots were kept is found by its own column,
  unless several carry the token.\<close>

definition query_token :: "string \<Rightarrow> repository \<Rightarrow> store_error + execution" where
  "query_token token s =
     (case find (\<lambda>(_, a). has_spend_auth_token_id a = token) (st_authorizations s) of
        Some (i, _) \<Rightarrow> get_execution i s
      | None \<Rightarrow>
          (case filter (\<lambda>e. ex_hubu_token_reference e = token
                    \<and> \<not> hm_contains (st_authorizations s) (ex_execution_id e)) (hm_values (st_executions s)) of
             [] \<Rightarrow> Inl RowNotFound
           | [e] \<Rightarrow> get_execution (ex_execution_id e) s
           | _ \<Rightarrow> Inl AmbiguousLegacyToken))"

section \<open>Admission\<close>

definition admitted_row :: "string \<Rightarrow> pricing_snapshot \<Rightarrow> create_execution_params \<Rightarrow> execution" where
  "admitted_row new_id snapshot n =
     \<lparr>ex_execution_id = new_id, ex_account_id = cep_account_id n, ex_operation_key = cep_operation_key n,
      ex_hubu_authorization_id = cep_hubu_authorization_id n, ex_hubu_claim_id = cep_hubu_claim_id n,
      ex_hubu_token_reference = cep_hubu_token_reference n, ex_authorized_units = cep_authorized_units n,
      ex_authorization_currency = cep_authorization_currency n, ex_normalized_input = cep_normalized_input n,
      ex_input_hash = cep_input_hash n, ex_input_schema_version = cep_input_schema_version n,
      ex_target = cep_target n, ex_config_version = cep_config_version n, ex_workload_type = cep_workload_type n,
      ex_provider = cep_provider n, ex_adapter = cep_adapter n, ex_model = cep_model n,
      ex_provider_config_version = cep_provider_config_version n,
      ex_provider_config_digest = cep_provider_config_digest n, ex_pricing_snapshot = Some snapshot,
      ex_pricing_schema_version = cep_pricing_schema_version n, ex_execution_scope = cep_execution_scope n,
      ex_status = ''pending'', ex_outcome = None, ex_provider_outcome = None, ex_artifact_outcome = None,
      ex_settlement_outcome = None, ex_failure_code = None, ex_failure_message_redacted = None,
      ex_created_at = cep_created_at n, ex_updated_at = cep_created_at n, ex_started_at = None,
      ex_completed_at = None, ex_release_transmission_started_at = None, ex_version = 0\<rparr>"

definition admission_secrets ::
  "secrets \<Rightarrow> (json \<Rightarrow> string) \<Rightarrow> string \<Rightarrow> create_execution_params \<Rightarrow> store_error + unit" where
  "admission_secrets secret text new_id n =
     and_then (reject_registered_secrets secret
       [cep_account_id n, cep_operation_key n, cep_hubu_authorization_id n, or_empty (cep_hubu_claim_id n),
        cep_hubu_token_reference n, cep_authorization_currency n, cep_input_hash n, cep_target n,
        cep_config_version n, cep_workload_type n, cep_provider n, cep_adapter n, cep_model n,
        cep_provider_config_version n, cep_provider_config_digest n, cep_created_at n, new_id, ''pending'']) (\<lambda>_.
     and_then (reject_registered_numbers secret
       [cep_authorized_units n, cep_input_schema_version n, cep_pricing_schema_version n, 0]) (\<lambda>_.
     and_then (reject_registered_json secret [cep_normalized_input n, cep_pricing_snapshot n]) (\<lambda>_.
     reject_registered_secrets secret [text (cep_normalized_input n), text (cep_pricing_snapshot n)])))"

text \<open>The insertion ignores a row whose identifier or operation is taken; then the row of the operation is answered.\<close>

definition operation_taken :: "create_execution_params \<Rightarrow> repository \<Rightarrow> bool" where
  "operation_taken n s \<longleftrightarrow>
     list_ex (\<lambda>e. ex_account_id e = cep_account_id n \<and> ex_operation_key e = cep_operation_key n)
       (hm_values (st_executions s))"

definition insert_or_ignore :: "string \<Rightarrow> pricing_snapshot \<Rightarrow> create_execution_params \<Rightarrow> execution db_write" where
  "insert_or_ignore new_id snapshot n s =
     (if hm_contains (st_executions s) new_id \<or> operation_taken n s
      then and_then (query_key (cep_account_id n) (cep_operation_key n) s) (\<lambda>e. Inr (e, s))
      else let e = admitted_row new_id snapshot n in Inr (e, put_execution e s))"

definition insert_authorization :: "string \<Rightarrow> hubu_authorization_snapshot \<Rightarrow> unit db_write" where
  "insert_authorization i a s =
     (if hm_contains (st_authorizations s) i
         \<or> list_ex (\<lambda>b. has_spend_auth_token_id b = has_spend_auth_token_id a) (hm_values (st_authorizations s))
      then Inl (DbError ''UNIQUE constraint failed: hubu_authorization_snapshots'')
      else Inr ((), s\<lparr>st_authorizations := hm_insert i a (st_authorizations s)\<rparr>))"

definition admit ::
  "string \<Rightarrow> pricing_snapshot \<Rightarrow> create_execution_params \<Rightarrow> hubu_authorization_snapshot option \<Rightarrow> execution db_write" where
  "admit new_id snapshot n authorization s =
     and_then (insert_or_ignore new_id snapshot n s) (\<lambda>(e, s').
     case authorization of
       Some a \<Rightarrow>
         if ex_execution_id e = new_id then and_then (insert_authorization new_id a s') (\<lambda>(_, s'). Inr (e, s'))
         else Inr (e, s')
     | None \<Rightarrow> Inr (e, s'))"

definition create_execution_inner ::
  "secrets \<Rightarrow> (json \<Rightarrow> string) \<Rightarrow> (json \<Rightarrow> pricing_snapshot option) \<Rightarrow> string \<Rightarrow> create_execution_params
     \<Rightarrow> hubu_authorization_snapshot option \<Rightarrow> execution db_write" where
  "create_execution_inner secret text decode new_id n authorization s =
     and_then (validate_execution decode n) (\<lambda>snapshot.
     if (case authorization of None \<Rightarrow> False | Some a \<Rightarrow> \<not> authorization_matches n a)
     then Inl (InvalidRow ''Hubu authorization snapshot'')
     else
       and_then (admission_secrets secret text new_id n) (\<lambda>_.
       if authorization = None then admit new_id snapshot n None s
       else case query_token (cep_hubu_token_reference n) s of
              Inr existing \<Rightarrow> Inr (existing, s)
            | Inl e \<Rightarrow> if e = RowNotFound then admit new_id snapshot n authorization s else Inl e))"

definition create_execution_with_authorization ::
  "secrets \<Rightarrow> (json \<Rightarrow> string) \<Rightarrow> (json \<Rightarrow> pricing_snapshot option) \<Rightarrow> string \<Rightarrow> create_execution_params
     \<Rightarrow> hubu_authorization_snapshot \<Rightarrow> execution db_write" where
  "create_execution_with_authorization secret text decode new_id n authorization =
     create_execution_inner secret text decode new_id n (Some authorization)"

definition create_execution ::
  "secrets \<Rightarrow> (json \<Rightarrow> string) \<Rightarrow> (json \<Rightarrow> pricing_snapshot option) \<Rightarrow> string \<Rightarrow> create_execution_params
     \<Rightarrow> execution db_write" where
  "create_execution secret text decode new_id n = create_execution_inner secret text decode new_id n None"

definition get_hubu_authorization_snapshot ::
  "string \<Rightarrow> repository \<Rightarrow> store_error + hubu_authorization_snapshot" where
  "get_hubu_authorization_snapshot i s = ok_or RowNotFound (hm_get (st_authorizations s) i)"

end
