(* ===== verification/Gongbu_Reachable.thy ===== *)
theory Gongbu_Reachable
  imports Gongbu_Loop Gongbu_Admission Machines
begin

text \<open>
  The executor as a whole: the steps a process takes, the states it may be left in by a crash, and the consistency of all
  of them.
\<close>

section \<open>Admission keeps consistency\<close>

lemma query_key_row:
  assumes "tables_ok s" and "query_key account key s = Inr e"
  shows "row_of s (ex_execution_id e) = Some e"
proof -
  from assms(2) have "e \<in> set (hm_values (st_executions s))"
    by (auto simp: query_key_def res_simps find_Some_iff in_set_conv_nth)
  moreover have "keyed_table ex_execution_id (st_executions s)" using assms(1) by (simp add: tables_ok_def)
  ultimately show ?thesis by (simp add: keyed_values row_of_def)
qed

lemma admitted_lifecycle:
  assumes cons: "consistent s c" and fresh: "row_of s x = None" and claim: "cep_hubu_claim_id n = None"
  shows "lifecycle_ok x (admitted_row x snapshot n) (attempt_of s x) (receipt_of s x) (images_of s x) c"
proof -
  have "consistent_at s c x" using cons by (simp add: consistent_def)
  then have none: "attempt_of s x = None" "receipt_of s x = None" "\<forall>k \<in> set c. \<not> call_about x k"
    using fresh by (simp_all add: consistent_at_def)
  have "\<forall>k. call_about x k \<longrightarrow> k \<notin> set c" using none(3) by blast
  then have calls: "ReleaseCall x b \<notin> set c" "PollCall x i \<notin> set c" "SettleCall x i u b \<notin> set c" for b i u
    by (auto simp: call_about_def)
  have "submission_of x k \<Longrightarrow> call_about x k" for k by (cases k) (auto simp: submission_of_def call_about_def)
  then have "submissions x c = []" using none(3) by (auto simp: submissions_def filter_empty_conv)
  then show ?thesis using none(1,2) calls claim
    by (simp add: lifecycle_ok_def claim_ok_def attempt_and_receipt_ok_def accounting_ok_def admitted_row_def)
qed

lemma insert_or_ignore_safe:
  assumes cons: "consistent s c" and ins: "insert_or_ignore new_id snapshot n s = Inr (e, s')"
    and claim: "cep_hubu_claim_id n = None"
  shows "safe_step s c s' c" and "row_of s' (ex_execution_id e) = Some e"
proof -
  note t = consistentD(1)[OF cons]
  have "safe_step s c s' c \<and> row_of s' (ex_execution_id e) = Some e"
  proof (cases "hm_contains (st_executions s) new_id \<or> operation_taken n s")
    case True
    with ins have "s' = s" and "query_key (cep_account_id n) (cep_operation_key n) s = Inr e"
      by (auto simp: insert_or_ignore_def res_simps)
    then show ?thesis using query_key_row[OF t] cons by (simp add: safe_step_def)
  next
    case False
    have id: "ex_execution_id (admitted_row new_id snapshot n) = new_id" by (simp add: admitted_row_def)
    have fresh: "row_of s new_id = None" using False by (simp add: row_of_def hm_contains_def)
    from False ins have e: "e = admitted_row new_id snapshot n" "s' = put_execution (admitted_row new_id snapshot n) s"
      by (auto simp: insert_or_ignore_def Let_def)
    have "consistent s' c \<and> evolves s c s' c" unfolding e
      by (rule consistent_change_one[OF cons, where x = new_id and e = "admitted_row new_id snapshot n"])
        (simp_all add: id t fresh evolves_at_def option_evolves_def admitted_lifecycle[OF cons fresh claim])
    then show ?thesis using e id by (simp add: safe_step_def)
  qed
  then show "safe_step s c s' c" and "row_of s' (ex_execution_id e) = Some e" by simp_all
qed

lemma admit_safe:
  assumes cons: "consistent s c" and adm: "admit new_id snapshot n authorization s = Inr (e, s')"
    and claim: "cep_hubu_claim_id n = None"
  shows "safe_step s c s' c"
proof -
  from adm obtain e1 s1 where ins: "insert_or_ignore new_id snapshot n s = Inr (e1, s1)"
    and then_: "(case authorization of
       Some a \<Rightarrow>
         if ex_execution_id e1 = new_id then and_then (insert_authorization new_id a s1) (\<lambda>(_, s'). Inr (e1, s'))
         else Inr (e1, s1)
     | None \<Rightarrow> Inr (e1, s1)) = Inr (e, s')"
    by (auto simp: admit_def res_simps)
  have rest: "s' = s1 \<or> (\<exists>a. s' = s1\<lparr>st_authorizations := hm_insert new_id a (st_authorizations s1)\<rparr>)"
    using then_ by (cases authorization) (auto simp: insert_authorization_def res_simps split: if_splits)
  have step: "safe_step s c s1 c" by (rule insert_or_ignore_safe(1)[OF cons ins claim])
  then have "consistent s1 c" by (simp add: safe_step_def)
  from consistent_beside[OF this] rest have "consistent s' c \<and> evolves s1 c s' c"
    using \<open>consistent s1 c\<close> by auto
  then show ?thesis using step by (auto simp: safe_step_def intro: evolves_trans)
qed

lemma create_execution_safe:
  assumes cons: "consistent s c" and new: "create_execution_inner secret text decode new_id n authorization s = Inr (e, s')"
    and claim: "cep_hubu_claim_id n = None"
  shows "safe_step s c s' c"
proof -
  from new consider "s' = s" | snapshot where "admit new_id snapshot n authorization s = Inr (e, s')"
    by (auto simp: create_execution_inner_def res_simps split: if_splits sum.splits)
  then show ?thesis using admit_safe[OF cons _ claim] cons by cases (simp_all add: safe_step_def)
qed

section \<open>Steps\<close>

text \<open>What a process does: an admission, one phase, a run of the loop, a recovery.\<close>

datatype phase = Preflight | Claim | ValidateClaim | Submit | Poll | SubmitAndPoll | PersistArtifact
  | ReleaseAuthority | SettleReceipt

datatype workflow_step =
    Admission "json \<Rightarrow> pricing_snapshot option" string create_execution_params hubu_authorization_snapshot
  | Phase phase string string
  | Run string
  | Recovery string string "operator_reconciliation_request option"

definition ignoring :: "'a flow \<Rightarrow> unit flow" where
  "ignoring m = flow_bind m (\<lambda>_. flow_return ())"

definition phase_flow :: "environment \<Rightarrow> phase \<Rightarrow> string \<Rightarrow> string \<Rightarrow> unit flow" where
  "phase_flow env p i now =
     (case p of
        Preflight \<Rightarrow> ignoring (preflight_phase env i now)
      | Claim \<Rightarrow> ignoring (claim_phase env i now)
      | ValidateClaim \<Rightarrow> ignoring (validate_claim_phase env i now)
      | Submit \<Rightarrow> ignoring (provider_submit_phase env i now)
      | Poll \<Rightarrow> ignoring (provider_poll_phase env i now)
      | SubmitAndPoll \<Rightarrow> ignoring (provider_phase env i now)
      | PersistArtifact \<Rightarrow> ignoring (artifact_phase env i now)
      | ReleaseAuthority \<Rightarrow> ignoring (release_phase env i now)
      | SettleReceipt \<Rightarrow> ignoring (settlement_phase env i now))"

text \<open>The service admits an execution under an authorization and without a claim.\<close>

definition step_flow :: "environment \<Rightarrow> workflow_step \<Rightarrow> unit flow" where
  "step_flow env st =
     (case st of
        Admission decode new_id n authorization \<Rightarrow>
          ignoring (commit (create_execution_with_authorization (env_secrets env) (env_json_text env) decode new_id
            (n\<lparr>cep_hubu_claim_id := None\<rparr>) authorization))
      | Phase p i now \<Rightarrow> phase_flow env p i now
      | Run i \<Rightarrow> ignoring (run_with_clock env i)
      | Recovery i now operator \<Rightarrow> ignoring (recover env i now operator))"

lemma safe_ignoring: "safe_flow m \<Longrightarrow> safe_flow (ignoring m)"
  unfolding ignoring_def by (rule safe_flow_bind) simp_all

lemma safe_step_flow: "safe_flow (step_flow env st)"
proof (cases st)
  case (Admission decode new_id n authorization)
  have "safe_flow (commit (create_execution_with_authorization (env_secrets env) (env_json_text env) decode new_id
      (n\<lparr>cep_hubu_claim_id := None\<rparr>) authorization))"
    unfolding safe_flow_def create_execution_with_authorization_def
  proof (rule achieves_commit)
    fix s c e s'
    assume cons: "consistent s c" and new: "create_execution_inner (env_secrets env) (env_json_text env) decode new_id
      (n\<lparr>cep_hubu_claim_id := None\<rparr>) (Some authorization) s = Inr (e, s')"
    show "safe_step s c s' c \<and> True" using create_execution_safe[OF cons new] by simp
  qed
  then show ?thesis by (simp add: step_flow_def Admission safe_ignoring)
next
  case (Phase p i now)
  then show ?thesis by (cases p) (simp_all add: step_flow_def phase_flow_def safe_ignoring safe_phases safe_provider_phase)
next
  case (Run i)
  then show ?thesis by (simp add: step_flow_def safe_ignoring safe_run)
next
  case (Recovery i now operator)
  then show ?thesis by (simp add: step_flow_def safe_ignoring safe_recover)
qed

section \<open>Reachable states\<close>

definition empty_repository :: repository where
  "empty_repository =
     \<lparr>st_executions = hm_empty, st_attempts = hm_empty, st_staged = hm_empty, st_artifacts = hm_empty,
      st_receipts = hm_empty, st_reconciliations = hm_empty, st_operator_actions = hm_empty,
      st_authorizations = hm_empty\<rparr>"

definition world_at :: "repository \<Rightarrow> outside_call list \<Rightarrow> nat \<Rightarrow> world" where
  "world_at s c n = \<lparr>wd_store = s, wd_calls = c, wd_ticks = n, wd_trail = []\<rparr>"

text \<open>A step that ended leaves the last state, one that crashed that of any durable point before. The environment may
  be another one in every step.\<close>

inductive reachable :: "repository \<Rightarrow> outside_call list \<Rightarrow> bool" where
  started: "reachable empty_repository []"
| ended: "reachable s c \<Longrightarrow> step_flow env st (world_at s c n) = Some (r, w) \<Longrightarrow> reachable (wd_store w) (wd_calls w)"
| crashed: "reachable s c \<Longrightarrow> step_flow env st (world_at s c n) = Some (r, w) \<Longrightarrow> (s', c') \<in> set (wd_trail w)
    \<Longrightarrow> reachable s' c'"

lemma consistent_empty: "consistent empty_repository []"
proof -
  have "row_of empty_repository x = None" "attempt_of empty_repository x = None" "receipt_of empty_repository x = None" for x
    by (simp_all add: empty_repository_def row_of_def attempt_of_def receipt_of_def hm_eval)
  moreover have "tables_ok empty_repository"
    by (simp add: empty_repository_def tables_ok_def keyed_table_def owned_once_def hm_eval hm_wf_def)
  ultimately show ?thesis by (simp add: consistent_def consistent_at_def)
qed

text \<open>A safe flow from a consistent state.\<close>

lemma safe_flow_world_at:
  assumes "safe_flow m" and "consistent s c"
  obtains r w where "m (world_at s c n) = Some (r, w)"
    and "\<And>s' c'. (s', c') \<in> insert (wd_store w, wd_calls w) (set (wd_trail w)) \<Longrightarrow> consistent s' c' \<and> evolves s c s' c'"
proof -
  have start: "consistent (wd_store (world_at s c n)) (wd_calls (world_at s c n))" using assms(2) by (simp add: world_at_def)
  show thesis
  proof (rule achievesD[OF assms(1)[unfolded safe_flow_def] start TrueI])
    fix r w' new
    assume w: "m (world_at s c n) = Some (r, w')" "wd_trail w' = wd_trail (world_at s c n) @ new"
      "\<forall>t \<in> set new. sound_from (world_at s c n) t" "sound_from (world_at s c n) (wd_store w', wd_calls w')"
    show thesis
    proof (rule that[OF w(1)])
      fix s' c'
      assume "(s', c') \<in> insert (wd_store w', wd_calls w') (set (wd_trail w'))"
      then have "sound_from (world_at s c n) (s', c')" using w(2-4) by (auto simp: world_at_def)
      then show "consistent s' c' \<and> evolves s c s' c'" by (simp add: sound_from_def world_at_def)
    qed
  qed
qed

lemma step_from_consistent:
  assumes "consistent s c" and "step_flow env st (world_at s c n) = Some (r, w)"
    and "(s', c') \<in> insert (wd_store w, wd_calls w) (set (wd_trail w))"
  shows "consistent s' c'" and "evolves s c s' c'"
proof -
  obtain r' w' where "step_flow env st (world_at s c n) = Some (r', w')"
    "\<And>s' c'. (s', c') \<in> insert (wd_store w', wd_calls w') (set (wd_trail w')) \<Longrightarrow> consistent s' c' \<and> evolves s c s' c'"
    using safe_flow_world_at[OF safe_step_flow assms(1)] by blast
  then show "consistent s' c'" and "evolves s c s' c'" using assms(2,3) by auto
qed

text \<open>A step with its crashes, as a machine: it keeps consistency and only evolves.\<close>

inductive worker_step :: "repository \<times> outside_call list \<Rightarrow> repository \<times> outside_call list \<Rightarrow> bool" where
  "step_flow env st (world_at s c n) = Some (r, w) \<Longrightarrow> p \<in> insert (wd_store w, wd_calls w) (set (wd_trail w))
    \<Longrightarrow> worker_step (s, c) p"

lemma worker_step_consistent:
  assumes "worker_step p q" and "case_prod consistent p"
  shows "case_prod consistent q" and "evolves (fst p) (snd p) (fst q) (snd q)"
proof -
  from assms(1) have "case_prod consistent q \<and> evolves (fst p) (snd p) (fst q) (snd q)"
  proof (cases rule: worker_step.cases)
    case (1 env st s c n r w)
    obtain s' c' where q: "q = (s', c')" by (cases q)
    have "consistent s c" using assms(2) 1(1) by simp
    note sound = step_from_consistent[OF this 1(2) 1(3)[unfolded q]]
    show ?thesis unfolding 1(1) q using sound by simp
  qed
  then show "case_prod consistent q" and "evolves (fst p) (snd p) (fst q) (snd q)" by blast+
qed

interpretation worker: growing worker_step "case_prod consistent" "\<lambda>p q. evolves (fst p) (snd p) (fst q) (snd q)"
proof
  show "evolves (fst p) (snd p) (fst p) (snd p)" for p by simp
  show "evolves (fst p) (snd p) (fst q) (snd q) \<Longrightarrow> evolves (fst q) (snd q) (fst r) (snd r)
      \<Longrightarrow> evolves (fst p) (snd p) (fst r) (snd r)" for p q r by (rule evolves_trans)
qed (rule worker_step_consistent; assumption)+

lemma reachable_consistent: "reachable s c \<Longrightarrow> consistent s c"
proof (induction rule: reachable.induct)
  case (ended s c env st n r w)
  then show ?case using step_from_consistent(1) by blast
next
  case (crashed s c env st n r w s' c')
  then show ?case using step_from_consistent(1) by blast
qed (rule consistent_empty)

text \<open>The state after a list of steps that were not interrupted.\<close>

definition after :: "environment \<Rightarrow> workflow_step \<Rightarrow> repository \<times> outside_call list \<Rightarrow> repository \<times> outside_call list" where
  "after env st = (\<lambda>(s, c). case step_flow env st (world_at s c 0) of
     None \<Rightarrow> (s, c) | Some (_, w) \<Rightarrow> (wd_store w, wd_calls w))"

lemma reachable_after: "reachable s c \<Longrightarrow> after env st (s, c) = (s', c') \<Longrightarrow> reachable s' c'"
  by (auto simp: after_def split: option.splits prod.splits intro: reachable.ended)

definition after_steps :: "(environment \<times> workflow_step) list \<Rightarrow> repository \<times> outside_call list" where
  "after_steps sts = foldl (\<lambda>p (env, st). after env st p) (empty_repository, []) sts"

lemma reachable_after_steps: "case_prod reachable (after_steps sts)"
proof (induction sts rule: rev_induct)
  case Nil
  then show ?case by (simp add: after_steps_def reachable.started)
next
  case (snoc st sts)
  then show ?case by (auto simp: after_steps_def split: prod.splits intro: reachable_after)
qed

end
