(* ===== verification/Gongbu_Quotes.thy ===== *)
theory Gongbu_Quotes
  imports Gongbu_Pricing_Theorems
begin

text \<open>
  Quotes made from a validated catalog: what a rule of such a catalog is, that the snapshot of a request
  passes its own integrity check, and that a stored snapshot is read back as it was written.
\<close>

section \<open>Rules of a validated catalog\<close>

lemma try_map_ok: "try_map f xs = Inr ys \<longleftrightarrow> list_all2 (\<lambda>x y. f x = Inr y) xs ys"
  by (induction xs arbitrary: ys) (auto simp: res_simps list_all2_Cons1)

definition rule_valid :: "pricing_rule \<Rightarrow> bool" where
  "rule_valid r \<longleftrightarrow>
     \<not> is_blank (prl_rule_id r) \<and> prl_currency r \<in> set SUPPORTED_CURRENCIES \<and> prl_components r \<noteq> []
     \<and> prl_selector r \<noteq> Some []
     \<and> (\<forall>c \<in> set (prl_components r). 0 \<le> pcm_rate_numerator_minor c \<and> 0 < pcm_rate_denominator c)
     \<and> distinct (map pcm_unit (prl_components r))
     \<and> (Option.bind (prl_selector r) selector_image_size \<noteq> None
          \<longrightarrow> prices_images_only (map pcm_unit (prl_components r)))"

lemma normalized_field_ok: "normalized_field v field = Inr w \<Longrightarrow> \<not> is_blank w"
  by (auto simp: normalized_field_def Let_def is_blank_def trim_trim split: if_splits)

lemma normalize_rule_ok:
  assumes "normalize_rule r0 = Inr r"
  shows "\<not> is_blank (prl_rule_id r)" and "prl_selector r \<noteq> Some []"
proof -
  have sel: "selector_normalized s = Inr s' \<Longrightarrow> s \<noteq> [] \<Longrightarrow> s' \<noteq> []" for s s'
    by (auto simp: selector_normalized_def try_map_ok)
  show "\<not> is_blank (prl_rule_id r)"
    using assms by (auto simp: normalize_rule_def res_simps dest!: normalized_field_ok)
  show "prl_selector r \<noteq> Some []"
    using assms sel by (auto simp: normalize_rule_def res_simps split: option.splits if_splits)
qed

lemma checked_rules:
  assumes "try_fold check_rule seen rules = Inr seen'"
  shows "\<forall>r \<in> set rules. \<exists>seen seen'. check_rule seen r = Inr seen'"
  using assms by (induction rules arbitrary: seen) (auto simp: res_simps)

lemma catalog_rules_valid:
  assumes "catalog_from_document digest doc = Inr cat"
  shows "\<forall>r \<in> set (cat_rules cat). rule_valid r" and "\<not> is_blank (cat_version cat)"
    and "\<exists>d. cat_digest cat = digest d"
proof -
  from assms obtain rules0 seen where
    n: "try_map normalize_rule (doc_rules doc) = Inr rules0"
    and rules: "cat_rules cat = sort_key (\<lambda>r. [prl_provider r, prl_model r, prl_rule_id r]) rules0"
    and c: "try_fold check_rule ([], []) (cat_rules cat) = Inr seen"
    and v: "cat_version cat = trim (doc_catalog_version doc)" "\<not> is_blank (doc_catalog_version doc)"
    and d: "cat_digest cat = digest (doc\<lparr>doc_catalog_version := trim (doc_catalog_version doc), doc_rules := cat_rules cat\<rparr>)"
    by (auto simp: catalog_from_document_def res_simps Let_def split: if_splits)
  show "\<not> is_blank (cat_version cat)" using v by (simp add: is_blank_def trim_trim)
  show "\<exists>d. cat_digest cat = digest d" using d by blast
  show "\<forall>r \<in> set (cat_rules cat). rule_valid r"
  proof
    fix r
    assume r: "r \<in> set (cat_rules cat)"
    then obtain r0 where "normalize_rule r0 = Inr r"
      using n by (auto simp: rules try_map_ok list_all2_conv_all_nth in_set_conv_nth)
    note norm = normalize_rule_ok[OF this]
    from checked_rules[OF c] r obtain seen seen' where "check_rule seen r = Inr seen'" by blast
    with norm show "rule_valid r"
      by (fastforce simp: check_rule_def rule_valid_def list_ex_iff not_le not_less
          split: prod.splits if_splits option.splits)
  qed
qed

section \<open>The snapshot of a request\<close>

definition freezes :: "normalized_request \<Rightarrow> price_component \<Rightarrow> frozen_component \<Rightarrow> bool" where
  "freezes request c f \<longleftrightarrow>
     fpc_unit f = pcm_unit c \<and> fpc_rate_numerator_minor f = pcm_rate_numerator_minor c
     \<and> fpc_rate_denominator f = pcm_rate_denominator c
     \<and> request_quantity_for request (pcm_unit c) = Inr (fpc_quantity f)"

lemma freeze_fold:
  assumes "try_fold (freeze_component request) (exact, frozen) cs = Inr (exact', frozen')"
  shows "\<exists>fs. frozen' = frozen @ fs \<and> list_all2 (freezes request) cs fs \<and> try_fold add_frozen exact fs = Inr exact'"
  using assms
proof (induction cs arbitrary: exact frozen)
  case (Cons c cs)
  from Cons.prems obtain quantity e where q: "request_quantity_for request (pcm_unit c) = Inr quantity"
    "add_price (pcm_rate_numerator_minor c) (pcm_rate_denominator c) quantity exact = Inr e"
    "try_fold (freeze_component request) (e, frozen @ [\<lparr>fpc_unit = pcm_unit c,
        fpc_rate_numerator_minor = pcm_rate_numerator_minor c,
        fpc_rate_denominator = pcm_rate_denominator c, fpc_quantity = quantity\<rparr>]) cs = Inr (exact', frozen')"
    by (auto simp: freeze_component_def[of request "(exact, frozen)" c] res_simps)
  define f where "f = \<lparr>fpc_unit = pcm_unit c, fpc_rate_numerator_minor = pcm_rate_numerator_minor c,
        fpc_rate_denominator = pcm_rate_denominator c, fpc_quantity = quantity\<rparr>"
  from Cons.IH[OF q(3)] obtain fs where "frozen' = (frozen @ [f]) @ fs" "list_all2 (freezes request) cs fs"
    "try_fold add_frozen e fs = Inr exact'" unfolding f_def by blast
  moreover have "freezes request c f" using q(1) by (simp add: freezes_def f_def)
  ultimately show ?case using q(2) by (intro exI[of _ "f # fs"]) (simp add: f_def)
qed simp

lemma selected_rule_ok:
  assumes "selected_rule cat request = Inr r"
  shows "r \<in> set (cat_rules cat)" and "rule_for_request cat request r"
    and "prl_selector r = Some s \<Longrightarrow> s = nr_selector request"
    and "prl_selector r = None \<Longrightarrow> nr_selector request = []"
proof -
  let ?P = "\<lambda>r. rule_for_request cat request r
    \<and> (case prl_selector r of Some s \<Rightarrow> s = nr_selector request | None \<Rightarrow> nr_selector request = [])"
  from assms have "filter ?P (cat_rules cat) = [r]"
    by (auto simp: selected_rule_def split: list.splits if_splits)
  then have "r \<in> set (filter ?P (cat_rules cat))" by simp
  then show "r \<in> set (cat_rules cat)" "rule_for_request cat request r"
    "prl_selector r = Some s \<Longrightarrow> s = nr_selector request" "prl_selector r = None \<Longrightarrow> nr_selector request = []"
    by auto
qed

lemma frozen_component_ok:
  assumes "freezes request c f" and "0 \<le> pcm_rate_numerator_minor c" and "0 < pcm_rate_denominator c"
  shows "component_ok f"
  using assms
  by (cases "pcm_unit c")
    (auto simp: freezes_def component_ok_def request_quantity_for_def allows_zero_def split: option.splits if_splits)

text \<open>
  C23: a quote is valid when it is made. From a validated catalog, whose digests have the form of SHA-256, the snapshot
  of a request names one rule of the catalog, freezes its rates with the request's quantities and its exact price rounded up once to
  budget units, and passes the integrity check that every later use repeats.
\<close>

theorem catalog_snapshot_valid:
  assumes "catalog_from_document digest doc = Inr cat" and "\<And>d. digest_ok (digest d)"
    and "catalog_snapshot cat request = Inr s"
  shows "validate_integrity s = Inr ()
    \<and> snap_estimated_units s = \<lceil>sum_list (map frozen_price (snap_components s)) * 10000\<rceil>
    \<and> (\<exists>r \<in> set (cat_rules cat). rule_for_request cat request r \<and> prl_rule_id r = snap_pricing_rule_id s
         \<and> list_all2 (freezes request) (prl_components r) (snap_components s))"
proof -
  note cat = catalog_rules_valid[OF assms(1)]
  from assms(3) obtain r exact u where req: "request_validate request = Inr ()"
    and r: "selected_rule cat request = Inr r"
    and f: "try_fold (freeze_component request) (rational_zero, []) (prl_components r) = Inr (exact, snap_components s)"
    and u: "to_units_ceil exact = Inr (snap_estimated_units s)"
    and s: "snap_schema_version s = 3" "snap_provider s = nr_provider request" "snap_model s = nr_model request"
      "snap_catalog_version s = cat_version cat" "snap_catalog_digest s = cat_digest cat"
      "snap_pricing_rule_id s = prl_rule_id r" "snap_selector s = prl_selector r"
      "snap_output_dimensions s = nr_output_dimensions request"
      "snap_exact_estimate_numerator s = show_int (rat_n exact)"
      "snap_exact_estimate_denominator s = show_int (rat_d exact)" "snap_currency s = prl_currency r"
    by (auto simp: catalog_snapshot_def res_simps)
  note rule = selected_rule_ok[OF r]
  from cat(1) rule(1) have valid: "rule_valid r" by blast
  from freeze_fold[OF f] have fr: "list_all2 (freezes request) (prl_components r) (snap_components s)"
    and fold: "try_fold add_frozen rational_zero (snap_components s) = Inr exact" by auto
  note sum = frozen_sum[OF fold]
  have pos: "rational_pos exact" using sum(1) by blast
  have units: "map fpc_unit (snap_components s) = map pcm_unit (prl_components r)"
    using fr by (induction rule: list_all2_induct) (simp_all add: freezes_def)
  have nonempty: "snap_components s \<noteq> []" using fr valid by (auto simp: rule_valid_def)
  have comps: "list_all component_ok (snap_components s)"
    using fr valid frozen_component_ok
    by (fastforce simp: rule_valid_def list_all2_conv_all_nth list_all_length in_set_conv_nth)
  have fits: "fits_i128 (rat_n exact)" "fits_i128 (rat_d exact)" using sum(1) by (simp_all add: rational_ok_def)
  then have est: "exact_estimate s = Inr exact"
    using rational_posD[OF pos] fold s nonempty
    by (simp add: exact_estimate_def parse_show_int effective_components_def)
  have sel: "\<not> (case snap_selector s of None \<Rightarrow> False | Some sel \<Rightarrow> sel = [] \<or> selector_normalized sel \<noteq> Inr sel)"
    using rule(3) valid req by (auto simp: s rule_valid_def request_validate_def split: option.splits if_splits)
  have dims: "\<not> zero_dimensions (snap_output_dimensions s)" "\<not> is_blank (nr_provider request)" "\<not> is_blank (nr_model request)"
    using req by (auto simp: s request_validate_def split: if_splits)
  have digest: "digest_ok (snap_catalog_digest s)" using cat(3) assms(2) by (auto simp: s)
  have images: "Option.bind (prl_selector r) selector_image_size = None \<or> prices_images_only (map pcm_unit (prl_components r))"
    using valid by (auto simp: rule_valid_def)
  have "validate_integrity s = Inr ()"
    using images sel dims digest comps units nonempty est u valid cat(2) to_units_ceil_value(3)[OF u pos]
    by (simp add: validate_integrity_def s rule_valid_def effective_components_def not_less[symmetric])
  moreover have "snap_estimated_units s = \<lceil>sum_list (map frozen_price (snap_components s)) * 10000\<rceil>"
    using to_units_ceil_value(1)[OF u pos] sum(2) by simp
  ultimately show ?thesis using rule(1,2) fr s(6) by metis
qed

text \<open>
  C38: a stored snapshot is read back as it was written. Both wire forms carry the estimate, schema 2 in
  whole cents and schema 3 in budget units, and nothing is lost for any snapshot that passes its
  integrity check.
\<close>

theorem snapshot_wire_roundtrip:
  assumes "validate_integrity s = Inr ()"
  shows "snapshot_try_from (snapshot_into_wire s) = Inr s"
proof -
  from validated_snapshot[OF assms] obtain exact where exact: "rational_ok exact"
    and v: "snap_schema_version s = 2 \<and> snap_estimated_units s = \<lceil>cents_of exact\<rceil> * 10000
         \<or> snap_schema_version s = 3 \<and> snap_estimated_units s = \<lceil>cents_of exact * 10000\<rceil>"
    and f: "fits_i64 (snap_estimated_units s)"
    by metis
  have "0 \<le> snap_estimated_units s"
    using assms by (auto simp: validate_integrity_def split: if_splits)
  then have "trunc_div (snap_estimated_units s) 10000 * 10000 = snap_estimated_units s" if "snap_schema_version s = 2"
    using v that by (auto simp: trunc_nonneg)
  then show ?thesis
    using v f by (auto simp: snapshot_try_from_def snapshot_into_wire_def Let_def UNITS_PER_MINOR_def checked_def)
qed

section \<open>A worked quote\<close>

text \<open>A catalog with one rule of 0.7 cents per request and a third of a cent per page.\<close>

definition example_document :: catalog_document where
  "example_document = \<lparr>doc_schema_version = 2, doc_catalog_version = '' v1 '', doc_rules =
     [\<lparr>prl_rule_id = ''r'', prl_provider = ''p'', prl_model = ''m'', prl_workload_type = None, prl_currency = ''usd'',
       prl_selector = None, prl_components =
        [\<lparr>pcm_unit = Page, pcm_rate_numerator_minor = 1, pcm_rate_denominator = 4\<rparr>,
         \<lparr>pcm_unit = Request, pcm_rate_numerator_minor = 7, pcm_rate_denominator = 10\<rparr>]\<rparr>]\<rparr>"

definition example_digest :: "catalog_document \<Rightarrow> string" where
  "example_digest doc = ''sha256:'' @ replicate 64 CHR ''a''"

definition quoted_request :: normalized_request where
  "quoted_request = \<lparr>nr_provider = ''p'', nr_model = ''m'', nr_workload_type = None,
     nr_quantities = [(''pages'', 3)], nr_selector = [], nr_output_dimensions = None\<rparr>"

definition example_quote :: "contract_error + pricing_snapshot" where
  "example_quote = and_then (catalog_from_document example_digest example_document)
     (\<lambda>cat. catalog_snapshot cat quoted_request)"

definition quoted_snapshot :: pricing_snapshot where
  "quoted_snapshot = (case example_quote of Inr s \<Rightarrow> s)"

definition quoted_usage :: normalized_usage where
  "quoted_usage = \<lparr>us_images = None, us_input_tokens = None, us_output_tokens = None, us_results = None,
     us_pages = Some 2, us_seconds = None, us_megapixels = None, us_additional_megapixels = None,
     us_input_images = None, us_input_megapixels = None\<rparr>"

lemma example_digest_ok: "digest_ok (example_digest doc)"
  by (simp add: example_digest_def digest_ok_def is_ascii_hexdigit_def list_all_iff)

lemma quoted_snapshot_made:
  "is_ok (catalog_from_document example_digest example_document)" "example_quote = Inr quoted_snapshot"
  "snap_estimated_units quoted_snapshot = 14500"
  by code_simp+

theorem catalog_snapshot_valid_witness:
  "validate_integrity quoted_snapshot = Inr () \<and> snap_estimated_units quoted_snapshot = 14500"
proof -
  from quoted_snapshot_made(2) obtain cat where
    "catalog_from_document example_digest example_document = Inr cat" "catalog_snapshot cat quoted_request = Inr quoted_snapshot"
    by (auto simp: example_quote_def res_simps)
  from catalog_snapshot_valid[OF this(1) example_digest_ok this(2)] quoted_snapshot_made(3) show ?thesis by blast
qed

lemma quoted_snapshot_intact: "validate_integrity quoted_snapshot = Inr ()"
  by code_simp

theorem snapshot_wire_roundtrip_witness:
  "snapshot_try_from (snapshot_into_wire quoted_snapshot) = Inr quoted_snapshot"
  by (rule snapshot_wire_roundtrip[OF quoted_snapshot_intact])

definition quoted_settlement :: precise_settlement where
  "quoted_settlement = \<lparr>pst_actual_vendor_cost = \<lparr>ac_amount = 12, ac_scale = 3, ac_currency = ''USD''\<rparr>, pst_budget_units = 12000\<rparr>"

text \<open>The usage costs six fifths of a cent: the conversion strips one two and three fives of 250.\<close>

lemma quoted_factors: "strip_factor 2 0 250 = Some (1, 125)" "strip_factor 5 0 125 = Some (3, 1)"
proof -
  note steps = strip_factor.simps[of 2 0 250] strip_factor.simps[of 2 "Suc 0" 125] strip_factor.simps[of 5 0 125]
    strip_factor.simps[of 5 "Suc 0" 25] strip_factor.simps[of 5 "Suc (Suc 0)" 5] strip_factor.simps[of 5 "Suc (Suc (Suc 0))" 1]
  show "strip_factor 2 0 250 = Some (1, 125)" "strip_factor 5 0 125 = Some (3, 1)"
    by (simp_all add: steps trunc_nonneg)
qed

lemma quoted_cost:
  "to_actual_vendor_cost \<lparr>rat_n = 6, rat_d = 5\<rparr> ''USD'' = Some (Inr (pst_actual_vendor_cost quoted_settlement))"
proof -
  have "gcd_loop 6 500 = 2" "trunc_div 6 2 = 3" "trunc_div 500 2 = 250" "checked_mul_i128 5 100 = Some 500"
    by code_simp+
  moreover have "and_then (checked_pow10 3) (\<lambda>ten. and_then (indeterminable (checked_mul_i128 3 (trunc_div ten 250))) (\<lambda>n.
      and_then (indeterminable (checked fits_i64 n)) (\<lambda>n. cost_new n 3 ''USD'')))
    = Inr (pst_actual_vendor_cost quoted_settlement)" by code_simp
  ultimately show ?thesis
    by (simp add: to_actual_vendor_cost_def quoted_factors MAX_VENDOR_COST_SCALE_def)
qed

lemma quoted_settled: "settle_precise quoted_snapshot quoted_usage None 20000 = Some (Inr quoted_settlement)"
proof -
  have "effective_components quoted_snapshot = Inr (snap_components quoted_snapshot)"
    "try_fold (usage_price quoted_usage) rational_zero (snap_components quoted_snapshot) = Inr \<lparr>rat_n = 6, rat_d = 5\<rparr>"
    "snap_currency quoted_snapshot = ''USD''"
    "to_budget_units (pst_actual_vendor_cost quoted_settlement) ''USD'' = Inr 12000"
    by code_simp+
  then show ?thesis
    by (simp add: settle_precise_def settled_cost_def quoted_snapshot_intact quoted_cost quoted_snapshot_made(3))
      (simp add: quoted_settlement_def)
qed

theorem settlement_within_quote_witness:
  "pst_budget_units quoted_settlement \<le> snap_estimated_units quoted_snapshot \<and> pst_budget_units quoted_settlement \<le> 20000"
proof -
  note within = settlement_within_quote[OF quoted_settled]
  show ?thesis by (intro conjI) (use within in blast)+
qed

lemma quoted_usage_within: "\<forall>c \<in> set (snap_components quoted_snapshot). within_quote quoted_usage c"
proof -
  have "list_all (\<lambda>c. case usage_quantity_for quoted_usage (fpc_unit c) of None \<Rightarrow> False | Some q \<Rightarrow> q \<le> fpc_quantity c)
    (snap_components quoted_snapshot)" by code_simp
  then show ?thesis by (auto simp: list_all_iff within_quote_def split: option.splits)
qed

theorem usage_within_quote_no_overage_witness:
  "settle_precise quoted_snapshot quoted_usage None 14500 \<noteq> Some (Inl SettlementOverage)"
  using usage_within_quote_no_overage[OF quoted_usage_within, of 14500] by (simp add: quoted_snapshot_made)

end
