(* ===== verification/Gongbu_Theorems.thy ===== *)
theory Gongbu_Theorems
  imports Gongbu_Reachable Gongbu_Quotes
begin

text \<open>
  What the executor promises, in every state its steps and their crashes may reach: work is submitted once, an
  authorization is either charged or given back, what was charged is what the receipt states, nothing that ended changes
  again, and every step returns.
\<close>

section \<open>One execution in a reachable state\<close>

lemma reachable_lifecycle:
  assumes "reachable s c" and "row_of s x = Some e"
  shows "lifecycle_ok x e (attempt_of s x) (receipt_of s x) (images_of s x) c"
  using consistentD(2)[OF reachable_consistent[OF assms(1)] assms(2)] .

text \<open>Only an admitted execution has calls.\<close>

lemma called_row:
  assumes "reachable s c" and "k \<in> set c" and "call_about x k"
  obtains e where "row_of s x = Some e"
proof -
  have at: "consistent_at s c x" using reachable_consistent[OF assms(1)] by (simp add: consistent_def)
  show thesis
  proof (cases "row_of s x")
    case None
    then have "\<forall>k \<in> set c. \<not> call_about x k" using at by (simp add: consistent_at_def)
    then show thesis using assms(2,3) by blast
  qed (rule that)
qed

lemma submission_member: "SubmitCall x i \<in> set c \<Longrightarrow> SubmitCall x i \<in> set (submissions x c)"
  by (simp add: submissions_def submission_of_def)

lemma attempt_of_submission:
  assumes reach: "reachable s c" and call: "SubmitCall x i \<in> set c \<or> PollCall x i \<in> set c"
  obtains e a where "row_of s x = Some e" and "attempt_of s x = Some a" and "attempt_ok x a c"
    and "ex_hubu_claim_id e \<noteq> None" and "ClaimCall x True \<in> set c"
proof -
  obtain e where e: "row_of s x = Some e"
    using call by (auto simp: call_about_def intro: called_row[OF reach])
  have ok: "lifecycle_ok x e (attempt_of s x) (receipt_of s x) (images_of s x) c" by (rule reachable_lifecycle[OF reach e])
  obtain a where a: "attempt_of s x = Some a"
  proof (cases "attempt_of s x")
    case None
    then have "submissions x c = [] \<and> (\<forall>i. PollCall x i \<notin> set c)"
      using ok by (simp add: lifecycle_ok_def attempt_and_receipt_ok_def)
    then show thesis using call submission_member[of x i c] by auto
  qed (rule that)
  have "attempt_ok x a c" and "ex_hubu_claim_id e \<noteq> None" and "ClaimCall x True \<in> set c"
    using ok a by (simp_all add: lifecycle_ok_def attempt_and_receipt_ok_def claim_ok_def)
  then show thesis by (rule that[OF e a])
qed

text \<open>
  C4: in every state the executor may reach, also after a crash at any write or call, the work of an execution was
  submitted to the provider at most once, under the identifier of its one attempt and after its claim was made and
  validated by the governance service; and only work that was submitted is polled.\<close>

theorem provider_submitted_once:
  assumes "reachable s c"
  shows "length (submissions x c) \<le> 1
    \<and> (SubmitCall x i \<in> set c \<longrightarrow> ClaimCall x True \<in> set c \<and> ValidateClaimCall x True \<in> set c
         \<and> (\<exists>a. attempt_of s x = Some a \<and> pa_provider_attempt_id a = i \<and> pa_transmission_started_at a \<noteq> None))
    \<and> (PollCall x i \<in> set c \<longrightarrow> SubmitCall x i \<in> set c)"
proof (intro conjI impI)
  show "length (submissions x c) \<le> 1"
  proof (cases "submissions x c")
    case (Cons k ks)
    then have "k \<in> set (submissions x c)" by simp
    then have "k \<in> set c \<and> submission_of x k" by (simp add: submissions_def)
    then obtain j where "SubmitCall x j \<in> set c" by (cases k) (auto simp: submission_of_def)
    from attempt_of_submission[OF assms disjI1[OF this]] obtain a where "attempt_ok x a c" by blast
    then show ?thesis by (simp add: attempt_ok_def)
  qed simp
next
  assume call: "SubmitCall x i \<in> set c"
  from attempt_of_submission[OF assms disjI1[OF call]] obtain a where a: "attempt_of s x = Some a" "attempt_ok x a c"
    and claim: "ClaimCall x True \<in> set c" by blast
  show "ClaimCall x True \<in> set c" by (rule claim)
  show "ValidateClaimCall x True \<in> set c" using a(2) by (simp add: attempt_ok_def)
  have "pa_provider_attempt_id a = i" and "transmitted a"
    using a(2) submission_member[OF call] by (auto simp: attempt_ok_def)
  then show "\<exists>a. attempt_of s x = Some a \<and> pa_provider_attempt_id a = i \<and> pa_transmission_started_at a \<noteq> None"
    using a(1) by (simp add: transmitted_def)
next
  assume call: "PollCall x i \<in> set c"
  from attempt_of_submission[OF assms disjI2[OF call]] obtain a where a: "attempt_ok x a c" by blast
  then have "submissions x c \<noteq> []" and "set (submissions x c) \<subseteq> {SubmitCall x i}"
    using call by (auto simp: attempt_ok_def)
  then have "SubmitCall x i \<in> set (submissions x c)" by (cases "submissions x c") auto
  then show "SubmitCall x i \<in> set c" by (simp add: submissions_def)
qed

section \<open>The authorization\<close>

lemma settlement_charge_bound:
  assumes "attempt_settlement snapshot a usage auth = Some (Inr st)"
  shows "pst_budget_units st \<le> snap_estimated_units snapshot" and "pst_budget_units st \<le> auth"
proof -
  have quoted: "\<exists>cost. settle_precise snapshot usage cost auth = Some (Inr st)"
    if "settle_from_quote snapshot usage auth = Some (Inr st)"
  proof -
    from that obtain exact y where y: "to_actual_vendor_cost exact (snap_currency snapshot) = Some y"
      "(case y of Inl e \<Rightarrow> Some (Inl e) | Inr quote \<Rightarrow> settle_precise snapshot usage (Some quote) auth) = Some (Inr st)"
      by (cases "and_then (validate_integrity snapshot) (\<lambda>_. exact_estimate snapshot)")
        (auto simp: settle_from_quote_def bind_eq_Some_conv)
    then show ?thesis by (cases y) auto
  qed
  with assms obtain cost where "settle_precise snapshot usage cost auth = Some (Inr st)"
    by (auto simp: attempt_settlement_def split: if_splits)
  then show "pst_budget_units st \<le> snap_estimated_units snapshot" and "pst_budget_units st \<le> auth"
    by (auto elim: settle_precise_ok_cases)
qed

lemma settled_receipt:
  assumes reach: "reachable s c" and call: "SettleCall x i u b \<in> set c"
  obtains e a r where "row_of s x = Some e" and "attempt_of s x = Some a" and "receipt_of s x = Some r"
    and "rcp_receipt_id r = i" and "rcp_settlement_units r = u" and "receipt_ok x e a r c" and "attempt_ok x a c"
proof -
  obtain e where e: "row_of s x = Some e" using call by (auto simp: call_about_def intro: called_row[OF reach])
  have ok: "lifecycle_ok x e (attempt_of s x) (receipt_of s x) (images_of s x) c" by (rule reachable_lifecycle[OF reach e])
  then obtain r where r: "receipt_of s x = Some r" "rcp_receipt_id r = i" "rcp_settlement_units r = u"
    using call by (auto simp: lifecycle_ok_def accounting_ok_def)
  obtain a where a: "attempt_of s x = Some a"
    using ok r(1) by (cases "attempt_of s x") (auto simp: lifecycle_ok_def attempt_and_receipt_ok_def)
  have "receipt_ok x e a r c" and "attempt_ok x a c"
    using ok r(1) a by (simp_all add: lifecycle_ok_def attempt_and_receipt_ok_def)
  then show thesis by (rule that[OF e a r])
qed

text \<open>
  C5: an authorization is never both charged and given back: no reachable history has a delivered settlement and a
  release of one execution, whether they were accepted or not.\<close>

theorem never_settled_and_released:
  assumes "reachable s c" and "SettleCall x i u b \<in> set c"
  shows "ReleaseCall x b' \<notin> set c"
proof
  assume call: "ReleaseCall x b' \<in> set c"
  show False
  proof (rule settled_receipt[OF assms])
    fix e a r
    assume e: "row_of s x = Some e" and a: "attempt_of s x = Some a" and r: "receipt_ok x e a r c" "attempt_ok x a c"
    have "release_justified e (Some a)"
      using reachable_lifecycle[OF assms(1) e] call a by (auto simp: lifecycle_ok_def accounting_ok_def)
    moreover have "succeeded_attempt a" using r(1) by (simp add: receipt_ok_def)
    moreover have "transmitted a" using r(2) \<open>succeeded_attempt a\<close> by (auto simp: attempt_ok_def succeeded_attempt_def)
    ultimately show False by (simp add: release_justified_def failed_attempt_def succeeded_attempt_def)
  qed
qed

text \<open>
  C14: every delivery of a settlement for one execution names the same receipt and the same amount, the ones its stored
  receipt states; the amount is the one computed from the usage of its succeeded attempt and its frozen price, and
  exceeds neither the quote nor the authorization.\<close>

theorem settlement_identity_stable:
  assumes "reachable s c" and "SettleCall x i u b \<in> set c"
  shows "(\<forall>i' u' b'. SettleCall x i' u' b' \<in> set c \<longrightarrow> i' = i \<and> u' = u)
    \<and> (\<exists>e a r snapshot usage st. row_of s x = Some e \<and> attempt_of s x = Some a \<and> receipt_of s x = Some r
         \<and> rcp_receipt_id r = i \<and> rcp_settlement_units r = u \<and> pa_outcome a = ''succeeded''
         \<and> ex_pricing_snapshot e = Some snapshot \<and> pa_usage a = Some usage
         \<and> attempt_settlement snapshot a usage (ex_authorized_units e) = Some (Inr st) \<and> u = pst_budget_units st
         \<and> u \<le> snap_estimated_units snapshot \<and> u \<le> ex_authorized_units e)"
proof -
  show ?thesis
  proof (rule settled_receipt[OF assms])
    fix e a r
    assume e: "row_of s x = Some e" and a: "attempt_of s x = Some a" and r: "receipt_of s x = Some r" "rcp_receipt_id r = i"
      "rcp_settlement_units r = u" and ok: "receipt_ok x e a r c"
    have stable: "i' = i \<and> u' = u" if "SettleCall x i' u' b' \<in> set c" for i' u' b'
    proof (rule settled_receipt[OF assms(1) that])
      fix r' assume "receipt_of s x = Some r'" "rcp_receipt_id r' = i'" "rcp_settlement_units r' = u'"
      then show "i' = i \<and> u' = u" using r by simp
    qed
    obtain snapshot usage st where st: "ex_pricing_snapshot e = Some snapshot" "pa_usage a = Some usage"
      "attempt_settlement snapshot a usage (ex_authorized_units e) = Some (Inr st)" "rcp_settlement_units r = pst_budget_units st"
      using ok by (auto simp: receipt_ok_def receipt_priced_def)
    have "pa_outcome a = ''succeeded''" using ok by (simp add: receipt_ok_def succeeded_attempt_def)
    then have "row_of s x = Some e \<and> attempt_of s x = Some a \<and> receipt_of s x = Some r \<and> rcp_receipt_id r = i
      \<and> rcp_settlement_units r = u \<and> pa_outcome a = ''succeeded'' \<and> ex_pricing_snapshot e = Some snapshot \<and> pa_usage a = Some usage
      \<and> attempt_settlement snapshot a usage (ex_authorized_units e) = Some (Inr st) \<and> u = pst_budget_units st
      \<and> u \<le> snap_estimated_units snapshot \<and> u \<le> ex_authorized_units e"
      using e a r st settlement_charge_bound[OF st(3)] by simp
    with stable show ?thesis by blast
  qed
qed

text \<open>
  C13: a status that ends an execution is backed by what happened: one that succeeded has a settled receipt whose
  delivery was accepted, one that was released has an accepted release and no delivery, one that failed was never
  submitted, charged or given back.\<close>

theorem terminal_status_backed:
  assumes "reachable s c" and "row_of s x = Some e"
  shows "(ex_status e = ''succeeded'' \<longrightarrow>
       (\<exists>r. receipt_of s x = Some r \<and> rcp_settled_at r \<noteq> None
          \<and> SettleCall x (rcp_receipt_id r) (rcp_settlement_units r) True \<in> set c))
    \<and> (ex_status e = ''released'' \<longrightarrow> ReleaseCall x True \<in> set c \<and> (\<forall>i u b. SettleCall x i u b \<notin> set c))
    \<and> (ex_status e = ''failed'' \<longrightarrow> submissions x c = [] \<and> (\<forall>i u b. SettleCall x i u b \<notin> set c)
       \<and> (\<forall>b. ReleaseCall x b \<notin> set c))"
proof (intro conjI[of "_ \<longrightarrow> _"] impI)
  have ok: "lifecycle_ok x e (attempt_of s x) (receipt_of s x) (images_of s x) c" by (rule reachable_lifecycle[OF assms])
  note lifecycle = lifecycle_ok_def attempt_and_receipt_ok_def accounting_ok_def
  {
    assume "ex_status e = ''succeeded''"
    then obtain r a where "receipt_of s x = Some r" "rcp_settled_at r \<noteq> None" "receipt_ok x e a r c"
      using ok by (cases "attempt_of s x") (auto simp: lifecycle)
    then show "\<exists>r. receipt_of s x = Some r \<and> rcp_settled_at r \<noteq> None
          \<and> SettleCall x (rcp_receipt_id r) (rcp_settlement_units r) True \<in> set c"
      by (auto simp: receipt_ok_def)
  next
    assume "ex_status e = ''released''"
    then have "ReleaseCall x True \<in> set c" using ok by (simp add: lifecycle)
    moreover have "SettleCall x i u b \<notin> set c" for i u b
    proof
      assume "SettleCall x i u b \<in> set c"
      then show False
      proof (rule settled_receipt[OF assms(1)])
        fix e' a r
        assume a: "attempt_of s x = Some a" "receipt_ok x e' a r c" "attempt_ok x a c"
        have "release_justified e (Some a)" using ok a(1) \<open>ReleaseCall x True \<in> set c\<close> by (auto simp: lifecycle)
        then show False using a(2,3)
          by (auto simp: receipt_ok_def attempt_ok_def release_justified_def succeeded_attempt_def failed_attempt_def)
      qed
    qed
    ultimately show "ReleaseCall x True \<in> set c \<and> (\<forall>i u b. SettleCall x i u b \<notin> set c)" by blast
  next
    assume failed: "ex_status e = ''failed''"
    then have none: "attempt_of s x = None" using ok by (cases "attempt_of s x") (auto simp: lifecycle)
    have "ReleaseCall x b \<notin> set c" for b
      using ok none failed by (auto simp: lifecycle release_justified_def)
    then show "submissions x c = [] \<and> (\<forall>i u b. SettleCall x i u b \<notin> set c) \<and> (\<forall>b. ReleaseCall x b \<notin> set c)"
      using ok none by (auto simp: lifecycle)
  }
qed

section \<open>Steps\<close>

text \<open>
  C16: whatever later steps do, whichever of them crash and at whatever points: no call is undone; an execution keeps
  its authorization, input, target and price, and its row no longer changes once it succeeded, failed or was released; an
  attempt with a definite outcome no longer changes; a receipt only gains its delivery marks, each of them once.\<close>

theorem steps_take_nothing_back:
  assumes "reachable s c" and "worker_step\<^sup>*\<^sup>* (s, c) (s', c')"
  shows "prefix c c'
    \<and> (\<forall>e. row_of s x = Some e \<longrightarrow> (\<exists>e'. row_of s' x = Some e' \<and> same_authorization e e'
         \<and> (ex_status e \<in> {''succeeded'', ''failed'', ''released''} \<longrightarrow> e' = e)))
    \<and> (\<forall>a. attempt_of s x = Some a \<longrightarrow> (\<exists>a'. attempt_of s' x = Some a'
         \<and> pa_provider_attempt_id a' = pa_provider_attempt_id a
         \<and> (pa_completed_at a \<noteq> None \<and> pa_outcome a \<noteq> ''ambiguous'' \<longrightarrow> a' = a)))
    \<and> (\<forall>r. receipt_of s x = Some r \<longrightarrow> (\<exists>r'. receipt_of s' x = Some r' \<and> receipt_evolves r r'))"
proof -
  have "evolves s c s' c'" using worker.steps_grow[OF assms(2)] reachable_consistent[OF assms(1)] by simp
  then have calls: "prefix c c'" and row: "option_evolves row_evolves (row_of s x) (row_of s' x)"
    and attempt: "option_evolves attempt_evolves (attempt_of s x) (attempt_of s' x)"
    and receipt: "option_evolves receipt_evolves (receipt_of s x) (receipt_of s' x)"
    by (simp_all add: evolves_def evolves_at_def)
  show ?thesis
    using calls row attempt receipt unfolding option_evolves_def row_evolves_def attempt_evolves_def final_terminal_def
      completed_def
    by (intro conjI) blast+
qed

text \<open>
  C15: the loop over the status returns from every reachable state, whatever the outside answers, and when it returns an
  execution, that is the stored one in a terminal status; recovery returns as well, whatever an operator asks for.\<close>

theorem run_returns_terminal:
  assumes "reachable s c"
  shows "(\<exists>r w. run_with_clock env i (world_at s c n) = Some (r, w)
       \<and> (\<forall>e. r = Inr e \<longrightarrow> row_of (wd_store w) i = Some e
            \<and> ex_status e \<in> {''succeeded'', ''released'', ''failed'', ''reconciliation_required''}))
    \<and> recover env i now operator (world_at s c n) \<noteq> None"
proof
  have start: "consistent (wd_store (world_at s c n)) (wd_calls (world_at s c n))"
    using reachable_consistent[OF assms] by (simp add: world_at_def)
  show "\<exists>r w. run_with_clock env i (world_at s c n) = Some (r, w) \<and> (\<forall>e. r = Inr e \<longrightarrow> row_of (wd_store w) i = Some e
      \<and> ex_status e \<in> {''succeeded'', ''released'', ''failed'', ''reconciliation_required''})"
  proof (rule achievesD[OF run_achieves start TrueI])
    fix r w' new
    assume "run_with_clock env i (world_at s c n) = Some (r, w')"
      and "\<And>e. r = Inr e \<Longrightarrow> ended i e (wd_store w') (wd_calls w')"
    then show ?thesis unfolding ended_def terminal_def by blast
  qed
  show "recover env i now operator (world_at s c n) \<noteq> None"
    using safe_flow_world_at[OF safe_recover reachable_consistent[OF assms]] by (metis option.distinct(1))
qed

end
