(* ===== verification/Gongbu_Admission_Theorems.thy ===== *)
theory Gongbu_Admission_Theorems
  imports Gongbu_Reachable
begin

text \<open>
  What an admission binds: the row it makes, the authorization it is made under, and the row a repeated admission answers.
\<close>

section \<open>Cases of an admission\<close>

lemma validated_execution:
  assumes "validate_execution decode n = Inr snapshot"
  shows "decode (cep_pricing_snapshot n) = Some snapshot" and "validate_integrity snapshot = Inr ()"
    and "snap_estimated_units snapshot \<le> cep_authorized_units n"
    and "snap_provider snapshot = cep_provider n" and "snap_model snapshot = cep_model n" and "scope_derived n"
    and "eq_ignore_ascii_case (snap_currency snapshot) (cep_authorization_currency n)"
  using assms by (auto simp: validate_execution_def check_authorization_def res_simps split: if_splits)

lemma created:
  assumes "create_execution_with_authorization secret text decode new_id n a s = Inr (e, s')"
  obtains snapshot where "validate_execution decode n = Inr snapshot" and "authorization_matches n a"
    and "query_token (cep_hubu_token_reference n) s = Inr e \<and> s' = s
      \<or> query_token (cep_hubu_token_reference n) s = Inl RowNotFound \<and> admit new_id snapshot n (Some a) s = Inr (e, s')"
  using assms
  by (auto simp: create_execution_with_authorization_def create_execution_inner_def res_simps split: if_splits sum.splits)

lemma admitted:
  assumes "admit new_id snapshot n (Some a) s = Inr (e, s')" and t: "tables_ok s" and fresh: "row_of s new_id = None"
  obtains (taken) "operation_taken n s" and "query_key (cep_account_id n) (cep_operation_key n) s = Inr e" and "s' = s"
    and "row_of s (ex_execution_id e) = Some e"
  | (inserted) "\<not> operation_taken n s" and "e = admitted_row new_id snapshot n"
    and "\<not> hm_contains (st_authorizations s) new_id"
    and "\<forall>b \<in> set (hm_values (st_authorizations s)). has_spend_auth_token_id b \<noteq> has_spend_auth_token_id a"
    and "s' = (put_execution e s)\<lparr>st_authorizations := hm_insert new_id a (st_authorizations s)\<rparr>"
proof (cases "operation_taken n s")
  case True
  from True assms(1) obtain e1 where e1: "query_key (cep_account_id n) (cep_operation_key n) s = Inr e1"
    by (auto simp: admit_def insert_or_ignore_def res_simps)
  have row: "row_of s (ex_execution_id e1) = Some e1" by (rule query_key_row[OF t e1])
  then have "ex_execution_id e1 \<noteq> new_id" using fresh by auto
  then have "e = e1" and "s' = s" using assms(1) True e1 by (simp_all add: admit_def insert_or_ignore_def res_simps)
  then show thesis using taken[OF True] e1 row by simp
next
  case False
  have "\<not> hm_contains (st_executions s) new_id" using fresh by (simp add: row_of_def hm_contains_def)
  moreover have "ex_execution_id (admitted_row new_id snapshot n) = new_id" by (simp add: admitted_row_def)
  moreover have "st_authorizations (put_execution r s) = st_authorizations s" for r by (simp add: put_execution_def)
  ultimately show thesis using assms(1) False inserted
    by (auto simp: admit_def insert_or_ignore_def insert_authorization_def Let_def res_simps list_ex_iff split: if_splits)
qed

lemma find_append_new: "find P xs = None \<Longrightarrow> find P (xs @ [x]) = (if P x then Some x else None)"
  by (induction xs) (auto split: if_splits)

section \<open>Properties\<close>

text \<open>The row a token was admitted under is the one its look-up answers.\<close>

lemma query_token_row:
  assumes t: "tables_ok s" and "query_token tok s = Inr e"
  shows "row_of s (ex_execution_id e) = Some e"
    and "(\<exists>b. (ex_execution_id e, b) \<in> set (st_authorizations s) \<and> has_spend_auth_token_id b = tok)
      \<or> ex_hubu_token_reference e = tok"
proof -
  let ?legacy = "filter (\<lambda>e. ex_hubu_token_reference e = tok \<and> \<not> hm_contains (st_authorizations s) (ex_execution_id e))
    (hm_values (st_executions s))"
  have "\<exists>i. get_execution i s = Inr e \<and> ((\<exists>b. (i, b) \<in> set (st_authorizations s) \<and> has_spend_auth_token_id b = tok)
      \<or> (\<exists>e0 \<in> set (hm_values (st_executions s)). ex_execution_id e0 = i \<and> ex_hubu_token_reference e0 = tok))"
  proof (cases "find (\<lambda>(_, a). has_spend_auth_token_id a = tok) (st_authorizations s)")
    case None
    with assms(2) obtain e0 where e0: "?legacy = [e0]" "get_execution (ex_execution_id e0) s = Inr e"
      by (auto simp: query_token_def split: list.splits)
    then have "e0 \<in> set ?legacy" by (metis list.set_intros(1))
    with e0(2) show ?thesis by auto
  next
    case (Some p)
    obtain i b where p: "p = (i, b)" by (cases p)
    from Some have "p \<in> set (st_authorizations s)" "has_spend_auth_token_id b = tok"
      by (auto simp: find_Some_iff p in_set_conv_nth)
    with Some assms(2) show ?thesis by (auto simp: query_token_def p)
  qed
  then obtain i where "get_execution i s = Inr e"
    and found: "(\<exists>b. (i, b) \<in> set (st_authorizations s) \<and> has_spend_auth_token_id b = tok)
      \<or> (\<exists>e0 \<in> set (hm_values (st_executions s)). ex_execution_id e0 = i \<and> ex_hubu_token_reference e0 = tok)"
    by blast
  then have row: "row_of s i = Some e" by (simp add: get_execution_iff)
  then have id: "ex_execution_id e = i" by (rule row_id[OF t])
  with row show "row_of s (ex_execution_id e) = Some e" by simp
  have "e0 = e" if "e0 \<in> set (hm_values (st_executions s))" "ex_execution_id e0 = i" for e0
  proof -
    have "keyed_table ex_execution_id (st_executions s)" using t by (simp add: tables_ok_def)
    then have "row_of s (ex_execution_id e0) = Some e0" using that(1) by (simp add: keyed_values row_of_def)
    then show ?thesis using row that(2) by simp
  qed
  with found id show "(\<exists>b. (ex_execution_id e, b) \<in> set (st_authorizations s) \<and> has_spend_auth_token_id b = tok)
      \<or> ex_hubu_token_reference e = tok" by blast
qed

lemma query_key_operation:
  "query_key account key s = Inr e \<Longrightarrow> ex_account_id e = account \<and> ex_operation_key e = key"
  by (auto simp: query_key_def res_simps find_Some_iff)

text \<open>
  C17: an admission that is answered was asked for exactly what its authorization states: account, operation, token, amount,
  scope, and the currency up to the case of its letters, of an available authorization that names its agent, expiry and reason.
  It answers the stored execution of the token or of the operation and writes nothing, or makes
  one pending row under the new identifier, with the authorization stored beside it. That row holds the authorized account,
  operation, token, amount, currency and scope, the scope is the one derived from the row's own target and input, and the frozen
  price is the decoded one of the request: intact, of the same target and currency, its estimate covered by the amount.\<close>

theorem admission_binds_authorization:
  assumes "reachable s c" and "create_execution_with_authorization secret text decode new_id n a s = Inr (e, s')"
    and "row_of s new_id = None"
  shows "has_account_id a = cep_account_id n \<and> has_operation_key a = cep_operation_key n
    \<and> has_spend_auth_token_id a = cep_hubu_authorization_id n \<and> has_spend_auth_token_id a = cep_hubu_token_reference n
    \<and> has_amount_units a = cep_authorized_units n
    \<and> eq_ignore_ascii_case (has_currency a) (cep_authorization_currency n)
    \<and> cep_execution_scope n = Some (has_execution_scope a) \<and> has_authorization_status a = ''available''
    \<and> \<not> is_blank (has_agent_id a) \<and> \<not> is_blank (has_expires_at a) \<and> \<not> is_blank (has_reason a)
    \<and> (s' = s \<and> row_of s (ex_execution_id e) = Some e
         \<and> ((\<exists>b. (ex_execution_id e, b) \<in> set (st_authorizations s)
                \<and> has_spend_auth_token_id b = has_spend_auth_token_id a)
            \<or> ex_hubu_token_reference e = has_spend_auth_token_id a
            \<or> ex_account_id e = has_account_id a \<and> ex_operation_key e = has_operation_key a)
      \<or> ex_execution_id e = new_id \<and> row_of s' new_id = Some e \<and> ex_status e = ''pending''
         \<and> get_hubu_authorization_snapshot new_id s' = Inr a
         \<and> ex_account_id e = has_account_id a \<and> ex_operation_key e = has_operation_key a
         \<and> ex_hubu_authorization_id e = has_spend_auth_token_id a \<and> ex_hubu_token_reference e = has_spend_auth_token_id a
         \<and> ex_authorized_units e = has_amount_units a
         \<and> eq_ignore_ascii_case (has_currency a) (ex_authorization_currency e)
         \<and> ex_execution_scope e = Some (has_execution_scope a)
         \<and> for_execution (Some (es_schema_version (has_execution_scope a))) (ex_workload_type e) (ex_provider e)
              (ex_adapter e) (ex_model e) (text_member ''image_size'' (ex_normalized_input e)) = Some (has_execution_scope a)
         \<and> ex_normalized_input e = cep_normalized_input n \<and> ex_target e = cep_target n
         \<and> ex_workload_type e = cep_workload_type n \<and> ex_provider e = cep_provider n
         \<and> ex_adapter e = cep_adapter n \<and> ex_model e = cep_model n
         \<and> (\<exists>snapshot. decode (cep_pricing_snapshot n) = Some snapshot \<and> ex_pricing_snapshot e = Some snapshot
              \<and> validate_integrity snapshot = Inr ()
              \<and> snap_provider snapshot = ex_provider e \<and> snap_model snapshot = ex_model e
              \<and> eq_ignore_ascii_case (snap_currency snapshot) (ex_authorization_currency e)
              \<and> snap_estimated_units snapshot \<le> has_amount_units a)
         \<and> (\<forall>x. x \<noteq> new_id \<longrightarrow> row_of s' x = row_of s x))"
proof (rule created[OF assms(2)])
  fix snapshot
  note t = consistentD(1)[OF reachable_consistent[OF assms(1)]]
  assume v: "validate_execution decode n = Inr snapshot" and m: "authorization_matches n a"
    and found: "query_token (cep_hubu_token_reference n) s = Inr e \<and> s' = s
      \<or> query_token (cep_hubu_token_reference n) s = Inl RowNotFound \<and> admit new_id snapshot n (Some a) s = Inr (e, s')"
  note same = m[unfolded authorization_matches_def] and frozen = validated_execution[OF v]
  have tok: "cep_hubu_token_reference n = has_spend_auth_token_id a"
    and ids: "cep_hubu_authorization_id n = cep_hubu_token_reference n" using same by metis+
  from found consider (known) "query_token (cep_hubu_token_reference n) s = Inr e" "s' = s"
    | (admit) "admit new_id snapshot n (Some a) s = Inr (e, s')" by blast
  then show ?thesis
  proof cases
    case known
    show ?thesis using same known(2) query_token_row[OF t known(1), unfolded tok] by blast
  next
    case admit
    then show ?thesis
    proof (cases rule: admitted[OF admit t assms(3), case_names taken inserted])
      case taken
      then show ?thesis using same query_key_operation[OF taken(2)] by (simp add: ids)
    next
      case inserted
      have rows: "row_of s' x = (if x = new_id then Some e else row_of s x)" for x
        by (simp add: inserted put_execution_def row_of_def admitted_row_def)
      have "get_hubu_authorization_snapshot new_id s' = Inr a"
        by (simp add: inserted get_hubu_authorization_snapshot_def res_simps)
      then show ?thesis using same frozen rows unfolding inserted(2)
        by (simp add: admitted_row_def scope_derived_def ids)
    qed
  qed
qed

text \<open>
  C29: an admission may be repeated: after one that was answered, the same request under another new identifier answers
  the same row and writes nothing, unless a registered secret is found in the new identifier.\<close>

theorem admission_idempotent:
  assumes "reachable s c" and "create_execution_with_authorization secret text decode new_id n a s = Inr (e, s')"
    and "row_of s new_id = None" and "row_of s' again = None" and "admission_secrets secret text again n = Inr ()"
  shows "create_execution_with_authorization secret text decode again n a s' = Inr (e, s')"
proof (rule created[OF assms(2)])
  fix snapshot
  note t = consistentD(1)[OF reachable_consistent[OF assms(1)]]
  assume v: "validate_execution decode n = Inr snapshot" and m: "authorization_matches n a"
    and found: "query_token (cep_hubu_token_reference n) s = Inr e \<and> s' = s
      \<or> query_token (cep_hubu_token_reference n) s = Inl RowNotFound \<and> admit new_id snapshot n (Some a) s = Inr (e, s')"
  have token: "create_execution_with_authorization secret text decode again n a s' = Inr (e, s')"
    if "query_token (cep_hubu_token_reference n) s' = Inr e"
    using that v m assms(5) by (simp add: create_execution_with_authorization_def create_execution_inner_def res_simps)
  from found consider "query_token (cep_hubu_token_reference n) s = Inr e" "s' = s"
    | "query_token (cep_hubu_token_reference n) s = Inl RowNotFound" "admit new_id snapshot n (Some a) s = Inr (e, s')" by blast
  then show ?thesis
  proof cases
    case 1
    then show ?thesis using token by simp
  next
    case 2
    show ?thesis
    proof (cases rule: admitted[OF 2(2) t assms(3), case_names taken inserted])
      case taken
      then have "ex_execution_id e \<noteq> again" using assms(4) by auto
      then have "admit again snapshot n (Some a) s = Inr (e, s)"
        using taken by (simp add: admit_def insert_or_ignore_def res_simps)
      then show ?thesis using 2(1) v m assms(5) taken(3)
        by (simp add: create_execution_with_authorization_def create_execution_inner_def res_simps)
    next
      case inserted
      have reference: "cep_hubu_token_reference n = has_spend_auth_token_id a"
        using m by (auto simp: authorization_matches_def)
      have fresh: "map_of (st_authorizations s) new_id = None" using inserted(3) by (simp add: hm_contains_def hm_get_def)
      have "st_authorizations s' = st_authorizations s @ [(new_id, a)]"
        by (simp add: inserted hm_insert_def alist_update_new[OF fresh])
      moreover have "find (\<lambda>(_, b). has_spend_auth_token_id b = has_spend_auth_token_id a) (st_authorizations s) = None"
        using inserted(4) by (fastforce simp: find_None_iff hm_values_def)
      ultimately have "find (\<lambda>(_, b). has_spend_auth_token_id b = has_spend_auth_token_id a) (st_authorizations s')
          = Some (new_id, a)" by (simp add: find_append_new)
      moreover have "get_execution new_id s' = Inr e"
        by (simp add: get_execution_iff inserted(5) row_of_def put_execution_def) (simp add: inserted(2) admitted_row_def)
      ultimately show ?thesis by (intro token) (simp add: query_token_def reference)
    qed
  qed
qed

end
