(* ===== verification/Gongbu_Examples.thy ===== *)
theory Gongbu_Examples
  imports Gongbu_Theorems Gongbu_Admission_Theorems
begin

text \<open>
  Two worked executions: one whose provider delivers an image and that is charged for it, one whose provider refuses
  and whose authorization is given back; and the properties of the executor at them.
\<close>

section \<open>A worker\<close>

definition image_bytes :: "char list" where
  "image_bytes = ''png''"

definition delivered :: provider_success where
  "delivered =
     \<lparr>psu_billing_failure = None, psu_request_id = Some ''request'', psu_operation_id = None, psu_usage = quoted_usage,
      psu_actual_vendor_cost = Some \<lparr>ac_amount = 12, ac_scale = 3, ac_currency = ''USD''\<rparr>,
      psu_artifacts = [\<lparr>sa_media_type = ''image/png'', sa_bytes = image_bytes\<rparr>]\<rparr>"

definition worker_env :: environment where
  "worker_env =
     \<lparr>env_secrets = [], env_json_text = (\<lambda>_. ''{}''), env_evidence_rejected = (\<lambda>_ _. False),
      env_unix_millis = (\<lambda>_. Some 0), env_clock = (\<lambda>_. ''now''), env_new_id = (\<lambda>_. ''id''),
      env_hubu_preflight = (\<lambda>_. Inr ()), env_provider_preflight = (\<lambda>_. Inr ()), env_artifact_preflight = Inr (),
      env_claim = (\<lambda>_ _. Inr ''claim''), env_validate_claim = (\<lambda>_ _. Inr ()),
      env_settle = (\<lambda>_ _ _ _. Inr ''settlement''), env_release = (\<lambda>_ _. Inr ()),
      env_submit = (\<lambda>_ _ _. ([], Inr (SubmissionComplete delivered))),
      env_poll = (\<lambda>_ _ _ _. ([], Inl (Proven ''no operation''))),
      env_write_file = (\<lambda>_ _ _. True), env_read_file = (\<lambda>_ _. Some image_bytes),
      env_guess_format = (\<lambda>_. Some ''image/png''), env_dimensions = (\<lambda>_. Some (1, 1)), env_decodes = (\<lambda>_. True),
      env_sha256 = (\<lambda>_. replicate 64 CHR ''a''),
      env_limits = \<lparr>al_max_encoded_bytes = 100, al_max_decoded_bytes = 100, al_max_width = 10, al_max_height = 10,
        al_max_artifacts_per_execution = 2\<rparr>\<rparr>"

definition refusing_env :: environment where
  "refusing_env = worker_env\<lparr>env_submit := (\<lambda>_ _ _. ([], Inl (Proven ''refused'')))\<rparr>"

definition worker_snapshot :: pricing_snapshot where
  "worker_snapshot =
     \<lparr>snap_schema_version = 3, snap_provider = ''local-mock'', snap_model = ''m'', snap_catalog_version = ''v1'',
      snap_catalog_digest = ''sha256:'' @ replicate 64 CHR ''a'', snap_pricing_rule_id = ''r'', snap_selector = None,
      snap_output_dimensions = None, snap_components =
        [\<lparr>fpc_unit = Request, fpc_rate_numerator_minor = 3, fpc_rate_denominator = 2, fpc_quantity = 1\<rparr>],
      snap_exact_estimate_numerator = ''3'', snap_exact_estimate_denominator = ''2'', snap_estimated_units = 15000,
      snap_currency = ''USD''\<rparr>"

definition worker_scope :: execution_scope where
  "worker_scope = the (for_execution None ''image_generation'' ''local-mock'' ''fixture'' ''m'' None)"

definition worker_params :: create_execution_params where
  "worker_params =
     \<lparr>cep_account_id = ''account'', cep_operation_key = ''operation'', cep_hubu_authorization_id = ''tok'',
      cep_hubu_claim_id = None, cep_hubu_token_reference = ''tok'', cep_authorized_units = 15000,
      cep_authorization_currency = ''USD'', cep_normalized_input = JsonObject [], cep_input_hash = ''hash'',
      cep_input_schema_version = 1, cep_target = ''target'', cep_config_version = ''v1'',
      cep_workload_type = ''image_generation'', cep_provider = ''local-mock'', cep_adapter = ''fixture'', cep_model = ''m'',
      cep_provider_config_version = ''v1'', cep_provider_config_digest = ''sha256:'' @ replicate 64 CHR ''a'',
      cep_pricing_snapshot = JsonNull, cep_pricing_schema_version = 3, cep_execution_scope = Some worker_scope,
      cep_created_at = ''t0''\<rparr>"

definition worker_authorization :: hubu_authorization_snapshot where
  "worker_authorization =
     \<lparr>has_account_id = ''account'', has_agent_id = ''agent'', has_operation_key = ''operation'',
      has_decision_id = ''decision'', has_spend_auth_token_id = ''tok'', has_amount_units = 15000, has_currency = ''usd'',
      has_execution_scope = worker_scope, has_lease_profile = ''lease'', has_expires_at = ''later'',
      has_authorization_status = ''available'', has_task_id = None, has_reason = ''reason''\<rparr>"

definition worker_admission :: workflow_step where
  "worker_admission = Admission (\<lambda>_. Some worker_snapshot) ''x'' worker_params worker_authorization"

section \<open>Charged\<close>

definition claimed_steps :: "(environment \<times> workflow_step) list" where
  "claimed_steps =
     [(worker_env, worker_admission), (worker_env, Phase Preflight ''x'' ''t1''), (worker_env, Phase Claim ''x'' ''t2''),
      (worker_env, Phase ValidateClaim ''x'' ''t3'')]"

definition charged :: "repository \<times> outside_call list" where
  "charged = after_steps (claimed_steps @ [(worker_env, Phase Submit ''x'' ''t4''),
     (worker_env, Phase PersistArtifact ''x'' ''t5''), (worker_env, Phase SettleReceipt ''x'' ''t6'')])"

lemma charged_reachable: "reachable (fst charged) (snd charged)"
  unfolding charged_def using reachable_after_steps by (simp only: case_prod_beta)

lemma charged_computed:
  "map_prod (\<lambda>s. map_option ex_status (row_of s ''x'')) id charged
   = (Some ''succeeded'', [ClaimCall ''x'' True, ValidateClaimCall ''x'' True, SubmitCall ''x'' ''id'',
      WriteFileCall ''x'' ''executions/x/id.png'' True, SettleCall ''x'' ''receipt-x'' 12000 True])"
  by code_simp

lemma charged_facts:
  "snd charged = [ClaimCall ''x'' True, ValidateClaimCall ''x'' True, SubmitCall ''x'' ''id'',
     WriteFileCall ''x'' ''executions/x/id.png'' True, SettleCall ''x'' ''receipt-x'' 12000 True]"
  "map_option ex_status (row_of (fst charged) ''x'') = Some ''succeeded''"
  using arg_cong[OF charged_computed, of snd] arg_cong[OF charged_computed, of fst]
  by (simp_all only: snd_map_prod fst_map_prod snd_conv fst_conv id_apply)

lemma charged_row:
  obtains e where "row_of (fst charged) ''x'' = Some e" and "ex_status e = ''succeeded''"
  using charged_facts by (cases "row_of (fst charged) ''x''") auto

theorem provider_submitted_once_witness:
  "length (submissions ''x'' (snd charged)) \<le> 1 \<and> SubmitCall ''x'' ''id'' \<in> set (snd charged)
   \<and> (\<exists>a. attempt_of (fst charged) ''x'' = Some a \<and> pa_provider_attempt_id a = ''id'')"
proof -
  have "SubmitCall ''x'' ''id'' \<in> set (snd charged)" using charged_facts by simp
  with provider_submitted_once[OF charged_reachable, of "''x''" "''id''"] show ?thesis by blast
qed

theorem never_settled_and_released_witness: "ReleaseCall ''x'' True \<notin> set (snd charged)"
  by (rule never_settled_and_released[OF charged_reachable, of "''x''" "''receipt-x''" 12000 True]) (use charged_facts in simp)

theorem settlement_identity_stable_witness:
  "\<exists>e a r. row_of (fst charged) ''x'' = Some e \<and> attempt_of (fst charged) ''x'' = Some a
     \<and> receipt_of (fst charged) ''x'' = Some r \<and> rcp_receipt_id r = ''receipt-x'' \<and> rcp_settlement_units r = 12000
     \<and> 12000 \<le> ex_authorized_units e"
proof -
  have "SettleCall ''x'' ''receipt-x'' 12000 True \<in> set (snd charged)" using charged_facts by simp
  from settlement_identity_stable[OF charged_reachable this] show ?thesis by blast
qed

theorem terminal_status_backed_witness:
  "\<exists>r. receipt_of (fst charged) ''x'' = Some r \<and> rcp_settled_at r \<noteq> None"
proof -
  obtain e where "row_of (fst charged) ''x'' = Some e" "ex_status e = ''succeeded''" by (rule charged_row)
  with terminal_status_backed[OF charged_reachable this(1)] show ?thesis by blast
qed

theorem steps_take_nothing_back_witness:
  "\<exists>r w. step_flow refusing_env (Recovery ''x'' ''later'' None) (world_at (fst charged) (snd charged) 7) = Some (r, w)
     \<and> row_of (wd_store w) ''x'' = row_of (fst charged) ''x'' \<and> prefix (snd charged) (wd_calls w)"
proof -
  obtain r w where step: "step_flow refusing_env (Recovery ''x'' ''later'' None) (world_at (fst charged) (snd charged) 7) = Some (r, w)"
    by (rule safe_flow_world_at[OF safe_step_flow reachable_consistent[OF charged_reachable]])
  obtain e where e: "row_of (fst charged) ''x'' = Some e" "ex_status e = ''succeeded''" by (rule charged_row)
  have run: "worker_step\<^sup>*\<^sup>* (fst charged, snd charged) (wd_store w, wd_calls w)"
    using worker_step.intros[OF step insertI1] by (rule r_into_rtranclp)
  from steps_take_nothing_back[OF charged_reachable run, of "''x''"] step e show ?thesis by auto
qed

theorem run_returns_terminal_witness:
  "\<exists>r w. run_with_clock refusing_env ''x'' (world_at (fst charged) (snd charged) 3) = Some (r, w)"
  using run_returns_terminal[OF charged_reachable, of refusing_env "''x''" 3 "''now''" None] by blast

section \<open>Given back\<close>

definition given_back :: "repository \<times> outside_call list" where
  "given_back = after_steps (claimed_steps @ [(refusing_env, Run ''x'')])"

lemma given_back_facts:
  "map_prod (\<lambda>s. map_option ex_status (row_of s ''x'')) id given_back
   = (Some ''released'', [ClaimCall ''x'' True, ValidateClaimCall ''x'' True, SubmitCall ''x'' ''id'', ReleaseCall ''x'' True])"
  by code_simp

section \<open>Admission\<close>

definition worker_admits :: "string \<Rightarrow> repository \<Rightarrow> store_error + (execution \<times> repository)" where
  "worker_admits new_id =
     create_execution_with_authorization [] (\<lambda>_. ''{}'') (\<lambda>_. Some worker_snapshot) new_id worker_params worker_authorization"

lemma worker_admits_ok:
  "is_ok (worker_admits ''x'' empty_repository)"
  "(case worker_admits ''x'' empty_repository of Inl _ \<Rightarrow> False
    | Inr (e, s) \<Rightarrow> ex_status e = ''pending'' \<and> row_of s ''y'' = None)"
  "admission_secrets [] (\<lambda>_. ''{}'') ''y'' worker_params = Inr ()"
  by code_simp+

lemma empty_rows: "row_of empty_repository x = None"
  by (simp add: empty_repository_def row_of_def hm_eval)

lemma worker_admitted:
  obtains e s' where "worker_admits ''x'' empty_repository = Inr (e, s')" and "row_of s' ''y'' = None"
  using worker_admits_ok(2) by (auto split: sum.splits)

theorem admission_binds_authorization_witness:
  "\<exists>e s'. worker_admits ''x'' empty_repository = Inr (e, s') \<and> row_of s' ''x'' = Some e \<and> ex_authorized_units e = 15000"
proof -
  obtain e s' where new: "worker_admits ''x'' empty_repository = Inr (e, s')" by (rule worker_admitted)
  from admission_binds_authorization[OF reachable.started new[unfolded worker_admits_def] empty_rows]
  show ?thesis using new by (auto simp: empty_rows worker_authorization_def)
qed

theorem admission_idempotent_witness:
  "\<exists>e s'. worker_admits ''x'' empty_repository = Inr (e, s') \<and> worker_admits ''y'' s' = Inr (e, s')"
proof -
  obtain e s' where new: "worker_admits ''x'' empty_repository = Inr (e, s')" and fresh: "row_of s' ''y'' = None"
    by (rule worker_admitted)
  from admission_idempotent[OF reachable.started new[unfolded worker_admits_def] empty_rows fresh worker_admits_ok(3)]
  show ?thesis using new by (auto simp: worker_admits_def)
qed

end
