(* ===== verification/Spec2Isabelle.thy ===== *)
theory Spec2Isabelle
  imports Policy_Theorems Wallet_Theorems Execution_Scope Executor_Examples Gongbu_Examples
begin

text \<open>
  Hubu governs what software agents spend: an owner writes policies and budgets, an agent asks for a spend
  decision, an allowed decision carries a single-use token, and the token pays, either through the wallet
  or through an external executor that claims, settles or releases the spend. This library models the
  code that decides and accounts for money, and proves what it promises.

  \<^bold>\<open>The program's parts and the theories.\<close>

  \<^item> \<open>Hubu_Prelude\<close>, \<open>Hash_Map\<close>, \<open>Rust_Strings\<close>: the Rust constructs the code uses. A \<open>Result\<close> is a sum with
    the error on the left, composed by \<open>and_then\<close> as \<open>?\<close> composes it; \<open>try_fold\<close> and \<open>try_each\<close> are its loops.
    A \<open>HashMap\<close> is an association list with distinct keys; no property depends on its order. Checked
    integer arithmetic is arithmetic on \<open>int\<close> followed by the range test of the type (\<open>fits_i64\<close>, \<open>fits_i128\<close>).
    Strings are character lists of UTF-8 bytes; trimming removes the encoded white space of the standard library.
  \<^item> \<open>Money\<close>, \<open>Time_Period\<close>: \<^verbatim>\<open>crates/hubu-common/src/money.rs\<close>, \<^verbatim>\<open>time.rs\<close>. Amounts count 10 to the -6 of the
    major unit; the theorems give parse/print round trips and the rounding of exact money into amounts.
  \<^item> \<open>Execution_Scope\<close>: \<^verbatim>\<open>crates/hubu-common/src/execution_scope.rs\<close>, the resolution of an executor selector
    against the trusted catalog.
  \<^item> \<open>Policy\<close>, \<open>Policy_Theorems\<close>: \<^verbatim>\<open>crates/hubu-core/src/policy/\<close>. Conditions, rules, validation and the decision.
    The evaluator returns an option, whose \<open>None\<close> is a panic of the code; a validated policy never panics.
  \<^item> \<open>Budget_Model\<close> to \<open>Budget_Theorems\<close>: \<^verbatim>\<open>crates/hubu-core/src/budget/\<close>. \<open>Budget_State\<close> has the record
    \<open>budget_state\<close> of the in-memory manager and its operations, \<open>Budget_Invariant\<close> the accounting invariant, \<open>Budget_Operations\<close>,
    \<open>Budget_Creation\<close> and \<open>Budget_Hydration\<close> that operations, creation and loading from stored records keep it, and
    \<open>Budget_Machine\<close> the steps and the reachable states.
  \<^item> \<open>Spend_Request\<close>, \<open>Spend_Manager\<close>, \<open>Spend_Machine\<close>, \<open>Spend_Theorems\<close>: \<^verbatim>\<open>crates/hubu-core/src/spend/\<close>. Requests and
    their stored form, vendor costs, decisions, tokens and executor claims.
  \<^item> \<open>Ledger\<close> to \<open>Ledger_Theorems\<close>: \<^verbatim>\<open>crates/hubu-ledger/src/\<close>. The four tables are maps with the constraints of
    the schema (primary keys, unique source key and predecessor); a failed write leaves the tables as they
    were, since every writer runs inside one database transaction.
  \<^item> \<open>Wallet\<close> to \<open>Wallet_Theorems\<close>: \<^verbatim>\<open>crates/hubu-wallet/src/payment.rs\<close>, \<^verbatim>\<open>rail.rs\<close> and \<open>SharedSpendAuthorizer\<close> of
    \<^verbatim>\<open>crates/hubu-api/src/lib.rs\<close>, which ties payments to the tokens of the spend manager.
  \<^item> \<open>Governance\<close>, \<open>Governance_Admin\<close>: \<^verbatim>\<open>crates/hubu-core/src/persistence.rs\<close>, \<^verbatim>\<open>persistence/authorization_void.rs\<close>,
    \<^verbatim>\<open>persistence/accounting.rs\<close>. The repository: its tables are maps with the unique indexes and checks of the
    schema, its transactions return new tables or an error that leaves the old ones.
  \<^item> \<open>Executor_Claims\<close>: \<^verbatim>\<open>crates/hubu-core/src/app/executor_claim.rs\<close>, the service that composes the two in-memory
    managers with the repository. \<open>Executor_Invariant\<close> has the coherence of the three states and the links of a
    claim to its token, hold and receipt; \<open>Executor_Finalization\<close> and \<open>Executor_Machine\<close> show that every operation keeps
    them and simulates both managers; \<open>Executor_Theorems\<close> and \<open>Executor_Accounting\<close> have the theorems, and
    \<open>Executor_Examples\<close> a worked run on which each is applied.
  \<^item> \<open>Btree_Map\<close>, \<open>Gongbu_Rational\<close>, \<open>Gongbu_Pricing\<close>, \<open>Gongbu_Snapshot\<close>: \<^verbatim>\<open>crates/gongbu-api/src/provider/contract.rs\<close>, the
    pricing contract of the execution service: checked rationals, exact vendor costs, the operator's catalog, quotes frozen
    into snapshots, and the settlement of usage. \<open>Gongbu_Cost\<close>, \<open>Gongbu_Pricing_Theorems\<close> and \<open>Gongbu_Quotes\<close> have the theorems.
  \<^item> \<open>Gongbu_Provider\<close>, \<open>Gongbu_Store\<close>, \<open>Gongbu_Receipts\<close>, \<open>Gongbu_Admission\<close>: the rest of \<^verbatim>\<open>provider/contract.rs\<close>, then
    \<^verbatim>\<open>crates/gongbu-api/src/execution/mod.rs\<close> and \<^verbatim>\<open>execution_scope.rs\<close>. The record \<open>repository\<close> has the tables of
    executions, provider attempts, staged and stored artifacts, receipts, reconciliation records and authorizations; a write is a
    function of type \<open>db_write\<close> with the condition of its SQL statement and the constraints of the schema, and an error writes nothing.
  \<^item> \<open>Gongbu_World\<close>, \<open>Gongbu_Artifacts\<close>, \<open>Gongbu_Workflow\<close>, \<open>Gongbu_Settlement\<close>: \<^verbatim>\<open>workflow.rs\<close> and \<^verbatim>\<open>artifact/mod.rs\<close>. A phase is a
    \<open>flow\<close> over a \<open>world\<close>: the repository, the calls made to the governance service, the provider and the
    file system, and the trail of every durable point, any of which is the state a crash leaves. The traits of the code are
    the functions of an \<open>environment\<close>, which may answer anything, depending on all calls so far.
  \<^item> \<open>Gongbu_Lifecycle\<close> to \<open>Gongbu_Loop\<close>: the library under the executor's theorems. \<open>Gongbu_Lifecycle\<close> states what holds of an
    execution at every durable point (\<open>consistent\<close>) and what is never taken back (\<open>evolves\<close>); \<open>Gongbu_Tables\<close>,
    \<open>Gongbu_Row_Steps\<close>, \<open>Gongbu_Attempt_Steps\<close>, \<open>Gongbu_Receipt_Steps\<close> show that every write keeps both; \<open>Gongbu_Flow_Logic\<close> is a
    total-correctness logic for flows, in which \<open>Gongbu_Phases\<close>, \<open>Gongbu_Provider_Phases\<close>, \<open>Gongbu_Settlement_Phases\<close>,
    \<open>Gongbu_Recovery\<close> and \<open>Gongbu_Loop\<close> verify the phases, recovery and the loop. \<open>Gongbu_Reachable\<close> has the steps of
    a worker with their crashes and the reachable states, \<open>Gongbu_Theorems\<close> and \<open>Gongbu_Admission_Theorems\<close> the theorems, and
    \<open>Gongbu_Examples\<close> two worked executions on which each is applied.
  \<^item> \<open>Machines\<close>: the locales \<open>machine\<close> (a step relation with an invariant) and \<open>growing\<close> (steps that extend the state),
    interpreted by the budget, spend, ledger and executor machines and by the worker of the execution service, and \<open>simulation\<close>, by which the executor service
    refines the two managers; \<open>payment_authorizer\<close> in \<open>Wallet_Machine\<close> is the
    contract between the payment manager and its authorizer, interpreted by the spend manager.

  \<^bold>\<open>How the state corresponds.\<close> Each manager is a record with the fields of the Rust struct. Clocks and
  generated identifiers are arguments of the operations. An operation takes the state and returns the
  result with the new state, errors included. The step relations of the machines require of a generated
  identifier only that it is new; that UUIDs do not repeat is this assumption.

  \<^bold>\<open>Parameters.\<close> SHA-256, the printing of UUIDs, the parsing of JSON and the JSON text of evidence come from third-party crates
  and are arguments without hypotheses. The captures of the lifecycle journal inside the repository's transactions
  are arguments as well: any functions of the tables that answer an error or a new journal, on which no property has a hypothesis;
  where a journal's refusal decides the answer, the property states both cases. The payment rail is an argument, any function.
  So are, for the execution service, the clients of the governance service and of the provider, the file system, the image decoder,
  the clock, and the test whether the evidence of a reconciliation holds a registered secret.

  \<^bold>\<open>What the lemmas show.\<close> The invariants say which accounting holds in every reachable state; the functional
  theorems give every branch of an operation with its exact effect; the safety theorems say what can
  not happen later (a token paying twice, a closed hold changing, a correction forking, provider work sent twice, an
  authorization charged and given back). No definition
  uses fuel: the loops of the modelled code are over finite lists, except Euclid's algorithm, which is a total
  function with its termination proof, and the division by two and by five in \<open>strip_factor\<close>, a partial function into an option
  that is shown to return wherever it is called. The loop of the workflow is a partial function too; \<open>Gongbu_Loop\<close> shows that it
  returns from every reachable state, because every turn takes the status of the execution forward.

  \<^bold>\<open>Not modelled.\<close> SQL text and row decoding, HTTP, process control, terminal output and the
  third-party crates; the manifest lists every part. The locks around shared managers serialise the
  operations and are taken to be unpoisoned. Instants are unbounded, so the panic of the clock arithmetic after the year
  262142 is not represented. Of the execution service, the phases are taken one at a time: two workers that run
  phases of one execution at once are excluded, as the workflow engine excludes them. An admission carries no claim of its own.
\<close>

end
